(* ===== verification/Js_Prelude.thy ===== *)
theory Js_Prelude
  imports Complex_Main "HOL-Library.AList" "HOL-Library.Char_ord" "HOL-Library.Sublist"
begin

text \<open>
  What the TypeScript sources use of their language and standard library, written once:
  strings and their trimming and case folding, finite numbers, the insertion-ordered
  \<open>Map\<close> as a list of pairs, and the two interfaces several components share (an ordered
  map, and a deterministic machine with an invariant).

  Strings are lists of code units below 256 (\<open>string\<close>), so a literal of the source is the
  same literal here; code units above Latin-1 are outside the model. Instants and counts are
  \<open>int\<close> or \<open>nat\<close>; a parameter that the code rounds or tests for finiteness is a
  \<open>js_number\<close>.
\<close>

named_theorems js_simps "evaluation of the string and number primitives"

section \<open>Strings\<close>

text \<open>The white space of \<open>String.prototype.trim\<close> in the Latin-1 range: tab, line feed,
  vertical tab, form feed, carriage return, space and no-break space.\<close>

definition js_space :: "char \<Rightarrow> bool" where
  "js_space c \<longleftrightarrow> (of_char c :: nat) \<in> {9, 10, 11, 12, 13, 32, 160}"

definition js_trim :: "string \<Rightarrow> string" where
  "js_trim s = rev (dropWhile js_space (rev (dropWhile js_space s)))"

definition js_lower_char :: "char \<Rightarrow> char" where
  "js_lower_char c = (let n = of_char c :: nat in
     if (65 \<le> n \<and> n \<le> 90) \<or> (192 \<le> n \<and> n \<le> 222 \<and> n \<noteq> 215) then char_of (n + 32) else c)"

definition js_lower :: "string \<Rightarrow> string" where
  "js_lower s = map js_lower_char s"

definition js_starts_with :: "string \<Rightarrow> string \<Rightarrow> bool" where
  "js_starts_with s p \<longleftrightarrow> take (length p) s = p"

definition js_ends_with :: "string \<Rightarrow> string \<Rightarrow> bool" where
  "js_ends_with s p \<longleftrightarrow> js_starts_with (rev s) (rev p)"

fun js_includes :: "string \<Rightarrow> string \<Rightarrow> bool" where
  "js_includes [] p = (p = [])"
| "js_includes (c # s) p = (js_starts_with (c # s) p \<or> js_includes s p)"

text \<open>\<open>s.split(c)\<close> for a one-character separator: never the empty list.\<close>

fun js_split :: "char \<Rightarrow> string \<Rightarrow> string list" where
  "js_split d [] = [[]]"
| "js_split d (c # s) =
     (if c = d then [] # js_split d s
      else (case js_split d s of [] \<Rightarrow> [[c]] | w # ws \<Rightarrow> (c # w) # ws))"

fun js_join :: "string \<Rightarrow> string list \<Rightarrow> string" where
  "js_join d [] = []"
| "js_join d [w] = w"
| "js_join d (w # v # ws) = w @ d @ js_join d (v # ws)"

text \<open>\<open>indexOf\<close> and \<open>lastIndexOf\<close> of one character; \<open>None\<close> is the source's \<open>-1\<close>.\<close>

fun js_index_of :: "char \<Rightarrow> string \<Rightarrow> nat option" where
  "js_index_of d [] = None"
| "js_index_of d (c # s) = (if c = d then Some 0 else map_option Suc (js_index_of d s))"

definition js_last_index_of :: "char \<Rightarrow> string \<Rightarrow> nat option" where
  "js_last_index_of d s = map_option (\<lambda>i. length s - Suc i) (js_index_of d (rev s))"

text \<open>\<open>s.slice(a, b)\<close> for non-negative bounds, and \<open>s.slice(1, -1)\<close>.\<close>

definition js_slice :: "nat \<Rightarrow> nat \<Rightarrow> 'a list \<Rightarrow> 'a list" where
  "js_slice a b s = drop a (take b s)"

definition js_strip_ends :: "string \<Rightarrow> string" where
  "js_strip_ends s = tl (butlast s)"

text \<open>\<open>lastIndexOf\<close> of a string, and \<open>s.split(p).length - 1\<close> for a non-empty \<open>p\<close>.\<close>

definition js_last_index_of_str :: "string \<Rightarrow> string \<Rightarrow> nat option" where
  "js_last_index_of_str p s =
     (case filter (\<lambda>i. js_starts_with (drop i s) p) [0..<Suc (length s)] of
        [] \<Rightarrow> None | is \<Rightarrow> Some (last is))"

fun js_count_sub :: "string \<Rightarrow> string \<Rightarrow> nat" where
  "js_count_sub p [] = 0"
| "js_count_sub p (c # s) =
     (if js_starts_with (c # s) p then Suc (js_count_sub p (drop (length p - 1) s)) else js_count_sub p s)"

text \<open>\<open>parts.filter(Boolean)\<close> on strings.\<close>

definition js_nonempty :: "string list \<Rightarrow> string list" where
  "js_nonempty parts = filter (\<lambda>w. w \<noteq> []) parts"

text \<open>Numbers in template literals and \<open>toString(16)\<close>.\<close>

definition js_digit :: "nat \<Rightarrow> char" where
  "js_digit n = char_of (if n < 10 then 48 + n else 87 + n)"

fun js_radix :: "nat \<Rightarrow> nat \<Rightarrow> string" where
  "js_radix b n = (if n < b \<or> b < 2 then [js_digit n] else js_radix b (n div b) @ [js_digit (n mod b)])"

declare js_radix.simps [simp del]

definition nat_str :: "nat \<Rightarrow> string" where
  "nat_str n = js_radix 10 n"

definition js_is_digit :: "char \<Rightarrow> bool" where
  "js_is_digit c \<longleftrightarrow> 48 \<le> (of_char c :: nat) \<and> (of_char c :: nat) \<le> 57"

text \<open>\<open>Number.parseInt(s, 10)\<close> on a string that starts with digits.\<close>

definition js_parse_nat :: "string \<Rightarrow> nat" where
  "js_parse_nat s = foldl (\<lambda>n c. 10 * n + (of_char c - 48)) 0 (takeWhile js_is_digit s)"

text \<open>\<open>Array.from(new Set(xs))\<close>: first occurrences in order.\<close>

definition js_unique :: "'a list \<Rightarrow> 'a list" where
  "js_unique xs = rev (remdups (rev xs))"

lemma set_js_unique [simp]: "set (js_unique xs) = set xs"
  by (simp add: js_unique_def)

lemma distinct_js_unique [simp]: "distinct (js_unique xs)"
  by (simp add: js_unique_def)

text \<open>\<open>a || b\<close> on strings: the empty string is falsy.\<close>

definition js_or :: "string \<Rightarrow> string \<Rightarrow> string" where
  "js_or a b = (if a = [] then b else a)"

text \<open>An optional string is truthy when it is present and not empty.\<close>

definition js_truthy :: "string option \<Rightarrow> bool" where
  "js_truthy s = (case s of None \<Rightarrow> False | Some t \<Rightarrow> t \<noteq> [])"

definition js_nullish :: "'a option \<Rightarrow> 'a \<Rightarrow> 'a" where
  "js_nullish x d = (case x of None \<Rightarrow> d | Some v \<Rightarrow> v)"

lemma js_nullish_simps [simp]:
  "js_nullish None d = d"
  "js_nullish (Some v) d = v"
  by (simp_all add: js_nullish_def)

lemma js_or_simps [simp]:
  "js_or [] b = b"
  "a \<noteq> [] \<Longrightarrow> js_or a b = a"
  by (simp_all add: js_or_def)

lemma js_or_nonempty: "b \<noteq> [] \<Longrightarrow> js_or a b \<noteq> []"
  by (simp add: js_or_def)

text \<open>Dropping at both ends: what is left has clean ends, and is left alone the next time.\<close>

definition strip_both :: "('a \<Rightarrow> bool) \<Rightarrow> 'a list \<Rightarrow> 'a list" where
  "strip_both P s = rev (dropWhile P (rev (dropWhile P s)))"

lemma strip_both_last: "strip_both P s \<noteq> [] \<Longrightarrow> \<not> P (last (strip_both P s))"
  by (metis dropWhile_eq_Nil_conv hd_dropWhile strip_both_def last_rev rev_is_Nil_conv)

lemma strip_both_hd: "strip_both P s \<noteq> [] \<Longrightarrow> \<not> P (hd (strip_both P s))"
proof -
  assume ne: "strip_both P s \<noteq> []"
  let ?t = "dropWhile P s"
  let ?u = "dropWhile P (rev ?t)"
  have u: "?u \<noteq> []" using ne by (simp add: strip_both_def)
  have t: "?t \<noteq> []" using u by (metis dropWhile.simps(1) rev.simps(1))
  have "suffix ?u (rev ?t)" by (rule suffix_dropWhile)
  then obtain zs where zs: "rev ?t = zs @ ?u" by (auto simp: suffix_def)
  then have "last (rev ?t) = last ?u" using u by (metis last_appendR)
  then have "hd ?t = hd (rev ?u)" using t u by (simp add: last_rev hd_rev)
  with t show ?thesis by (metis hd_dropWhile strip_both_def)
qed

lemma strip_both_clean: "s = [] \<or> \<not> P (hd s) \<and> \<not> P (last s) \<Longrightarrow> strip_both P s = s"
proof -
  assume c: "s = [] \<or> \<not> P (hd s) \<and> \<not> P (last s)"
  then have 1: "dropWhile P s = s" by (cases s) auto
  have "dropWhile P (rev s) = rev s" using c by (cases s rule: rev_cases) auto
  with 1 show ?thesis by (simp add: strip_both_def)
qed

lemma strip_both_idem [simp]: "strip_both P (strip_both P s) = strip_both P s"
  by (rule strip_both_clean) (auto dest: strip_both_hd strip_both_last)

lemma set_strip_both: "set (strip_both P s) \<subseteq> set s"
  by (metis (no_types) set_dropWhileD set_rev strip_both_def subsetI)

lemma length_strip_both: "length (strip_both P s) \<le> length s"
  unfolding strip_both_def by (metis length_dropWhile_le length_rev le_trans)

lemma js_trim_strip: "js_trim = strip_both js_space"
  by (simp add: fun_eq_iff js_trim_def strip_both_def)

text \<open>Trimming is idempotent, and leaves no white space at either end.\<close>

lemma js_trim_hd: "js_trim s \<noteq> [] \<Longrightarrow> \<not> js_space (hd (js_trim s))"
  by (simp add: js_trim_strip strip_both_hd)

lemma js_trim_last: "js_trim s \<noteq> [] \<Longrightarrow> \<not> js_space (last (js_trim s))"
  by (simp add: js_trim_strip strip_both_last)

lemma js_trim_idem [simp]: "js_trim (js_trim s) = js_trim s"
  by (simp add: js_trim_strip)

lemma js_trim_clean: "s = [] \<or> \<not> js_space (hd s) \<and> \<not> js_space (last s) \<Longrightarrow> js_trim s = s"
  unfolding js_trim_strip by (rule strip_both_clean)

lemma js_trim_Nil [simp]: "js_trim [] = []"
  by (simp add: js_trim_def)

text \<open>Case folding.\<close>

lemma js_lower_char_idem [simp]: "js_lower_char (js_lower_char c) = js_lower_char c"
  by (simp add: js_lower_char_def Let_def)

lemma js_lower_idem [simp]: "js_lower (js_lower s) = js_lower s"
  by (simp add: js_lower_def)

lemma js_lower_append [simp]: "js_lower (a @ b) = js_lower a @ js_lower b"
  by (simp add: js_lower_def)

lemma js_lower_Cons: "js_lower (c # s) = js_lower_char c # js_lower s"
  by (simp add: js_lower_def)

lemma js_lower_Nil [simp]: "js_lower [] = []"
  by (simp add: js_lower_def)

lemma length_js_lower [simp]: "length (js_lower s) = length s"
  by (simp add: js_lower_def)

lemma js_lower_eq_Nil [simp]: "js_lower s = [] \<longleftrightarrow> s = []"
  by (simp add: js_lower_def)

lemma js_space_lower [simp]: "js_space (js_lower_char c) = js_space c"
  by (auto simp: js_space_def js_lower_char_def Let_def)

lemma js_trim_lower: "js_trim (js_lower s) = js_lower (js_trim s)"
  by (simp add: js_trim_def js_lower_def dropWhile_map rev_map o_def)

lemma js_starts_with_iff_prefix: "js_starts_with s p \<longleftrightarrow> prefix p s"
  by (auto simp: js_starts_with_def prefix_def) (metis append_take_drop_id)

lemma js_starts_with_Nil [simp]: "js_starts_with s []"
  by (simp add: js_starts_with_def)

lemma js_starts_with_append [simp]: "js_starts_with (p @ s) p"
  by (simp add: js_starts_with_def)

lemma js_split_nonempty [simp]: "js_split d s \<noteq> []"
  by (induction s) (auto split: list.splits)

lemma js_join_split: "js_join [d] (js_split d s) = s"
proof (induction s)
  case Nil
  then show ?case by simp
next
  case (Cons c s)
  then show ?case
    by (cases "js_split d s"; cases "tl (js_split d s)") (auto)
qed

lemma js_split_free: "w \<in> set (js_split d s) \<Longrightarrow> d \<notin> set w"
  by (induction s arbitrary: w) (auto split: list.splits if_splits)

lemma js_split_absent: "d \<notin> set s \<Longrightarrow> js_split d s = [s]"
  by (induction s) auto

lemma js_split_append: "d \<notin> set w \<Longrightarrow> js_split d (w @ d # s) = w # js_split d s"
  by (induction w) auto

text \<open>Fields without the separator can be told apart again.\<close>

lemma field_unique:
  "d \<notin> set a \<Longrightarrow> d \<notin> set b \<Longrightarrow> a @ d # x = b @ d # y \<Longrightarrow> a = b \<and> x = y"
  by (induction a arbitrary: b) (auto simp: Cons_eq_append_conv)

lemma js_split_join: "ws \<noteq> [] \<Longrightarrow> \<forall>w\<in>set ws. d \<notin> set w \<Longrightarrow> js_split d (js_join [d] ws) = ws"
proof (induction "[d]" ws rule: js_join.induct)
  case (2 w)
  then show ?case by (simp add: js_split_absent)
next
  case (3 w v ws)
  then show ?case by (simp add: js_split_append)
qed simp

lemma js_join_inject:
  "js_join [d] ws = js_join [d] vs \<Longrightarrow> ws \<noteq> [] \<Longrightarrow> vs \<noteq> [] \<Longrightarrow>
     \<forall>w\<in>set ws. d \<notin> set w \<Longrightarrow> \<forall>w\<in>set vs. d \<notin> set w \<Longrightarrow> ws = vs"
  by (metis js_split_join)

lemma set_js_join: "set (js_join d ws) \<subseteq> set d \<union> (\<Union>w\<in>set ws. set w)"
  by (induction d ws rule: js_join.induct) auto

lemma js_join_nonempty: "ws \<noteq> [] \<Longrightarrow> hd ws \<noteq> [] \<Longrightarrow> js_join d ws \<noteq> []"
  by (cases ws; cases "tl ws") auto

lemma js_nonempty_split_Nil: "js_nonempty (js_split d s) = [] \<longleftrightarrow> set s \<subseteq> {d}"
  by (induction s) (auto simp: js_nonempty_def split: list.splits)

section \<open>Numbers\<close>

text \<open>A value of type \<open>number\<close> where the code distinguishes the non-finite ones.\<close>

datatype js_number = Fin rat | PosInf | NegInf | NaN

fun js_is_finite :: "js_number \<Rightarrow> bool" where
  "js_is_finite (Fin _) = True"
| "js_is_finite _ = False"

text \<open>\<open>Math.trunc\<close> and \<open>Math.round\<close> (half up) on finite values.\<close>

definition js_trunc :: "rat \<Rightarrow> int" where
  "js_trunc x = (if x < 0 then \<lceil>x\<rceil> else \<lfloor>x\<rfloor>)"

definition js_round :: "rat \<Rightarrow> int" where
  "js_round x = \<lfloor>x + 1 / 2\<rfloor>"

lemma js_trunc_of_int [simp]: "js_trunc (of_int i) = i"
  by (simp add: js_trunc_def)

lemma js_round_of_int [simp]: "js_round (of_int i) = i"
  by (simp add: js_round_def floor_eq_iff)

section \<open>Sorting with a comparator\<close>

text \<open>\<open>toSorted(compare)\<close>: stable. The comparator returns a number whose sign decides, and
  an element goes behind those it does not precede.\<close>

fun js_insert :: "('a \<Rightarrow> 'a \<Rightarrow> int) \<Rightarrow> 'a \<Rightarrow> 'a list \<Rightarrow> 'a list" where
  "js_insert cmp x [] = [x]"
| "js_insert cmp x (y # ys) = (if cmp x y < 0 then x # y # ys else y # js_insert cmp x ys)"

definition js_sort :: "('a \<Rightarrow> 'a \<Rightarrow> int) \<Rightarrow> 'a list \<Rightarrow> 'a list" where
  "js_sort cmp xs = foldl (\<lambda>ys x. js_insert cmp x ys) [] xs"

text \<open>What the specification of the language asks of a comparator.\<close>

definition consistent_cmp :: "('a \<Rightarrow> 'a \<Rightarrow> int) \<Rightarrow> bool" where
  "consistent_cmp cmp \<longleftrightarrow> (\<forall>x y. (cmp x y < 0) = (0 < cmp y x)) \<and>
     (\<forall>x y z. cmp x y \<le> 0 \<longrightarrow> cmp y z \<le> 0 \<longrightarrow> cmp x z \<le> 0)"

lemma set_js_insert [simp]: "set (js_insert cmp x ys) = insert x (set ys)"
  by (induction ys) auto

lemma length_js_insert [simp]: "length (js_insert cmp x ys) = Suc (length ys)"
  by (induction ys) auto

lemma set_js_sort [simp]: "set (js_sort cmp xs) = set xs"
  unfolding js_sort_def by (induction xs rule: rev_induct) auto

lemma length_js_sort [simp]: "length (js_sort cmp xs) = length xs"
  unfolding js_sort_def by (induction xs rule: rev_induct) auto

lemma js_sort_Nil [simp]: "js_sort cmp [] = []"
  by (simp add: js_sort_def)

lemma distinct_js_insert: "distinct (x # ys) \<Longrightarrow> distinct (js_insert cmp x ys)"
  by (induction ys) auto

lemma distinct_js_sort [simp]: "distinct xs \<Longrightarrow> distinct (js_sort cmp xs)"
proof (induction xs rule: rev_induct)
  case (snoc x xs)
  then show ?case using set_js_sort [of cmp xs]
    by (simp add: js_sort_def distinct_js_insert)
qed simp

lemma sorted_js_insert:
  "consistent_cmp cmp \<Longrightarrow> sorted_wrt (\<lambda>a b. cmp a b \<le> 0) ys \<Longrightarrow> sorted_wrt (\<lambda>a b. cmp a b \<le> 0) (js_insert cmp x ys)"
proof (induction ys)
  case (Cons y ys)
  note c = Cons.prems(1) [unfolded consistent_cmp_def]
  show ?case
  proof (cases "cmp x y < 0")
    case True
    then have "\<forall>z\<in>set ys. cmp x z \<le> 0" using c Cons.prems(2) by (meson less_imp_le sorted_wrt.simps(2))
    with True Cons.prems(2) show ?thesis by simp
  next
    case False
    then have "cmp y x \<le> 0" using c by (meson not_less)
    with False Cons show ?thesis by simp
  qed
qed simp

lemma sorted_js_sort: "consistent_cmp cmp \<Longrightarrow> sorted_wrt (\<lambda>a b. cmp a b \<le> 0) (js_sort cmp xs)"
  unfolding js_sort_def by (induction xs rule: rev_induct) (auto intro: sorted_js_insert)

section \<open>Insertion-ordered maps\<close>

text \<open>
  A JavaScript \<open>Map\<close> (or plain object used as a table) is a list of pairs with distinct
  keys in insertion order: \<open>get\<close> is \<open>map_of\<close>, \<open>set\<close> overwrites in place or
  appends, \<open>delete\<close> removes, and iteration follows the list.
\<close>

type_synonym ('k, 'v) js_map = "('k \<times> 'v) list"

definition map_get :: "('k, 'v) js_map \<Rightarrow> 'k \<Rightarrow> 'v option" where
  "map_get m k = map_of m k"

definition map_put :: "'k \<Rightarrow> 'v \<Rightarrow> ('k, 'v) js_map \<Rightarrow> ('k, 'v) js_map" where
  "map_put k v m = AList.update k v m"

definition map_del :: "'k \<Rightarrow> ('k, 'v) js_map \<Rightarrow> ('k, 'v) js_map" where
  "map_del k m = filter (\<lambda>p. fst p \<noteq> k) m"

definition map_keys :: "('k, 'v) js_map \<Rightarrow> 'k list" where
  "map_keys m = map fst m"

definition map_ok :: "('k, 'v) js_map \<Rightarrow> bool" where
  "map_ok m \<longleftrightarrow> distinct (map fst m)"

text \<open>Deleting while iterating, as the pruning loops do: keep the entries that pass.\<close>

definition map_retain :: "('k \<Rightarrow> 'v \<Rightarrow> bool) \<Rightarrow> ('k, 'v) js_map \<Rightarrow> ('k, 'v) js_map" where
  "map_retain P m = filter (\<lambda>p. P (fst p) (snd p)) m"

text \<open>The contract an ordered map keeps: read over write, and the order of its keys.\<close>

locale ordered_map =
  fixes get :: "'m \<Rightarrow> 'k \<Rightarrow> 'v option"
    and put :: "'k \<Rightarrow> 'v \<Rightarrow> 'm \<Rightarrow> 'm"
    and del :: "'k \<Rightarrow> 'm \<Rightarrow> 'm"
    and keys :: "'m \<Rightarrow> 'k list"
    and ok :: "'m \<Rightarrow> bool"
  assumes get_put: "get (put k v m) k' = (if k' = k then Some v else get m k')"
    and get_del: "get (del k m) k' = (if k' = k then None else get m k')"
    and keys_put: "keys (put k v m) = (if k \<in> set (keys m) then keys m else keys m @ [k])"
    and keys_del: "keys (del k m) = filter (\<lambda>j. j \<noteq> k) (keys m)"
    and get_keys: "k \<in> set (keys m) \<longleftrightarrow> get m k \<noteq> None"
    and ok_distinct: "ok m \<longleftrightarrow> distinct (keys m)"
begin

lemma ok_put: "ok m \<Longrightarrow> ok (put k v m)"
  by (auto simp: ok_distinct keys_put)

lemma ok_del: "ok m \<Longrightarrow> ok (del k m)"
  by (simp add: ok_distinct keys_del)

text \<open>Deleting and re-inserting a key moves it to the end of the iteration order, which is
  how the caches of the program keep their entries in order of use.\<close>

lemma touch_keys: "keys (put k v (del k m)) = filter (\<lambda>j. j \<noteq> k) (keys m) @ [k]"
  by (simp add: keys_put keys_del)

lemma touch_get: "get (put k v (del k m)) k' = (if k' = k then Some v else get m k')"
  by (simp add: get_put get_del)

lemma touch_ok: "ok m \<Longrightarrow> ok (put k v (del k m))"
  by (intro ok_put ok_del)

lemma size_put: "length (keys (put k v m)) \<le> Suc (length (keys m))"
  by (simp add: keys_put)

lemma size_touch: "length (keys (put k v (del k m))) \<le> Suc (length (keys m))"
  by (simp add: touch_keys)

lemma size_del: "length (keys (del k m)) \<le> length (keys m)"
  by (simp add: keys_del)

end

lemma map_of_retain_neq: "map_of (filter (\<lambda>p. fst p \<noteq> k) m) k' = (if k' = k then None else map_of m k')"
  by (induction m) auto

interpretation jm: ordered_map map_get map_put map_del map_keys map_ok
proof unfold_locales
  fix k k' :: 'a and v :: 'b and m :: "('a, 'b) js_map"
  show "map_get (map_put k v m) k' = (if k' = k then Some v else map_get m k')"
    by (simp add: map_get_def map_put_def update_conv)
  show "map_get (map_del k m) k' = (if k' = k then None else map_get m k')"
    by (simp add: map_get_def map_del_def map_of_retain_neq)
  show "map_keys (map_put k v m) = (if k \<in> set (map_keys m) then map_keys m else map_keys m @ [k])"
    by (simp add: map_keys_def map_put_def update_keys)
  show "map_keys (map_del k m) = filter (\<lambda>j. j \<noteq> k) (map_keys m)"
    by (simp add: map_keys_def map_del_def filter_map o_def)
  show "k \<in> set (map_keys m) \<longleftrightarrow> map_get m k \<noteq> None"
    by (simp add: map_keys_def map_get_def map_of_eq_None_iff)
  show "map_ok m \<longleftrightarrow> distinct (map_keys m)"
    by (simp add: map_ok_def map_keys_def)
qed

lemmas map_simps = jm.get_put jm.get_del jm.keys_put jm.keys_del

lemma map_get_Nil [simp]: "map_get [] k = None"
  by (simp add: map_get_def)

lemma map_get_Cons [simp]: "map_get (p # m) k = (if k = fst p then Some (snd p) else map_get m k)"
  by (cases p) (simp add: map_get_def)

lemma map_put_Nil [simp]: "map_put k v [] = [(k, v)]"
  by (simp add: map_put_def)

lemma map_put_Cons [simp]:
  "map_put k v (p # m) = (if fst p = k then (k, v) # m else p # map_put k v m)"
  by (simp add: map_put_def)

lemma map_del_Nil [simp]: "map_del k [] = []"
  by (simp add: map_del_def)

lemma map_del_Cons [simp]: "map_del k (p # m) = (if fst p = k then map_del k m else p # map_del k m)"
  by (simp add: map_del_def)

lemma map_get_in_set: "map_get m k = Some v \<Longrightarrow> (k, v) \<in> set m"
  by (simp add: map_get_def map_of_SomeD)

lemma map_get_of_mem: "map_ok m \<Longrightarrow> (k, v) \<in> set m \<Longrightarrow> map_get m k = Some v"
  by (simp add: map_ok_def map_get_def)

lemma map_get_iff: "map_ok m \<Longrightarrow> map_get m k = Some v \<longleftrightarrow> (k, v) \<in> set m"
  using map_get_in_set map_get_of_mem by metis

lemma set_map_put_subset: "set (map_put k v m) \<subseteq> insert (k, v) (set m)"
  by (induction m) auto

lemma set_map_del: "set (map_del k m) = {p \<in> set m. fst p \<noteq> k}"
  by (auto simp: map_del_def)

lemma set_map_put: "map_ok m \<Longrightarrow> set (map_put k v m) = insert (k, v) {p \<in> set m. fst p \<noteq> k}"
proof (induction m)
  case (Cons p m)
  then have "map_ok m" and "\<And>b. (fst p, b) \<notin> set m"
    by (auto simp: map_ok_def image_iff)
  with Cons.IH show ?case by (cases "fst p = k") auto
qed simp

lemma length_map_put: "length (map_put k v m) = (if map_get m k = None then Suc (length m) else length m)"
  by (induction m) auto

lemma map_ok_put [simp]: "map_ok m \<Longrightarrow> map_ok (map_put k v m)"
  by (rule jm.ok_put)

lemma map_ok_del [simp]: "map_ok m \<Longrightarrow> map_ok (map_del k m)"
  by (rule jm.ok_del)

lemma map_ok_Nil [simp]: "map_ok []"
  by (simp add: map_ok_def)

lemma map_ok_retain [simp]: "map_ok m \<Longrightarrow> map_ok (map_retain P m)"
  by (induction m) (auto simp: map_ok_def map_retain_def)

lemma map_get_retain:
  "map_ok m \<Longrightarrow> map_get (map_retain P m) k =
     (case map_get m k of None \<Rightarrow> None | Some v \<Rightarrow> if P k v then Some v else None)"
proof (induction m)
  case (Cons p m)
  then show ?case
    by (cases p) (auto simp: map_retain_def map_ok_def map_get_def map_of_eq_None_iff split: option.splits
        dest: map_of_SomeD)
qed (simp add: map_retain_def)

lemma map_retain_idem [simp]: "map_retain P (map_retain P m) = map_retain P m"
  by (simp add: map_retain_def)

section \<open>Deterministic machines with an invariant\<close>

text \<open>
  A component with state is a step function over its events. Whatever every step keeps holds
  after any run; a second, stronger predicate may rely on the first.
\<close>

locale invariant_machine =
  fixes step :: "'s \<Rightarrow> 'e \<Rightarrow> 's" and inv :: "'s \<Rightarrow> bool"
  assumes step_inv: "inv s \<Longrightarrow> inv (step s e)"
begin

lemma run_inv: "inv s \<Longrightarrow> inv (foldl step s es)"
  by (induction es arbitrary: s) (auto intro: step_inv)

text \<open>A relation that every step respects from invariant states is respected by runs.\<close>

lemma run_rel:
  assumes "inv s" and "\<And>s. R s s" and "\<And>s t u. R s t \<Longrightarrow> R t u \<Longrightarrow> R s u"
    and "\<And>s e. inv s \<Longrightarrow> R s (step s e)"
  shows "R s (foldl step s es)"
  using assms(1)
proof (induction es arbitrary: s)
  case Nil
  then show ?case using assms(2) by simp
next
  case (Cons e es)
  then have "R (step s e) (foldl step (step s e) es)" by (simp add: step_inv)
  moreover have "R s (step s e)" using Cons.prems assms(4) by blast
  ultimately show ?case using assms(3) by fastforce
qed

end

section \<open>Entries that expire\<close>

text \<open>
  Several stores drop the entries that are no longer live at the current instant. Once an
  entry is dead it stays dead, so pruning at an earlier instant never changes what a later
  pruning leaves.
\<close>

locale expiring =
  fixes live :: "int \<Rightarrow> 'v \<Rightarrow> bool"
  assumes live_antimono: "t \<le> t' \<Longrightarrow> live t' v \<Longrightarrow> live t v"
begin

lemma prune_prune:
  "t \<le> t' \<Longrightarrow> map_retain (\<lambda>_. live t') (map_retain (\<lambda>_. live t) m) = map_retain (\<lambda>_. live t') m"
  unfolding map_retain_def filter_filter by (rule filter_cong) (auto dest: live_antimono)

lemma prune_get:
  "map_ok m \<Longrightarrow> map_get (map_retain (\<lambda>_. live t) m) k = Some v \<longleftrightarrow> map_get m k = Some v \<and> live t v"
  by (auto simp: map_get_retain split: option.splits)

lemma prune_only_live: "(k, v) \<in> set (map_retain (\<lambda>_. live t) m) \<Longrightarrow> live t v"
  by (auto simp: map_retain_def)

end

end
