(* ===== verification/Command_Queue.thy ===== *)
theory Command_Queue
  imports Js_Prelude "HOL-Library.Multiset"
begin

text \<open>
  The in-process command queue of \<^verbatim>\<open>src/src/process/command-queue.ts\<close>: named lanes with a
  concurrency limit, a global task counter, lane generations that make stale completions
  harmless, and the waiters of \<open>waitForActiveTasks\<close>.

  The module state is \<open>command_queue_state\<close>. A promise the code hands out is a ticket
  (a number the caller chooses); resolving or rejecting it is an entry of \<open>cq_log\<close>, which
  also records the diagnostics. The asynchronous closure of a started task is an entry of
  \<open>cq_running\<close>: it captured the lane, the task id, the generation and the queue entry. The
  event loop runs one event at a time, so a step is one event: a call of an exported
  function, the settling of a started task, or a timer. The task's own synchronous prefix is
  outside the model.
\<close>

section \<open>State\<close>

datatype queue_error = CommandLaneClearedError string | GatewayDrainingError | TaskError string

datatype task_result = TaskResolved | TaskRejected string
  \<comment> \<open>the name of the rejection value's error class\<close>

datatype queue_output =
    LaneEnqueue string nat            \<comment> \<open>lane, ticket\<close>
  | LaneDequeue string nat int        \<comment> \<open>lane, ticket, waited\<close>
  | OnWait nat int nat                \<comment> \<open>ticket, waited, queued behind\<close>
  | LaneWaitExceeded string int nat
  | DrainBlocked string nat
  | LaneTaskDone string
  | LaneTaskError string
  | LaneTaskInterrupted string
  | Resolved nat
  | Rejected nat queue_error
  | WaiterResolved nat bool

record queue_entry =
  qe_ticket :: nat
  qe_enqueuedAt :: int
  qe_warnAfterMs :: int
  qe_onWait :: bool

record lane_state =
  ls_lane :: string
  ls_queue :: "queue_entry list"
  ls_activeTaskIds :: "nat list"
  ls_maxConcurrent :: int
  ls_draining :: bool
  ls_generation :: nat

record active_task_waiter =
  aw_id :: nat
  aw_activeTaskIds :: "nat list"

record running_task =
  rt_taskId :: nat
  rt_lane :: string
  rt_generation :: nat
  rt_ticket :: nat

record command_queue_state =
  cq_gatewayDraining :: bool
  cq_lanes :: "(string, lane_state) js_map"
  cq_activeTaskWaiters :: "active_task_waiter list"
  cq_nextTaskId :: nat
  cq_running :: "running_task list"
  cq_log :: "queue_output list"

definition getQueueState_init :: command_queue_state where
  "getQueueState_init = \<lparr>cq_gatewayDraining = False, cq_lanes = [], cq_activeTaskWaiters = [],
     cq_nextTaskId = 1, cq_running = [], cq_log = []\<rparr>"

definition CommandLane_Main :: string where
  "CommandLane_Main = ''main''"

section \<open>Lane primitives\<close>

definition normalizeLane :: "string \<Rightarrow> string" where
  "normalizeLane lane = js_or (js_trim lane) CommandLane_Main"

definition getLaneDepth :: "lane_state \<Rightarrow> nat" where
  "getLaneDepth st = length (ls_queue st) + length (ls_activeTaskIds st)"

definition fresh_lane :: "string \<Rightarrow> lane_state" where
  "fresh_lane lane = \<lparr>ls_lane = lane, ls_queue = [], ls_activeTaskIds = [], ls_maxConcurrent = 1,
     ls_draining = False, ls_generation = 0\<rparr>"

definition getLaneState ::
  "string \<Rightarrow> command_queue_state \<Rightarrow> lane_state \<times> command_queue_state" where
  "getLaneState lane s =
     (case map_get (cq_lanes s) lane of
        Some existing \<Rightarrow> (existing, s)
      | None \<Rightarrow> (let created = fresh_lane lane
                in (created, s\<lparr>cq_lanes := map_put lane created (cq_lanes s)\<rparr>)))"

definition completeTask :: "lane_state \<Rightarrow> nat \<Rightarrow> nat \<Rightarrow> lane_state \<times> bool" where
  "completeTask st taskId taskGeneration =
     (if taskGeneration \<noteq> ls_generation st then (st, False)
      else (st\<lparr>ls_activeTaskIds := filter (\<lambda>i. i \<noteq> taskId) (ls_activeTaskIds st)\<rparr>, True))"

definition hasPendingActiveTasks :: "nat list \<Rightarrow> command_queue_state \<Rightarrow> bool" where
  "hasPendingActiveTasks taskIds s \<longleftrightarrow>
     list_ex (\<lambda>(_, st). list_ex (\<lambda>i. i \<in> set taskIds) (ls_activeTaskIds st)) (cq_lanes s)"

definition resolveActiveTaskWaiter ::
  "active_task_waiter \<Rightarrow> bool \<Rightarrow> command_queue_state \<Rightarrow> command_queue_state" where
  "resolveActiveTaskWaiter waiter drained s =
     (if waiter \<notin> set (cq_activeTaskWaiters s) then s
      else s\<lparr>cq_activeTaskWaiters := filter (\<lambda>w. w \<noteq> waiter) (cq_activeTaskWaiters s),
             cq_log := cq_log s @ [WaiterResolved (aw_id waiter) drained]\<rparr>)"

definition notify_one :: "active_task_waiter \<Rightarrow> command_queue_state \<Rightarrow> command_queue_state" where
  "notify_one waiter s =
     (if aw_activeTaskIds waiter = [] \<or> \<not> hasPendingActiveTasks (aw_activeTaskIds waiter) s
      then resolveActiveTaskWaiter waiter True s else s)"

definition notifyActiveTaskWaiters :: "command_queue_state \<Rightarrow> command_queue_state" where
  "notifyActiveTaskWaiters s = fold notify_one (cq_activeTaskWaiters s) s"

section \<open>Draining a lane\<close>

text \<open>One turn of the pump's loop: the diagnostics of a dequeued entry.\<close>

definition dequeue_outputs :: "int \<Rightarrow> string \<Rightarrow> queue_entry \<Rightarrow> nat \<Rightarrow> queue_output list" where
  "dequeue_outputs now lane e behind =
     (let waitedMs = now - qe_enqueuedAt e in
      (if waitedMs \<ge> qe_warnAfterMs e
       then (if qe_onWait e then [OnWait (qe_ticket e) waitedMs behind] else [])
            @ [LaneWaitExceeded lane waitedMs behind]
       else [])
      @ [LaneDequeue lane (qe_ticket e) waitedMs])"

text \<open>The loop of \<open>pump\<close>: start entries while the lane has capacity. The result is the lane,
  the task counter, the started closures and the diagnostics.\<close>

function pump_loop ::
  "int \<Rightarrow> lane_state \<Rightarrow> nat \<Rightarrow> lane_state \<times> nat \<times> running_task list \<times> queue_output list" where
  "pump_loop now st nid =
     (case ls_queue st of
        [] \<Rightarrow> (st, nid, [], [])
      | e # q \<Rightarrow>
          if int (length (ls_activeTaskIds st)) < ls_maxConcurrent st then
            (let started = \<lparr>rt_taskId = nid, rt_lane = ls_lane st,
                            rt_generation = ls_generation st, rt_ticket = qe_ticket e\<rparr>;
                 out = dequeue_outputs now (ls_lane st) e (length q);
                 (st', nid', rs, outs) =
                   pump_loop now (st\<lparr>ls_queue := q,
                       ls_activeTaskIds := ls_activeTaskIds st @ [nid]\<rparr>) (Suc nid)
             in (st', nid', started # rs, out @ outs))
          else (st, nid, [], []))"
  by pat_completeness auto
termination
  by (relation "measure (\<lambda>(now, st, nid). length (ls_queue st))") auto

declare pump_loop.simps [simp del]

text \<open>\<open>pump\<close> with its \<open>finally\<close>, on the lane's entry of the map.\<close>

definition pump :: "int \<Rightarrow> lane_state \<Rightarrow> command_queue_state \<Rightarrow> command_queue_state" where
  "pump now st s =
     (let (st', nid', rs, outs) = pump_loop now st (cq_nextTaskId s)
      in s\<lparr>cq_lanes := map_put (ls_lane st) (st'\<lparr>ls_draining := False\<rparr>) (cq_lanes s),
           cq_nextTaskId := nid',
           cq_running := cq_running s @ rs,
           cq_log := cq_log s @ outs\<rparr>)"

definition drainLane :: "int \<Rightarrow> string \<Rightarrow> command_queue_state \<Rightarrow> command_queue_state" where
  "drainLane now lane s =
     (let (st, s1) = getLaneState lane s in
      if ls_draining st then
        (if ls_activeTaskIds st = [] \<and> ls_queue st \<noteq> []
         then s1\<lparr>cq_log := cq_log s1 @ [DrainBlocked lane (length (ls_queue st))]\<rparr>
         else s1)
      else pump now (st\<lparr>ls_draining := True\<rparr>) s1)"

section \<open>Exported operations\<close>

definition markGatewayDraining :: "command_queue_state \<Rightarrow> command_queue_state" where
  "markGatewayDraining s = s\<lparr>cq_gatewayDraining := True\<rparr>"

definition setCommandLaneConcurrency ::
  "int \<Rightarrow> string \<Rightarrow> rat \<Rightarrow> command_queue_state \<Rightarrow> command_queue_state" where
  "setCommandLaneConcurrency now lane maxConcurrent s =
     (let cleaned = normalizeLane lane;
          (st, s1) = getLaneState cleaned s;
          st' = st\<lparr>ls_maxConcurrent := max 1 \<lfloor>maxConcurrent\<rfloor>\<rparr>
      in drainLane now cleaned (s1\<lparr>cq_lanes := map_put cleaned st' (cq_lanes s1)\<rparr>))"

definition enqueueCommandInLane ::
  "int \<Rightarrow> string \<Rightarrow> nat \<Rightarrow> int option \<Rightarrow> bool \<Rightarrow> command_queue_state \<Rightarrow> command_queue_state" where
  "enqueueCommandInLane now lane ticket warnAfterMs onWait s =
     (if cq_gatewayDraining s then
        s\<lparr>cq_log := cq_log s @ [Rejected ticket GatewayDrainingError]\<rparr>
      else
        (let cleaned = normalizeLane lane;
             (st, s1) = getLaneState cleaned s;
             entry = \<lparr>qe_ticket = ticket, qe_enqueuedAt = now,
                      qe_warnAfterMs = js_nullish warnAfterMs 2000, qe_onWait = onWait\<rparr>;
             st' = st\<lparr>ls_queue := ls_queue st @ [entry]\<rparr>
         in drainLane now cleaned
              (s1\<lparr>cq_lanes := map_put cleaned st' (cq_lanes s1),
                  cq_log := cq_log s1 @ [LaneEnqueue cleaned ticket]\<rparr>)))"

definition enqueueCommand ::
  "int \<Rightarrow> nat \<Rightarrow> int option \<Rightarrow> bool \<Rightarrow> command_queue_state \<Rightarrow> command_queue_state" where
  "enqueueCommand now ticket warnAfterMs onWait s =
     enqueueCommandInLane now CommandLane_Main ticket warnAfterMs onWait s"

definition getQueueSize :: "string \<Rightarrow> command_queue_state \<Rightarrow> nat" where
  "getQueueSize lane s =
     (case map_get (cq_lanes s) (normalizeLane lane) of None \<Rightarrow> 0 | Some st \<Rightarrow> getLaneDepth st)"

definition getTotalQueueSize :: "command_queue_state \<Rightarrow> nat" where
  "getTotalQueueSize s = sum_list (map (\<lambda>(_, st). getLaneDepth st) (cq_lanes s))"

definition clearCommandLane ::
  "string \<Rightarrow> command_queue_state \<Rightarrow> nat \<times> command_queue_state" where
  "clearCommandLane lane s =
     (let cleaned = normalizeLane lane in
      case map_get (cq_lanes s) cleaned of
        None \<Rightarrow> (0, s)
      | Some st \<Rightarrow>
          (length (ls_queue st),
           s\<lparr>cq_lanes := map_put cleaned (st\<lparr>ls_queue := []\<rparr>) (cq_lanes s),
             cq_log := cq_log s @
               map (\<lambda>e. Rejected (qe_ticket e) (CommandLaneClearedError cleaned)) (ls_queue st)\<rparr>))"

definition reset_lane :: "lane_state \<Rightarrow> lane_state" where
  "reset_lane st = st\<lparr>ls_generation := Suc (ls_generation st), ls_activeTaskIds := [],
     ls_draining := False\<rparr>"

definition resetAllLanes :: "int \<Rightarrow> command_queue_state \<Rightarrow> command_queue_state" where
  "resetAllLanes now s =
     (let s1 = s\<lparr>cq_gatewayDraining := False,
                 cq_lanes := map (\<lambda>(l, st). (l, reset_lane st)) (cq_lanes s)\<rparr>;
          lanesToDrain = map (\<lambda>(_, st). ls_lane st) (filter (\<lambda>(_, st). ls_queue st \<noteq> []) (cq_lanes s1))
      in notifyActiveTaskWaiters (fold (drainLane now) lanesToDrain s1))"

definition getActiveTaskCount :: "command_queue_state \<Rightarrow> nat" where
  "getActiveTaskCount s = sum_list (map (\<lambda>(_, st). length (ls_activeTaskIds st)) (cq_lanes s))"

definition waitForActiveTasks ::
  "nat \<Rightarrow> int \<Rightarrow> command_queue_state \<Rightarrow> command_queue_state" where
  "waitForActiveTasks wid timeoutMs s =
     (let activeAtStart = remdups (concat (map (\<lambda>(_, st). ls_activeTaskIds st) (cq_lanes s))) in
      if activeAtStart = [] then s\<lparr>cq_log := cq_log s @ [WaiterResolved wid True]\<rparr>
      else if timeoutMs \<le> 0 then s\<lparr>cq_log := cq_log s @ [WaiterResolved wid False]\<rparr>
      else notifyActiveTaskWaiters
             (s\<lparr>cq_activeTaskWaiters := cq_activeTaskWaiters s @
                  [\<lparr>aw_id = wid, aw_activeTaskIds = activeAtStart\<rparr>]\<rparr>))"

text \<open>The timer \<open>waitForActiveTasks\<close> arms.\<close>

definition waiter_timeout :: "nat \<Rightarrow> command_queue_state \<Rightarrow> command_queue_state" where
  "waiter_timeout wid s =
     fold (\<lambda>w. resolveActiveTaskWaiter w False)
       (filter (\<lambda>w. aw_id w = wid) (cq_activeTaskWaiters s)) s"

section \<open>Completion of a started task\<close>

definition is_probe_lane :: "string \<Rightarrow> bool" where
  "is_probe_lane lane \<longleftrightarrow>
     js_starts_with lane ''auth-probe:'' \<or> js_starts_with lane ''session:probe-''"

definition isExpectedNonErrorLaneFailure :: "string \<Rightarrow> bool" where
  "isExpectedNonErrorLaneFailure err \<longleftrightarrow> err = ''LiveSessionModelSwitchError''"

definition failure_outputs :: "string \<Rightarrow> string \<Rightarrow> queue_output list" where
  "failure_outputs lane err =
     (if \<not> is_probe_lane lane \<and> \<not> isExpectedNonErrorLaneFailure err then [LaneTaskError lane]
      else if \<not> is_probe_lane lane then [LaneTaskInterrupted lane]
      else [])"

text \<open>The rest of the asynchronous closure once \<open>entry.task()\<close> has settled. A completion of
  an older generation leaves the lane alone; only its caller's promise is settled.\<close>

definition settle_output :: "nat \<Rightarrow> task_result \<Rightarrow> queue_output" where
  "settle_output ticket res =
     (case res of TaskResolved \<Rightarrow> Resolved ticket | TaskRejected err \<Rightarrow> Rejected ticket (TaskError err))"

definition task_settled ::
  "int \<Rightarrow> nat \<Rightarrow> task_result \<Rightarrow> command_queue_state \<Rightarrow> command_queue_state" where
  "task_settled now taskId res s =
     (case find (\<lambda>r. rt_taskId r = taskId) (cq_running s) of
        None \<Rightarrow> s
      | Some r \<Rightarrow>
          (let lane = rt_lane r;
               s0 = s\<lparr>cq_running := filter (\<lambda>r. rt_taskId r \<noteq> taskId) (cq_running s)\<rparr>;
               (st, s1) = getLaneState lane s0;
               (st', completedCurrentGeneration) = completeTask st taskId (rt_generation r);
               s2 = s1\<lparr>cq_lanes := map_put lane st' (cq_lanes s1),
                       cq_log := cq_log s1 @
                         (case res of TaskResolved \<Rightarrow> [] | TaskRejected err \<Rightarrow> failure_outputs lane err)\<rparr>;
               s3 = (if completedCurrentGeneration
                     then (let n = notifyActiveTaskWaiters s2 in
                           pump now st'
                             (n\<lparr>cq_log := cq_log n @
                                 (case res of TaskResolved \<Rightarrow> [LaneTaskDone lane] | _ \<Rightarrow> [])\<rparr>))
                     else s2)
           in s3\<lparr>cq_log := cq_log s3 @ [settle_output (rt_ticket r) res]\<rparr>))"

section \<open>Events\<close>

datatype queue_event =
    Enqueue string nat "int option" bool
  | SetConcurrency string rat
  | ClearLane string
  | ResetAll
  | MarkDraining
  | WaitForActive nat int
  | WaiterTimeout nat
  | TaskSettles nat task_result

fun queue_step :: "command_queue_state \<Rightarrow> int \<times> queue_event \<Rightarrow> command_queue_state" where
  "queue_step s (now, Enqueue lane ticket warn onWait) = enqueueCommandInLane now lane ticket warn onWait s"
| "queue_step s (now, SetConcurrency lane n) = setCommandLaneConcurrency now lane n s"
| "queue_step s (now, ClearLane lane) = snd (clearCommandLane lane s)"
| "queue_step s (now, ResetAll) = resetAllLanes now s"
| "queue_step s (now, MarkDraining) = markGatewayDraining s"
| "queue_step s (now, WaitForActive wid t) = waitForActiveTasks wid t s"
| "queue_step s (now, WaiterTimeout wid) = waiter_timeout wid s"
| "queue_step s (now, TaskSettles i res) = task_settled now i res s"

definition queue_run :: "(int \<times> queue_event) list \<Rightarrow> command_queue_state" where
  "queue_run es = foldl queue_step getQueueState_init es"

end
