(* ===== verification/Command_Queue_Props.thy ===== *)
theory Command_Queue_Props
  imports Command_Queue
begin

text \<open>
  The correctness of the command queue. \<open>pump_loop\<close> is described once, in closed form; the
  invariant \<open>queue_inv\<close> says that the active ids of a lane are exactly the running tasks of
  the lane's current generation, that no lane with queued work has spare capacity, that every
  registered waiter still waits for something, and that every accepted ticket is queued,
  running or settled. It holds after every sequence of events.
\<close>

section \<open>What a log says about tickets\<close>

fun settled_by :: "queue_output \<Rightarrow> nat list" where
  "settled_by (Resolved t) = [t]"
| "settled_by (Rejected t err) = (if err = GatewayDrainingError then [] else [t])"
| "settled_by _ = []"

fun accepted_by :: "queue_output \<Rightarrow> nat list" where
  "accepted_by (LaneEnqueue _ t) = [t]"
| "accepted_by _ = []"

definition settled_tickets :: "queue_output list \<Rightarrow> nat multiset" where
  "settled_tickets lg = mset (concat (map settled_by lg))"

definition accepted_tickets :: "queue_output list \<Rightarrow> nat multiset" where
  "accepted_tickets lg = mset (concat (map accepted_by lg))"

definition lane_tickets :: "lane_state \<Rightarrow> nat multiset" where
  "lane_tickets st = mset (map qe_ticket (ls_queue st))"

definition queued_tickets :: "command_queue_state \<Rightarrow> nat multiset" where
  "queued_tickets s = sum_list (map (\<lambda>(_, st). lane_tickets st) (cq_lanes s))"

definition running_tickets :: "command_queue_state \<Rightarrow> nat multiset" where
  "running_tickets s = mset (map rt_ticket (cq_running s))"

lemma settled_tickets_simps [simp]:
  "settled_tickets [] = {#}"
  "settled_tickets (a @ b) = settled_tickets a + settled_tickets b"
  "settled_tickets (x # b) = mset (settled_by x) + settled_tickets b"
  by (simp_all add: settled_tickets_def)

lemma accepted_tickets_simps [simp]:
  "accepted_tickets [] = {#}"
  "accepted_tickets (a @ b) = accepted_tickets a + accepted_tickets b"
  "accepted_tickets (x # b) = mset (accepted_by x) + accepted_tickets b"
  by (simp_all add: accepted_tickets_def)

lemma sum_list_map_put:
  fixes g :: "'k \<times> 'v \<Rightarrow> 'a :: comm_monoid_add"
  shows "map_get m k = None \<Longrightarrow> sum_list (map g (map_put k v m)) = sum_list (map g m) + g (k, v)"
    and "map_get m k = Some old \<Longrightarrow>
      sum_list (map g (map_put k v m)) + g (k, old) = sum_list (map g m) + g (k, v)"
  by (induction m) (auto simp: ac_simps split: if_splits)

section \<open>The pump in closed form\<close>

definition pump_count :: "lane_state \<Rightarrow> nat" where
  "pump_count st = min (length (ls_queue st))
     (nat (ls_maxConcurrent st - int (length (ls_activeTaskIds st))))"

definition pumped :: "nat \<Rightarrow> lane_state \<Rightarrow> lane_state" where
  "pumped nid st = st\<lparr>ls_queue := drop (pump_count st) (ls_queue st),
     ls_activeTaskIds := ls_activeTaskIds st @ [nid..<nid + pump_count st]\<rparr>"

lemma dequeue_outputs_tickets [simp]:
  "settled_tickets (dequeue_outputs now lane e n) = {#}"
  "accepted_tickets (dequeue_outputs now lane e n) = {#}"
  by (auto simp: dequeue_outputs_def Let_def)

lemma dequeue_outputs_waiters [simp]:
  "WaiterResolved w d \<notin> set (dequeue_outputs now lane e n)"
  by (auto simp: dequeue_outputs_def Let_def)

lemma pump_loop_closed:
  "pump_loop now st nid = (st', nid', rs, outs) \<Longrightarrow>
     st' = pumped nid st \<and> nid' = nid + pump_count st \<and>
     map rt_taskId rs = [nid..<nid + pump_count st] \<and>
     map rt_ticket rs = map qe_ticket (take (pump_count st) (ls_queue st)) \<and>
     (\<forall>r \<in> set rs. rt_lane r = ls_lane st \<and> rt_generation r = ls_generation st) \<and>
     settled_tickets outs = {#} \<and> accepted_tickets outs = {#} \<and>
     (\<forall>w d. WaiterResolved w d \<notin> set outs)"
proof (induction now st nid arbitrary: st' nid' rs outs rule: pump_loop.induct)
  case (1 now st nid)
  show ?case
  proof (cases "ls_queue st")
    case Nil
    with "1.prems" show ?thesis
      by (subst (asm) pump_loop.simps) (auto simp: pumped_def pump_count_def)
  next
    case (Cons e q)
    show ?thesis
    proof (cases "int (length (ls_activeTaskIds st)) < ls_maxConcurrent st")
      case False
      with Cons "1.prems" show ?thesis
        by (subst (asm) pump_loop.simps) (auto simp: pumped_def pump_count_def)
    next
      case True
      let ?st1 = "st\<lparr>ls_queue := q, ls_activeTaskIds := ls_activeTaskIds st @ [nid]\<rparr>"
      obtain a b c d where rec: "pump_loop now ?st1 (Suc nid) = (a, b, c, d)"
        by (metis prod_cases4)
      have cnt: "pump_count st = Suc (pump_count ?st1)"
      proof -
        have "nat (ls_maxConcurrent st - int (length (ls_activeTaskIds st))) =
            Suc (nat (ls_maxConcurrent st - int (length (ls_activeTaskIds ?st1))))"
          using True by simp
        then show ?thesis using Cons by (simp add: pump_count_def)
      qed
      note IH = "1.IH" [OF Cons True refl refl rec]
      have eqs: "st' = a" "nid' = b" "outs = dequeue_outputs now (ls_lane st) e (length q) @ d"
        "rs = \<lparr>rt_taskId = nid, rt_lane = ls_lane st, rt_generation = ls_generation st,
               rt_ticket = qe_ticket e\<rparr> # c"
        using "1.prems" rec True Cons
        by (subst (asm) pump_loop.simps; simp add: Let_def)+
      have "pumped (Suc nid) ?st1 = pumped nid st"
        using cnt Cons by (simp add: pumped_def upt_rec [of nid])
      then show ?thesis
        using IH eqs cnt Cons by (auto simp: upt_rec [of nid])
    qed
  qed
qed


lemma pumped_simps [simp]:
  "ls_lane (pumped n st) = ls_lane st"
  "ls_maxConcurrent (pumped n st) = ls_maxConcurrent st"
  "ls_draining (pumped n st) = ls_draining st"
  "ls_generation (pumped n st) = ls_generation st"
  "ls_queue (pumped n st) = drop (pump_count st) (ls_queue st)"
  "ls_activeTaskIds (pumped n st) = ls_activeTaskIds st @ [n..<n + pump_count st]"
  by (simp_all add: pumped_def)

lemma pump_count_draining [simp]: "pump_count (st\<lparr>ls_draining := b\<rparr>) = pump_count st"
  by (simp add: pump_count_def)

text \<open>A lane is busy when queued work finds no spare capacity.\<close>

definition lane_busy :: "lane_state \<Rightarrow> bool" where
  "lane_busy st \<longleftrightarrow> (ls_queue st \<noteq> [] \<longrightarrow> ls_maxConcurrent st \<le> int (length (ls_activeTaskIds st)))"

lemma pumped_busy: "lane_busy (pumped n st)"
  by (auto simp: lane_busy_def pump_count_def min_def split: if_splits)

lemma pumped_within_limit:
  "int (length (ls_activeTaskIds (pumped n st)))
     \<le> max (ls_maxConcurrent st) (int (length (ls_activeTaskIds st)))"
  by (auto simp: pump_count_def min_def max_def)

section \<open>The invariant\<close>

text \<open>One lane against the closures in flight.\<close>

definition lane_fits :: "running_task set \<Rightarrow> string \<Rightarrow> lane_state \<Rightarrow> bool" where
  "lane_fits rs l st \<longleftrightarrow> ls_lane st = l \<and> 1 \<le> ls_maxConcurrent st \<and> \<not> ls_draining st \<and>
     distinct (ls_activeTaskIds st) \<and>
     (\<forall>i. i \<in> set (ls_activeTaskIds st) \<longleftrightarrow>
        (\<exists>r \<in> rs. rt_taskId r = i \<and> rt_lane r = l \<and> rt_generation r = ls_generation st))"

definition core_inv :: "command_queue_state \<Rightarrow> bool" where
  "core_inv s \<longleftrightarrow> map_ok (cq_lanes s) \<and>
     (\<forall>l st. map_get (cq_lanes s) l = Some st \<longrightarrow> lane_fits (set (cq_running s)) l st) \<and>
     distinct (map rt_taskId (cq_running s)) \<and>
     (\<forall>r \<in> set (cq_running s). rt_taskId r < cq_nextTaskId s \<and>
        (\<exists>st. map_get (cq_lanes s) (rt_lane r) = Some st \<and> rt_generation r \<le> ls_generation st))"

text \<open>No lane outside \<open>A\<close> is stalled.\<close>

definition busy_except :: "string set \<Rightarrow> command_queue_state \<Rightarrow> bool" where
  "busy_except A s \<longleftrightarrow>
     (\<forall>l st. map_get (cq_lanes s) l = Some st \<longrightarrow> l \<notin> A \<longrightarrow> lane_busy st)"

definition active_in :: "command_queue_state \<Rightarrow> string \<Rightarrow> nat list" where
  "active_in s l = (case map_get (cq_lanes s) l of None \<Rightarrow> [] | Some st \<Rightarrow> ls_activeTaskIds st)"

definition is_active :: "command_queue_state \<Rightarrow> nat \<Rightarrow> bool" where
  "is_active s i \<longleftrightarrow> (\<exists>l. i \<in> set (active_in s l))"

definition waiters_wait :: "command_queue_state \<Rightarrow> bool" where
  "waiters_wait s \<longleftrightarrow>
     (\<forall>w \<in> set (cq_activeTaskWaiters s). \<exists>i \<in> set (aw_activeTaskIds w). is_active s i)"

text \<open>Every accepted ticket is queued, running or settled; \<open>owed\<close> are the tickets in the hands
  of a step that has not finished.\<close>

definition tickets_balance :: "nat multiset \<Rightarrow> command_queue_state \<Rightarrow> bool" where
  "tickets_balance owed s \<longleftrightarrow>
     accepted_tickets (cq_log s) =
       queued_tickets s + running_tickets s + settled_tickets (cq_log s) + owed"

definition queue_inv :: "command_queue_state \<Rightarrow> bool" where
  "queue_inv s \<longleftrightarrow> core_inv s \<and> busy_except {} s \<and> waiters_wait s \<and> tickets_balance {#} s"

lemma in_active_in:
  "i \<in> set (active_in s l) \<longleftrightarrow> (\<exists>st. map_get (cq_lanes s) l = Some st \<and> i \<in> set (ls_activeTaskIds st))"
  by (cases "map_get (cq_lanes s) l") (simp_all add: active_in_def)

lemma hasPending_iff:
  "map_ok (cq_lanes s) \<Longrightarrow> hasPendingActiveTasks ids s \<longleftrightarrow> (\<exists>i \<in> set ids. is_active s i)"
  by (auto simp: hasPendingActiveTasks_def is_active_def in_active_in list_ex_iff map_get_iff)

section \<open>Waiters\<close>

lemma resolve_waiter_frame [simp]:
  "cq_lanes (resolveActiveTaskWaiter w d s) = cq_lanes s"
  "cq_running (resolveActiveTaskWaiter w d s) = cq_running s"
  "cq_nextTaskId (resolveActiveTaskWaiter w d s) = cq_nextTaskId s"
  "cq_gatewayDraining (resolveActiveTaskWaiter w d s) = cq_gatewayDraining s"
  "settled_tickets (cq_log (resolveActiveTaskWaiter w d s)) = settled_tickets (cq_log s)"
  "accepted_tickets (cq_log (resolveActiveTaskWaiter w d s)) = accepted_tickets (cq_log s)"
  by (simp_all add: resolveActiveTaskWaiter_def)

lemma notify_one_frame [simp]:
  "cq_lanes (notify_one w s) = cq_lanes s"
  "cq_running (notify_one w s) = cq_running s"
  "cq_nextTaskId (notify_one w s) = cq_nextTaskId s"
  "cq_gatewayDraining (notify_one w s) = cq_gatewayDraining s"
  "settled_tickets (cq_log (notify_one w s)) = settled_tickets (cq_log s)"
  "accepted_tickets (cq_log (notify_one w s)) = accepted_tickets (cq_log s)"
  by (simp_all add: notify_one_def)

lemma fold_notify_frame:
  "cq_lanes (fold notify_one ws s) = cq_lanes s \<and> cq_running (fold notify_one ws s) = cq_running s \<and>
   cq_nextTaskId (fold notify_one ws s) = cq_nextTaskId s \<and>
   cq_gatewayDraining (fold notify_one ws s) = cq_gatewayDraining s \<and>
   settled_tickets (cq_log (fold notify_one ws s)) = settled_tickets (cq_log s) \<and>
   accepted_tickets (cq_log (fold notify_one ws s)) = accepted_tickets (cq_log s)"
  by (induction ws arbitrary: s) simp_all

lemma notify_frame [simp]:
  "cq_lanes (notifyActiveTaskWaiters s) = cq_lanes s"
  "cq_running (notifyActiveTaskWaiters s) = cq_running s"
  "cq_nextTaskId (notifyActiveTaskWaiters s) = cq_nextTaskId s"
  "cq_gatewayDraining (notifyActiveTaskWaiters s) = cq_gatewayDraining s"
  "settled_tickets (cq_log (notifyActiveTaskWaiters s)) = settled_tickets (cq_log s)"
  "accepted_tickets (cq_log (notifyActiveTaskWaiters s)) = accepted_tickets (cq_log s)"
  by (simp_all add: notifyActiveTaskWaiters_def fold_notify_frame)

lemma notify_one_waiters:
  "set (cq_activeTaskWaiters (notify_one w s)) =
     (if aw_activeTaskIds w = [] \<or> \<not> hasPendingActiveTasks (aw_activeTaskIds w) s
      then set (cq_activeTaskWaiters s) - {w} else set (cq_activeTaskWaiters s))"
  by (auto simp: notify_one_def resolveActiveTaskWaiter_def)

lemma hasPending_cong:
  "cq_lanes s = cq_lanes t \<Longrightarrow> hasPendingActiveTasks ids s = hasPendingActiveTasks ids t"
  by (simp add: hasPendingActiveTasks_def)

lemma fold_notify_waiters:
  "set (cq_activeTaskWaiters (fold notify_one ws s)) =
     {w \<in> set (cq_activeTaskWaiters s).
        w \<in> set ws \<longrightarrow> hasPendingActiveTasks (aw_activeTaskIds w) s}"
proof (induction ws arbitrary: s)
  case (Cons v ws)
  have "hasPendingActiveTasks ids (notify_one v s) = hasPendingActiveTasks ids s" for ids
    by (rule hasPending_cong) simp
  with Cons show ?case
    by (auto simp: notify_one_waiters hasPendingActiveTasks_def list_ex_iff)
qed simp

lemma is_active_cong: "cq_lanes s = cq_lanes t \<Longrightarrow> is_active s i = is_active t i"
  by (simp add: is_active_def active_in_def)

lemma notify_waiters_wait: "map_ok (cq_lanes s) \<Longrightarrow> waiters_wait (notifyActiveTaskWaiters s)"
  using is_active_cong [of "notifyActiveTaskWaiters s" s]
  by (auto simp: waiters_wait_def notifyActiveTaskWaiters_def fold_notify_waiters hasPending_iff
      fold_notify_frame)

section \<open>The pump keeps the invariant\<close>

lemma pump_effect:
  obtains rs outs where
    "pump now st s = s\<lparr>cq_lanes := map_put (ls_lane st)
         ((pumped (cq_nextTaskId s) st)\<lparr>ls_draining := False\<rparr>) (cq_lanes s),
       cq_nextTaskId := cq_nextTaskId s + pump_count st,
       cq_running := cq_running s @ rs, cq_log := cq_log s @ outs\<rparr>"
    "map rt_taskId rs = [cq_nextTaskId s..<cq_nextTaskId s + pump_count st]"
    "map rt_ticket rs = map qe_ticket (take (pump_count st) (ls_queue st))"
    "\<forall>r \<in> set rs. rt_lane r = ls_lane st \<and> rt_generation r = ls_generation st"
    "settled_tickets outs = {#}" "accepted_tickets outs = {#}"
    "\<forall>w d. WaiterResolved w d \<notin> set outs"
proof -
  obtain a b c d where p: "pump_loop now st (cq_nextTaskId s) = (a, b, c, d)"
    by (metis prod_cases4)
  from pump_loop_closed [OF p] show ?thesis
    by (intro that [of d c]) (auto simp: pump_def p)
qed

lemma lane_fits_other:
  "lane_fits rs l st \<Longrightarrow> \<forall>r \<in> rs'. rt_lane r \<noteq> l \<Longrightarrow> lane_fits (rs \<union> rs') l st"
  by (auto simp: lane_fits_def)

lemma lane_fits_pumped:
  assumes fits: "lane_fits rs l (st\<lparr>ls_draining := False\<rparr>)" and below: "\<forall>r \<in> rs. rt_taskId r < n"
    and ids: "rt_taskId ` rs' = {n..<n + pump_count st}"
    and lanes: "\<forall>r \<in> rs'. rt_lane r = l \<and> rt_generation r = ls_generation st"
  shows "lane_fits (rs \<union> rs') l ((pumped n st)\<lparr>ls_draining := False\<rparr>)"
proof -
  have act: "i \<in> set (ls_activeTaskIds st) \<longleftrightarrow>
      (\<exists>r \<in> rs. rt_taskId r = i \<and> rt_lane r = l \<and> rt_generation r = ls_generation st)" for i
    using fits by (simp add: lane_fits_def)
  have new: "i \<in> {n..<n + pump_count st} \<longleftrightarrow>
      (\<exists>r \<in> rs'. rt_taskId r = i \<and> rt_lane r = l \<and> rt_generation r = ls_generation st)" for i
    using ids lanes by (auto simp flip: ids)
  have "\<forall>i \<in> set (ls_activeTaskIds st). i < n" using act below by auto
  then have "distinct (ls_activeTaskIds st @ [n..<n + pump_count st])"
    using fits by (auto simp: lane_fits_def)
  moreover have "i \<in> set (ls_activeTaskIds st) \<union> {n..<n + pump_count st} \<longleftrightarrow>
      (\<exists>r \<in> rs \<union> rs'. rt_taskId r = i \<and> rt_lane r = l \<and> rt_generation r = ls_generation st)" for i
    using act [of i] new [of i] by blast
  ultimately show ?thesis using fits by (auto simp: lane_fits_def)
qed

lemma pump_core:
  assumes core: "core_inv s"
    and st: "map_get (cq_lanes s) l = Some (st\<lparr>ls_draining := False\<rparr>)" "ls_lane st = l"
  shows "core_inv (pump now st s)"
proof -
  obtain rs outs where eff: "pump now st s = s\<lparr>cq_lanes := map_put (ls_lane st)
         ((pumped (cq_nextTaskId s) st)\<lparr>ls_draining := False\<rparr>) (cq_lanes s),
       cq_nextTaskId := cq_nextTaskId s + pump_count st,
       cq_running := cq_running s @ rs, cq_log := cq_log s @ outs\<rparr>"
    and ids: "map rt_taskId rs = [cq_nextTaskId s..<cq_nextTaskId s + pump_count st]"
    and lanes: "\<forall>r \<in> set rs. rt_lane r = ls_lane st \<and> rt_generation r = ls_generation st"
    by (rule pump_effect)
  have ids': "rt_taskId ` set rs = {cq_nextTaskId s..<cq_nextTaskId s + pump_count st}"
    using arg_cong [OF ids, of set] by simp
  have below: "\<forall>r \<in> set (cq_running s). rt_taskId r < cq_nextTaskId s"
    using core by (auto simp: core_inv_def)
  have fits: "lane_fits (set (cq_running s) \<union> set rs) l ((pumped (cq_nextTaskId s) st)\<lparr>ls_draining := False\<rparr>)"
    using core st lanes by (intro lane_fits_pumped [OF _ below ids']) (auto simp: core_inv_def)
  have others: "lane_fits (set (cq_running s) \<union> set rs) l' st'"
    if "l' \<noteq> l" "map_get (cq_lanes s) l' = Some st'" for l' st'
    using core that lanes st by (intro lane_fits_other) (auto simp: core_inv_def)
  have dist: "distinct (map rt_taskId (cq_running s @ rs))"
    using core below ids ids' by (force simp: core_inv_def)
  have gens: "\<exists>st'. map_get (map_put l ((pumped (cq_nextTaskId s) st)\<lparr>ls_draining := False\<rparr>) (cq_lanes s))
        (rt_lane r) = Some st' \<and> rt_generation r \<le> ls_generation st'"
    if "r \<in> set (cq_running s) \<union> set rs" for r
    using that core st lanes by (fastforce simp: core_inv_def jm.get_put)
  have less: "rt_taskId r < cq_nextTaskId s + pump_count st" if "r \<in> set (cq_running s) \<union> set rs" for r
    using that below ids' by (fastforce dest: imageI [of r _ rt_taskId])
  show ?thesis
    unfolding core_inv_def eff using core fits others dist gens less st
    by (simp add: jm.get_put core_inv_def)
qed

lemma pump_busy:
  assumes "busy_except (insert (ls_lane st) A) s"
  shows "busy_except A (pump now st s)"
proof -
  obtain rs outs where "pump now st s = s\<lparr>cq_lanes := map_put (ls_lane st)
         ((pumped (cq_nextTaskId s) st)\<lparr>ls_draining := False\<rparr>) (cq_lanes s),
       cq_nextTaskId := cq_nextTaskId s + pump_count st,
       cq_running := cq_running s @ rs, cq_log := cq_log s @ outs\<rparr>"
    by (rule pump_effect)
  moreover have "lane_busy ((pumped n st)\<lparr>ls_draining := False\<rparr>)" for n
    using pumped_busy [of n st] by (simp add: lane_busy_def)
  ultimately show ?thesis using assms
    by (auto simp: busy_except_def jm.get_put)
qed

lemma pump_waiters:
  assumes "waiters_wait s" and "map_get (cq_lanes s) (ls_lane st) = Some (st\<lparr>ls_draining := False\<rparr>)"
  shows "waiters_wait (pump now st s)"
proof -
  obtain rs outs where eff: "pump now st s = s\<lparr>cq_lanes := map_put (ls_lane st)
         ((pumped (cq_nextTaskId s) st)\<lparr>ls_draining := False\<rparr>) (cq_lanes s),
       cq_nextTaskId := cq_nextTaskId s + pump_count st,
       cq_running := cq_running s @ rs, cq_log := cq_log s @ outs\<rparr>"
    by (rule pump_effect)
  have "set (active_in s l) \<subseteq> set (active_in (pump now st s) l)" for l
    unfolding eff using assms(2) by (auto simp: active_in_def jm.get_put split: option.splits)
  then have "is_active s i \<Longrightarrow> is_active (pump now st s) i" for i
    by (auto simp: is_active_def)
  with assms(1) show ?thesis unfolding waiters_wait_def by (fastforce simp: eff)
qed

lemma pump_tickets:
  assumes cons: "tickets_balance owed s"
    and st: "map_get (cq_lanes s) (ls_lane st) = Some (st\<lparr>ls_draining := False\<rparr>)"
  shows "tickets_balance owed (pump now st s)"
proof -
  obtain rs outs where eff: "pump now st s = s\<lparr>cq_lanes := map_put (ls_lane st)
         ((pumped (cq_nextTaskId s) st)\<lparr>ls_draining := False\<rparr>) (cq_lanes s),
       cq_nextTaskId := cq_nextTaskId s + pump_count st,
       cq_running := cq_running s @ rs, cq_log := cq_log s @ outs\<rparr>"
    and tickets: "map rt_ticket rs = map qe_ticket (take (pump_count st) (ls_queue st))"
    and logs: "settled_tickets outs = {#}" "accepted_tickets outs = {#}"
    by (rule pump_effect)
  let ?k = "pump_count st" and ?q = "map qe_ticket (ls_queue st)"
  have "mset ?q = mset (take ?k ?q) + mset (drop ?k ?q)"
    by (simp flip: mset_append)
  then have "queued_tickets (pump now st s) + mset (map rt_ticket rs) = queued_tickets s"
    using sum_list_map_put(2) [OF st, of "\<lambda>(_, st). lane_tickets st"
        "(pumped (cq_nextTaskId s) st)\<lparr>ls_draining := False\<rparr>"] tickets
    by (simp add: queued_tickets_def eff lane_tickets_def take_map drop_map ac_simps)
  then show ?thesis
    using cons logs by (simp add: tickets_balance_def running_tickets_def eff ac_simps)
qed

text \<open>Everything but the waiters.\<close>

definition lanes_good :: "string set \<Rightarrow> nat multiset \<Rightarrow> command_queue_state \<Rightarrow> bool" where
  "lanes_good A owed s \<longleftrightarrow> core_inv s \<and> busy_except A s \<and> tickets_balance owed s"

lemma queue_inv_alt: "queue_inv s \<longleftrightarrow> lanes_good {} {#} s \<and> waiters_wait s"
  by (auto simp: queue_inv_def lanes_good_def)

lemma pump_good:
  "lanes_good (insert l A) owed s \<Longrightarrow> map_get (cq_lanes s) l = Some (st\<lparr>ls_draining := False\<rparr>) \<Longrightarrow>
   ls_lane st = l \<Longrightarrow> lanes_good A owed (pump now st s)"
  unfolding lanes_good_def using pump_core pump_busy pump_tickets by metis

lemma lane_of_key: "core_inv s \<Longrightarrow> map_get (cq_lanes s) l = Some st \<Longrightarrow> ls_lane st = l \<and> \<not> ls_draining st"
  by (auto simp: core_inv_def lane_fits_def)

section \<open>Fetching, replacing and draining a lane\<close>

lemma active_in_put:
  "active_in (s\<lparr>cq_lanes := map_put l st (cq_lanes s)\<rparr>) l' =
     (if l' = l then ls_activeTaskIds st else active_in s l')"
  by (simp add: active_in_def jm.get_put)

lemma is_active_put_same:
  "ls_activeTaskIds st = active_in s l \<Longrightarrow>
   is_active (s\<lparr>cq_lanes := map_put l st (cq_lanes s)\<rparr>) i = is_active s i"
proof -
  assume "ls_activeTaskIds st = active_in s l"
  then have "active_in (s\<lparr>cq_lanes := map_put l st (cq_lanes s)\<rparr>) = active_in s"
    by (intro ext) (simp add: active_in_put)
  then show ?thesis by (simp add: is_active_def)
qed

lemma active_in_simps [simp]:
  "map_get (cq_lanes s) l = None \<Longrightarrow> active_in s l = []"
  "map_get (cq_lanes s) l = Some st \<Longrightarrow> active_in s l = ls_activeTaskIds st"
  by (simp_all add: active_in_def)

lemma undrained [simp]: "\<not> ls_draining st \<Longrightarrow> st\<lparr>ls_draining := False\<rparr> = st"
  by (cases st) simp

lemma core_put:
  assumes core: "core_inv s" and fits: "lane_fits (set (cq_running s)) l st'"
    and gens: "\<forall>r \<in> set (cq_running s). rt_lane r = l \<longrightarrow> rt_generation r \<le> ls_generation st'"
  shows "core_inv (s\<lparr>cq_lanes := map_put l st' (cq_lanes s)\<rparr>)"
proof -
  have "\<exists>st. map_get (map_put l st' (cq_lanes s)) (rt_lane r) = Some st \<and> rt_generation r \<le> ls_generation st"
    if "r \<in> set (cq_running s)" for r
    using core gens that by (cases "rt_lane r = l") (auto simp: core_inv_def jm.get_put)
  then show ?thesis using core fits by (simp add: core_inv_def jm.get_put)
qed

lemma getLaneState_inv:
  assumes good: "lanes_good A owed s" and get: "getLaneState l s = (st, s1)"
  shows "lanes_good A owed s1 \<and> map_get (cq_lanes s1) l = Some st \<and> ls_lane st = l \<and>
         \<not> ls_draining st \<and> cq_running s1 = cq_running s \<and> cq_log s1 = cq_log s \<and>
         cq_activeTaskWaiters s1 = cq_activeTaskWaiters s \<and> (\<forall>i. is_active s1 i = is_active s i)"
proof (cases "map_get (cq_lanes s) l")
  case (Some st0)
  with assms lane_of_key [of s l st0] show ?thesis
    by (auto simp: getLaneState_def lanes_good_def)
next
  case None
  let ?f = "fresh_lane l"
  have s1: "st = ?f" "s1 = s\<lparr>cq_lanes := map_put l ?f (cq_lanes s)\<rparr>"
    using get None by (auto simp: getLaneState_def Let_def)
  have "\<forall>r \<in> set (cq_running s). rt_lane r \<noteq> l"
    using good None by (auto simp: lanes_good_def core_inv_def)
  then have "core_inv s1"
    using good unfolding lanes_good_def s1
    by (intro core_put) (auto simp: fresh_lane_def lane_fits_def)
  moreover have "busy_except A s1"
    using good unfolding lanes_good_def busy_except_def s1
    by (auto simp: jm.get_put fresh_lane_def lane_busy_def)
  moreover have "tickets_balance owed s1"
    using good sum_list_map_put(1) [OF None, of "\<lambda>(_, st). lane_tickets st" ?f]
    by (simp add: lanes_good_def tickets_balance_def queued_tickets_def running_tickets_def s1
        lane_tickets_def fresh_lane_def)
  ultimately show ?thesis
    using None by (simp add: s1 lanes_good_def jm.get_put fresh_lane_def is_active_put_same)
qed

lemma core_replace:
  assumes core: "core_inv s" and get: "map_get (cq_lanes s) l = Some st"
    and same: "ls_lane st' = ls_lane st" "ls_activeTaskIds st' = ls_activeTaskIds st"
      "ls_draining st' = ls_draining st" "ls_generation st' = ls_generation st"
    and limit: "1 \<le> ls_maxConcurrent st'"
  shows "core_inv (s\<lparr>cq_lanes := map_put l st' (cq_lanes s)\<rparr>)"
proof (rule core_put [OF core])
  show "lane_fits (set (cq_running s)) l st'"
    using core get same limit by (auto simp: core_inv_def lane_fits_def)
  show "\<forall>r \<in> set (cq_running s). rt_lane r = l \<longrightarrow> rt_generation r \<le> ls_generation st'"
    using core get same(4) by (force simp: core_inv_def)
qed

lemma drainLane_good:
  assumes "lanes_good (insert l A) owed s"
  shows "lanes_good A owed (drainLane now l s)"
proof -
  obtain st s1 where g: "getLaneState l s = (st, s1)" by fastforce
  note * = getLaneState_inv [OF assms g]
  show ?thesis unfolding drainLane_def g using * by (auto intro!: pump_good [of l A owed s1])
qed

lemma drainLane_waiters:
  assumes "lanes_good A owed s" and "waiters_wait s"
  shows "waiters_wait (drainLane now l s)"
proof -
  obtain st s1 where g: "getLaneState l s = (st, s1)" by fastforce
  note * = getLaneState_inv [OF assms(1) g]
  then have "waiters_wait s1" using assms(2) by (auto simp: waiters_wait_def)
  with * show ?thesis unfolding drainLane_def g by (simp add: pump_waiters)
qed

lemma fold_drain_good:
  "lanes_good (set ls \<union> A) owed s \<Longrightarrow> lanes_good A owed (fold (drainLane now) ls s)"
  by (induction ls arbitrary: s) (auto intro: drainLane_good)

lemma drain_inv: "lanes_good {l} {#} s \<Longrightarrow> waiters_wait s \<Longrightarrow> queue_inv (drainLane now l s)"
  by (simp add: queue_inv_alt drainLane_good [of l "{}"] drainLane_waiters [of "{l}"])

section \<open>Every event keeps the invariant\<close>

lemma getLaneState_of_inv:
  assumes "queue_inv s"
  obtains st s1 where "getLaneState l s = (st, s1)" "queue_inv s1"
    "map_get (cq_lanes s1) l = Some st" "ls_lane st = l" "\<not> ls_draining st"
    "cq_running s1 = cq_running s" "cq_log s1 = cq_log s"
    "\<And>i. is_active s1 i = is_active s i"
proof -
  obtain st s1 where g: "getLaneState l s = (st, s1)" by fastforce
  note * = getLaneState_inv [of "{}" "{#}", OF _ g]
  show ?thesis
    using * assms by (intro that [OF g]) (auto simp: queue_inv_alt waiters_wait_def)
qed

lemma balance_shift:
  fixes a q r t q' l l' acc settled :: "nat multiset"
  assumes a: "a = q + r + t" and q: "q' + l = q + l'" and l: "acc + l = l' + settled"
  shows "a + acc = q' + r + (t + settled)"
proof -
  have "a + acc + l = a + (l' + settled)" using l by (simp add: add.assoc)
  also have "\<dots> = (q + l') + (r + t + settled)" by (simp add: a ac_simps)
  also have "\<dots> = (q' + l) + (r + t + settled)" by (simp only: q)
  finally show ?thesis by (simp add: ac_simps)
qed

text \<open>Replacing a lane's queue or limit and then draining it.\<close>

lemma replace_and_drain:
  assumes inv: "queue_inv s" and get: "map_get (cq_lanes s) l = Some st"
    and same: "ls_lane st' = ls_lane st" "ls_activeTaskIds st' = ls_activeTaskIds st"
      "ls_draining st' = ls_draining st" "ls_generation st' = ls_generation st"
    and limit: "1 \<le> ls_maxConcurrent st'"
    and tickets: "accepted_tickets lg + lane_tickets st = lane_tickets st' + settled_tickets lg"
  shows "queue_inv (drainLane now l
    (s\<lparr>cq_lanes := map_put l st' (cq_lanes s), cq_log := cq_log s @ lg\<rparr>))"
proof -
  let ?s = "s\<lparr>cq_lanes := map_put l st' (cq_lanes s), cq_log := cq_log s @ lg\<rparr>"
  have "core_inv ?s"
    using core_replace [OF _ get same limit] inv by (simp add: queue_inv_def core_inv_def)
  moreover have "busy_except {l} ?s"
    using inv by (auto simp: queue_inv_def busy_except_def jm.get_put)
  moreover have "queued_tickets ?s + lane_tickets st = queued_tickets s + lane_tickets st'"
    using sum_list_map_put(2) [OF get, of "\<lambda>(_, st). lane_tickets st" st']
    by (simp add: queued_tickets_def)
  then have "tickets_balance {#} ?s"
    using inv tickets balance_shift [of "accepted_tickets (cq_log s)" "queued_tickets s"
        "running_tickets s" "settled_tickets (cq_log s)" "queued_tickets ?s" "lane_tickets st"
        "lane_tickets st'" "accepted_tickets lg" "settled_tickets lg"]
    by (simp add: queue_inv_def tickets_balance_def running_tickets_def)
  moreover have "waiters_wait ?s"
  proof -
    have "is_active ?s i = is_active s i" for i
      using is_active_put_same [of st' s l i] get same(2)
      by (simp add: is_active_def active_in_def)
    then show ?thesis using inv by (simp add: queue_inv_def waiters_wait_def)
  qed
  ultimately show ?thesis by (intro drain_inv) (simp_all add: lanes_good_def)
qed

lemma enqueue_inv: "queue_inv s \<Longrightarrow> queue_inv (enqueueCommandInLane now lane ticket warn onWait s)"
proof -
  assume inv: "queue_inv s"
  let ?l = "normalizeLane lane"
  obtain st s1 where g: "getLaneState ?l s = (st, s1)" "queue_inv s1"
      "map_get (cq_lanes s1) ?l = Some st" "cq_log s1 = cq_log s"
    by (rule getLaneState_of_inv [OF inv])
  have limit: "1 \<le> ls_maxConcurrent st"
    using g by (auto simp: queue_inv_def core_inv_def lane_fits_def)
  show ?thesis
  proof (cases "cq_gatewayDraining s")
    case True
    with inv show ?thesis
      by (simp add: enqueueCommandInLane_def queue_inv_def core_inv_def busy_except_def
          waiters_wait_def is_active_def active_in_def tickets_balance_def queued_tickets_def
          running_tickets_def)
  next
    case False
    with g(1) limit show ?thesis
      by (simp add: enqueueCommandInLane_def Let_def, intro replace_and_drain [OF g(2,3)])
        (simp_all add: lane_tickets_def)
  qed
qed

lemma set_concurrency_inv: "queue_inv s \<Longrightarrow> queue_inv (setCommandLaneConcurrency now lane n s)"
proof -
  assume inv: "queue_inv s"
  let ?l = "normalizeLane lane"
  obtain st s1 where g: "getLaneState ?l s = (st, s1)" "queue_inv s1"
      "map_get (cq_lanes s1) ?l = Some st"
    by (rule getLaneState_of_inv [OF inv])
  have "queue_inv (drainLane now ?l
      (s1\<lparr>cq_lanes := map_put ?l (st\<lparr>ls_maxConcurrent := max 1 \<lfloor>n\<rfloor>\<rparr>) (cq_lanes s1),
          cq_log := cq_log s1 @ []\<rparr>))"
    by (rule replace_and_drain [OF g(2,3)]) (simp_all add: lane_tickets_def)
  then show ?thesis using g(1) by (simp add: setCommandLaneConcurrency_def Let_def)
qed

lemma clear_inv: "queue_inv s \<Longrightarrow> queue_inv (snd (clearCommandLane lane s))"
proof (cases "map_get (cq_lanes s) (normalizeLane lane)")
  case None
  then show "queue_inv s \<Longrightarrow> ?thesis" by (simp add: clearCommandLane_def Let_def)
next
  case (Some st)
  assume inv: "queue_inv s"
  let ?l = "normalizeLane lane" and ?st = "st\<lparr>ls_queue := []\<rparr>"
  let ?out = "map (\<lambda>e. Rejected (qe_ticket e) (CommandLaneClearedError (normalizeLane lane))) (ls_queue st)"
  let ?s = "s\<lparr>cq_lanes := map_put ?l ?st (cq_lanes s), cq_log := cq_log s @ ?out\<rparr>"
  have eq: "snd (clearCommandLane lane s) = ?s" using Some by (simp add: clearCommandLane_def Let_def)
  have limit: "1 \<le> ls_maxConcurrent st"
    using inv Some by (auto simp: queue_inv_def core_inv_def lane_fits_def)
  have "core_inv ?s"
    using core_replace [OF _ Some, of ?st] inv limit by (simp add: queue_inv_def core_inv_def)
  moreover have "busy_except {} ?s"
    using inv by (auto simp: queue_inv_def busy_except_def jm.get_put lane_busy_def)
  moreover have "settled_tickets ?out = lane_tickets st" "accepted_tickets ?out = {#}"
    by (induction "ls_queue st") (simp_all add: settled_tickets_def accepted_tickets_def lane_tickets_def o_def)
  then have "tickets_balance {#} ?s"
    using sum_list_map_put(2) [OF Some, of "\<lambda>(_, st). lane_tickets st" ?st] inv
      balance_shift [of "accepted_tickets (cq_log s)" "queued_tickets s" "running_tickets s"
        "settled_tickets (cq_log s)" "queued_tickets ?s" "lane_tickets st" "{#}" "{#}" "lane_tickets st"]
    by (simp add: queue_inv_def tickets_balance_def running_tickets_def queued_tickets_def lane_tickets_def)
  moreover have "waiters_wait ?s"
  proof -
    have "is_active ?s i = is_active s i" for i
      using is_active_put_same [of ?st s ?l i] Some by (simp add: is_active_def active_in_def)
    then show ?thesis using inv by (simp add: queue_inv_def waiters_wait_def)
  qed
  ultimately show "queue_inv (snd (clearCommandLane lane s))" by (simp add: queue_inv_def eq)
qed

lemma map_get_map_snd: "map_get (map (\<lambda>(l, st). (l, f st)) m) l = map_option f (map_get m l)"
  by (induction m) (auto split: prod.splits)

lemma reset_lanes_good:
  assumes inv: "queue_inv s"
  shows "lanes_good (set (map (\<lambda>(_, st). ls_lane st) (filter (\<lambda>(_, st). ls_queue st \<noteq> [])
             (map (\<lambda>(l, st). (l, reset_lane st)) (cq_lanes s)))) \<union> {}) {#}
           (s\<lparr>cq_gatewayDraining := False, cq_lanes := map (\<lambda>(l, st). (l, reset_lane st)) (cq_lanes s)\<rparr>)"
    (is "lanes_good (?L \<union> {}) {#} ?s")
proof -
  have fits: "lane_fits (set (cq_running s)) l (reset_lane st)"
    if "map_get (cq_lanes s) l = Some st" for l st
    using inv that by (fastforce simp: queue_inv_def core_inv_def lane_fits_def reset_lane_def)
  have "core_inv ?s"
    using inv fits unfolding queue_inv_def core_inv_def
    by (fastforce simp: map_get_map_snd map_ok_def o_def case_prod_beta reset_lane_def)
  moreover have "busy_except ?L ?s"
    unfolding busy_except_def
  proof (intro allI impI)
    fix l st assume st: "map_get (cq_lanes ?s) l = Some st" and out: "l \<notin> ?L"
    then obtain st0 where st0: "map_get (cq_lanes s) l = Some st0" "st = reset_lane st0"
      by (auto simp: map_get_map_snd)
    then have "(l, reset_lane st0) \<in> set (map (\<lambda>(l, st). (l, reset_lane st)) (cq_lanes s))"
      by (auto dest: map_get_in_set)
    moreover have "ls_lane st = l" using fits [OF st0(1)] st0(2) by (simp add: lane_fits_def)
    ultimately have "ls_queue st = []" using out st0(2) by force
    then show "lane_busy st" by (simp add: lane_busy_def)
  qed
  moreover have "tickets_balance {#} ?s"
    using inv by (simp add: queue_inv_def tickets_balance_def queued_tickets_def running_tickets_def
        o_def case_prod_unfold lane_tickets_def reset_lane_def)
  ultimately show ?thesis by (simp add: lanes_good_def)
qed

lemma notify_good: "lanes_good A owed s \<Longrightarrow> lanes_good A owed (notifyActiveTaskWaiters s)"
  by (simp add: lanes_good_def core_inv_def busy_except_def tickets_balance_def queued_tickets_def
      running_tickets_def)

lemma reset_inv: "queue_inv s \<Longrightarrow> queue_inv (resetAllLanes now s)"
  using fold_drain_good [OF reset_lanes_good, of s now]
  by (simp add: resetAllLanes_def Let_def queue_inv_alt notify_good)
    (simp add: lanes_good_def core_inv_def notify_waiters_wait)

text \<open>Steps that touch only the waiters, the draining flag or settled diagnostics.\<close>

lemma queue_inv_frame:
  assumes "queue_inv s" and "cq_lanes t = cq_lanes s" and "cq_running t = cq_running s"
    and "cq_nextTaskId t = cq_nextTaskId s"
    and "settled_tickets (cq_log t) = settled_tickets (cq_log s)"
    and "accepted_tickets (cq_log t) = accepted_tickets (cq_log s)"
    and "waiters_wait t"
  shows "queue_inv t"
  using assms by (simp add: queue_inv_def core_inv_def busy_except_def tickets_balance_def
      queued_tickets_def running_tickets_def)

lemma wait_inv: "queue_inv s \<Longrightarrow> queue_inv (waitForActiveTasks wid t s)"
proof -
  assume inv: "queue_inv s"
  let ?w = "\<lparr>aw_id = wid, aw_activeTaskIds =
      remdups (concat (map (\<lambda>(_, st). ls_activeTaskIds st) (cq_lanes s)))\<rparr>"
  have "waiters_wait (notifyActiveTaskWaiters (s\<lparr>cq_activeTaskWaiters := cq_activeTaskWaiters s @ [?w]\<rparr>))"
    using inv by (intro notify_waiters_wait) (simp add: queue_inv_def core_inv_def)
  moreover have "waiters_wait (s\<lparr>cq_log := l\<rparr>)" for l
    using inv by (simp add: queue_inv_def waiters_wait_def is_active_def active_in_def)
  ultimately show ?thesis
    unfolding waitForActiveTasks_def Let_def
    by (auto intro!: queue_inv_frame [OF inv])
qed

lemma resolve_waiters_wait: "waiters_wait s \<Longrightarrow> waiters_wait (resolveActiveTaskWaiter w d s)"
  using is_active_cong [of "resolveActiveTaskWaiter w d s" s]
  by (auto simp: waiters_wait_def resolveActiveTaskWaiter_def)

lemma timeout_inv: "queue_inv s \<Longrightarrow> queue_inv (waiter_timeout wid s)"
proof -
  have "queue_inv s \<Longrightarrow> queue_inv (fold (\<lambda>w. resolveActiveTaskWaiter w False) ws s)" for ws
  proof (induction ws arbitrary: s)
    case (Cons w ws)
    have "queue_inv (resolveActiveTaskWaiter w False s)"
      using Cons.prems by (rule queue_inv_frame)
        (simp_all add: resolve_waiters_wait Cons.prems [unfolded queue_inv_def])
    then show ?case by (simp add: Cons.IH)
  qed simp
  then show "queue_inv s \<Longrightarrow> ?thesis" by (simp add: waiter_timeout_def)
qed

lemma mark_inv: "queue_inv s \<Longrightarrow> queue_inv (markGatewayDraining s)"
  by (rule queue_inv_frame)
    (simp_all add: markGatewayDraining_def queue_inv_def waiters_wait_def is_active_def active_in_def)

section \<open>Completions\<close>

lemma find_running:
  assumes "find (\<lambda>r. rt_taskId r = i) rs = Some r" and "distinct (map rt_taskId rs)"
  shows "r \<in> set rs" "rt_taskId r = i"
    "set (filter (\<lambda>r. rt_taskId r \<noteq> i) rs) = set rs - {r}"
    "mset (map rt_ticket rs) = add_mset (rt_ticket r) (mset (map rt_ticket (filter (\<lambda>r. rt_taskId r \<noteq> i) rs)))"
proof -
  show r: "r \<in> set rs" "rt_taskId r = i"
    using assms(1) by (auto simp: find_Some_iff)
  show "set (filter (\<lambda>r. rt_taskId r \<noteq> i) rs) = set rs - {r}"
    using assms(2) r by (auto simp: distinct_map inj_on_def)
  show "mset (map rt_ticket rs) = add_mset (rt_ticket r) (mset (map rt_ticket (filter (\<lambda>r. rt_taskId r \<noteq> i) rs)))"
    using assms(2) r
  proof (induction rs)
    case (Cons a rs)
    show ?case
    proof (cases "rt_taskId a = i")
      case True
      then have "r = a" "filter (\<lambda>r. rt_taskId r \<noteq> i) rs = rs"
        using Cons.prems by (auto simp: filter_id_conv image_iff)
      with True show ?thesis by simp
    next
      case False
      with Cons show ?thesis by auto
    qed
  qed simp
qed

text \<open>A completion of an older generation changes no lane: only the closure disappears and
  its caller's promise is settled.\<close>

lemma stale_settled:
  assumes inv: "queue_inv s" and r: "find (\<lambda>r. rt_taskId r = i) (cq_running s) = Some r"
    and st: "map_get (cq_lanes s) (rt_lane r) = Some st" and stale: "rt_generation r \<noteq> ls_generation st"
  shows "cq_lanes (task_settled now i res s) = map_put (rt_lane r) st (cq_lanes s)"
    and "cq_running (task_settled now i res s) = filter (\<lambda>r. rt_taskId r \<noteq> i) (cq_running s)"
    and "cq_activeTaskWaiters (task_settled now i res s) = cq_activeTaskWaiters s"
    and "cq_nextTaskId (task_settled now i res s) = cq_nextTaskId s"
    and "cq_log (task_settled now i res s) = cq_log s @
      (case res of TaskResolved \<Rightarrow> [] | TaskRejected err \<Rightarrow> failure_outputs (rt_lane r) err)
      @ [settle_output (rt_ticket r) res]"
  using r st stale by (simp_all add: task_settled_def getLaneState_def completeTask_def Let_def
      split: task_result.split)

lemma map_put_same: "map_get m k = Some v \<Longrightarrow> map_put k v m = m"
  by (induction m) (auto split: if_splits)

lemma failure_outputs_tickets [simp]:
  "settled_tickets (failure_outputs lane err) = {#}"
  "accepted_tickets (failure_outputs lane err) = {#}"
  by (simp_all add: failure_outputs_def)

lemma settle_output_tickets [simp]:
  "settled_by (settle_output t res) = [t]" "accepted_by (settle_output t res) = []"
  by (simp_all add: settle_output_def split: task_result.split)

lemma core_complete:
  assumes core: "core_inv s" and r: "find (\<lambda>r. rt_taskId r = i) (cq_running s) = Some r"
    and st: "map_get (cq_lanes s) (rt_lane r) = Some st" and gen: "rt_generation r = ls_generation st"
  shows "core_inv (s\<lparr>cq_running := filter (\<lambda>r. rt_taskId r \<noteq> i) (cq_running s),
     cq_lanes := map_put (rt_lane r)
       (st\<lparr>ls_activeTaskIds := filter (\<lambda>j. j \<noteq> i) (ls_activeTaskIds st)\<rparr>) (cq_lanes s)\<rparr>)"
proof -
  let ?st = "st\<lparr>ls_activeTaskIds := filter (\<lambda>j. j \<noteq> i) (ls_activeTaskIds st)\<rparr>"
  have ids: "distinct (map rt_taskId (cq_running s))" using core by (simp add: core_inv_def)
  note run = find_running [OF r ids]
  have uniq: "r' = r" if "r' \<in> set (cq_running s)" "rt_taskId r' = i" for r'
    using ids run(1,2) that by (auto simp: distinct_map inj_on_def)
  have fits: "lane_fits (set (cq_running s)) l st'" if "map_get (cq_lanes s) l = Some st'" for l st'
    using core that by (simp add: core_inv_def)
  have here: "lane_fits (set (cq_running s) - {r}) (rt_lane r) ?st"
    using fits [OF st] run(2) uniq by (auto simp: lane_fits_def)
  have other: "lane_fits (set (cq_running s) - {r}) l st'"
    if "map_get (cq_lanes s) l = Some st'" "l \<noteq> rt_lane r" for l st'
    using fits [OF that(1)] that(2) by (auto simp: lane_fits_def)
  have ids': "distinct (map rt_taskId (filter (\<lambda>r. rt_taskId r \<noteq> i) (cq_running s)))"
    using ids by (simp add: distinct_map inj_on_def)
  have gens: "rt_taskId r' < cq_nextTaskId s \<and>
      (\<exists>st'. map_get (map_put (rt_lane r) ?st (cq_lanes s)) (rt_lane r') = Some st' \<and>
         rt_generation r' \<le> ls_generation st')" if "r' \<in> set (cq_running s)" for r'
    using core st that by (cases "rt_lane r' = rt_lane r") (force simp: core_inv_def jm.get_put)+
  show ?thesis
    unfolding core_inv_def using core here other ids' gens run(3)
    by (simp add: core_inv_def jm.get_put)
qed

lemma tickets_complete:
  assumes inv: "queue_inv s" and r: "find (\<lambda>r. rt_taskId r = i) (cq_running s) = Some r"
  shows "accepted_tickets (cq_log s) = queued_tickets s +
      mset (map rt_ticket (filter (\<lambda>r. rt_taskId r \<noteq> i) (cq_running s))) +
      settled_tickets (cq_log s) + {#rt_ticket r#}"
proof -
  have "distinct (map rt_taskId (cq_running s))" using inv by (simp add: queue_inv_def core_inv_def)
  from find_running(4) [OF r this] inv show ?thesis
    by (simp add: queue_inv_def tickets_balance_def running_tickets_def)
qed

lemma stale_inv:
  assumes inv: "queue_inv s" and r: "find (\<lambda>r. rt_taskId r = i) (cq_running s) = Some r"
    and st: "map_get (cq_lanes s) (rt_lane r) = Some st" and stale: "rt_generation r \<noteq> ls_generation st"
  shows "queue_inv (task_settled now i res s)"
proof -
  let ?t = "task_settled now i res s"
  note eff = stale_settled [OF inv r st stale, of now res, unfolded map_put_same [OF st]]
  have ids: "distinct (map rt_taskId (cq_running s))" using inv by (simp add: queue_inv_def core_inv_def)
  note run = find_running [OF r ids]
  have fits: "lane_fits (set (cq_running s) - {r}) l st'" if "map_get (cq_lanes s) l = Some st'" for l st'
    using inv that st stale by (fastforce simp: queue_inv_def core_inv_def lane_fits_def)
  have "core_inv ?t"
    unfolding core_inv_def eff using inv fits run(3) ids
    by (simp add: queue_inv_def core_inv_def distinct_map inj_on_def)
  moreover have "busy_except {} ?t" using inv eff(1) by (simp add: queue_inv_def busy_except_def)
  moreover have "waiters_wait ?t"
    using inv eff(1,3) by (simp add: queue_inv_def waiters_wait_def is_active_def active_in_def)
  moreover have "tickets_balance {#} ?t"
    using tickets_complete [OF inv r] eff
    by (simp add: tickets_balance_def queued_tickets_def running_tickets_def split: task_result.split)
  ultimately show ?thesis by (simp add: queue_inv_def)
qed

lemma current_inv:
  assumes inv: "queue_inv s" and r: "find (\<lambda>r. rt_taskId r = i) (cq_running s) = Some r"
    and st: "map_get (cq_lanes s) (rt_lane r) = Some st" and gen: "rt_generation r = ls_generation st"
  shows "queue_inv (task_settled now i res s)"
proof -
  let ?l = "rt_lane r"
  let ?st = "st\<lparr>ls_activeTaskIds := filter (\<lambda>j. j \<noteq> i) (ls_activeTaskIds st)\<rparr>"
  let ?fail = "case res of TaskResolved \<Rightarrow> [] | TaskRejected err \<Rightarrow> failure_outputs ?l err"
  let ?s2 = "s\<lparr>cq_running := filter (\<lambda>r. rt_taskId r \<noteq> i) (cq_running s),
     cq_lanes := map_put ?l ?st (cq_lanes s), cq_log := cq_log s @ ?fail\<rparr>"
  let ?n = "notifyActiveTaskWaiters ?s2"
  let ?n' = "?n\<lparr>cq_log := cq_log ?n @ (case res of TaskResolved \<Rightarrow> [LaneTaskDone ?l] | _ \<Rightarrow> [])\<rparr>"
  let ?p = "pump now ?st ?n'"
  have eff: "task_settled now i res s = ?p\<lparr>cq_log := cq_log ?p @ [settle_output (rt_ticket r) res]\<rparr>"
    using r st gen by (simp add: task_settled_def getLaneState_def completeTask_def Let_def)
  have core: "core_inv ?s2"
    using core_complete [OF _ r st gen] inv by (simp add: queue_inv_def core_inv_def)
  have lane: "ls_lane st = ?l" "\<not> ls_draining st"
    using lane_of_key [OF _ st] inv by (simp_all add: queue_inv_def)
  have busy: "busy_except {?l} ?s2"
    using inv by (auto simp: queue_inv_def busy_except_def jm.get_put)
  have queued: "queued_tickets ?s2 = queued_tickets s"
    using sum_list_map_put(2) [OF st, of "\<lambda>(_, st). lane_tickets st" ?st]
    by (simp add: queued_tickets_def lane_tickets_def)
  have "tickets_balance {#rt_ticket r#} ?s2"
    using tickets_complete [OF inv r] queued
    by (simp add: tickets_balance_def running_tickets_def split: task_result.split)
  then have good: "lanes_good {?l} {#rt_ticket r#} ?s2"
    using core busy by (simp add: lanes_good_def)
  have good': "lanes_good {?l} {#rt_ticket r#} ?n'"
    using notify_good [OF good]
    by (simp add: lanes_good_def core_inv_def busy_except_def tickets_balance_def queued_tickets_def
        running_tickets_def split: task_result.split)
  have wait: "waiters_wait ?n'"
    using notify_waiters_wait [of ?s2] core
    by (simp add: core_inv_def waiters_wait_def is_active_def active_in_def)
  have get: "map_get (cq_lanes ?n') ?l = Some ?st" by (simp add: jm.get_put)
  have "lanes_good {} {#rt_ticket r#} ?p"
    using good' get lane by (intro pump_good [of ?l]) simp_all
  moreover have "waiters_wait ?p"
    using wait get lane by (intro pump_waiters) simp_all
  ultimately show ?thesis
    unfolding eff queue_inv_def lanes_good_def
    by (simp add: core_inv_def busy_except_def waiters_wait_def is_active_def active_in_def
        tickets_balance_def queued_tickets_def running_tickets_def)
qed

lemma settled_inv: "queue_inv s \<Longrightarrow> queue_inv (task_settled now i res s)"
proof (cases "find (\<lambda>r. rt_taskId r = i) (cq_running s)")
  case None
  then show "queue_inv s \<Longrightarrow> ?thesis" by (simp add: task_settled_def)
next
  case (Some r)
  assume inv: "queue_inv s"
  have "r \<in> set (cq_running s)" using Some by (auto simp: find_Some_iff)
  then obtain st where st: "map_get (cq_lanes s) (rt_lane r) = Some st"
    using inv by (auto simp: queue_inv_def core_inv_def)
  show "queue_inv (task_settled now i res s)"
    using current_inv [OF inv Some st] stale_inv [OF inv Some st] by blast
qed

lemma queue_step_inv: "queue_inv s \<Longrightarrow> queue_inv (queue_step s e)"
  by (cases "(s, e)" rule: queue_step.cases)
    (auto simp: enqueue_inv set_concurrency_inv clear_inv reset_inv mark_inv wait_inv timeout_inv settled_inv)

interpretation cq: invariant_machine queue_step queue_inv
  by unfold_locales (rule queue_step_inv)

lemma queue_inv_init: "queue_inv getQueueState_init"
  by (simp add: queue_inv_def core_inv_def getQueueState_init_def busy_except_def waiters_wait_def
      tickets_balance_def queued_tickets_def running_tickets_def)

lemma queue_run_inv: "queue_inv (queue_run es)"
  unfolding queue_run_def by (rule cq.run_inv [OF queue_inv_init])

section \<open>Serial lanes\<close>

text \<open>Without a call of \<open>setCommandLaneConcurrency\<close> every lane keeps its default limit of one.\<close>

definition serial_lane :: "lane_state \<Rightarrow> bool" where
  "serial_lane st \<longleftrightarrow> ls_maxConcurrent st = 1 \<and> length (ls_activeTaskIds st) \<le> 1"

definition all_serial :: "command_queue_state \<Rightarrow> bool" where
  "all_serial s \<longleftrightarrow> list_all (\<lambda>(_, st). serial_lane st) (cq_lanes s)"

lemma list_all_map_put: "list_all P m \<Longrightarrow> P (k, v) \<Longrightarrow> list_all P (map_put k v m)"
  using set_map_put_subset [of k v m] by (auto simp: list_all_iff)

lemma all_serial_get: "all_serial s \<Longrightarrow> map_get (cq_lanes s) l = Some st \<Longrightarrow> serial_lane st"
  by (auto simp: all_serial_def list_all_iff dest: map_get_in_set)

lemma pump_serial: "all_serial s \<Longrightarrow> serial_lane st \<Longrightarrow> all_serial (pump now st s)"
proof -
  assume a: "all_serial s" and st: "serial_lane st"
  obtain rs outs where "pump now st s = s\<lparr>cq_lanes := map_put (ls_lane st)
         ((pumped (cq_nextTaskId s) st)\<lparr>ls_draining := False\<rparr>) (cq_lanes s),
       cq_nextTaskId := cq_nextTaskId s + pump_count st,
       cq_running := cq_running s @ rs, cq_log := cq_log s @ outs\<rparr>"
    by (rule pump_effect)
  with a st pumped_within_limit [of _ st] show ?thesis
    by (auto simp: all_serial_def serial_lane_def intro!: list_all_map_put)
qed

lemma getLaneState_serial:
  "all_serial s \<Longrightarrow> getLaneState l s = (st, s1) \<Longrightarrow> all_serial s1 \<and> serial_lane st"
  by (auto simp: getLaneState_def Let_def all_serial_get split: option.splits)
    (auto simp: all_serial_def serial_lane_def fresh_lane_def intro!: list_all_map_put)

lemma drain_serial: "all_serial s \<Longrightarrow> all_serial (drainLane now l s)"
proof -
  assume a: "all_serial s"
  obtain st s1 where g: "getLaneState l s = (st, s1)" by fastforce
  have "all_serial s1" "serial_lane (st\<lparr>ls_draining := True\<rparr>)"
    using getLaneState_serial [OF a g] by (auto simp: serial_lane_def)
  then show ?thesis
    by (auto simp: drainLane_def g intro!: pump_serial) (simp add: all_serial_def)
qed

lemma fold_drain_serial: "all_serial s \<Longrightarrow> all_serial (fold (drainLane now) ls s)"
  by (induction ls arbitrary: s) (auto intro: drain_serial)

lemma serial_frame: "cq_lanes t = cq_lanes s \<Longrightarrow> all_serial t = all_serial s"
  by (simp add: all_serial_def)

lemma timeout_lanes [simp]: "cq_lanes (waiter_timeout wid s) = cq_lanes s"
proof -
  have "cq_lanes (fold (\<lambda>w. resolveActiveTaskWaiter w False) ws s) = cq_lanes s" for ws
    by (induction ws arbitrary: s) simp_all
  then show ?thesis by (simp add: waiter_timeout_def)
qed

lemma serial_log: "all_serial (s\<lparr>cq_log := lg\<rparr>) = all_serial s"
  by (simp add: all_serial_def)

lemma settled_serial:
  assumes a: "all_serial s"
  shows "all_serial (task_settled now i res s)"
proof (cases "find (\<lambda>r. rt_taskId r = i) (cq_running s)")
  case None
  then show ?thesis by (simp add: task_settled_def a)
next
  case (Some r)
  let ?s0 = "s\<lparr>cq_running := filter (\<lambda>r. rt_taskId r \<noteq> i) (cq_running s)\<rparr>"
  obtain st s1 where g: "getLaneState (rt_lane r) ?s0 = (st, s1)" by fastforce
  obtain st' b where c: "completeTask st i (rt_generation r) = (st', b)" by fastforce
  have s1: "all_serial s1" "serial_lane st"
    using getLaneState_serial [OF _ g] serial_frame [of ?s0 s] a by simp_all
  have st': "serial_lane st'"
    using s1(2) c order_trans [OF length_filter_le]
    by (auto simp: completeTask_def serial_lane_def split: if_splits)
  have put: "all_serial (s1\<lparr>cq_lanes := map_put l st' (cq_lanes s1), cq_log := lg\<rparr>)" for l lg
    using s1(1) st' by (auto simp: all_serial_def intro!: list_all_map_put)
  show ?thesis
    using put st' by (auto simp: task_settled_def Some g c Let_def serial_log
        serial_frame [OF notify_frame(1)] intro!: pump_serial split: task_result.split)
qed

lemma serial_put:
  "all_serial s \<Longrightarrow> serial_lane st \<Longrightarrow> all_serial (s\<lparr>cq_lanes := map_put l st (cq_lanes s), cq_log := lg\<rparr>)"
  by (auto simp: all_serial_def intro!: list_all_map_put)

lemma enqueue_serial: "all_serial s \<Longrightarrow> all_serial (enqueueCommandInLane now lane ticket warn onWait s)"
proof -
  assume a: "all_serial s"
  obtain st s1 where g: "getLaneState (normalizeLane lane) s = (st, s1)" by fastforce
  have "all_serial s1" "serial_lane (st\<lparr>ls_queue := q\<rparr>)" for q
    using getLaneState_serial [OF a g] by (simp_all add: serial_lane_def)
  then show ?thesis
    using a by (simp add: enqueueCommandInLane_def g Let_def drain_serial serial_put)
      (simp add: all_serial_def)
qed

lemma clear_serial: "all_serial s \<Longrightarrow> all_serial (snd (clearCommandLane lane s))"
  using all_serial_get [of s "normalizeLane lane"]
  by (auto simp: clearCommandLane_def Let_def serial_lane_def intro!: serial_put split: option.splits)

lemma reset_serial: "all_serial s \<Longrightarrow> all_serial (resetAllLanes now s)"
proof -
  assume "all_serial s"
  then have "all_serial (s\<lparr>cq_gatewayDraining := False,
      cq_lanes := map (\<lambda>(l, st). (l, reset_lane st)) (cq_lanes s)\<rparr>)"
    by (auto simp: all_serial_def list_all_iff serial_lane_def reset_lane_def)
  then show ?thesis
    by (simp add: resetAllLanes_def Let_def serial_frame [OF notify_frame(1)] fold_drain_serial)
qed

lemma wait_lanes [simp]: "cq_lanes (waitForActiveTasks wid t s) = cq_lanes s"
  by (simp add: waitForActiveTasks_def Let_def)

lemma serial_step:
  "all_serial s \<Longrightarrow> (\<And>l n. snd e \<noteq> SetConcurrency l n) \<Longrightarrow> all_serial (queue_step s e)"
  by (cases "(s, e)" rule: queue_step.cases)
    (auto simp: enqueue_serial clear_serial reset_serial settled_serial
      serial_frame [OF wait_lanes] serial_frame [OF timeout_lanes] markGatewayDraining_def
      serial_frame [of "_\<lparr>cq_gatewayDraining := True\<rparr>"])

lemma run_serial:
  "all_serial s \<Longrightarrow> \<forall>e \<in> set es. \<forall>l n. snd e \<noteq> SetConcurrency l n \<Longrightarrow>
   all_serial (foldl queue_step s es)"
  by (induction es arbitrary: s) (simp_all add: serial_step)

section \<open>A draining gateway accepts nothing\<close>

definition refuses :: "nat multiset \<Rightarrow> command_queue_state \<Rightarrow> bool" where
  "refuses accepted s \<longleftrightarrow> cq_gatewayDraining s \<and> accepted_tickets (cq_log s) = accepted"

lemma getLaneState_frame:
  "getLaneState l s = (st, s1) \<Longrightarrow>
     cq_gatewayDraining s1 = cq_gatewayDraining s \<and> cq_log s1 = cq_log s \<and>
     cq_running s1 = cq_running s \<and> cq_activeTaskWaiters s1 = cq_activeTaskWaiters s"
  by (auto simp: getLaneState_def Let_def split: option.splits)

lemma pump_frame [simp]:
  "cq_gatewayDraining (pump now st s) = cq_gatewayDraining s"
  "accepted_tickets (cq_log (pump now st s)) = accepted_tickets (cq_log s)"
  "settled_tickets (cq_log (pump now st s)) = settled_tickets (cq_log s)"
  by (rule pump_effect [of now st s]; simp)+

lemma drain_frame [simp]:
  "cq_gatewayDraining (drainLane now l s) = cq_gatewayDraining s"
  "accepted_tickets (cq_log (drainLane now l s)) = accepted_tickets (cq_log s)"
  "settled_tickets (cq_log (drainLane now l s)) = settled_tickets (cq_log s)"
  by (auto simp: drainLane_def getLaneState_frame split: prod.splits)

lemma timeout_frame:
  "cq_gatewayDraining (waiter_timeout wid s) = cq_gatewayDraining s \<and>
   accepted_tickets (cq_log (waiter_timeout wid s)) = accepted_tickets (cq_log s)"
proof -
  have "cq_gatewayDraining (fold (\<lambda>w. resolveActiveTaskWaiter w False) ws s) = cq_gatewayDraining s \<and>
    accepted_tickets (cq_log (fold (\<lambda>w. resolveActiveTaskWaiter w False) ws s)) =
      accepted_tickets (cq_log s)" for ws
    by (induction ws arbitrary: s) simp_all
  then show ?thesis by (simp add: waiter_timeout_def)
qed

lemma settled_frame:
  "cq_gatewayDraining (task_settled now i res s) = cq_gatewayDraining s \<and>
   accepted_tickets (cq_log (task_settled now i res s)) = accepted_tickets (cq_log s)"
  by (auto simp: task_settled_def Let_def getLaneState_frame split: option.splits prod.splits task_result.splits)

lemma refuses_step: "refuses a s \<Longrightarrow> snd e \<noteq> ResetAll \<Longrightarrow> refuses a (queue_step s e)"
proof (cases "(s, e)" rule: queue_step.cases)
  case (2 s' now lane n)
  then show "refuses a s \<Longrightarrow> ?thesis"
    by (auto simp: refuses_def setCommandLaneConcurrency_def Let_def getLaneState_frame split: prod.splits)
next
  case (3 s' now lane)
  have "accepted_tickets (map (\<lambda>e. Rejected (qe_ticket e) err) q) = {#}" for q :: "queue_entry list" and err
    by (induction q) simp_all
  with 3 show "refuses a s \<Longrightarrow> ?thesis"
    by (auto simp: refuses_def clearCommandLane_def Let_def split: option.splits)
qed (auto simp: refuses_def enqueueCommandInLane_def markGatewayDraining_def waitForActiveTasks_def
    Let_def timeout_frame settled_frame)

lemma run_refuses:
  "refuses a s \<Longrightarrow> \<forall>e \<in> set es. snd e \<noteq> ResetAll \<Longrightarrow> refuses a (foldl queue_step s es)"
  by (induction es arbitrary: s) (simp_all add: refuses_step)

section \<open>What a reset does to work in flight\<close>

text \<open>The generation of a lane never changes while it is drained.\<close>

definition lane_generation :: "command_queue_state \<Rightarrow> string \<Rightarrow> nat option" where
  "lane_generation s l = map_option ls_generation (map_get (cq_lanes s) l)"

lemma drain_generation:
  assumes "core_inv s" and "lane_generation s l' = Some g"
  shows "lane_generation (drainLane now l s) l' = Some g"
proof -
  obtain st s1 where get: "getLaneState l s = (st, s1)" by fastforce
  have s1: "lane_generation s1 l' = Some g" "map_get (cq_lanes s1) l = Some st" "ls_lane st = l"
    using get assms lane_of_key [OF assms(1), of l]
    by (auto simp: getLaneState_def Let_def lane_generation_def jm.get_put fresh_lane_def
        split: option.splits)
  have "lane_generation (pump now (st\<lparr>ls_draining := True\<rparr>) s1) l' = Some g"
  proof -
    obtain rs outs where "pump now (st\<lparr>ls_draining := True\<rparr>) s1 =
        s1\<lparr>cq_lanes := map_put (ls_lane (st\<lparr>ls_draining := True\<rparr>))
         ((pumped (cq_nextTaskId s1) (st\<lparr>ls_draining := True\<rparr>))\<lparr>ls_draining := False\<rparr>) (cq_lanes s1),
       cq_nextTaskId := cq_nextTaskId s1 + pump_count (st\<lparr>ls_draining := True\<rparr>),
       cq_running := cq_running s1 @ rs, cq_log := cq_log s1 @ outs\<rparr>"
      by (rule pump_effect)
    with s1 show ?thesis by (auto simp: lane_generation_def jm.get_put)
  qed
  with s1 get show ?thesis by (simp add: drainLane_def) (simp add: lane_generation_def)
qed

lemma drain_running: "set (cq_running s) \<subseteq> set (cq_running (drainLane now l s))"
proof -
  obtain st s1 where get: "getLaneState l s = (st, s1)" by fastforce
  have "set (cq_running s1) \<subseteq> set (cq_running (pump now (st\<lparr>ls_draining := True\<rparr>) s1))"
    by (rule pump_effect [of now "st\<lparr>ls_draining := True\<rparr>" s1]) auto
  with getLaneState_frame [OF get] get show ?thesis by (auto simp: drainLane_def)
qed

lemma fold_drain_generation:
  "lanes_good (set ls \<union> A) owed s \<Longrightarrow> lane_generation s l' = Some g \<Longrightarrow>
   lane_generation (fold (drainLane now) ls s) l' = Some g \<and>
   set (cq_running s) \<subseteq> set (cq_running (fold (drainLane now) ls s))"
proof (induction ls arbitrary: s)
  case (Cons l ls)
  have "lanes_good (set ls \<union> A) owed (drainLane now l s)"
    using Cons.prems(1) by (intro drainLane_good) simp
  moreover have "lane_generation (drainLane now l s) l' = Some g"
    using Cons.prems by (intro drain_generation) (simp_all add: lanes_good_def)
  ultimately show ?case using Cons.IH drain_running [of s now l] by fastforce
qed simp

lemma reset_supersedes:
  assumes inv: "queue_inv s" and r: "r \<in> set (cq_running s)"
  shows "r \<in> set (cq_running (resetAllLanes now s)) \<and>
    (\<exists>g. lane_generation (resetAllLanes now s) (rt_lane r) = Some g \<and> rt_generation r < g)"
proof -
  let ?s1 = "s\<lparr>cq_gatewayDraining := False,
      cq_lanes := map (\<lambda>(l, st). (l, reset_lane st)) (cq_lanes s)\<rparr>"
  obtain st where st: "map_get (cq_lanes s) (rt_lane r) = Some st" "rt_generation r \<le> ls_generation st"
    using inv r by (auto simp: queue_inv_def core_inv_def)
  have "lane_generation ?s1 (rt_lane r) = Some (Suc (ls_generation st))"
    using st by (simp add: lane_generation_def map_get_map_snd reset_lane_def)
  from fold_drain_generation [OF reset_lanes_good [OF inv] this, of now] show ?thesis
    using r st(2) by (auto simp: resetAllLanes_def Let_def lane_generation_def)
qed

lemma find_of_mem:
  "distinct (map f xs) \<Longrightarrow> x \<in> set xs \<Longrightarrow> find (\<lambda>y. f y = f x) xs = Some x"
  by (induction xs) (auto simp: image_iff)

lemma superseded_completion:
  assumes inv: "queue_inv s" and r: "r \<in> set (cq_running s)"
    and gen: "lane_generation s (rt_lane r) = Some g" "rt_generation r < g"
  shows "cq_lanes (task_settled now (rt_taskId r) res s) = cq_lanes s"
proof -
  have "distinct (map rt_taskId (cq_running s))" using inv by (simp add: queue_inv_def core_inv_def)
  then have f: "find (\<lambda>y. rt_taskId y = rt_taskId r) (cq_running s) = Some r"
    using r by (rule find_of_mem)
  obtain st where st: "map_get (cq_lanes s) (rt_lane r) = Some st" "ls_generation st = g"
    using gen(1) by (auto simp: lane_generation_def)
  from stale_settled(1) [OF inv f st(1)] gen(2) st show ?thesis by (simp add: map_put_same)
qed

section \<open>Properties\<close>

lemma run_core: "core_inv (queue_run es)"
  using queue_run_inv [of es] by (simp add: queue_inv_def)

text \<open>C1: After any sequence of calls, completions and timers, a lane that still has queued work
  runs as many tasks as its limit allows: no lane is ever stalled with spare capacity.\<close>

theorem queue_never_stalls:
  assumes "map_get (cq_lanes (queue_run es)) l = Some st" and "ls_queue st \<noteq> []"
  shows "1 \<le> ls_maxConcurrent st \<and> ls_maxConcurrent st \<le> int (length (ls_activeTaskIds st))"
  using assms queue_run_inv [of es]
  by (auto simp: queue_inv_def busy_except_def lane_busy_def core_inv_def lane_fits_def)

definition two_tasks :: "(int \<times> queue_event) list" where
  "two_tasks = [(0, Enqueue '' main '' 1 None False), (5, Enqueue ''main'' 2 None False)]"

lemma two_tasks_lane:
  "map_get (cq_lanes (queue_run two_tasks)) ''main'' =
     Some \<lparr>ls_lane = ''main'',
       ls_queue = [\<lparr>qe_ticket = 2, qe_enqueuedAt = 5, qe_warnAfterMs = 2000, qe_onWait = False\<rparr>],
       ls_activeTaskIds = [1], ls_maxConcurrent = 1, ls_draining = False, ls_generation = 0\<rparr>"
  by code_simp

theorem queue_never_stalls_witness:
  "(1::int) \<le> 1 \<and> (1::int) \<le> int (length [1::nat])"
  using queue_never_stalls [OF two_tasks_lane] by simp

text \<open>C2: Every ticket a lane ever accepted is exactly once queued, running or settled: clearing,
  resetting, stale completions and restarts lose no caller and settle none twice.\<close>

theorem tickets_accounted:
  "accepted_tickets (cq_log (queue_run es)) =
     queued_tickets (queue_run es) + running_tickets (queue_run es)
       + settled_tickets (cq_log (queue_run es))"
  using queue_run_inv [of es] by (simp add: queue_inv_def tickets_balance_def)

text \<open>The active ids of a lane are exactly the tasks in flight that were started in the lane's
  current generation.\<close>

theorem active_ids_are_current_tasks:
  "i \<in> set (active_in (queue_run es) l) \<longleftrightarrow>
     (\<exists>r \<in> set (cq_running (queue_run es)). rt_taskId r = i \<and> rt_lane r = l \<and>
        lane_generation (queue_run es) l = Some (rt_generation r))"
  using run_core [of es]
  by (cases "map_get (cq_lanes (queue_run es)) l")
    (fastforce simp: core_inv_def lane_fits_def lane_generation_def)+

text \<open>Unless a caller raises a limit with \<open>setCommandLaneConcurrency\<close>, every lane runs at most
  one task at a time, whatever is enqueued, cleared, reset or completed.\<close>

theorem default_lanes_are_serial:
  assumes "\<forall>e \<in> set es. \<forall>l n. snd e \<noteq> SetConcurrency l n"
  shows "length (active_in (queue_run es) l) \<le> 1"
proof -
  have "all_serial (queue_run es)"
    unfolding queue_run_def using assms by (intro run_serial) (simp_all add: all_serial_def getQueueState_init_def)
  then show ?thesis
    using all_serial_get [of "queue_run es" l]
    by (cases "map_get (cq_lanes (queue_run es)) l") (simp_all add: serial_lane_def)
qed

theorem default_lanes_are_serial_witness:
  "length (active_in (queue_run two_tasks) ''main'') \<le> 1"
  by (rule default_lanes_are_serial) (simp add: two_tasks_def)

text \<open>The pump starts queued entries in their order, with consecutive task ids, as many as the
  spare capacity allows, and leaves the rest of the queue as it was.\<close>

theorem pump_is_fifo:
  "(case pump_loop now st nid of (st', nid', rs, outs) \<Rightarrow>
     map rt_ticket rs @ map qe_ticket (ls_queue st') = map qe_ticket (ls_queue st) \<and>
     map rt_taskId rs = [nid..<nid'] \<and>
     length rs = min (length (ls_queue st))
       (nat (ls_maxConcurrent st - int (length (ls_activeTaskIds st)))) \<and>
     ls_activeTaskIds st' = ls_activeTaskIds st @ map rt_taskId rs)"
proof -
  obtain st' nid' rs outs where p: "pump_loop now st nid = (st', nid', rs, outs)"
    by (metis prod_cases4)
  note c = pump_loop_closed [OF p]
  have "length rs = pump_count st" using c by (metis diff_add_inverse length_map length_upt)
  moreover have "map qe_ticket (take k q) @ map qe_ticket (drop k q) = map qe_ticket q" for k and q :: "queue_entry list"
    by (simp flip: map_append)
  ultimately show ?thesis using c by (simp add: p pump_count_def [symmetric])
qed

text \<open>C3: After \<open>resetAllLanes\<close>, the late completion of any task that was in flight before the
  reset leaves every lane as it is: it frees no capacity and starts nothing.\<close>

theorem reset_makes_completions_stale:
  assumes "r \<in> set (cq_running (queue_run es))"
  shows "cq_lanes (task_settled later (rt_taskId r) res (resetAllLanes now (queue_run es))) =
         cq_lanes (resetAllLanes now (queue_run es))"
proof -
  note sup = reset_supersedes [OF queue_run_inv assms, of now]
  then obtain g where "lane_generation (resetAllLanes now (queue_run es)) (rt_lane r) = Some g"
      "rt_generation r < g" by blast
  then show ?thesis
    using sup by (intro superseded_completion [OF reset_inv [OF queue_run_inv]]) simp_all
qed

theorem reset_makes_completions_stale_witness:
  "cq_lanes (task_settled 9 1 TaskResolved (resetAllLanes 7 (queue_run two_tasks))) =
     cq_lanes (resetAllLanes 7 (queue_run two_tasks))"
proof -
  have "\<lparr>rt_taskId = 1, rt_lane = ''main'', rt_generation = 0, rt_ticket = 1\<rparr>
      \<in> set (cq_running (queue_run two_tasks))"
    by code_simp
  from reset_makes_completions_stale [OF this] show ?thesis by simp
qed

text \<open>Once the gateway drains for restart, no lane accepts a ticket until the lanes are reset,
  whatever else happens.\<close>

theorem draining_accepts_nothing:
  assumes "cq_gatewayDraining s" and "\<forall>e \<in> set es. snd e \<noteq> ResetAll"
  shows "accepted_tickets (cq_log (foldl queue_step s es)) = accepted_tickets (cq_log s)"
  using run_refuses [of "accepted_tickets (cq_log s)" s es] assms by (simp add: refuses_def)

theorem draining_accepts_nothing_witness:
  "accepted_tickets (cq_log (foldl queue_step (markGatewayDraining (queue_run two_tasks)) two_tasks)) =
     accepted_tickets (cq_log (markGatewayDraining (queue_run two_tasks)))"
  by (rule draining_accepts_nothing) (simp_all add: markGatewayDraining_def two_tasks_def)

text \<open>Every registered waiter of \<open>waitForActiveTasks\<close> waits for a task that is still active:
  none is forgotten once its tasks are gone.\<close>

theorem waiters_wait_for_active_tasks:
  assumes "w \<in> set (cq_activeTaskWaiters (queue_run es))"
  shows "\<exists>i \<in> set (aw_activeTaskIds w). hasPendingActiveTasks [i] (queue_run es)"
  using assms queue_run_inv [of es] by (auto simp: queue_inv_def waiters_wait_def hasPending_iff core_inv_def)

theorem waiters_wait_for_active_tasks_witness:
  "\<exists>i \<in> set [1]. hasPendingActiveTasks [i] (queue_run (two_tasks @ [(6, WaitForActive 3 100)]))"
proof -
  have "\<lparr>aw_id = 3, aw_activeTaskIds = [1]\<rparr>
      \<in> set (cq_activeTaskWaiters (queue_run (two_tasks @ [(6, WaitForActive 3 100)])))"
    by code_simp
  from waiters_wait_for_active_tasks [OF this] show ?thesis by simp
qed

end
