(* ===== verification/Net_Address.thy ===== *)
theory Net_Address
  imports Js_Prelude "HOL-Library.Word"
begin

text \<open>
  Addresses as the gateway sees them: \<^verbatim>\<open>src/src/shared/net/ip.ts\<close> (parsing, special-use
  ranges, IPv4 embedded in IPv6, CIDR) and \<^verbatim>\<open>src/src/gateway/net.ts\<close> (client address behind
  proxies, host checks, bind host).

  The package \<open>ipaddr.js\<close> and Node's \<open>net.isIP\<close> are parameters, the record \<open>ipaddr_lib\<close>.
  An IPv4 address is its list of octets, an IPv6 address its list of eight hextets, as the
  package's \<open>octets\<close> and \<open>parts\<close>.
\<close>

unbundle bit_operations_syntax

section \<open>The address package\<close>

type_synonym ipv4 = "8 word list"
type_synonym ipv6 = "16 word list"

datatype ip_address = V4 ipv4 | V6 ipv6

record ipaddr_lib =
  v4_isValid :: "string \<Rightarrow> bool"
  v4_isValidFourPartDecimal :: "string \<Rightarrow> bool"
  v4_parse :: "string \<Rightarrow> ipv4"
  v6_isValid :: "string \<Rightarrow> bool"
  v6_parse :: "string \<Rightarrow> ipv6"
  any_isValid :: "string \<Rightarrow> bool"
  any_parse :: "string \<Rightarrow> ip_address"
  v4_range :: "ipv4 \<Rightarrow> string"
  v6_range :: "ipv6 \<Rightarrow> string"
  v4_toString :: "ipv4 \<Rightarrow> string"
  v6_toString :: "ipv6 \<Rightarrow> string"
  v6_isIPv4Mapped :: "ipv6 \<Rightarrow> bool"
  v6_toIPv4 :: "ipv6 \<Rightarrow> ipv4"
  v4_match :: "ipv4 \<Rightarrow> ipv4 \<Rightarrow> nat \<Rightarrow> bool option"   \<comment> \<open>\<open>None\<close> when it throws\<close>
  v6_match :: "ipv6 \<Rightarrow> ipv6 \<Rightarrow> nat \<Rightarrow> bool option"
  parse_CIDR :: "string \<Rightarrow> (ip_address \<times> nat) option"  \<comment> \<open>\<open>None\<close> when it throws\<close>
  net_isIP :: "string \<Rightarrow> nat"

section \<open>shared/net/ip.ts: parsing\<close>

definition BLOCKED_IPV4_SPECIAL_USE_RANGES :: "string list" where
  "BLOCKED_IPV4_SPECIAL_USE_RANGES = [''unspecified'', ''broadcast'', ''multicast'', ''linkLocal'',
     ''loopback'', ''carrierGradeNat'', ''private'', ''reserved'']"

definition PRIVATE_OR_LOOPBACK_IPV4_RANGES :: "string list" where
  "PRIVATE_OR_LOOPBACK_IPV4_RANGES = [''loopback'', ''private'', ''linkLocal'', ''carrierGradeNat'']"

definition BLOCKED_IPV6_SPECIAL_USE_RANGES :: "string list" where
  "BLOCKED_IPV6_SPECIAL_USE_RANGES = [''unspecified'', ''loopback'', ''linkLocal'', ''uniqueLocal'',
     ''multicast'', ''reserved'', ''benchmarking'', ''discard'', ''orchid2'']"

definition stripIpv6Brackets :: "string \<Rightarrow> string" where
  "stripIpv6Brackets value =
     (if js_starts_with value ''['' \<and> js_ends_with value '']'' then js_strip_ends value else value)"

definition is_hex_digit :: "char \<Rightarrow> bool" where
  "is_hex_digit c \<longleftrightarrow> js_is_digit c \<or> js_lower_char c \<in> set ''abcdef''"

definition isNumericIpv4LiteralPart :: "string \<Rightarrow> bool" where
  "isNumericIpv4LiteralPart value \<longleftrightarrow>
     (value \<noteq> [] \<and> list_all js_is_digit value) \<or>
     (js_starts_with (js_lower value) ''0x'' \<and> length value > 2 \<and> list_all is_hex_digit (drop 2 value))"

text \<open>The regular expression of \<open>parseIpv6WithEmbeddedIpv4\<close>: everything up to the last colon,
  a body with three inner dots, an optional zone.\<close>

fun dotted_body :: "nat \<Rightarrow> string \<Rightarrow> bool" where
  "dotted_body 0 s = (s \<noteq> [])"
| "dotted_body (Suc n) s =
     list_ex (\<lambda>i. s ! i = CHR ''.'' \<and> dotted_body n (drop (Suc i) s)) [1..<length s]"

definition is_alnum :: "char \<Rightarrow> bool" where
  "is_alnum c \<longleftrightarrow> js_is_digit c \<or>
     (97 \<le> (of_char (js_lower_char c) :: nat) \<and> (of_char (js_lower_char c) :: nat) \<le> 122 \<and>
      (of_char c :: nat) < 128)"

definition match_embedded :: "string \<Rightarrow> (string \<times> string \<times> string) option" where
  "match_embedded raw =
     (case js_last_index_of (CHR '':'') raw of
        None \<Rightarrow> None
      | Some i \<Rightarrow>
          (let pre = take (Suc i) raw; rest = drop (Suc i) raw;
               body = takeWhile (\<lambda>c. c \<noteq> CHR ''%'') rest;
               zone = dropWhile (\<lambda>c. c \<noteq> CHR ''%'') rest
           in if CHR 0x0A \<notin> set pre \<and> CHR 0x0D \<notin> set pre \<and> dotted_body 3 body \<and>
                 (zone = [] \<or> (length zone > 1 \<and> list_all is_alnum (tl zone)))
              then Some (pre, body, zone) else None))"

definition parseIpv6WithEmbeddedIpv4 :: "ipaddr_lib \<Rightarrow> string \<Rightarrow> ipv6 option" where
  "parseIpv6WithEmbeddedIpv4 lib raw =
     (if \<not> CHR '':'' \<in> set raw \<or> \<not> CHR ''.'' \<in> set raw then None
      else (case match_embedded raw of
              None \<Rightarrow> None
            | Some (pre, embeddedIpv4, zoneSuffix) \<Rightarrow>
                if \<not> v4_isValidFourPartDecimal lib embeddedIpv4 then None
                else (let octets = map js_parse_nat (js_split (CHR ''.'') embeddedIpv4);
                          high = js_radix 16 (push_bit 8 (octets ! 0) OR (octets ! 1));
                          low = js_radix 16 (push_bit 8 (octets ! 2) OR (octets ! 3));
                          normalizedIpv6 = pre @ high @ '':'' @ low @ zoneSuffix
                      in if \<not> v6_isValid lib normalizedIpv6 then None
                         else Some (v6_parse lib normalizedIpv6))))"

definition normalizeIpv4MappedAddress :: "ipaddr_lib \<Rightarrow> ip_address \<Rightarrow> ip_address" where
  "normalizeIpv4MappedAddress lib address =
     (case address of
        V4 a \<Rightarrow> V4 a
      | V6 a \<Rightarrow> if \<not> v6_isIPv4Mapped lib a then V6 a else V4 (v6_toIPv4 lib a))"

text \<open>\<open>raw?.trim()\<close>, and \<open>undefined\<close> when nothing is left.\<close>

definition trim_defined :: "string option \<Rightarrow> string option" where
  "trim_defined raw = (case raw of None \<Rightarrow> None
     | Some r \<Rightarrow> if js_trim r = [] then None else Some (js_trim r))"

definition normalizeIpParseInput :: "string option \<Rightarrow> string option" where
  "normalizeIpParseInput raw = map_option stripIpv6Brackets (trim_defined raw)"

definition parseCanonicalIpAddress :: "ipaddr_lib \<Rightarrow> string option \<Rightarrow> ip_address option" where
  "parseCanonicalIpAddress lib raw =
     (case normalizeIpParseInput raw of
        None \<Rightarrow> None
      | Some normalized \<Rightarrow>
          if normalized = [] then None
          else if v4_isValid lib normalized then
            (if \<not> v4_isValidFourPartDecimal lib normalized then None
             else Some (V4 (v4_parse lib normalized)))
          else if v6_isValid lib normalized then Some (V6 (v6_parse lib normalized))
          else map_option V6 (parseIpv6WithEmbeddedIpv4 lib normalized))"

definition parseLooseIpAddress :: "ipaddr_lib \<Rightarrow> string option \<Rightarrow> ip_address option" where
  "parseLooseIpAddress lib raw =
     (case normalizeIpParseInput raw of
        None \<Rightarrow> None
      | Some normalized \<Rightarrow>
          if normalized = [] then None
          else if any_isValid lib normalized then Some (any_parse lib normalized)
          else map_option V6 (parseIpv6WithEmbeddedIpv4 lib normalized))"

definition ip_toString :: "ipaddr_lib \<Rightarrow> ip_address \<Rightarrow> string" where
  "ip_toString lib a = (case a of V4 x \<Rightarrow> v4_toString lib x | V6 x \<Rightarrow> v6_toString lib x)"

definition ip_range :: "ipaddr_lib \<Rightarrow> ip_address \<Rightarrow> string" where
  "ip_range lib a = (case a of V4 x \<Rightarrow> v4_range lib x | V6 x \<Rightarrow> v6_range lib x)"

definition normalizeIpAddress :: "ipaddr_lib \<Rightarrow> string option \<Rightarrow> string option" where
  "normalizeIpAddress lib raw =
     map_option (\<lambda>parsed. js_lower (ip_toString lib (normalizeIpv4MappedAddress lib parsed)))
       (parseCanonicalIpAddress lib raw)"

definition isCanonicalDottedDecimalIPv4 :: "ipaddr_lib \<Rightarrow> string option \<Rightarrow> bool" where
  "isCanonicalDottedDecimalIPv4 lib raw =
     (case trim_defined raw of
        None \<Rightarrow> False
      | Some trimmed \<Rightarrow>
          (let normalized = stripIpv6Brackets trimmed in
           if normalized = [] then False else v4_isValidFourPartDecimal lib normalized))"

definition isLegacyIpv4Literal :: "ipaddr_lib \<Rightarrow> string option \<Rightarrow> bool" where
  "isLegacyIpv4Literal lib raw =
     (case trim_defined raw of
        None \<Rightarrow> False
      | Some trimmed \<Rightarrow>
          (let normalized = stripIpv6Brackets trimmed; parts = js_split (CHR ''.'') normalized in
           if normalized = [] \<or> CHR '':'' \<in> set normalized then False
           else if isCanonicalDottedDecimalIPv4 lib (Some normalized) then False
           else if length parts = 0 \<or> length parts > 4 then False
           else if list_ex (\<lambda>part. part = []) parts then False
           else list_all isNumericIpv4LiteralPart parts))"

section \<open>shared/net/ip.ts: ranges and embedded addresses\<close>

definition isBlockedSpecialUseIpv6Address :: "ipaddr_lib \<Rightarrow> ipv6 \<Rightarrow> bool" where
  "isBlockedSpecialUseIpv6Address lib address \<longleftrightarrow>
     v6_range lib address \<in> set BLOCKED_IPV6_SPECIAL_USE_RANGES \<or>
     ((address ! 0) AND 0xffc0) = 0xfec0"

definition isLoopbackIpAddress :: "ipaddr_lib \<Rightarrow> string option \<Rightarrow> bool" where
  "isLoopbackIpAddress lib raw =
     (case parseCanonicalIpAddress lib raw of
        None \<Rightarrow> False
      | Some parsed \<Rightarrow> ip_range lib (normalizeIpv4MappedAddress lib parsed) = ''loopback'')"

definition isPrivateOrLoopbackIpAddress :: "ipaddr_lib \<Rightarrow> string option \<Rightarrow> bool" where
  "isPrivateOrLoopbackIpAddress lib raw =
     (case parseCanonicalIpAddress lib raw of
        None \<Rightarrow> False
      | Some parsed \<Rightarrow>
          (case normalizeIpv4MappedAddress lib parsed of
             V4 a \<Rightarrow> v4_range lib a \<in> set PRIVATE_OR_LOOPBACK_IPV4_RANGES
           | V6 a \<Rightarrow> isBlockedSpecialUseIpv6Address lib a))"

definition isRfc1918Ipv4Address :: "ipaddr_lib \<Rightarrow> string option \<Rightarrow> bool" where
  "isRfc1918Ipv4Address lib raw =
     (case parseCanonicalIpAddress lib raw of Some (V4 a) \<Rightarrow> v4_range lib a = ''private'' | _ \<Rightarrow> False)"

definition isCarrierGradeNatIpv4Address :: "ipaddr_lib \<Rightarrow> string option \<Rightarrow> bool" where
  "isCarrierGradeNatIpv4Address lib raw =
     (case parseCanonicalIpAddress lib raw of
        Some (V4 a) \<Rightarrow> v4_range lib a = ''carrierGradeNat'' | _ \<Rightarrow> False)"

text \<open>\<open>address.match([198.18.0.0, 15])\<close>.\<close>

definition in_benchmark_range :: "ipaddr_lib \<Rightarrow> ipv4 \<Rightarrow> bool" where
  "in_benchmark_range lib address = js_nullish (v4_match lib address (v4_parse lib ''198.18.0.0'') 15) False"

definition isBlockedSpecialUseIpv4Address :: "ipaddr_lib \<Rightarrow> ipv4 \<Rightarrow> bool \<Rightarrow> bool" where
  "isBlockedSpecialUseIpv4Address lib address allowRfc2544BenchmarkRange =
     (if in_benchmark_range lib address \<and> allowRfc2544BenchmarkRange then False
      else v4_range lib address \<in> set BLOCKED_IPV4_SPECIAL_USE_RANGES \<or> in_benchmark_range lib address)"

definition octets_of_hextets :: "16 word \<Rightarrow> 16 word \<Rightarrow> 8 word list" where
  "octets_of_hextets high low =
     [ucast (drop_bit 8 high AND 0xff), ucast (high AND 0xff),
      ucast (drop_bit 8 low AND 0xff), ucast (low AND 0xff)]"

definition dotted :: "8 word list \<Rightarrow> string" where
  "dotted octets = js_join ''.'' (map (\<lambda>w. nat_str (unat w)) octets)"

definition decodeIpv4FromHextets :: "ipaddr_lib \<Rightarrow> 16 word \<Rightarrow> 16 word \<Rightarrow> ipv4" where
  "decodeIpv4FromHextets lib high low = v4_parse lib (dotted (octets_of_hextets high low))"

text \<open>The sentinel rules, in their order.\<close>

definition EMBEDDED_IPV4_SENTINEL_RULES ::
  "((ipv6 \<Rightarrow> bool) \<times> (ipv6 \<Rightarrow> 16 word \<times> 16 word)) list" where
  "EMBEDDED_IPV4_SENTINEL_RULES =
     [(\<lambda>p. p ! 0 = 0 \<and> p ! 1 = 0 \<and> p ! 2 = 0 \<and> p ! 3 = 0 \<and> p ! 4 = 0 \<and> p ! 5 = 0,
       \<lambda>p. (p ! 6, p ! 7)),
      (\<lambda>p. p ! 0 = 0x0064 \<and> p ! 1 = 0xff9b \<and> p ! 2 = 0x0001 \<and> p ! 3 = 0 \<and> p ! 4 = 0 \<and> p ! 5 = 0,
       \<lambda>p. (p ! 6, p ! 7)),
      (\<lambda>p. p ! 0 = 0x2002, \<lambda>p. (p ! 1, p ! 2)),
      (\<lambda>p. p ! 0 = 0x2001 \<and> p ! 1 = 0x0000, \<lambda>p. (p ! 6 XOR 0xffff, p ! 7 XOR 0xffff)),
      (\<lambda>p. (p ! 4 AND 0xfcff) = 0 \<and> p ! 5 = 0x5efe, \<lambda>p. (p ! 6, p ! 7))]"

definition extractEmbeddedIpv4FromIpv6 :: "ipaddr_lib \<Rightarrow> ipv6 \<Rightarrow> ipv4 option" where
  "extractEmbeddedIpv4FromIpv6 lib address =
     (if v6_isIPv4Mapped lib address then Some (v6_toIPv4 lib address)
      else if v6_range lib address = ''rfc6145'' then
        Some (decodeIpv4FromHextets lib (address ! 6) (address ! 7))
      else if v6_range lib address = ''rfc6052'' then
        Some (decodeIpv4FromHextets lib (address ! 6) (address ! 7))
      else (case find (\<lambda>rule. fst rule address) EMBEDDED_IPV4_SENTINEL_RULES of
              None \<Rightarrow> None
            | Some rule \<Rightarrow>
                (let (high, low) = snd rule address in Some (decodeIpv4FromHextets lib high low))))"

definition ip_same_kind :: "ip_address \<Rightarrow> ip_address \<Rightarrow> bool" where
  "ip_same_kind a b = (case (a, b) of (V4 _, V4 _) \<Rightarrow> True | (V6 _, V6 _) \<Rightarrow> True | _ \<Rightarrow> False)"

definition isIpInCidr :: "ipaddr_lib \<Rightarrow> string \<Rightarrow> string \<Rightarrow> bool" where
  "isIpInCidr lib ip cidr =
     (case parseCanonicalIpAddress lib (Some ip) of
        None \<Rightarrow> False
      | Some normalizedIp \<Rightarrow>
          (let candidate = js_trim cidr;
               comparableIp = normalizeIpv4MappedAddress lib normalizedIp in
           if candidate = [] then False
           else if CHR ''/'' \<notin> set candidate then
             (case parseCanonicalIpAddress lib (Some candidate) of
                None \<Rightarrow> False
              | Some exact \<Rightarrow>
                  (let comparableExact = normalizeIpv4MappedAddress lib exact in
                   ip_same_kind comparableIp comparableExact \<and>
                   ip_toString lib comparableIp = ip_toString lib comparableExact))
           else (case parse_CIDR lib candidate of
                   None \<Rightarrow> False
                 | Some (baseAddress, prefixLength) \<Rightarrow>
                     (case (comparableIp, normalizeIpv4MappedAddress lib baseAddress) of
                        (V4 a, V4 b) \<Rightarrow> js_nullish (v4_match lib a b prefixLength) False
                      | (V6 a, V6 b) \<Rightarrow> js_nullish (v6_match lib a b prefixLength) False
                      | _ \<Rightarrow> False))))"

section \<open>gateway/net.ts: the client's address\<close>

definition stripOptionalPort :: "ipaddr_lib \<Rightarrow> string \<Rightarrow> string" where
  "stripOptionalPort lib ip =
     (let bracketed = (if js_starts_with ip ''['' then js_index_of (CHR '']'') ip else None) in
      case bracketed of
        Some end_ \<Rightarrow> js_slice 1 end_ ip
      | None \<Rightarrow>
          if net_isIP lib ip \<noteq> 0 then ip
          else (case js_last_index_of (CHR '':'') ip of
                  None \<Rightarrow> ip
                | Some lastColon \<Rightarrow>
                    if CHR ''.'' \<in> set ip \<and> js_index_of (CHR '':'') ip = Some lastColon \<and>
                       net_isIP lib (take lastColon ip) = 4
                    then take lastColon ip else ip))"

definition parseIpLiteral :: "ipaddr_lib \<Rightarrow> string option \<Rightarrow> string option" where
  "parseIpLiteral lib raw =
     (case trim_defined raw of
        None \<Rightarrow> None
      | Some trimmed \<Rightarrow>
          (case normalizeIpAddress lib (Some (stripOptionalPort lib trimmed)) of
             None \<Rightarrow> None
           | Some normalized \<Rightarrow>
               if normalized = [] \<or> net_isIP lib normalized = 0 then None else Some normalized))"

definition isTrustedProxyAddress :: "ipaddr_lib \<Rightarrow> string option \<Rightarrow> string list option \<Rightarrow> bool" where
  "isTrustedProxyAddress lib ip trustedProxies =
     (case (normalizeIpAddress lib ip, trustedProxies) of
        (Some normalized, Some proxies) \<Rightarrow>
          normalized \<noteq> [] \<and>
          list_ex (\<lambda>proxy. js_trim proxy \<noteq> [] \<and> isIpInCidr lib normalized (js_trim proxy)) proxies
      | _ \<Rightarrow> False)"

text \<open>The loop over the chain from its last hop.\<close>

fun first_untrusted_hop :: "ipaddr_lib \<Rightarrow> string list \<Rightarrow> string list \<Rightarrow> string option" where
  "first_untrusted_hop lib trustedProxies [] = None"
| "first_untrusted_hop lib trustedProxies (hop # earlier) =
     (if isLoopbackIpAddress lib (Some hop) then first_untrusted_hop lib trustedProxies earlier
      else if \<not> isTrustedProxyAddress lib (Some hop) (Some trustedProxies) then Some hop
      else first_untrusted_hop lib trustedProxies earlier)"

definition forwarded_chain :: "ipaddr_lib \<Rightarrow> string option \<Rightarrow> string list" where
  "forwarded_chain lib forwardedFor =
     List.map_filter (\<lambda>entry. parseIpLiteral lib (Some entry))
       (case forwardedFor of None \<Rightarrow> [] | Some f \<Rightarrow> js_split (CHR '','') f)"

definition resolveForwardedClientIp ::
  "ipaddr_lib \<Rightarrow> string option \<Rightarrow> string list option \<Rightarrow> string option" where
  "resolveForwardedClientIp lib forwardedFor trustedProxies =
     (case trustedProxies of
        None \<Rightarrow> None
      | Some proxies \<Rightarrow>
          if proxies = [] then None
          else (let forwardedChain = forwarded_chain lib forwardedFor in
                if forwardedChain = [] then None
                else first_untrusted_hop lib proxies (rev forwardedChain)))"

record client_ip_params =
  ci_remoteAddr :: "string option"
  ci_forwardedFor :: "string option"
  ci_realIp :: "string option"
  ci_trustedProxies :: "string list option"
  ci_allowRealIpFallback :: bool

definition resolveClientIp :: "ipaddr_lib \<Rightarrow> client_ip_params \<Rightarrow> string option" where
  "resolveClientIp lib params =
     (case normalizeIpAddress lib (ci_remoteAddr params) of
        None \<Rightarrow> None
      | Some remote \<Rightarrow>
          if remote = [] then None
          else if \<not> isTrustedProxyAddress lib (Some remote) (ci_trustedProxies params) then Some remote
          else (let forwardedIp =
                      resolveForwardedClientIp lib (ci_forwardedFor params) (ci_trustedProxies params) in
                if js_truthy forwardedIp then forwardedIp
                else if ci_allowRealIpFallback params then parseIpLiteral lib (ci_realIp params)
                else None))"

text \<open>\<open>isLocalGatewayAddress\<close>; the machine's Tailscale addresses are parameters.\<close>

definition isLocalGatewayAddress ::
  "ipaddr_lib \<Rightarrow> string option \<Rightarrow> string option \<Rightarrow> string option \<Rightarrow> bool" where
  "isLocalGatewayAddress lib tailnetIPv4 tailnetIPv6 ip =
     (if isLoopbackIpAddress lib ip then True
      else (case ip of
              None \<Rightarrow> False
            | Some raw \<Rightarrow>
                if raw = [] then False
                else (case normalizeIpAddress lib ip of
                        None \<Rightarrow> False
                      | Some normalized \<Rightarrow>
                          normalized \<noteq> [] \<and>
                          ((js_truthy tailnetIPv4 \<and> normalized = js_lower (the tailnetIPv4)) \<or>
                           (js_truthy tailnetIPv6 \<and>
                              js_lower (js_trim raw) = js_lower (the tailnetIPv6))))))"

section \<open>gateway/net.ts: hosts and binding\<close>

definition normalizeHostHeader :: "string option \<Rightarrow> string" where
  "normalizeHostHeader hostHeader = js_lower (js_trim (js_nullish hostHeader []))"

definition resolveHostName :: "ipaddr_lib \<Rightarrow> string option \<Rightarrow> string" where
  "resolveHostName lib hostHeader =
     (let host = normalizeHostHeader hostHeader;
          bracketed = (if js_starts_with host ''['' then js_index_of (CHR '']'') host else None) in
      if host = [] then []
      else case bracketed of
        Some end_ \<Rightarrow> js_slice 1 end_ host
      | None \<Rightarrow> if net_isIP lib host = 6 then host else hd (js_split (CHR '':'') host))"

definition strip_trailing_dots :: "string \<Rightarrow> string" where
  "strip_trailing_dots s = rev (dropWhile (\<lambda>c. c = CHR ''.'') (rev s))"

definition parseHostForAddressChecks :: "string \<Rightarrow> (bool \<times> string) option" where
  "parseHostForAddressChecks host =
     (if host = [] then None
      else (let normalizedHost = js_lower (js_trim host);
                canonicalHost = strip_trailing_dots normalizedHost
            in if canonicalHost = ''localhost'' then Some (True, canonicalHost)
               else Some (False, stripIpv6Brackets normalizedHost)))"

definition isLoopbackHost :: "ipaddr_lib \<Rightarrow> string \<Rightarrow> bool" where
  "isLoopbackHost lib host =
     (case parseHostForAddressChecks host of
        None \<Rightarrow> False
      | Some (isLocalhost, unbracketedHost) \<Rightarrow>
          isLocalhost \<or> isLoopbackIpAddress lib (Some unbracketedHost))"

definition isLocalishHost :: "ipaddr_lib \<Rightarrow> string option \<Rightarrow> bool" where
  "isLocalishHost lib hostHeader =
     (let host = resolveHostName lib hostHeader in
      if host = [] then False else isLoopbackHost lib host \<or> js_ends_with host ''.ts.net'')"

definition isPrivateOrLoopbackHost :: "ipaddr_lib \<Rightarrow> string \<Rightarrow> bool" where
  "isPrivateOrLoopbackHost lib host =
     (case parseHostForAddressChecks host of
        None \<Rightarrow> False
      | Some (isLocalhost, unbracketedHost) \<Rightarrow>
          if isLocalhost then True
          else (case normalizeIpAddress lib (Some unbracketedHost) of
                  None \<Rightarrow> False
                | Some normalized \<Rightarrow>
                    if normalized = [] \<or> \<not> isPrivateOrLoopbackIpAddress lib (Some normalized) then False
                    else if net_isIP lib normalized = 6 \<and>
                            (js_starts_with normalized ''ff'' \<or> normalized = ''::'') then False
                    else True))"

text \<open>\<open>isSecureWebSocketUrl\<close>; \<open>new URL(url)\<close> is a parameter giving protocol and host name,
  \<open>None\<close> when it throws.\<close>

definition isSecureWebSocketUrl ::
  "ipaddr_lib \<Rightarrow> (string \<Rightarrow> (string \<times> string) option) \<Rightarrow> string \<Rightarrow> bool \<Rightarrow> bool" where
  "isSecureWebSocketUrl lib parse_url url allowPrivateWs =
     (case parse_url url of
        None \<Rightarrow> False
      | Some (parsed_protocol, hostname) \<Rightarrow>
          (let protocol = (if parsed_protocol = ''https:'' then ''wss:''
                           else if parsed_protocol = ''http:'' then ''ws:'' else parsed_protocol) in
           if protocol = ''wss:'' then True
           else if protocol \<noteq> ''ws:'' then False
           else if isLoopbackHost lib hostname then True
           else if allowPrivateWs then
             isPrivateOrLoopbackHost lib hostname \<or> net_isIP lib (stripIpv6Brackets hostname) = 0
           else False))"

datatype bind_mode = BindAuto | BindLan | BindLoopback | BindCustom | BindTailnet

definition resolveGatewayBindHost ::
  "ipaddr_lib \<Rightarrow> (string \<Rightarrow> bool) \<Rightarrow> string option \<Rightarrow> bind_mode option \<Rightarrow> string option \<Rightarrow> string" where
  "resolveGatewayBindHost lib canBindToHost tailnetIP bind customHost =
     (case js_nullish bind BindLoopback of
        BindLoopback \<Rightarrow> if canBindToHost ''127.0.0.1'' then ''127.0.0.1'' else ''0.0.0.0''
      | BindTailnet \<Rightarrow>
          if js_truthy tailnetIP \<and> canBindToHost (the tailnetIP) then the tailnetIP
          else if canBindToHost ''127.0.0.1'' then ''127.0.0.1'' else ''0.0.0.0''
      | BindLan \<Rightarrow> ''0.0.0.0''
      | BindCustom \<Rightarrow>
          (case trim_defined customHost of
             None \<Rightarrow> ''0.0.0.0''
           | Some host \<Rightarrow>
               if isCanonicalDottedDecimalIPv4 lib (Some host) \<and> canBindToHost host then host
               else ''0.0.0.0'')
      | BindAuto \<Rightarrow> if canBindToHost ''127.0.0.1'' then ''127.0.0.1'' else ''0.0.0.0'')"

definition resolveGatewayListenHosts :: "(string \<Rightarrow> bool) \<Rightarrow> string \<Rightarrow> string list" where
  "resolveGatewayListenHosts canBind bindHost =
     (if bindHost \<noteq> ''127.0.0.1'' then [bindHost]
      else if canBind ''::1'' then [bindHost, ''::1''] else [bindHost])"

end
