(* ===== verification/Ssrf_Guard.thy ===== *)
theory Ssrf_Guard
  imports Net_Address
begin

text \<open>
  The guard against server-side request forgery, \<^verbatim>\<open>src/src/infra/net/ssrf.ts\<close> with
  \<^verbatim>\<open>hostname.ts\<close>: which host names and addresses are blocked, the two-phase check around the
  DNS lookup, and the pinned lookup that hands out only the checked addresses. The DNS answer
  is a parameter; thrown errors are values of \<open>ssrf_error\<close>.
\<close>

section \<open>Hosts and addresses\<close>

datatype ssrf_error =
    SsrFBlockedError string
  | InvalidHostname
  | UnresolvableHostname string
  | PinnedOverrideMismatch string string
  | NoPinnedAddress string

record ssrf_policy =
  sp_allowPrivateNetwork :: bool
  sp_dangerouslyAllowPrivateNetwork :: bool
  sp_allowRfc2544BenchmarkRange :: bool
  sp_allowedHostnames :: "string list"
  sp_hostnameAllowlist :: "string list"

definition BLOCKED_HOSTNAMES :: "string list" where
  "BLOCKED_HOSTNAMES = [''localhost'', ''localhost.localdomain'', ''metadata.google.internal'']"

definition strip_one_dot :: "string \<Rightarrow> string" where
  "strip_one_dot s = (if js_ends_with s ''.'' then butlast s else s)"

definition normalizeHostname :: "string \<Rightarrow> string" where
  "normalizeHostname hostname = stripIpv6Brackets (strip_one_dot (js_lower (js_trim hostname)))"

definition normalizeHostnameSet :: "string list \<Rightarrow> string list" where
  "normalizeHostnameSet values = filter (\<lambda>v. v \<noteq> []) (map normalizeHostname values)"

definition normalizeHostnameAllowlist :: "string list \<Rightarrow> string list" where
  "normalizeHostnameAllowlist values =
     js_unique (filter (\<lambda>v. v \<noteq> ''*'' \<and> v \<noteq> ''*.'' \<and> length v > 0) (map normalizeHostname values))"

definition isPrivateNetworkAllowedByPolicy :: "ssrf_policy option \<Rightarrow> bool" where
  "isPrivateNetworkAllowedByPolicy policy =
     (case policy of None \<Rightarrow> False
      | Some p \<Rightarrow> sp_dangerouslyAllowPrivateNetwork p \<or> sp_allowPrivateNetwork p)"

definition shouldSkipPrivateNetworkChecks :: "string \<Rightarrow> ssrf_policy option \<Rightarrow> bool" where
  "shouldSkipPrivateNetworkChecks hostname policy \<longleftrightarrow>
     isPrivateNetworkAllowedByPolicy policy \<or>
     hostname \<in> set (normalizeHostnameSet (case policy of None \<Rightarrow> [] | Some p \<Rightarrow> sp_allowedHostnames p))"

definition resolveIpv4SpecialUseBlockOptions :: "ssrf_policy option \<Rightarrow> bool" where
  "resolveIpv4SpecialUseBlockOptions policy =
     (case policy of None \<Rightarrow> False | Some p \<Rightarrow> sp_allowRfc2544BenchmarkRange p)"

definition isHostnameAllowedByPattern :: "string \<Rightarrow> string \<Rightarrow> bool" where
  "isHostnameAllowedByPattern hostname pattern =
     (if js_starts_with pattern ''*.'' then
        (let suf = drop 2 pattern in
         if suf = [] \<or> hostname = suf then False else js_ends_with hostname (''.'' @ suf))
      else hostname = pattern)"

definition matchesHostnameAllowlist :: "string \<Rightarrow> string list \<Rightarrow> bool" where
  "matchesHostnameAllowlist hostname allowlist =
     (if allowlist = [] then True
      else list_ex (\<lambda>pattern. isHostnameAllowedByPattern hostname pattern) allowlist)"

definition looksLikeUnsupportedIpv4Literal :: "string \<Rightarrow> bool" where
  "looksLikeUnsupportedIpv4Literal address =
     (let parts = js_split (CHR ''.'') address in
      if length parts = 0 \<or> length parts > 4 then False
      else if list_ex (\<lambda>part. part = []) parts then True
      else list_all (\<lambda>part. (part \<noteq> [] \<and> list_all js_is_digit part)
                          \<or> js_starts_with (js_lower part) ''0x'') parts)"

definition isPrivateIpAddress :: "ipaddr_lib \<Rightarrow> ssrf_policy option \<Rightarrow> string \<Rightarrow> bool" where
  "isPrivateIpAddress lib policy address =
     (let normalized = stripIpv6Brackets (js_lower (js_trim address));
          blockOptions = resolveIpv4SpecialUseBlockOptions policy in
      if normalized = [] then False
      else (case parseCanonicalIpAddress lib (Some normalized) of
              Some (V4 strictIp) \<Rightarrow> isBlockedSpecialUseIpv4Address lib strictIp blockOptions
            | Some (V6 strictIp) \<Rightarrow>
                if isBlockedSpecialUseIpv6Address lib strictIp then True
                else (case extractEmbeddedIpv4FromIpv6 lib strictIp of
                        Some embeddedIpv4 \<Rightarrow> isBlockedSpecialUseIpv4Address lib embeddedIpv4 blockOptions
                      | None \<Rightarrow> False)
            | None \<Rightarrow>
                if CHR '':'' \<in> set normalized \<and> parseLooseIpAddress lib (Some normalized) = None then True
                else if \<not> isCanonicalDottedDecimalIPv4 lib (Some normalized) \<and>
                        isLegacyIpv4Literal lib (Some normalized) then True
                else looksLikeUnsupportedIpv4Literal normalized))"

definition isBlockedHostnameNormalized :: "string \<Rightarrow> bool" where
  "isBlockedHostnameNormalized normalized \<longleftrightarrow>
     normalized \<in> set BLOCKED_HOSTNAMES \<or>
     js_ends_with normalized ''.localhost'' \<or> js_ends_with normalized ''.local'' \<or>
     js_ends_with normalized ''.internal''"

definition isBlockedHostname :: "string \<Rightarrow> bool" where
  "isBlockedHostname hostname =
     (let normalized = normalizeHostname hostname in
      if normalized = [] then False else isBlockedHostnameNormalized normalized)"

definition isBlockedHostnameOrIp :: "ipaddr_lib \<Rightarrow> ssrf_policy option \<Rightarrow> string \<Rightarrow> bool" where
  "isBlockedHostnameOrIp lib policy hostname =
     (let normalized = normalizeHostname hostname in
      if normalized = [] then False
      else isBlockedHostnameNormalized normalized \<or> isPrivateIpAddress lib policy normalized)"

section \<open>Resolution\<close>

record lookup_address =
  la_address :: string
  la_family :: nat

definition BLOCKED_HOST_OR_IP_MESSAGE :: string where
  "BLOCKED_HOST_OR_IP_MESSAGE = ''Blocked hostname or private/internal/special-use IP address''"

definition BLOCKED_RESOLVED_IP_MESSAGE :: string where
  "BLOCKED_RESOLVED_IP_MESSAGE = ''Blocked: resolves to private/internal/special-use IP address''"

definition assertAllowedHostOrIpOrThrow ::
  "ipaddr_lib \<Rightarrow> ssrf_policy option \<Rightarrow> string \<Rightarrow> ssrf_error + unit" where
  "assertAllowedHostOrIpOrThrow lib policy hostnameOrIp =
     (if isBlockedHostnameOrIp lib policy hostnameOrIp
      then Inl (SsrFBlockedError BLOCKED_HOST_OR_IP_MESSAGE) else Inr ())"

fun assertAllowedResolvedAddressesOrThrow ::
  "ipaddr_lib \<Rightarrow> ssrf_policy option \<Rightarrow> lookup_address list \<Rightarrow> ssrf_error + unit" where
  "assertAllowedResolvedAddressesOrThrow lib policy [] = Inr ()"
| "assertAllowedResolvedAddressesOrThrow lib policy (entry # results) =
     (if isBlockedHostnameOrIp lib policy (la_address entry)
      then Inl (SsrFBlockedError BLOCKED_RESOLVED_IP_MESSAGE)
      else assertAllowedResolvedAddressesOrThrow lib policy results)"

text \<open>The loop of \<open>dedupeAndPreferIpv4\<close> with its three accumulators.\<close>

fun dedupe_loop ::
  "string list \<Rightarrow> string list \<Rightarrow> string list \<Rightarrow> lookup_address list \<Rightarrow> string list" where
  "dedupe_loop seen ipv4 otherFamilies [] = ipv4 @ otherFamilies"
| "dedupe_loop seen ipv4 otherFamilies (entry # results) =
     (if la_address entry \<in> set seen then dedupe_loop seen ipv4 otherFamilies results
      else if la_family entry = 4 then
        dedupe_loop (la_address entry # seen) (ipv4 @ [la_address entry]) otherFamilies results
      else dedupe_loop (la_address entry # seen) ipv4 (otherFamilies @ [la_address entry]) results)"

definition dedupeAndPreferIpv4 :: "lookup_address list \<Rightarrow> string list" where
  "dedupeAndPreferIpv4 results = dedupe_loop [] [] [] results"

record pinned_hostname =
  ph_hostname :: string
  ph_addresses :: "string list"

definition resolvePinnedHostnameWithPolicy ::
  "ipaddr_lib \<Rightarrow> (string \<Rightarrow> lookup_address list) \<Rightarrow> ssrf_policy option \<Rightarrow> string \<Rightarrow>
     ssrf_error + pinned_hostname" where
  "resolvePinnedHostnameWithPolicy lib lookupFn policy hostname =
     (let normalized = normalizeHostname hostname in
      if normalized = [] then Inl InvalidHostname
      else
        (let hostnameAllowlist =
               normalizeHostnameAllowlist (case policy of None \<Rightarrow> [] | Some p \<Rightarrow> sp_hostnameAllowlist p);
             skipPrivateNetworkChecks = shouldSkipPrivateNetworkChecks normalized policy in
         if \<not> matchesHostnameAllowlist normalized hostnameAllowlist then
           Inl (SsrFBlockedError (''Blocked hostname (not in allowlist): '' @ hostname))
         else
           (case (if skipPrivateNetworkChecks then Inr ()
                  else assertAllowedHostOrIpOrThrow lib policy normalized) of
              Inl e \<Rightarrow> Inl e
            | Inr _ \<Rightarrow>
                (let results = lookupFn normalized in
                 if results = [] then Inl (UnresolvableHostname hostname)
                 else
                   (case (if skipPrivateNetworkChecks then Inr ()
                          else assertAllowedResolvedAddressesOrThrow lib policy results) of
                      Inl e \<Rightarrow> Inl e
                    | Inr _ \<Rightarrow>
                        (let addresses = dedupeAndPreferIpv4 results in
                         if addresses = [] then Inl (UnresolvableHostname hostname)
                         else Inr \<lparr>ph_hostname = normalized, ph_addresses = addresses\<rparr>))))))"

section \<open>The pinned lookup\<close>

text \<open>\<open>createPinnedLookup\<close> returns a closure over the records and a round-robin index; a call
  gets the requested host, the requested family (0 for any) and the \<open>all\<close> flag, and answers
  from the records or leaves the request to the fallback.\<close>

record pinned_lookup =
  pl_host :: string
  pl_records :: "lookup_address list"
  pl_index :: nat

datatype lookup_answer =
    AllRecords "lookup_address list"
  | OneRecord lookup_address
  | Fallback string

definition address_family :: "string \<Rightarrow> nat" where
  "address_family address = (if CHR '':'' \<in> set address then 6 else 4)"

definition createPinnedLookup :: "string \<Rightarrow> string list \<Rightarrow> ssrf_error + pinned_lookup" where
  "createPinnedLookup hostname addresses =
     (if addresses = [] then Inl (NoPinnedAddress hostname)
      else Inr \<lparr>pl_host = normalizeHostname hostname,
                pl_records = map (\<lambda>a. \<lparr>la_address = a, la_family = address_family a\<rparr>) addresses,
                pl_index = 0\<rparr>)"

definition usable_records :: "pinned_lookup \<Rightarrow> nat \<Rightarrow> lookup_address list" where
  "usable_records pl requestedFamily =
     (let candidates = (if requestedFamily = 4 \<or> requestedFamily = 6
                        then filter (\<lambda>entry. la_family entry = requestedFamily) (pl_records pl)
                        else pl_records pl)
      in if length candidates > 0 then candidates else pl_records pl)"

definition pinned_lookup_call ::
  "string \<Rightarrow> nat \<Rightarrow> bool \<Rightarrow> pinned_lookup \<Rightarrow> lookup_answer \<times> pinned_lookup" where
  "pinned_lookup_call host requestedFamily wantAll pl =
     (let normalized = normalizeHostname host in
      if normalized = [] \<or> normalized \<noteq> pl_host pl then (Fallback host, pl)
      else (let usable = usable_records pl requestedFamily in
            if wantAll then (AllRecords usable, pl)
            else (OneRecord (usable ! (pl_index pl mod length usable)),
                  pl\<lparr>pl_index := Suc (pl_index pl)\<rparr>)))"

definition resolvePinnedDispatcherLookup ::
  "ipaddr_lib \<Rightarrow> ssrf_policy option \<Rightarrow> pinned_hostname \<Rightarrow> pinned_lookup \<Rightarrow>
     (string \<times> string list) option \<Rightarrow> ssrf_error + pinned_lookup" where
  "resolvePinnedDispatcherLookup lib policy pinned lookup override =
     (case override of
        None \<Rightarrow> Inr lookup
      | Some (override_hostname, override_addresses) \<Rightarrow>
          (let normalizedOverrideHost = normalizeHostname override_hostname;
               records = map (\<lambda>a. \<lparr>la_address = a, la_family = address_family a\<rparr>) override_addresses in
           if normalizedOverrideHost = [] \<or> normalizedOverrideHost \<noteq> ph_hostname pinned then
             Inl (PinnedOverrideMismatch (ph_hostname pinned) override_hostname)
           else
             (case (if \<not> shouldSkipPrivateNetworkChecks (ph_hostname pinned) policy
                    then assertAllowedResolvedAddressesOrThrow lib policy records else Inr ()) of
                Inl e \<Rightarrow> Inl e
              | Inr _ \<Rightarrow> createPinnedLookup (ph_hostname pinned) override_addresses)))"

end
