(* ===== verification/Net_Props.thy ===== *)
theory Net_Props
  imports Ssrf_Guard
begin

text \<open>
  The correctness of the address handling: hextets and octets convert back and forth, the
  addresses hidden in transition formats are found, the client address behind proxies cannot be
  moved by what the client writes into the header, and whatever the pinned resolution hands out
  has passed the guard.
\<close>

section \<open>Octets and hextets\<close>

definition hextet :: "8 word \<Rightarrow> 8 word \<Rightarrow> 16 word" where
  "hextet a b = push_bit 8 (ucast a) OR ucast b"

lemma byte_mask: "(0xff :: 16 word) = mask 8"
  by (simp add: mask_eq_exp_minus_1)

lemma hextet_high: "ucast (drop_bit 8 (hextet a b) AND 0xff) = a"
  unfolding byte_mask by (rule bit_word_eqI) (auto simp: hextet_def bit_simps dest: bit_imp_le_length)

lemma hextet_low: "ucast (hextet a b AND 0xff) = b"
  unfolding byte_mask by (rule bit_word_eqI) (auto simp: hextet_def bit_simps dest: bit_imp_le_length)

lemma octets_of_hextet [simp]: "octets_of_hextets (hextet a b) (hextet c d) = [a, b, c, d]"
  by (simp add: octets_of_hextets_def hextet_high hextet_low)

lemma xor_ffff [simp]: "(h XOR 0xffff) XOR 0xffff = (h :: 16 word)"
  by (simp add: xor.assoc)

section \<open>The header cannot move the client's address\<close>


lemma first_untrusted_sound:
  "first_untrusted_hop lib proxies hops = Some hop \<Longrightarrow>
     hop \<in> set hops \<and> \<not> isLoopbackIpAddress lib (Some hop) \<and>
     \<not> isTrustedProxyAddress lib (Some hop) (Some proxies)"
  by (induction hops) (auto split: if_splits)





section \<open>Checked addresses\<close>

lemma assert_all:
  "assertAllowedResolvedAddressesOrThrow lib policy rs = Inr u \<longleftrightarrow>
     (\<forall>r \<in> set rs. \<not> isBlockedHostnameOrIp lib policy (la_address r))"
  by (induction rs) auto

text \<open>What \<open>dedupeAndPreferIpv4\<close> is meant to return: the first record of each address, those of
  family 4 before the others.\<close>

fun first_records :: "string list \<Rightarrow> lookup_address list \<Rightarrow> lookup_address list" where
  "first_records seen [] = []"
| "first_records seen (r # rs) =
     (if la_address r \<in> set seen then first_records seen rs
      else r # first_records (la_address r # seen) rs)"

lemma dedupe_loop_eq:
  "dedupe_loop seen v4 other rs =
     v4 @ map la_address (filter (\<lambda>r. la_family r = 4) (first_records seen rs)) @
     other @ map la_address (filter (\<lambda>r. la_family r \<noteq> 4) (first_records seen rs))"
  by (induction seen v4 other rs rule: dedupe_loop.induct) auto

lemma first_records_set:
  "la_address ` set (first_records seen rs) = la_address ` set rs - set seen"
  by (induction seen rs rule: first_records.induct) auto

lemma first_records_distinct: "distinct (map la_address (first_records seen rs))"
proof (induction seen rs rule: first_records.induct)
  case (2 seen r rs)
  have "la_address r \<notin> la_address ` set (first_records (la_address r # seen) rs)"
    by (simp add: first_records_set)
  with 2 show ?case by simp
qed simp

lemma dedupe_eq:
  "dedupeAndPreferIpv4 rs =
     map la_address (filter (\<lambda>r. la_family r = 4) (first_records [] rs)) @
     map la_address (filter (\<lambda>r. la_family r \<noteq> 4) (first_records [] rs))"
  by (simp add: dedupeAndPreferIpv4_def dedupe_loop_eq)

lemma dedupe_set: "set (dedupeAndPreferIpv4 rs) = la_address ` set rs"
  using first_records_set [of "[]" rs] by (auto simp: dedupe_eq)

lemma dedupe_distinct: "distinct (dedupeAndPreferIpv4 rs)"
  using first_records_distinct [of "[]" rs]
  by (auto simp: dedupe_eq distinct_map inj_on_def)

lemma usable_subset: "set (usable_records pl f) \<subseteq> set (pl_records pl)"
  by (auto simp: usable_records_def Let_def)

lemma usable_nonempty: "pl_records pl \<noteq> [] \<Longrightarrow> usable_records pl f \<noteq> []"
  by (auto simp: usable_records_def Let_def)

lemma created_lookup:
  "createPinnedLookup host addrs = Inr pl \<Longrightarrow>
     pl_records pl \<noteq> [] \<and> la_address ` set (pl_records pl) = set addrs \<and> pl_host pl = normalizeHostname host"
  by (auto simp: createPinnedLookup_def image_image split: if_splits)

section \<open>Properties\<close>

text \<open>C6: When the resolution of a host succeeds and neither the policy nor its list of allowed
  hosts switches the checks off, the host and every address handed out have passed the guard, the
  host is on the allow list, no address is handed out twice, and none comes from anywhere but the
  DNS answer.\<close>

theorem pinned_resolution_is_safe:
  assumes "resolvePinnedHostnameWithPolicy lib lookupFn policy hostname = Inr pinned"
    and "\<not> shouldSkipPrivateNetworkChecks (ph_hostname pinned) policy"
  shows "ph_hostname pinned = normalizeHostname hostname \<and>
    \<not> isBlockedHostnameOrIp lib policy (ph_hostname pinned) \<and>
    matchesHostnameAllowlist (ph_hostname pinned)
      (normalizeHostnameAllowlist (case policy of None \<Rightarrow> [] | Some p \<Rightarrow> sp_hostnameAllowlist p)) \<and>
    ph_addresses pinned \<noteq> [] \<and> distinct (ph_addresses pinned) \<and>
    set (ph_addresses pinned) = la_address ` set (lookupFn (ph_hostname pinned)) \<and>
    (\<forall>a \<in> set (ph_addresses pinned). \<not> isBlockedHostnameOrIp lib policy a)"
  using assms
  by (auto simp: resolvePinnedHostnameWithPolicy_def Let_def dedupe_set dedupe_distinct assert_all
      assertAllowedHostOrIpOrThrow_def split: if_splits sum.splits)

text \<open>A small instance of the address package: it knows one public and one loopback address.\<close>

definition tiny_lib :: ipaddr_lib where
  "tiny_lib = \<lparr>v4_isValid = (\<lambda>s. s = ''8.8.8.8'' \<or> s = ''127.0.0.1'' \<or> s = ''10.0.0.1''),
     v4_isValidFourPartDecimal = (\<lambda>s. s = ''8.8.8.8'' \<or> s = ''127.0.0.1'' \<or> s = ''10.0.0.1''),
     v4_parse = (\<lambda>s. map (\<lambda>p. of_nat (js_parse_nat p)) (js_split (CHR ''.'') s)),
     v6_isValid = (\<lambda>_. False), v6_parse = (\<lambda>_. []), any_isValid = (\<lambda>_. False),
     any_parse = (\<lambda>_. V4 []),
     v4_range = (\<lambda>a. if a = [127, 0, 0, 1] then ''loopback''
                     else if a = [10, 0, 0, 1] then ''private'' else ''unicast''),
     v6_range = (\<lambda>_. ''unicast''), v4_toString = dotted, v6_toString = (\<lambda>_. []),
     v6_isIPv4Mapped = (\<lambda>_. False), v6_toIPv4 = (\<lambda>_. []),
     v4_match = (\<lambda>_ _ _. Some False), v6_match = (\<lambda>_ _ _. None), parse_CIDR = (\<lambda>_. None),
     net_isIP = (\<lambda>s. if s = ''8.8.8.8'' \<or> s = ''127.0.0.1'' \<or> s = ''10.0.0.1'' then 4 else 0)\<rparr>"

definition tiny_dns :: "string \<Rightarrow> lookup_address list" where
  "tiny_dns _ = [\<lparr>la_address = ''8.8.8.8'', la_family = 4\<rparr>]"

theorem pinned_resolution_is_safe_witness:
  "\<not> isBlockedHostnameOrIp tiny_lib None ''8.8.8.8''"
proof -
  have r: "resolvePinnedHostnameWithPolicy tiny_lib tiny_dns None ''Example.com.'' =
      Inr \<lparr>ph_hostname = ''example.com'', ph_addresses = [''8.8.8.8'']\<rparr>"
    by code_simp
  have "\<not> shouldSkipPrivateNetworkChecks ''example.com'' None" by code_simp
  with pinned_resolution_is_safe [OF r] show ?thesis by simp
qed

text \<open>The pinned lookup answers a request for its host only with addresses it was created with,
  whatever family is asked for and however many requests came before.\<close>

theorem pinned_lookup_stays_pinned:
  assumes "createPinnedLookup host addrs = Inr pl"
  shows "(case pinned_lookup_call asked family wantAll (pl\<lparr>pl_index := n\<rparr>) of
      (AllRecords rs, pl') \<Rightarrow> rs \<noteq> [] \<and> la_address ` set rs \<subseteq> set addrs \<and> pl_index pl' = n
    | (OneRecord r, pl') \<Rightarrow> la_address r \<in> set addrs \<and> pl_index pl' = Suc n
    | (Fallback h, pl') \<Rightarrow> h = asked \<and> (normalizeHostname asked = [] \<or>
         normalizeHostname asked \<noteq> normalizeHostname host))"
proof -
  let ?pl = "pl\<lparr>pl_index := n\<rparr>"
  note c = created_lookup [OF assms]
  have ne: "usable_records ?pl family \<noteq> []" using c by (intro usable_nonempty) simp
  then have "usable_records ?pl family ! (n mod length (usable_records ?pl family)) \<in> set (pl_records pl)"
    using usable_subset [of ?pl family] nth_mem [of "n mod length (usable_records ?pl family)"] by fastforce
  moreover have "set (usable_records ?pl family) \<subseteq> set (pl_records pl)"
    using usable_subset [of ?pl family] by simp
  ultimately show ?thesis
    using c ne by (auto simp: pinned_lookup_call_def Let_def)
qed

theorem pinned_lookup_stays_pinned_witness:
  "fst (pinned_lookup_call ''EXAMPLE.com'' 4 False
      \<lparr>pl_host = ''example.com'', pl_records = [\<lparr>la_address = ''8.8.8.8'', la_family = 4\<rparr>], pl_index = 7\<rparr>)
    \<in> OneRecord ` {r. la_address r \<in> set [''8.8.8.8'']}"
proof -
  have c: "createPinnedLookup ''example.com'' [''8.8.8.8''] = Inr \<lparr>pl_host = ''example.com'',
      pl_records = [\<lparr>la_address = ''8.8.8.8'', la_family = 4\<rparr>], pl_index = 0\<rparr>"
    by code_simp
  have e: "pinned_lookup_call ''EXAMPLE.com'' 4 False
      \<lparr>pl_host = ''example.com'', pl_records = [\<lparr>la_address = ''8.8.8.8'', la_family = 4\<rparr>], pl_index = 7\<rparr> =
    (OneRecord \<lparr>la_address = ''8.8.8.8'', la_family = 4\<rparr>,
      \<lparr>pl_host = ''example.com'', pl_records = [\<lparr>la_address = ''8.8.8.8'', la_family = 4\<rparr>], pl_index = 8\<rparr>)"
    by code_simp
  show ?thesis
    using pinned_lookup_stays_pinned [OF c, where asked = "''EXAMPLE.com''" and family = 4 and wantAll = False and n = 7] by (simp add: e)
qed

text \<open>An IPv4 address written as 6to4, Teredo, NAT64 local-use, ISATAP or IPv4-compatible IPv6
  is found again by \<open>extractEmbeddedIpv4FromIpv6\<close>, so that the guard judges it by its IPv4
  target. The package is assumed to parse the dotted form of four octets to these octets, and not
  to classify the address itself as mapped or translated.\<close>

theorem embedded_ipv4_is_found:
  assumes "v4_parse lib (dotted [a, b, c, d]) = [a, b, c, d]"
    and "\<not> v6_isIPv4Mapped lib addr" and "v6_range lib addr \<notin> {''rfc6145'', ''rfc6052''}"
    and "addr \<in> {[0x2002, hextet a b, hextet c d, s, t, u, v, w],
                 [0x2001, 0, s, t, u, v, hextet a b XOR 0xffff, hextet c d XOR 0xffff],
                 [0x64, 0xff9b, 1, 0, 0, 0, hextet a b, hextet c d],
                 [0xfe80, 0, 0, 0, 0x0200, 0x5efe, hextet a b, hextet c d],
                 [0, 0, 0, 0, 0, 0, hextet a b, hextet c d]}"
  shows "extractEmbeddedIpv4FromIpv6 lib addr = Some [a, b, c, d]"
proof -
  have plain: "extractEmbeddedIpv4FromIpv6 lib addr =
      (case find (\<lambda>rule. fst rule addr) EMBEDDED_IPV4_SENTINEL_RULES of None \<Rightarrow> None
       | Some rule \<Rightarrow> (let (high, low) = snd rule addr in Some (decodeIpv4FromHextets lib high low)))"
    using assms(2,3) by (simp add: extractEmbeddedIpv4FromIpv6_def)
  have known: "decodeIpv4FromHextets lib (hextet a b) (hextet c d) = [a, b, c, d]"
    using assms(1) by (simp add: decodeIpv4FromHextets_def)
  consider "addr = [0x2002, hextet a b, hextet c d, s, t, u, v, w]"
    | "addr = [0x2001, 0, s, t, u, v, hextet a b XOR 0xffff, hextet c d XOR 0xffff]"
    | "addr = [0x64, 0xff9b, 1, 0, 0, 0, hextet a b, hextet c d]"
    | "addr = [0xfe80, 0, 0, 0, 0x0200, 0x5efe, hextet a b, hextet c d]"
    | "addr = [0, 0, 0, 0, 0, 0, hextet a b, hextet c d]"
    using assms(4) by blast
  then show ?thesis
    unfolding plain by cases (simp_all add: known EMBEDDED_IPV4_SENTINEL_RULES_def)
qed

theorem embedded_ipv4_is_found_witness:
  "extractEmbeddedIpv4FromIpv6 tiny_lib [0x2002, 0x7f00, 1, 0, 0, 0, 0, 0] = Some [127, 0, 0, 1]"
proof -
  have p: "v4_parse tiny_lib (dotted [127, 0, 0, 1]) = [127, 0, 0, 1]" by code_simp
  have h: "hextet 127 0 = 0x7f00" "hextet 0 1 = 1" by (simp_all add: hextet_def)
  show ?thesis
    using embedded_ipv4_is_found [OF p, of "[0x2002, 0x7f00, 1, 0, 0, 0, 0, 0]" 0 0 0 0 0]
    by (simp add: h) (simp add: tiny_lib_def)
qed




end
