(* ===== verification/Rate_Limits.thy ===== *)
theory Rate_Limits
  imports Net_Address
begin

text \<open>
  The two limiters in front of the gateway: failed authentications per scope and client address
  (\<^verbatim>\<open>src/src/gateway/auth-rate-limit.ts\<close>) and writes to the control plane
  (\<^verbatim>\<open>src/src/gateway/control-plane-rate-limit.ts\<close>). The closure's map is the state, the
  clock an argument. \<open>retryAfterMs\<close> and \<open>remaining\<close> are integers.
\<close>

section \<open>Failed authentications\<close>

definition AUTH_RATE_LIMIT_SCOPE_DEFAULT :: string where
  "AUTH_RATE_LIMIT_SCOPE_DEFAULT = ''default''"

definition BROWSER_ORIGIN_RATE_LIMIT_KEY_PREFIX :: string where
  "BROWSER_ORIGIN_RATE_LIMIT_KEY_PREFIX = ''browser-origin:''"

text \<open>The options after their defaults, as \<open>createAuthRateLimiter\<close> destructures them.\<close>

record rate_limit_options =
  ro_maxAttempts :: "int option"
  ro_windowMs :: "int option"
  ro_lockoutMs :: "int option"
  ro_exemptLoopback :: "bool option"

record rate_limit_config =
  rc_maxAttempts :: int
  rc_windowMs :: int
  rc_lockoutMs :: int
  rc_exemptLoopback :: bool

definition rate_limit_defaults :: "rate_limit_options option \<Rightarrow> rate_limit_config" where
  "rate_limit_defaults config =
     (case config of
        None \<Rightarrow> \<lparr>rc_maxAttempts = 10, rc_windowMs = 60000, rc_lockoutMs = 300000, rc_exemptLoopback = True\<rparr>
      | Some c \<Rightarrow> \<lparr>rc_maxAttempts = js_nullish (ro_maxAttempts c) 10,
                   rc_windowMs = js_nullish (ro_windowMs c) 60000,
                   rc_lockoutMs = js_nullish (ro_lockoutMs c) 300000,
                   rc_exemptLoopback = js_nullish (ro_exemptLoopback c) True\<rparr>)"

record rate_limit_entry =
  rl_attempts :: "int list"
  rl_lockedUntil :: "int option"

record rate_limit_check_result =
  rr_allowed :: bool
  rr_remaining :: int
  rr_retryAfterMs :: int

type_synonym rate_limit_state = "(string, rate_limit_entry) js_map"

definition normalizeRateLimitClientIp :: "ipaddr_lib \<Rightarrow> string option \<Rightarrow> string" where
  "normalizeRateLimitClientIp lib ip =
     (case ip of
        Some s \<Rightarrow>
          if js_starts_with s BROWSER_ORIGIN_RATE_LIMIT_KEY_PREFIX then s
          else js_nullish (resolveClientIp lib
                 \<lparr>ci_remoteAddr = Some s, ci_forwardedFor = None, ci_realIp = None,
                  ci_trustedProxies = None, ci_allowRealIpFallback = False\<rparr>) ''unknown''
      | None \<Rightarrow> js_nullish (resolveClientIp lib
                 \<lparr>ci_remoteAddr = None, ci_forwardedFor = None, ci_realIp = None,
                  ci_trustedProxies = None, ci_allowRealIpFallback = False\<rparr>) ''unknown'')"

definition normalizeScope :: "string option \<Rightarrow> string" where
  "normalizeScope scope =
     js_or (js_trim (js_nullish scope AUTH_RATE_LIMIT_SCOPE_DEFAULT)) AUTH_RATE_LIMIT_SCOPE_DEFAULT"

definition resolveKey :: "ipaddr_lib \<Rightarrow> string option \<Rightarrow> string option \<Rightarrow> string \<times> string" where
  "resolveKey lib rawIp rawScope =
     (let ip = normalizeRateLimitClientIp lib rawIp; scope = normalizeScope rawScope in
      (scope @ '':'' @ ip, ip))"

definition isExempt :: "ipaddr_lib \<Rightarrow> rate_limit_config \<Rightarrow> string \<Rightarrow> bool" where
  "isExempt lib cfg ip \<longleftrightarrow> rc_exemptLoopback cfg \<and> isLoopbackIpAddress lib (Some ip)"

definition slideWindow :: "rate_limit_config \<Rightarrow> int \<Rightarrow> rate_limit_entry \<Rightarrow> rate_limit_entry" where
  "slideWindow cfg now entry =
     entry\<lparr>rl_attempts := filter (\<lambda>ts. now - rc_windowMs cfg < ts) (rl_attempts entry)\<rparr>"

text \<open>\<open>entry.lockedUntil && now < entry.lockedUntil\<close> and its counterpart; \<open>0\<close> is falsy.\<close>

definition locked_until :: "rate_limit_entry \<Rightarrow> int option" where
  "locked_until entry = (case rl_lockedUntil entry of None \<Rightarrow> None | Some t \<Rightarrow> if t = 0 then None else Some t)"

definition is_locked :: "int \<Rightarrow> rate_limit_entry \<Rightarrow> bool" where
  "is_locked now entry = (case locked_until entry of None \<Rightarrow> False | Some t \<Rightarrow> now < t)"

definition auth_check ::
  "ipaddr_lib \<Rightarrow> rate_limit_config \<Rightarrow> int \<Rightarrow> string option \<Rightarrow> string option \<Rightarrow> rate_limit_state
     \<Rightarrow> rate_limit_check_result \<times> rate_limit_state" where
  "auth_check lib cfg now rawIp rawScope entries =
     (let (key, ip) = resolveKey lib rawIp rawScope;
          free = \<lparr>rr_allowed = True, rr_remaining = rc_maxAttempts cfg, rr_retryAfterMs = 0\<rparr> in
      if isExempt lib cfg ip then (free, entries)
      else (case map_get entries key of
          None \<Rightarrow> (free, entries)
        | Some entry \<Rightarrow>
            if is_locked now entry then
              (\<lparr>rr_allowed = False, rr_remaining = 0,
                rr_retryAfterMs = js_nullish (rl_lockedUntil entry) 0 - now\<rparr>, entries)
            else
              (let entry' = (if locked_until entry \<noteq> None
                             then entry\<lparr>rl_lockedUntil := None, rl_attempts := []\<rparr> else entry);
                   entry'' = slideWindow cfg now entry';
                   remaining = max 0 (rc_maxAttempts cfg - int (length (rl_attempts entry''))) in
               (\<lparr>rr_allowed = remaining > 0, rr_remaining = remaining, rr_retryAfterMs = 0\<rparr>,
                map_put key entry'' entries))))"

definition auth_recordFailure ::
  "ipaddr_lib \<Rightarrow> rate_limit_config \<Rightarrow> int \<Rightarrow> string option \<Rightarrow> string option \<Rightarrow> rate_limit_state
     \<Rightarrow> rate_limit_state" where
  "auth_recordFailure lib cfg now rawIp rawScope entries =
     (let (key, ip) = resolveKey lib rawIp rawScope in
      if isExempt lib cfg ip then entries
      else (let entry = js_nullish (map_get entries key) \<lparr>rl_attempts = [], rl_lockedUntil = None\<rparr> in
            if is_locked now entry then entries
            else (let slid = slideWindow cfg now entry;
                      pushed = slid\<lparr>rl_attempts := rl_attempts slid @ [now]\<rparr> in
                  map_put key
                    (if int (length (rl_attempts pushed)) \<ge> rc_maxAttempts cfg
                     then pushed\<lparr>rl_lockedUntil := Some (now + rc_lockoutMs cfg)\<rparr> else pushed) entries)))"

definition auth_reset ::
  "ipaddr_lib \<Rightarrow> string option \<Rightarrow> string option \<Rightarrow> rate_limit_state \<Rightarrow> rate_limit_state" where
  "auth_reset lib rawIp rawScope entries = map_del (fst (resolveKey lib rawIp rawScope)) entries"

text \<open>The loop of \<open>prune\<close> over the entries: slide the window in place, drop what is left empty.\<close>

fun auth_prune :: "rate_limit_config \<Rightarrow> int \<Rightarrow> rate_limit_state \<Rightarrow> rate_limit_state" where
  "auth_prune cfg now [] = []"
| "auth_prune cfg now ((key, entry) # rest) =
     (if is_locked now entry then (key, entry) # auth_prune cfg now rest
      else (let slid = slideWindow cfg now entry in
            if rl_attempts slid = [] then auth_prune cfg now rest
            else (key, slid) # auth_prune cfg now rest))"

definition auth_size :: "rate_limit_state \<Rightarrow> nat" where
  "auth_size entries = length entries"

definition auth_dispose :: "rate_limit_state \<Rightarrow> rate_limit_state" where
  "auth_dispose entries = []"

text \<open>A call of the limiter at an instant, as its clients make them.\<close>

datatype auth_event =
    Check "string option" "string option"
  | Record_failure "string option" "string option"
  | Reset "string option" "string option"
  | Prune

fun auth_step ::
  "ipaddr_lib \<Rightarrow> rate_limit_config \<Rightarrow> rate_limit_state \<Rightarrow> int \<times> auth_event \<Rightarrow> rate_limit_state" where
  "auth_step lib cfg s (now, Check ip scope) = snd (auth_check lib cfg now ip scope s)"
| "auth_step lib cfg s (now, Record_failure ip scope) = auth_recordFailure lib cfg now ip scope s"
| "auth_step lib cfg s (now, Reset ip scope) = auth_reset lib ip scope s"
| "auth_step lib cfg s (now, Prune) = auth_prune cfg now s"

section \<open>Control-plane writes\<close>

definition CONTROL_PLANE_RATE_LIMIT_MAX_REQUESTS :: int where
  "CONTROL_PLANE_RATE_LIMIT_MAX_REQUESTS = 3"

definition CONTROL_PLANE_RATE_LIMIT_WINDOW_MS :: int where
  "CONTROL_PLANE_RATE_LIMIT_WINDOW_MS = 60000"

record bucket =
  bk_count :: int
  bk_windowStartMs :: int

text \<open>The identity fields of the client; \<open>None\<close> for a value that is missing or not a string.\<close>

record gateway_client =
  gc_deviceId :: "string option"
  gc_clientIp :: "string option"
  gc_connId :: "string option"

definition normalizePart :: "string option \<Rightarrow> string \<Rightarrow> string" where
  "normalizePart value fallback =
     (case value of None \<Rightarrow> fallback
      | Some s \<Rightarrow> (let normalized = js_trim s in if length normalized > 0 then normalized else fallback))"

definition resolveControlPlaneRateLimitKey :: "gateway_client option \<Rightarrow> string" where
  "resolveControlPlaneRateLimitKey client =
     (let deviceId = normalizePart (Option.bind client gc_deviceId) ''unknown-device'';
          clientIp = normalizePart (Option.bind client gc_clientIp) ''unknown-ip'';
          connId = normalizePart (Option.bind client gc_connId) [] in
      if deviceId = ''unknown-device'' \<and> clientIp = ''unknown-ip'' \<and> connId \<noteq> []
      then deviceId @ ''|'' @ clientIp @ ''|conn='' @ connId
      else deviceId @ ''|'' @ clientIp)"

record write_budget =
  wb_allowed :: bool
  wb_retryAfterMs :: int
  wb_remaining :: int
  wb_key :: string

definition consumeControlPlaneWriteBudget ::
  "gateway_client option \<Rightarrow> int \<Rightarrow> (string, bucket) js_map \<Rightarrow> write_budget \<times> (string, bucket) js_map" where
  "consumeControlPlaneWriteBudget client nowMs buckets =
     (let key = resolveControlPlaneRateLimitKey client;
          fresh = (\<lparr>wb_allowed = True, wb_retryAfterMs = 0,
                    wb_remaining = CONTROL_PLANE_RATE_LIMIT_MAX_REQUESTS - 1, wb_key = key\<rparr>,
                   map_put key \<lparr>bk_count = 1, bk_windowStartMs = nowMs\<rparr> buckets) in
      case map_get buckets key of
        None \<Rightarrow> fresh
      | Some bucket \<Rightarrow>
          if nowMs - bk_windowStartMs bucket \<ge> CONTROL_PLANE_RATE_LIMIT_WINDOW_MS then fresh
          else if bk_count bucket \<ge> CONTROL_PLANE_RATE_LIMIT_MAX_REQUESTS then
            (\<lparr>wb_allowed = False,
              wb_retryAfterMs = max 0 (bk_windowStartMs bucket + CONTROL_PLANE_RATE_LIMIT_WINDOW_MS - nowMs),
              wb_remaining = 0, wb_key = key\<rparr>, buckets)
          else (let bucket' = bucket\<lparr>bk_count := bk_count bucket + 1\<rparr> in
            (\<lparr>wb_allowed = True, wb_retryAfterMs = 0,
              wb_remaining = max 0 (CONTROL_PLANE_RATE_LIMIT_MAX_REQUESTS - bk_count bucket'), wb_key = key\<rparr>,
             map_put key bucket' buckets)))"

end
