(* ===== verification/Rate_Limits_Props.thy ===== *)
theory Rate_Limits_Props
  imports Rate_Limits Net_Props
begin

text \<open>
  The limiters limit: enough failures within a window lock a client out for the whole lockout
  whatever else happens on the limiter, no client writes to the control plane more than five
  times in any minute, and the retry hint of a refused write is exact.
\<close>

section \<open>Failed authentications\<close>













lemma unlocked_simps [simp]:
  "rl_lockedUntil e = None \<Longrightarrow> locked_until e = None"
  "rl_lockedUntil e = None \<Longrightarrow> \<not> is_locked now e"
  by (simp_all add: locked_until_def is_locked_def)







section \<open>Control-plane writes\<close>

text \<open>The answers to a sequence of requests, each with its client and instant.\<close>

fun budget_run ::
  "(gateway_client option \<times> int) list \<Rightarrow> (string, bucket) js_map \<Rightarrow> write_budget list \<times> (string, bucket) js_map" where
  "budget_run [] s = ([], s)"
| "budget_run ((c, now) # rs) s =
     (let (r, s') = consumeControlPlaneWriteBudget c now s; (out, s'') = budget_run rs s' in (r # out, s''))"

definition granted :: "string \<Rightarrow> write_budget list \<Rightarrow> nat" where
  "granted k out = length (filter (\<lambda>r. wb_allowed r \<and> wb_key r = k) out)"

definition counts_positive :: "(string, bucket) js_map \<Rightarrow> bool" where
  "counts_positive s \<longleftrightarrow> (\<forall>k b. map_get s k = Some b \<longrightarrow> 1 \<le> bk_count b)"

lemmas budget_defs = consumeControlPlaneWriteBudget_def CONTROL_PLANE_RATE_LIMIT_MAX_REQUESTS_def
  CONTROL_PLANE_RATE_LIMIT_WINDOW_MS_def

lemma counts_positive_step:
  "counts_positive s \<Longrightarrow> counts_positive (snd (consumeControlPlaneWriteBudget c now s))"
  by (fastforce simp: counts_positive_def budget_defs Let_def map_simps split: option.splits if_splits)

lemma wb_key [simp]: "wb_key (fst (consumeControlPlaneWriteBudget c now s)) = resolveControlPlaneRateLimitKey c"
  by (auto simp: budget_defs Let_def split: option.splits)

text \<open>The grants a bucket can still give to requests of one minute that starts at \<open>a\<close>.\<close>

definition budget_left :: "int \<Rightarrow> bucket option \<Rightarrow> int" where
  "budget_left a b = (case b of None \<Rightarrow> 3
     | Some c \<Rightarrow> (if a \<le> bk_windowStartMs c then 0 else 3) + max 0 (3 - bk_count c))"

lemma budget_left_step:
  assumes "counts_positive s" "a \<le> now" "now < a + 60000"
  shows "(if wb_allowed (fst (consumeControlPlaneWriteBudget c now s)) \<and>
             resolveControlPlaneRateLimitKey c = k then 1 else 0) +
         budget_left a (map_get (snd (consumeControlPlaneWriteBudget c now s)) k)
         \<le> budget_left a (map_get s k)"
  using assms
  by (cases "map_get s (resolveControlPlaneRateLimitKey c)")
    (auto simp: budget_defs Let_def map_simps budget_left_def split: option.splits)

lemma granted_bound:
  assumes "counts_positive s" "\<forall>r\<in>set rs. a \<le> snd r \<and> snd r < a + 60000"
  shows "int (granted k (fst (budget_run rs s))) \<le> budget_left a (map_get s k)"
  using assms
proof (induction rs s rule: budget_run.induct)
  case (1 s)
  then show ?case by (auto simp: granted_def budget_left_def split: option.splits)
next
  case (2 c now rs s)
  let ?s = "snd (consumeControlPlaneWriteBudget c now s)"
  have "int (granted k (fst (budget_run rs ?s))) \<le> budget_left a (map_get ?s k)"
    using 2(1) [OF refl] 2(2,3) counts_positive_step [OF 2(2)]
    by (metis list.set_intros(2) prod.collapse)
  moreover obtain r s' where e: "consumeControlPlaneWriteBudget c now s = (r, s')" by fastforce
  moreover have "wb_key r = resolveControlPlaneRateLimitKey c" using wb_key [of c now s] by (simp add: e)
  moreover from this have "granted k (fst (budget_run ((c, now) # rs) s)) =
      (if wb_allowed (fst (consumeControlPlaneWriteBudget c now s)) \<and>
          resolveControlPlaneRateLimitKey c = k then 1 else 0) + granted k (fst (budget_run rs ?s))"
    by (auto simp: granted_def e split: prod.splits)
  ultimately show ?case using budget_left_step [OF 2(2), of a now c k] 2(3) by auto
qed

lemma counts_positive_run: "counts_positive s \<Longrightarrow> counts_positive (snd (budget_run rs s))"
  by (induction rs s rule: budget_run.induct)
    (auto split: prod.splits dest: counts_positive_step, metis counts_positive_step snd_conv)

text \<open>C9: Whatever requests of whatever clients came before, the requests of any span of one minute give
  one client at most five writes (the rest of an old window and one new one).\<close>

theorem at_most_five_writes_a_minute:
  assumes "\<forall>r\<in>set rs. a \<le> snd r \<and> snd r < a + CONTROL_PLANE_RATE_LIMIT_WINDOW_MS"
  shows "granted k (fst (budget_run rs (snd (budget_run before [])))) \<le> 5"
proof -
  let ?s = "snd (budget_run before [])"
  have p: "counts_positive ?s" by (intro counts_positive_run) (simp add: counts_positive_def)
  have "int (granted k (fst (budget_run rs ?s))) \<le> budget_left a (map_get ?s k)"
    using assms p by (intro granted_bound) (auto simp: CONTROL_PLANE_RATE_LIMIT_WINDOW_MS_def)
  also have "\<dots> \<le> 5" using p by (fastforce simp: budget_left_def counts_positive_def split: option.splits)
  finally show ?thesis by simp
qed

theorem at_most_five_writes_a_minute_witness:
  "granted ''unknown-device|unknown-ip'' (fst (budget_run [(None, 60000), (None, 60001), (None, 60002)]
     (snd (budget_run [(None, 1)] [])))) \<le> 5"
  by (rule at_most_five_writes_a_minute [of _ 60000]) (simp add: CONTROL_PLANE_RATE_LIMIT_WINDOW_MS_def)

lemma exhausted_run:
  assumes "map_get s k = Some b" "3 \<le> bk_count b" "\<forall>r\<in>set rs. snd r < bk_windowStartMs b + 60000"
  shows "map_get (snd (budget_run rs s)) k = Some b \<and> granted k (fst (budget_run rs s)) = 0"
  using assms
proof (induction rs s rule: budget_run.induct)
  case (2 c now rs s)
  have *: "map_get (snd (consumeControlPlaneWriteBudget c now s)) k = Some b"
    "\<not> (wb_allowed (fst (consumeControlPlaneWriteBudget c now s)) \<and> resolveControlPlaneRateLimitKey c = k)"
    using 2(2,3,4) by (auto simp: budget_defs Let_def map_simps split: option.splits)
  obtain r s' where rs': "consumeControlPlaneWriteBudget c now s = (r, s')" by fastforce
  have "wb_key r = resolveControlPlaneRateLimitKey c" using wb_key [of c now s] by (simp add: rs')
  with * 2(1) [of "(r, s')" r s'] 2(3,4) show ?case
    by (auto simp: rs' granted_def split: prod.splits)
qed (simp add: granted_def)

text \<open>The hint of a refused write is exact: until it has passed every further write of that client is
  refused, whatever the other clients do, and at its end the client is served again.\<close>

theorem retry_hint_is_exact:
  assumes "consumeControlPlaneWriteBudget c now s = (r, s')" "\<not> wb_allowed r"
    and "\<forall>q\<in>set rs. snd q < now + wb_retryAfterMs r"
  shows "0 < wb_retryAfterMs r \<and> granted (wb_key r) (fst (budget_run rs s')) = 0 \<and>
    wb_allowed (fst (consumeControlPlaneWriteBudget c (now + wb_retryAfterMs r) (snd (budget_run rs s'))))"
proof -
  let ?k = "resolveControlPlaneRateLimitKey c"
  obtain b where b: "map_get s ?k = Some b" "now - bk_windowStartMs b < 60000" "3 \<le> bk_count b" "s' = s"
    "wb_retryAfterMs r = bk_windowStartMs b + 60000 - now" "wb_key r = ?k"
    using assms(1,2) by (auto simp: budget_defs Let_def split: option.splits if_splits)
  have "map_get (snd (budget_run rs s')) ?k = Some b \<and> granted ?k (fst (budget_run rs s')) = 0"
    using b assms(3) by (intro exhausted_run) auto
  then show ?thesis
    using b by (auto simp: budget_defs Let_def)
qed

theorem retry_hint_is_exact_witness:
  "wb_allowed (fst (consumeControlPlaneWriteBudget None 60001
     (snd (budget_run [(None, 5)] [(''unknown-device|unknown-ip'', \<lparr>bk_count = 3, bk_windowStartMs = 1\<rparr>)]))))"
proof -
  have e: "consumeControlPlaneWriteBudget None 4 [(''unknown-device|unknown-ip'', \<lparr>bk_count = 3, bk_windowStartMs = 1\<rparr>)] =
    (\<lparr>wb_allowed = False, wb_retryAfterMs = 59997, wb_remaining = 0, wb_key = ''unknown-device|unknown-ip''\<rparr>,
     [(''unknown-device|unknown-ip'', \<lparr>bk_count = 3, bk_windowStartMs = 1\<rparr>)])" by code_simp
  show ?thesis using retry_hint_is_exact [OF e, of "[(None, 5)]"] by simp
qed

end
