(* ===== verification/Exec_Approval.thy ===== *)
theory Exec_Approval
  imports Js_Prelude
begin

text \<open>
  Pending approvals of commands: \<^verbatim>\<open>src/src/gateway/exec-approval-manager.ts\<close>.

  The class's private map is \<open>am_pending\<close>. Its entries are objects that the timers compare by
  identity, so an entry carries the number it was created with, which also names its promise;
  \<open>am_settled\<close> holds the promises that have resolved and their values. The timers the code has
  set are data: \<open>am_timers\<close> are the running expiry timers, \<open>am_grace\<close> the running removal
  timers with the identity they captured. When a timer fires is left open (\<open>approval_step\<close>).
\<close>

datatype exec_decision = Allow_once | Allow_always | Deny

definition RESOLVED_ENTRY_GRACE_MS :: int where
  "RESOLVED_ENTRY_GRACE_MS = 15000"

record 'p approval_record =
  ar_id :: string
  ar_request :: 'p
  ar_createdAtMs :: int
  ar_expiresAtMs :: int
  ar_resolvedAtMs :: "int option"
  ar_decision :: "exec_decision option"
  ar_resolvedBy :: "string option"

record 'p pending_entry =
  pe_ident :: nat
  pe_record :: "'p approval_record"

record 'p approval_state =
  am_pending :: "(string, 'p pending_entry) js_map"
  am_settled :: "(nat, exec_decision option) js_map"
  am_timers :: "(nat \<times> string) list"
  am_grace :: "(nat \<times> string) list"
  am_next :: nat

definition approval_init :: "'p approval_state" where
  "approval_init = \<lparr>am_pending = [], am_settled = [], am_timers = [], am_grace = [], am_next = 0\<rparr>"

datatype approval_error = Already_resolved string

datatype id_lookup = Exact string | Prefix string | Ambiguous "string list" | No_match

definition create_approval ::
  "int \<Rightarrow> string \<Rightarrow> 'p \<Rightarrow> int \<Rightarrow> string option \<Rightarrow> 'p approval_record" where
  "create_approval now randomUUID request timeoutMs requestedId =
     (let resolvedId = (case requestedId of
            Some i \<Rightarrow> if i \<noteq> [] \<and> js_trim i \<noteq> [] then js_trim i else randomUUID
          | None \<Rightarrow> randomUUID) in
      \<lparr>ar_id = resolvedId, ar_request = request, ar_createdAtMs = now, ar_expiresAtMs = now + timeoutMs,
       ar_resolvedAtMs = None, ar_decision = None, ar_resolvedBy = None\<rparr>)"

text \<open>\<open>register\<close> returns the promise, named by the identity of its entry, or throws.\<close>

definition register_approval ::
  "'p approval_record \<Rightarrow> 'p approval_state \<Rightarrow> (approval_error + nat) \<times> 'p approval_state" where
  "register_approval r st =
     (case map_get (am_pending st) (ar_id r) of
        Some existing \<Rightarrow>
          if ar_resolvedAtMs (pe_record existing) = None then (Inr (pe_ident existing), st)
          else (Inl (Already_resolved (ar_id r)), st)
      | None \<Rightarrow>
          (Inr (am_next st),
           st\<lparr>am_pending := map_put (ar_id r) \<lparr>pe_ident = am_next st, pe_record = r\<rparr> (am_pending st),
              am_timers := am_timers st @ [(am_next st, ar_id r)], am_next := Suc (am_next st)\<rparr>))"

definition clear_timer :: "nat \<Rightarrow> (nat \<times> string) list \<Rightarrow> (nat \<times> string) list" where
  "clear_timer n ts = filter (\<lambda>t. fst t \<noteq> n) ts"

text \<open>The tail \<open>resolve\<close> and \<open>expire\<close> have in common: the timer, the record, the promise, and the
  removal timer that captured the entry.\<close>

definition settle ::
  "int \<Rightarrow> string \<Rightarrow> 'p pending_entry \<Rightarrow> exec_decision option \<Rightarrow> string option
     \<Rightarrow> 'p approval_state \<Rightarrow> 'p approval_state" where
  "settle now recordId p decision resolvedBy st =
     st\<lparr>am_timers := clear_timer (pe_ident p) (am_timers st),
        am_pending := map_put recordId
          (p\<lparr>pe_record := (pe_record p)\<lparr>ar_resolvedAtMs := Some now, ar_decision := decision,
                                        ar_resolvedBy := resolvedBy\<rparr>\<rparr>) (am_pending st),
        am_settled := map_put (pe_ident p) decision (am_settled st),
        am_grace := am_grace st @ [(pe_ident p, recordId)]\<rparr>"

definition resolve_approval ::
  "int \<Rightarrow> string \<Rightarrow> exec_decision \<Rightarrow> string option \<Rightarrow> 'p approval_state \<Rightarrow> bool \<times> 'p approval_state" where
  "resolve_approval now recordId decision resolvedBy st =
     (case map_get (am_pending st) recordId of
        None \<Rightarrow> (False, st)
      | Some p \<Rightarrow>
          if ar_resolvedAtMs (pe_record p) \<noteq> None then (False, st)
          else (True, settle now recordId p (Some decision) resolvedBy st))"

definition expire_approval ::
  "int \<Rightarrow> string \<Rightarrow> string option \<Rightarrow> 'p approval_state \<Rightarrow> bool \<times> 'p approval_state" where
  "expire_approval now recordId resolvedBy st =
     (case map_get (am_pending st) recordId of
        None \<Rightarrow> (False, st)
      | Some p \<Rightarrow>
          if ar_resolvedAtMs (pe_record p) \<noteq> None then (False, st)
          else (True, settle now recordId p None resolvedBy st))"

text \<open>The removal timer: only the entry it captured, not one that replaced it.\<close>

definition grace_over :: "nat \<Rightarrow> string \<Rightarrow> 'p approval_state \<Rightarrow> 'p approval_state" where
  "grace_over n recordId st =
     (case map_get (am_pending st) recordId of
        Some p \<Rightarrow> if pe_ident p = n then st\<lparr>am_pending := map_del recordId (am_pending st)\<rparr> else st
      | None \<Rightarrow> st)"

definition getSnapshot :: "string \<Rightarrow> 'p approval_state \<Rightarrow> 'p approval_record option" where
  "getSnapshot recordId st = map_option pe_record (map_get (am_pending st) recordId)"

definition consumeAllowOnce :: "string \<Rightarrow> 'p approval_state \<Rightarrow> bool \<times> 'p approval_state" where
  "consumeAllowOnce recordId st =
     (case map_get (am_pending st) recordId of
        None \<Rightarrow> (False, st)
      | Some p \<Rightarrow>
          if ar_decision (pe_record p) \<noteq> Some Allow_once then (False, st)
          else (True, st\<lparr>am_pending := map_put recordId
                  (p\<lparr>pe_record := (pe_record p)\<lparr>ar_decision := None\<rparr>\<rparr>) (am_pending st)\<rparr>))"

definition awaitDecision :: "string \<Rightarrow> 'p approval_state \<Rightarrow> nat option" where
  "awaitDecision recordId st = map_option pe_ident (map_get (am_pending st) recordId)"

definition lookupPendingId :: "string \<Rightarrow> 'p approval_state \<Rightarrow> id_lookup" where
  "lookupPendingId input st =
     (let normalized = js_trim input in
      if normalized = [] then No_match
      else (case map_get (am_pending st) normalized of
        Some exact \<Rightarrow> if ar_resolvedAtMs (pe_record exact) = None then Exact normalized else No_match
      | None \<Rightarrow>
          (let lowerPrefix = js_lower normalized;
               matches = map fst (filter (\<lambda>(i, e). ar_resolvedAtMs (pe_record e) = None \<and>
                                              js_starts_with (js_lower i) lowerPrefix) (am_pending st)) in
           case matches of [] \<Rightarrow> No_match | [i] \<Rightarrow> Prefix i | _ \<Rightarrow> Ambiguous matches)))"

section \<open>Runs\<close>

text \<open>
  What happens to a manager over time: calls of its clients and firings of the timers it has set.
  A label carries the identity of the entry concerned, so that a reused id is told apart.
\<close>

datatype approval_label =
    Registered nat
  | Refused string
  | Resolved nat exec_decision
  | Expired nat
  | Consumed nat
  | Removed nat
  | Nothing

definition ident_of :: "'p approval_state \<Rightarrow> string \<Rightarrow> nat" where
  "ident_of st recordId = (case map_get (am_pending st) recordId of Some p \<Rightarrow> pe_ident p | None \<Rightarrow> am_next st)"

inductive approval_step :: "'p approval_state \<Rightarrow> approval_label \<Rightarrow> 'p approval_state \<Rightarrow> bool" where
  step_register:
    "register_approval (create_approval now uuid request timeoutMs requestedId) st = (Inr n, st')
       \<Longrightarrow> approval_step st (Registered n) st'"
| step_refused:
    "register_approval (create_approval now uuid request timeoutMs requestedId) st = (Inl (Already_resolved i), st')
       \<Longrightarrow> approval_step st (Refused i) st'"
| step_resolve:
    "resolve_approval now i decision by st = (ok, st')
       \<Longrightarrow> approval_step st (if ok then Resolved (ident_of st i) decision else Nothing) st'"
| step_expire:
    "expire_approval now i by st = (ok, st')
       \<Longrightarrow> approval_step st (if ok then Expired (ident_of st i) else Nothing) st'"
| step_timer:
    "(n, i) \<in> set (am_timers st)
       \<Longrightarrow> expire_approval now i None (st\<lparr>am_timers := clear_timer n (am_timers st)\<rparr>) = (ok, st')
       \<Longrightarrow> approval_step st (if ok then Expired (ident_of st i) else Nothing) st'"
| step_grace:
    "(n, i) \<in> set (am_grace st)
       \<Longrightarrow> grace_over n i (st\<lparr>am_grace := remove1 (n, i) (am_grace st)\<rparr>) = st'
       \<Longrightarrow> approval_step st (Removed n) st'"
| step_consume:
    "consumeAllowOnce i st = (ok, st')
       \<Longrightarrow> approval_step st (if ok then Consumed (ident_of st i) else Nothing) st'"

inductive approval_run :: "'p approval_state \<Rightarrow> approval_label list \<Rightarrow> 'p approval_state \<Rightarrow> bool" where
  run_none: "approval_run st [] st"
| run_more: "approval_run st tr st' \<Longrightarrow> approval_step st' l st'' \<Longrightarrow> approval_run st (tr @ [l]) st''"

inductive_cases approval_stepE: "approval_step st l st'"

end
