(* ===== verification/Exec_Approval_Props.thy ===== *)
theory Exec_Approval_Props
  imports Exec_Approval
begin

text \<open>
  What an approval is worth: every entry is decided at most once, its promise keeps the value it
  was given, a one-time approval is consumed at most once and only after an operator granted it,
  and an operator's abbreviation never names a decided or an unknown entry.
\<close>

section \<open>The invariant\<close>

definition entry_ok :: "'p approval_state \<Rightarrow> 'p pending_entry \<Rightarrow> bool" where
  "entry_ok st p \<longleftrightarrow> pe_ident p < am_next st \<and>
     (if ar_resolvedAtMs (pe_record p) = None
      then map_get (am_settled st) (pe_ident p) = None \<and> ar_decision (pe_record p) = None
      else map_get (am_settled st) (pe_ident p) \<noteq> None \<and>
           (ar_decision (pe_record p) \<noteq> None \<longrightarrow>
              map_get (am_settled st) (pe_ident p) = Some (ar_decision (pe_record p))))"

definition approval_inv :: "'p approval_state \<Rightarrow> bool" where
  "approval_inv st \<longleftrightarrow>
     map_ok (am_pending st) \<and>
     (\<forall>i p. map_get (am_pending st) i = Some p \<longrightarrow> entry_ok st p) \<and>
     (\<forall>i j p q. map_get (am_pending st) i = Some p \<longrightarrow> map_get (am_pending st) j = Some q \<longrightarrow>
        pe_ident p = pe_ident q \<longrightarrow> i = j) \<and>
     (\<forall>n. map_get (am_settled st) n \<noteq> None \<longrightarrow> n < am_next st)"

lemma approval_invD:
  assumes "approval_inv st"
  shows "map_ok (am_pending st)"
    and "\<And>i p. map_get (am_pending st) i = Some p \<Longrightarrow> entry_ok st p"
    and "\<And>i j p q. map_get (am_pending st) i = Some p \<Longrightarrow> map_get (am_pending st) j = Some q \<Longrightarrow>
        pe_ident p = pe_ident q \<Longrightarrow> i = j"
    and "\<And>n. map_get (am_settled st) n \<noteq> None \<Longrightarrow> n < am_next st"
    and "\<And>i p. map_get (am_pending st) i = Some p \<Longrightarrow> pe_ident p < am_next st"
  using assms unfolding approval_inv_def entry_ok_def by blast+

text \<open>Replacing the entry of an id by one with the same identity.\<close>

lemma replace_inv:
  assumes "approval_inv st" "map_get (am_pending st) i = Some p" "pe_ident p' = pe_ident p"
    and "am_pending st' = map_put i p' (am_pending st)" "am_next st' = am_next st" "entry_ok st' p'"
    and "am_settled st' = am_settled st \<or> am_settled st' = map_put (pe_ident p) d (am_settled st)"
  shows "approval_inv st'"
proof -
  note inv = approval_invD [OF assms(1)]
  have other: "pe_ident q \<noteq> pe_ident p" if "map_get (am_pending st) j = Some q" "j \<noteq> i" for j q
    using inv(3) [OF that(1) assms(2)] that(2) by blast
  have "entry_ok st' q" if "map_get (am_pending st) j = Some q" "j \<noteq> i" for j q
    using inv(2) [OF that(1)] other [OF that] assms(5,7) by (auto simp: entry_ok_def map_simps)
  moreover have "\<And>n. map_get (am_settled st') n \<noteq> None \<Longrightarrow> n < am_next st"
    using assms(7) inv(4) inv(5) [OF assms(2)] by (auto simp: map_simps split: if_splits)
  ultimately show ?thesis
    using inv(1) inv(3) other assms(3-6) unfolding approval_inv_def
    by (simp add: map_simps) (metis option.inject)
qed

lemma approval_inv_init: "approval_inv approval_init"
  by (simp add: approval_inv_def approval_init_def)

lemma approval_inv_cong:
  "am_pending st' = am_pending st \<Longrightarrow> am_settled st' = am_settled st \<Longrightarrow> am_next st' = am_next st \<Longrightarrow>
     approval_inv st' = approval_inv st"
  by (simp add: approval_inv_def entry_ok_def)

lemma create_fresh [simp]:
  "ar_resolvedAtMs (create_approval now uuid request t i) = None"
  "ar_decision (create_approval now uuid request t i) = None"
  by (simp_all add: create_approval_def Let_def)

lemma register_inv:
  assumes "approval_inv st" "register_approval r st = (res, st')"
    and "ar_resolvedAtMs r = None" "ar_decision r = None"
  shows "approval_inv st'"
proof (cases "map_get (am_pending st) (ar_id r)")
  case (Some e)
  then have "st' = st" using assms(2) by (auto simp: register_approval_def split: if_splits)
  with assms(1) show ?thesis by simp
next
  case None
  note inv = approval_invD [OF assms(1)]
  have fresh: "map_get (am_settled st) (am_next st) = None" using inv(4) by blast
  have old: "pe_ident p \<noteq> am_next st" if "map_get (am_pending st) i = Some p" for i p
    using inv(5) [OF that] by simp
  from None assms(2) have st': "am_pending st' = map_put (ar_id r) \<lparr>pe_ident = am_next st, pe_record = r\<rparr> (am_pending st)"
      "am_settled st' = am_settled st" "am_next st' = Suc (am_next st)"
    by (auto simp: register_approval_def)
  have "entry_ok st' p" if "map_get (am_pending st) i = Some p" for i p
    using inv(2) [OF that] by (auto simp: entry_ok_def st')
  moreover have "entry_ok st' \<lparr>pe_ident = am_next st, pe_record = r\<rparr>"
    using fresh assms(3,4) by (simp add: entry_ok_def st')
  moreover have "n < am_next st'" if "map_get (am_settled st') n \<noteq> None" for n
    using inv(4) [of n] that by (simp add: st')
  ultimately show ?thesis
    using inv(1,3) old unfolding approval_inv_def st'(1)
    by (simp add: map_simps) (metis option.inject pending_entry.select_convs(1))
qed

lemma settle_inv:
  assumes "approval_inv st" "map_get (am_pending st) i = Some p" "ar_resolvedAtMs (pe_record p) = None"
  shows "approval_inv (settle now i p d by st)"
  using approval_invD(5) [OF assms(1,2)]
  by (intro replace_inv [OF assms(1,2), where d = d]) (auto simp: settle_def entry_ok_def map_simps)

lemma consume_inv:
  assumes "approval_inv st" "map_get (am_pending st) i = Some p"
  shows "approval_inv (st\<lparr>am_pending := map_put i (p\<lparr>pe_record := (pe_record p)\<lparr>ar_decision := None\<rparr>\<rparr>) (am_pending st)\<rparr>)"
  using approval_invD(2) [OF assms]
  by (intro replace_inv [OF assms]) (auto simp: entry_ok_def)

lemma del_inv:
  "approval_inv st \<Longrightarrow> approval_inv (st\<lparr>am_pending := map_del i (am_pending st)\<rparr>)"
  unfolding approval_inv_def entry_ok_def by (simp add: map_simps)

lemma approval_step_inv:
  assumes "approval_step st l st'" "approval_inv st"
  shows "approval_inv st'"
  using assms
proof (cases rule: approval_step.cases)
  case (step_register now uuid request timeoutMs requestedId n)
  then show ?thesis using assms(2) register_inv [OF assms(2)] by simp
next
  case (step_refused now uuid request timeoutMs requestedId i)
  then show ?thesis using assms(2) register_inv [OF assms(2)] by simp
next
  case (step_resolve now i decision "by" ok)
  then show ?thesis using assms(2)
    by (auto simp: resolve_approval_def settle_inv split: option.splits if_splits)
next
  case (step_expire now i "by" ok)
  then show ?thesis using assms(2)
    by (auto simp: expire_approval_def settle_inv split: option.splits if_splits)
next
  case (step_timer n i now ok)
  let ?st = "st\<lparr>am_timers := clear_timer n (am_timers st)\<rparr>"
  have "approval_inv ?st" using assms(2) by (rule approval_inv_cong [THEN iffD2, rotated 3]) simp_all
  with step_timer show ?thesis
    by (auto simp: expire_approval_def settle_inv split: option.splits if_splits)
next
  case (step_grace n i)
  let ?st = "st\<lparr>am_grace := remove1 (n, i) (am_grace st)\<rparr>"
  have "approval_inv ?st" using assms(2) by (rule approval_inv_cong [THEN iffD2, rotated 3]) simp_all
  from del_inv [OF this, of i] this step_grace show ?thesis
    by (auto simp: grace_over_def split: option.splits if_splits)
next
  case (step_consume i ok)
  then show ?thesis using assms(2)
    by (auto simp: consumeAllowOnce_def consume_inv split: option.splits if_splits)
qed

lemma approval_run_inv: "approval_run st tr st' \<Longrightarrow> approval_inv st \<Longrightarrow> approval_inv st'"
  by (induction rule: approval_run.induct) (auto dest: approval_step_inv)

section \<open>Decided once, consumed once\<close>

text \<open>Whether an entry can still be decided, and whether it holds a one-time approval.\<close>

definition undecided :: "nat \<Rightarrow> 'p approval_state \<Rightarrow> bool" where
  "undecided n st \<longleftrightarrow> am_next st \<le> n \<or>
     (\<exists>i p. map_get (am_pending st) i = Some p \<and> pe_ident p = n \<and> ar_resolvedAtMs (pe_record p) = None)"

definition consumable :: "nat \<Rightarrow> 'p approval_state \<Rightarrow> bool" where
  "consumable n st \<longleftrightarrow>
     (\<exists>i p. map_get (am_pending st) i = Some p \<and> pe_ident p = n \<and> ar_decision (pe_record p) = Some Allow_once)"

fun decides :: "nat \<Rightarrow> approval_label \<Rightarrow> bool" where
  "decides n (Resolved m _) = (m = n)"
| "decides n (Expired m) = (m = n)"
| "decides n _ = False"

lemma settle_decides:
  assumes "approval_inv st" "map_get (am_pending st) i = Some p" "ar_resolvedAtMs (pe_record p) = None"
  shows "undecided n (settle now i p d by st) \<longleftrightarrow> undecided n st \<and> n \<noteq> pe_ident p"
    and "consumable n (settle now i p d by st) \<longleftrightarrow> (if n = pe_ident p then d = Some Allow_once else consumable n st)"
proof -
  have uniq: "pe_ident q = pe_ident p \<longleftrightarrow> j = i" if "map_get (am_pending st) j = Some q" for j q
    using approval_invD(3) [OF assms(1) that assms(2)] that assms(2) by auto
  have get: "map_get (am_pending (settle now i p d by st)) j = (if j = i then Some (p\<lparr>pe_record := (pe_record p)
      \<lparr>ar_resolvedAtMs := Some now, ar_decision := d, ar_resolvedBy := by\<rparr>\<rparr>) else map_get (am_pending st) j)" for j
    by (simp add: settle_def map_simps)
  have nx: "am_next (settle now i p d by st) = am_next st" by (simp add: settle_def)
  have lt: "pe_ident p < am_next st" by (rule approval_invD(5) [OF assms(1,2)])
  show "undecided n (settle now i p d by st) \<longleftrightarrow> undecided n st \<and> n \<noteq> pe_ident p"
  proof (cases "n = pe_ident p")
    case True
    then show ?thesis using lt uniq by (auto simp: undecided_def get nx split: if_splits)
  next
    case False
    then have "(\<exists>j q. map_get (am_pending (settle now i p d by st)) j = Some q \<and> pe_ident q = n \<and> ar_resolvedAtMs (pe_record q) = None)
       = (\<exists>j q. map_get (am_pending st) j = Some q \<and> pe_ident q = n \<and> ar_resolvedAtMs (pe_record q) = None)"
      using uniq by (intro iff_exI) (auto simp: get)
    with False show ?thesis by (simp add: undecided_def nx)
  qed
  show "consumable n (settle now i p d by st) \<longleftrightarrow> (if n = pe_ident p then d = Some Allow_once else consumable n st)"
  proof (cases "n = pe_ident p")
    case True
    then show ?thesis using uniq by (auto simp: consumable_def get split: if_splits)
  next
    case False
    then have "(\<exists>j q. map_get (am_pending (settle now i p d by st)) j = Some q \<and> pe_ident q = n \<and> ar_decision (pe_record q) = Some Allow_once)
       = (\<exists>j q. map_get (am_pending st) j = Some q \<and> pe_ident q = n \<and> ar_decision (pe_record q) = Some Allow_once)"
      using uniq by (intro iff_exI) (auto simp: get)
    with False show ?thesis by (simp add: consumable_def)
  qed
qed

lemma register_decides:
  assumes "register_approval r st = (res, st')" "ar_resolvedAtMs r = None" "ar_decision r = None"
  shows "(undecided n st' \<longrightarrow> undecided n st) \<and> (consumable n st' \<longrightarrow> consumable n st)"
  using assms
  by (fastforce simp: register_approval_def undecided_def consumable_def map_simps
      split: option.splits if_splits)

lemma grace_decides:
  "(undecided n (grace_over m i st) \<longrightarrow> undecided n st) \<and> (consumable n (grace_over m i st) \<longrightarrow> consumable n st)"
  by (auto simp: grace_over_def undecided_def consumable_def map_simps split: option.splits if_splits)

lemma consume_decides:
  assumes "approval_inv st" "consumeAllowOnce i st = (ok, st')"
  shows "(undecided n st' \<longrightarrow> undecided n st) \<and> (consumable n st' \<longrightarrow> consumable n st) \<and>
    (ok \<longrightarrow> consumable (ident_of st i) st \<and> \<not> consumable (ident_of st i) st')"
proof (cases ok)
  case False
  then have "st' = st" using assms(2) by (auto simp: consumeAllowOnce_def split: option.splits if_splits)
  with False show ?thesis by simp
next
  case True
  then obtain p where p: "map_get (am_pending st) i = Some p" "ar_decision (pe_record p) = Some Allow_once"
    "st' = st\<lparr>am_pending := map_put i (p\<lparr>pe_record := (pe_record p)\<lparr>ar_decision := None\<rparr>\<rparr>) (am_pending st)\<rparr>"
    using assms(2) by (auto simp: consumeAllowOnce_def split: option.splits if_splits)
  have uniq: "pe_ident q = pe_ident p \<longleftrightarrow> j = i" if "map_get (am_pending st) j = Some q" for j q
    using approval_invD(3) [OF assms(1) that p(1)] that p(1) by auto
  have get: "map_get (am_pending st') j = (if j = i then Some (p\<lparr>pe_record := (pe_record p)\<lparr>ar_decision := None\<rparr>\<rparr>)
      else map_get (am_pending st) j)" for j
    by (simp add: p(3) map_simps)
  have nx: "am_next st' = am_next st" and idt: "ident_of st i = pe_ident p"
    using p(1) by (simp_all add: p(3) ident_of_def)
  have "undecided n st' \<longrightarrow> undecided n st" using p(1) by (auto simp: undecided_def get nx split: if_splits)
  moreover have "consumable n st' \<longrightarrow> consumable n st" by (auto simp: consumable_def get split: if_splits)
  moreover have "\<not> consumable (pe_ident p) st'" using uniq by (auto simp: consumable_def get split: if_splits)
  moreover have "consumable (pe_ident p) st" using p(1,2) by (auto simp: consumable_def)
  ultimately show ?thesis by (simp add: idt)
qed

text \<open>What the two settling operations do, on the manager or on one whose timer has just fired.\<close>

lemma expire_decides:
  assumes "approval_inv st" "expire_approval now i by st = (ok, st')"
  shows "(undecided n st' \<longrightarrow> undecided n st) \<and> (consumable n st' \<longrightarrow> consumable n st) \<and>
    (ok \<longrightarrow> undecided (ident_of st i) st \<and> \<not> undecided (ident_of st i) st')"
  using assms settle_decides [OF assms(1)]
  by (auto simp: expire_approval_def ident_of_def undecided_def [of "pe_ident _" st] split: option.splits if_splits)

lemma resolve_decides:
  assumes "approval_inv st" "resolve_approval now i d by st = (ok, st')"
  shows "(undecided n st' \<longrightarrow> undecided n st) \<and>
    (consumable n st' \<longrightarrow> consumable n st \<or> (ok \<and> n = ident_of st i \<and> d = Allow_once)) \<and>
    (ok \<longrightarrow> undecided (ident_of st i) st \<and> \<not> undecided (ident_of st i) st')"
  using assms settle_decides [OF assms(1)]
  by (auto simp: resolve_approval_def ident_of_def undecided_def [of "pe_ident _" st] split: option.splits if_splits)

lemma timer_fields [simp]:
  "undecided n (st\<lparr>am_timers := x\<rparr>) = undecided n st" "consumable n (st\<lparr>am_timers := x\<rparr>) = consumable n st"
  "ident_of (st\<lparr>am_timers := x\<rparr>) i = ident_of st i" "approval_inv (st\<lparr>am_timers := x\<rparr>) = approval_inv st"
  "undecided n (st\<lparr>am_grace := x\<rparr>) = undecided n st" "consumable n (st\<lparr>am_grace := x\<rparr>) = consumable n st"
  by (simp_all add: undecided_def consumable_def ident_of_def approval_inv_def entry_ok_def split: option.split)

lemma approval_step_decides:
  assumes "approval_step st l st'" "approval_inv st"
  shows "(undecided n st' \<longrightarrow> undecided n st) \<and> (decides n l \<longrightarrow> undecided n st \<and> \<not> undecided n st')"
    and "(consumable n st' \<longrightarrow> consumable n st \<or> l = Resolved n Allow_once) \<and>
      (l = Consumed n \<longrightarrow> consumable n st \<and> \<not> consumable n st')"
proof -
  have "((undecided n st' \<longrightarrow> undecided n st) \<and> (decides n l \<longrightarrow> undecided n st \<and> \<not> undecided n st')) \<and>
    ((consumable n st' \<longrightarrow> consumable n st \<or> l = Resolved n Allow_once) \<and>
      (l = Consumed n \<longrightarrow> consumable n st \<and> \<not> consumable n st'))"
    using assms(1)
  proof (cases rule: approval_step.cases)
    case (step_register now uuid request timeoutMs requestedId m)
    from register_decides [OF this(2)] this(1) show ?thesis by auto
  next
    case (step_refused now uuid request timeoutMs requestedId i)
    from register_decides [OF this(2)] this(1) show ?thesis by auto
  next
    case (step_resolve now i d "by" ok)
    from resolve_decides [OF assms(2) this(2)] this(1) show ?thesis by auto
  next
    case (step_expire now i "by" ok)
    from expire_decides [OF assms(2) this(2)] this(1) show ?thesis by auto
  next
    case (step_timer m i now ok)
    from expire_decides [OF _ this(3)] this(1) assms(2) show ?thesis by auto
  next
    case (step_grace m i)
    from this(1) this(3) [symmetric] grace_decides [of n m i] show ?thesis by fastforce
  next
    case (step_consume i ok)
    from consume_decides [OF assms(2) this(2)] this(1) show ?thesis by auto
  qed
  then show "(undecided n st' \<longrightarrow> undecided n st) \<and> (decides n l \<longrightarrow> undecided n st \<and> \<not> undecided n st')"
    and "(consumable n st' \<longrightarrow> consumable n st \<or> l = Resolved n Allow_once) \<and>
      (l = Consumed n \<longrightarrow> consumable n st \<and> \<not> consumable n st')" by blast+
qed

definition times :: "'a list \<Rightarrow> ('a \<Rightarrow> bool) \<Rightarrow> nat" where
  "times xs P = length (filter P xs)"

lemma approval_run_counts:
  "approval_run st tr st' \<Longrightarrow> approval_inv st \<Longrightarrow>
     times tr (decides n) + (if undecided n st' then 1 else 0) \<le> (if undecided n st then 1 else 0) \<and>
     times tr (\<lambda>l. l = Consumed n) + (if consumable n st' then 1 else 0)
       \<le> times tr (\<lambda>l. l = Resolved n Allow_once) + (if consumable n st then 1 else 0)"
proof (induction rule: approval_run.induct)
  case (run_none st)
  then show ?case by (simp add: times_def)
next
  case (run_more st tr st' l st'')
  have "approval_inv st'" using run_more.hyps(1) run_more.prems by (rule approval_run_inv)
  note d = approval_step_decides [OF run_more.hyps(2) this, of n]
  have IH: "times tr (decides n) + (if undecided n st' then 1 else 0) \<le> (if undecided n st then 1 else 0)"
    "times tr (\<lambda>l. l = Consumed n) + (if consumable n st' then 1 else 0)
       \<le> times tr (\<lambda>l. l = Resolved n Allow_once) + (if consumable n st then 1 else 0)"
    using run_more.IH [OF run_more.prems] by blast+
  have "times (tr @ [l]) (decides n) + (if undecided n st'' then 1 else 0) \<le> (if undecided n st then 1 else 0)"
    using IH(1) d(1) by (auto simp: times_def split: if_splits)
  moreover have "times (tr @ [l]) (\<lambda>l. l = Consumed n) + (if consumable n st'' then 1 else 0)
       \<le> times (tr @ [l]) (\<lambda>l. l = Resolved n Allow_once) + (if consumable n st then 1 else 0)"
    using IH(2) d(2) by (auto simp: times_def split: if_splits)
  ultimately show ?case by blast
qed

lemma times_mono: "(\<And>x. P x \<Longrightarrow> Q x) \<Longrightarrow> times xs P \<le> times xs Q"
  by (induction xs) (auto simp: times_def)

text \<open>C4: Along every run of the manager (calls and timers in any order), an entry is resolved or expired
  at most once, and a one-time approval is consumed at most as often as an operator granted it, so at
  most once.\<close>

theorem approvals_are_used_once:
  assumes "approval_run approval_init tr st"
  shows "times tr (decides n) \<le> 1 \<and>
    times tr (\<lambda>l. l = Consumed n) \<le> times tr (\<lambda>l. l = Resolved n Allow_once) \<and>
    times tr (\<lambda>l. l = Consumed n) \<le> 1"
proof -
  have "\<not> consumable n (approval_init :: 'a approval_state)"
    by (simp add: consumable_def approval_init_def)
  then have a: "times tr (decides n) \<le> 1" and b: "times tr (\<lambda>l. l = Consumed n) \<le> times tr (\<lambda>l. l = Resolved n Allow_once)"
    using approval_run_counts [OF assms approval_inv_init, of n] by (auto split: if_splits)
  have "times tr (\<lambda>l. l = Resolved n Allow_once) \<le> times tr (decides n)"
    by (rule times_mono) auto
  with a b show ?thesis by linarith
qed

definition demo_state :: "nat \<Rightarrow> unit approval_state" where
  "demo_state k = (let s1 = snd (register_approval (create_approval 1 ''u'' () 50 (Some ''a'')) approval_init);
     s2 = snd (resolve_approval 2 ''a'' Allow_once None s1); s3 = snd (consumeAllowOnce ''a'' s2);
     s4 = grace_over 0 ''a'' (s3\<lparr>am_grace := remove1 (0, ''a'') (am_grace s3)\<rparr>) in
     [approval_init, s1, s2, s3, s4] ! k)"

lemma demo_run: "approval_run approval_init
    ([] @ [Registered 0] @ [Resolved 0 Allow_once] @ [Consumed 0]) (demo_state 3)"
proof -
  have 1: "approval_step approval_init (Registered 0) (demo_state 1)"
    by (rule step_register [of 1 "''u''" "()" 50 "Some ''a''"]) code_simp
  have "resolve_approval 2 ''a'' Allow_once None (demo_state 1) = (True, demo_state 2)" by code_simp
  from step_resolve [OF this] have 2: "approval_step (demo_state 1) (Resolved (ident_of (demo_state 1) ''a'') Allow_once) (demo_state 2)"
    by simp
  have "consumeAllowOnce ''a'' (demo_state 2) = (True, demo_state 3)" by code_simp
  from step_consume [OF this] have 3: "approval_step (demo_state 2) (Consumed (ident_of (demo_state 2) ''a'')) (demo_state 3)"
    by simp
  have i: "ident_of (demo_state 1) ''a'' = 0" "ident_of (demo_state 2) ''a'' = 0" by code_simp+
  from run_more [OF run_more [OF run_more [OF run_none 1] 2] 3] show ?thesis unfolding i by simp
qed

theorem approvals_are_used_once_witness:
  "times ([] @ [Registered 0] @ [Resolved 0 Allow_once] @ [Consumed 0]) (\<lambda>l. l = Consumed 0) \<le> 1"
  using approvals_are_used_once [OF demo_run, of 0] by blast

section \<open>The promise keeps its value\<close>

lemma settled_kept:
  assumes "approval_step st l st'" "approval_inv st" "map_get (am_settled st) n = Some d"
  shows "map_get (am_settled st') n = Some d"
proof -
  have *: "map_get (am_settled (settle now i p dd by s)) n = Some d"
    if "map_get (am_pending s) i = Some p" "ar_resolvedAtMs (pe_record p) = None"
      "am_pending s = am_pending st" "am_settled s = am_settled st" for now i p dd "by" s
  proof -
    have "entry_ok st p" using approval_invD(2) [OF assms(2)] that(1,3) by simp
    then have "pe_ident p \<noteq> n" using that(2) assms(3) by (auto simp: entry_ok_def)
    then show ?thesis using assms(3) that(4) by (simp add: settle_def map_simps)
  qed
  show ?thesis
    using assms(1)
  proof (cases rule: approval_step.cases)
    case (step_resolve now i dd "by" ok)
    then show ?thesis using assms(3) *
      by (auto simp: resolve_approval_def split: option.splits if_splits)
  next
    case (step_expire now i "by" ok)
    then show ?thesis using assms(3) *
      by (auto simp: expire_approval_def split: option.splits if_splits)
  next
    case (step_timer m i now ok)
    then show ?thesis using assms(3) *
      by (auto simp: expire_approval_def split: option.splits if_splits)
  qed (use assms(3) in \<open>auto simp: register_approval_def grace_over_def consumeAllowOnce_def
        split: option.splits if_splits\<close>)
qed

lemma settled_kept_run:
  assumes "approval_run st tr st'" "approval_inv st" "map_get (am_settled st) n = Some d"
  shows "map_get (am_settled st') n = Some d"
  using assms by (induction rule: approval_run.induct) (auto dest: approval_run_inv settled_kept)

text \<open>C5: A decision that \<open>resolve\<close> accepts is the value the entry's promise has from then on, through
  every later call and timer, even after the entry has been removed and its id used again.\<close>

theorem decision_reaches_the_waiter:
  assumes "approval_run approval_init tr st" "awaitDecision i st = Some n"
    and "resolve_approval now i d by st = (True, st')" "approval_run st' tr' st''"
  shows "map_get (am_settled st'') n = Some (Some d)"
proof -
  have inv: "approval_inv st" using assms(1) approval_inv_init by (rule approval_run_inv)
  obtain p where p: "map_get (am_pending st) i = Some p" "pe_ident p = n" "ar_resolvedAtMs (pe_record p) = None"
    "st' = settle now i p (Some d) by st"
    using assms(2,3) by (auto simp: awaitDecision_def resolve_approval_def split: option.splits if_splits)
  have "approval_inv st'" using settle_inv [OF inv p(1,3)] by (simp add: p(4))
  moreover have "map_get (am_settled st') n = Some (Some d)" by (simp add: p settle_def map_simps flip: p(2))
  ultimately show ?thesis by (rule settled_kept_run [OF assms(4)])
qed

theorem decision_reaches_the_waiter_witness:
  "map_get (am_settled (demo_state 4)) 0 = Some (Some Allow_once)"
proof -
  have 1: "approval_step approval_init (Registered 0) (demo_state 1)"
    by (rule step_register [of 1 "''u''" "()" 50 "Some ''a''"]) code_simp
  have r: "resolve_approval 2 ''a'' Allow_once None (demo_state 1) = (True, demo_state 2)" by code_simp
  have "consumeAllowOnce ''a'' (demo_state 2) = (True, demo_state 3)" by code_simp
  from step_consume [OF this] have 3: "approval_step (demo_state 2) (Consumed (ident_of (demo_state 2) ''a'')) (demo_state 3)"
    by simp
  have 4: "approval_step (demo_state 3) (Removed 0) (demo_state 4)"
    by (rule step_grace [of _ "''a''"]) code_simp+
  have "awaitDecision ''a'' (demo_state 1) = Some 0" by code_simp
  from decision_reaches_the_waiter [OF run_more [OF run_none 1] this r run_more [OF run_more [OF run_none 3] 4]]
  show ?thesis .
qed

section \<open>Abbreviated ids\<close>

text \<open>What an operator types is resolved to an entry only when that entry is pending and undecided: the
  exact id, or the only pending one the text abbreviates; otherwise all candidates are listed.\<close>

theorem lookup_finds_undecided:
  "case lookupPendingId input st of
     Exact i \<Rightarrow> i = js_trim input \<and> (\<exists>p. map_get (am_pending st) i = Some p \<and> ar_resolvedAtMs (pe_record p) = None)
   | Prefix i \<Rightarrow> map fst (filter (\<lambda>(j, e). ar_resolvedAtMs (pe_record e) = None \<and>
         prefix (js_lower (js_trim input)) (js_lower j)) (am_pending st)) = [i]
   | Ambiguous is \<Rightarrow> 1 < length is \<and> set is = {j. \<exists>e. (j, e) \<in> set (am_pending st) \<and>
         ar_resolvedAtMs (pe_record e) = None \<and> prefix (js_lower (js_trim input)) (js_lower j)}
   | No_match \<Rightarrow> js_trim input \<noteq> [] \<and> map_get (am_pending st) (js_trim input) = None \<longrightarrow>
       (\<forall>(j, e)\<in>set (am_pending st). ar_resolvedAtMs (pe_record e) = None \<longrightarrow>
          \<not> prefix (js_lower (js_trim input)) (js_lower j))"
proof -
  let ?P = "\<lambda>(j, e). ar_resolvedAtMs (pe_record e) = None \<and> prefix (js_lower (js_trim input)) (js_lower j)"
  let ?M = "map fst (filter ?P (am_pending st))"
  have set_M: "set ?M = {j. \<exists>e. (j, e) \<in> set (am_pending st) \<and>
      ar_resolvedAtMs (pe_record e) = None \<and> prefix (js_lower (js_trim input)) (js_lower j)}"
    by force
  have unfold: "lookupPendingId input st = (if js_trim input = [] then No_match
      else case map_get (am_pending st) (js_trim input) of
        Some e \<Rightarrow> if ar_resolvedAtMs (pe_record e) = None then Exact (js_trim input) else No_match
      | None \<Rightarrow> (case ?M of [] \<Rightarrow> No_match | [i] \<Rightarrow> Prefix i | _ \<Rightarrow> Ambiguous ?M))"
    unfolding lookupPendingId_def Let_def js_starts_with_iff_prefix by (rule refl)
  show ?thesis
  proof (cases "js_trim input = [] \<or> map_get (am_pending st) (js_trim input) \<noteq> None")
    case True
    then show ?thesis by (auto simp: lookupPendingId_def Let_def split: option.splits)
  next
    case False
    then have l: "lookupPendingId input st = (case ?M of [] \<Rightarrow> No_match | [i] \<Rightarrow> Prefix i | _ \<Rightarrow> Ambiguous ?M)"
      by (simp add: unfold)
    consider "?M = []" | i where "?M = [i]" | i j r where "?M = i # j # r"
      by (metis list.exhaust)
    then show ?thesis
    proof cases
      case 1
      then have "filter ?P (am_pending st) = []" by (simp only: map_is_Nil_conv)
      then show ?thesis using 1 by (auto simp: l filter_empty_conv)
    next
      case 2
      then show ?thesis by (simp add: l)
    next
      case 3
      then have "lookupPendingId input st = Ambiguous ?M" by (simp only: l list.case)
      then show ?thesis using 3 set_M by (simp only: id_lookup.case) simp
    qed
  qed
qed

theorem lookup_finds_undecided_witness:
  "\<exists>p. map_get (am_pending (demo_state 1)) ''a'' = Some p \<and> ar_resolvedAtMs (pe_record p) = None"
proof -
  have "lookupPendingId '' a '' (demo_state 1) = Exact ''a''" by code_simp
  moreover have "js_trim '' a '' = ''a''" by code_simp
  ultimately show ?thesis using lookup_finds_undecided [of "'' a ''" "demo_state 1"] by simp
qed

end
