(* ===== verification/Dedupe_Cache.thy ===== *)
theory Dedupe_Cache
  imports Js_Prelude
begin

text \<open>
  The cache that recognises repeated messages and events: \<^verbatim>\<open>src/src/infra/dedupe.ts\<close> over
  \<^verbatim>\<open>src/src/infra/map-size.ts\<close>, and what it promises: a key is reported as seen only
  if it was checked within its time to live, and it is not forgotten before unless more other
  keys than the cache holds were checked meanwhile.
\<close>

section \<open>The cache\<close>

record dedupe_options =
  dd_ttlMs :: int
  dd_maxSize :: int

definition createDedupeCache :: "int \<Rightarrow> rat \<Rightarrow> dedupe_options" where
  "createDedupeCache ttlMs maxSize = \<lparr>dd_ttlMs = max 0 ttlMs, dd_maxSize = max 0 \<lfloor>maxSize\<rfloor>\<rparr>"

type_synonym dedupe_cache = "(string, int) js_map"

text \<open>The loop of \<open>pruneMapToMaxSize\<close>: delete the oldest entry while there are too many.\<close>

fun drop_oldest :: "int \<Rightarrow> ('k, 'v) js_map \<Rightarrow> ('k, 'v) js_map" where
  "drop_oldest limit [] = []"
| "drop_oldest limit (p # m) = (if int (length (p # m)) > limit then drop_oldest limit m else p # m)"

definition pruneMapToMaxSize :: "rat \<Rightarrow> ('k, 'v) js_map \<Rightarrow> ('k, 'v) js_map" where
  "pruneMapToMaxSize maxSize m =
     (let limit = max 0 \<lfloor>maxSize\<rfloor> in if limit \<le> 0 then [] else drop_oldest limit m)"

definition dedupe_touch :: "string \<Rightarrow> int \<Rightarrow> dedupe_cache \<Rightarrow> dedupe_cache" where
  "dedupe_touch key now cache = map_put key now (map_del key cache)"

text \<open>An entry survives the pruning loop at \<open>now\<close> unless it is older than the cutoff.\<close>

definition dedupe_live :: "int \<Rightarrow> int \<Rightarrow> int \<Rightarrow> bool" where
  "dedupe_live ttlMs now entryTs \<longleftrightarrow> \<not> (ttlMs > 0 \<and> entryTs < now - ttlMs)"

definition dedupe_prune :: "dedupe_options \<Rightarrow> int \<Rightarrow> dedupe_cache \<Rightarrow> dedupe_cache" where
  "dedupe_prune opt now cache =
     (let live = map_retain (\<lambda>_. dedupe_live (dd_ttlMs opt) now) cache in
      if dd_maxSize opt \<le> 0 then [] else pruneMapToMaxSize (of_int (dd_maxSize opt)) live)"

definition hasUnexpired :: "dedupe_options \<Rightarrow> string \<Rightarrow> int \<Rightarrow> bool \<Rightarrow> dedupe_cache \<Rightarrow> bool \<times> dedupe_cache" where
  "hasUnexpired opt key now touchOnRead cache =
     (case map_get cache key of
        None \<Rightarrow> (False, cache)
      | Some existing \<Rightarrow>
          if dd_ttlMs opt > 0 \<and> now - existing \<ge> dd_ttlMs opt then (False, map_del key cache)
          else (True, if touchOnRead then dedupe_touch key now cache else cache))"

definition dedupe_check :: "dedupe_options \<Rightarrow> string option \<Rightarrow> int \<Rightarrow> dedupe_cache \<Rightarrow> bool \<times> dedupe_cache" where
  "dedupe_check opt key now cache =
     (case key of
        None \<Rightarrow> (False, cache)
      | Some k \<Rightarrow>
          if k = [] then (False, cache)
          else (case hasUnexpired opt k now True cache of
              (True, cache') \<Rightarrow> (True, cache')
            | (False, cache') \<Rightarrow> (False, dedupe_prune opt now (dedupe_touch k now cache'))))"

definition dedupe_peek :: "dedupe_options \<Rightarrow> string option \<Rightarrow> int \<Rightarrow> dedupe_cache \<Rightarrow> bool \<times> dedupe_cache" where
  "dedupe_peek opt key now cache =
     (case key of
        None \<Rightarrow> (False, cache)
      | Some k \<Rightarrow> if k = [] then (False, cache) else hasUnexpired opt k now False cache)"

definition dedupe_delete :: "string option \<Rightarrow> dedupe_cache \<Rightarrow> dedupe_cache" where
  "dedupe_delete key cache =
     (case key of None \<Rightarrow> cache | Some k \<Rightarrow> if k = [] then cache else map_del k cache)"

datatype dedupe_event =
    Dd_check "string option" int
  | Dd_peek "string option" int
  | Dd_delete "string option"
  | Dd_clear

fun dedupe_step :: "dedupe_options \<Rightarrow> dedupe_cache \<Rightarrow> dedupe_event \<Rightarrow> dedupe_cache" where
  "dedupe_step opt cache (Dd_check key now) = snd (dedupe_check opt key now cache)"
| "dedupe_step opt cache (Dd_peek key now) = snd (dedupe_peek opt key now cache)"
| "dedupe_step opt cache (Dd_delete key) = dedupe_delete key cache"
| "dedupe_step opt cache Dd_clear = []"

section \<open>Invariants\<close>

interpretation dd: expiring "dedupe_live ttlMs" for ttlMs
  by unfold_locales (auto simp: dedupe_live_def)

lemma drop_oldest_suffix: "\<exists>us. m = us @ drop_oldest limit m"
  by (induction m) (auto intro: exI [of _ "[]"], metis append_Cons)

lemma drop_oldest_length: "0 \<le> limit \<Longrightarrow> int (length (drop_oldest limit m)) \<le> limit"
  by (induction m) auto

lemma drop_oldest_keeps: "int (length (p # zs)) \<le> limit \<Longrightarrow> \<exists>us. drop_oldest limit (ys @ p # zs) = us @ p # zs"
  by (induction ys) auto

lemma set_drop_oldest: "set (drop_oldest limit m) \<subseteq> set m"
  using drop_oldest_suffix [of m limit] by (metis Un_upper2 set_append)

lemma map_ok_drop_oldest: "map_ok m \<Longrightarrow> map_ok (drop_oldest limit m)"
  using drop_oldest_suffix [of m limit] by (metis distinct_append map_append map_ok_def)

lemma map_ok_prune [simp]: "map_ok m \<Longrightarrow> map_ok (dedupe_prune opt now m)"
  by (simp add: dedupe_prune_def pruneMapToMaxSize_def Let_def map_ok_drop_oldest)

lemma set_prune: "(k, v) \<in> set (dedupe_prune opt now m) \<Longrightarrow> (k, v) \<in> set m"
  using set_drop_oldest
  by (fastforce simp: dedupe_prune_def pruneMapToMaxSize_def Let_def map_retain_def split: if_splits)

lemma length_prune: "0 \<le> dd_maxSize opt \<Longrightarrow> int (length (dedupe_prune opt now m)) \<le> dd_maxSize opt"
  by (auto simp: dedupe_prune_def pruneMapToMaxSize_def Let_def drop_oldest_length)

definition dedupe_inv :: "dedupe_options \<Rightarrow> dedupe_cache \<Rightarrow> bool" where
  "dedupe_inv opt m \<longleftrightarrow> map_ok m \<and> 0 \<le> dd_maxSize opt \<and> int (length m) \<le> dd_maxSize opt"

lemma length_map_del: "length (map_del k m) \<le> length m"
  by (simp add: map_del_def)

lemma touch_inv:
  assumes "dedupe_inv opt m" "map_get m k \<noteq> None"
  shows "dedupe_inv opt (dedupe_touch k now m)"
proof -
  have "length (map_del k m) < length m"
    unfolding map_del_def using assms(2) map_get_in_set by (fastforce intro: length_filter_less)
  then show ?thesis using assms(1) unfolding dedupe_inv_def dedupe_touch_def
    by (simp add: length_map_put jm.get_del)
qed

lemma dedupe_step_inv: "dedupe_inv opt m \<Longrightarrow> dedupe_inv opt (dedupe_step opt m e)"
proof -
  assume inv: "dedupe_inv opt m"
  have del: "dedupe_inv opt (map_del k m)" for k
    using inv length_map_del [of k m] by (auto simp: dedupe_inv_def)
  have ins: "dedupe_inv opt (dedupe_prune opt now (dedupe_touch k now m'))" if "map_ok m'" for k now m'
    using inv length_prune that by (simp add: dedupe_inv_def dedupe_touch_def)
  show ?thesis
    using inv del ins touch_inv [OF inv]
    by (cases e) (auto simp: dedupe_check_def dedupe_peek_def dedupe_delete_def hasUnexpired_def dedupe_inv_def
        split: option.splits)
qed

interpretation dedupe: invariant_machine "dedupe_step opt" "dedupe_inv opt" for opt
  by unfold_locales (rule dedupe_step_inv)

section \<open>Soundness\<close>

lemma hasUnexpired_set:
  "(k, v) \<in> set (snd (hasUnexpired opt key now touch m)) \<Longrightarrow> (k, v) \<in> set m \<or> (k, v) = (key, now)"
  using set_map_put_subset
  by (fastforce simp: hasUnexpired_def dedupe_touch_def set_map_del split: option.splits if_splits)

lemma dedupe_step_set:
  assumes "(k, v) \<in> set (dedupe_step opt m e)"
  shows "(k, v) \<in> set m \<or> (k \<noteq> [] \<and> e = Dd_check (Some k) v)"
proof (cases e)
  case (Dd_check key now)
  then consider "dedupe_step opt m e = m"
    | k' where "key = Some k'" "k' \<noteq> []" "dedupe_step opt m e = snd (hasUnexpired opt k' now True m)"
    | k' where "key = Some k'" "k' \<noteq> []"
        "dedupe_step opt m e = dedupe_prune opt now (dedupe_touch k' now (snd (hasUnexpired opt k' now True m)))"
  proof (cases "key = None \<or> key = Some []")
    case True
    then have "dedupe_step opt m e = m" using Dd_check by (auto simp: dedupe_check_def)
    then show ?thesis by (rule that(1))
  next
    case False
    then obtain a where a: "key = Some a" "a \<noteq> []" by auto
    obtain b m' where h: "hasUnexpired opt a now True m = (b, m')" by fastforce
    show ?thesis using that(2,3) [OF a] Dd_check a h by (cases b) (simp_all add: dedupe_check_def)
  qed
  then show ?thesis
  proof cases
    case 2
    then show ?thesis using assms hasUnexpired_set Dd_check by fastforce
  next
    case 3
    then have "(k, v) \<in> set (dedupe_touch k' now (snd (hasUnexpired opt k' now True m)))"
      using assms set_prune by metis
    then have "(k, v) \<in> set (snd (hasUnexpired opt k' now True m)) \<or> (k, v) = (k', now)"
      using set_map_put_subset by (fastforce simp: dedupe_touch_def set_map_del)
    then show ?thesis using 3 hasUnexpired_set Dd_check by fastforce
  qed (use assms in simp)
next
  case (Dd_peek key now)
  then show ?thesis using assms
    by (auto simp: dedupe_peek_def hasUnexpired_def set_map_del split: option.splits if_splits)
next
  case (Dd_delete key)
  then show ?thesis using assms by (auto simp: dedupe_delete_def set_map_del split: option.splits if_splits)
qed (use assms in simp)

lemma dedupe_run_set:
  "(k, v) \<in> set (foldl (dedupe_step opt) [] es) \<Longrightarrow> k \<noteq> [] \<and> Dd_check (Some k) v \<in> set es"
proof (induction es rule: rev_induct)
  case (snoc e es)
  then show ?case using dedupe_step_set [of k v opt "foldl (dedupe_step opt) [] es" e] by auto
qed simp

text \<open>Whatever the cache has been through, it reports a key as already seen, to a check or a peek, only
  if an earlier check recorded that key less than the time to live ago.\<close>

theorem dedupe_reports_only_seen:
  assumes "fst (dedupe_check opt (Some k) now (foldl (dedupe_step opt) [] es)) \<or>
    fst (dedupe_peek opt (Some k) now (foldl (dedupe_step opt) [] es))"
  shows "\<exists>t. Dd_check (Some k) t \<in> set es \<and> k \<noteq> [] \<and> (0 < dd_ttlMs opt \<longrightarrow> now - t < dd_ttlMs opt)"
proof -
  let ?m = "foldl (dedupe_step opt) [] es"
  obtain t where "map_get ?m k = Some t" "0 < dd_ttlMs opt \<longrightarrow> now - t < dd_ttlMs opt"
    using assms by (auto simp: dedupe_check_def dedupe_peek_def hasUnexpired_def
        split: option.splits if_splits bool.splits)
  moreover from this have "k \<noteq> [] \<and> Dd_check (Some k) t \<in> set es"
    by (intro dedupe_run_set map_get_in_set)
  ultimately show ?thesis by blast
qed

theorem dedupe_reports_only_seen_witness:
  "\<exists>t. Dd_check (Some ''m1'') t \<in> set [Dd_check (Some ''m1'') 5] \<and> ''m1'' \<noteq> [] \<and> (0 < (10::int) \<longrightarrow> 8 - t < 10)"
proof -
  have "fst (dedupe_check \<lparr>dd_ttlMs = 10, dd_maxSize = 4\<rparr> (Some ''m1'') 8
      (foldl (dedupe_step \<lparr>dd_ttlMs = 10, dd_maxSize = 4\<rparr>) [] [Dd_check (Some ''m1'') 5]))"
    by code_simp
  from dedupe_reports_only_seen [OF disjI1, OF this] show ?thesis by simp
qed

section \<open>Completeness\<close>

text \<open>The entries behind a key, and what a check of another key does to them.\<close>

definition remembered :: "string \<Rightarrow> int \<Rightarrow> string set \<Rightarrow> dedupe_cache \<Rightarrow> bool" where
  "remembered k t others m \<longleftrightarrow> (\<exists>us vs. m = us @ (k, t) # vs \<and> fst ` set vs \<subseteq> others)"

lemma map_put_absent: "map_get m k = None \<Longrightarrow> map_put k v m = m @ [(k, v)]"
  by (induction m) (auto split: if_splits)

lemma touch_snoc: "dedupe_touch k now m = map_del k m @ [(k, now)]"
  unfolding dedupe_touch_def by (rule map_put_absent) (simp add: jm.get_del)

lemma remembered_del:
  "remembered k t others m \<Longrightarrow> k' \<noteq> k \<Longrightarrow> remembered k t others (map_del k' m)"
  unfolding remembered_def map_del_def by fastforce

lemma remembered_touch:
  assumes "remembered k t others m" "k' \<noteq> k" "k' \<in> others"
  shows "remembered k t others (dedupe_touch k' now m)"
proof -
  from remembered_del [OF assms(1,2)] obtain us vs
    where "map_del k' m = us @ (k, t) # vs" "fst ` set vs \<subseteq> others" by (auto simp: remembered_def)
  then have "dedupe_touch k' now m = us @ (k, t) # (vs @ [(k', now)])" "fst ` set (vs @ [(k', now)]) \<subseteq> others"
    using assms(3) by (auto simp: touch_snoc)
  then show ?thesis unfolding remembered_def by blast
qed

lemma remembered_prune:
  assumes "remembered k t others m" "map_ok m" "finite others" "k \<notin> others"
    and "int (card others) < dd_maxSize opt" "dedupe_live (dd_ttlMs opt) now t"
  shows "remembered k t others (dedupe_prune opt now m)"
proof -
  let ?P = "\<lambda>p. dedupe_live (dd_ttlMs opt) now (snd p)"
  from assms(1) obtain us vs where m: "m = us @ (k, t) # vs" "fst ` set vs \<subseteq> others"
    by (auto simp: remembered_def)
  have "filter ?P m = filter ?P us @ (k, t) # filter ?P vs" using assms(6) by (simp add: m)
  moreover have "length (filter ?P vs) \<le> card others"
  proof -
    have "distinct (map fst vs)" using assms(2) by (simp add: m(1) map_ok_def)
    then have "length vs = card (fst ` set vs)" using distinct_card by fastforce
    also have "\<dots> \<le> card others" using m(2) assms(3) by (rule card_mono [rotated])
    finally show ?thesis using length_filter_le le_trans by blast
  qed
  ultimately obtain us' where "drop_oldest (dd_maxSize opt) (filter ?P m) = us' @ (k, t) # filter ?P vs"
    using drop_oldest_keeps [of "(k, t)" "filter ?P vs" "dd_maxSize opt"] assms(5) by fastforce
  then have "dedupe_prune opt now m = us' @ (k, t) # filter ?P vs"
    using assms(5) by (simp add: dedupe_prune_def pruneMapToMaxSize_def Let_def map_retain_def)
  then show ?thesis using m(2) unfolding remembered_def by fastforce
qed

lemma remembered_check:
  assumes "remembered k t others m" "map_ok m" "finite others" "k \<notin> others" "k' \<in> others"
    and "int (card others) < dd_maxSize opt" "dedupe_live (dd_ttlMs opt) now t"
  shows "remembered k t others (dedupe_step opt m (Dd_check (Some k') now))"
proof -
  have ne: "k' \<noteq> k" using assms(4,5) by blast
  note del = remembered_del [OF assms(1) ne]
  note touch = remembered_touch [OF _ ne assms(5)]
  have "remembered k t others (dedupe_prune opt now (dedupe_touch k' now m'))"
    if "remembered k t others m'" "map_ok m'" for m'
    using touch [OF that(1)] that(2) assms(3,4,6,7)
    by (intro remembered_prune) (auto simp: dedupe_touch_def)
  then show ?thesis using assms(1,2) del touch [OF assms(1)]
    by (auto simp: dedupe_check_def hasUnexpired_def split: option.splits)
qed

lemma remembered_get: "remembered k t others m \<Longrightarrow> map_ok m \<Longrightarrow> map_get m k = Some t"
  by (rule map_get_of_mem) (auto simp: remembered_def)

lemma remembered_after_check:
  assumes "dedupe_inv opt m" "k \<noteq> []" "0 < dd_maxSize opt"
  shows "remembered k t {} (dedupe_step opt m (Dd_check (Some k) t))"
proof -
  have touch: "remembered k t {} (dedupe_touch k t m')" for m'
    unfolding remembered_def touch_snoc by (intro exI [of _ "map_del k m'"] exI [of _ "[]"]) simp
  moreover have "remembered k t {} (dedupe_prune opt t (dedupe_touch k t m'))" if "map_ok m'" for m'
    using touch that assms(3) by (intro remembered_prune) (auto simp: dedupe_touch_def dedupe_live_def)
  ultimately show ?thesis using assms
    by (auto simp: dedupe_check_def hasUnexpired_def dedupe_inv_def split: option.splits)
qed

text \<open>After a check of a key, a second check within the time to live reports it as seen, provided fewer
  distinct other keys than the cache holds were checked in between (however often each).\<close>

theorem dedupe_remembers:
  assumes "dedupe_inv opt m" "k \<noteq> []" "int (card (fst ` set others)) < dd_maxSize opt" "k \<notin> fst ` set others"
    and "\<forall>(k', t')\<in>set others. t' \<le> t + dd_ttlMs opt" "now < t + dd_ttlMs opt"
  shows "fst (dedupe_check opt (Some k) now (foldl (dedupe_step opt) m
            (Dd_check (Some k) t # map (\<lambda>(k', t'). Dd_check (Some k') t') others)))"
proof -
  let ?O = "fst ` set others"
  let ?m1 = "dedupe_step opt m (Dd_check (Some k) t)"
  have 1: "remembered k t ?O ?m1" using remembered_after_check [OF assms(1,2)] assms(3)
    by (fastforce simp: remembered_def)
  have "remembered k t ?O m' \<Longrightarrow> dedupe_inv opt m' \<Longrightarrow> set xs \<subseteq> set others \<Longrightarrow>
     remembered k t ?O (foldl (dedupe_step opt) m' (map (\<lambda>(k', t'). Dd_check (Some k') t') xs))" for m' xs
  proof (induction xs arbitrary: m')
    case (Cons x xs)
    obtain k' t' where x: "x = (k', t')" by (cases x)
    with Cons.prems(3) have "k' \<in> ?O" "dedupe_live (dd_ttlMs opt) t' t"
      using assms(5) by (force simp: dedupe_live_def)+
    with Cons.prems(1,2) have "remembered k t ?O (dedupe_step opt m' (Dd_check (Some k') t'))"
      using assms(3,4) by (intro remembered_check) (auto simp: dedupe_inv_def)
    from Cons.IH [OF this dedupe_step_inv [OF Cons.prems(2)]] Cons.prems(3) show ?case by (simp add: x)
  qed simp
  from this [OF 1 dedupe_step_inv [OF assms(1)] subset_refl]
  have "remembered k t ?O (foldl (dedupe_step opt) ?m1 (map (\<lambda>(k', t'). Dd_check (Some k') t') others))" .
  moreover have "map_ok (foldl (dedupe_step opt) ?m1 (map (\<lambda>(k', t'). Dd_check (Some k') t') others))"
    using dedupe.run_inv [OF dedupe_step_inv [OF assms(1)]] unfolding dedupe_inv_def by blast
  ultimately show ?thesis using remembered_get assms(2,6)
    by (fastforce simp: dedupe_check_def hasUnexpired_def)
qed

theorem dedupe_remembers_witness:
  "fst (dedupe_check \<lparr>dd_ttlMs = 10, dd_maxSize = 2\<rparr> (Some ''a'') 9
     (foldl (dedupe_step \<lparr>dd_ttlMs = 10, dd_maxSize = 2\<rparr>) []
        (Dd_check (Some ''a'') 1 # map (\<lambda>(k', t'). Dd_check (Some k') t') [(''b'', 2), (''b'', 3)])))"
  by (rule dedupe_remembers) (auto simp: dedupe_inv_def)

end
