(* ===== verification/Node_Pending_Work.thy ===== *)
theory Node_Pending_Work
  imports Js_Prelude
begin

text \<open>
  Work a node picks up when it connects: \<^verbatim>\<open>src/src/gateway/node-pending-work.ts\<close>. The
  module's map from node ids to their state is the state; the clock, \<open>randomUUID\<close> and
  \<open>localeCompare\<close> are arguments.
\<close>

section \<open>Items\<close>

datatype node_work_type = Status_request | Location_request

datatype node_work_priority = Default | Normal | High

fun PRIORITY_RANK :: "node_work_priority \<Rightarrow> int" where
  "PRIORITY_RANK High = 3"
| "PRIORITY_RANK Normal = 2"
| "PRIORITY_RANK Default = 1"

text \<open>The ranks order the priorities.\<close>

instantiation node_work_priority :: linorder
begin

definition less_eq_node_work_priority :: "node_work_priority \<Rightarrow> node_work_priority \<Rightarrow> bool" where
  "a \<le> b \<longleftrightarrow> PRIORITY_RANK a \<le> PRIORITY_RANK b"

definition less_node_work_priority :: "node_work_priority \<Rightarrow> node_work_priority \<Rightarrow> bool" where
  "a < b \<longleftrightarrow> PRIORITY_RANK a < PRIORITY_RANK b"

lemma PRIORITY_RANK_inject: "PRIORITY_RANK a = PRIORITY_RANK b \<longleftrightarrow> a = b"
  by (cases a; cases b) simp_all

instance
  by standard (auto simp: less_eq_node_work_priority_def less_node_work_priority_def PRIORITY_RANK_inject
      dest: PRIORITY_RANK_inject [THEN iffD1, OF antisym])

end

record 'p work_item =
  wi_id :: string
  wi_type :: node_work_type
  wi_priority :: node_work_priority
  wi_createdAtMs :: int
  wi_expiresAtMs :: "int option"
  wi_payload :: "'p option"

record 'p work_state =
  ws_revision :: int
  ws_itemsById :: "(string, 'p work_item) js_map"

type_synonym 'p work_states = "(string, 'p work_state) js_map"

definition DEFAULT_STATUS_ITEM_ID :: string where
  "DEFAULT_STATUS_ITEM_ID = ''baseline-status''"

section \<open>Operations\<close>

definition getOrCreateState :: "string \<Rightarrow> 'p work_states \<Rightarrow> 'p work_state \<times> 'p work_states" where
  "getOrCreateState nodeId states =
     (case map_get states nodeId of
        Some st \<Rightarrow> (st, states)
      | None \<Rightarrow> (let st = \<lparr>ws_revision = 0, ws_itemsById = []\<rparr> in (st, map_put nodeId st states)))"

definition work_live :: "int \<Rightarrow> 'p work_item \<Rightarrow> bool" where
  "work_live nowMs item = (case wi_expiresAtMs item of None \<Rightarrow> True | Some t \<Rightarrow> nowMs < t)"

definition pruneExpired :: "int \<Rightarrow> 'p work_state \<Rightarrow> bool \<times> 'p work_state" where
  "pruneExpired nowMs st =
     (let kept = map_retain (\<lambda>_. work_live nowMs) (ws_itemsById st);
          changed = (length kept \<noteq> length (ws_itemsById st)) in
      (changed, st\<lparr>ws_itemsById := kept,
                   ws_revision := if changed then ws_revision st + 1 else ws_revision st\<rparr>))"

definition pruneStateIfEmpty :: "string \<Rightarrow> 'p work_state \<Rightarrow> 'p work_states \<Rightarrow> 'p work_states" where
  "pruneStateIfEmpty nodeId st states = (if ws_itemsById st = [] then map_del nodeId states else states)"

definition work_compare :: "(string \<Rightarrow> string \<Rightarrow> int) \<Rightarrow> 'p work_item \<Rightarrow> 'p work_item \<Rightarrow> int" where
  "work_compare localeCompare a b =
     (let priorityDelta = PRIORITY_RANK (wi_priority b) - PRIORITY_RANK (wi_priority a) in
      if priorityDelta \<noteq> 0 then priorityDelta
      else if wi_createdAtMs a \<noteq> wi_createdAtMs b then wi_createdAtMs a - wi_createdAtMs b
      else localeCompare (wi_id a) (wi_id b))"

definition sortedItems :: "(string \<Rightarrow> string \<Rightarrow> int) \<Rightarrow> 'p work_state \<Rightarrow> 'p work_item list" where
  "sortedItems localeCompare st = js_sort (work_compare localeCompare) (map snd (ws_itemsById st))"

definition makeBaselineStatusItem :: "int \<Rightarrow> 'p work_item" where
  "makeBaselineStatusItem nowMs = \<lparr>wi_id = DEFAULT_STATUS_ITEM_ID, wi_type = Status_request,
     wi_priority = Default, wi_createdAtMs = nowMs, wi_expiresAtMs = None, wi_payload = None\<rparr>"

record 'p enqueue_params =
  en_nodeId :: string
  en_type :: node_work_type
  en_priority :: "node_work_priority option"
  en_expiresInMs :: "js_number option"
  en_payload :: "'p option"

record 'p enqueue_result =
  er_revision :: int
  er_item :: "'p work_item"
  er_deduped :: bool

datatype work_error = Node_id_required

definition expires_at :: "int \<Rightarrow> js_number option \<Rightarrow> int option" where
  "expires_at nowMs expiresInMs =
     (case expiresInMs of Some (Fin x) \<Rightarrow> Some (nowMs + max 1000 (js_trunc x)) | _ \<Rightarrow> None)"

definition enqueueNodePendingWork ::
  "int \<Rightarrow> string \<Rightarrow> 'p enqueue_params \<Rightarrow> 'p work_states \<Rightarrow> (work_error + 'p enqueue_result) \<times> 'p work_states" where
  "enqueueNodePendingWork nowMs randomUUID params states =
     (let nodeId = js_trim (en_nodeId params) in
      if nodeId = [] then (Inl Node_id_required, states)
      else (let (st0, states1) = getOrCreateState nodeId states;
                st = snd (pruneExpired nowMs st0);
                states2 = map_put nodeId st states1 in
        case find (\<lambda>item. wi_type item = en_type params) (map snd (ws_itemsById st)) of
          Some existing \<Rightarrow>
            (Inr \<lparr>er_revision = ws_revision st, er_item = existing, er_deduped = True\<rparr>, states2)
        | None \<Rightarrow>
            (let item = \<lparr>wi_id = randomUUID, wi_type = en_type params,
                         wi_priority = js_nullish (en_priority params) Normal, wi_createdAtMs = nowMs,
                         wi_expiresAtMs = expires_at nowMs (en_expiresInMs params),
                         wi_payload = en_payload params\<rparr>;
                 st' = st\<lparr>ws_itemsById := map_put (wi_id item) item (ws_itemsById st),
                          ws_revision := ws_revision st + 1\<rparr> in
             (Inr \<lparr>er_revision = ws_revision st', er_item = item, er_deduped = False\<rparr>,
              map_put nodeId st' states2))))"

record drain_options =
  dr_maxItems :: "js_number option"
  dr_includeDefaultStatus :: "bool option"
  dr_nowMs :: "int option"

record 'p drain_result =
  dn_revision :: int
  dn_items :: "'p work_item list"
  dn_hasMore :: bool

text \<open>\<open>Math.min(MAX_ITEMS, Math.max(1, Math.trunc(x)))\<close>; a \<open>NaN\<close> takes no item and no
  comparison with it holds, as \<open>0\<close> does here.\<close>

definition drain_limit :: "js_number option \<Rightarrow> nat" where
  "drain_limit maxItems =
     (case js_nullish maxItems (Fin 4) of
        Fin x \<Rightarrow> nat (min 10 (max 1 (js_trunc x))) | PosInf \<Rightarrow> 10 | NegInf \<Rightarrow> 1 | NaN \<Rightarrow> 0)"

definition drainNodePendingWork ::
  "(string \<Rightarrow> string \<Rightarrow> int) \<Rightarrow> int \<Rightarrow> string \<Rightarrow> drain_options \<Rightarrow> 'p work_states \<Rightarrow> 'p drain_result \<times> 'p work_states" where
  "drainNodePendingWork localeCompare dateNow nodeId opts states =
     (let normalizedNodeId = js_trim nodeId in
      if normalizedNodeId = [] then (\<lparr>dn_revision = 0, dn_items = [], dn_hasMore = False\<rparr>, states)
      else (let nowMs = js_nullish (dr_nowMs opts) dateNow;
                found = map_get states normalizedNodeId;
                revision = (case found of None \<Rightarrow> 0 | Some st \<Rightarrow> ws_revision st);
                pruned = map_option (\<lambda>st. snd (pruneExpired nowMs st)) found;
                states' = (case pruned of None \<Rightarrow> states
                           | Some st \<Rightarrow> pruneStateIfEmpty normalizedNodeId st (map_put normalizedNodeId st states));
                maxItems = drain_limit (dr_maxItems opts);
                explicitItems = (case pruned of None \<Rightarrow> [] | Some st \<Rightarrow> sortedItems localeCompare st);
                firstItems = take maxItems explicitItems;
                hasExplicitStatus = list_ex (\<lambda>item. wi_type item = Status_request) explicitItems;
                includeBaseline = (dr_includeDefaultStatus opts \<noteq> Some False \<and> \<not> hasExplicitStatus);
                items = (if includeBaseline \<and> length firstItems < maxItems
                         then firstItems @ [makeBaselineStatusItem nowMs] else firstItems);
                explicitReturnedCount = length (filter (\<lambda>item. wi_id item \<noteq> DEFAULT_STATUS_ITEM_ID) items);
                baselineIncluded = list_ex (\<lambda>item. wi_id item = DEFAULT_STATUS_ITEM_ID) items in
            (\<lparr>dn_revision = revision, dn_items = items,
              dn_hasMore = (length explicitItems > explicitReturnedCount \<or> (includeBaseline \<and> \<not> baselineIncluded))\<rparr>,
             states')))"

text \<open>The loop of \<open>acknowledgeNodePendingWork\<close> over the given ids.\<close>

fun ack_loop :: "string list \<Rightarrow> (string, 'p work_item) js_map \<Rightarrow> string list \<times> (string, 'p work_item) js_map" where
  "ack_loop [] m = ([], m)"
| "ack_loop (itemId # rest) m =
     (let trimmedId = js_trim itemId in
      if trimmedId = [] \<or> trimmedId = DEFAULT_STATUS_ITEM_ID then ack_loop rest m
      else if map_get m trimmedId \<noteq> None then
        (let (removed, m') = ack_loop rest (map_del trimmedId m) in (trimmedId # removed, m'))
      else ack_loop rest m)"

record ack_result =
  ak_revision :: int
  ak_removedItemIds :: "string list"

definition acknowledgeNodePendingWork ::
  "string \<Rightarrow> string list \<Rightarrow> 'p work_states \<Rightarrow> ack_result \<times> 'p work_states" where
  "acknowledgeNodePendingWork nodeIdRaw itemIds states =
     (let nodeId = js_trim nodeIdRaw in
      if nodeId = [] then (\<lparr>ak_revision = 0, ak_removedItemIds = []\<rparr>, states)
      else (case map_get states nodeId of
        None \<Rightarrow> (\<lparr>ak_revision = 0, ak_removedItemIds = []\<rparr>, states)
      | Some st \<Rightarrow>
          (let (removedItemIds, items) = ack_loop itemIds (ws_itemsById st);
               st' = st\<lparr>ws_itemsById := items,
                        ws_revision := if length removedItemIds > 0 then ws_revision st + 1 else ws_revision st\<rparr> in
           (\<lparr>ak_revision = ws_revision st', ak_removedItemIds = removedItemIds\<rparr>,
            pruneStateIfEmpty nodeId st' (map_put nodeId st' states)))))"

datatype 'p work_event =
    Ev_enqueue int string "'p enqueue_params"
  | Ev_drain int string drain_options
  | Ev_ack int string "string list"

fun work_step :: "(string \<Rightarrow> string \<Rightarrow> int) \<Rightarrow> 'p work_states \<Rightarrow> 'p work_event \<Rightarrow> 'p work_states" where
  "work_step localeCompare states (Ev_enqueue now uuid params) = snd (enqueueNodePendingWork now uuid params states)"
| "work_step localeCompare states (Ev_drain now nodeId opts) = snd (drainNodePendingWork localeCompare now nodeId opts states)"
| "work_step localeCompare states (Ev_ack now nodeId ids) = snd (acknowledgeNodePendingWork nodeId ids states)"

end
