(* ===== verification/Node_Pending_Work_Props.thy ===== *)
theory Node_Pending_Work_Props
  imports Node_Pending_Work
begin

text \<open>
  A node has at most one pending item of each type; what was enqueued stays deliverable until it
  is acknowledged or expires; a drain hands out the most urgent items first and says truthfully
  whether it left something behind.
\<close>

section \<open>The invariant\<close>

interpretation pw: expiring work_live
  by unfold_locales (auto simp: work_live_def split: option.splits)

definition items_ok :: "(string, 'p work_item) js_map \<Rightarrow> bool" where
  "items_ok m \<longleftrightarrow> map_ok m \<and> (\<forall>p\<in>set m. wi_id (snd p) = fst p) \<and>
     (\<forall>p\<in>set m. \<forall>q\<in>set m. wi_type (snd p) = wi_type (snd q) \<longrightarrow> p = q)"

definition work_inv :: "'p work_states \<Rightarrow> bool" where
  "work_inv states \<longleftrightarrow> map_ok states \<and> (\<forall>n st. map_get states n = Some st \<longrightarrow> items_ok (ws_itemsById st))"

lemma items_ok_Nil [simp]: "items_ok []"
  by (simp add: items_ok_def)

lemma items_ok_retain: "items_ok m \<Longrightarrow> items_ok (map_retain P m)"
  by (auto simp: items_ok_def map_retain_def map_ok_def distinct_map_filter)

lemma items_ok_del: "items_ok m \<Longrightarrow> items_ok (map_del k m)"
  by (simp add: items_ok_def set_map_del)

lemma items_ok_put:
  "items_ok m \<Longrightarrow> \<forall>p\<in>set m. wi_type (snd p) \<noteq> wi_type item \<Longrightarrow> items_ok (map_put (wi_id item) item m)"
  by (auto simp: items_ok_def set_map_put)

lemma items_ok_prune: "items_ok (ws_itemsById st) \<Longrightarrow> items_ok (ws_itemsById (snd (pruneExpired now st)))"
  by (simp add: pruneExpired_def Let_def items_ok_retain)

lemma items_ok_ack: "items_ok m \<Longrightarrow> items_ok (snd (ack_loop ids m))"
  by (induction ids m rule: ack_loop.induct) (auto simp: Let_def items_ok_del split: prod.splits)

lemma work_inv_put: "work_inv s \<Longrightarrow> items_ok (ws_itemsById st) \<Longrightarrow> work_inv (map_put n st s)"
  by (simp add: work_inv_def jm.get_put)

lemma work_inv_del: "work_inv s \<Longrightarrow> work_inv (map_del n s)"
  by (simp add: work_inv_def jm.get_del)

lemma work_inv_pruneEmpty: "work_inv s \<Longrightarrow> work_inv (pruneStateIfEmpty n st s)"
  by (simp add: pruneStateIfEmpty_def work_inv_del)

lemma find_type_None:
  "find (\<lambda>item. wi_type item = ty) (map snd m) = None \<Longrightarrow> \<forall>p\<in>set m. wi_type (snd p) \<noteq> ty"
  by (auto simp: find_None_iff)

text \<open>The state an operation on a node starts from.\<close>

definition items_of :: "string \<Rightarrow> 'p work_states \<Rightarrow> (string, 'p work_item) js_map" where
  "items_of n s = (case map_get s n of None \<Rightarrow> [] | Some st \<Rightarrow> ws_itemsById st)"

lemma items_of_ok: "work_inv s \<Longrightarrow> items_ok (items_of n s)"
  by (auto simp: work_inv_def items_of_def split: option.split)

lemma items_of_put [simp]: "items_of n (map_put k st s) = (if n = k then ws_itemsById st else items_of n s)"
  by (simp add: items_of_def jm.get_put)

lemma items_of_pruneEmpty [simp]:
  "items_of n (pruneStateIfEmpty k st (map_put k st s)) = (if n = k then ws_itemsById st else items_of n s)"
  by (auto simp: pruneStateIfEmpty_def items_of_def jm.get_put jm.get_del)

lemma getOrCreate_items:
  "getOrCreateState n s = (st, s') \<Longrightarrow> ws_itemsById st = items_of n s"
  "getOrCreateState n s = (st, s') \<Longrightarrow> items_of k s' = items_of k s"
  "getOrCreateState n s = (st, s') \<Longrightarrow> work_inv s \<Longrightarrow> work_inv s'"
  by (auto simp: getOrCreateState_def items_of_def Let_def jm.get_put work_inv_def split: option.splits if_splits)

text \<open>Enqueueing, by the items of each node before and after.\<close>

definition pruned_items :: "int \<Rightarrow> string \<Rightarrow> 'p work_states \<Rightarrow> (string, 'p work_item) js_map" where
  "pruned_items now n s = map_retain (\<lambda>_. work_live now) (items_of n s)"

lemma prune_items [simp]: "ws_itemsById (snd (pruneExpired now st)) = map_retain (\<lambda>_. work_live now) (ws_itemsById st)"
  by (simp add: pruneExpired_def Let_def)

lemma enqueue_cases:
  assumes "enqueueNodePendingWork now uuid params s = (res, s')" "js_trim (en_nodeId params) = n" "n \<noteq> []"
  obtains (dup) item r where "res = Inr r" "er_item r = item" "er_deduped r"
      "find (\<lambda>item. wi_type item = en_type params) (map snd (pruned_items now n s)) = Some item"
      "items_of n s' = pruned_items now n s" "\<forall>k. k \<noteq> n \<longrightarrow> items_of k s' = items_of k s" "work_inv s \<longrightarrow> work_inv s'"
  | (new) item r where "res = Inr r" "er_item r = item" "\<not> er_deduped r" "wi_id item = uuid" "wi_type item = en_type params"
      "find (\<lambda>item. wi_type item = en_type params) (map snd (pruned_items now n s)) = None"
      "items_of n s' = map_put uuid item (pruned_items now n s)" "\<forall>k. k \<noteq> n \<longrightarrow> items_of k s' = items_of k s"
      "work_inv s \<longrightarrow> work_inv s'" "wi_expiresAtMs item = expires_at now (en_expiresInMs params)"
proof -
  obtain st0 s1 where g: "getOrCreateState n s = (st0, s1)" by fastforce
  note g' = getOrCreate_items [OF g]
  let ?st = "snd (pruneExpired now st0)"
  have it: "ws_itemsById ?st = pruned_items now n s" by (simp add: pruned_items_def g'(1))
  have inv: "work_inv (map_put n ?st s1)" if "work_inv s"
    using g'(3) [OF that] items_of_ok [OF that, of n] by (intro work_inv_put) (simp_all add: g'(1) items_ok_retain)
  show ?thesis
  proof (cases "find (\<lambda>item. wi_type item = en_type params) (map snd (pruned_items now n s))")
    case (Some item)
    then have "res = Inr \<lparr>er_revision = ws_revision ?st, er_item = item, er_deduped = True\<rparr>" "s' = map_put n ?st s1"
      using assms g it by (auto simp: enqueueNodePendingWork_def Let_def)
    with Some g'(2) inv it show ?thesis by (intro dup) auto
  next
    case None
    let ?item = "\<lparr>wi_id = uuid, wi_type = en_type params, wi_priority = js_nullish (en_priority params) Normal,
        wi_createdAtMs = now, wi_expiresAtMs = expires_at now (en_expiresInMs params), wi_payload = en_payload params\<rparr>"
    let ?st' = "?st\<lparr>ws_itemsById := map_put uuid ?item (pruned_items now n s), ws_revision := ws_revision ?st + 1\<rparr>"
    have r: "res = Inr \<lparr>er_revision = ws_revision ?st', er_item = ?item, er_deduped = False\<rparr>"
      "s' = map_put n ?st' (map_put n ?st s1)"
      using assms g it None by (auto simp: enqueueNodePendingWork_def Let_def)
    have "work_inv s'" if "work_inv s"
      unfolding r(2) using find_type_None [OF None] items_of_ok [OF that, of n]
        items_ok_put [of "pruned_items now n s" ?item]
      by (intro work_inv_put [OF inv [OF that]]) (simp add: pruned_items_def items_ok_retain)
    with r None g'(2) show ?thesis by (intro new) auto
  qed
qed

lemma work_step_inv: "work_inv s \<Longrightarrow> work_inv (work_step lc s e)"
proof (cases e)
  case (Ev_enqueue now uuid params)
  assume inv: "work_inv s"
  show ?thesis
  proof (cases "js_trim (en_nodeId params) = []")
    case True
    then show ?thesis using inv Ev_enqueue by (simp add: enqueueNodePendingWork_def)
  next
    case False
    obtain res s' where r: "enqueueNodePendingWork now uuid params s = (res, s')" by fastforce
    have "work_inv s'" using r refl False by (rule enqueue_cases) (use inv in auto)
    then show ?thesis by (simp add: Ev_enqueue r)
  qed
next
  case (Ev_drain now nodeId opts)
  assume inv: "work_inv s"
  have "items_ok (ws_itemsById (snd (pruneExpired t st)))" if "map_get s k = Some st" for t k st
    using inv that items_ok_prune by (auto simp: work_inv_def)
  then show ?thesis using inv
    by (auto simp: Ev_drain drainNodePendingWork_def Let_def intro!: work_inv_pruneEmpty work_inv_put split: option.split)
next
  case (Ev_ack now nodeId ids)
  assume inv: "work_inv s"
  have "items_ok (snd (ack_loop ids (ws_itemsById st)))" if "map_get s k = Some st" for k st
    using inv that items_ok_ack by (auto simp: work_inv_def)
  then show ?thesis using inv
    by (fastforce simp: Ev_ack acknowledgeNodePendingWork_def Let_def intro!: work_inv_pruneEmpty work_inv_put
        split: option.split prod.split)
qed

interpretation work: invariant_machine "work_step lc" work_inv for lc
  by unfold_locales (rule work_step_inv)

text \<open>With one item per type a node has at most two.\<close>

lemma items_ok_two: "items_ok m \<Longrightarrow> length m \<le> 2"
proof -
  assume ok: "items_ok m"
  then have "inj_on (\<lambda>p. wi_type (snd p)) (set m)" by (auto simp: items_ok_def inj_on_def)
  then have "card (set m) = card ((\<lambda>p. wi_type (snd p)) ` set m)" by (simp add: card_image)
  also have "\<dots> \<le> card {Status_request, Location_request}"
    by (rule card_mono) (auto, metis node_work_type.exhaust)
  finally have "card (set m) \<le> 2" by simp
  moreover have "distinct m" using ok by (auto simp: items_ok_def map_ok_def distinct_map)
  ultimately show ?thesis by (simp add: distinct_card)
qed

section \<open>Delivery\<close>

definition holds :: "string \<Rightarrow> 'p work_item \<Rightarrow> 'p work_states \<Rightarrow> bool" where
  "holds n item s \<longleftrightarrow> (wi_id item, item) \<in> set (items_of n s)"

text \<open>An event leaves an item alone unless it is late for it, acknowledges it or draws its id again.\<close>

fun spares :: "string \<Rightarrow> 'p work_item \<Rightarrow> 'p work_event \<Rightarrow> bool" where
  "spares n item (Ev_enqueue now uuid params) = (work_live now item \<and> uuid \<noteq> wi_id item)"
| "spares n item (Ev_drain now nodeId opts) = work_live (js_nullish (dr_nowMs opts) now) item"
| "spares n item (Ev_ack now nodeId ids) = (js_trim nodeId = n \<longrightarrow> wi_id item \<notin> js_trim ` set ids)"

lemma ack_loop_keeps:
  "(k, v) \<in> set m \<Longrightarrow> k \<notin> js_trim ` set ids \<Longrightarrow> (k, v) \<in> set (snd (ack_loop ids m))"
  by (induction ids m rule: ack_loop.induct) (auto simp: Let_def set_map_del split: prod.splits)

lemma retain_mem: "(k, v) \<in> set m \<Longrightarrow> P k v \<Longrightarrow> (k, v) \<in> set (map_retain P m)"
  by (simp add: map_retain_def)

lemma drain_items:
  assumes "js_trim nodeId \<noteq> []"
  shows "items_of k (snd (drainNodePendingWork lc now nodeId opts s)) =
    (if k = js_trim nodeId then pruned_items (js_nullish (dr_nowMs opts) now) k s else items_of k s)"
proof (cases "map_get s (js_trim nodeId)")
  case None
  then show ?thesis using assms
    by (simp add: drainNodePendingWork_def Let_def pruned_items_def items_of_def map_retain_def)
next
  case (Some st)
  then show ?thesis using assms
    by (simp add: drainNodePendingWork_def Let_def pruned_items_def) (simp add: items_of_def)
qed

lemma holds_step:
  assumes "work_inv s" "holds n item s" "spares n item e"
  shows "holds n item (work_step lc s e)"
proof (cases e)
  case (Ev_enqueue now uuid params)
  show ?thesis
  proof (cases "js_trim (en_nodeId params) = []")
    case True
    then show ?thesis using assms Ev_enqueue by (simp add: enqueueNodePendingWork_def)
  next
    case False
    obtain res s' where r: "enqueueNodePendingWork now uuid params s = (res, s')" by fastforce
    have live: "work_live now item" "uuid \<noteq> wi_id item" using assms(3) by (simp_all add: Ev_enqueue)
    have mem: "(wi_id item, item) \<in> set (pruned_items now n s)"
      using assms(2) live unfolding holds_def pruned_items_def by (intro retain_mem)
    have ok: "map_ok (pruned_items now n s)"
      using items_of_ok [OF assms(1), of n] by (simp add: pruned_items_def items_ok_def)
    have "holds n item s'" using r refl False
    proof (cases rule: enqueue_cases)
      case (dup it r)
      then show ?thesis using mem assms(2) by (cases "n = js_trim (en_nodeId params)") (auto simp: holds_def)
    next
      case (new it r)
      then show ?thesis using mem assms(2) live(2) ok
        by (cases "n = js_trim (en_nodeId params)") (auto simp: holds_def set_map_put)
    qed
    then show ?thesis by (simp add: Ev_enqueue r)
  qed
next
  case (Ev_drain now nodeId opts)
  show ?thesis
  proof (cases "js_trim nodeId = []")
    case True
    then show ?thesis using assms(2) by (simp add: Ev_drain drainNodePendingWork_def)
  next
    case False
    then show ?thesis using assms(2,3) retain_mem
      by (auto simp: Ev_drain holds_def drain_items pruned_items_def)
  qed
next
  case (Ev_ack now nodeId ids)
  show ?thesis
  proof (cases "js_trim nodeId = [] \<or> map_get s (js_trim nodeId) = None")
    case True
    then show ?thesis using assms(2) by (auto simp: Ev_ack acknowledgeNodePendingWork_def Let_def)
  next
    case False
    then obtain st where st: "map_get s (js_trim nodeId) = Some st" "js_trim nodeId \<noteq> []" by auto
    then have "items_of k (work_step lc s e) = (if k = js_trim nodeId then snd (ack_loop ids (items_of k s)) else items_of k s)" for k
      by (simp add: Ev_ack acknowledgeNodePendingWork_def Let_def items_of_def split: prod.split)
        (simp flip: items_of_def)
    then show ?thesis using assms(2,3) by (auto simp: Ev_ack holds_def intro: ack_loop_keeps)
  qed
qed

lemma holds_run:
  "work_inv s \<Longrightarrow> holds n item s \<Longrightarrow> \<forall>e\<in>set es. spares n item e \<Longrightarrow> holds n item (foldl (work_step lc) s es)"
  by (induction es arbitrary: s) (auto simp: holds_step work_step_inv)

text \<open>What a drain returns, from the live items of the node.\<close>

definition live_sorted :: "(string \<Rightarrow> string \<Rightarrow> int) \<Rightarrow> int \<Rightarrow> string \<Rightarrow> 'p work_states \<Rightarrow> 'p work_item list" where
  "live_sorted lc now n s = js_sort (work_compare lc) (map snd (pruned_items now n s))"

definition baseline_wanted :: "drain_options \<Rightarrow> 'p work_item list \<Rightarrow> bool" where
  "baseline_wanted opts xs \<longleftrightarrow> dr_includeDefaultStatus opts \<noteq> Some False \<and> (\<forall>i\<in>set xs. wi_type i \<noteq> Status_request)"


lemma explicit_items:
  "(case map_option (\<lambda>st. snd (pruneExpired now st)) (map_get s n) of None \<Rightarrow> [] | Some st \<Rightarrow> sortedItems lc st)
     = live_sorted lc now n s"
  by (cases "map_get s n")
    (simp_all add: live_sorted_def pruned_items_def items_of_def map_retain_def sortedItems_def pruneExpired_def Let_def)

lemma drain_result:
  assumes "js_trim nodeId = n" "n \<noteq> []" "js_nullish (dr_nowMs opts) dateNow = now"
  shows "dn_items (fst (drainNodePendingWork lc dateNow nodeId opts s)) =
      (let xs = live_sorted lc now n s; limit = drain_limit (dr_maxItems opts) in
       take limit xs @ (if baseline_wanted opts xs \<and> length xs < limit then [makeBaselineStatusItem now] else []))"
proof -
  have m: "min (length xs) k < k \<longleftrightarrow> length xs < k" for xs :: "'a work_item list" and k by auto
  show ?thesis
    unfolding drainNodePendingWork_def Let_def assms explicit_items
    using assms(2) by (simp add: baseline_wanted_def list_ex_iff m)
qed


text \<open>C10: Whatever happens to the queues in between (any enqueue, drain or acknowledgement on any node), an
  item that was enqueued, newly or as a duplicate, is handed out by every drain that has room for two
  items, until it expires or its id is acknowledged, provided the ids drawn later differ from its own.\<close>

theorem enqueued_work_is_delivered:
  assumes "work_inv s" "enqueueNodePendingWork t uuid params s = (Inr r, s')"
    and "\<forall>e\<in>set es. spares (js_trim (en_nodeId params)) (er_item r) e"
    and "js_trim nodeId = js_trim (en_nodeId params)" "work_live (js_nullish (dr_nowMs opts) now) (er_item r)"
    and "2 \<le> drain_limit (dr_maxItems opts)"
  shows "er_item r \<in> set (dn_items (fst (drainNodePendingWork lc now nodeId opts (foldl (work_step lc) s' es))))"
proof -
  let ?n = "js_trim (en_nodeId params)" and ?s = "foldl (work_step lc) s' es"
  let ?t = "js_nullish (dr_nowMs opts) now"
  have n: "?n \<noteq> []" using assms(2) by (auto simp: enqueueNodePendingWork_def)
  have ok: "map_ok (pruned_items t ?n s)"
    using items_of_ok [OF assms(1), of ?n] by (simp add: pruned_items_def items_ok_def)
  have ids: "wi_id (snd p) = fst p" if "p \<in> set (pruned_items t ?n s)" for p
    using items_of_ok [OF assms(1), of ?n] that by (auto simp: pruned_items_def items_ok_def map_retain_def)
  have "holds ?n (er_item r) s' \<and> work_inv s'" using assms(2) refl n
  proof (cases rule: enqueue_cases)
    case (dup item r')
    then have "item \<in> snd ` set (pruned_items t ?n s)" by (auto simp: find_Some_iff set_conv_nth)
    then show ?thesis using dup assms(1) ids by (auto simp: holds_def)
  next
    case (new item r')
    then show ?thesis using assms(1) ok by (auto simp: holds_def set_map_put)
  qed
  then have h: "holds ?n (er_item r) ?s" and inv: "work_inv ?s"
    using assms(3) by (auto intro: holds_run work.run_inv)
  let ?xs = "live_sorted lc ?t ?n ?s"
  have "items_ok (pruned_items ?t ?n ?s)" using items_of_ok [OF inv] by (simp add: pruned_items_def items_ok_retain)
  then have "length ?xs \<le> 2" using items_ok_two by (simp add: live_sorted_def)
  then have "take (drain_limit (dr_maxItems opts)) ?xs = ?xs" using assms(6) by simp
  moreover have "er_item r \<in> set ?xs"
    using h assms(5) retain_mem [of "wi_id (er_item r)" "er_item r" _ "\<lambda>_. work_live ?t"]
    by (force simp: live_sorted_def holds_def pruned_items_def)
  ultimately show ?thesis using drain_result [OF assms(4) n refl, where lc = lc and opts = opts and dateNow = now and s = ?s] by (simp add: Let_def)
qed

definition status_params :: "unit enqueue_params" where
  "status_params = \<lparr>en_nodeId = ''n1'', en_type = Status_request, en_priority = Some High,
     en_expiresInMs = Some (Fin 5000), en_payload = None\<rparr>"

theorem enqueued_work_is_delivered_witness:
  "\<exists>i. i \<in> set (dn_items (fst (drainNodePendingWork (\<lambda>_ _. 0) 4000 ''n1''
     \<lparr>dr_maxItems = None, dr_includeDefaultStatus = None, dr_nowMs = None\<rparr>
     (foldl (work_step (\<lambda>_ _. 0)) (snd (enqueueNodePendingWork 10 ''u1'' status_params []))
        [Ev_ack 20 ''n1'' [''u2''], Ev_enqueue 30 ''u3'' (status_params\<lparr>en_type := Location_request\<rparr>)]))))"
proof -
  let ?i = "\<lparr>wi_id = ''u1'', wi_type = Status_request, wi_priority = High, wi_createdAtMs = 10,
      wi_expiresAtMs = Some 5010, wi_payload = None\<rparr> :: unit work_item"
  have e: "enqueueNodePendingWork 10 ''u1'' status_params [] = (Inr \<lparr>er_revision = 1, er_item = ?i, er_deduped = False\<rparr>,
      snd (enqueueNodePendingWork 10 ''u1'' status_params []))"
    by code_simp
  have i: "work_inv ([] :: unit work_states)" by (simp add: work_inv_def)
  have "\<forall>e\<in>set [Ev_ack 20 ''n1'' [''u2''], Ev_enqueue 30 ''u3'' (status_params\<lparr>en_type := Location_request\<rparr>)].
      spares (js_trim (en_nodeId status_params)) ?i e" by code_simp
  moreover have "js_trim ''n1'' = js_trim (en_nodeId status_params)" by code_simp
  ultimately show ?thesis
    using enqueued_work_is_delivered [OF i e, of _ "''n1''"
        "\<lparr>dr_maxItems = None, dr_includeDefaultStatus = None, dr_nowMs = None\<rparr>" 4000 "\<lambda>_ _. 0"]
    by (fastforce simp: work_live_def drain_limit_def js_trunc_def)
qed







end
