(* ===== verification/Heartbeat_Wake.thy ===== *)
theory Heartbeat_Wake
  imports Js_Prelude
begin

text \<open>
  The scheduler of heartbeats: \<^verbatim>\<open>src/src/infra/heartbeat-wake.ts\<close> and the classification of
  wake reasons in \<^verbatim>\<open>src/src/infra/heartbeat-reason.ts\<close>.

  The module's variables are the record \<open>wake_state\<close>. The timer's callback is asynchronous:
  \<open>timer_fired\<close> runs it up to its first \<open>await\<close> and leaves a \<open>wake_run\<close> behind, and
  \<open>handler_done\<close> continues such a run with the outcome of the call it waits for. A handler is
  a number, so that two registrations can be compared; instants and delays are rationals.
\<close>

section \<open>heartbeat-reason.ts\<close>

datatype reason_kind = Rk_retry | Rk_interval | Rk_manual | Rk_exec_event | Rk_wake | Rk_cron | Rk_hook | Rk_other

definition trimReason :: "string option \<Rightarrow> string" where
  "trimReason reason = (case reason of Some r \<Rightarrow> js_trim r | None \<Rightarrow> [])"

definition normalizeHeartbeatWakeReason :: "string option \<Rightarrow> string" where
  "normalizeHeartbeatWakeReason reason =
     (let trimmed = trimReason reason in if length trimmed > 0 then trimmed else ''requested'')"

definition resolveHeartbeatReasonKind :: "string option \<Rightarrow> reason_kind" where
  "resolveHeartbeatReasonKind reason =
     (let trimmed = trimReason reason in
      if trimmed = ''retry'' then Rk_retry
      else if trimmed = ''interval'' then Rk_interval
      else if trimmed = ''manual'' then Rk_manual
      else if trimmed = ''exec-event'' then Rk_exec_event
      else if trimmed = ''wake'' then Rk_wake
      else if js_starts_with trimmed ''acp:spawn:'' then Rk_wake
      else if js_starts_with trimmed ''cron:'' then Rk_cron
      else if js_starts_with trimmed ''hook:'' then Rk_hook
      else Rk_other)"

definition isHeartbeatEventDrivenReason :: "string option \<Rightarrow> bool" where
  "isHeartbeatEventDrivenReason reason \<longleftrightarrow>
     resolveHeartbeatReasonKind reason \<in> {Rk_exec_event, Rk_cron, Rk_wake, Rk_hook}"

definition isHeartbeatActionWakeReason :: "string option \<Rightarrow> bool" where
  "isHeartbeatActionWakeReason reason \<longleftrightarrow>
     resolveHeartbeatReasonKind reason \<in> {Rk_manual, Rk_exec_event, Rk_hook}"

section \<open>heartbeat-wake.ts: state\<close>

datatype timer_kind = Normal_timer | Retry_timer

record pending_wake =
  pw_reason :: string
  pw_priority :: int
  pw_requestedAt :: rat
  pw_agentId :: "string option"
  pw_sessionKey :: "string option"

record wake_timer =
  wt_dueAt :: rat
  wt_kind :: timer_kind
  wt_delay :: rat

text \<open>A callback that waits for a call of the handler: the batch it took, the wakes still to be
  tried (the first is the one being tried), the delay of its timer and the handler it captured.\<close>

record wake_run =
  wr_handler :: nat
  wr_delay :: rat
  wr_batch :: "pending_wake list"
  wr_rest :: "pending_wake list"

record wake_state =
  hw_handler :: "nat option"
  hw_generation :: nat
  hw_pending :: "(string, pending_wake) js_map"
  hw_scheduled :: bool
  hw_running :: bool
  hw_timer :: "wake_timer option"
  hw_runs :: "wake_run list"

definition wake_init :: wake_state where
  "wake_init = \<lparr>hw_handler = None, hw_generation = 0, hw_pending = [], hw_scheduled = False,
     hw_running = False, hw_timer = None, hw_runs = []\<rparr>"

definition DEFAULT_COALESCE_MS :: rat where
  "DEFAULT_COALESCE_MS = 250"

definition DEFAULT_RETRY_MS :: rat where
  "DEFAULT_RETRY_MS = 1000"

definition resolveReasonPriority :: "string \<Rightarrow> int" where
  "resolveReasonPriority reason =
     (let kind = resolveHeartbeatReasonKind (Some reason) in
      if kind = Rk_retry then 0
      else if kind = Rk_interval then 1
      else if isHeartbeatActionWakeReason (Some reason) then 3
      else 2)"

definition normalizeWakeTarget :: "string option \<Rightarrow> string option" where
  "normalizeWakeTarget value =
     (let trimmed = (case value of Some v \<Rightarrow> js_trim v | None \<Rightarrow> []) in
      if trimmed = [] then None else Some trimmed)"

definition getWakeTargetKey :: "string option \<Rightarrow> string option \<Rightarrow> string" where
  "getWakeTargetKey agentId sessionKey =
     js_nullish (normalizeWakeTarget agentId) [] @ ''::'' @ js_nullish (normalizeWakeTarget sessionKey) []"

section \<open>heartbeat-wake.ts: operations\<close>

definition queuePendingWakeReason ::
  "rat \<Rightarrow> string option \<Rightarrow> string option \<Rightarrow> string option \<Rightarrow> wake_state \<Rightarrow> wake_state" where
  "queuePendingWakeReason requestedAt reason agentId sessionKey st =
     (let normalizedReason = normalizeHeartbeatWakeReason reason;
          normalizedAgentId = normalizeWakeTarget agentId;
          normalizedSessionKey = normalizeWakeTarget sessionKey;
          wakeTargetKey = getWakeTargetKey normalizedAgentId normalizedSessionKey;
          nextWake = \<lparr>pw_reason = normalizedReason, pw_priority = resolveReasonPriority normalizedReason,
                      pw_requestedAt = requestedAt, pw_agentId = normalizedAgentId,
                      pw_sessionKey = normalizedSessionKey\<rparr>;
          put = st\<lparr>hw_pending := map_put wakeTargetKey nextWake (hw_pending st)\<rparr> in
      case map_get (hw_pending st) wakeTargetKey of
        None \<Rightarrow> put
      | Some previous \<Rightarrow>
          if pw_priority nextWake > pw_priority previous then put
          else if pw_priority nextWake = pw_priority previous \<and> pw_requestedAt nextWake \<ge> pw_requestedAt previous
          then put else st)"

definition wake_delay :: "js_number \<Rightarrow> rat" where
  "wake_delay coalesceMs = (case coalesceMs of Fin x \<Rightarrow> max 0 x | _ \<Rightarrow> DEFAULT_COALESCE_MS)"

definition schedule_wake :: "rat \<Rightarrow> js_number \<Rightarrow> timer_kind \<Rightarrow> wake_state \<Rightarrow> wake_state" where
  "schedule_wake now coalesceMs kind st =
     (let delay = wake_delay coalesceMs;
          dueAt = now + delay;
          arm = st\<lparr>hw_timer := Some \<lparr>wt_dueAt = dueAt, wt_kind = kind, wt_delay = delay\<rparr>\<rparr> in
      case hw_timer st of
        None \<Rightarrow> arm
      | Some t \<Rightarrow> if wt_kind t = Retry_timer then st else if wt_dueAt t \<le> dueAt then st else arm)"

text \<open>The \<open>finally\<close> block; \<open>i\<close> is the position of the run that ends.\<close>

definition finish_run :: "rat \<Rightarrow> nat \<Rightarrow> wake_run \<Rightarrow> wake_state \<Rightarrow> wake_state" where
  "finish_run now i run st =
     (let st' = st\<lparr>hw_running := False, hw_runs := take i (hw_runs st) @ drop (Suc i) (hw_runs st)\<rparr> in
      if hw_pending st' \<noteq> [] \<or> hw_scheduled st' then schedule_wake now (Fin (wr_delay run)) Normal_timer st' else st')"

definition requeue :: "rat \<Rightarrow> pending_wake \<Rightarrow> wake_state \<Rightarrow> wake_state" where
  "requeue now w st = queuePendingWakeReason now (Some (pw_reason w)) (pw_agentId w) (pw_sessionKey w) st"

definition timer_fired :: "rat \<Rightarrow> wake_state \<Rightarrow> wake_state" where
  "timer_fired now st =
     (case hw_timer st of
        None \<Rightarrow> st
      | Some t \<Rightarrow>
          (let st1 = st\<lparr>hw_timer := None, hw_scheduled := False\<rparr> in
           case hw_handler st1 of
             None \<Rightarrow> st1
           | Some active \<Rightarrow>
               if hw_running st1 then
                 schedule_wake now (Fin (wt_delay t)) (wt_kind t) (st1\<lparr>hw_scheduled := True\<rparr>)
               else
                 (let batch = map snd (hw_pending st1);
                      run = \<lparr>wr_handler = active, wr_delay = wt_delay t, wr_batch = batch, wr_rest = batch\<rparr>;
                      st2 = st1\<lparr>hw_pending := [], hw_running := True, hw_runs := hw_runs st1 @ [run]\<rparr> in
                  if batch = [] then finish_run now (length (hw_runs st1)) run st2 else st2)))"

datatype handler_outcome = Ran | Skipped string | Failed string | Threw

definition handler_done :: "rat \<Rightarrow> nat \<Rightarrow> handler_outcome \<Rightarrow> wake_state \<Rightarrow> wake_state" where
  "handler_done now i outcome st =
     (if i < length (hw_runs st) then
        (let run = hw_runs st ! i in
         case wr_rest run of
           [] \<Rightarrow> st
         | w # ws \<Rightarrow>
             if outcome = Threw then
               finish_run now i run
                 (schedule_wake now (Fin DEFAULT_RETRY_MS) Retry_timer (fold (requeue now) (wr_batch run) st))
             else
               (let st1 = (if outcome = Skipped ''requests-in-flight''
                           then schedule_wake now (Fin DEFAULT_RETRY_MS) Retry_timer (requeue now w st) else st);
                    st2 = st1\<lparr>hw_runs := (hw_runs st1)[i := run\<lparr>wr_rest := ws\<rparr>]\<rparr> in
                if ws = [] then finish_run now i run st2 else st2))
      else st)"

definition setHeartbeatWakeHandler :: "rat \<Rightarrow> nat option \<Rightarrow> wake_state \<Rightarrow> nat \<times> wake_state" where
  "setHeartbeatWakeHandler now newHandler st =
     (let generation = Suc (hw_generation st);
          st1 = st\<lparr>hw_generation := generation, hw_handler := newHandler\<rparr>;
          st2 = (if newHandler \<noteq> None then st1\<lparr>hw_timer := None, hw_running := False, hw_scheduled := False\<rparr> else st1);
          st3 = (if hw_handler st2 \<noteq> None \<and> hw_pending st2 \<noteq> []
                 then schedule_wake now (Fin DEFAULT_COALESCE_MS) Normal_timer st2 else st2) in
      (generation, st3))"

text \<open>The disposer that a registration returns.\<close>

definition dispose_handler :: "nat \<Rightarrow> nat option \<Rightarrow> wake_state \<Rightarrow> wake_state" where
  "dispose_handler generation registered st =
     (if hw_generation st \<noteq> generation then st
      else if hw_handler st \<noteq> registered then st
      else st\<lparr>hw_generation := Suc (hw_generation st), hw_handler := None\<rparr>)"

definition requestHeartbeatNow ::
  "rat \<Rightarrow> string option \<Rightarrow> js_number option \<Rightarrow> string option \<Rightarrow> string option \<Rightarrow> wake_state \<Rightarrow> wake_state" where
  "requestHeartbeatNow now reason coalesceMs agentId sessionKey st =
     schedule_wake now (js_nullish coalesceMs (Fin DEFAULT_COALESCE_MS)) Normal_timer
       (queuePendingWakeReason now reason agentId sessionKey st)"

definition hasHeartbeatWakeHandler :: "wake_state \<Rightarrow> bool" where
  "hasHeartbeatWakeHandler st \<longleftrightarrow> hw_handler st \<noteq> None"

definition hasPendingHeartbeatWake :: "wake_state \<Rightarrow> bool" where
  "hasPendingHeartbeatWake st \<longleftrightarrow> length (hw_pending st) > 0 \<or> hw_timer st \<noteq> None \<or> hw_scheduled st"

datatype wake_event =
    W_request rat "string option" "js_number option" "string option" "string option"
  | W_timer rat
  | W_done rat nat handler_outcome
  | W_set rat "nat option"
  | W_dispose nat "nat option"

fun wake_step :: "wake_state \<Rightarrow> wake_event \<Rightarrow> wake_state" where
  "wake_step st (W_request now reason ms agentId sessionKey) = requestHeartbeatNow now reason ms agentId sessionKey st"
| "wake_step st (W_timer now) = timer_fired now st"
| "wake_step st (W_done now i outcome) = handler_done now i outcome st"
| "wake_step st (W_set now h) = snd (setHeartbeatWakeHandler now h st)"
| "wake_step st (W_dispose generation h) = dispose_handler generation h st"

end
