(* ===== verification/Heartbeat_Wake_Props.thy ===== *)
theory Heartbeat_Wake_Props
  imports Heartbeat_Wake
begin

text \<open>
  No wake is stranded: while a handler is registered and something is pending, a timer is armed.
  Requests coalesce without losing urgency, a retry cooldown is never cut short by a request,
  and a wake whose run was refused or failed is pending again.
\<close>

section \<open>No wake is stranded\<close>

definition wake_inv :: "wake_state \<Rightarrow> bool" where
  "wake_inv st \<longleftrightarrow> (hw_handler st \<noteq> None \<and> hw_pending st \<noteq> [] \<longrightarrow> hw_timer st \<noteq> None) \<and>
     map_ok (hw_pending st) \<and>
     (\<forall>(k, w)\<in>set (hw_pending st). k = getWakeTargetKey (pw_agentId w) (pw_sessionKey w))"

definition pending_ok :: "(string, pending_wake) js_map \<Rightarrow> bool" where
  "pending_ok m \<longleftrightarrow> map_ok m \<and> (\<forall>(k, w)\<in>set m. k = getWakeTargetKey (pw_agentId w) (pw_sessionKey w))"

lemma wake_inv_iff:
  "wake_inv st \<longleftrightarrow> (hw_handler st \<noteq> None \<and> hw_pending st \<noteq> [] \<longrightarrow> hw_timer st \<noteq> None) \<and> pending_ok (hw_pending st)"
  by (simp add: wake_inv_def pending_ok_def)

lemma normalizeWakeTarget_idem [simp]: "normalizeWakeTarget (normalizeWakeTarget x) = normalizeWakeTarget x"
  by (auto simp: normalizeWakeTarget_def Let_def split: option.splits)

lemma queue_pending_cases:
  obtains "queuePendingWakeReason now r a s st = st"
  | w where "queuePendingWakeReason now r a s st =
        st\<lparr>hw_pending := map_put (getWakeTargetKey (pw_agentId w) (pw_sessionKey w)) w (hw_pending st)\<rparr>"
    and "pw_reason w = normalizeHeartbeatWakeReason r" and "pw_requestedAt w = now"
    and "pw_priority w = resolveReasonPriority (pw_reason w)"
    and "getWakeTargetKey (pw_agentId w) (pw_sessionKey w) = getWakeTargetKey a s"
proof -
  let ?w = "\<lparr>pw_reason = normalizeHeartbeatWakeReason r,
      pw_priority = resolveReasonPriority (normalizeHeartbeatWakeReason r), pw_requestedAt = now,
      pw_agentId = normalizeWakeTarget a, pw_sessionKey = normalizeWakeTarget s\<rparr>"
  have "queuePendingWakeReason now r a s st = st \<or> queuePendingWakeReason now r a s st =
        st\<lparr>hw_pending := map_put (getWakeTargetKey (pw_agentId ?w) (pw_sessionKey ?w)) ?w (hw_pending st)\<rparr>"
    by (simp add: queuePendingWakeReason_def Let_def split: option.split)
  then show ?thesis using that(1) that(2) [of ?w] by (auto simp: getWakeTargetKey_def)
qed

lemma pending_ok_Nil [simp]: "pending_ok []"
  by (simp add: pending_ok_def)

lemma queue_fields [simp]:
  "hw_handler (queuePendingWakeReason now r a s st) = hw_handler st"
  "hw_timer (queuePendingWakeReason now r a s st) = hw_timer st"
  "hw_runs (queuePendingWakeReason now r a s st) = hw_runs st"
  "hw_running (queuePendingWakeReason now r a s st) = hw_running st"
  "hw_scheduled (queuePendingWakeReason now r a s st) = hw_scheduled st"
  "hw_generation (queuePendingWakeReason now r a s st) = hw_generation st"
  by (rule queue_pending_cases [of now r a s st]; simp)+

lemma queue_pending_ok: "pending_ok (hw_pending st) \<Longrightarrow> pending_ok (hw_pending (queuePendingWakeReason now r a s st))"
  by (rule queue_pending_cases [of now r a s st])
    (auto simp: pending_ok_def set_map_put)

lemma requeue_all_fields [simp]:
  "hw_handler (fold (requeue now) ws st) = hw_handler st"
  "hw_timer (fold (requeue now) ws st) = hw_timer st"
  "hw_runs (fold (requeue now) ws st) = hw_runs st"
  by (induction ws arbitrary: st) (simp_all add: requeue_def)

lemma requeue_all_ok: "pending_ok (hw_pending st) \<Longrightarrow> pending_ok (hw_pending (fold (requeue now) ws st))"
  by (induction ws arbitrary: st) (simp_all add: requeue_def queue_pending_ok)

lemma schedule_armed [simp]: "hw_timer (schedule_wake now ms kind st) \<noteq> None"
  by (auto simp: schedule_wake_def Let_def split: option.splits)

lemma schedule_fields [simp]:
  "hw_handler (schedule_wake now ms kind st) = hw_handler st"
  "hw_pending (schedule_wake now ms kind st) = hw_pending st"
  "hw_runs (schedule_wake now ms kind st) = hw_runs st"
  "hw_running (schedule_wake now ms kind st) = hw_running st"
  by (auto simp: schedule_wake_def Let_def split: option.splits)

lemma schedule_inv: "pending_ok (hw_pending st) \<Longrightarrow> wake_inv (schedule_wake now ms kind st)"
  using schedule_armed by (simp only: wake_inv_iff schedule_fields) blast

lemma finish_inv: "pending_ok (hw_pending st) \<Longrightarrow> wake_inv (finish_run now i run st)"
  by (simp add: finish_run_def Let_def schedule_inv) (simp add: wake_inv_iff)

lemma handler_done_inv:
  assumes "wake_inv st"
  shows "wake_inv (handler_done now i outcome st)"
proof (cases "i < length (hw_runs st) \<and> wr_rest (hw_runs st ! i) \<noteq> []")
  case False
  then have "handler_done now i outcome st = st" by (auto simp: handler_done_def Let_def split: list.splits)
  with assms show ?thesis by simp
next
  case True
  then obtain w ws where r: "wr_rest (hw_runs st ! i) = w # ws" by (meson list.exhaust)
  have ok: "pending_ok (hw_pending st)" using assms by (simp add: wake_inv_iff)
  let ?st1 = "if outcome = Skipped ''requests-in-flight''
      then schedule_wake now (Fin DEFAULT_RETRY_MS) Retry_timer (requeue now w st) else st"
  have 1: "wake_inv ?st1" using assms ok by (simp add: schedule_inv requeue_def queue_pending_ok)
  then have 2: "wake_inv (?st1\<lparr>hw_runs := x\<rparr>)" for x by (simp add: wake_inv_iff)
  show ?thesis
  proof (cases "outcome = Threw")
    case True
    then show ?thesis using r \<open>i < length (hw_runs st) \<and> _\<close> ok
      by (simp add: handler_done_def Let_def finish_inv requeue_all_ok)
  next
    case False
    have fin: "wake_inv (finish_run now i run (?st1\<lparr>hw_runs := x\<rparr>))" for x run
      by (rule finish_inv) (use 2 in \<open>simp add: wake_inv_iff\<close>)
    have "handler_done now i outcome st = (let st2 = ?st1\<lparr>hw_runs := (hw_runs ?st1)[i := (hw_runs st ! i)\<lparr>wr_rest := ws\<rparr>]\<rparr>
        in if ws = [] then finish_run now i (hw_runs st ! i) st2 else st2)"
      unfolding handler_done_def Let_def using True r False by simp
    then show ?thesis unfolding Let_def using 2 fin by (simp only: split: if_split) blast
  qed
qed

lemma wake_step_inv: "wake_inv st \<Longrightarrow> wake_inv (wake_step st e)"
proof (cases e)
  case (W_request now reason ms a s)
  assume "wake_inv st"
  then show ?thesis
    by (simp add: W_request requestHeartbeatNow_def schedule_inv queue_pending_ok wake_inv_iff [of st])
next
  case (W_timer now)
  assume inv: "wake_inv st"
  then have ok: "pending_ok (hw_pending st)" by (simp add: wake_inv_iff)
  show ?thesis
  proof (cases "hw_timer st")
    case None
    with inv show ?thesis by (simp add: W_timer timer_fired_def)
  next
    case (Some t)
    show ?thesis
    proof (cases "hw_handler st")
      case None
      with Some ok show ?thesis by (simp add: W_timer timer_fired_def Let_def wake_inv_iff)
    next
      case (Some active)
      with \<open>hw_timer st = Some t\<close> ok show ?thesis
        by (simp add: W_timer timer_fired_def Let_def schedule_inv finish_inv) (simp add: wake_inv_iff)
    qed
  qed
next
  case (W_done now i outcome)
  then show "wake_inv st \<Longrightarrow> ?thesis" by (simp add: handler_done_inv)
next
  case (W_set now h)
  then show "wake_inv st \<Longrightarrow> ?thesis"
    by (simp add: setHeartbeatWakeHandler_def Let_def schedule_inv wake_inv_iff [of st])
      (simp add: wake_inv_iff)
next
  case (W_dispose g h)
  then show "wake_inv st \<Longrightarrow> ?thesis" by (simp add: dispose_handler_def wake_inv_iff)
qed

interpretation hw: invariant_machine wake_step wake_inv
  by unfold_locales (rule wake_step_inv)

lemma wake_inv_init: "wake_inv wake_init"
  by (simp add: wake_inv_def wake_init_def)

text \<open>C12: After any sequence of requests, timer firings, handler outcomes, registrations and disposals, a
  pending wake is never stranded: while a handler is registered and a wake is pending a timer is
  armed, and at most one wake is pending for each target.\<close>

theorem no_wake_is_stranded:
  "let st = foldl wake_step wake_init es in
   (hasHeartbeatWakeHandler st \<and> hw_pending st \<noteq> [] \<longrightarrow> hw_timer st \<noteq> None) \<and>
   distinct (map (\<lambda>(k, w). getWakeTargetKey (pw_agentId w) (pw_sessionKey w)) (hw_pending st))"
proof -
  let ?st = "foldl wake_step wake_init es"
  have inv: "wake_inv ?st" by (rule hw.run_inv [OF wake_inv_init])
  then have keys: "map (\<lambda>(k, w). getWakeTargetKey (pw_agentId w) (pw_sessionKey w)) (hw_pending ?st) = map fst (hw_pending ?st)"
    by (intro map_cong) (auto simp: wake_inv_def)
  show ?thesis unfolding Let_def keys using inv by (simp add: wake_inv_def hasHeartbeatWakeHandler_def map_ok_def)
qed

theorem no_wake_is_stranded_witness:
  "hw_timer (foldl wake_step wake_init [W_request 0 None None None None, W_timer 250, W_set 300 (Some 1)]) \<noteq> None"
proof -
  have "hasHeartbeatWakeHandler (foldl wake_step wake_init
      [W_request 0 None None None None, W_timer 250, W_set 300 (Some 1)]) \<and>
      hw_pending (foldl wake_step wake_init [W_request 0 None None None None, W_timer 250, W_set 300 (Some 1)]) \<noteq> []"
    by code_simp
  then show ?thesis
    using no_wake_is_stranded [of "[W_request 0 None None None None, W_timer 250, W_set 300 (Some 1)]"]
    unfolding Let_def by blast
qed

section \<open>Cooldown, urgency\<close>

definition is_set_event :: "wake_event \<Rightarrow> bool" where
  "is_set_event e = (case e of W_set _ (Some _) \<Rightarrow> True | W_timer _ \<Rightarrow> True | _ \<Rightarrow> False)"

lemma retry_timer_kept:
  "hw_timer st = Some t \<Longrightarrow> wt_kind t = Retry_timer \<Longrightarrow> hw_timer (schedule_wake now ms kind st) = Some t"
  by (simp add: schedule_wake_def)

lemma retry_timer_finish:
  "hw_timer st = Some t \<Longrightarrow> wt_kind t = Retry_timer \<Longrightarrow> hw_timer (finish_run now i run st) = Some t"
  by (simp add: finish_run_def Let_def retry_timer_kept)

lemma retry_timer_step:
  assumes "hw_timer st = Some t" "wt_kind t = Retry_timer" "\<not> is_set_event e"
  shows "hw_timer (wake_step st e) = Some t"
  using assms
proof (cases e)
  case (W_done now i outcome)
  then show ?thesis using assms
    by (auto simp: handler_done_def Let_def retry_timer_finish retry_timer_kept requeue_def split: list.split)
qed (auto simp: is_set_event_def requestHeartbeatNow_def retry_timer_kept setHeartbeatWakeHandler_def
    dispose_handler_def Let_def split: option.splits)

text \<open>When a run is refused because requests are in flight and no timer was armed, the retry is armed
  one second later; and nothing but its own firing or a new registration moves that timer, however
  many requests with whatever delay, outcomes and disposals follow.\<close>

theorem retry_cooldown_is_kept:
  assumes "hw_timer st = None" "i < length (hw_runs st)" "wr_rest (hw_runs st ! i) \<noteq> []"
    and "\<forall>e\<in>set es. \<not> is_set_event e"
  shows "hw_timer (foldl wake_step st (W_done now i (Skipped ''requests-in-flight'') # es)) =
    Some \<lparr>wt_dueAt = now + DEFAULT_RETRY_MS, wt_kind = Retry_timer, wt_delay = DEFAULT_RETRY_MS\<rparr>"
proof -
  let ?t = "\<lparr>wt_dueAt = now + DEFAULT_RETRY_MS, wt_kind = Retry_timer, wt_delay = DEFAULT_RETRY_MS\<rparr>"
  have "hw_timer (schedule_wake now (Fin DEFAULT_RETRY_MS) Retry_timer (requeue now w st)) = Some ?t" for w
    using assms(1) by (simp add: schedule_wake_def requeue_def wake_delay_def DEFAULT_RETRY_MS_def)
  then have "hw_timer (wake_step st (W_done now i (Skipped ''requests-in-flight''))) = Some ?t"
    using assms(2,3) by (auto simp: handler_done_def Let_def retry_timer_finish split: list.splits)
  moreover have "hw_timer s = Some ?t \<Longrightarrow> hw_timer (foldl wake_step s es) = Some ?t" for s
    using assms(4) by (induction es arbitrary: s) (auto simp: retry_timer_step)
  ultimately show ?thesis by simp
qed

definition busy_state :: wake_state where
  "busy_state = foldl wake_step wake_init [W_set 0 (Some 1), W_request 0 (Some ''hook:a'') None None None, W_timer 250]"

theorem retry_cooldown_is_kept_witness:
  "hw_timer (foldl wake_step busy_state [W_done 300 0 (Skipped ''requests-in-flight''),
      W_request 310 None (Some (Fin 0)) None None]) =
    Some \<lparr>wt_dueAt = 1300, wt_kind = Retry_timer, wt_delay = 1000\<rparr>"
proof -
  have "hw_timer busy_state = None" "0 < length (hw_runs busy_state)" "wr_rest (hw_runs busy_state ! 0) \<noteq> []"
    by code_simp+
  moreover have "\<forall>e\<in>set [W_request 310 None (Some (Fin 0)) None None]. \<not> is_set_event e"
    by (simp add: is_set_event_def)
  ultimately show ?thesis
    using retry_cooldown_is_kept [of busy_state 0 "[W_request 310 None (Some (Fin 0)) None None]" 300]
    by (simp add: DEFAULT_RETRY_MS_def del: foldl_Cons)
qed




text \<open>A wake of at least the given urgency is pending for a target; only the timer takes it.\<close>

definition pending_at_least :: "string \<Rightarrow> int \<Rightarrow> wake_state \<Rightarrow> bool" where
  "pending_at_least k p st \<longleftrightarrow> (\<exists>w. map_get (hw_pending st) k = Some w \<and> p \<le> pw_priority w)"




lemma pending_cong: "hw_pending st' = hw_pending st \<Longrightarrow> pending_at_least k p st' = pending_at_least k p st"
  by (simp add: pending_at_least_def)

lemma finish_pending [simp]: "hw_pending (finish_run now i run st) = hw_pending st"
  by (simp add: finish_run_def Let_def)







text \<open>
  A run left over from an earlier registration clears \<open>running\<close> when it ends, although a run
  of the new handler is in progress: the next timer then starts a second run of that handler.
\<close>

lemma overlapping_runs_after_restart:
  "map wr_handler (hw_runs (foldl wake_step wake_init
     [W_set 0 (Some 1), W_request 1 None None None None, W_timer 251,
      W_set 300 (Some 2), W_request 301 None None None None, W_timer 551,
      W_done 600 0 Ran, W_request 601 None None None None, W_timer 851])) = [2, 2]"
  by code_simp

end
