(* ===== verification/Retry_Backoff.thy ===== *)
theory Retry_Backoff
  imports Js_Prelude
begin

text \<open>
  Retrying with growing delays: \<^verbatim>\<open>src/src/infra/retry.ts\<close> and \<^verbatim>\<open>src/src/infra/backoff.ts\<close>.

  The retried function is the sequence of its outcomes, one per call; the random fractions are a
  sequence too, in \<open>[0, 1)\<close> as the generator documents. A run returns its result with the delays
  it slept. What a call throws may be nullish (\<open>None\<close>).
\<close>

section \<open>Configuration\<close>

record retry_config =
  rf_attempts :: rat
  rf_minDelayMs :: rat
  rf_maxDelayMs :: rat
  rf_jitter :: rat

record retry_overrides =
  ro_attempts :: "js_number option"
  ro_minDelayMs :: "js_number option"
  ro_maxDelayMs :: "js_number option"
  ro_jitter :: "js_number option"

definition DEFAULT_RETRY_CONFIG :: retry_config where
  "DEFAULT_RETRY_CONFIG = \<lparr>rf_attempts = 3, rf_minDelayMs = 300, rf_maxDelayMs = 30000, rf_jitter = 0\<rparr>"

definition asFiniteNumber :: "js_number option \<Rightarrow> rat option" where
  "asFiniteNumber value = (case value of Some (Fin x) \<Rightarrow> Some x | _ \<Rightarrow> None)"

definition clampNumber :: "js_number option \<Rightarrow> rat \<Rightarrow> rat option \<Rightarrow> rat option \<Rightarrow> rat" where
  "clampNumber value fallback lo hi =
     (case asFiniteNumber value of
        None \<Rightarrow> fallback
      | Some x \<Rightarrow> (let raised = (case lo of None \<Rightarrow> x | Some l \<Rightarrow> max x l) in
                  case hi of None \<Rightarrow> raised | Some h \<Rightarrow> min raised h))"

definition resolveRetryConfig :: "retry_config \<Rightarrow> retry_overrides option \<Rightarrow> retry_config" where
  "resolveRetryConfig defaults overrides =
     (let attempts = max 1 (js_round (clampNumber (Option.bind overrides ro_attempts) (rf_attempts defaults) (Some 1) None));
          minDelayMs = max 0 (js_round (clampNumber (Option.bind overrides ro_minDelayMs) (rf_minDelayMs defaults) (Some 0) None));
          maxDelayMs = max minDelayMs
            (js_round (clampNumber (Option.bind overrides ro_maxDelayMs) (rf_maxDelayMs defaults) (Some 0) None));
          jitter = clampNumber (Option.bind overrides ro_jitter) (rf_jitter defaults) (Some 0) (Some 1) in
      \<lparr>rf_attempts = of_int attempts, rf_minDelayMs = of_int minDelayMs, rf_maxDelayMs = of_int maxDelayMs,
       rf_jitter = jitter\<rparr>)"

definition applyJitter :: "rat \<Rightarrow> rat \<Rightarrow> rat \<Rightarrow> rat" where
  "applyJitter fraction delayMs jitter =
     (if jitter \<le> 0 then delayMs
      else (let offset = (fraction * 2 - 1) * jitter in max 0 (of_int (js_round (delayMs * (1 + offset))))))"

section \<open>retryAsync\<close>

datatype 'e retry_error = Thrown 'e | Retry_failed

definition last_error :: "'e option \<Rightarrow> 'e retry_error" where
  "last_error e = (case e of Some x \<Rightarrow> Thrown x | None \<Rightarrow> Retry_failed)"

text \<open>The loop of the short form, from iteration \<open>i\<close> with \<open>n\<close> iterations left.\<close>

fun simple_retry ::
  "nat \<Rightarrow> nat \<Rightarrow> rat \<Rightarrow> (nat \<Rightarrow> 'e option + 'a) \<Rightarrow> ('e retry_error + 'a) \<times> rat list" where
  "simple_retry 0 i initialDelayMs fn = (Inl Retry_failed, [])"
| "simple_retry (Suc n) i initialDelayMs fn =
     (case fn i of
        Inr v \<Rightarrow> (Inr v, [])
      | Inl err \<Rightarrow>
          if n = 0 then (Inl (last_error err), [])
          else (case simple_retry n (Suc i) initialDelayMs fn of
                  (res, delays) \<Rightarrow> (res, initialDelayMs * 2 ^ i # delays)))"

definition retryAsync_simple :: "rat \<Rightarrow> rat \<Rightarrow> (nat \<Rightarrow> 'e option + 'a) \<Rightarrow> ('e retry_error + 'a) \<times> rat list" where
  "retryAsync_simple attemptsOrOptions initialDelayMs fn =
     simple_retry (nat (max 1 (js_round attemptsOrOptions))) 0 initialDelayMs fn"

record 'e retry_options =
  op_config :: retry_overrides
  op_shouldRetry :: "('e option \<Rightarrow> nat \<Rightarrow> bool) option"
  op_retryAfterMs :: "('e option \<Rightarrow> js_number option) option"

text \<open>\<open>None\<close> stands for the maximum \<open>Infinity\<close>.\<close>

definition effective_max :: "retry_config \<Rightarrow> rat option" where
  "effective_max cfg = (if rf_maxDelayMs cfg > 0 then Some (rf_maxDelayMs cfg) else None)"

definition cap :: "rat option \<Rightarrow> rat \<Rightarrow> rat" where
  "cap hi x = (case hi of None \<Rightarrow> x | Some h \<Rightarrow> min x h)"

definition retry_delay :: "retry_config \<Rightarrow> js_number option \<Rightarrow> nat \<Rightarrow> rat \<Rightarrow> rat" where
  "retry_delay cfg retryAfterMs attempt fraction =
     (let minDelayMs = rf_minDelayMs cfg; maxDelayMs = effective_max cfg;
          baseDelay = (case retryAfterMs of
              Some (Fin hint) \<Rightarrow> max hint minDelayMs
            | _ \<Rightarrow> minDelayMs * 2 ^ (attempt - 1));
          delay = applyJitter fraction (cap maxDelayMs baseDelay) (rf_jitter cfg) in
      cap maxDelayMs (max delay minDelayMs))"

text \<open>The loop of the long form, at the given attempt with \<open>n\<close> attempts left after it.\<close>

fun option_retry ::
  "nat \<Rightarrow> nat \<Rightarrow> retry_config \<Rightarrow> 'e retry_options \<Rightarrow> (nat \<Rightarrow> rat) \<Rightarrow> (nat \<Rightarrow> 'e option + 'a)
     \<Rightarrow> ('e retry_error + 'a) \<times> rat list" where
  "option_retry n attempt cfg opts rnd fn =
     (case fn (attempt - 1) of
        Inr v \<Rightarrow> (Inr v, [])
      | Inl err \<Rightarrow>
          (case n of
             0 \<Rightarrow> (Inl (last_error err), [])
           | Suc m \<Rightarrow>
               if \<not> js_nullish (op_shouldRetry opts) (\<lambda>_ _. True) err attempt then (Inl (last_error err), [])
               else (let hint = Option.bind (op_retryAfterMs opts) (\<lambda>f. f err);
                         delay = retry_delay cfg hint attempt (rnd attempt);
                         slept = (if delay > 0 then [delay] else []) in
                     case option_retry m (Suc attempt) cfg opts rnd fn of
                       (res, delays) \<Rightarrow> (res, slept @ delays))))"

declare option_retry.simps [simp del]

definition retryAsync ::
  "'e retry_options \<Rightarrow> (nat \<Rightarrow> rat) \<Rightarrow> (nat \<Rightarrow> 'e option + 'a) \<Rightarrow> ('e retry_error + 'a) \<times> rat list" where
  "retryAsync opts rnd fn =
     (let resolved = resolveRetryConfig DEFAULT_RETRY_CONFIG (Some (op_config opts)) in
      option_retry (nat \<lfloor>rf_attempts resolved\<rfloor> - 1) 1 resolved opts rnd fn)"

section \<open>Backoff\<close>

record backoff_policy =
  bp_initialMs :: rat
  bp_maxMs :: rat
  bp_factor :: rat
  bp_jitter :: rat

definition computeBackoff :: "rat \<Rightarrow> backoff_policy \<Rightarrow> int \<Rightarrow> rat" where
  "computeBackoff random policy attempt =
     (let base = bp_initialMs policy * bp_factor policy ^ nat (max (attempt - 1) 0);
          jitter = base * bp_jitter policy * random in
      min (bp_maxMs policy) (of_int (js_round (base + jitter))))"

section \<open>What a retried call returns and how long it waits\<close>

lemma resolve_ok:
  "1 \<le> rf_attempts (resolveRetryConfig d o')" "0 \<le> rf_minDelayMs (resolveRetryConfig d o')"
  "rf_minDelayMs (resolveRetryConfig d o') \<le> rf_maxDelayMs (resolveRetryConfig d o')"
  "\<lfloor>rf_attempts (resolveRetryConfig d o')\<rfloor> = rf_attempts (resolveRetryConfig d o')"
  by (simp_all add: resolveRetryConfig_def Let_def le_max_iff_disj)

lemma cap_bounds: "lo \<le> x \<Longrightarrow> (\<forall>h. hi = Some h \<longrightarrow> lo \<le> h) \<Longrightarrow> lo \<le> cap hi x \<and> (\<forall>h. hi = Some h \<longrightarrow> cap hi x \<le> h)"
  by (auto simp: cap_def split: option.split)

lemma retry_delay_bounds:
  assumes "rf_minDelayMs cfg \<le> rf_maxDelayMs cfg"
  shows "rf_minDelayMs cfg \<le> retry_delay cfg hint attempt fraction \<and>
    (0 < rf_maxDelayMs cfg \<longrightarrow> retry_delay cfg hint attempt fraction \<le> rf_maxDelayMs cfg)"
  using assms cap_bounds [of "rf_minDelayMs cfg" "max _ (rf_minDelayMs cfg)" "effective_max cfg"]
  by (fastforce simp: retry_delay_def Let_def effective_max_def split: if_splits)

text \<open>The outcomes of a run: which call's value or error it ends with.\<close>

definition retry_stops :: "'e retry_options \<Rightarrow> nat \<Rightarrow> (nat \<Rightarrow> 'e option + 'a) \<Rightarrow> nat \<Rightarrow> bool" where
  "retry_stops opts maxAttempts fn k \<longleftrightarrow>
     (case fn k of Inr _ \<Rightarrow> True
      | Inl err \<Rightarrow> maxAttempts \<le> Suc k \<or> \<not> js_nullish (op_shouldRetry opts) (\<lambda>_ _. True) err (Suc k))"

lemma option_retry_result:
  assumes "attempt + n = maxAttempts" "0 < attempt"
  shows "\<exists>k. attempt \<le> Suc k \<and> k < maxAttempts \<and> retry_stops opts maxAttempts fn k \<and>
    (\<forall>j. attempt \<le> Suc j \<and> j < k \<longrightarrow> \<not> retry_stops opts maxAttempts fn j) \<and>
    fst (option_retry n attempt cfg opts rnd fn) = (case fn k of Inr v \<Rightarrow> Inr v | Inl err \<Rightarrow> Inl (last_error err)) \<and>
    length (snd (option_retry n attempt cfg opts rnd fn)) \<le> Suc k - attempt \<and>
    (\<forall>d\<in>set (snd (option_retry n attempt cfg opts rnd fn)). \<exists>hint a f. d = retry_delay cfg hint a f)"
  using assms
proof (induction n arbitrary: attempt)
  case 0
  then have "retry_stops opts maxAttempts fn (attempt - 1)" by (auto simp: retry_stops_def split: sum.split)
  then show ?case using 0 by (intro exI [of _ "attempt - 1"]) (auto simp: option_retry.simps split: sum.split)
next
  case (Suc m)
  show ?case
  proof (cases "retry_stops opts maxAttempts fn (attempt - 1)")
    case True
    then show ?thesis using Suc.prems
      by (intro exI [of _ "attempt - 1"])
        (auto simp: option_retry.simps [of "Suc m"] retry_stops_def split: sum.splits)
  next
    case False
    then obtain err where err: "fn (attempt - 1) = Inl err" "js_nullish (op_shouldRetry opts) (\<lambda>_ _. True) err attempt"
      using Suc.prems by (auto simp: retry_stops_def split: sum.splits)
    have "Suc attempt + m = maxAttempts" "0 < Suc attempt" using Suc.prems by simp_all
    from Suc.IH [OF this] obtain k where k: "Suc attempt \<le> Suc k" "k < maxAttempts" "retry_stops opts maxAttempts fn k"
      "\<forall>j. Suc attempt \<le> Suc j \<and> j < k \<longrightarrow> \<not> retry_stops opts maxAttempts fn j"
      "fst (option_retry m (Suc attempt) cfg opts rnd fn) = (case fn k of Inr v \<Rightarrow> Inr v | Inl err \<Rightarrow> Inl (last_error err))"
      "length (snd (option_retry m (Suc attempt) cfg opts rnd fn)) \<le> Suc k - Suc attempt"
      "\<forall>d\<in>set (snd (option_retry m (Suc attempt) cfg opts rnd fn)). \<exists>hint a f. d = retry_delay cfg hint a f"
      by blast
    have first: "\<forall>j. attempt \<le> Suc j \<and> j < k \<longrightarrow> \<not> retry_stops opts maxAttempts fn j"
    proof (intro allI impI)
      fix j assume "attempt \<le> Suc j \<and> j < k"
      then show "\<not> retry_stops opts maxAttempts fn j"
        using k(4) False by (cases "Suc j = attempt") auto
    qed
    have len: "length (snd (option_retry (Suc m) attempt cfg opts rnd fn)) \<le> Suc k - attempt"
      using k(1,6) err by (auto simp: option_retry.simps [of "Suc m"] Let_def split: prod.split)
    have res: "fst (option_retry (Suc m) attempt cfg opts rnd fn) = fst (option_retry m (Suc attempt) cfg opts rnd fn)"
      using err by (auto simp: option_retry.simps [of "Suc m"] Let_def split: prod.split)
    have "\<forall>d\<in>set (snd (option_retry (Suc m) attempt cfg opts rnd fn)). \<exists>hint a f. d = retry_delay cfg hint a f"
      using k(7) err by (auto simp: option_retry.simps [of "Suc m"] Let_def split: prod.split)
    with k first len res show ?thesis by (intro exI [of _ k]) auto
  qed
qed

text \<open>C14: The long form returns: it ends with the value or the error of the first call that succeeds, is not
  to be retried or is the last allowed one, having called the function at most the configured number
  of times, slept at most once between two calls, and each time within the configured bounds.\<close>

theorem retry_returns_first_success:
  "let cfg = resolveRetryConfig DEFAULT_RETRY_CONFIG (Some (op_config opts)); n = nat \<lfloor>rf_attempts cfg\<rfloor> in
   \<exists>k<n. (\<forall>j<k. \<not> retry_stops opts n fn j) \<and> retry_stops opts n fn k \<and>
     fst (retryAsync opts rnd fn) = (case fn k of Inr v \<Rightarrow> Inr v | Inl err \<Rightarrow> Inl (last_error err)) \<and>
     length (snd (retryAsync opts rnd fn)) \<le> k \<and>
     (\<forall>d\<in>set (snd (retryAsync opts rnd fn)). rf_minDelayMs cfg \<le> d \<and>
        (0 < rf_maxDelayMs cfg \<longrightarrow> d \<le> rf_maxDelayMs cfg))"
proof -
  define cfg where "cfg = resolveRetryConfig DEFAULT_RETRY_CONFIG (Some (op_config opts))"
  define n where "n = nat \<lfloor>rf_attempts cfg\<rfloor>"
  have "(1::int) \<le> \<lfloor>rf_attempts cfg\<rfloor>" using resolve_ok(1) [of DEFAULT_RETRY_CONFIG] by (simp add: cfg_def le_floor_iff)
  then have "1 + (n - 1) = n" by (simp add: n_def)
  from option_retry_result [OF this, of opts fn cfg rnd] obtain k where
    "k < n" "retry_stops opts n fn k" "\<forall>j. j < k \<longrightarrow> \<not> retry_stops opts n fn j"
    "fst (option_retry (n - 1) 1 cfg opts rnd fn) = (case fn k of Inr v \<Rightarrow> Inr v | Inl err \<Rightarrow> Inl (last_error err))"
    "length (snd (option_retry (n - 1) 1 cfg opts rnd fn)) \<le> k"
    and d: "\<forall>d\<in>set (snd (option_retry (n - 1) 1 cfg opts rnd fn)). \<exists>hint a f. d = retry_delay cfg hint a f"
    by auto
  moreover have "\<forall>d\<in>set (snd (option_retry (n - 1) 1 cfg opts rnd fn)). rf_minDelayMs cfg \<le> d \<and>
        (0 < rf_maxDelayMs cfg \<longrightarrow> d \<le> rf_maxDelayMs cfg)"
    using d retry_delay_bounds [of cfg] resolve_ok(3) [of DEFAULT_RETRY_CONFIG] by (force simp: cfg_def)
  ultimately show ?thesis
    unfolding Let_def retryAsync_def cfg_def [symmetric] n_def [symmetric] by blast
qed

definition demo_options :: "string retry_options" where
  "demo_options = \<lparr>op_config = \<lparr>ro_attempts = None, ro_minDelayMs = None, ro_maxDelayMs = Some (Fin 500), ro_jitter = None\<rparr>,
     op_shouldRetry = None, op_retryAfterMs = None\<rparr>"

theorem retry_returns_first_success_witness:
  "length (snd (retryAsync demo_options (\<lambda>_. 0) (\<lambda>n. if n < 2 then Inl None else Inr (7::int)))) \<le> 2"
proof -
  let ?fn = "\<lambda>n. if n < 2 then Inl None else Inr (7::int)" and ?opts = demo_options
  let ?n = "nat \<lfloor>rf_attempts (resolveRetryConfig DEFAULT_RETRY_CONFIG (Some (op_config ?opts)))\<rfloor>"
  have n: "?n = 3" by code_simp
  obtain k where "k < ?n" "length (snd (retryAsync ?opts (\<lambda>_. 0) ?fn)) \<le> k"
    using retry_returns_first_success [where opts = ?opts and rnd = "\<lambda>_. 0" and fn = ?fn] unfolding Let_def by blast
  then show ?thesis using n by simp
qed

text \<open>Without jitter and hints the delays double up to the maximum.\<close>

lemma plain_delay:
  assumes "rf_jitter cfg \<le> 0" "0 \<le> rf_minDelayMs cfg" "rf_minDelayMs cfg \<le> rf_maxDelayMs cfg" "0 < attempt"
  shows "retry_delay cfg None attempt f = cap (effective_max cfg) (rf_minDelayMs cfg * 2 ^ (attempt - 1))"
proof -
  have "rf_minDelayMs cfg * 1 \<le> rf_minDelayMs cfg * 2 ^ (attempt - 1)"
    using assms(2) by (intro mult_left_mono) simp_all
  then show ?thesis using assms
    by (auto simp: retry_delay_def Let_def applyJitter_def cap_def effective_max_def min_def max_def)
qed

end
