(* ===== verification/Session_Key.thy ===== *)
theory Session_Key
  imports Js_Prelude
begin

text \<open>
  The names under which conversations are stored: \<^verbatim>\<open>src/src/routing/account-id.ts\<close>,
  \<^verbatim>\<open>src/src/routing/session-key.ts\<close>, \<^verbatim>\<open>src/src/sessions/session-key-utils.ts\<close>
  and \<^verbatim>\<open>src/src/channels/chat-type.ts\<close>. A nullable string is an option.
\<close>

section \<open>Identifiers\<close>

definition BLOCKED_OBJECT_KEYS :: "string list" where
  "BLOCKED_OBJECT_KEYS = [''__proto__'', ''prototype'', ''constructor'']"

definition isBlockedObjectKey :: "string \<Rightarrow> bool" where
  "isBlockedObjectKey key \<longleftrightarrow> key \<in> set BLOCKED_OBJECT_KEYS"

definition DEFAULT_ACCOUNT_ID :: string where "DEFAULT_ACCOUNT_ID = ''default''"
definition DEFAULT_AGENT_ID :: string where "DEFAULT_AGENT_ID = ''main''"
definition DEFAULT_MAIN_KEY :: string where "DEFAULT_MAIN_KEY = ''main''"
definition ACCOUNT_ID_CACHE_MAX :: nat where "ACCOUNT_ID_CACHE_MAX = 512"

text \<open>The character classes of the regular expressions, for lower-case letters.\<close>

definition is_alnum :: "char \<Rightarrow> bool" where
  "is_alnum c \<longleftrightarrow> (let n = of_char c :: nat in (48 \<le> n \<and> n \<le> 57) \<or> (97 \<le> n \<and> n \<le> 122))"

definition is_id_char :: "char \<Rightarrow> bool" where
  "is_id_char c \<longleftrightarrow> is_alnum c \<or> c = CHR ''_'' \<or> c = CHR ''-''"

text \<open>\<open>VALID_ID_RE\<close>, which ignores case.\<close>

definition valid_id :: "string \<Rightarrow> bool" where
  "valid_id s = (case js_lower s of [] \<Rightarrow> False
     | c # rest \<Rightarrow> is_alnum c \<and> length rest \<le> 63 \<and> list_all is_id_char rest)"

text \<open>\<open>replace(INVALID_CHARS_RE, "-")\<close>: each run of other characters becomes one dash.\<close>

fun collapse_invalid :: "bool \<Rightarrow> string \<Rightarrow> string" where
  "collapse_invalid in_run [] = []"
| "collapse_invalid in_run (c # s) =
     (if is_id_char c then c # collapse_invalid False s
      else if in_run then collapse_invalid True s
      else CHR ''-'' # collapse_invalid True s)"

definition strip_dashes :: "string \<Rightarrow> string" where
  "strip_dashes s = rev (dropWhile (\<lambda>c. c = CHR ''-'') (rev (dropWhile (\<lambda>c. c = CHR ''-'') s)))"

definition canonicalizeAccountId :: "string \<Rightarrow> string" where
  "canonicalizeAccountId value =
     (if valid_id value then js_lower value
      else take 64 (strip_dashes (collapse_invalid False (js_lower value))))"

definition normalizeCanonicalAccountId :: "string \<Rightarrow> string option" where
  "normalizeCanonicalAccountId value =
     (let canonical = canonicalizeAccountId value in
      if canonical = [] \<or> isBlockedObjectKey canonical then None else Some canonical)"

text \<open>The cache of normalised ids; the oldest entry goes when it is full.\<close>

definition setNormalizeCache :: "string \<Rightarrow> 'v \<Rightarrow> (string, 'v) js_map \<Rightarrow> (string, 'v) js_map" where
  "setNormalizeCache key v cache =
     (let cache' = map_put key v cache in
      if length cache' \<le> ACCOUNT_ID_CACHE_MAX then cache' else tl cache')"

definition normalizeAccountId_cached ::
  "string option \<Rightarrow> (string, string) js_map \<Rightarrow> string \<times> (string, string) js_map" where
  "normalizeAccountId_cached value cache =
     (let trimmed = js_trim (js_nullish value []) in
      if trimmed = [] then (DEFAULT_ACCOUNT_ID, cache)
      else if js_truthy (map_get cache trimmed) then (the (map_get cache trimmed), cache)
      else (let normalized = js_nullish (normalizeCanonicalAccountId trimmed) DEFAULT_ACCOUNT_ID in
            (normalized, setNormalizeCache trimmed normalized cache)))"

definition normalizeOptionalAccountId_cached ::
  "string option \<Rightarrow> (string, string option) js_map \<Rightarrow> string option \<times> (string, string option) js_map" where
  "normalizeOptionalAccountId_cached value cache =
     (let trimmed = js_trim (js_nullish value []) in
      if trimmed = [] then (None, cache)
      else (case map_get cache trimmed of
          Some v \<Rightarrow> (v, cache)
        | None \<Rightarrow> (let normalized = normalizeCanonicalAccountId trimmed in
                  (normalized, setNormalizeCache trimmed normalized cache))))"

text \<open>The result without the cache, as the other components use it.\<close>

definition normalizeAccountId :: "string option \<Rightarrow> string" where
  "normalizeAccountId value =
     (let trimmed = js_trim (js_nullish value []) in
      if trimmed = [] then DEFAULT_ACCOUNT_ID
      else js_nullish (normalizeCanonicalAccountId trimmed) DEFAULT_ACCOUNT_ID)"

definition normalizeAgentId :: "string option \<Rightarrow> string" where
  "normalizeAgentId value =
     (let trimmed = js_trim (js_nullish value []) in
      if trimmed = [] then DEFAULT_AGENT_ID
      else if valid_id trimmed then js_lower trimmed
      else js_or (take 64 (strip_dashes (collapse_invalid False (js_lower trimmed)))) DEFAULT_AGENT_ID)"

definition isValidAgentId :: "string option \<Rightarrow> bool" where
  "isValidAgentId value \<longleftrightarrow> (let trimmed = js_trim (js_nullish value []) in trimmed \<noteq> [] \<and> valid_id trimmed)"

section \<open>sessions/session-key-utils.ts\<close>

record parsed_key =
  pk_agentId :: string
  pk_rest :: string

definition parseAgentSessionKey :: "string option \<Rightarrow> parsed_key option" where
  "parseAgentSessionKey sessionKey =
     (let raw = js_lower (js_trim (js_nullish sessionKey [])) in
      if raw = [] then None
      else (let parts = js_nonempty (js_split CHR '':'' raw) in
        if length parts < 3 then None
        else if parts ! 0 \<noteq> ''agent'' then None
        else (let agentId = js_trim (parts ! 1); rest = js_join '':'' (drop 2 parts) in
              if agentId = [] \<or> rest = [] then None
              else Some \<lparr>pk_agentId = agentId, pk_rest = rest\<rparr>)))"

definition isCronRunSessionKey :: "string option \<Rightarrow> bool" where
  "isCronRunSessionKey sessionKey =
     (case parseAgentSessionKey sessionKey of
        None \<Rightarrow> False
      | Some p \<Rightarrow> (case js_split CHR '':'' (pk_rest p) of
            [a, b, c, d] \<Rightarrow> a = ''cron'' \<and> b \<noteq> [] \<and> c = ''run'' \<and> d \<noteq> []
          | _ \<Rightarrow> False))"

definition isCronSessionKey :: "string option \<Rightarrow> bool" where
  "isCronSessionKey sessionKey =
     (case parseAgentSessionKey sessionKey of
        None \<Rightarrow> False | Some p \<Rightarrow> js_starts_with (js_lower (pk_rest p)) ''cron:'')"

definition parsed_rest :: "string option \<Rightarrow> string" where
  "parsed_rest raw = (case parseAgentSessionKey raw of None \<Rightarrow> [] | Some p \<Rightarrow> pk_rest p)"

definition isSubagentSessionKey :: "string option \<Rightarrow> bool" where
  "isSubagentSessionKey sessionKey =
     (let raw = js_trim (js_nullish sessionKey []) in
      if raw = [] then False
      else if js_starts_with (js_lower raw) ''subagent:'' then True
      else js_starts_with (js_lower (parsed_rest (Some raw))) ''subagent:'')"

definition getSubagentDepth :: "string option \<Rightarrow> nat" where
  "getSubagentDepth sessionKey =
     (let raw = js_lower (js_trim (js_nullish sessionKey [])) in
      if raw = [] then 0 else js_count_sub '':subagent:'' raw)"

definition isAcpSessionKey :: "string option \<Rightarrow> bool" where
  "isAcpSessionKey sessionKey =
     (let raw = js_trim (js_nullish sessionKey []) in
      if raw = [] then False
      else if js_starts_with (js_lower raw) ''acp:'' then True
      else js_starts_with (js_lower (parsed_rest (Some raw))) ''acp:'')"

definition normalizeSessionConversationChannel :: "string option \<Rightarrow> string option" where
  "normalizeSessionConversationChannel value =
     (let trimmed = js_lower (js_trim (js_nullish value [])) in if trimmed = [] then None else Some trimmed)"

record thread_suffix =
  ts_baseSessionKey :: "string option"
  ts_threadId :: "string option"

definition parseThreadSessionSuffix :: "string option \<Rightarrow> thread_suffix" where
  "parseThreadSessionSuffix sessionKey =
     (let raw = js_trim (js_nullish sessionKey []) in
      if raw = [] then \<lparr>ts_baseSessionKey = None, ts_threadId = None\<rparr>
      else (let threadMarker = '':thread:'' in
        case js_last_index_of_str threadMarker (js_lower raw) of
          None \<Rightarrow> \<lparr>ts_baseSessionKey = Some raw, ts_threadId = None\<rparr>
        | Some markerIndex \<Rightarrow>
            (let threadId = js_trim (drop (markerIndex + length threadMarker) raw) in
             \<lparr>ts_baseSessionKey = Some (take markerIndex raw),
              ts_threadId = (if threadId = [] then None else Some threadId)\<rparr>)))"

record conversation_ref =
  cr_channel :: string
  cr_kind :: string
  cr_rawId :: string
  cr_prefix :: string

definition parseRawSessionConversationRef :: "string option \<Rightarrow> conversation_ref option" where
  "parseRawSessionConversationRef sessionKey =
     (let raw = js_trim (js_nullish sessionKey []) in
      if raw = [] then None
      else (let rawParts = js_nonempty (js_split CHR '':'' raw);
                bodyStartIndex = (if length rawParts \<ge> 3 \<and> js_lower (js_trim (rawParts ! 0)) = ''agent'' then 2 else 0);
                parts = drop bodyStartIndex rawParts in
        if length parts < 3 then None
        else (let kind = js_lower (js_trim (parts ! 1)) in
          case normalizeSessionConversationChannel (Some (parts ! 0)) of
            None \<Rightarrow> None
          | Some channel \<Rightarrow>
              if kind \<noteq> ''group'' \<and> kind \<noteq> ''channel'' then None
              else (let rawId = js_trim (js_join '':'' (drop 2 parts));
                        keyPrefix = js_trim (js_join '':'' (take (bodyStartIndex + 2) rawParts)) in
                if rawId = [] \<or> keyPrefix = [] then None
                else Some \<lparr>cr_channel = channel, cr_kind = kind, cr_rawId = rawId, cr_prefix = keyPrefix\<rparr>))))"

definition resolveThreadParentSessionKey :: "string option \<Rightarrow> string option" where
  "resolveThreadParentSessionKey sessionKey =
     (let s = parseThreadSessionSuffix sessionKey in
      if ts_threadId s = None then None
      else (case ts_baseSessionKey s of
          None \<Rightarrow> None
        | Some base \<Rightarrow> (let parent = js_trim base in if parent = [] then None else Some parent)))"

section \<open>routing/session-key.ts\<close>

datatype chat_type = Direct | Group | Channel

definition chat_type_str :: "chat_type \<Rightarrow> string" where
  "chat_type_str k = (case k of Direct \<Rightarrow> ''direct'' | Group \<Rightarrow> ''group'' | Channel \<Rightarrow> ''channel'')"

definition normalizeChatType :: "string option \<Rightarrow> chat_type option" where
  "normalizeChatType raw =
     (let value = (case raw of None \<Rightarrow> [] | Some r \<Rightarrow> js_lower (js_trim r)) in
      if value = [] then None
      else if value = ''direct'' \<or> value = ''dm'' then Some Direct
      else if value = ''group'' then Some Group
      else if value = ''channel'' then Some Channel
      else None)"

definition normalizeToken :: "string option \<Rightarrow> string" where
  "normalizeToken value = js_lower (js_trim (js_nullish value []))"

definition normalizeMainKey :: "string option \<Rightarrow> string" where
  "normalizeMainKey value =
     (let trimmed = js_trim (js_nullish value []) in if trimmed = [] then DEFAULT_MAIN_KEY else js_lower trimmed)"

definition buildAgentMainSessionKey :: "string option \<Rightarrow> string option \<Rightarrow> string" where
  "buildAgentMainSessionKey agentId mainKey =
     ''agent:'' @ normalizeAgentId agentId @ '':'' @ normalizeMainKey mainKey"

definition toAgentRequestSessionKey :: "string option \<Rightarrow> string option" where
  "toAgentRequestSessionKey storeKey =
     (let raw = js_trim (js_nullish storeKey []) in
      if raw = [] then None
      else Some (case parseAgentSessionKey (Some raw) of Some p \<Rightarrow> pk_rest p | None \<Rightarrow> raw))"

definition toAgentStoreSessionKey :: "string option \<Rightarrow> string option \<Rightarrow> string option \<Rightarrow> string" where
  "toAgentStoreSessionKey agentId requestKey mainKey =
     (let raw = js_trim (js_nullish requestKey []) in
      if raw = [] \<or> js_lower raw = DEFAULT_MAIN_KEY then buildAgentMainSessionKey agentId mainKey
      else (case parseAgentSessionKey (Some raw) of
          Some p \<Rightarrow> ''agent:'' @ pk_agentId p @ '':'' @ pk_rest p
        | None \<Rightarrow>
            (let lowered = js_lower raw in
             if js_starts_with lowered ''agent:'' then lowered
             else ''agent:'' @ normalizeAgentId agentId @ '':'' @ lowered)))"

definition resolveAgentIdFromSessionKey :: "string option \<Rightarrow> string" where
  "resolveAgentIdFromSessionKey sessionKey =
     normalizeAgentId (Some (case parseAgentSessionKey sessionKey of Some p \<Rightarrow> pk_agentId p | None \<Rightarrow> DEFAULT_AGENT_ID))"

datatype key_shape = Missing | Agent_key | Legacy_or_alias | Malformed_agent

definition classifySessionKeyShape :: "string option \<Rightarrow> key_shape" where
  "classifySessionKeyShape sessionKey =
     (let raw = js_trim (js_nullish sessionKey []) in
      if raw = [] then Missing
      else if parseAgentSessionKey (Some raw) \<noteq> None then Agent_key
      else if js_starts_with (js_lower raw) ''agent:'' then Malformed_agent else Legacy_or_alias)"

datatype dm_scope = Dm_main | Dm_per_peer | Dm_per_channel_peer | Dm_per_account_channel_peer

text \<open>\<open>Object.entries(identityLinks)\<close>; \<open>None\<close> for a value that is not an array.\<close>

type_synonym identity_links = "(string \<times> string list option) list"

definition link_candidates :: "string \<Rightarrow> string \<Rightarrow> string list" where
  "link_candidates channelRaw peerId =
     (let rawCandidate = normalizeToken (Some peerId); channel = normalizeToken (Some channelRaw);
          scopedCandidate = normalizeToken (Some (channel @ '':'' @ peerId)) in
      (if rawCandidate \<noteq> [] then [rawCandidate] else []) @
      (if channel \<noteq> [] \<and> scopedCandidate \<noteq> [] then [scopedCandidate] else []))"

fun first_link :: "string list \<Rightarrow> identity_links \<Rightarrow> string option" where
  "first_link candidates [] = None"
| "first_link candidates ((canonical, ids) # rest) =
     (let canonicalName = js_trim canonical in
      if canonicalName = [] then first_link candidates rest
      else (case ids of
          None \<Rightarrow> first_link candidates rest
        | Some xs \<Rightarrow>
            if list_ex (\<lambda>i. normalizeToken (Some i) \<noteq> [] \<and> normalizeToken (Some i) \<in> set candidates) xs
            then Some canonicalName else first_link candidates rest))"

definition resolveLinkedPeerId :: "identity_links option \<Rightarrow> string \<Rightarrow> string \<Rightarrow> string option" where
  "resolveLinkedPeerId identityLinks channel peerIdRaw =
     (case identityLinks of
        None \<Rightarrow> None
      | Some links \<Rightarrow>
          (let peerId = js_trim peerIdRaw in
           if peerId = [] then None
           else (let candidates = link_candidates channel peerId in
                 if candidates = [] then None else first_link candidates links)))"

record peer_key_params =
  kp_agentId :: string
  kp_mainKey :: "string option"
  kp_channel :: "string option"
  kp_accountId :: "string option"
  kp_peerKind :: "chat_type option"
  kp_peerId :: "string option"
  kp_identityLinks :: "identity_links option"
  kp_dmScope :: "dm_scope option"

definition key_channel :: "peer_key_params \<Rightarrow> string" where
  "key_channel p = js_or (js_lower (js_trim (js_nullish (kp_channel p) []))) ''unknown''"

text \<open>The peer a direct conversation is keyed by, after identity links.\<close>

definition direct_peer :: "peer_key_params \<Rightarrow> dm_scope \<Rightarrow> string" where
  "direct_peer p dmScope =
     (let peerId = js_trim (js_nullish (kp_peerId p) []);
          linkedPeerId = (if dmScope = Dm_main then None
            else resolveLinkedPeerId (kp_identityLinks p) (js_nullish (kp_channel p) []) peerId) in
      js_lower (if js_truthy linkedPeerId then the linkedPeerId else peerId))"

definition buildAgentPeerSessionKey :: "peer_key_params \<Rightarrow> string" where
  "buildAgentPeerSessionKey p =
     (let peerKind = js_nullish (kp_peerKind p) Direct; agent = normalizeAgentId (Some (kp_agentId p)) in
      if peerKind = Direct then
        (let dmScope = js_nullish (kp_dmScope p) Dm_main; peerId = direct_peer p dmScope in
         if dmScope = Dm_per_account_channel_peer \<and> peerId \<noteq> [] then
           ''agent:'' @ agent @ '':'' @ key_channel p @ '':'' @ normalizeAccountId (kp_accountId p) @ '':direct:'' @ peerId
         else if dmScope = Dm_per_channel_peer \<and> peerId \<noteq> [] then
           ''agent:'' @ agent @ '':'' @ key_channel p @ '':direct:'' @ peerId
         else if dmScope = Dm_per_peer \<and> peerId \<noteq> [] then ''agent:'' @ agent @ '':direct:'' @ peerId
         else buildAgentMainSessionKey (Some (kp_agentId p)) (kp_mainKey p))
      else
        (let peerId = js_lower (js_or (js_trim (js_nullish (kp_peerId p) [])) ''unknown'') in
         ''agent:'' @ agent @ '':'' @ key_channel p @ '':'' @ chat_type_str peerKind @ '':'' @ peerId))"

definition buildGroupHistoryKey :: "string \<Rightarrow> string option \<Rightarrow> chat_type \<Rightarrow> string \<Rightarrow> string" where
  "buildGroupHistoryKey channelRaw accountId peerKind peerIdRaw =
     js_or (normalizeToken (Some channelRaw)) ''unknown'' @ '':'' @ normalizeAccountId accountId @ '':'' @
     chat_type_str peerKind @ '':'' @ js_or (js_lower (js_trim peerIdRaw)) ''unknown''"

definition resolveThreadSessionKeys ::
  "string \<Rightarrow> string option \<Rightarrow> string option \<Rightarrow> bool option \<Rightarrow> (string \<Rightarrow> string) option \<Rightarrow> string \<times> string option" where
  "resolveThreadSessionKeys baseSessionKey threadIdRaw parentSessionKey useSuffix normalizeThreadId =
     (let threadId = js_trim (js_nullish threadIdRaw []) in
      if threadId = [] then (baseSessionKey, None)
      else (let normalizedThreadId = js_nullish normalizeThreadId js_lower threadId in
            (if js_nullish useSuffix True then baseSessionKey @ '':thread:'' @ normalizedThreadId else baseSessionKey,
             parentSessionKey)))"

end
