(* ===== verification/Session_Key_Props.thy ===== *)
theory Session_Key_Props
  imports Session_Key
begin

text \<open>
  Normalised ids are safe and stable, session keys name their agent, and the keys of direct
  conversations keep peers apart.
\<close>

section \<open>Normalised ids\<close>

lemma id_char_props:
  assumes "is_id_char c"
  shows "c \<noteq> CHR '':''" "\<not> js_space c" "js_lower_char c = c"
  using assms by (auto simp: is_id_char_def is_alnum_def js_space_def js_lower_char_def Let_def)

lemma alnum_is_id: "is_alnum c \<Longrightarrow> is_id_char c"
  by (simp add: is_id_char_def)

lemma collapse_id_chars: "list_all is_id_char (collapse_invalid b s)"
  by (induction b s rule: collapse_invalid.induct) (auto simp: is_id_char_def)

lemma collapse_length: "length (collapse_invalid b s) \<le> length s"
  by (induction b s rule: collapse_invalid.induct) auto

lemma collapse_id: "list_all is_id_char s \<Longrightarrow> collapse_invalid False s = s"
  by (induction s) auto

lemma strip_dashes_both: "strip_dashes = strip_both (\<lambda>c. c = CHR ''-'')"
  by (simp add: fun_eq_iff strip_dashes_def strip_both_def)

lemma lower_id_chars: "list_all is_id_char s \<Longrightarrow> js_lower s = s"
  by (induction s) (auto simp: js_lower_def id_char_props)

lemma trim_id_chars: "list_all is_id_char s \<Longrightarrow> js_trim s = s"
  by (rule js_trim_clean) (cases s, auto simp: id_char_props list_all_iff)

text \<open>The body the two normalisations share.\<close>

definition slug :: "string \<Rightarrow> string" where
  "slug s = (if valid_id s then js_lower s else take 64 (strip_dashes (collapse_invalid False (js_lower s))))"

lemma canonicalize_slug: "canonicalizeAccountId = slug"
  by (simp add: fun_eq_iff canonicalizeAccountId_def slug_def)

lemma normalizeAgentId_slug:
  "normalizeAgentId v = (let t = js_trim (js_nullish v []) in if t = [] then DEFAULT_AGENT_ID else js_or (slug t) DEFAULT_AGENT_ID)"
  by (auto simp: normalizeAgentId_def slug_def Let_def js_or_def)

definition safe_id :: "string \<Rightarrow> bool" where
  "safe_id s \<longleftrightarrow> length s \<le> 64 \<and> list_all is_id_char s \<and> (s \<noteq> [] \<longrightarrow> hd s \<noteq> CHR ''-'')"

lemma valid_lower_safe: "valid_id s \<Longrightarrow> safe_id (js_lower s)"
proof -
  assume "valid_id s"
  then obtain c rest where c: "js_lower s = c # rest" "is_alnum c" "length rest \<le> 63" "list_all is_id_char rest"
    by (auto simp: valid_id_def split: list.splits)
  then have "length (js_lower s) \<le> 64" by simp
  moreover have "c \<noteq> CHR ''-''" using c(2) by (auto simp: is_alnum_def)
  ultimately show ?thesis using c by (simp add: safe_id_def alnum_is_id)
qed

lemma slug_safe: "safe_id (slug s)"
proof (cases "valid_id s")
  case True
  then show ?thesis by (simp add: slug_def valid_lower_safe)
next
  case False
  let ?x = "strip_dashes (collapse_invalid False (js_lower s))"
  have "set ?x \<subseteq> set (collapse_invalid False (js_lower s))" by (simp add: strip_dashes_both set_strip_both)
  then have "list_all is_id_char (take 64 ?x)"
    using collapse_id_chars [of False "js_lower s"] by (auto simp: list_all_iff dest: in_set_takeD)
  moreover have "take 64 ?x \<noteq> [] \<longrightarrow> hd (take 64 ?x) \<noteq> CHR ''-''"
    using strip_both_hd [of "\<lambda>c. c = CHR ''-''"] by (auto simp: strip_dashes_both)
  ultimately show ?thesis using False by (simp add: slug_def safe_id_def)
qed

lemma main_safe: "safe_id DEFAULT_AGENT_ID" "DEFAULT_AGENT_ID \<noteq> []"
  by (simp_all add: DEFAULT_AGENT_ID_def safe_id_def is_id_char_def is_alnum_def)

lemma agent_id_safe: "safe_id (normalizeAgentId v)" "normalizeAgentId v \<noteq> []"
  by (auto simp: normalizeAgentId_slug Let_def js_or_def main_safe slug_safe)

text \<open>Every normalised agent id is safe as a path segment and a key segment: 1 to 64 lower-case letters,
  digits, underscores and dashes, not starting with a dash.\<close>

theorem agent_ids_are_safe:
  "let a = normalizeAgentId v in
   0 < length a \<and> length a \<le> 64 \<and> (\<forall>c\<in>set a. is_alnum c \<or> c = CHR ''_'' \<or> c = CHR ''-'') \<and> hd a \<noteq> CHR ''-''"
  using agent_id_safe [of v] by (auto simp: Let_def safe_id_def list_all_iff is_id_char_def)

theorem agent_ids_are_safe_witness:
  "length (normalizeAgentId (Some ''  ../My Agent! '')) \<le> 64"
  using agent_ids_are_safe [of "Some ''  ../My Agent! ''"] by (simp add: Let_def)

lemma slug_fixed: "safe_id s \<Longrightarrow> s \<noteq> [] \<Longrightarrow> last s \<noteq> CHR ''-'' \<or> valid_id s \<Longrightarrow> slug s = s"
  using strip_both_clean [of s "\<lambda>c. c = CHR ''-''"]
  by (auto simp: slug_def safe_id_def lower_id_chars collapse_id strip_dashes_both)

lemma valid_id_lower: "valid_id (js_lower s) = valid_id s"
  by (simp add: valid_id_def)

lemma slug_idem: "length s \<le> 64 \<Longrightarrow> slug s \<noteq> [] \<Longrightarrow> slug (slug s) = slug s"
proof (cases "valid_id s")
  case True
  then show "slug s \<noteq> [] \<Longrightarrow> ?thesis" by (simp add: slug_def valid_id_lower)
next
  case False
  assume len: "length s \<le> 64" and ne: "slug s \<noteq> []"
  let ?x = "strip_dashes (collapse_invalid False (js_lower s))"
  have "length ?x \<le> 64"
    using len length_strip_both [of _ "collapse_invalid False (js_lower s)"] collapse_length [of False "js_lower s"]
    by (metis strip_dashes_both length_js_lower le_trans)
  then have "slug s = ?x" using False by (simp add: slug_def)
  moreover from this ne have "last (slug s) \<noteq> CHR ''-''"
    using strip_both_last [of "\<lambda>c. c = CHR ''-''"] by (simp add: strip_dashes_both)
  ultimately show ?thesis using slug_safe [of s] ne slug_fixed by blast
qed

text \<open>Normalising an agent id twice gives the same id, for every id of at most 64 characters.\<close>

theorem agent_id_idempotent:
  assumes "length (js_trim (js_nullish v [])) \<le> 64"
  shows "normalizeAgentId (Some (normalizeAgentId v)) = normalizeAgentId v"
proof -
  have t: "js_trim (normalizeAgentId v) = normalizeAgentId v"
    using agent_id_safe(1) [of v] by (simp add: safe_id_def trim_id_chars)
  have "slug (normalizeAgentId v) = normalizeAgentId v"
  proof (cases "js_trim (js_nullish v []) = [] \<or> slug (js_trim (js_nullish v [])) = []")
    case True
    then have "normalizeAgentId v = DEFAULT_AGENT_ID" by (auto simp: normalizeAgentId_slug Let_def)
    then show ?thesis using main_safe by (intro slug_fixed) (simp_all add: DEFAULT_AGENT_ID_def)
  next
    case False
    then show ?thesis using assms by (simp add: normalizeAgentId_slug Let_def slug_idem)
  qed
  then show ?thesis using t agent_id_safe(2) [of v]
    by (simp add: normalizeAgentId_slug [of "Some (normalizeAgentId v)"] Let_def)
qed

theorem agent_id_idempotent_witness:
  "normalizeAgentId (Some (normalizeAgentId (Some '' -Ops Team-''))) = ''ops-team''"
proof -
  have "length (js_trim (js_nullish (Some '' -Ops Team-'') [])) \<le> 64" by code_simp
  moreover have "normalizeAgentId (Some '' -Ops Team-'') = ''ops-team''" by code_simp
  ultimately show ?thesis using agent_id_idempotent [of "Some '' -Ops Team-''"] by simp
qed

text \<open>Beyond 64 characters it can take two rounds: cutting may leave a dash that the next round strips.\<close>

lemma long_agent_id_not_stable:
  "let v = CHR ''_'' # replicate 62 CHR ''a'' @ ''-b'' in
   length (normalizeAgentId (Some v)) = 64 \<and> length (normalizeAgentId (Some (normalizeAgentId (Some v)))) = 63"
  by code_simp

section \<open>The account id cache\<close>

definition account_cache_ok :: "(string, string) js_map \<Rightarrow> bool" where
  "account_cache_ok cache \<longleftrightarrow> map_ok cache \<and> length cache \<le> ACCOUNT_ID_CACHE_MAX \<and>
     (\<forall>(k, v)\<in>set cache. v = js_nullish (normalizeCanonicalAccountId k) DEFAULT_ACCOUNT_ID)"

lemma setNormalizeCache_ok:
  assumes "account_cache_ok cache" "v = js_nullish (normalizeCanonicalAccountId k) DEFAULT_ACCOUNT_ID"
  shows "account_cache_ok (setNormalizeCache k v cache)"
proof -
  have s: "set (map_put k v cache) \<subseteq> insert (k, v) (set cache)" by (rule set_map_put_subset)
  have l: "length (map_put k v cache) \<le> Suc ACCOUNT_ID_CACHE_MAX"
    using assms(1) by (simp add: account_cache_ok_def length_map_put)
  have d: "map_ok (map_put k v cache)" using assms(1) by (simp add: account_cache_ok_def)
  then have "map_ok (tl (map_put k v cache))" by (simp add: map_ok_def map_tl distinct_tl)
  moreover have "set (tl (map_put k v cache)) \<subseteq> insert (k, v) (set cache)"
    using s by (cases "map_put k v cache") auto
  ultimately show ?thesis using assms s l d
    unfolding account_cache_ok_def setNormalizeCache_def Let_def by auto
qed

lemma account_cache_step:
  assumes "account_cache_ok cache"
  shows "fst (normalizeAccountId_cached v cache) = normalizeAccountId v \<and>
    account_cache_ok (snd (normalizeAccountId_cached v cache))"
proof -
  let ?t = "js_trim (js_nullish v [])"
  have hit: "w = js_nullish (normalizeCanonicalAccountId ?t) DEFAULT_ACCOUNT_ID" if "map_get cache ?t = Some w" for w
    using assms map_get_in_set [OF that] by (auto simp: account_cache_ok_def)
  show ?thesis
    using assms hit setNormalizeCache_ok [OF assms refl]
    by (auto simp: normalizeAccountId_cached_def normalizeAccountId_def Let_def js_truthy_def split: option.splits)
qed

interpretation acct: invariant_machine "\<lambda>cache v. snd (normalizeAccountId_cached v cache)" account_cache_ok
  by unfold_locales (simp add: account_cache_step)

text \<open>The cache of account ids never changes an answer and never grows beyond its bound, whatever was
  asked before.\<close>

theorem account_cache_is_transparent:
  "let cache = foldl (\<lambda>c v. snd (normalizeAccountId_cached v c)) [] asked in
   fst (normalizeAccountId_cached v cache) = normalizeAccountId v \<and> length cache \<le> ACCOUNT_ID_CACHE_MAX"
proof -
  have "account_cache_ok (foldl (\<lambda>c v. snd (normalizeAccountId_cached v c)) [] asked)"
    by (rule acct.run_inv) (simp add: account_cache_ok_def)
  then show ?thesis unfolding Let_def using account_cache_step by (auto simp: account_cache_ok_def)
qed

section \<open>Keys name their agent\<close>

lemma colon_free: "safe_id a \<Longrightarrow> CHR '':'' \<notin> set a"
  by (auto simp: safe_id_def list_all_iff dest: id_char_props(1))

lemma parse_agent_key:
  assumes "safe_id a" "a \<noteq> []" "js_trim r = r" "js_lower r = r" "\<not> set r \<subseteq> {CHR '':''}"
  shows "parseAgentSessionKey (Some (''agent:'' @ a @ '':'' @ r)) =
    Some \<lparr>pk_agentId = a, pk_rest = js_join '':'' (js_nonempty (js_split CHR '':'' r))\<rparr>"
proof -
  have r: "r \<noteq> []" "js_nonempty (js_split CHR '':'' r) \<noteq> []"
    using assms(5) by (auto simp: js_nonempty_split_Nil)
  have ids: "list_all is_id_char a" using assms(1) by (simp add: safe_id_def)
  let ?key = "''agent:'' @ a @ '':'' @ r"
  have "\<not> js_space (last r)" using js_trim_last [of r] assms(3) r(1) by simp
  then have t: "js_trim ?key = ?key" using r(1) by (intro js_trim_clean) (simp add: js_space_def)
  have low: "js_lower ?key = ?key"
    using ids assms(4) by (simp add: lower_id_chars js_lower_Cons js_lower_char_def)
  have split: "js_split CHR '':'' ?key = ''agent'' # a # js_split CHR '':'' r"
    using js_split_append [OF colon_free [OF assms(1)], of r] by simp
  have "hd (js_nonempty (js_split CHR '':'' r)) \<noteq> []"
    using hd_in_set [OF r(2)] by (simp add: js_nonempty_def)
  with r(2) have "js_join '':'' (js_nonempty (js_split CHR '':'' r)) \<noteq> []" by (rule js_join_nonempty)
  then show ?thesis
    using t low split assms(2) trim_id_chars [OF ids] r(2)
    by (auto simp: parseAgentSessionKey_def Let_def js_nonempty_def Suc_le_eq)
qed

lemma resolve_agent_key:
  assumes "safe_id a" "a \<noteq> []" "js_trim r = r" "js_lower r = r" "\<not> set r \<subseteq> {CHR '':''}"
  shows "resolveAgentIdFromSessionKey (Some (''agent:'' @ a @ '':'' @ r)) = normalizeAgentId (Some a)"
  by (simp add: resolveAgentIdFromSessionKey_def parse_agent_key [OF assms, simplified])

text \<open>The part behind the agent id.\<close>

definition key_rest :: "peer_key_params \<Rightarrow> string" where
  "key_rest p =
     (let peerKind = js_nullish (kp_peerKind p) Direct; dmScope = js_nullish (kp_dmScope p) Dm_main;
          dmPeer = direct_peer p dmScope in
      if peerKind = Direct then
        (if dmScope = Dm_per_account_channel_peer \<and> dmPeer \<noteq> []
         then key_channel p @ '':'' @ normalizeAccountId (kp_accountId p) @ '':direct:'' @ dmPeer
         else if dmScope = Dm_per_channel_peer \<and> dmPeer \<noteq> [] then key_channel p @ '':direct:'' @ dmPeer
         else if dmScope = Dm_per_peer \<and> dmPeer \<noteq> [] then ''direct:'' @ dmPeer
         else normalizeMainKey (kp_mainKey p))
      else key_channel p @ '':'' @ chat_type_str peerKind @ '':'' @
           js_lower (js_or (js_trim (js_nullish (kp_peerId p) [])) ''unknown''))"

lemma build_key_rest:
  "buildAgentPeerSessionKey p = ''agent:'' @ normalizeAgentId (Some (kp_agentId p)) @ '':'' @ key_rest p"
proof (cases "js_nullish (kp_peerKind p) Direct = Direct")
  case True
  then show ?thesis
    by (cases "js_nullish (kp_dmScope p) Dm_main"; cases "direct_peer p (js_nullish (kp_dmScope p) Dm_main) = []")
      (simp_all add: buildAgentPeerSessionKey_def key_rest_def buildAgentMainSessionKey_def Let_def)
qed (simp add: buildAgentPeerSessionKey_def key_rest_def Let_def)

lemma account_id_safe: "safe_id (normalizeAccountId v)"
  by (auto simp: normalizeAccountId_def normalizeCanonicalAccountId_def canonicalize_slug Let_def slug_safe
      DEFAULT_ACCOUNT_ID_def) (simp_all add: safe_id_def is_id_char_def is_alnum_def)

lemma account_id_lower: "js_lower (normalizeAccountId v) = normalizeAccountId v"
  using account_id_safe [of v] by (simp add: safe_id_def lower_id_chars)

lemma first_link_trimmed: "first_link cs links = Some x \<Longrightarrow> js_trim x = x \<and> x \<noteq> []"
  by (induction cs links rule: first_link.induct) (auto simp: Let_def split: if_splits option.splits)

lemma direct_peer_trimmed: "js_trim (direct_peer p s) = direct_peer p s"
proof -
  have "js_trim x = x" if "resolveLinkedPeerId l c q = Some x" for l c q x
    using that first_link_trimmed by (auto simp: resolveLinkedPeerId_def Let_def split: option.splits if_splits)
  then show ?thesis
    by (auto simp: direct_peer_def Let_def js_trim_lower js_truthy_def split: option.split)
qed

lemma lower_fixed_simps [simp]:
  "js_lower (direct_peer p s) = direct_peer p s" "js_lower (key_channel p) = key_channel p"
  "js_lower (chat_type_str k) = chat_type_str k"
  by (auto simp: direct_peer_def key_channel_def js_or_def Let_def js_lower_Cons js_lower_char_def chat_type_str_def
      split: chat_type.split)

lemma trim_append_right:
  assumes "js_trim y = y" "y \<noteq> []" "x = [] \<or> \<not> js_space (hd x)"
  shows "js_trim (x @ y) = x @ y"
  using js_trim_hd [of y] js_trim_last [of y] assms by (intro js_trim_clean) (cases x, auto)

lemma key_channel_hd: "key_channel p \<noteq> [] \<and> \<not> js_space (hd (key_channel p))"
proof (cases "js_trim (js_nullish (kp_channel p) []) = []")
  case True
  then show ?thesis by (simp add: key_channel_def js_space_def)
next
  case False
  then show ?thesis using js_trim_hd [OF False]
    by (simp add: key_channel_def js_or_def) (simp add: js_lower_def list.map_sel(1))
qed

lemma key_rest_props:
  assumes "\<not> set (normalizeMainKey (kp_mainKey p)) \<subseteq> {CHR '':''}"
  shows "js_trim (key_rest p) = key_rest p" "js_lower (key_rest p) = key_rest p" "\<not> set (key_rest p) \<subseteq> {CHR '':''}"
proof -
  let ?peer = "js_lower (js_or (js_trim (js_nullish (kp_peerId p) [])) ''unknown'')"
  have peer: "js_trim ?peer = ?peer" "?peer \<noteq> []"
    by (auto simp: js_or_def js_trim_lower) (simp add: js_trim_clean js_space_def js_lower_Cons js_lower_char_def)
  have main: "js_trim (normalizeMainKey m) = normalizeMainKey m" "js_lower (normalizeMainKey m) = normalizeMainKey m" for m
    by (auto simp: normalizeMainKey_def Let_def DEFAULT_MAIN_KEY_def js_trim_lower js_lower_Cons js_lower_char_def
        intro!: js_trim_clean) (simp_all add: js_space_def)
  have ch: "x = [] \<or> \<not> js_space (hd x)" if "x = key_channel p @ z" for x z using that key_channel_hd by simp
  have d: "\<not> js_space (hd ''direct:'')" by (simp add: js_space_def)
  have "\<exists>x y. key_rest p = x @ y \<and> js_trim y = y \<and> y \<noteq> [] \<and> (x = [] \<or> \<not> js_space (hd x))"
  proof (cases "js_nullish (kp_peerKind p) Direct = Direct")
    case False
    then have "key_rest p = (key_channel p @ '':'' @ chat_type_str (js_nullish (kp_peerKind p) Direct) @ '':'') @ ?peer"
      by (simp add: key_rest_def Let_def)
    then show ?thesis using peer ch by blast
  next
    case True
    let ?s = "js_nullish (kp_dmScope p) Dm_main"
    show ?thesis
    proof (cases "?s = Dm_main \<or> direct_peer p ?s = []")
      case True
      then have "key_rest p = [] @ normalizeMainKey (kp_mainKey p)"
        using \<open>js_nullish (kp_peerKind p) Direct = Direct\<close> by (auto simp: key_rest_def Let_def)
      moreover have "normalizeMainKey (kp_mainKey p) \<noteq> []"
        by (simp add: normalizeMainKey_def Let_def DEFAULT_MAIN_KEY_def)
      ultimately show ?thesis using main(1) by blast
    next
      case False
      then consider "?s = Dm_per_account_channel_peer" | "?s = Dm_per_channel_peer" | "?s = Dm_per_peer"
        by (cases ?s) auto
      then show ?thesis
      proof cases
        case 1
        then have "key_rest p = (key_channel p @ '':'' @ normalizeAccountId (kp_accountId p) @ '':direct:'') @ direct_peer p ?s"
          using False True by (simp add: key_rest_def Let_def)
        then show ?thesis using direct_peer_trimmed False ch by blast
      next
        case 2
        then have "key_rest p = (key_channel p @ '':direct:'') @ direct_peer p ?s"
          using False True by (simp add: key_rest_def Let_def)
        then show ?thesis using direct_peer_trimmed False ch by blast
      next
        case 3
        then have "key_rest p = ''direct:'' @ direct_peer p ?s"
          using False True by (simp add: key_rest_def Let_def)
        then show ?thesis using direct_peer_trimmed False d by blast
      qed
    qed
  qed
  then show "js_trim (key_rest p) = key_rest p" using trim_append_right by metis
  show "js_lower (key_rest p) = key_rest p"
    using main(2) by (simp add: key_rest_def Let_def account_id_lower js_lower_Cons js_lower_char_def)
  show "\<not> set (key_rest p) \<subseteq> {CHR '':''}"
    using assms by (auto simp: key_rest_def Let_def chat_type_str_def split: chat_type.splits if_splits)
qed

text \<open>C16: Whatever the scope, the channel, the account, the identity links and the peer, the key built for a
  conversation resolves to the agent it was built for (agent ids of at most 64 characters, a main key
  that is not only colons).\<close>

theorem session_key_names_its_agent:
  assumes "length (js_trim (kp_agentId p)) \<le> 64" "\<not> set (normalizeMainKey (kp_mainKey p)) \<subseteq> {CHR '':''}"
  shows "resolveAgentIdFromSessionKey (Some (buildAgentPeerSessionKey p)) = normalizeAgentId (Some (kp_agentId p))"
proof -
  have "normalizeAgentId (Some (normalizeAgentId (Some (kp_agentId p)))) = normalizeAgentId (Some (kp_agentId p))"
    using agent_id_safe [of "Some (kp_agentId p)"] assms(1)
      slug_idem [of "js_trim (kp_agentId p)"] trim_id_chars slug_fixed [OF main_safe]
    by (auto simp: normalizeAgentId_slug Let_def js_or_def safe_id_def DEFAULT_AGENT_ID_def split: if_splits)
  then show ?thesis
    unfolding build_key_rest using resolve_agent_key [OF agent_id_safe key_rest_props [OF assms(2)]] by simp
qed

definition demo_key :: peer_key_params where
  "demo_key = \<lparr>kp_agentId = ''Ops'', kp_mainKey = None, kp_channel = Some ''Telegram'', kp_accountId = None,
     kp_peerKind = None, kp_peerId = Some ''42:7'', kp_identityLinks = None, kp_dmScope = Some Dm_per_account_channel_peer\<rparr>"

theorem session_key_names_its_agent_witness:
  "resolveAgentIdFromSessionKey (Some ''agent:ops:telegram:default:direct:42:7'') = ''ops''"
proof -
  have "length (js_trim (kp_agentId demo_key)) \<le> 64" "\<not> set (normalizeMainKey (kp_mainKey demo_key)) \<subseteq> {CHR '':''}"
    by code_simp+
  moreover have "buildAgentPeerSessionKey demo_key = ''agent:ops:telegram:default:direct:42:7''"
    "normalizeAgentId (Some (kp_agentId demo_key)) = ''ops''" by code_simp+
  ultimately show ?thesis using session_key_names_its_agent [of demo_key] by simp
qed

section \<open>Direct conversations are kept apart\<close>

text \<open>C15: Two direct conversations that share a key under a separating scope have the same agent and the same
  peer, the same channel where the scope separates channels, and the same account where it separates
  accounts (channels without a colon).\<close>

theorem dm_sessions_are_isolated:
  assumes "buildAgentPeerSessionKey p = buildAgentPeerSessionKey q"
    and "js_nullish (kp_peerKind p) Direct = Direct" "js_nullish (kp_peerKind q) Direct = Direct"
    and "js_nullish (kp_dmScope p) Dm_main = s" "js_nullish (kp_dmScope q) Dm_main = s" "s \<noteq> Dm_main"
    and "direct_peer p s \<noteq> []" "direct_peer q s \<noteq> []"
    and "CHR '':'' \<notin> set (key_channel p)" "CHR '':'' \<notin> set (key_channel q)"
  shows "normalizeAgentId (Some (kp_agentId p)) = normalizeAgentId (Some (kp_agentId q)) \<and>
    direct_peer p s = direct_peer q s \<and> (s \<noteq> Dm_per_peer \<longrightarrow> key_channel p = key_channel q) \<and>
    (s = Dm_per_account_channel_peer \<longrightarrow> normalizeAccountId (kp_accountId p) = normalizeAccountId (kp_accountId q))"
proof -
  have "normalizeAgentId (Some (kp_agentId p)) = normalizeAgentId (Some (kp_agentId q)) \<and> key_rest p = key_rest q"
    using assms(1) colon_free [OF agent_id_safe(1)]
    by (intro field_unique [of "CHR '':''"]) (simp_all add: build_key_rest)
  moreover have "direct_peer p s = direct_peer q s \<and> (s \<noteq> Dm_per_peer \<longrightarrow> key_channel p = key_channel q) \<and>
    (s = Dm_per_account_channel_peer \<longrightarrow> normalizeAccountId (kp_accountId p) = normalizeAccountId (kp_accountId q))"
    if k: "key_rest p = key_rest q"
  proof (cases s)
    case Dm_per_account_channel_peer
    then have "key_channel p = key_channel q \<and>
        normalizeAccountId (kp_accountId p) @ CHR '':'' # ''direct:'' @ direct_peer p s =
        normalizeAccountId (kp_accountId q) @ CHR '':'' # ''direct:'' @ direct_peer q s"
      using k assms by (intro field_unique [of "CHR '':''"]) (simp_all add: key_rest_def Let_def)
    moreover from this have "normalizeAccountId (kp_accountId p) = normalizeAccountId (kp_accountId q) \<and>
        ''direct:'' @ direct_peer p s = ''direct:'' @ direct_peer q s"
      by (intro field_unique [of "CHR '':''"] colon_free account_id_safe) simp
    ultimately show ?thesis by simp
  next
    case Dm_per_channel_peer
    then have "key_channel p = key_channel q \<and> ''direct:'' @ direct_peer p s = ''direct:'' @ direct_peer q s"
      using k assms by (intro field_unique [of "CHR '':''"]) (simp_all add: key_rest_def Let_def)
    with Dm_per_channel_peer show ?thesis by simp
  next
    case Dm_per_peer
    then show ?thesis using k assms by (simp add: key_rest_def Let_def)
  qed (use assms(6) in simp)
  ultimately show ?thesis by blast
qed

theorem dm_sessions_are_isolated_witness:
  "direct_peer demo_key Dm_per_account_channel_peer = ''42:7''"
proof -
  have "js_nullish (kp_peerKind demo_key) Direct = Direct" "js_nullish (kp_dmScope demo_key) Dm_main = Dm_per_account_channel_peer"
    "direct_peer demo_key Dm_per_account_channel_peer \<noteq> []" "CHR '':'' \<notin> set (key_channel demo_key)"
    "js_nullish (kp_peerKind (demo_key\<lparr>kp_peerId := Some '' 42:7''\<rparr>)) Direct = Direct"
    "js_nullish (kp_dmScope (demo_key\<lparr>kp_peerId := Some '' 42:7''\<rparr>)) Dm_main = Dm_per_account_channel_peer"
    "direct_peer (demo_key\<lparr>kp_peerId := Some '' 42:7''\<rparr>) Dm_per_account_channel_peer = ''42:7''"
    "CHR '':'' \<notin> set (key_channel (demo_key\<lparr>kp_peerId := Some '' 42:7''\<rparr>))"
    "buildAgentPeerSessionKey demo_key = buildAgentPeerSessionKey (demo_key\<lparr>kp_peerId := Some '' 42:7''\<rparr>)"
    by code_simp+
  note h = this
  have "direct_peer (demo_key\<lparr>kp_peerId := Some '' 42:7''\<rparr>) Dm_per_account_channel_peer \<noteq> []" using h(7) by simp
  from dm_sessions_are_isolated [OF h(9) h(1) h(5) h(2) h(6) _ h(3) this h(4) h(8)] h(7)
  show ?thesis by simp
qed

end
