(* ===== verification/Routing.thy ===== *)
theory Routing
  imports Session_Key "HOL-Library.List_Lexorder"
begin

text \<open>
  Which agent answers a message: \<^verbatim>\<open>src/src/routing/resolve-route.ts\<close>, with
  \<open>listRouteBindings\<close> of \<^verbatim>\<open>src/src/config/bindings.ts\<close> and \<open>resolveDefaultAgentId\<close> of
  \<^verbatim>\<open>src/src/agents/agent-scope.ts\<close>.

  The caches hang off the configuration object; \<open>routing_caches\<close> is what hangs off one. The code
  compares references of the parts of the configuration to see whether they were replaced; here
  the parts themselves are compared. Ids are strings (the schema admits nothing else), and log
  output is left out, so the route cache is used exactly when there are no identity links.
\<close>

section \<open>Configuration and input\<close>

record agent_entry =
  ae_id :: "string option"
  ae_default :: bool

record binding_match =
  bm_channel :: "string option"
  bm_accountId :: "string option"
  bm_peer :: "(string option \<times> string option) option"
  bm_guildId :: "string option"
  bm_teamId :: "string option"
  bm_roles :: "string list option"

record agent_binding =
  ab_is_acp :: bool
  ab_agentId :: string
  ab_match :: "binding_match option"

record route_config =
  cf_agents :: "agent_entry list"
  cf_bindings :: "agent_binding list"
  cf_dmScope :: "dm_scope option"
  cf_identityLinks :: "identity_links option"

type_synonym route_peer = "chat_type \<times> string"

record route_input =
  ri_channel :: "string option"
  ri_accountId :: "string option"
  ri_peer :: "route_peer option"
  ri_parentPeer :: "route_peer option"
  ri_guildId :: "string option"
  ri_teamId :: "string option"
  ri_memberRoleIds :: "string list option"

datatype matched_by = By_peer | By_peer_parent | By_peer_wildcard | By_guild_roles | By_guild | By_team
  | By_account | By_channel | By_default

datatype last_route_policy = Policy_main | Policy_session

record resolved_route =
  rr_agentId :: string
  rr_channel :: string
  rr_accountId :: string
  rr_sessionKey :: string
  rr_mainSessionKey :: string
  rr_lastRoutePolicy :: last_route_policy
  rr_matchedBy :: matched_by

definition listRouteBindings :: "route_config \<Rightarrow> agent_binding list" where
  "listRouteBindings cfg = filter (\<lambda>b. \<not> ab_is_acp b) (cf_bindings cfg)"

definition resolveDefaultAgentId :: "agent_entry list \<Rightarrow> string" where
  "resolveDefaultAgentId agents =
     (case agents of
        [] \<Rightarrow> DEFAULT_AGENT_ID
      | a # _ \<Rightarrow>
          (let chosen = (case filter ae_default agents of d # _ \<Rightarrow> d | [] \<Rightarrow> a);
               chosenId = js_trim (js_nullish (ae_id chosen) []) in
           normalizeAgentId (Some (js_or chosenId DEFAULT_AGENT_ID))))"

definition deriveLastRoutePolicy :: "string \<Rightarrow> string \<Rightarrow> last_route_policy" where
  "deriveLastRoutePolicy sessionKey mainSessionKey =
     (if sessionKey = mainSessionKey then Policy_main else Policy_session)"

definition resolveInboundLastRouteSessionKey :: "resolved_route \<Rightarrow> string \<Rightarrow> string" where
  "resolveInboundLastRouteSessionKey route sessionKey =
     (if rr_lastRoutePolicy route = Policy_main then rr_mainSessionKey route else sessionKey)"

definition normalizeId :: "string option \<Rightarrow> string" where
  "normalizeId value = (case value of Some v \<Rightarrow> js_trim v | None \<Rightarrow> [])"

definition buildAgentSessionKey ::
  "string \<Rightarrow> string \<Rightarrow> string option \<Rightarrow> route_peer option \<Rightarrow> dm_scope option \<Rightarrow> identity_links option \<Rightarrow> string" where
  "buildAgentSessionKey agentId channelRaw accountId peer dmScope identityLinks =
     buildAgentPeerSessionKey
       \<lparr>kp_agentId = agentId, kp_mainKey = Some DEFAULT_MAIN_KEY,
        kp_channel = Some (js_or (normalizeToken (Some channelRaw)) ''unknown''), kp_accountId = accountId,
        kp_peerKind = Some (case peer of None \<Rightarrow> Direct | Some (k, _) \<Rightarrow> k),
        kp_peerId = map_option (\<lambda>(_, i). js_or (normalizeId (Some i)) ''unknown'') peer,
        kp_identityLinks = identityLinks, kp_dmScope = dmScope\<rparr>"

section \<open>Which agents exist\<close>

record agent_lookup =
  al_byNormalizedId :: "(string, string) js_map"
  al_fallbackDefaultAgentId :: string

fun index_agents :: "agent_entry list \<Rightarrow> (string, string) js_map \<Rightarrow> (string, string) js_map" where
  "index_agents [] m = m"
| "index_agents (a # as) m =
     (let rawId = js_trim (js_nullish (ae_id a) []) in
      if rawId = [] then index_agents as m
      else index_agents as (map_put (normalizeAgentId (Some rawId)) (normalizeAgentId (Some rawId)) m))"

definition resolveAgentLookupCache :: "route_config \<Rightarrow> agent_lookup" where
  "resolveAgentLookupCache cfg =
     \<lparr>al_byNormalizedId = index_agents (cf_agents cfg) [],
      al_fallbackDefaultAgentId = normalizeAgentId (Some (resolveDefaultAgentId (cf_agents cfg)))\<rparr>"

definition pickFirstExistingAgentId :: "route_config \<Rightarrow> string \<Rightarrow> string" where
  "pickFirstExistingAgentId cfg agentId =
     (let lookup = resolveAgentLookupCache cfg; trimmed = js_trim agentId in
      if trimmed = [] then al_fallbackDefaultAgentId lookup
      else if al_byNormalizedId lookup = [] then normalizeAgentId (Some trimmed)
      else (case map_get (al_byNormalizedId lookup) (normalizeAgentId (Some trimmed)) of
          Some resolved \<Rightarrow> if resolved \<noteq> [] then resolved else al_fallbackDefaultAgentId lookup
        | None \<Rightarrow> al_fallbackDefaultAgentId lookup))"

section \<open>Bindings\<close>

datatype peer_constraint = Peer_none | Peer_invalid | Peer_wildcard chat_type | Peer_valid chat_type string

record normalized_match =
  nm_accountPattern :: string
  nm_peer :: peer_constraint
  nm_guildId :: "string option"
  nm_teamId :: "string option"
  nm_roles :: "string list option"

record evaluated_binding =
  eb_agentId :: string
  eb_match :: normalized_match
  eb_order :: nat

record binding_scope =
  sc_peer :: "route_peer option"
  sc_guildId :: string
  sc_teamId :: string
  sc_memberRoleIds :: "string list"

definition normalizePeerConstraint :: "(string option \<times> string option) option \<Rightarrow> peer_constraint" where
  "normalizePeerConstraint peer =
     (case peer of
        None \<Rightarrow> Peer_none
      | Some (kindRaw, idRaw) \<Rightarrow>
          (case normalizeChatType kindRaw of
             None \<Rightarrow> Peer_invalid
           | Some kind \<Rightarrow>
               (let i = normalizeId idRaw in
                if i = [] then Peer_invalid
                else if i = ''*'' then Peer_wildcard kind else Peer_valid kind i)))"

definition nonempty_id :: "string option \<Rightarrow> string option" where
  "nonempty_id value = (let i = normalizeId value in if i = [] then None else Some i)"

definition normalizeBindingMatch :: "binding_match option \<Rightarrow> normalized_match" where
  "normalizeBindingMatch m =
     \<lparr>nm_accountPattern = js_trim (js_nullish (Option.bind m bm_accountId) []),
      nm_peer = normalizePeerConstraint (Option.bind m bm_peer),
      nm_guildId = nonempty_id (Option.bind m bm_guildId),
      nm_teamId = nonempty_id (Option.bind m bm_teamId),
      nm_roles = (case Option.bind m bm_roles of Some r \<Rightarrow> if length r > 0 then Some r else None | None \<Rightarrow> None)\<rparr>"

definition resolveAccountPatternKey :: "string \<Rightarrow> string" where
  "resolveAccountPatternKey accountPattern =
     (if js_trim accountPattern = [] then DEFAULT_ACCOUNT_ID else normalizeAccountId (Some accountPattern))"

record by_channel =
  bc_byAccount :: "(string, evaluated_binding list) js_map"
  bc_byAnyAccount :: "evaluated_binding list"

definition push_to :: "'k \<Rightarrow> 'v \<Rightarrow> ('k, 'v list) js_map \<Rightarrow> ('k, 'v list) js_map" where
  "push_to key v m = map_put key (js_nullish (map_get m key) [] @ [v]) m"

fun evaluate_bindings ::
  "agent_binding list \<Rightarrow> nat \<Rightarrow> (string, by_channel) js_map \<Rightarrow> (string, by_channel) js_map" where
  "evaluate_bindings [] order byChannel = byChannel"
| "evaluate_bindings (binding # rest) order byChannel =
     (let channel = normalizeToken (Option.bind (ab_match binding) bm_channel) in
      if channel = [] then evaluate_bindings rest order byChannel
      else (let m = normalizeBindingMatch (ab_match binding);
                evaluated = \<lparr>eb_agentId = ab_agentId binding, eb_match = m, eb_order = order\<rparr>;
                bucket = js_nullish (map_get byChannel channel) \<lparr>bc_byAccount = [], bc_byAnyAccount = []\<rparr>;
                bucket' = (if nm_accountPattern m = ''*''
                   then bucket\<lparr>bc_byAnyAccount := bc_byAnyAccount bucket @ [evaluated]\<rparr>
                   else bucket\<lparr>bc_byAccount :=
                     push_to (resolveAccountPatternKey (nm_accountPattern m)) evaluated (bc_byAccount bucket)\<rparr>) in
            evaluate_bindings rest (Suc order) (map_put channel bucket' byChannel)))"

definition buildEvaluatedBindingsByChannel :: "route_config \<Rightarrow> (string, by_channel) js_map" where
  "buildEvaluatedBindingsByChannel cfg = evaluate_bindings (listRouteBindings cfg) 0 []"

fun mergeEvaluatedBindingsInSourceOrder ::
  "evaluated_binding list \<Rightarrow> evaluated_binding list \<Rightarrow> evaluated_binding list" where
  "mergeEvaluatedBindingsInSourceOrder [] anyAccount = anyAccount"
| "mergeEvaluatedBindingsInSourceOrder accountScoped [] = accountScoped"
| "mergeEvaluatedBindingsInSourceOrder (a # as) (b # bs) =
     (if eb_order a \<le> eb_order b then a # mergeEvaluatedBindingsInSourceOrder as (b # bs)
      else b # mergeEvaluatedBindingsInSourceOrder (a # as) bs)"

definition peerLookupKeys :: "chat_type \<Rightarrow> string \<Rightarrow> string list" where
  "peerLookupKeys kind i =
     (case kind of
        Group \<Rightarrow> [''group:'' @ i, ''channel:'' @ i]
      | Channel \<Rightarrow> [''channel:'' @ i, ''group:'' @ i]
      | Direct \<Rightarrow> [''direct:'' @ i])"

record bindings_index =
  bi_byPeer :: "(string, evaluated_binding list) js_map"
  bi_byPeerWildcard :: "evaluated_binding list"
  bi_byGuildWithRoles :: "(string, evaluated_binding list) js_map"
  bi_byGuild :: "(string, evaluated_binding list) js_map"
  bi_byTeam :: "(string, evaluated_binding list) js_map"
  bi_byAccount :: "evaluated_binding list"
  bi_byChannel :: "evaluated_binding list"

definition empty_index :: bindings_index where
  "empty_index = \<lparr>bi_byPeer = [], bi_byPeerWildcard = [], bi_byGuildWithRoles = [], bi_byGuild = [],
     bi_byTeam = [], bi_byAccount = [], bi_byChannel = []\<rparr>"

definition pushToIndexMap ::
  "(string, evaluated_binding list) js_map \<Rightarrow> string option \<Rightarrow> evaluated_binding \<Rightarrow> (string, evaluated_binding list) js_map" where
  "pushToIndexMap m key b = (case key of None \<Rightarrow> m | Some k \<Rightarrow> if k = [] then m else push_to k b m)"

text \<open>One turn of the loop of \<open>buildEvaluatedBindingsIndex\<close>.\<close>

definition index_binding :: "evaluated_binding \<Rightarrow> bindings_index \<Rightarrow> bindings_index" where
  "index_binding b ix =
     (let m = eb_match b in
      case nm_peer m of
        Peer_valid kind i \<Rightarrow>
          ix\<lparr>bi_byPeer := fold (\<lambda>key acc. pushToIndexMap acc (Some key) b) (peerLookupKeys kind i) (bi_byPeer ix)\<rparr>
      | Peer_wildcard kind \<Rightarrow> ix\<lparr>bi_byPeerWildcard := bi_byPeerWildcard ix @ [b]\<rparr>
      | _ \<Rightarrow>
          if nm_guildId m \<noteq> None \<and> nm_roles m \<noteq> None then
            ix\<lparr>bi_byGuildWithRoles := pushToIndexMap (bi_byGuildWithRoles ix) (nm_guildId m) b\<rparr>
          else if nm_guildId m \<noteq> None \<and> nm_roles m = None then
            ix\<lparr>bi_byGuild := pushToIndexMap (bi_byGuild ix) (nm_guildId m) b\<rparr>
          else if nm_teamId m \<noteq> None then
            ix\<lparr>bi_byTeam := pushToIndexMap (bi_byTeam ix) (nm_teamId m) b\<rparr>
          else if nm_accountPattern m \<noteq> ''*'' then ix\<lparr>bi_byAccount := bi_byAccount ix @ [b]\<rparr>
          else ix\<lparr>bi_byChannel := bi_byChannel ix @ [b]\<rparr>)"

definition buildEvaluatedBindingsIndex :: "evaluated_binding list \<Rightarrow> bindings_index" where
  "buildEvaluatedBindingsIndex bindings = fold index_binding bindings empty_index"

text \<open>The loops of \<open>collectPeerIndexedBindings\<close>, with the set of bindings seen so far.\<close>

fun collect_unseen :: "evaluated_binding list \<Rightarrow> evaluated_binding list \<Rightarrow> evaluated_binding list" where
  "collect_unseen [] out = out"
| "collect_unseen (b # bs) out = collect_unseen bs (if b \<in> set out then out else out @ [b])"

definition collectPeerIndexedBindings :: "bindings_index \<Rightarrow> route_peer option \<Rightarrow> evaluated_binding list" where
  "collectPeerIndexedBindings ix peer =
     (case peer of
        None \<Rightarrow> []
      | Some (kind, i) \<Rightarrow>
          fold (\<lambda>key out. collect_unseen (js_nullish (map_get (bi_byPeer ix) key) []) out) (peerLookupKeys kind i) [])"

definition peerKindMatches :: "chat_type \<Rightarrow> chat_type \<Rightarrow> bool" where
  "peerKindMatches bindingKind scopeKind \<longleftrightarrow>
     bindingKind = scopeKind \<or> (Group \<in> {bindingKind, scopeKind} \<and> Channel \<in> {bindingKind, scopeKind})"

definition peer_in_scope :: "peer_constraint \<Rightarrow> route_peer option \<Rightarrow> bool" where
  "peer_in_scope p scopePeer =
     (case p of
        Peer_invalid \<Rightarrow> False
      | Peer_valid kind i \<Rightarrow>
          (case scopePeer of None \<Rightarrow> False | Some (k, j) \<Rightarrow> peerKindMatches kind k \<and> j = i)
      | Peer_wildcard kind \<Rightarrow> (case scopePeer of None \<Rightarrow> False | Some (k, j) \<Rightarrow> peerKindMatches kind k)
      | Peer_none \<Rightarrow> True)"

definition matchesBindingScope :: "normalized_match \<Rightarrow> binding_scope \<Rightarrow> bool" where
  "matchesBindingScope m scope \<longleftrightarrow>
     peer_in_scope (nm_peer m) (sc_peer scope) \<and>
     (case nm_guildId m of None \<Rightarrow> True | Some g \<Rightarrow> g = sc_guildId scope) \<and>
     (case nm_teamId m of None \<Rightarrow> True | Some t \<Rightarrow> t = sc_teamId scope) \<and>
     (case nm_roles m of None \<Rightarrow> True | Some roles \<Rightarrow> list_ex (\<lambda>r. r \<in> set (sc_memberRoleIds scope)) roles)"

section \<open>Caches\<close>

record eval_cache =
  ec_bindingsRef :: "agent_binding list"
  ec_byChannel :: "(string, by_channel) js_map"
  ec_byChannelAccount :: "(string, evaluated_binding list) js_map"
  ec_byChannelAccountIndex :: "(string, bindings_index) js_map"

record route_cache =
  rc_bindingsRef :: "agent_binding list"
  rc_agentsRef :: "agent_entry list"
  rc_sessionRef :: "dm_scope option \<times> identity_links option"
  rc_byKey :: "(string, resolved_route) js_map"

record routing_caches =
  ca_eval :: "eval_cache option"
  ca_routes :: "route_cache option"

definition MAX_EVALUATED_BINDINGS_CACHE_KEYS :: nat where "MAX_EVALUATED_BINDINGS_CACHE_KEYS = 2000"
definition MAX_RESOLVED_ROUTE_CACHE_KEYS :: nat where "MAX_RESOLVED_ROUTE_CACHE_KEYS = 4000"

text \<open>What \<open>getEvaluatedBindingsForChannelAccount\<close> computes on a miss.\<close>

definition evaluated_for :: "(string, by_channel) js_map \<Rightarrow> string \<Rightarrow> string \<Rightarrow> evaluated_binding list" where
  "evaluated_for byChannel channel accountId =
     (case map_get byChannel channel of
        None \<Rightarrow> mergeEvaluatedBindingsInSourceOrder [] []
      | Some bc \<Rightarrow> mergeEvaluatedBindingsInSourceOrder
                    (js_nullish (map_get (bc_byAccount bc) accountId) []) (bc_byAnyAccount bc))"

definition current_eval_cache :: "route_config \<Rightarrow> eval_cache option \<Rightarrow> eval_cache" where
  "current_eval_cache cfg existing =
     (case existing of
        Some c \<Rightarrow> if ec_bindingsRef c = cf_bindings cfg then c
                  else \<lparr>ec_bindingsRef = cf_bindings cfg, ec_byChannel = buildEvaluatedBindingsByChannel cfg,
                        ec_byChannelAccount = [], ec_byChannelAccountIndex = []\<rparr>
      | None \<Rightarrow> \<lparr>ec_bindingsRef = cf_bindings cfg, ec_byChannel = buildEvaluatedBindingsByChannel cfg,
                 ec_byChannelAccount = [], ec_byChannelAccountIndex = []\<rparr>)"

definition account_cache_key :: "string \<Rightarrow> string \<Rightarrow> string" where
  "account_cache_key channel accountId = channel @ [CHR 0x09] @ accountId"

definition getEvaluatedBindingsForChannelAccount ::
  "route_config \<Rightarrow> string \<Rightarrow> string \<Rightarrow> eval_cache option \<Rightarrow> evaluated_binding list \<times> eval_cache" where
  "getEvaluatedBindingsForChannelAccount cfg channel accountId existing =
     (let cache = current_eval_cache cfg existing; cacheKey = account_cache_key channel accountId in
      case map_get (ec_byChannelAccount cache) cacheKey of
        Some hit \<Rightarrow> (hit, cache)
      | None \<Rightarrow>
          (let evaluated = evaluated_for (ec_byChannel cache) channel accountId;
               index = buildEvaluatedBindingsIndex evaluated;
               lists = map_put cacheKey evaluated (ec_byChannelAccount cache);
               indexes = map_put cacheKey index (ec_byChannelAccountIndex cache) in
           (evaluated,
            if length lists > MAX_EVALUATED_BINDINGS_CACHE_KEYS
            then cache\<lparr>ec_byChannelAccount := [(cacheKey, evaluated)], ec_byChannelAccountIndex := [(cacheKey, index)]\<rparr>
            else cache\<lparr>ec_byChannelAccount := lists, ec_byChannelAccountIndex := indexes\<rparr>)))"

definition getEvaluatedBindingIndexForChannelAccount ::
  "route_config \<Rightarrow> string \<Rightarrow> string \<Rightarrow> eval_cache option \<Rightarrow> bindings_index \<times> eval_cache" where
  "getEvaluatedBindingIndexForChannelAccount cfg channel accountId existing =
     (let (bindings, cache) = getEvaluatedBindingsForChannelAccount cfg channel accountId existing;
          cacheKey = account_cache_key channel accountId in
      case map_get (ec_byChannelAccountIndex cache) cacheKey of
        Some indexed \<Rightarrow> (indexed, cache)
      | None \<Rightarrow> (let built = buildEvaluatedBindingsIndex bindings in
                 (built, cache\<lparr>ec_byChannelAccountIndex := map_put cacheKey built (ec_byChannelAccountIndex cache)\<rparr>)))"

definition resolveRouteCacheForConfig :: "route_config \<Rightarrow> route_cache option \<Rightarrow> route_cache" where
  "resolveRouteCacheForConfig cfg existing =
     (let fresh = \<lparr>rc_bindingsRef = cf_bindings cfg, rc_agentsRef = cf_agents cfg,
                   rc_sessionRef = (cf_dmScope cfg, cf_identityLinks cfg), rc_byKey = []\<rparr> in
      case existing of
        None \<Rightarrow> fresh
      | Some c \<Rightarrow> if rc_bindingsRef c = cf_bindings cfg \<and> rc_agentsRef c = cf_agents cfg \<and>
                      rc_sessionRef c = (cf_dmScope cfg, cf_identityLinks cfg) then c else fresh)"

definition formatRouteCachePeer :: "route_peer option \<Rightarrow> string" where
  "formatRouteCachePeer peer =
     (case peer of None \<Rightarrow> ''-''
      | Some (kind, i) \<Rightarrow> if i = [] then ''-'' else chat_type_str kind @ '':'' @ i)"

definition formatRoleIdsCacheKey :: "string list \<Rightarrow> string" where
  "formatRoleIdsCacheKey roleIds =
     (case roleIds of
        [] \<Rightarrow> ''-''
      | [r] \<Rightarrow> r
      | [first, second] \<Rightarrow> if first \<le> second then first @ '','' @ second else second @ '','' @ first
      | _ \<Rightarrow> js_join '','' (sort roleIds))"

definition dm_scope_str :: "dm_scope \<Rightarrow> string" where
  "dm_scope_str s = (case s of Dm_main \<Rightarrow> ''main'' | Dm_per_peer \<Rightarrow> ''per-peer''
     | Dm_per_channel_peer \<Rightarrow> ''per-channel-peer'' | Dm_per_account_channel_peer \<Rightarrow> ''per-account-channel-peer'')"

text \<open>The input after normalisation.\<close>

record route_query =
  rq_channel :: string
  rq_accountId :: string
  rq_peer :: "route_peer option"
  rq_parentPeer :: "route_peer option"
  rq_guildId :: string
  rq_teamId :: string
  rq_memberRoleIds :: "string list"

definition route_query_of :: "route_input \<Rightarrow> route_query" where
  "route_query_of input =
     \<lparr>rq_channel = normalizeToken (ri_channel input), rq_accountId = normalizeAccountId (ri_accountId input),
      rq_peer = map_option (\<lambda>(k, i). (k, normalizeId (Some i))) (ri_peer input),
      rq_parentPeer = map_option (\<lambda>(k, i). (k, normalizeId (Some i))) (ri_parentPeer input),
      rq_guildId = normalizeId (ri_guildId input), rq_teamId = normalizeId (ri_teamId input),
      rq_memberRoleIds = js_nullish (ri_memberRoleIds input) []\<rparr>"

definition buildResolvedRouteCacheKey :: "route_query \<Rightarrow> dm_scope \<Rightarrow> string" where
  "buildResolvedRouteCacheKey q dmScope =
     js_join [CHR 0x09]
       [rq_channel q, rq_accountId q, formatRouteCachePeer (rq_peer q), formatRouteCachePeer (rq_parentPeer q),
        js_or (rq_guildId q) ''-'', js_or (rq_teamId q) ''-'', formatRoleIdsCacheKey (rq_memberRoleIds q),
        dm_scope_str dmScope]"

section \<open>resolveAgentRoute\<close>

record tier =
  ti_matchedBy :: matched_by
  ti_enabled :: bool
  ti_scopePeer :: "route_peer option"
  ti_candidates :: "evaluated_binding list"
  ti_predicate :: "evaluated_binding \<Rightarrow> bool"

definition peer_is_valid :: "evaluated_binding \<Rightarrow> bool" where
  "peer_is_valid b = (case nm_peer (eb_match b) of Peer_valid _ _ \<Rightarrow> True | _ \<Rightarrow> False)"

definition peer_is_wildcard :: "evaluated_binding \<Rightarrow> bool" where
  "peer_is_wildcard b = (case nm_peer (eb_match b) of Peer_wildcard _ \<Rightarrow> True | _ \<Rightarrow> False)"

definition parent_with_id :: "route_query \<Rightarrow> route_peer option" where
  "parent_with_id q = (case rq_parentPeer q of Some (k, i) \<Rightarrow> if i \<noteq> [] then Some (k, i) else None | None \<Rightarrow> None)"

definition route_tiers :: "route_query \<Rightarrow> bindings_index \<Rightarrow> tier list" where
  "route_tiers q ix =
     (let peer = rq_peer q; parentPeer = rq_parentPeer q; guildId = rq_guildId q; teamId = rq_teamId q in
      [\<lparr>ti_matchedBy = By_peer, ti_enabled = (peer \<noteq> None), ti_scopePeer = peer,
        ti_candidates = collectPeerIndexedBindings ix peer, ti_predicate = peer_is_valid\<rparr>,
       \<lparr>ti_matchedBy = By_peer_parent, ti_enabled = (parent_with_id q \<noteq> None), ti_scopePeer = parent_with_id q,
        ti_candidates = collectPeerIndexedBindings ix parentPeer, ti_predicate = peer_is_valid\<rparr>,
       \<lparr>ti_matchedBy = By_peer_wildcard, ti_enabled = (peer \<noteq> None), ti_scopePeer = peer,
        ti_candidates = bi_byPeerWildcard ix, ti_predicate = peer_is_wildcard\<rparr>,
       \<lparr>ti_matchedBy = By_guild_roles, ti_enabled = (guildId \<noteq> [] \<and> length (rq_memberRoleIds q) > 0), ti_scopePeer = peer,
        ti_candidates = (if guildId \<noteq> [] then js_nullish (map_get (bi_byGuildWithRoles ix) guildId) [] else []),
        ti_predicate = (\<lambda>c. nm_guildId (eb_match c) \<noteq> None \<and> nm_roles (eb_match c) \<noteq> None)\<rparr>,
       \<lparr>ti_matchedBy = By_guild, ti_enabled = (guildId \<noteq> []), ti_scopePeer = peer,
        ti_candidates = (if guildId \<noteq> [] then js_nullish (map_get (bi_byGuild ix) guildId) [] else []),
        ti_predicate = (\<lambda>c. nm_guildId (eb_match c) \<noteq> None \<and> nm_roles (eb_match c) = None)\<rparr>,
       \<lparr>ti_matchedBy = By_team, ti_enabled = (teamId \<noteq> []), ti_scopePeer = peer,
        ti_candidates = (if teamId \<noteq> [] then js_nullish (map_get (bi_byTeam ix) teamId) [] else []),
        ti_predicate = (\<lambda>c. nm_teamId (eb_match c) \<noteq> None)\<rparr>,
       \<lparr>ti_matchedBy = By_account, ti_enabled = True, ti_scopePeer = peer,
        ti_candidates = bi_byAccount ix, ti_predicate = (\<lambda>c. nm_accountPattern (eb_match c) \<noteq> ''*'')\<rparr>,
       \<lparr>ti_matchedBy = By_channel, ti_enabled = True, ti_scopePeer = peer,
        ti_candidates = bi_byChannel ix, ti_predicate = (\<lambda>c. nm_accountPattern (eb_match c) = ''*'')\<rparr>])"

definition scope_of :: "route_query \<Rightarrow> route_peer option \<Rightarrow> binding_scope" where
  "scope_of q peer = \<lparr>sc_peer = peer, sc_guildId = rq_guildId q, sc_teamId = rq_teamId q,
     sc_memberRoleIds = rq_memberRoleIds q\<rparr>"

fun first_tier :: "route_query \<Rightarrow> tier list \<Rightarrow> (string \<times> matched_by) option" where
  "first_tier q [] = None"
| "first_tier q (t # ts) =
     (if \<not> ti_enabled t then first_tier q ts
      else (case find (\<lambda>c. ti_predicate t c \<and> matchesBindingScope (eb_match c) (scope_of q (ti_scopePeer t)))
                  (ti_candidates t) of
          Some matched \<Rightarrow> Some (eb_agentId matched, ti_matchedBy t)
        | None \<Rightarrow> first_tier q ts))"

definition choose_route :: "route_config \<Rightarrow> route_query \<Rightarrow> string \<Rightarrow> matched_by \<Rightarrow> resolved_route" where
  "choose_route cfg q agentId matchedBy =
     (let resolvedAgentId = pickFirstExistingAgentId cfg agentId;
          dmScope = js_nullish (cf_dmScope cfg) Dm_main;
          sessionKey = js_lower (buildAgentSessionKey resolvedAgentId (rq_channel q) (Some (rq_accountId q)) (rq_peer q)
                         (Some dmScope) (cf_identityLinks cfg));
          mainSessionKey = js_lower (buildAgentMainSessionKey (Some resolvedAgentId) (Some DEFAULT_MAIN_KEY)) in
      \<lparr>rr_agentId = resolvedAgentId, rr_channel = rq_channel q, rr_accountId = rq_accountId q,
       rr_sessionKey = sessionKey, rr_mainSessionKey = mainSessionKey,
       rr_lastRoutePolicy = deriveLastRoutePolicy sessionKey mainSessionKey, rr_matchedBy = matchedBy\<rparr>)"

definition resolveAgentRoute ::
  "route_config \<Rightarrow> route_input \<Rightarrow> routing_caches \<Rightarrow> resolved_route \<times> routing_caches" where
  "resolveAgentRoute cfg input st =
     (let q = route_query_of input;
          useCache = (cf_identityLinks cfg = None);
          routeCache = resolveRouteCacheForConfig cfg (ca_routes st);
          st1 = (if useCache then st\<lparr>ca_routes := Some routeCache\<rparr> else st);
          routeCacheKey = buildResolvedRouteCacheKey q (js_nullish (cf_dmScope cfg) Dm_main) in
      case (if useCache then map_get (rc_byKey routeCache) routeCacheKey else None) of
        Some cachedRoute \<Rightarrow> (cachedRoute, st1)
      | None \<Rightarrow>
          (let (ix, cache) = getEvaluatedBindingIndexForChannelAccount cfg (rq_channel q) (rq_accountId q)
                 (Some (snd (getEvaluatedBindingsForChannelAccount cfg (rq_channel q) (rq_accountId q) (ca_eval st1))));
               st2 = st1\<lparr>ca_eval := Some cache\<rparr>;
               route = (case first_tier q (route_tiers q ix) of
                   Some (agentId, matchedBy) \<Rightarrow> choose_route cfg q agentId matchedBy
                 | None \<Rightarrow> choose_route cfg q (resolveDefaultAgentId (cf_agents cfg)) By_default);
               byKey = map_put routeCacheKey route (rc_byKey routeCache);
               byKey' = (if length byKey > MAX_RESOLVED_ROUTE_CACHE_KEYS then [(routeCacheKey, route)] else byKey) in
           (route, if useCache then st2\<lparr>ca_routes := Some (routeCache\<lparr>rc_byKey := byKey'\<rparr>)\<rparr> else st2)))"

end
