(* ===== verification/Routing_Props.thy ===== *)
theory Routing_Props
  imports Routing Session_Key_Props
begin

text \<open>
  Routing by indexes and caches is routing by scanning: the bindings of a channel and an account
  come out in source order, the index never hides the binding a scan would find, and the caches
  do not change an answer.
\<close>

section \<open>Bindings in source order\<close>

text \<open>All usable bindings with their channels, in source order, and those for a channel and account.\<close>

fun evaluated_all :: "agent_binding list \<Rightarrow> nat \<Rightarrow> (string \<times> evaluated_binding) list" where
  "evaluated_all [] order = []"
| "evaluated_all (binding # rest) order =
     (let channel = normalizeToken (Option.bind (ab_match binding) bm_channel) in
      if channel = [] then evaluated_all rest order
      else (channel, \<lparr>eb_agentId = ab_agentId binding, eb_match = normalizeBindingMatch (ab_match binding),
                      eb_order = order\<rparr>) # evaluated_all rest (Suc order))"

definition any_account :: "evaluated_binding \<Rightarrow> bool" where
  "any_account e \<longleftrightarrow> nm_accountPattern (eb_match e) = ''*''"

definition for_account :: "string \<Rightarrow> evaluated_binding \<Rightarrow> bool" where
  "for_account accountId e \<longleftrightarrow> \<not> any_account e \<and> resolveAccountPatternKey (nm_accountPattern (eb_match e)) = accountId"

definition source_bindings :: "agent_binding list \<Rightarrow> string \<Rightarrow> string \<Rightarrow> evaluated_binding list" where
  "source_bindings bindings channel accountId =
     filter (\<lambda>e. for_account accountId e \<or> any_account e)
       (map snd (filter (\<lambda>p. fst p = channel) (evaluated_all (filter (\<lambda>b. \<not> ab_is_acp b) bindings) 0)))"

lemma nullish_put: "js_nullish (map_get (map_put k v m) k') d = (if k' = k then v else js_nullish (map_get m k') d)"
  by (simp add: jm.get_put)

lemma nullish_push: "js_nullish (map_get (push_to k v m) k') [] = js_nullish (map_get m k') [] @ (if k' = k then [v] else [])"
  by (simp add: push_to_def jm.get_put)

definition bucket_of :: "(string, by_channel) js_map \<Rightarrow> string \<Rightarrow> by_channel" where
  "bucket_of m channel = js_nullish (map_get m channel) \<lparr>bc_byAccount = [], bc_byAnyAccount = []\<rparr>"

lemma bucket_put: "bucket_of (map_put c b m) c' = (if c' = c then b else bucket_of m c')"
  by (simp add: bucket_of_def nullish_put)

lemma evaluate_buckets:
  "bc_byAnyAccount (bucket_of (evaluate_bindings bs n m) channel) =
     bc_byAnyAccount (bucket_of m channel) @
       filter any_account (map snd (filter (\<lambda>p. fst p = channel) (evaluated_all bs n)))"
  "js_nullish (map_get (bc_byAccount (bucket_of (evaluate_bindings bs n m) channel)) accountId) [] =
     js_nullish (map_get (bc_byAccount (bucket_of m channel)) accountId) [] @
       filter (for_account accountId) (map snd (filter (\<lambda>p. fst p = channel) (evaluated_all bs n)))"
  by (induction bs n m rule: evaluate_bindings.induct)
    (simp_all add: Let_def bucket_put nullish_push any_account_def for_account_def flip: bucket_of_def)

lemma evaluated_orders:
  "\<forall>p\<in>set (evaluated_all bs n). n \<le> eb_order (snd p)" "sorted_wrt (\<lambda>p q. eb_order (snd p) < eb_order (snd q)) (evaluated_all bs n)"
proof -
  have "(\<forall>p\<in>set (evaluated_all bs n). n \<le> eb_order (snd p)) \<and>
      sorted_wrt (\<lambda>p q. eb_order (snd p) < eb_order (snd q)) (evaluated_all bs n)"
    by (induction bs n rule: evaluated_all.induct) (auto simp: Let_def Suc_le_eq, fastforce)
  then show "\<forall>p\<in>set (evaluated_all bs n). n \<le> eb_order (snd p)"
    "sorted_wrt (\<lambda>p q. eb_order (snd p) < eb_order (snd q)) (evaluated_all bs n)" by blast+
qed

lemma merge_Nil [simp]: "mergeEvaluatedBindingsInSourceOrder xs [] = xs"
  by (cases xs) simp_all

lemma merge_filters:
  assumes "sorted_wrt (\<lambda>a b. eb_order a < eb_order b) xs" "\<And>x. \<not> (P x \<and> Q x)"
  shows "mergeEvaluatedBindingsInSourceOrder (filter P xs) (filter Q xs) = filter (\<lambda>x. P x \<or> Q x) xs"
  using assms(1)
proof (induction xs)
  case (Cons x xs)
  then have later: "\<And>y. y \<in> set xs \<Longrightarrow> eb_order x < eb_order y" and
    IH: "mergeEvaluatedBindingsInSourceOrder (filter P xs) (filter Q xs) = filter (\<lambda>x. P x \<or> Q x) xs" by simp_all
  consider "P x" "\<not> Q x" | "Q x" "\<not> P x" | "\<not> P x" "\<not> Q x" using assms(2) by blast
  then show ?case
  proof cases
    case 1
    show ?thesis
    proof (cases "filter Q xs")
      case Nil
      then show ?thesis using 1 IH by simp
    next
      case (Cons g gs)
      then have "g \<in> set xs" using filter_is_subset by (metis list.set_intros(1) subsetD)
      with Cons 1 IH later show ?thesis by (simp add: less_imp_le)
    qed
  next
    case 2
    show ?thesis
    proof (cases "filter P xs")
      case Nil
      then show ?thesis using 2 IH by simp
    next
      case (Cons f fs)
      then have "f \<in> set xs" using filter_is_subset by (metis list.set_intros(1) subsetD)
      then have "\<not> eb_order f \<le> eb_order x" using later by (simp add: not_le)
      with Cons 2 IH show ?thesis by simp
    qed
  next
    case 3
    then show ?thesis using IH by simp
  qed
qed simp

lemma evaluated_for_source:
  assumes "byChannel = buildEvaluatedBindingsByChannel cfg"
  shows "evaluated_for byChannel channel accountId = source_bindings (cf_bindings cfg) channel accountId"
proof -
  let ?E = "map snd (filter (\<lambda>p. fst p = channel) (evaluated_all (listRouteBindings cfg) 0))"
  have "sorted_wrt (\<lambda>a b. eb_order a < eb_order b) ?E"
    using evaluated_orders(2) by (simp add: sorted_wrt_map sorted_wrt_filter)
  then have m: "mergeEvaluatedBindingsInSourceOrder (filter (for_account accountId) ?E) (filter any_account ?E) =
      filter (\<lambda>e. for_account accountId e \<or> any_account e) ?E"
    by (rule merge_filters) (simp add: for_account_def)
  have "evaluated_for byChannel channel accountId = mergeEvaluatedBindingsInSourceOrder
      (js_nullish (map_get (bc_byAccount (bucket_of byChannel channel)) accountId) [])
      (bc_byAnyAccount (bucket_of byChannel channel))"
    by (simp add: evaluated_for_def bucket_of_def split: option.split)
  also have "\<dots> = filter (\<lambda>e. for_account accountId e \<or> any_account e) ?E"
    using m by (simp add: assms buildEvaluatedBindingsByChannel_def evaluate_buckets) (simp add: bucket_of_def)
  finally show ?thesis by (simp add: source_bindings_def listRouteBindings_def)
qed

section \<open>The index loses nothing\<close>

text \<open>What normalisation guarantees of every evaluated binding.\<close>

definition normal_binding :: "evaluated_binding \<Rightarrow> bool" where
  "normal_binding b \<longleftrightarrow> nm_guildId (eb_match b) \<noteq> Some [] \<and> nm_teamId (eb_match b) \<noteq> Some []"

lemma evaluated_normal: "p \<in> set (evaluated_all bs n) \<Longrightarrow> normal_binding (snd p)"
  by (induction bs n rule: evaluated_all.induct)
    (auto simp: Let_def normal_binding_def normalizeBindingMatch_def nonempty_id_def split: if_splits)

lemma source_props:
  "b \<in> set (source_bindings bs c a) \<Longrightarrow> normal_binding b" "distinct (source_bindings bs c a)"
proof -
  show "b \<in> set (source_bindings bs c a) \<Longrightarrow> normal_binding b"
    by (auto simp: source_bindings_def dest: evaluated_normal)
  let ?L = "evaluated_all (filter (\<lambda>b. \<not> ab_is_acp b) bs) 0"
  have "sorted_wrt (\<lambda>p q. eb_order (snd p) < eb_order (snd q)) ?L" by (rule evaluated_orders)
  then have "sorted_wrt (<) (map eb_order (map snd (filter (\<lambda>p. fst p = c) ?L)))"
    by (simp add: sorted_wrt_map sorted_wrt_filter)
  then have "distinct (map eb_order (map snd (filter (\<lambda>p. fst p = c) ?L)))" by (simp only: strict_sorted_iff)
  then have "distinct (map snd (filter (\<lambda>p. fst p = c) ?L))" by (simp only: distinct_map [of eb_order])
  then show "distinct (source_bindings bs c a)" unfolding source_bindings_def by (rule distinct_filter)
qed

definition lookup :: "(string, evaluated_binding list) js_map \<Rightarrow> string \<Rightarrow> evaluated_binding list" where
  "lookup m k = js_nullish (map_get m k) []"

lemma lookup_push:
  "lookup (pushToIndexMap m (Some key) b) k = lookup m k @ (if k = key \<and> key \<noteq> [] then [b] else [])"
  by (simp add: lookup_def pushToIndexMap_def nullish_push)

lemma lookup_Nil [simp]: "lookup [] k = []"
  by (simp add: lookup_def)

definition plain :: "evaluated_binding \<Rightarrow> bool" where
  "plain b \<longleftrightarrow> \<not> peer_is_valid b \<and> \<not> peer_is_wildcard b"

definition valid_for :: "string \<Rightarrow> evaluated_binding \<Rightarrow> bool" where
  "valid_for key b = (case nm_peer (eb_match b) of Peer_valid k i \<Rightarrow> key \<in> set (peerLookupKeys k i) | _ \<Rightarrow> False)"

lemma peer_cases:
  obtains (valid) k i where "nm_peer (eb_match b) = Peer_valid k i" "peer_is_valid b" "\<not> plain b" "\<not> peer_is_wildcard b"
  | (wild) k where "nm_peer (eb_match b) = Peer_wildcard k" "\<not> peer_is_valid b" "\<not> plain b" "peer_is_wildcard b"
  | (plain) "nm_peer (eb_match b) = Peer_none \<or> nm_peer (eb_match b) = Peer_invalid"
      "\<not> peer_is_valid b" "plain b" "\<not> peer_is_wildcard b"
  by (cases "nm_peer (eb_match b)") (auto simp: plain_def peer_is_valid_def peer_is_wildcard_def)

lemma peer_keys_push:
  "lookup (fold (\<lambda>key acc. pushToIndexMap acc (Some key) b) (peerLookupKeys k i) m) key =
     lookup m key @ (if key \<in> set (peerLookupKeys k i) then [b] else [])"
  by (cases k) (auto simp: peerLookupKeys_def lookup_push)

text \<open>What the index holds of a list of bindings.\<close>

definition index_holds :: "bindings_index \<Rightarrow> evaluated_binding list \<Rightarrow> bool" where
  "index_holds ix E \<longleftrightarrow>
     (\<forall>key. lookup (bi_byPeer ix) key = filter (valid_for key) E) \<and>
     bi_byPeerWildcard ix = filter peer_is_wildcard E \<and>
     (\<forall>g. g \<noteq> [] \<longrightarrow> lookup (bi_byGuildWithRoles ix) g =
        filter (\<lambda>b. plain b \<and> nm_guildId (eb_match b) = Some g \<and> nm_roles (eb_match b) \<noteq> None) E) \<and>
     (\<forall>g. g \<noteq> [] \<longrightarrow> lookup (bi_byGuild ix) g =
        filter (\<lambda>b. plain b \<and> nm_guildId (eb_match b) = Some g \<and> nm_roles (eb_match b) = None) E) \<and>
     (\<forall>t. t \<noteq> [] \<longrightarrow> lookup (bi_byTeam ix) t =
        filter (\<lambda>b. plain b \<and> nm_guildId (eb_match b) = None \<and> nm_teamId (eb_match b) = Some t) E) \<and>
     bi_byAccount ix =
        filter (\<lambda>b. plain b \<and> nm_guildId (eb_match b) = None \<and> nm_teamId (eb_match b) = None \<and> \<not> any_account b) E \<and>
     bi_byChannel ix =
        filter (\<lambda>b. plain b \<and> nm_guildId (eb_match b) = None \<and> nm_teamId (eb_match b) = None \<and> any_account b) E"

lemma valid_for_simps:
  "nm_peer (eb_match b) = Peer_valid k i \<Longrightarrow> valid_for key b = (key \<in> set (peerLookupKeys k i))"
  "\<not> peer_is_valid b \<Longrightarrow> \<not> valid_for key b"
  by (auto simp: valid_for_def peer_is_valid_def split: peer_constraint.splits)

lemma index_step:
  assumes "normal_binding b" "index_holds ix E"
  shows "index_holds (index_binding b ix) (E @ [b])"
proof (cases b rule: peer_cases)
  case (valid k i)
  then show ?thesis using assms(2)
    by (simp add: index_holds_def index_binding_def Let_def peer_keys_push valid_for_simps)
next
  case (wild k)
  then show ?thesis using assms(2)
    by (simp add: index_holds_def index_binding_def Let_def valid_for_simps)
next
  case plain
  let ?m = "eb_match b"
  have ix: "index_binding b ix =
     (if nm_guildId ?m \<noteq> None \<and> nm_roles ?m \<noteq> None then
        ix\<lparr>bi_byGuildWithRoles := pushToIndexMap (bi_byGuildWithRoles ix) (nm_guildId ?m) b\<rparr>
      else if nm_guildId ?m \<noteq> None \<and> nm_roles ?m = None then
        ix\<lparr>bi_byGuild := pushToIndexMap (bi_byGuild ix) (nm_guildId ?m) b\<rparr>
      else if nm_teamId ?m \<noteq> None then
        ix\<lparr>bi_byTeam := pushToIndexMap (bi_byTeam ix) (nm_teamId ?m) b\<rparr>
      else if \<not> any_account b then ix\<lparr>bi_byAccount := bi_byAccount ix @ [b]\<rparr>
      else ix\<lparr>bi_byChannel := bi_byChannel ix @ [b]\<rparr>)"
    using plain(1) by (auto simp: index_binding_def Let_def any_account_def)
  consider (gr) g r where "nm_guildId ?m = Some g" "nm_roles ?m = Some r"
    | (g) g where "nm_guildId ?m = Some g" "nm_roles ?m = None"
    | (t) t where "nm_guildId ?m = None" "nm_teamId ?m = Some t"
    | (a) "nm_guildId ?m = None" "nm_teamId ?m = None" by (cases "nm_guildId ?m"; cases "nm_roles ?m"; cases "nm_teamId ?m") auto
  then show ?thesis
    by cases (use assms plain in \<open>auto simp: ix index_holds_def lookup_push valid_for_simps normal_binding_def\<close>)
qed

lemma index_all: "\<forall>b\<in>set E. normal_binding b \<Longrightarrow> index_holds (buildEvaluatedBindingsIndex E) E"
proof (induction E rule: rev_induct)
  case Nil
  then show ?case by (simp add: buildEvaluatedBindingsIndex_def empty_index_def index_holds_def)
next
  case (snoc b E)
  then show ?case by (simp add: buildEvaluatedBindingsIndex_def index_step)
qed

text \<open>The bindings collected for a peer are those a scan would consider.\<close>

definition names_peer :: "route_peer option \<Rightarrow> evaluated_binding \<Rightarrow> bool" where
  "names_peer peer b = (case nm_peer (eb_match b) of
     Peer_valid k i \<Rightarrow> (case peer of Some (kind, j) \<Rightarrow> peerKindMatches k kind \<and> i = j | None \<Rightarrow> False)
   | _ \<Rightarrow> False)"

lemma valid_for_names: "key \<in> set (peerLookupKeys kind j) \<Longrightarrow> valid_for key b = names_peer (Some (kind, j)) b"
  by (cases kind; cases "nm_peer (eb_match b)")
    (auto simp: valid_for_def names_peer_def peerLookupKeys_def peerKindMatches_def split: chat_type.splits)

lemma collect_unseen_new: "distinct (out @ bs) \<Longrightarrow> collect_unseen bs out = out @ bs"
  by (induction bs arbitrary: out) auto

lemma collect_unseen_old: "set bs \<subseteq> set out \<Longrightarrow> collect_unseen bs out = out"
  by (induction bs arbitrary: out) auto

lemma collect_names:
  assumes "index_holds ix E" "distinct E"
  shows "collectPeerIndexedBindings ix peer = filter (names_peer peer) E"
proof (cases peer)
  case None
  then show ?thesis
    by (simp add: collectPeerIndexedBindings_def names_peer_def filter_empty_conv split: peer_constraint.split)
next
  case (Some p)
  obtain kind j where p: "p = (kind, j)" by (cases p)
  have l: "js_nullish (map_get (bi_byPeer ix) key) [] = filter (names_peer peer) E" if "key \<in> set (peerLookupKeys kind j)" for key
  proof -
    have "js_nullish (map_get (bi_byPeer ix) key) [] = filter (valid_for key) E"
      using assms(1) by (simp add: index_holds_def lookup_def)
    also have "\<dots> = filter (names_peer peer) E"
      using valid_for_names [OF that] by (intro filter_cong) (simp_all add: Some p)
    finally show ?thesis .
  qed
  have one: "collect_unseen (filter (names_peer peer) E) [] = filter (names_peer peer) E"
    using assms(2) by (simp add: collect_unseen_new)
  have two: "collect_unseen (filter (names_peer peer) E) (filter (names_peer peer) E) = filter (names_peer peer) E"
    by (simp add: collect_unseen_old)
  show ?thesis
    using l one two by (cases kind) (simp_all add: Some p collectPeerIndexedBindings_def peerLookupKeys_def)
qed

section \<open>The tiers\<close>

text \<open>The reference: the same tiers, each scanning all bindings of the channel and account in order.\<close>

definition scan_tiers :: "route_query \<Rightarrow> evaluated_binding list \<Rightarrow> tier list" where
  "scan_tiers q E = map (\<lambda>t. t\<lparr>ti_candidates := E\<rparr>) (route_tiers q empty_index)"

definition in_scope :: "route_query \<Rightarrow> evaluated_binding \<Rightarrow> bool" where
  "in_scope q b \<longleftrightarrow> matchesBindingScope (eb_match b) (scope_of q (rq_peer q))"

lemma find_filter: "find P (filter Q xs) = find (\<lambda>x. Q x \<and> P x) xs"
  by (induction xs) auto

lemma find_agree: "(\<And>x. x \<in> set xs \<Longrightarrow> P x = Q x) \<Longrightarrow> find P xs = find Q xs"
  by (induction xs) auto

lemma scope_peer: "matchesBindingScope (eb_match b) (scope_of q peer) \<Longrightarrow> peer_is_valid b \<Longrightarrow> names_peer peer b"
  by (auto simp: matchesBindingScope_def peer_in_scope_def scope_of_def peer_is_valid_def names_peer_def
      split: peer_constraint.splits option.splits)

lemma scope_guild: "in_scope q b \<Longrightarrow> nm_guildId (eb_match b) = Some g \<Longrightarrow> g = rq_guildId q"
  and scope_team: "in_scope q b \<Longrightarrow> nm_teamId (eb_match b) = Some t \<Longrightarrow> t = rq_teamId q"
  and scope_roles: "in_scope q b \<Longrightarrow> nm_roles (eb_match b) = Some r \<Longrightarrow> rq_memberRoleIds q \<noteq> []"
  by (auto simp: in_scope_def matchesBindingScope_def scope_of_def list_ex_iff)

lemma scope_kind:
  "in_scope q b \<Longrightarrow> peer_is_valid b \<or> peer_is_wildcard b \<Longrightarrow> rq_peer q \<noteq> None"
  by (auto simp: in_scope_def matchesBindingScope_def scope_of_def peer_in_scope_def peer_is_valid_def
      peer_is_wildcard_def split: peer_constraint.splits option.splits)

definition tier_result :: "route_query \<Rightarrow> tier \<Rightarrow> (string \<times> matched_by) option" where
  "tier_result q t = (if ti_enabled t then
     map_option (\<lambda>m. (eb_agentId m, ti_matchedBy t))
       (find (\<lambda>c. ti_predicate t c \<and> matchesBindingScope (eb_match c) (scope_of q (ti_scopePeer t))) (ti_candidates t))
     else None)"

definition or_else :: "'a option \<Rightarrow> 'a option \<Rightarrow> 'a option" where
  "or_else a b = (case a of Some r \<Rightarrow> Some r | None \<Rightarrow> b)"

lemma first_tier_Cons:
  "first_tier q (t # ts) = or_else (tier_result q t) (first_tier q ts)"
  by (simp add: tier_result_def or_else_def split: option.split)

definition peer_tier :: "matched_by \<Rightarrow> route_peer option \<Rightarrow> evaluated_binding list \<Rightarrow> tier" where
  "peer_tier how peer cs = \<lparr>ti_matchedBy = how, ti_enabled = (peer \<noteq> None), ti_scopePeer = peer,
     ti_candidates = cs, ti_predicate = peer_is_valid\<rparr>"

definition own_tier :: "route_query \<Rightarrow> matched_by \<Rightarrow> bool \<Rightarrow> (evaluated_binding \<Rightarrow> bool) \<Rightarrow> evaluated_binding list \<Rightarrow> tier" where
  "own_tier q how enabled pred cs = \<lparr>ti_matchedBy = how, ti_enabled = enabled, ti_scopePeer = rq_peer q,
     ti_candidates = cs, ti_predicate = pred\<rparr>"

lemma peer_tier_scan:
  "tier_result q (peer_tier how peer (filter (names_peer peer) E)) = tier_result q (peer_tier how peer E)"
proof -
  have "find (\<lambda>c. names_peer peer c \<and> peer_is_valid c \<and> matchesBindingScope (eb_match c) (scope_of q peer)) E =
      find (\<lambda>c. peer_is_valid c \<and> matchesBindingScope (eb_match c) (scope_of q peer)) E"
    by (rule find_agree) (auto dest: scope_peer)
  then show ?thesis by (simp add: tier_result_def peer_tier_def find_filter)
qed

lemma own_tier_scan:
  assumes "\<And>b. enabled \<Longrightarrow> b \<in> set E \<Longrightarrow> pred b \<Longrightarrow> in_scope q b \<Longrightarrow> Q b"
  shows "tier_result q (own_tier q how enabled pred (filter Q E)) = tier_result q (own_tier q how enabled pred E)"
proof (cases enabled)
  case True
  then have "find (\<lambda>c. Q c \<and> pred c \<and> matchesBindingScope (eb_match c) (scope_of q (rq_peer q))) E =
      find (\<lambda>c. pred c \<and> matchesBindingScope (eb_match c) (scope_of q (rq_peer q))) E"
    using assms by (intro find_agree) (auto simp: in_scope_def)
  then show ?thesis by (simp add: tier_result_def own_tier_def find_filter)
qed (simp add: tier_result_def own_tier_def)

lemma own_tier_None:
  assumes "tier_result q (own_tier q how enabled pred E) = None" "b \<in> set E" "pred b" "in_scope q b"
  shows "\<not> enabled"
  using assms by (auto simp: tier_result_def own_tier_def in_scope_def find_None_iff)

lemma peer_tier_None:
  assumes "tier_result q (peer_tier how (rq_peer q) E) = None" "b \<in> set E" "in_scope q b"
  shows "\<not> peer_is_valid b"
  using assms scope_kind [OF assms(3)] by (auto simp: tier_result_def peer_tier_def in_scope_def find_None_iff)

lemma first_found_chain:
  assumes "a1 = None \<Longrightarrow> a3 = None \<Longrightarrow> i4 = a4 \<and> (a4 = None \<longrightarrow> i5 = a5 \<and> (a5 = None \<longrightarrow> i6 = a6 \<and>
     (a6 = None \<longrightarrow> i7 = a7 \<and> i8 = a8)))"
  shows "or_else a1 (or_else a2 (or_else a3 (or_else i4 (or_else i5 (or_else i6 (or_else i7 (or_else i8 z))))))) =
    or_else a1 (or_else a2 (or_else a3 (or_else a4 (or_else a5 (or_else a6 (or_else a7 (or_else a8 z)))))))"
  using assms by (cases a1; cases a3; cases a4; cases a5; cases a6) (simp_all add: or_else_def)

text \<open>The indexes of the plain tiers give the answers of a scan once the earlier tiers have found nothing.\<close>

lemma tiers_agree:
  assumes "index_holds ix E" "\<forall>b\<in>set E. normal_binding b" "distinct E"
  shows "first_tier q (route_tiers q ix) = first_tier q (scan_tiers q E)"
proof -
  let ?g = "rq_guildId q" and ?t = "rq_teamId q"
  let ?P4 = "\<lambda>c. nm_guildId (eb_match c) \<noteq> None \<and> nm_roles (eb_match c) \<noteq> None"
  let ?P5 = "\<lambda>c. nm_guildId (eb_match c) \<noteq> None \<and> nm_roles (eb_match c) = None"
  let ?P6 = "\<lambda>c. nm_teamId (eb_match c) \<noteq> None"
  let ?P7 = "\<lambda>c. nm_accountPattern (eb_match c) \<noteq> ''*''" and ?P8 = "\<lambda>c. nm_accountPattern (eb_match c) = ''*''"
  let ?e4 = "?g \<noteq> [] \<and> length (rq_memberRoleIds q) > 0"
  let ?T1 = "peer_tier By_peer (rq_peer q)" and ?T2 = "peer_tier By_peer_parent (parent_with_id q)"
  let ?T3 = "own_tier q By_peer_wildcard (rq_peer q \<noteq> None) peer_is_wildcard"
  let ?T4 = "own_tier q By_guild_roles ?e4 ?P4" and ?T5 = "own_tier q By_guild (?g \<noteq> []) ?P5"
  let ?T6 = "own_tier q By_team (?t \<noteq> []) ?P6"
  let ?T7 = "own_tier q By_account True ?P7" and ?T8 = "own_tier q By_channel True ?P8"
  let ?c4 = "if ?g \<noteq> [] then js_nullish (map_get (bi_byGuildWithRoles ix) ?g) [] else []"
  let ?c5 = "if ?g \<noteq> [] then js_nullish (map_get (bi_byGuild ix) ?g) [] else []"
  let ?c6 = "if ?t \<noteq> [] then js_nullish (map_get (bi_byTeam ix) ?t) [] else []"
  let ?c2 = "collectPeerIndexedBindings ix (rq_parentPeer q)"
  have I: "route_tiers q ix = [?T1 (collectPeerIndexedBindings ix (rq_peer q)), ?T2 ?c2, ?T3 (bi_byPeerWildcard ix),
      ?T4 ?c4, ?T5 ?c5, ?T6 ?c6, ?T7 (bi_byAccount ix), ?T8 (bi_byChannel ix)]"
    by (simp add: route_tiers_def peer_tier_def own_tier_def Let_def)
  have S: "scan_tiers q E = [?T1 E, ?T2 E, ?T3 E, ?T4 E, ?T5 E, ?T6 E, ?T7 E, ?T8 E]"
    by (simp add: scan_tiers_def route_tiers_def peer_tier_def own_tier_def Let_def)
  note ix = assms(1) [unfolded index_holds_def]
  have normal: "nm_guildId (eb_match b) \<noteq> Some [] \<and> nm_teamId (eb_match b) \<noteq> Some []" if "b \<in> set E" for b
    using assms(2) that by (simp add: normal_binding_def)
  have r1: "tier_result q (?T1 (collectPeerIndexedBindings ix (rq_peer q))) = tier_result q (?T1 E)"
    by (simp add: collect_names [OF assms(1,3)] peer_tier_scan)
  have r2: "tier_result q (?T2 ?c2) = tier_result q (?T2 E)"
  proof (cases "parent_with_id q")
    case None
    then show ?thesis by (simp add: tier_result_def peer_tier_def)
  next
    case (Some p)
    then have "rq_parentPeer q = parent_with_id q" by (auto simp: parent_with_id_def split: option.splits if_splits)
    then show ?thesis by (simp add: collect_names [OF assms(1,3)] peer_tier_scan)
  qed
  have r3: "tier_result q (?T3 (bi_byPeerWildcard ix)) = tier_result q (?T3 E)"
    using ix by (simp add: own_tier_scan)
  have r: "tier_result q (?T4 ?c4) = tier_result q (?T4 E) \<and>
      (tier_result q (?T4 E) = None \<longrightarrow> tier_result q (?T5 ?c5) = tier_result q (?T5 E) \<and>
      (tier_result q (?T5 E) = None \<longrightarrow> tier_result q (?T6 ?c6) = tier_result q (?T6 E) \<and>
      (tier_result q (?T6 E) = None \<longrightarrow> tier_result q (?T7 (bi_byAccount ix)) = tier_result q (?T7 E) \<and>
         tier_result q (?T8 (bi_byChannel ix)) = tier_result q (?T8 E))))"
    if n1: "tier_result q (?T1 E) = None" and n3: "tier_result q (?T3 E) = None"
  proof (intro conjI impI)
    have plain: "plain b" if "b \<in> set E" "in_scope q b" for b
      using peer_tier_None [OF n1 that] own_tier_None [OF n3 that(1) _ that(2)] scope_kind [OF that(2)]
      by (auto simp: plain_def)
    have guild: "nm_guildId (eb_match b) = Some ?g \<and> ?g \<noteq> []"
      if "b \<in> set E" "in_scope q b" "nm_guildId (eb_match b) \<noteq> None" for b
      using that scope_guild [OF that(2)] normal [OF that(1)] by auto
    show "tier_result q (?T4 ?c4) = tier_result q (?T4 E)"
    proof (cases "?g = []")
      case True
      then show ?thesis by (simp add: tier_result_def own_tier_def)
    next
      case False
      then have "?c4 = filter (\<lambda>b. plain b \<and> nm_guildId (eb_match b) = Some ?g \<and> nm_roles (eb_match b) \<noteq> None) E"
        using ix by (simp add: lookup_def)
      then show ?thesis using plain guild by (simp only:) (rule own_tier_scan, blast)
    qed
    assume n4: "tier_result q (?T4 E) = None"
    have no4: "nm_roles (eb_match b) = None" if "b \<in> set E" "in_scope q b" "nm_guildId (eb_match b) \<noteq> None" for b
      using own_tier_None [OF n4 that(1) _ that(2)] guild [OF that] that(3) scope_roles [OF that(2)] by fastforce
    show "tier_result q (?T5 ?c5) = tier_result q (?T5 E)"
    proof (cases "?g = []")
      case True
      then show ?thesis by (simp add: tier_result_def own_tier_def)
    next
      case False
      then have "?c5 = filter (\<lambda>b. plain b \<and> nm_guildId (eb_match b) = Some ?g \<and> nm_roles (eb_match b) = None) E"
        using ix by (simp add: lookup_def)
      then show ?thesis using plain guild by (simp only:) (rule own_tier_scan, blast)
    qed
    assume n5: "tier_result q (?T5 E) = None"
    have no5: "nm_guildId (eb_match b) = None" if "b \<in> set E" "in_scope q b" for b
      using own_tier_None [OF n5 that(1) _ that(2)] guild [OF that] no4 [OF that] by blast
    show "tier_result q (?T6 ?c6) = tier_result q (?T6 E)"
    proof (cases "?t = []")
      case True
      then show ?thesis by (simp add: tier_result_def own_tier_def)
    next
      case False
      then have "?c6 = filter (\<lambda>b. plain b \<and> nm_guildId (eb_match b) = None \<and> nm_teamId (eb_match b) = Some ?t) E"
        using ix by (simp add: lookup_def)
      then show ?thesis using plain no5 scope_team by (simp only:) (rule own_tier_scan, blast)
    qed
    assume n6: "tier_result q (?T6 E) = None"
    have no6: "nm_teamId (eb_match b) = None" if "b \<in> set E" "in_scope q b" for b
      using own_tier_None [OF n6 that(1) _ that(2)] scope_team [OF that(2)] normal [OF that(1)]
      by (cases "nm_teamId (eb_match b)") auto
    show "tier_result q (?T7 (bi_byAccount ix)) = tier_result q (?T7 E)"
      using ix plain no5 no6 by (simp add: own_tier_scan any_account_def)
    show "tier_result q (?T8 (bi_byChannel ix)) = tier_result q (?T8 E)"
      using ix plain no5 no6 by (simp add: own_tier_scan any_account_def)
  qed
  show ?thesis
    unfolding I S first_tier_Cons r1 r2 r3 using r by (rule first_found_chain)
qed

section \<open>The caches\<close>

text \<open>The reference: no index, no cache.\<close>

definition route_spec :: "route_config \<Rightarrow> route_query \<Rightarrow> resolved_route" where
  "route_spec cfg q =
     (case first_tier q (scan_tiers q (source_bindings (cf_bindings cfg) (rq_channel q) (rq_accountId q))) of
        Some (agentId, matchedBy) \<Rightarrow> choose_route cfg q agentId matchedBy
      | None \<Rightarrow> choose_route cfg q (resolveDefaultAgentId (cf_agents cfg)) By_default)"

definition tab_free :: "string \<Rightarrow> bool" where
  "tab_free s \<longleftrightarrow> CHR 0x09 \<notin> set s"

lemma tab_id [simp]: "safe_id s \<Longrightarrow> tab_free s"
  using id_char_props(2) [of "CHR 0x09"]
  by (auto simp: safe_id_def list_all_iff tab_free_def js_space_def)

lemma account_key_inject:
  assumes "account_cache_key c a = account_cache_key c' a'" "tab_free a" "tab_free a'"
  shows "c = c' \<and> a = a'"
proof -
  have "rev a @ CHR 0x09 # rev c = rev a' @ CHR 0x09 # rev c'"
    using assms(1) by (metis account_cache_key_def append.assoc append_Cons append_Nil rev.simps(2) rev_append rev_rev_ident)
  then have "rev a = rev a' \<and> rev c = rev c'"
    using assms(2,3) by (intro field_unique [of "CHR 0x09"]) (simp_all add: tab_free_def)
  then show ?thesis by simp
qed

definition eval_ok :: "eval_cache \<Rightarrow> bool" where
  "eval_ok c \<longleftrightarrow>
     ec_byChannel c = evaluate_bindings (filter (\<lambda>b. \<not> ab_is_acp b) (ec_bindingsRef c)) 0 [] \<and>
     (\<forall>ch a l. tab_free a \<longrightarrow> map_get (ec_byChannelAccount c) (account_cache_key ch a) = Some l \<longrightarrow>
        l = source_bindings (ec_bindingsRef c) ch a) \<and>
     (\<forall>ch a i. tab_free a \<longrightarrow> map_get (ec_byChannelAccountIndex c) (account_cache_key ch a) = Some i \<longrightarrow>
        i = buildEvaluatedBindingsIndex (source_bindings (ec_bindingsRef c) ch a))"

lemma current_eval_ok:
  "case c of None \<Rightarrow> True | Some e \<Rightarrow> eval_ok e \<Longrightarrow>
     eval_ok (current_eval_cache cfg c) \<and> ec_bindingsRef (current_eval_cache cfg c) = cf_bindings cfg"
  by (auto simp: current_eval_cache_def eval_ok_def buildEvaluatedBindingsByChannel_def listRouteBindings_def
      split: option.splits)

lemma eval_bindings_ok:
  assumes "case c of None \<Rightarrow> True | Some e \<Rightarrow> eval_ok e" "tab_free a"
    and "getEvaluatedBindingsForChannelAccount cfg ch a c = (l, e)"
  shows "l = source_bindings (cf_bindings cfg) ch a \<and> eval_ok e \<and> ec_bindingsRef e = cf_bindings cfg"
proof -
  let ?e = "current_eval_cache cfg c" and ?k = "account_cache_key ch a"
  have ok: "eval_ok ?e" "ec_bindingsRef ?e = cf_bindings cfg" using current_eval_ok [OF assms(1), of cfg] by simp_all
  show ?thesis
  proof (cases "map_get (ec_byChannelAccount ?e) ?k")
    case (Some hit)
    then have "l = hit" "e = ?e" using assms(3) by (simp_all add: getEvaluatedBindingsForChannelAccount_def Let_def)
    then show ?thesis using ok Some assms(2) by (auto simp: eval_ok_def)
  next
    case None
    let ?l = "source_bindings (cf_bindings cfg) ch a"
    have "ec_byChannel ?e = buildEvaluatedBindingsByChannel cfg"
      using ok by (simp add: eval_ok_def buildEvaluatedBindingsByChannel_def listRouteBindings_def)
    then have l: "evaluated_for (ec_byChannel ?e) ch a = ?l" by (rule evaluated_for_source)
    have k: "account_cache_key ch' a' = ?k \<longleftrightarrow> ch' = ch \<and> a' = a" if "tab_free a'" for ch' a'
      using account_key_inject [of ch' a' ch a] that assms(2) by blast
    let ?small = "?e\<lparr>ec_byChannelAccount := [(?k, ?l)], ec_byChannelAccountIndex := [(?k, buildEvaluatedBindingsIndex ?l)]\<rparr>"
    let ?large = "?e\<lparr>ec_byChannelAccount := map_put ?k ?l (ec_byChannelAccount ?e),
          ec_byChannelAccountIndex := map_put ?k (buildEvaluatedBindingsIndex ?l) (ec_byChannelAccountIndex ?e)\<rparr>"
    have "getEvaluatedBindingsForChannelAccount cfg ch a c =
        (?l, if length (map_put ?k ?l (ec_byChannelAccount ?e)) > MAX_EVALUATED_BINDINGS_CACHE_KEYS then ?small else ?large)"
      using None by (simp add: getEvaluatedBindingsForChannelAccount_def Let_def l)
    then have e: "l = ?l" "e = ?small \<or> e = ?large" using assms(3) by (simp_all split: if_splits)
    have "eval_ok ?small" "eval_ok ?large"
      using ok k by (auto simp: eval_ok_def jm.get_put split: if_splits)
    then show ?thesis using e ok by auto
  qed
qed

lemma eval_index_ok:
  assumes "case c of None \<Rightarrow> True | Some e \<Rightarrow> eval_ok e" "tab_free a"
    and "getEvaluatedBindingIndexForChannelAccount cfg ch a c = (i, e)"
  shows "i = buildEvaluatedBindingsIndex (source_bindings (cf_bindings cfg) ch a) \<and> eval_ok e"
proof -
  obtain l e0 where g: "getEvaluatedBindingsForChannelAccount cfg ch a c = (l, e0)" by fastforce
  have ok: "l = source_bindings (cf_bindings cfg) ch a" "eval_ok e0" "ec_bindingsRef e0 = cf_bindings cfg"
    using eval_bindings_ok [OF assms(1,2) g] by simp_all
  have k: "account_cache_key ch' a' = account_cache_key ch a \<longleftrightarrow> ch' = ch \<and> a' = a" if "tab_free a'" for ch' a'
    using account_key_inject [of ch' a' ch a] that assms(2) by blast
  show ?thesis
  proof (cases "map_get (ec_byChannelAccountIndex e0) (account_cache_key ch a)")
    case (Some x)
    then have "i = x" "e = e0" using assms(3) g by (simp_all add: getEvaluatedBindingIndexForChannelAccount_def)
    then show ?thesis using ok Some assms(2) by (auto simp: eval_ok_def)
  next
    case None
    then have "getEvaluatedBindingIndexForChannelAccount cfg ch a c = (buildEvaluatedBindingsIndex l,
      e0\<lparr>ec_byChannelAccountIndex := map_put (account_cache_key ch a) (buildEvaluatedBindingsIndex l) (ec_byChannelAccountIndex e0)\<rparr>)"
      using g by (simp add: getEvaluatedBindingIndexForChannelAccount_def Let_def)
    then have "i = buildEvaluatedBindingsIndex l"
      "e = e0\<lparr>ec_byChannelAccountIndex := map_put (account_cache_key ch a) (buildEvaluatedBindingsIndex l) (ec_byChannelAccountIndex e0)\<rparr>"
      using assms(3) by simp_all
    then show ?thesis using ok k by (auto simp: eval_ok_def jm.get_put split: if_splits)
  qed
qed

lemma uncached_route:
  assumes "tab_free (rq_accountId q)"
  shows "(case first_tier q (route_tiers q (buildEvaluatedBindingsIndex (source_bindings (cf_bindings cfg) (rq_channel q) (rq_accountId q)))) of
      Some (agentId, matchedBy) \<Rightarrow> choose_route cfg q agentId matchedBy
    | None \<Rightarrow> choose_route cfg q (resolveDefaultAgentId (cf_agents cfg)) By_default) = route_spec cfg q"
  using tiers_agree [OF index_all, of "source_bindings (cf_bindings cfg) (rq_channel q) (rq_accountId q)" q] source_props
  by (simp add: route_spec_def)

text \<open>Queries whose cache keys determine them.\<close>

definition plain_field :: "string \<Rightarrow> bool" where
  "plain_field s \<longleftrightarrow> tab_free s \<and> s \<noteq> ''-''"

definition plain_peer :: "route_peer option \<Rightarrow> bool" where
  "plain_peer p = (case p of None \<Rightarrow> True | Some (k, i) \<Rightarrow> i \<noteq> [] \<and> tab_free i)"

definition plain_query :: "route_query \<Rightarrow> bool" where
  "plain_query q \<longleftrightarrow> tab_free (rq_channel q) \<and> tab_free (rq_accountId q) \<and> plain_peer (rq_peer q) \<and>
     plain_peer (rq_parentPeer q) \<and> plain_field (rq_guildId q) \<and> plain_field (rq_teamId q) \<and>
     (\<forall>r\<in>set (rq_memberRoleIds q). plain_field r \<and> CHR '','' \<notin> set r)"

lemma format_roles: "formatRoleIdsCacheKey rs = (if rs = [] then ''-'' else js_join '','' (sort rs))"
  by (auto simp: formatRoleIdsCacheKey_def split: list.split)

lemma sort_Nil: "sort (xs :: string list) = [] \<longleftrightarrow> xs = []"
  by (metis set_empty set_sort)

lemma format_roles_inject:
  assumes "formatRoleIdsCacheKey rs = formatRoleIdsCacheKey ts"
    and "\<forall>r\<in>set rs. plain_field r \<and> CHR '','' \<notin> set r" "\<forall>r\<in>set ts. plain_field r \<and> CHR '','' \<notin> set r"
  shows "set rs = set ts"
proof -
  have dash: False if "''-'' = js_join '','' (sort us)" "us \<noteq> []" "\<forall>r\<in>set us. plain_field r \<and> CHR '','' \<notin> set r" for us
  proof -
    have "js_join '','' [''-''] = js_join '','' (sort us)" using that(1) by simp
    then have "[''-''] = sort us" by (rule js_join_inject) (use that(2,3) sort_Nil [of us] in \<open>auto simp: plain_field_def\<close>)
    then have "''-'' \<in> set us" by (metis list.set_intros(1) set_sort)
    then show False using that(3) by (auto simp: plain_field_def)
  qed
  have "sort rs = sort ts" if "rs \<noteq> []" "ts \<noteq> []"
    by (rule js_join_inject [of "CHR '',''"]) (use assms that sort_Nil in \<open>auto simp: format_roles\<close>)
  then show ?thesis using assms dash [of ts] dash [of rs]
    by (cases "rs = []"; cases "ts = []") (auto simp: format_roles, (metis set_sort)+)
qed

lemma format_peer_inject:
  "formatRouteCachePeer p = formatRouteCachePeer p' \<Longrightarrow> plain_peer p \<Longrightarrow> plain_peer p' \<Longrightarrow> p = p'"
  by (auto simp: formatRouteCachePeer_def plain_peer_def chat_type_str_def split: option.splits chat_type.splits prod.splits)

lemma format_peer_tab: "plain_peer p \<Longrightarrow> tab_free (formatRouteCachePeer p)"
  by (auto simp: formatRouteCachePeer_def plain_peer_def chat_type_str_def tab_free_def split: option.splits chat_type.splits)

lemma format_roles_tab: "\<forall>r\<in>set rs. plain_field r \<and> CHR '','' \<notin> set r \<Longrightarrow> tab_free (formatRoleIdsCacheKey rs)"
  using set_js_join [of "'',''" "sort rs"] by (fastforce simp: format_roles tab_free_def plain_field_def)

lemma route_key_inject:
  assumes "buildResolvedRouteCacheKey q d = buildResolvedRouteCacheKey q' d" "plain_query q" "plain_query q'"
  shows "q' = q\<lparr>rq_memberRoleIds := rq_memberRoleIds q'\<rparr> \<and> set (rq_memberRoleIds q) = set (rq_memberRoleIds q')"
proof -
  let ?f = "\<lambda>q. [rq_channel q, rq_accountId q, formatRouteCachePeer (rq_peer q), formatRouteCachePeer (rq_parentPeer q),
        js_or (rq_guildId q) ''-'', js_or (rq_teamId q) ''-'', formatRoleIdsCacheKey (rq_memberRoleIds q), dm_scope_str d]"
  have tab: "\<forall>w\<in>set (?f q). CHR 0x09 \<notin> set w" if "plain_query q" for q
    using that format_peer_tab format_roles_tab
    by (auto simp: plain_query_def plain_field_def tab_free_def js_or_def dm_scope_str_def split: dm_scope.splits)
  have "?f q = ?f q'"
    by (rule js_join_inject [of "CHR 0x09"]) (use assms tab in \<open>simp_all add: buildResolvedRouteCacheKey_def\<close>)
  then have eq: "rq_channel q = rq_channel q'" "rq_accountId q = rq_accountId q'"
    "formatRouteCachePeer (rq_peer q) = formatRouteCachePeer (rq_peer q')"
    "formatRouteCachePeer (rq_parentPeer q) = formatRouteCachePeer (rq_parentPeer q')"
    "js_or (rq_guildId q) ''-'' = js_or (rq_guildId q') ''-''" "js_or (rq_teamId q) ''-'' = js_or (rq_teamId q') ''-''"
    "formatRoleIdsCacheKey (rq_memberRoleIds q) = formatRoleIdsCacheKey (rq_memberRoleIds q')" by simp_all
  have or: "a = b" if "js_or a ''-'' = js_or b ''-''" "plain_field a" "plain_field b" for a b
    using that by (auto simp: js_or_def plain_field_def split: if_splits)
  have "rq_peer q = rq_peer q'" "rq_parentPeer q = rq_parentPeer q'" "rq_guildId q = rq_guildId q'" "rq_teamId q = rq_teamId q'"
    using eq assms(2,3) by (auto simp: plain_query_def intro: format_peer_inject or)
  moreover have "set (rq_memberRoleIds q) = set (rq_memberRoleIds q')"
    using format_roles_inject [OF eq(7)] assms(2,3) by (simp add: plain_query_def)
  ultimately show ?thesis using eq(1,2) by (cases q; cases q') simp
qed

lemma scope_of_roles:
  assumes "set rs = set (rq_memberRoleIds q)"
  shows "matchesBindingScope m (scope_of (q\<lparr>rq_memberRoleIds := rs\<rparr>) p) = matchesBindingScope m (scope_of q p)"
proof -
  have "scope_of (q\<lparr>rq_memberRoleIds := rs\<rparr>) p = (scope_of q p)\<lparr>sc_memberRoleIds := rs\<rparr>"
    by (simp add: scope_of_def)
  moreover have "set rs = set (sc_memberRoleIds (scope_of q p))" by (simp add: scope_of_def assms)
  ultimately show ?thesis by (simp add: matchesBindingScope_def split: option.split)
qed

lemma tier_result_roles:
  assumes "set rs = set (rq_memberRoleIds q)"
  shows "tier_result (q\<lparr>rq_memberRoleIds := rs\<rparr>) t = tier_result q t"
  by (simp add: tier_result_def scope_of_roles [OF assms])

lemma first_tier_roles:
  assumes "set rs = set (rq_memberRoleIds q)"
  shows "first_tier (q\<lparr>rq_memberRoleIds := rs\<rparr>) ts = first_tier q ts"
  by (induction ts) (simp_all add: first_tier_Cons tier_result_roles [OF assms] del: first_tier.simps(2))

lemma route_spec_roles:
  assumes "q' = q\<lparr>rq_memberRoleIds := rq_memberRoleIds q'\<rparr>" "set (rq_memberRoleIds q) = set (rq_memberRoleIds q')"
  shows "route_spec cfg q' = route_spec cfg q"
proof -
  let ?rs = "rq_memberRoleIds q'"
  have rs: "set ?rs = set (rq_memberRoleIds q)" using assms(2) by simp
  then have "(?rs = []) = (rq_memberRoleIds q = [])" by (metis set_empty)
  then have "scan_tiers (q\<lparr>rq_memberRoleIds := ?rs\<rparr>) E = scan_tiers q E" for E
    by (simp add: scan_tiers_def route_tiers_def Let_def parent_with_id_def)
  then have "route_spec cfg (q\<lparr>rq_memberRoleIds := ?rs\<rparr>) = route_spec cfg q"
    by (simp add: route_spec_def first_tier_roles [OF rs] choose_route_def split: option.split)
  with assms(1) show ?thesis by simp
qed

definition config_of :: "route_cache \<Rightarrow> route_config" where
  "config_of c = \<lparr>cf_agents = rc_agentsRef c, cf_bindings = rc_bindingsRef c, cf_dmScope = fst (rc_sessionRef c),
     cf_identityLinks = snd (rc_sessionRef c)\<rparr>"

definition routes_ok :: "route_cache \<Rightarrow> bool" where
  "routes_ok c \<longleftrightarrow> (\<forall>k r. map_get (rc_byKey c) k = Some r \<longrightarrow>
     (\<exists>q. plain_query q \<and> buildResolvedRouteCacheKey q (js_nullish (cf_dmScope (config_of c)) Dm_main) = k \<and>
          r = route_spec (config_of c) q))"

definition caches_ok :: "routing_caches \<Rightarrow> bool" where
  "caches_ok st \<longleftrightarrow> (case ca_eval st of None \<Rightarrow> True | Some e \<Rightarrow> eval_ok e) \<and>
     (case ca_routes st of None \<Rightarrow> True | Some c \<Rightarrow> routes_ok c)"

lemma current_routes_ok:
  assumes "case c of None \<Rightarrow> True | Some r \<Rightarrow> routes_ok r"
  shows "routes_ok (resolveRouteCacheForConfig cfg c)" "config_of (resolveRouteCacheForConfig cfg c) = cfg"
  using assms by (auto simp: resolveRouteCacheForConfig_def Let_def routes_ok_def config_of_def split: option.splits)

lemma routes_ok_put:
  assumes "routes_ok c" "plain_query q" "config_of c = cfg"
    and "k = buildResolvedRouteCacheKey q (js_nullish (cf_dmScope cfg) Dm_main)"
  shows "routes_ok (c\<lparr>rc_byKey := map_put k (route_spec cfg q) (rc_byKey c)\<rparr>)"
    and "routes_ok (c\<lparr>rc_byKey := [(k, route_spec cfg q)]\<rparr>)"
proof -
  have c: "config_of (c\<lparr>rc_byKey := m\<rparr>) = config_of c" for m by (simp add: config_of_def)
  show "routes_ok (c\<lparr>rc_byKey := map_put k (route_spec cfg q) (rc_byKey c)\<rparr>)"
    using assms unfolding routes_ok_def c by (auto simp: jm.get_put)
  show "routes_ok (c\<lparr>rc_byKey := [(k, route_spec cfg q)]\<rparr>)"
    using assms unfolding routes_ok_def c by auto
qed

lemma resolve_step:
  assumes "caches_ok st" "plain_query (route_query_of input)" "resolveAgentRoute cfg input st = (r, st')"
  shows "r = route_spec cfg (route_query_of input) \<and> caches_ok st'"
proof -
  let ?q = "route_query_of input"
  let ?rc = "resolveRouteCacheForConfig cfg (ca_routes st)"
  let ?k = "buildResolvedRouteCacheKey ?q (js_nullish (cf_dmScope cfg) Dm_main)"
  have rc: "routes_ok ?rc" "config_of ?rc = cfg"
    using assms(1) current_routes_ok [of "ca_routes st" cfg] by (simp_all add: caches_ok_def)
  have ev: "case ca_eval st of None \<Rightarrow> True | Some e \<Rightarrow> eval_ok e" using assms(1) by (simp add: caches_ok_def)
  have tab: "tab_free (rq_accountId ?q)" using assms(2) by (simp add: plain_query_def)
  obtain l e0 where g0: "getEvaluatedBindingsForChannelAccount cfg (rq_channel ?q) (rq_accountId ?q) (ca_eval st) = (l, e0)"
    by fastforce
  obtain ix e where g: "getEvaluatedBindingIndexForChannelAccount cfg (rq_channel ?q) (rq_accountId ?q) (Some e0) = (ix, e)"
    by fastforce
  have "eval_ok e0" using eval_bindings_ok [OF ev tab g0] by simp
  then have ix: "ix = buildEvaluatedBindingsIndex (source_bindings (cf_bindings cfg) (rq_channel ?q) (rq_accountId ?q))"
    and e: "eval_ok e" using eval_index_ok [OF _ tab g] by simp_all
  note fresh = uncached_route [OF tab, of cfg, folded ix]
  have key: "k' = route_spec cfg ?q" if hit: "map_get (rc_byKey ?rc) ?k = Some k'" for k'
  proof -
    obtain q where "plain_query q" "buildResolvedRouteCacheKey q (js_nullish (cf_dmScope cfg) Dm_main) = ?k" "k' = route_spec cfg q"
      using rc hit by (auto simp: routes_ok_def)
    then show ?thesis using route_key_inject [of ?q _ q] route_spec_roles assms(2) by metis
  qed
  show ?thesis
  proof (cases "if cf_identityLinks cfg = None then map_get (rc_byKey ?rc) ?k else None")
    case (Some k')
    then have "resolveAgentRoute cfg input st = (k', st\<lparr>ca_routes := Some ?rc\<rparr>)" "r = route_spec cfg ?q"
      using assms(3) key by (auto simp: resolveAgentRoute_def Let_def split: if_splits)
    then show ?thesis using assms(1,3) rc(1) by (auto simp: caches_ok_def)
  next
    case None
    let ?put = "map_put ?k (route_spec cfg ?q) (rc_byKey ?rc)"
    let ?new = "?rc\<lparr>rc_byKey := if length ?put > MAX_RESOLVED_ROUTE_CACHE_KEYS then [(?k, route_spec cfg ?q)] else ?put\<rparr>"
    have "resolveAgentRoute cfg input st = (route_spec cfg ?q,
        if cf_identityLinks cfg = None then st\<lparr>ca_routes := Some ?new, ca_eval := Some e\<rparr> else st\<lparr>ca_eval := Some e\<rparr>)"
      using None by (simp add: resolveAgentRoute_def Let_def g0 g fresh)
    moreover have "routes_ok ?new" using routes_ok_put [OF rc(1) assms(2) rc(2) refl] by simp
    ultimately show ?thesis using assms(1,3) e by (auto simp: caches_ok_def)
  qed
qed

definition no_caches :: routing_caches where
  "no_caches = \<lparr>ca_eval = None, ca_routes = None\<rparr>"

definition route_run :: "(route_config \<times> route_input) list \<Rightarrow> routing_caches \<Rightarrow> routing_caches" where
  "route_run calls st = foldl (\<lambda>st (cfg, input). snd (resolveAgentRoute cfg input st)) st calls"

lemma route_run_ok:
  "\<forall>c\<in>set calls. plain_query (route_query_of (snd c)) \<Longrightarrow> caches_ok st \<Longrightarrow> caches_ok (route_run calls st)"
proof (induction calls arbitrary: st)
  case (Cons c calls)
  obtain cfg input where c: "c = (cfg, input)" by (cases c)
  have "caches_ok (snd (resolveAgentRoute cfg input st))"
    using resolve_step [OF Cons.prems(2), of input cfg] Cons.prems(1) c by (metis list.set_intros(1) prod.collapse snd_conv)
  then show ?case using Cons c by (simp add: route_run_def)
qed (simp add: route_run_def)

text \<open>C17: Whatever messages were routed before, also under replaced parts of the configuration, the route of a
  message is the one a scan without index and cache finds: the first tier, from the exact peer to the
  channel, in which some binding of the channel and account matches, and in it the first such binding
  in the order of the configuration (ids that the cache keys can tell apart).\<close>

theorem routing_is_a_scan:
  assumes "\<forall>c\<in>set calls. plain_query (route_query_of (snd c))" "plain_query (route_query_of input)"
  shows "fst (resolveAgentRoute cfg input (route_run calls no_caches)) = route_spec cfg (route_query_of input)"
proof -
  have "caches_ok (route_run calls no_caches)"
    using assms(1) by (rule route_run_ok) (simp add: caches_ok_def no_caches_def)
  from resolve_step [OF this assms(2)] show ?thesis by (metis prod.collapse)
qed

definition demo_binding :: "string \<Rightarrow> string option \<Rightarrow> (string option \<times> string option) option \<Rightarrow> agent_binding" where
  "demo_binding agent account peer = \<lparr>ab_is_acp = False, ab_agentId = agent, ab_match = Some
     \<lparr>bm_channel = Some ''telegram'', bm_accountId = account, bm_peer = peer, bm_guildId = None, bm_teamId = None,
      bm_roles = None\<rparr>\<rparr>"

definition demo_config :: route_config where
  "demo_config = \<lparr>cf_agents = [\<lparr>ae_id = Some ''main'', ae_default = True\<rparr>, \<lparr>ae_id = Some ''ops'', ae_default = False\<rparr>],
     cf_bindings = [demo_binding ''main'' (Some ''*'') None, demo_binding ''ops'' None (Some (Some ''dm'', Some ''*''))],
     cf_dmScope = Some Dm_per_peer, cf_identityLinks = None\<rparr>"

definition demo_input :: "route_peer option \<Rightarrow> route_input" where
  "demo_input peer = \<lparr>ri_channel = Some ''Telegram'', ri_accountId = None, ri_peer = peer, ri_parentPeer = None,
     ri_guildId = None, ri_teamId = None, ri_memberRoleIds = None\<rparr>"

theorem routing_is_a_scan_witness:
  "rr_sessionKey (fst (resolveAgentRoute demo_config (demo_input (Some (Direct, ''42'')))
     (route_run [(demo_config, demo_input None)] no_caches))) = ''agent:ops:direct:42''"
proof -
  have "plain_query (route_query_of (demo_input (Some (Direct, ''42''))))" "plain_query (route_query_of (demo_input None))"
    by code_simp+
  moreover have "rr_sessionKey (route_spec demo_config (route_query_of (demo_input (Some (Direct, ''42''))))) = ''agent:ops:direct:42''"
    by code_simp
  ultimately show ?thesis using routing_is_a_scan [of "[(demo_config, demo_input None)]"] by simp
qed

text \<open>
  The cache key of a peer with an empty id is that of no peer at all, but the two are routed
  differently: the answer for the former depends on what was routed before.
\<close>

lemma empty_peer_id_hits_wrong_entry:
  "rr_agentId (fst (resolveAgentRoute demo_config (demo_input (Some (Direct, []))) no_caches)) = ''ops''"
  "rr_agentId (fst (resolveAgentRoute demo_config (demo_input (Some (Direct, [])))
     (route_run [(demo_config, demo_input None)] no_caches))) = ''main''"
  by code_simp+

end
