(* ===== verification/Config_Values.thy ===== *)
theory Config_Values
  imports Session_Key
begin

text \<open>
  The configuration as a value: \<^verbatim>\<open>src/config/merge-patch.ts\<close> (patches sent by clients and bundles),
  \<^verbatim>\<open>src/config/config-paths.ts\<close> (dotted paths), \<^verbatim>\<open>src/config/runtime-overrides.ts\<close> (overrides that live as
  long as the process) and \<^verbatim>\<open>src/infra/plain-object.ts\<close>.

  A configuration is parsed JSON, so values are finite trees: cycles and shared mutable parts are
  outside the model, and the update in place of an object is the updated tree. An object is the list of its own
  properties in insertion order; of the properties every object inherits, the names are listed, because
  the \<open>in\<close> operator of the source sees them and reading one gives a function. Assigning to the own key
  \<open>__proto__\<close>, which the guards of the source exclude, is not modelled.
\<close>

section \<open>Values\<close>

datatype json =
    is_undef: JUndef
  | is_null: JNull
  | JBool bool
  | JNum js_number
  | JStr string
  | JArr "json list"
  | JObj "(string \<times> json) list"
  | JHost string

type_synonym plain_object = "(string, json) js_map"

text \<open>The names on \<open>Object.prototype\<close>.\<close>

definition inherited_keys :: "string list" where
  "inherited_keys = [''constructor'', ''__defineGetter__'', ''__defineSetter__'', ''hasOwnProperty'',
     ''__lookupGetter__'', ''__lookupSetter__'', ''isPrototypeOf'', ''propertyIsEnumerable'', ''toString'',
     ''valueOf'', ''__proto__'', ''toLocaleString'']"

definition isPlainObject :: "json \<Rightarrow> bool" where
  "isPlainObject v = (case v of JObj _ \<Rightarrow> True | _ \<Rightarrow> False)"

text \<open>\<open>isPlainObject(v) ? v : {}\<close>, \<open>obj[k]\<close> and \<open>k in obj\<close>.\<close>

definition obj_or_empty :: "json \<Rightarrow> plain_object" where
  "obj_or_empty v = (case v of JObj ob \<Rightarrow> ob | _ \<Rightarrow> [])"

definition obj_get :: "plain_object \<Rightarrow> string \<Rightarrow> json" where
  "obj_get ob k = (case map_get ob k of Some v \<Rightarrow> v
     | None \<Rightarrow> if k \<in> set inherited_keys then JHost k else JUndef)"

definition js_in :: "string \<Rightarrow> plain_object \<Rightarrow> bool" where
  "js_in k ob \<longleftrightarrow> map_get ob k \<noteq> None \<or> k \<in> set inherited_keys"

text \<open>Every object of the value has distinct keys, as every object of the language has.\<close>

fun distinct_keys :: "json \<Rightarrow> bool" where
  "distinct_keys (JArr vs) = list_all distinct_keys vs"
| "distinct_keys (JObj ps) = (map_ok ps \<and> list_all (\<lambda>p. distinct_keys (snd p)) ps)"
| "distinct_keys v = True"

section \<open>Merge patches\<close>

text \<open>The id of an entry that is an object with a string id that is not empty.\<close>

definition string_id :: "json \<Rightarrow> string option" where
  "string_id v = (case v of JObj ob \<Rightarrow>
       (case obj_get ob ''id'' of JStr i \<Rightarrow> if i \<noteq> [] then Some i else None | _ \<Rightarrow> None)
     | _ \<Rightarrow> None)"

definition isObjectWithStringId :: "json \<Rightarrow> bool" where
  "isObjectWithStringId v \<longleftrightarrow> string_id v \<noteq> None"

text \<open>\<open>indexById\<close> before the patch: a later entry with the same id replaces an earlier one.\<close>

definition index_by_id :: "json list \<Rightarrow> (string, nat) js_map" where
  "index_by_id base = foldl (\<lambda>ix (n, e). case string_id e of None \<Rightarrow> ix | Some i \<Rightarrow> map_put i n ix) []
     (enumerate 0 base)"

text \<open>\<open>applyMergePatch\<close>, its loop over the entries of the patch, the new value of one key, and the
  loop of \<open>mergeObjectArraysById\<close> over the entries of a patch array. The option
  \<open>mergeObjectArraysById\<close> is the first argument.\<close>

function (sequential) applyMergePatch :: "bool \<Rightarrow> json \<Rightarrow> json \<Rightarrow> json"
  and merge_entries :: "bool \<Rightarrow> plain_object \<Rightarrow> (string \<times> json) list \<Rightarrow> plain_object"
  and merge_value :: "bool \<Rightarrow> json \<Rightarrow> json \<Rightarrow> json"
  and merge_array :: "bool \<Rightarrow> json list \<Rightarrow> (string, nat) js_map \<Rightarrow> json list \<Rightarrow> json list" where
  "applyMergePatch byId base (JObj ps) = JObj (merge_entries byId (obj_or_empty base) ps)"
| "applyMergePatch byId base patch = patch"
| "merge_entries byId result [] = result"
| "merge_entries byId result ((key, v) # ps) =
     (if isBlockedObjectKey key then merge_entries byId result ps
      else if is_null v then merge_entries byId (map_del key result) ps
      else merge_entries byId (map_put key (merge_value byId (obj_get result key) v) result) ps)"
| "merge_value byId (JArr base) (JArr patch) =
     (if byId \<and> list_all isObjectWithStringId base
      then JArr (merge_array byId base (index_by_id base) patch) else JArr patch)"
| "merge_value byId old (JObj ps) = applyMergePatch byId (JObj (obj_or_empty old)) (JObj ps)"
| "merge_value byId old v = v"
| "merge_array byId merged ix [] = merged"
| "merge_array byId merged ix (p # ps) =
     (case string_id p of
        None \<Rightarrow> merge_array byId (merged @ [p]) ix ps
      | Some i \<Rightarrow>
          (case map_get ix i of
             None \<Rightarrow> merge_array byId (merged @ [p]) (map_put i (length merged) ix) ps
           | Some n \<Rightarrow> merge_array byId (merged[n := applyMergePatch byId (merged ! n) p]) ix ps))"
  by pat_completeness auto
termination
  by (relation "measure (\<lambda>x. case x of
          Inl (Inl (_, _, p)) \<Rightarrow> 2 * size p
        | Inl (Inr (_, _, ps)) \<Rightarrow> 2 * size_list (size_prod (\<lambda>_. 0) size) ps
        | Inr (Inl (_, _, v)) \<Rightarrow> 2 * size v + 1
        | Inr (Inr (_, _, _, ps)) \<Rightarrow> 2 * size_list size ps)") auto

text \<open>\<open>mergeObjectArraysById\<close> as a whole; \<open>None\<close> is its \<open>undefined\<close>.\<close>

definition mergeObjectArraysById :: "json list \<Rightarrow> json list \<Rightarrow> json list option" where
  "mergeObjectArraysById base patch =
     (if list_all isObjectWithStringId base then Some (merge_array True base (index_by_id base) patch) else None)"

section \<open>Paths\<close>

definition invalid_path :: string where
  "invalid_path = ''Invalid path. Use dot notation (e.g. foo.bar).''"

definition parseConfigPath :: "string \<Rightarrow> string + string list" where
  "parseConfigPath raw =
     (let trimmed = js_trim raw;
          parts = map js_trim (js_split CHR ''.'' trimmed)
      in if trimmed = [] then Inl invalid_path
         else if [] \<in> set parts then Inl invalid_path
         else if list_ex isBlockedObjectKey parts then Inl ''Invalid path segment.''
         else Inr parts)"

text \<open>The last key of an empty path is \<open>path[-1]\<close>, which is \<open>undefined\<close> and becomes a string.\<close>

fun setConfigValueAtPath :: "plain_object \<Rightarrow> string list \<Rightarrow> json \<Rightarrow> plain_object" where
  "setConfigValueAtPath node [] v = map_put ''undefined'' v node"
| "setConfigValueAtPath node [k] v = map_put k v node"
| "setConfigValueAtPath node (k # j # ks) v =
     map_put k (JObj (setConfigValueAtPath (obj_or_empty (obj_get node k)) (j # ks) v)) node"

text \<open>\<open>None\<close> is the result \<open>false\<close>, which leaves the object as it is. The loop that goes back up removes
  every object on the path that has become empty, from the inside out, and stops at the first that has
  not: an object that keeps its child is not empty.\<close>

fun unsetConfigValueAtPath :: "plain_object \<Rightarrow> string list \<Rightarrow> plain_object option" where
  "unsetConfigValueAtPath node [] = (if js_in ''undefined'' node then Some (map_del ''undefined'' node) else None)"
| "unsetConfigValueAtPath node [k] = (if js_in k node then Some (map_del k node) else None)"
| "unsetConfigValueAtPath node (k # j # ks) =
     (case obj_get node k of
        JObj c \<Rightarrow>
          (case unsetConfigValueAtPath c (j # ks) of
             None \<Rightarrow> None
           | Some c' \<Rightarrow> Some (if c' = [] then map_del k node else map_put k (JObj c') node))
      | _ \<Rightarrow> None)"

fun getConfigValueAtPath :: "json \<Rightarrow> string list \<Rightarrow> json" where
  "getConfigValueAtPath cursor [] = cursor"
| "getConfigValueAtPath cursor (k # ks) =
     (case cursor of JObj ob \<Rightarrow> getConfigValueAtPath (obj_get ob k) ks | _ \<Rightarrow> JUndef)"

section \<open>Runtime overrides\<close>

text \<open>The set \<open>seen\<close> of the source only matters for cyclic values.\<close>

fun sanitizeOverrideValue :: "json \<Rightarrow> json"
  and sanitize_entries :: "(string \<times> json) list \<Rightarrow> plain_object" where
  "sanitizeOverrideValue (JArr vs) = JArr (map sanitizeOverrideValue vs)"
| "sanitizeOverrideValue (JObj ps) = JObj (sanitize_entries ps)"
| "sanitizeOverrideValue v = v"
| "sanitize_entries [] = []"
| "sanitize_entries ((k, v) # ps) =
     (if is_undef v \<or> isBlockedObjectKey k then sanitize_entries ps
      else (k, sanitizeOverrideValue v) # sanitize_entries ps)"

text \<open>\<open>mergeOverrides\<close> reads the old values from \<open>base\<close> and writes to the copy \<open>next\<close>.\<close>

fun mergeOverrides :: "json \<Rightarrow> json \<Rightarrow> json"
  and override_entries :: "plain_object \<Rightarrow> plain_object \<Rightarrow> (string \<times> json) list \<Rightarrow> plain_object" where
  "mergeOverrides base (JObj ov) =
     (case base of JObj b \<Rightarrow> JObj (override_entries b b ov) | _ \<Rightarrow> JObj ov)"
| "mergeOverrides base ov = ov"
| "override_entries base next [] = next"
| "override_entries base next ((k, v) # ps) =
     (if is_undef v \<or> isBlockedObjectKey k then override_entries base next ps
      else override_entries base (map_put k (mergeOverrides (obj_get base k) v) next) ps)"

text \<open>The module's variable \<open>overrides\<close> is the state; the operations return it with their result.\<close>

definition resetConfigOverrides :: "plain_object \<Rightarrow> plain_object" where
  "resetConfigOverrides overrides = []"

definition setConfigOverride :: "string \<Rightarrow> json \<Rightarrow> plain_object \<Rightarrow> (string + unit) \<times> plain_object" where
  "setConfigOverride pathRaw v overrides =
     (case parseConfigPath pathRaw of
        Inl e \<Rightarrow> (Inl e, overrides)
      | Inr path \<Rightarrow> (Inr (), setConfigValueAtPath overrides path (sanitizeOverrideValue v)))"

definition unsetConfigOverride :: "string \<Rightarrow> plain_object \<Rightarrow> (string + bool) \<times> plain_object" where
  "unsetConfigOverride pathRaw overrides =
     (case parseConfigPath pathRaw of
        Inl e \<Rightarrow> (Inl e, overrides)
      | Inr path \<Rightarrow>
          (case unsetConfigValueAtPath overrides path of
             None \<Rightarrow> (Inr False, overrides)
           | Some ov \<Rightarrow> (Inr True, ov)))"

definition applyConfigOverrides :: "plain_object \<Rightarrow> json \<Rightarrow> json" where
  "applyConfigOverrides overrides cfg =
     (if map_keys overrides = [] then cfg else mergeOverrides cfg (JObj overrides))"

datatype override_event =
    Set_Override string json
  | Unset_Override string
  | Reset_Overrides

fun override_step :: "plain_object \<Rightarrow> override_event \<Rightarrow> plain_object" where
  "override_step s (Set_Override p v) = snd (setConfigOverride p v s)"
| "override_step s (Unset_Override p) = snd (unsetConfigOverride p s)"
| "override_step s Reset_Overrides = resetConfigOverrides s"

end
