(* ===== verification/Env_Vars.thy ===== *)
theory Env_Vars
  imports Config_Values
begin

text \<open>
  Environment variables in the configuration: \<^verbatim>\<open>src/config/env-substitution.ts\<close>, which replaces the
  references when a file is read, and \<^verbatim>\<open>src/config/env-preserve.ts\<close>, which puts them back when the file is
  written.

  The environment is a function from names to optional values. The source walks a string with an index; the
  model walks the rest of the string from that index. A substitution either throws, which is \<open>Inl\<close> of the
  error, or returns its value with the warnings it gave to \<open>onMissing\<close>; the flag \<open>lenient\<close> says that the
  caller passed that callback.
\<close>

section \<open>References\<close>

type_synonym environment = "string \<Rightarrow> string option"

record missing_env =
  varName :: string
  configPath :: string

datatype env_token = Escaped string | Substitution string

definition env_name_start :: "char \<Rightarrow> bool" where
  "env_name_start c \<longleftrightarrow> (65 \<le> (of_char c :: nat) \<and> (of_char c :: nat) \<le> 90) \<or> c = CHR ''_''"

definition env_name_char :: "char \<Rightarrow> bool" where
  "env_name_char c \<longleftrightarrow> env_name_start c \<or> js_is_digit c"

definition ENV_VAR_NAME :: "string \<Rightarrow> bool" where
  "ENV_VAR_NAME s = (case s of [] \<Rightarrow> False | c # cs \<Rightarrow> env_name_start c \<and> list_all env_name_char cs)"

text \<open>The name up to the next closing brace, and what is behind the brace.\<close>

definition env_name_at :: "string \<Rightarrow> (string \<times> string) option" where
  "env_name_at s =
     (case js_index_of CHR ''}'' s of
        None \<Rightarrow> None
      | Some e \<Rightarrow> if ENV_VAR_NAME (take e s) then Some (take e s, drop (Suc e) s) else None)"

definition parseEnvTokenAt :: "string \<Rightarrow> (env_token \<times> string) option" where
  "parseEnvTokenAt s =
     (if js_starts_with s ''$${'' then map_option (apfst Escaped) (env_name_at (drop 3 s))
      else if js_starts_with s ''${'' then map_option (apfst Substitution) (env_name_at (drop 2 s))
      else None)"

definition placeholder :: "string \<Rightarrow> string" where
  "placeholder name = ''${'' @ name @ ''}''"

text \<open>\<open>env[name]\<close>, where the empty string counts as missing.\<close>

definition env_value :: "environment \<Rightarrow> string \<Rightarrow> string option" where
  "env_value env name = (case env name of Some v \<Rightarrow> if v = [] then None else Some v | None \<Rightarrow> None)"

lemma js_index_of_Some: "js_index_of d s = Some e \<Longrightarrow> e < length s \<and> s ! e = d \<and> d \<notin> set (take e s)"
  by (induction s arbitrary: e) (auto split: if_splits)

lemma env_name_at_shorter: "env_name_at s = Some (name, t) \<Longrightarrow> length t < length s"
  by (auto simp: env_name_at_def dest: js_index_of_Some split: option.splits if_splits)

lemma parseEnvTokenAt_shorter: "parseEnvTokenAt s = Some (tok, t) \<Longrightarrow> length t < length s"
  by (auto simp: parseEnvTokenAt_def dest!: env_name_at_shorter split: if_splits)

lemma parseEnvTokenAt_Cons: "parseEnvTokenAt (c # s) = Some (tok, t) \<Longrightarrow> length t \<le> length s"
  using parseEnvTokenAt_shorter [of "c # s" tok t] by simp

section \<open>Substitution\<close>

type_synonym 'a substituted = "missing_env + ('a \<times> missing_env list)"

definition sub_map :: "('a \<Rightarrow> 'b) \<Rightarrow> 'a substituted \<Rightarrow> 'b substituted" where
  "sub_map f r = map_sum id (apfst f) r"

text \<open>One element, then the others.\<close>

definition sub_cons :: "'a substituted \<Rightarrow> 'a list substituted \<Rightarrow> 'a list substituted" where
  "sub_cons r rs =
     (case r of
        Inl e \<Rightarrow> Inl e
      | Inr (x, w) \<Rightarrow> (case rs of Inl e \<Rightarrow> Inl e | Inr (xs, ws) \<Rightarrow> Inr (x # xs, w @ ws)))"

definition sub_warn :: "missing_env \<Rightarrow> 'a substituted \<Rightarrow> 'a substituted" where
  "sub_warn w r = map_sum id (apsnd (Cons w)) r"

function substitute_loop :: "bool \<Rightarrow> environment \<Rightarrow> string \<Rightarrow> string \<Rightarrow> string substituted" where
  "substitute_loop lenient env path [] = Inr ([], [])"
| "substitute_loop lenient env path (c # s) =
     (if c \<noteq> CHR ''$'' then sub_map (Cons c) (substitute_loop lenient env path s)
      else case parseEnvTokenAt (c # s) of
        None \<Rightarrow> sub_map (Cons c) (substitute_loop lenient env path s)
      | Some (Escaped name, t) \<Rightarrow> sub_map (append (placeholder name)) (substitute_loop lenient env path t)
      | Some (Substitution name, t) \<Rightarrow>
          (case env_value env name of
             None \<Rightarrow>
               if lenient
               then sub_warn \<lparr>varName = name, configPath = path\<rparr>
                      (sub_map (append (placeholder name)) (substitute_loop lenient env path t))
               else Inl \<lparr>varName = name, configPath = path\<rparr>
           | Some v \<Rightarrow> sub_map (append v) (substitute_loop lenient env path t)))"
  by pat_completeness auto
termination
  by (relation "measure (\<lambda>(_, _, _, s). length s)") (auto dest: parseEnvTokenAt_shorter)

definition substituteString :: "bool \<Rightarrow> environment \<Rightarrow> string \<Rightarrow> string \<Rightarrow> string substituted" where
  "substituteString lenient env path s =
     (if CHR ''$'' \<notin> set s then Inr (s, []) else substitute_loop lenient env path s)"

function reference_loop :: "string \<Rightarrow> bool" where
  "reference_loop [] = False"
| "reference_loop (c # s) =
     (if c \<noteq> CHR ''$'' then reference_loop s
      else case parseEnvTokenAt (c # s) of
        None \<Rightarrow> reference_loop s
      | Some (Escaped name, t) \<Rightarrow> reference_loop t
      | Some (Substitution name, t) \<Rightarrow> True)"
  by pat_completeness auto
termination
  by (relation "measure length") (auto dest: parseEnvTokenAt_shorter)

definition containsEnvVarReference :: "string \<Rightarrow> bool" where
  "containsEnvVarReference s \<longleftrightarrow> CHR ''$'' \<in> set s \<and> reference_loop s"

definition child_path :: "string \<Rightarrow> string \<Rightarrow> string" where
  "child_path path key = (if path = [] then key else path @ ''.'' @ key)"

definition item_path :: "string \<Rightarrow> nat \<Rightarrow> string" where
  "item_path path n = path @ ''['' @ nat_str n @ '']''"

fun substituteAny :: "bool \<Rightarrow> environment \<Rightarrow> string \<Rightarrow> json \<Rightarrow> json substituted"
  and substitute_items :: "bool \<Rightarrow> environment \<Rightarrow> string \<Rightarrow> nat \<Rightarrow> json list \<Rightarrow> json list substituted"
  and substitute_entries :: "bool \<Rightarrow> environment \<Rightarrow> string \<Rightarrow> (string \<times> json) list \<Rightarrow> plain_object substituted" where
  "substituteAny lenient env path (JStr s) = sub_map JStr (substituteString lenient env path s)"
| "substituteAny lenient env path (JArr vs) = sub_map JArr (substitute_items lenient env path 0 vs)"
| "substituteAny lenient env path (JObj ps) = sub_map JObj (substitute_entries lenient env path ps)"
| "substituteAny lenient env path v = Inr (v, [])"
| "substitute_items lenient env path n [] = Inr ([], [])"
| "substitute_items lenient env path n (v # vs) =
     sub_cons (substituteAny lenient env (item_path path n) v) (substitute_items lenient env path (Suc n) vs)"
| "substitute_entries lenient env path [] = Inr ([], [])"
| "substitute_entries lenient env path ((k, v) # ps) =
     sub_cons (sub_map (Pair k) (substituteAny lenient env (child_path path k) v))
       (substitute_entries lenient env path ps)"

definition resolveConfigEnvVars :: "bool \<Rightarrow> environment \<Rightarrow> json \<Rightarrow> json substituted" where
  "resolveConfigEnvVars lenient env obj = substituteAny lenient env '''' obj"

section \<open>Putting references back\<close>

text \<open>The search of the expression \<^verbatim>\<open>/\$\{[A-Z_][A-Z0-9_]*\}/\<close>.\<close>

fun hasEnvVarRef :: "string \<Rightarrow> bool" where
  "hasEnvVarRef [] = False"
| "hasEnvVarRef (c # s) = (js_starts_with (c # s) ''${'' \<and> env_name_at (drop 1 s) \<noteq> None \<or> hasEnvVarRef s)"

function tryResolveString :: "environment \<Rightarrow> string \<Rightarrow> string option" where
  "tryResolveString env [] = Some []"
| "tryResolveString env (c # s) =
     (case (if js_starts_with (c # s) ''$${'' then env_name_at (drop 2 s) else None) of
        Some (name, t) \<Rightarrow> map_option (append (placeholder name)) (tryResolveString env t)
      | None \<Rightarrow>
          (case (if js_starts_with (c # s) ''${'' then env_name_at (drop 1 s) else None) of
             Some (name, t) \<Rightarrow>
               (case env_value env name of
                  None \<Rightarrow> None
                | Some v \<Rightarrow> map_option (append v) (tryResolveString env t))
           | None \<Rightarrow> map_option (Cons c) (tryResolveString env s)))"
  by pat_completeness auto
termination
  by (relation "measure (\<lambda>(_, s). length s)") (auto dest!: env_name_at_shorter split: if_splits)

fun restoreEnvVarRefs :: "environment \<Rightarrow> json \<Rightarrow> json \<Rightarrow> json"
  and restore_items :: "environment \<Rightarrow> json list \<Rightarrow> json list \<Rightarrow> json list"
  and restore_entries :: "environment \<Rightarrow> (string \<times> json) list \<Rightarrow> plain_object \<Rightarrow> plain_object" where
  "restoreEnvVarRefs env (JStr incoming) (JStr parsed) =
     (if hasEnvVarRef parsed \<and> tryResolveString env parsed = Some incoming then JStr parsed else JStr incoming)"
| "restoreEnvVarRefs env (JArr incoming) (JArr parsed) = JArr (restore_items env incoming parsed)"
| "restoreEnvVarRefs env (JObj incoming) (JObj parsed) = JObj (restore_entries env incoming parsed)"
| "restoreEnvVarRefs env incoming parsed = incoming"
| "restore_items env [] parsed = []"
| "restore_items env (v # vs) [] = v # vs"
| "restore_items env (v # vs) (p # ps) = restoreEnvVarRefs env v p # restore_items env vs ps"
| "restore_entries env [] parsed = []"
| "restore_entries env ((k, v) # kvs) parsed =
     (k, if js_in k parsed then restoreEnvVarRefs env v (obj_get parsed k) else v) # restore_entries env kvs parsed"

end
