(* ===== verification/Env_Vars_Props.thy ===== *)
theory Env_Vars_Props
  imports Env_Vars
begin

text \<open>
  What environment references in a configuration guarantee: the strict reading fails exactly where the
  lenient one warns first, and a configuration that is written back still holds its references.
\<close>

lemma sub_map_simps [simp]:
  "sub_map f (Inl e) = Inl e"
  "sub_map f (Inr (x, ws)) = Inr (f x, ws)"
  by (simp_all add: sub_map_def)

lemma sub_warn_simps [simp]:
  "sub_warn w (Inl e) = Inl e"
  "sub_warn w (Inr (x, ws)) = Inr (x, w # ws)"
  by (simp_all add: sub_warn_def)

lemma sub_cons_simps [simp]:
  "sub_cons (Inl e) rs = Inl e"
  "sub_cons (Inr (x, ws)) (Inl e) = Inl e"
  "sub_cons (Inr (x, ws)) (Inr (xs, vs)) = Inr (x # xs, ws @ vs)"
  by (simp_all add: sub_cons_def)

lemma sub_map_Inr: "sub_map f r = Inr (y, ws) \<longleftrightarrow> (\<exists>x. r = Inr (x, ws) \<and> y = f x)"
  by (cases r) (auto simp: sub_map_def)

lemma sub_cons_Inr:
  "sub_cons r rs = Inr (ys, ws) \<longleftrightarrow>
     (\<exists>x xs u v. r = Inr (x, u) \<and> rs = Inr (xs, v) \<and> ys = x # xs \<and> ws = u @ v)"
  by (auto simp: sub_cons_def split: sum.splits)

section \<open>Strict and lenient reading\<close>

text \<open>What a strict reading makes of a lenient one.\<close>

definition first_warning :: "'a substituted \<Rightarrow> 'a substituted" where
  "first_warning r =
     (case r of Inl e \<Rightarrow> Inl e | Inr (x, ws) \<Rightarrow> (case ws of [] \<Rightarrow> Inr (x, []) | w # _ \<Rightarrow> Inl w))"

text \<open>A reading that returns, and whose warnings all name variables without a value.\<close>

definition lenient_ok :: "environment \<Rightarrow> 'a substituted \<Rightarrow> bool" where
  "lenient_ok env r = (case r of Inl _ \<Rightarrow> False | Inr (x, ws) \<Rightarrow> list_all (\<lambda>w. env_value env (varName w) = None) ws)"

lemma first_warning_map [simp]: "first_warning (sub_map f r) = sub_map f (first_warning r)"
  by (auto simp: first_warning_def sub_map_def split: sum.split list.split)

lemma first_warning_cons [simp]:
  "lenient_ok env rs \<Longrightarrow> first_warning (sub_cons r rs) = sub_cons (first_warning r) (first_warning rs)"
  by (auto simp: lenient_ok_def first_warning_def sub_cons_def split: sum.split list.split)

lemma first_warning_warn [simp]: "lenient_ok env r \<Longrightarrow> first_warning (sub_warn w r) = Inl w"
  by (auto simp: lenient_ok_def first_warning_def split: sum.splits)

lemma lenient_ok_simps [simp]:
  "lenient_ok env (Inr (x, []))"
  "lenient_ok env (sub_map f r) = lenient_ok env r"
  "lenient_ok env (sub_warn w r) \<longleftrightarrow> env_value env (varName w) = None \<and> lenient_ok env r"
  "lenient_ok env r \<Longrightarrow> lenient_ok env rs \<Longrightarrow> lenient_ok env (sub_cons r rs)"
  by (auto simp: lenient_ok_def sub_map_def sub_warn_def sub_cons_def split: sum.splits)

lemma substitute_loop_lenient: "lenient_ok env (substitute_loop True env path s)"
  by (induction True env path s rule: substitute_loop.induct)
    (auto split: option.split env_token.split prod.split)

lemma substitute_loop_strict:
  "substitute_loop False env path s = first_warning (substitute_loop True env path s)"
proof (induction False env path s rule: substitute_loop.induct)
  case (2 env path c s)
  then show ?case
    by (auto simp: first_warning_warn [where env = env] substitute_loop_lenient
        split: option.split env_token.split prod.split)
qed (simp add: first_warning_def)

lemma substituteString_lenient: "lenient_ok env (substituteString True env path s)"
  by (simp add: substituteString_def substitute_loop_lenient)

lemma substituteString_strict:
  "substituteString False env path s = first_warning (substituteString True env path s)"
  by (simp add: substituteString_def substitute_loop_strict first_warning_def)

lemma substituteAny_lenient:
  "lenient_ok env (substituteAny True env path v)"
  "lenient_ok env (substitute_items True env path n vs)"
  "lenient_ok env (substitute_entries True env path ps)"
  by (induction True env path v and True env path n vs and True env path ps
      rule: substituteAny_substitute_items_substitute_entries.induct)
    (simp_all add: substituteString_lenient)

lemma substituteAny_strict:
  "substituteAny False env path v = first_warning (substituteAny True env path v)"
  "substitute_items False env path n vs = first_warning (substitute_items True env path n vs)"
  "substitute_entries False env path ps = first_warning (substitute_entries True env path ps)"
  by (induction False env path v and False env path n vs and False env path ps
      rule: substituteAny_substitute_items_substitute_entries.induct)
    (simp_all add: substituteString_strict first_warning_cons [OF substituteAny_lenient(2)]
      first_warning_cons [OF substituteAny_lenient(3)], simp_all add: first_warning_def)

text \<open>C18: Reading a configuration leniently always returns, and each of its warnings names a variable that is
  unset or empty. The strict reading of the same value returns the same result when there was no warning,
  and otherwise throws exactly the first warning: the same variable at the same path of the
  configuration.\<close>

theorem missing_variable_is_reported:
  "\<exists>x ws. resolveConfigEnvVars True env v = Inr (x, ws) \<and>
     list_all (\<lambda>w. env_value env (varName w) = None) ws \<and>
     resolveConfigEnvVars False env v = (case ws of [] \<Rightarrow> Inr (x, []) | w # _ \<Rightarrow> Inl w)"
  using substituteAny_lenient(1) [of env "''''" v]
  by (auto simp: resolveConfigEnvVars_def substituteAny_strict lenient_ok_def first_warning_def split: sum.splits)

section \<open>Writing back\<close>

lemma first_warning_Inr: "first_warning r = Inr (x, ws) \<Longrightarrow> ws = [] \<and> r = Inr (x, [])"
  by (auto simp: first_warning_def split: sum.splits list.splits)

lemma strict_no_warnings:
  "substitute_loop False env path s = Inr (r, ws) \<Longrightarrow> ws = []"
  "substituteString False env path s = Inr (r, ws) \<Longrightarrow> ws = []"
  by (auto simp: substitute_loop_strict substituteString_strict dest: first_warning_Inr)

lemma starts_dollar: "js_starts_with (c # s) (CHR ''$'' # p) \<longleftrightarrow> c = CHR ''$'' \<and> js_starts_with s p"
  by (auto simp: js_starts_with_def)

lemma starts_exclusive: "js_starts_with s ''${'' \<Longrightarrow> \<not> js_starts_with s ''{''"
  by (cases s) (auto simp: js_starts_with_def)

text \<open>The second parser of references agrees with the first.\<close>

lemma tryResolveString_strict:
  "tryResolveString env s = (case substitute_loop False env path s of Inl _ \<Rightarrow> None | Inr (r, _) \<Rightarrow> Some r)"
proof (induction env s rule: tryResolveString.induct)
  case (2 env c s)
  have m: "(case sub_map f r of Inl _ \<Rightarrow> None | Inr (x, _) \<Rightarrow> Some x) =
      map_option f (case r of Inl _ \<Rightarrow> None | Inr (x, _) \<Rightarrow> Some x)" for f and r :: "string substituted"
    by (auto simp: sub_map_def split: sum.split)
  have p: "parseEnvTokenAt (CHR ''$'' # s) =
      (if js_starts_with s ''${'' then map_option (apfst Escaped) (env_name_at (drop 2 s))
       else if js_starts_with s ''{'' then map_option (apfst Substitution) (env_name_at (drop 1 s)) else None)"
    by (simp add: parseEnvTokenAt_def starts_dollar)
  show ?case
  proof (cases "c = CHR ''$''")
    case False
    with 2 show ?thesis by (simp add: starts_dollar m)
  next
    case True
    with 2 show ?thesis
      by (auto simp: starts_dollar m p dest: starts_exclusive split: option.split)
  qed
qed simp

lemma token_has_ref: "parseEnvTokenAt s = Some x \<Longrightarrow> hasEnvVarRef s"
proof -
  assume t: "parseEnvTokenAt s = Some x"
  then obtain c u where s: "s = c # u" by (cases s) (auto simp: parseEnvTokenAt_def js_starts_with_def)
  show ?thesis
  proof (cases "js_starts_with s ''$${''")
    case True
    with s obtain v where "u = CHR ''$'' # v" by (cases u) (auto simp: js_starts_with_def)
    with t s True show ?thesis by (auto simp: parseEnvTokenAt_def js_starts_with_def)
  next
    case False
    with t s show ?thesis by (auto simp: parseEnvTokenAt_def split: if_splits)
  qed
qed

lemma no_ref_unchanged: "\<not> hasEnvVarRef s \<Longrightarrow> substitute_loop lenient env path s = Inr (s, [])"
proof (induction s)
  case (Cons c s)
  from Cons.prems have "parseEnvTokenAt (c # s) = None" by (metis not_Some_eq token_has_ref)
  with Cons show ?case by (cases "c = CHR ''$''") simp_all
qed simp

lemma ref_has_dollar: "hasEnvVarRef p \<Longrightarrow> CHR ''$'' \<in> set p"
  by (induction p) (auto simp: starts_dollar)

lemma restore_string:
  assumes "substituteString False env path p = Inr (s, [])"
  shows "restoreEnvVarRefs env (JStr s) (JStr p) = JStr p"
proof (cases "hasEnvVarRef p")
  case True
  with assms ref_has_dollar [OF True] True show ?thesis by (simp add: substituteString_def tryResolveString_strict [of env p path])
next
  case False
  with assms show ?thesis by (auto simp: substituteString_def no_ref_unchanged split: if_splits)
qed

lemma restored_string_reads:
  assumes "CHR ''$'' \<notin> set s"
  shows "\<exists>t. restoreEnvVarRefs env (JStr s) (JStr p) = JStr t \<and> substituteString False env path t = Inr (s, [])"
proof (cases "hasEnvVarRef p \<and> tryResolveString env p = Some s")
  case True
  then have d: "CHR ''$'' \<in> set p" by (simp add: ref_has_dollar)
  from True have "substitute_loop False env path p = Inr (s, [])"
    by (auto simp: tryResolveString_strict [of env p path] split: sum.splits dest: strict_no_warnings)
  with True d show ?thesis by (simp add: substituteString_def)
next
  case False
  then have "restoreEnvVarRefs env (JStr s) (JStr p) = JStr s" by auto
  with assms show ?thesis by (simp add: substituteString_def)
qed

text \<open>No string of the value has a dollar sign.\<close>

fun no_dollar :: "json \<Rightarrow> bool" where
  "no_dollar (JStr s) = (CHR ''$'' \<notin> set s)"
| "no_dollar (JArr vs) = list_all no_dollar vs"
| "no_dollar (JObj ps) = list_all (\<lambda>p. no_dollar (snd p)) ps"
| "no_dollar v = True"

lemma js_in_mem: "map_ok ps \<Longrightarrow> (k, v) \<in> set ps \<Longrightarrow> js_in k ps \<and> obj_get ps k = v"
  by (simp add: js_in_def obj_get_def map_get_of_mem)

lemma restore_host [simp]: "restoreEnvVarRefs env v (JHost k) = v"
  by (cases v) auto

lemma restore_after_substitute:
  "substituteAny False env path p = Inr (v, ws) \<Longrightarrow> distinct_keys p \<Longrightarrow> restoreEnvVarRefs env v p = p"
  "substitute_items False env path n ps = Inr (vs, ws) \<Longrightarrow> list_all distinct_keys ps \<Longrightarrow> restore_items env vs ps = ps"
  "substitute_entries False env path qs = Inr (kvs, ws) \<Longrightarrow> list_all (\<lambda>p. distinct_keys (snd p)) qs \<Longrightarrow>
     map_ok ob \<Longrightarrow> set qs \<subseteq> set ob \<Longrightarrow> restore_entries env kvs ob = qs"
proof (induction False env path p and False env path n ps and False env path qs
    arbitrary: v ws and vs ws and kvs ws ob rule: substituteAny_substitute_items_substitute_entries.induct)
  case (1 env path s)
  then show ?case by (auto simp: sub_map_Inr dest: strict_no_warnings(2) intro: restore_string)
qed (auto simp: sub_map_Inr sub_cons_Inr js_in_mem)

lemma no_dollar_reads:
  "no_dollar v \<Longrightarrow> substituteAny lenient env path v = Inr (v, [])"
  "list_all no_dollar vs \<Longrightarrow> substitute_items lenient env path n vs = Inr (vs, [])"
  "list_all (\<lambda>p. no_dollar (snd p)) kvs \<Longrightarrow> substitute_entries lenient env path kvs = Inr (kvs, [])"
  by (induction lenient env path v and lenient env path n vs and lenient env path kvs
      rule: substituteAny_substitute_items_substitute_entries.induct) (simp_all add: substituteString_def)

lemma restored_reads:
  "no_dollar v \<Longrightarrow> substituteAny False env path (restoreEnvVarRefs env v p) = Inr (v, [])"
  "list_all no_dollar vs \<Longrightarrow> substitute_items False env path n (restore_items env vs ps) = Inr (vs, [])"
  "list_all (\<lambda>p. no_dollar (snd p)) kvs \<Longrightarrow>
     substitute_entries False env path (restore_entries env kvs ob) = Inr (kvs, [])"
proof (induction env v p and env vs ps and env kvs ob arbitrary: path and path n and path
    rule: restoreEnvVarRefs_restore_items_restore_entries.induct)
  case (1 env s p)
  then obtain t where "restoreEnvVarRefs env (JStr s) (JStr p) = JStr t"
      and "substituteString False env path t = Inr (s, [])"
    using restored_string_reads by (metis no_dollar.simps(1))
  then show ?case by (simp del: restoreEnvVarRefs.simps)
qed (auto simp: no_dollar_reads substituteString_def)

text \<open>C19: A configuration keeps its references when it is written back. If a file was read without
  error, writing back what was read gives the file's own value, references and escapes included. And
  whatever a caller writes instead, as long as it has no dollar sign of its own, the written value reads
  as exactly what the caller meant.\<close>

theorem references_survive_writing:
  assumes "resolveConfigEnvVars False env parsed = Inr (v, ws)" and "distinct_keys parsed" and "no_dollar w"
  shows "restoreEnvVarRefs env v parsed = parsed \<and>
    resolveConfigEnvVars False env (restoreEnvVarRefs env w parsed) = Inr (w, [])"
  using assms restore_after_substitute(1) restored_reads(1) unfolding resolveConfigEnvVars_def by blast

theorem references_survive_writing_witness:
  "let env = (\<lambda>n. if n = ''KEY'' then Some ''s3'' else None);
       parsed = JObj [(''a'', JStr ''x${KEY}''), (''b'', JArr [JStr ''$${KEY}''])];
       v = JObj [(''a'', JStr ''xs3''), (''b'', JArr [JStr ''${KEY}''])];
       w = JObj [(''a'', JStr ''xs3''), (''c'', JNull)]
   in restoreEnvVarRefs env v parsed = parsed \<and>
      restoreEnvVarRefs env w parsed = JObj [(''a'', JStr ''x${KEY}''), (''c'', JNull)] \<and>
      resolveConfigEnvVars False env (restoreEnvVarRefs env w parsed) = Inr (w, [])"
proof -
  let ?env = "\<lambda>n. if n = ''KEY'' then Some ''s3'' else None"
  let ?p = "JObj [(''a'', JStr ''x${KEY}''), (''b'', JArr [JStr ''$${KEY}''])]"
  let ?v = "JObj [(''a'', JStr ''xs3''), (''b'', JArr [JStr ''${KEY}''])]"
  let ?w = "JObj [(''a'', JStr ''xs3''), (''c'', JNull)]"
  have 1: "resolveConfigEnvVars False ?env ?p = Inr (?v, [])" by code_simp
  have 2: "distinct_keys ?p" and 3: "no_dollar ?w" by code_simp+
  have 4: "restoreEnvVarRefs ?env ?w ?p = JObj [(''a'', JStr ''x${KEY}''), (''c'', JNull)]" by code_simp
  show ?thesis using references_survive_writing [OF 1 2 3] 4 by (simp only: Let_def)
qed

end
