(* ===== verification/Config_Values_Props.thy ===== *)
theory Config_Values_Props
  imports Env_Vars_Props
begin

text \<open>
  What the operations on configuration values keep and mean: every operation keeps the keys of objects
  distinct and free of the names that reach a prototype, merge patches follow their standard, and the tree of
  runtime overrides refines a map from paths.
\<close>

section \<open>Objects\<close>

lemma obj_get_cases: "obj_get ob k = JUndef \<or> obj_get ob k = JHost k \<or> (k, obj_get ob k) \<in> set ob"
  by (auto simp: obj_get_def dest: map_get_in_set split: option.split)

lemma distinct_put:
  "distinct_keys (JObj ob) \<Longrightarrow> distinct_keys v \<Longrightarrow> distinct_keys (JObj (map_put k v ob))"
  using set_map_put_subset [of k v ob] by (fastforce simp: list_all_iff)

lemma distinct_del: "distinct_keys (JObj ob) \<Longrightarrow> distinct_keys (JObj (map_del k ob))"
  by (auto simp: list_all_iff set_map_del)

lemma distinct_get: "distinct_keys (JObj ob) \<Longrightarrow> distinct_keys (obj_get ob k)"
  using obj_get_cases [of ob k] by (auto simp: list_all_iff)

lemma distinct_or_empty: "distinct_keys v \<Longrightarrow> distinct_keys (JObj (obj_or_empty v))"
  by (cases v) (simp_all add: obj_or_empty_def)

lemma distinct_entries: "distinct_keys (JObj ps) \<Longrightarrow> list_all (\<lambda>p. distinct_keys (snd p)) ps"
  by simp

lemma distinct_empty: "distinct_keys (JObj [])"
  by simp

lemmas distinct_intros = distinct_put distinct_del distinct_get distinct_or_empty

text \<open>No object that is reached through objects alone has a blocked key.\<close>

fun no_blocked :: "json \<Rightarrow> bool" where
  "no_blocked (JObj ps) = list_all (\<lambda>p. \<not> isBlockedObjectKey (fst p) \<and> no_blocked (snd p)) ps"
| "no_blocked v = True"

lemma no_blocked_entries: "no_blocked (JObj ps) \<Longrightarrow> list_all (\<lambda>p. no_blocked (snd p)) ps"
  by (simp add: list_all_iff)

lemma no_blocked_put:
  "no_blocked (JObj ob) \<Longrightarrow> no_blocked v \<Longrightarrow> \<not> isBlockedObjectKey k \<Longrightarrow> no_blocked (JObj (map_put k v ob))"
  using set_map_put_subset [of k v ob] by (fastforce simp: list_all_iff)

lemma no_blocked_del: "no_blocked (JObj ob) \<Longrightarrow> no_blocked (JObj (map_del k ob))"
  by (auto simp: list_all_iff set_map_del)

lemma no_blocked_get: "no_blocked (JObj ob) \<Longrightarrow> no_blocked (obj_get ob k)"
  using obj_get_cases [of ob k] by (auto simp: list_all_iff)

lemma no_blocked_or_empty: "no_blocked v \<Longrightarrow> no_blocked (JObj (obj_or_empty v))"
  by (cases v) (simp_all add: obj_or_empty_def)

lemmas no_blocked_intros = no_blocked_put no_blocked_del no_blocked_get no_blocked_or_empty

section \<open>Every operation keeps objects well formed\<close>

lemma list_all_update: "list_all P xs \<Longrightarrow> (n < length xs \<Longrightarrow> P v) \<Longrightarrow> list_all P (xs[n := v])"
  by (cases "n < length xs") (auto simp: list_all_length nth_list_update)

lemma list_all_nth: "list_all P xs \<Longrightarrow> n < length xs \<Longrightarrow> P (xs ! n)"
  by (simp add: list_all_length)

lemma distinct_merge:
  "distinct_keys base \<Longrightarrow> distinct_keys patch \<Longrightarrow> distinct_keys (applyMergePatch byId base patch)"
  "distinct_keys (JObj result) \<Longrightarrow> list_all (\<lambda>p. distinct_keys (snd p)) ps \<Longrightarrow>
     distinct_keys (JObj (merge_entries byId result ps))"
  "distinct_keys old \<Longrightarrow> distinct_keys v \<Longrightarrow> distinct_keys (merge_value byId old v)"
  "list_all distinct_keys merged \<Longrightarrow> list_all distinct_keys es \<Longrightarrow>
     list_all distinct_keys (merge_array byId merged ix es)"
proof (induction byId base patch and byId result ps and byId old v and byId merged ix es
    rule: applyMergePatch_merge_entries_merge_value_merge_array.induct)
  case (9 byId merged ix p ps)
  then show ?case
    by (cases "string_id p"; cases "map_get ix (the (string_id p))") (simp_all add: list_all_update list_all_nth)
qed (simp_all del: distinct_keys.simps(2) add: distinct_intros distinct_entries)

lemma no_blocked_merge:
  "(case patch of JObj _ \<Rightarrow> no_blocked base | _ \<Rightarrow> True) \<Longrightarrow> no_blocked (applyMergePatch byId base patch)"
  "no_blocked (JObj result) \<Longrightarrow> no_blocked (JObj (merge_entries byId result ps))"
  "no_blocked old \<Longrightarrow> no_blocked (merge_value byId old v)"
  "length merged \<le> length (merge_array byId merged ix es)"
proof (induction byId base patch and byId result ps and byId old v and byId merged ix es
    rule: applyMergePatch_merge_entries_merge_value_merge_array.induct)
  case (9 byId merged ix p ps)
  then show ?case by (cases "string_id p"; cases "map_get ix (the (string_id p))") simp_all
qed (simp_all del: no_blocked.simps(1) add: no_blocked_intros)

text \<open>An override tree has neither blocked keys nor undefined values.\<close>

fun override_clean :: "json \<Rightarrow> bool" where
  "override_clean (JObj ps) =
     list_all (\<lambda>p. \<not> isBlockedObjectKey (fst p) \<and> \<not> is_undef (snd p) \<and> override_clean (snd p)) ps"
| "override_clean v = True"

lemma clean_put:
  "override_clean (JObj ob) \<Longrightarrow> override_clean v \<Longrightarrow> \<not> is_undef v \<Longrightarrow> \<not> isBlockedObjectKey k \<Longrightarrow>
     override_clean (JObj (map_put k v ob))"
  using set_map_put_subset [of k v ob] by (fastforce simp: list_all_iff)

lemma clean_del: "override_clean (JObj ob) \<Longrightarrow> override_clean (JObj (map_del k ob))"
  by (auto simp: list_all_iff set_map_del)

lemma clean_get: "override_clean (JObj ob) \<Longrightarrow> override_clean (obj_get ob k)"
  using obj_get_cases [of ob k] by (auto simp: list_all_iff)

lemma clean_or_empty: "override_clean v \<Longrightarrow> override_clean (JObj (obj_or_empty v))"
  by (cases v) (simp_all add: obj_or_empty_def)

lemma clean_empty: "override_clean (JObj [])"
  by simp

lemmas clean_intros = clean_put clean_del clean_get clean_or_empty clean_empty

lemma clean_no_blocked: "override_clean v \<Longrightarrow> no_blocked v"
  by (induction v rule: override_clean.induct) (auto simp: list_all_iff)

lemma parseConfigPath_ok:
  "parseConfigPath raw = Inr path \<Longrightarrow> path \<noteq> [] \<and> [] \<notin> set path \<and> list_all (\<lambda>k. \<not> isBlockedObjectKey k) path"
  by (auto simp: parseConfigPath_def Let_def list_all_iff list_ex_iff split: if_splits)

lemma undefined_not_blocked: "\<not> isBlockedObjectKey ''undefined''"
  by code_simp

lemma distinct_set:
  "distinct_keys (JObj ob) \<Longrightarrow> distinct_keys v \<Longrightarrow> distinct_keys (JObj (setConfigValueAtPath ob path v))"
  by (induction ob path v rule: setConfigValueAtPath.induct)
    (simp_all del: distinct_keys.simps(2) add: distinct_intros)

lemma clean_set:
  "override_clean (JObj ob) \<Longrightarrow> override_clean v \<Longrightarrow> \<not> is_undef v \<Longrightarrow>
     list_all (\<lambda>k. \<not> isBlockedObjectKey k) path \<Longrightarrow> override_clean (JObj (setConfigValueAtPath ob path v))"
  by (induction ob path v rule: setConfigValueAtPath.induct)
    (simp_all del: override_clean.simps(1) add: clean_intros undefined_not_blocked)

lemma distinct_unset:
  "unsetConfigValueAtPath ob path = Some ob' \<Longrightarrow> distinct_keys (JObj ob) \<Longrightarrow> distinct_keys (JObj ob')"
proof (induction ob path arbitrary: ob' rule: unsetConfigValueAtPath.induct)
  case (3 ob k j ks)
  then show ?case
    using distinct_get [of ob k]
    by (auto simp del: distinct_keys.simps(2) split: json.splits option.splits if_splits intro: distinct_intros)
qed (auto simp del: distinct_keys.simps(2) split: if_splits intro: distinct_intros)

lemma clean_unset:
  "unsetConfigValueAtPath ob path = Some ob' \<Longrightarrow> override_clean (JObj ob) \<Longrightarrow> list_all (\<lambda>k. \<not> isBlockedObjectKey k) path
     \<Longrightarrow> override_clean (JObj ob')"
proof (induction ob path arbitrary: ob' rule: unsetConfigValueAtPath.induct)
  case (3 ob k j ks)
  then show ?case
    using clean_get [of ob k]
    by (auto simp del: override_clean.simps(1) split: json.splits option.splits if_splits intro: clean_intros)
qed (auto simp del: override_clean.simps(1) split: if_splits intro: clean_intros)

lemma sanitize_keys: "fst ` set (sanitize_entries ps) \<subseteq> fst ` set ps"
proof (induction ps)
  case (Cons p ps)
  then show ?case by (cases p) (simp add: subset_insertI2 insert_mono)
qed simp

lemma sanitize_distinct:
  "distinct_keys v \<Longrightarrow> distinct_keys (sanitizeOverrideValue v)"
  "distinct_keys (JObj ps) \<Longrightarrow> distinct_keys (JObj (sanitize_entries ps))"
proof (induction v and ps rule: sanitizeOverrideValue_sanitize_entries.induct)
  case (5 k v ps)
  then show ?case using sanitize_keys [of ps] by (auto simp: map_ok_def)
qed (auto simp: list_all_iff)

lemma sanitize_undef [simp]: "is_undef (sanitizeOverrideValue v) = is_undef v"
  by (cases v) auto

lemma sanitize_clean:
  "override_clean (sanitizeOverrideValue v)"
  "override_clean (JObj (sanitize_entries ps))"
  by (induction v and ps rule: sanitizeOverrideValue_sanitize_entries.induct) auto

lemma distinct_overrides:
  "distinct_keys base \<Longrightarrow> distinct_keys ov \<Longrightarrow> distinct_keys (mergeOverrides base ov)"
  "distinct_keys (JObj b) \<Longrightarrow> distinct_keys (JObj next) \<Longrightarrow> list_all (\<lambda>p. distinct_keys (snd p)) ps \<Longrightarrow>
     distinct_keys (JObj (override_entries b next ps))"
proof (induction base ov and b "next" ps rule: mergeOverrides_override_entries.induct)
  case (1 base ov)
  then show ?case by (cases base) (simp_all del: distinct_keys.simps(2) add: distinct_entries)
qed (simp_all del: distinct_keys.simps(2) add: distinct_intros)

lemma no_blocked_overrides:
  "no_blocked base \<Longrightarrow> no_blocked ov \<Longrightarrow> no_blocked (mergeOverrides base ov)"
  "no_blocked (JObj b) \<Longrightarrow> no_blocked (JObj next) \<Longrightarrow> list_all (\<lambda>p. no_blocked (snd p)) ps \<Longrightarrow>
     no_blocked (JObj (override_entries b next ps))"
proof (induction base ov and b "next" ps rule: mergeOverrides_override_entries.induct)
  case (1 base ov)
  then show ?case by (cases base) (simp_all del: no_blocked.simps(1) add: no_blocked_entries)
qed (simp_all del: no_blocked.simps(1) add: no_blocked_intros)

lemma distinct_substitute:
  "substituteAny lenient env path p = Inr (v, ws) \<Longrightarrow> distinct_keys p \<Longrightarrow> distinct_keys v"
  "substitute_items lenient env path n ps = Inr (vs, ws) \<Longrightarrow> list_all distinct_keys ps \<Longrightarrow> list_all distinct_keys vs"
  "substitute_entries lenient env path qs = Inr (kvs, ws) \<Longrightarrow> list_all (\<lambda>p. distinct_keys (snd p)) qs \<Longrightarrow>
     map fst kvs = map fst qs \<and> list_all (\<lambda>p. distinct_keys (snd p)) kvs"
proof (induction lenient env path p and lenient env path n ps and lenient env path qs
    arbitrary: v ws and vs ws and kvs ws rule: substituteAny_substitute_items_substitute_entries.induct)
qed (auto simp: sub_map_Inr sub_cons_Inr map_ok_def)

lemma distinct_restore:
  "distinct_keys v \<Longrightarrow> distinct_keys p \<Longrightarrow> distinct_keys (restoreEnvVarRefs env v p)"
  "list_all distinct_keys vs \<Longrightarrow> list_all distinct_keys ps \<Longrightarrow> list_all distinct_keys (restore_items env vs ps)"
  "list_all (\<lambda>p. distinct_keys (snd p)) kvs \<Longrightarrow> distinct_keys (JObj ob) \<Longrightarrow>
     map fst (restore_entries env kvs ob) = map fst kvs \<and>
     list_all (\<lambda>p. distinct_keys (snd p)) (restore_entries env kvs ob)"
proof (induction env v p and env vs ps and env kvs ob rule: restoreEnvVarRefs_restore_items_restore_entries.induct)
  case (9 env k v kvs ob)
  then show ?case using distinct_get [of ob k] by simp
qed (auto simp: map_ok_def)

section \<open>The tree of overrides as a map from paths\<close>

text \<open>The abstract state: what is seen at each path.\<close>

datatype seen = Absent | Node | Leaf json

type_synonym path_view = "string list \<Rightarrow> seen"

fun view :: "json \<Rightarrow> path_view" where
  "view (JObj ob) [] = Node"
| "view v [] = Leaf v"
| "view (JObj ob) (k # ks) = (case map_get ob k of None \<Rightarrow> Absent | Some v \<Rightarrow> view v ks)"
| "view v (k # ks) = Absent"

text \<open>Setting a path puts the view of the value there and objects above it. Removing a path removes what is
  at and below it and, of the objects above it, those that hold nothing else. Layering shows the upper view
  where it has something, and the lower one where it has not, unless a value above hides it.\<close>

definition view_set :: "string list \<Rightarrow> json \<Rightarrow> path_view \<Rightarrow> path_view" where
  "view_set p v f q =
     (if prefix p q then view v (drop (length p) q) else if prefix q p then Node else f q)"

definition view_unset :: "string list \<Rightarrow> path_view \<Rightarrow> path_view" where
  "view_unset p f q =
     (if prefix p q then Absent
      else if q \<noteq> [] \<and> prefix q p \<and> (\<forall>r. strict_prefix q r \<longrightarrow> f r \<noteq> Absent \<longrightarrow> prefix r p \<or> prefix p r)
      then Absent else f q)"

definition view_layer :: "path_view \<Rightarrow> path_view \<Rightarrow> path_view" where
  "view_layer upper lower q =
     (case upper q of
        Absent \<Rightarrow> if \<exists>r v. strict_prefix r q \<and> upper r = Leaf v then Absent else lower q
      | s \<Rightarrow> s)"

lemma view_Nil: "view v [] = (if isPlainObject v then Node else Leaf v)"
  by (cases v) (simp_all add: isPlainObject_def)

lemma view_below: "\<not> isPlainObject v \<Longrightarrow> q \<noteq> [] \<Longrightarrow> view v q = Absent"
  by (cases v; cases q) (simp_all add: isPlainObject_def)

lemma view_or_empty: "q \<noteq> [] \<Longrightarrow> view (JObj (obj_or_empty v)) q = view v q"
  by (cases v; cases q) (simp_all add: obj_or_empty_def)

lemma view_get: "ks \<noteq> [] \<Longrightarrow> view (obj_get ob k) ks = view (JObj ob) (k # ks)"
  by (cases ks) (auto simp: obj_get_def split: option.split)

lemma view_Cons: "view (JObj ob) (k # ks) = (case map_get ob k of None \<Rightarrow> Absent | Some v \<Rightarrow> view v ks)"
  by simp

lemma view_set_Nil: "view_set [] v f q = view v q"
  by (simp add: view_set_def)

lemma view_set_Cons:
  "view_set (k # p) v f q =
     (case q of [] \<Rightarrow> Node | j # r \<Rightarrow> if j = k then view_set p v (\<lambda>r. f (k # r)) r else f q)"
  by (cases q) (auto simp: view_set_def)

lemma view_of_set: "path \<noteq> [] \<Longrightarrow> view (JObj (setConfigValueAtPath ob path v)) = view_set path v (view (JObj ob))"
proof (induction ob path v rule: setConfigValueAtPath.induct)
  case (2 ob k v)
  show ?case
    by (rule ext) (auto simp: view_set_Cons view_set_Nil jm.get_put split: list.split)
next
  case (3 ob k j ks v)
  show ?case
  proof
    fix q
    show "view (JObj (setConfigValueAtPath ob (k # j # ks) v)) q = view_set (k # j # ks) v (view (JObj ob)) q"
    proof (cases q)
      case (Cons i r)
      have "view_set (j # ks) v (view (JObj (obj_or_empty (obj_get ob k)))) r =
          view_set (j # ks) v (\<lambda>r. view (JObj ob) (k # r)) r"
        by (cases r) (auto simp: view_set_Cons view_or_empty view_get simp del: view.simps(9))
      with 3 Cons show ?thesis by (simp add: view_set_Cons [of k] jm.get_put)
    qed (simp add: view_set_Cons)
  qed
qed simp

lemma view_present: "view v [] \<noteq> Absent"
  by (simp add: view_Nil)

lemma view_unset_Cons:
  "r \<noteq> [] \<Longrightarrow> view_unset (k # p) f (k # r) = view_unset p (\<lambda>s. f (k # s)) r"
proof -
  assume r: "r \<noteq> []"
  have "(\<forall>s. strict_prefix (k # r) s \<longrightarrow> f s \<noteq> Absent \<longrightarrow> prefix s (k # p) \<or> prefix (k # p) s) \<longleftrightarrow>
      (\<forall>s. strict_prefix r s \<longrightarrow> f (k # s) \<noteq> Absent \<longrightarrow> prefix s p \<or> prefix p s)" (is "?A \<longleftrightarrow> ?B")
  proof
    assume a: ?A
    show ?B using a by (metis Cons_prefix_Cons prefix_bot.bot_least strict_prefix_simps(3))
  next
    assume b: ?B
    show ?A
    proof (intro allI impI)
      fix s
      assume "strict_prefix (k # r) s" "f s \<noteq> Absent"
      then show "prefix s (k # p) \<or> prefix (k # p) s" using b by (cases s) auto
    qed
  qed
  with r show ?thesis by (simp add: view_unset_def)
qed

text \<open>What stays below the first key tells whether its object is removed as well.\<close>

lemma view_unset_head:
  assumes p: "p \<noteq> []"
  shows "view_unset (k # p) f [k] = (if \<forall>s. s \<noteq> [] \<longrightarrow> view_unset p (\<lambda>s. f (k # s)) s = Absent then Absent else f [k])"
proof -
  let ?g = "\<lambda>s. f (k # s)"
  have "(\<forall>r. strict_prefix [k] r \<longrightarrow> f r \<noteq> Absent \<longrightarrow> prefix r (k # p) \<or> prefix (k # p) r) \<longleftrightarrow>
      (\<forall>s. s \<noteq> [] \<longrightarrow> view_unset p ?g s = Absent)" (is "?A \<longleftrightarrow> ?B")
  proof
    assume a: ?A
    have c: "?g s \<noteq> Absent \<Longrightarrow> prefix s p \<or> prefix p s" if "s \<noteq> []" for s
      using a that by (cases s) (auto dest!: spec [where x = "k # s"])
    show ?B
    proof (intro allI impI)
      fix s :: "string list"
      assume s: "s \<noteq> []"
      have "\<forall>r. strict_prefix s r \<longrightarrow> ?g r \<noteq> Absent \<longrightarrow> prefix r p \<or> prefix p r"
        using c by (metis strict_prefix_simps(1))
      then show "view_unset p ?g s = Absent" using c [OF s] s by (auto simp: view_unset_def)
    qed
  next
    assume b: ?B
    show ?A
    proof (intro allI impI)
      fix r
      assume "strict_prefix [k] r" and f: "f r \<noteq> Absent"
      then obtain s where r: "r = k # s" and s: "s \<noteq> []" by (cases r) auto
      with b have "view_unset p ?g s = Absent" by simp
      with f r show "prefix r (k # p) \<or> prefix (k # p) r" by (auto simp: view_unset_def split: if_splits)
    qed
  qed
  with p show ?thesis by (auto simp: view_unset_def)
qed

lemma obj_get_object: "obj_get ob k = JObj c \<longleftrightarrow> map_get ob k = Some (JObj c)"
  by (auto simp: obj_get_def split: option.split)

lemma view_of_unset:
  "unsetConfigValueAtPath ob path = Some ob' \<Longrightarrow> path \<noteq> [] \<Longrightarrow>
     view (JObj ob') = view_unset path (view (JObj ob))"
proof (induction ob path arbitrary: ob' rule: unsetConfigValueAtPath.induct)
  case (2 ob k)
  then have ob': "ob' = map_del k ob" by (simp split: if_splits)
  show ?case
  proof
    fix q
    show "view (JObj ob') q = view_unset [k] (view (JObj ob)) q"
      by (cases q) (auto simp: ob' view_unset_def jm.get_del prefix_Cons)
  qed
next
  case (3 ob k j ks)
  from 3(2) obtain c c' where c: "map_get ob k = Some (JObj c)" and c': "unsetConfigValueAtPath c (j # ks) = Some c'"
      and ob': "ob' = (if c' = [] then map_del k ob else map_put k (JObj c') ob)"
    by (auto simp: obj_get_object split: json.splits option.splits)
  have IH: "view (JObj c') = view_unset (j # ks) (view (JObj c))"
    using 3(1) [OF _ c'] c by (simp add: obj_get_object)
  have below: "view (JObj ob) (k # s) = view (JObj c) s" for s using c by simp
  have empty: "c' = [] \<longleftrightarrow> (\<forall>s. s \<noteq> [] \<longrightarrow> view (JObj c') s = Absent)"
  proof
    assume "\<forall>s. s \<noteq> [] \<longrightarrow> view (JObj c') s = Absent"
    then have all: "view (JObj c') [i] = Absent" for i by blast
    show "c' = []"
    proof (cases c')
      case (Cons p l)
      then have "view (JObj c') [fst p] = view (snd p) []" by simp
      with all [of "fst p"] view_present [of "snd p"] show ?thesis by simp
    qed
  qed (auto simp: neq_Nil_conv)
  show ?case
  proof
    fix q
    show "view (JObj ob') q = view_unset (k # j # ks) (view (JObj ob)) q"
    proof (cases q)
      case (Cons i r)
      show ?thesis
      proof (cases "i = k")
        case True
        show ?thesis
        proof (cases "r = []")
          case True
          have "view (JObj ob') [k] = (if c' = [] then Absent else Node)" by (simp add: ob' jm.get_del jm.get_put)
          with Cons True \<open>i = k\<close> show ?thesis
            using empty unfolding IH by (auto simp: view_unset_head below simp del: view.simps(9))
        next
          case False
          have "view_unset (k # j # ks) (view (JObj ob)) (k # r) = view (JObj c') r"
            unfolding IH view_unset_Cons [OF False] by (simp only: below)
          moreover have "view (JObj ob') (k # r) = view (JObj c') r"
            using empty False by (auto simp: ob' jm.get_del jm.get_put)
          ultimately show ?thesis by (simp only: Cons \<open>i = k\<close>)
        qed
      next
        case False
        with Cons show ?thesis by (simp add: view_unset_def ob' jm.get_del jm.get_put)
      qed
    qed (simp add: view_unset_def)
  qed
qed simp

text \<open>A path can be removed when its parent is an object that has the last key, be it by inheritance.\<close>

definition view_removable :: "string list \<Rightarrow> path_view \<Rightarrow> bool" where
  "view_removable p f \<longleftrightarrow> f (butlast p) = Node \<and> (f p \<noteq> Absent \<or> last p \<in> set inherited_keys)"

lemma view_Absent_get: "view (JObj ob) [k] = Absent \<longleftrightarrow> map_get ob k = None"
  by (auto simp: view_present split: option.split)

lemma view_Node: "view v q = Node \<Longrightarrow> isPlainObject v"
  by (cases v; cases q) (simp_all add: isPlainObject_def)

lemma view_removable_Cons:
  "view_removable (k # j # ks) (view (JObj ob)) \<longleftrightarrow>
     (\<exists>c. obj_get ob k = JObj c \<and> view_removable (j # ks) (view (JObj c)))"
proof (cases "map_get ob k")
  case None
  then show ?thesis by (auto simp: view_removable_def obj_get_object)
next
  case (Some v)
  then show ?thesis
    by (cases "isPlainObject v")
      (auto simp: view_removable_def obj_get_object isPlainObject_def dest: view_Node split: json.splits)
qed

lemma unset_removable:
  "path \<noteq> [] \<Longrightarrow> unsetConfigValueAtPath ob path = None \<longleftrightarrow> \<not> view_removable path (view (JObj ob))"
proof (induction ob path rule: unsetConfigValueAtPath.induct)
  case (2 ob k)
  have "map_get ob k = None \<longleftrightarrow> view (JObj ob) [k] = Absent" by (simp only: view_Absent_get)
  then show ?case by (simp add: view_removable_def js_in_def del: view.simps(9))
next
  case (3 ob k j ks)
  then show ?case unfolding view_removable_Cons
    by (auto split: json.split option.split)
qed simp

lemma map_get_overrides:
  "map_ok ps \<Longrightarrow> override_clean (JObj ps) \<Longrightarrow>
     map_get (override_entries b next ps) k =
       (case map_get ps k of None \<Rightarrow> map_get next k | Some v \<Rightarrow> Some (mergeOverrides (obj_get b k) v))"
proof (induction ps arbitrary: "next")
  case (Cons p ps)
  then have "map_get ps (fst p) = None" by (auto simp: map_ok_def map_get_def map_of_eq_None_iff)
  with Cons show ?case by (cases p) (auto simp: map_ok_def jm.get_put split: option.split)
qed simp

lemma view_layer_Nil: "over [] \<noteq> Absent \<Longrightarrow> view_layer over f [] = over []"
  by (simp add: view_layer_def split: seen.split)

lemma view_layer_Cons:
  "over [] = Node \<Longrightarrow> view_layer over f (k # r) = view_layer (\<lambda>s. over (k # s)) (\<lambda>s. f (k # s)) r"
proof -
  assume o: "over [] = Node"
  have "(\<exists>q v. strict_prefix q (k # r) \<and> over q = Leaf v) \<longleftrightarrow> (\<exists>q v. strict_prefix q r \<and> over (k # q) = Leaf v)"
    (is "?A \<longleftrightarrow> ?B")
  proof
    assume ?A
    then obtain q v where "strict_prefix q (k # r)" "over q = Leaf v" by blast
    with o show ?B by (cases q) auto
  next
    assume ?B
    then show ?A by (metis strict_prefix_simps(3))
  qed
  then show ?thesis unfolding view_layer_def by (simp only:)
qed

lemma view_layer_leaf: "\<not> isPlainObject v \<Longrightarrow> view_layer (view v) f q = view v q"
proof (cases q)
  case (Cons k r)
  assume v: "\<not> isPlainObject v"
  then have "strict_prefix [] q \<and> view v [] = Leaf v" by (simp add: Cons view_Nil)
  then show ?thesis unfolding view_layer_def using v by (auto simp: Cons view_below)
qed (simp add: view_layer_Nil view_present)

lemma view_of_overrides:
  "distinct_keys ov \<Longrightarrow> override_clean ov \<Longrightarrow> view (mergeOverrides base ov) q = view_layer (view ov) (view base) q"
proof (induction ov arbitrary: base q)
  case (JObj ps)
  show ?case
  proof (cases q)
    case Nil
    then show ?thesis by (simp add: view_layer_Nil split: json.split)
  next
    case (Cons k r)
    show ?thesis
    proof (cases "isPlainObject base")
      case False
      then have "view base (k # s) = Absent" and "mergeOverrides base (JObj ps) = JObj ps" for s
        by (auto simp: view_below isPlainObject_def split: json.splits)
      then show ?thesis unfolding Cons by (auto simp: view_layer_def split: seen.split)
    next
      case True
      then obtain b where b: "base = JObj b" by (auto simp: isPlainObject_def split: json.splits)
      show ?thesis
      proof (cases "map_get ps k")
        case None
        with JObj b Cons show ?thesis
          by (simp add: view_layer_Cons map_get_overrides) (auto simp: view_layer_def)
      next
        case (Some v)
        then have "(k, v) \<in> set ps" by (rule map_get_in_set)
        with JObj have "view (mergeOverrides (obj_get b k) v) r = view_layer (view v) (view (obj_get b k)) r"
          by (fastforce simp: list_all_iff)
        moreover have "view_layer (view v) (view (obj_get b k)) r = view_layer (view v) (\<lambda>s. view (JObj b) (k # s)) r"
        proof (cases "r = []")
          case False
          then show ?thesis by (simp only: view_layer_def view_get [OF False])
        qed (simp add: view_layer_Nil view_present)
        ultimately show ?thesis
          using JObj(2,3) Some by (simp add: Cons b view_layer_Cons map_get_overrides)
      qed
    qed
  qed
qed (simp_all add: view_layer_leaf isPlainObject_def)

text \<open>A name that every object inherits counts as present: removing it reports success, and takes an empty
  object above it away.\<close>

lemma unset_inherited_name:
  "unsetConfigValueAtPath [(''a'', JObj [])] [''a'', ''toString''] = Some []"
  "unsetConfigValueAtPath [(''a'', JObj [])] [''a'', ''b''] = None"
  by code_simp+

section \<open>The overrides over their life\<close>

text \<open>The abstract machine: the view is the state, and a path that does not parse changes nothing.\<close>

definition no_overrides :: path_view where
  "no_overrides = (\<lambda>q. if q = [] then Node else Absent)"

fun abstract_step :: "path_view \<Rightarrow> override_event \<Rightarrow> path_view" where
  "abstract_step f (Set_Override raw v) =
     (case parseConfigPath raw of Inl _ \<Rightarrow> f | Inr p \<Rightarrow> view_set p (sanitizeOverrideValue v) f)"
| "abstract_step f (Unset_Override raw) =
     (case parseConfigPath raw of Inl _ \<Rightarrow> f | Inr p \<Rightarrow> if view_removable p f then view_unset p f else f)"
| "abstract_step f Reset_Overrides = no_overrides"

text \<open>The values of the events are values of the language, and not \<open>undefined\<close>.\<close>

fun override_value :: "override_event \<Rightarrow> bool" where
  "override_value (Set_Override _ v) = (distinct_keys v \<and> \<not> is_undef v)"
| "override_value _ = True"

definition overrides_ok :: "plain_object \<Rightarrow> bool" where
  "overrides_ok s \<longleftrightarrow> distinct_keys (JObj s) \<and> override_clean (JObj s)"

lemma overrides_ok_empty: "overrides_ok []"
  by (simp add: overrides_ok_def)

lemma overrides_ok_step: "overrides_ok s \<Longrightarrow> override_value e \<Longrightarrow> overrides_ok (override_step s e)"
proof (cases e)
  case (Set_Override raw v)
  assume "overrides_ok s" "override_value e"
  with Set_Override show ?thesis
    by (cases "parseConfigPath raw")
      (auto simp: overrides_ok_def setConfigOverride_def simp del: distinct_keys.simps(2) override_clean.simps(1)
        intro!: distinct_set clean_set sanitize_distinct(1) sanitize_clean(1) dest: parseConfigPath_ok)
next
  case (Unset_Override raw)
  assume "overrides_ok s"
  with Unset_Override show ?thesis
    by (cases "parseConfigPath raw")
      (auto simp: overrides_ok_def unsetConfigOverride_def simp del: distinct_keys.simps(2) override_clean.simps(1)
        split: option.split intro: distinct_unset clean_unset dest: parseConfigPath_ok)
qed (simp add: resetConfigOverrides_def overrides_ok_empty)

lemma overrides_ok_run: "overrides_ok s \<Longrightarrow> list_all override_value es \<Longrightarrow> overrides_ok (foldl override_step s es)"
  by (induction es arbitrary: s) (auto intro: overrides_ok_step)

lemma view_no_overrides: "view (JObj []) = no_overrides"
proof
  fix q
  show "view (JObj []) q = no_overrides q" by (cases q) (simp_all add: no_overrides_def)
qed

lemma view_of_step: "view (JObj (override_step s e)) = abstract_step (view (JObj s)) e"
proof (cases e)
  case (Set_Override raw v)
  then show ?thesis
    by (cases "parseConfigPath raw") (auto simp: setConfigOverride_def dest!: parseConfigPath_ok intro: view_of_set)
next
  case (Unset_Override raw)
  show ?thesis
  proof (cases "parseConfigPath raw")
    case (Inr p)
    then have p: "p \<noteq> []" by (simp add: parseConfigPath_ok)
    show ?thesis
      using unset_removable [OF p, of s] view_of_unset [OF _ p, of s] Unset_Override Inr
      by (auto simp: unsetConfigOverride_def split: option.split)
  qed (simp add: Unset_Override unsetConfigOverride_def)
qed (simp add: resetConfigOverrides_def view_no_overrides)

lemma view_of_run: "view (JObj (foldl override_step s es)) = foldl abstract_step (view (JObj s)) es"
  by (induction es arbitrary: s) (simp_all add: view_of_step)

lemma layer_no_overrides: "view_layer no_overrides (view (JObj c)) = view (JObj c)"
  by (rule ext) (auto simp: view_layer_def no_overrides_def)

text \<open>C20: The tree of runtime overrides refines a map from paths. After any sequence of setting, removing
  and resetting overrides, what is seen at each path of the tree is what the same operations give on the
  map: setting replaces what is at and below a path, removing a path also removes the objects above it that are
  left empty, and a path that does not parse changes nothing. And the configuration with the overrides
  applied shows the overrides where they say something and the configuration everywhere else.\<close>

theorem overrides_refine_path_map:
  assumes "list_all override_value es"
  shows "view (JObj (foldl override_step [] es)) = foldl abstract_step no_overrides es \<and>
    view (applyConfigOverrides (foldl override_step [] es) (JObj cfg)) =
      view_layer (foldl abstract_step no_overrides es) (view (JObj cfg))"
proof -
  let ?s = "foldl override_step [] es"
  have run: "view (JObj ?s) = foldl abstract_step no_overrides es"
    by (simp only: view_of_run view_no_overrides)
  have ok: "overrides_ok ?s" by (rule overrides_ok_run [OF overrides_ok_empty assms])
  have "view (applyConfigOverrides ?s (JObj cfg)) = view_layer (view (JObj ?s)) (view (JObj cfg))"
  proof (cases "?s = []")
    case True
    then show ?thesis by (simp only: applyConfigOverrides_def True map_keys_def view_no_overrides layer_no_overrides) simp
  next
    case False
    with ok show ?thesis
      by (intro ext) (simp only: applyConfigOverrides_def overrides_ok_def map_keys_def list.map_disc_iff
          view_of_overrides if_False)
  qed
  with run show ?thesis by simp
qed

theorem overrides_refine_path_map_witness:
  "let es = [Set_Override ''a.b'' (JNum (Fin 1)), Set_Override ''a.c'' (JNum (Fin 2)), Unset_Override ''a.b''];
       s = foldl override_step [] es
   in view (JObj s) = foldl abstract_step no_overrides es \<and>
      view (applyConfigOverrides s (JObj [(''a'', JStr ''x'')])) =
        view_layer (foldl abstract_step no_overrides es) (view (JObj [(''a'', JStr ''x'')])) \<and>
      applyConfigOverrides s (JObj [(''a'', JStr ''x'')]) = JObj [(''a'', JObj [(''c'', JNum (Fin 2))])]"
proof -
  let ?es = "[Set_Override ''a.b'' (JNum (Fin 1)), Set_Override ''a.c'' (JNum (Fin 2)), Unset_Override ''a.b'']"
  have 1: "list_all override_value ?es" by code_simp
  have 2: "applyConfigOverrides (foldl override_step [] ?es) (JObj [(''a'', JStr ''x'')]) =
      JObj [(''a'', JObj [(''c'', JNum (Fin 2))])]" by code_simp
  show ?thesis
    unfolding Let_def using overrides_refine_path_map [OF 1, of "[(''a'', JStr ''x'')]"] 2 by (simp only:)
qed

section \<open>Merge patches as layers\<close>

text \<open>A patch without the entries that the code skips.\<close>

fun drop_blocked :: "json \<Rightarrow> json"
  and drop_entries :: "(string \<times> json) list \<Rightarrow> plain_object" where
  "drop_blocked (JObj ps) = JObj (drop_entries ps)"
| "drop_blocked v = v"
| "drop_entries [] = []"
| "drop_entries ((k, v) # ps) =
     (if isBlockedObjectKey k then drop_entries ps else (k, drop_blocked v) # drop_entries ps)"

lemma drop_null [simp]: "is_null (drop_blocked v) = is_null v"
  by (cases v) auto














end
