(* ===== verification/Node_Path.thy ===== *)
theory Node_Path
  imports Js_Prelude
begin

text \<open>
  What the sources use of Node's \<open>path\<close> module on POSIX systems, and \<open>isPathInside\<close> of
  \<^verbatim>\<open>src/security/scan-paths.ts\<close>. A path is a string; \<open>resolve\<close> takes the working directory, an
  absolute path, as an argument.
\<close>

section \<open>Normalising\<close>

text \<open>The segments of a path, already resolved ones first and in reverse: empty segments and single dots go,
  a double dot takes back the segment before it or, above the start of a relative path, stays.\<close>

fun norm_segments :: "bool \<Rightarrow> string list \<Rightarrow> string list \<Rightarrow> string list" where
  "norm_segments allowAboveRoot acc [] = acc"
| "norm_segments allowAboveRoot acc (s # ss) =
     (if s = [] \<or> s = ''.'' then norm_segments allowAboveRoot acc ss
      else if s = ''..'' then
        (case acc of
           [] \<Rightarrow> norm_segments allowAboveRoot (if allowAboveRoot then [s] else []) ss
         | a # as \<Rightarrow> norm_segments allowAboveRoot (if a = ''..'' then if allowAboveRoot then s # acc else acc else as) ss)
      else norm_segments allowAboveRoot (s # acc) ss)"

definition path_is_absolute :: "string \<Rightarrow> bool" where
  "path_is_absolute p \<longleftrightarrow> js_starts_with p ''/''"

definition path_segments :: "string \<Rightarrow> string list" where
  "path_segments p = rev (norm_segments (\<not> path_is_absolute p) [] (js_split CHR ''/'' p))"

definition path_normalize :: "string \<Rightarrow> string" where
  "path_normalize p =
     (let segs = path_segments p; root = path_is_absolute p; trail = js_ends_with p ''/'' in
      if p = [] then ''.''
      else if segs = [] then (if root then ''/'' else if trail then ''./'' else ''.'')
      else (if root then ''/'' else '''') @ js_join ''/'' segs @ (if trail then ''/'' else ''''))"

definition path_resolve :: "string \<Rightarrow> string \<Rightarrow> string" where
  "path_resolve cwd p =
     ''/'' @ js_join ''/'' (path_segments (if path_is_absolute p then p else cwd @ ''/'' @ p))"

text \<open>\<open>path.resolve(dir, p)\<close> for a \<open>p\<close> that is not absolute.\<close>

definition path_resolve_in :: "string \<Rightarrow> string \<Rightarrow> string \<Rightarrow> string" where
  "path_resolve_in cwd dir p = path_resolve cwd (dir @ ''/'' @ p)"

definition path_dirname :: "string \<Rightarrow> string" where
  "path_dirname p =
     (let up_to_slash = dropWhile (\<lambda>c. c \<noteq> CHR ''/'') (dropWhile (\<lambda>c. c = CHR ''/'') (rev p));
          stop = length up_to_slash - 1
      in if length up_to_slash \<le> 1 then (if path_is_absolute p then ''/'' else ''.'')
         else if path_is_absolute p \<and> stop = 1 then ''//''
         else take stop p)"

section \<open>Relative paths\<close>

fun common_prefix :: "'a list \<Rightarrow> 'a list \<Rightarrow> nat" where
  "common_prefix (x # xs) (y # ys) = (if x = y then Suc (common_prefix xs ys) else 0)"
| "common_prefix _ _ = 0"

definition path_relative :: "string \<Rightarrow> string \<Rightarrow> string" where
  "path_relative a b =
     (let s = path_segments a; t = path_segments b; n = common_prefix s t
      in js_join ''/'' (replicate (length s - n) ''..'' @ drop n t))"

definition isPathInside :: "string \<Rightarrow> string \<Rightarrow> string \<Rightarrow> bool" where
  "isPathInside cwd basePath candidatePath =
     (let rel = path_relative (path_resolve cwd basePath) (path_resolve cwd candidatePath)
      in rel = [] \<or> (\<not> js_starts_with rel ''../'' \<and> rel \<noteq> ''..'' \<and> \<not> path_is_absolute rel))"

section \<open>Canonical segments\<close>

text \<open>Reversed segments that normalising leaves alone.\<close>

fun canonical :: "bool \<Rightarrow> string list \<Rightarrow> bool" where
  "canonical allowAboveRoot [] = True"
| "canonical allowAboveRoot (s # ss) =
     (s \<noteq> [] \<and> s \<noteq> ''.'' \<and> CHR ''/'' \<notin> set s \<and> (s = ''..'' \<longrightarrow> allowAboveRoot \<and> set ss \<subseteq> {''..''}) \<and> canonical allowAboveRoot ss)"

lemma canonical_norm:
  "canonical allowAboveRoot acc \<Longrightarrow> \<forall>s\<in>set ss. CHR ''/'' \<notin> set s \<Longrightarrow> canonical allowAboveRoot (norm_segments allowAboveRoot acc ss)"
proof (induction allowAboveRoot acc ss rule: norm_segments.induct)
  case (2 allowAboveRoot acc s ss)
  then show ?case by (cases acc) (auto split: if_splits)
qed simp

lemma norm_canonical: "canonical allowAboveRoot (rev ss @ acc) \<Longrightarrow> norm_segments allowAboveRoot acc ss = rev ss @ acc"
proof (induction allowAboveRoot acc ss rule: norm_segments.induct)
  case (2 allowAboveRoot acc s ss)
  have tail: "canonical allowAboveRoot (xs @ ys) \<Longrightarrow> canonical allowAboveRoot ys" for xs ys
    by (induction xs) auto
  from 2(5) have "canonical allowAboveRoot (s # acc)" using tail [of "rev ss" "s # acc"] by simp
  then show ?case using 2 by (cases acc) (auto split: if_splits)
qed simp

lemma path_segments_canonical: "canonical (\<not> path_is_absolute p) (rev (path_segments p))"
  by (simp add: path_segments_def canonical_norm js_split_free)

text \<open>A path written from segments, with or without slashes at its ends, has these segments.\<close>

definition written :: "bool \<Rightarrow> string list \<Rightarrow> bool \<Rightarrow> string" where
  "written lead segs trail = (if lead then ''/'' else []) @ js_join ''/'' segs @ (if trail then ''/'' else [])"

lemma canonical_segs: "canonical a (rev segs) \<Longrightarrow> s \<in> set segs \<Longrightarrow> s \<noteq> [] \<and> CHR ''/'' \<notin> set s"
proof -
  have "canonical a ss \<Longrightarrow> s \<in> set ss \<Longrightarrow> s \<noteq> [] \<and> CHR ''/'' \<notin> set s" for ss
    by (induction ss) auto
  then show "canonical a (rev segs) \<Longrightarrow> s \<in> set segs \<Longrightarrow> ?thesis" by simp
qed

lemma norm_append: "norm_segments a acc (xs @ ys) = norm_segments a (norm_segments a acc xs) ys"
  by (induction a acc xs rule: norm_segments.induct) (auto split: list.split)

lemma js_join_ends:
  "ws \<noteq> [] \<Longrightarrow> d @ js_join d ws = js_join d ([] # ws)"
  "ws \<noteq> [] \<Longrightarrow> js_join d ws @ d = js_join d (ws @ [[]])"
proof -
  show "ws \<noteq> [] \<Longrightarrow> d @ js_join d ws = js_join d ([] # ws)" by (cases ws) simp_all
  show "ws \<noteq> [] \<Longrightarrow> js_join d ws @ d = js_join d (ws @ [[]])"
    by (induction d ws rule: js_join.induct) simp_all
qed

lemma written_split:
  assumes "canonical a (rev segs)" and "segs \<noteq> []"
  shows "js_split CHR ''/'' (written lead segs trail) =
    (if lead then [[]] else []) @ segs @ (if trail then [[]] else [])"
proof -
  have "written lead segs trail = js_join ''/'' ((if lead then [[]] else []) @ segs @ (if trail then [[]] else []))"
    using assms(2) by (auto simp: written_def js_join_ends(2) js_join_ends(1) [symmetric] append_assoc [symmetric]
        simp del: append_assoc)
  also have "js_split CHR ''/'' \<dots> = (if lead then [[]] else []) @ segs @ (if trail then [[]] else [])"
    by (rule js_split_join) (use assms canonical_segs in auto)
  finally show ?thesis .
qed

lemma written_absolute:
  assumes "canonical a (rev segs)" and "segs \<noteq> []"
  shows "path_is_absolute (written lead segs trail) = lead"
proof -
  obtain c s ws where segs: "segs = (c # s) # ws" "c \<noteq> CHR ''/''"
    using canonical_segs [OF assms(1), of "hd segs"] assms(2)
    by (cases segs; cases "hd segs") auto
  then have "\<exists>r. js_join ''/'' segs = c # r" by (cases ws) auto
  with segs show ?thesis by (auto simp: path_is_absolute_def written_def js_starts_with_def)
qed

lemma written_ends:
  assumes "canonical a (rev segs)" and "segs \<noteq> []"
  shows "js_ends_with (written lead segs trail) ''/'' = trail"
proof (cases trail)
  case True
  then show ?thesis by (simp add: written_def js_ends_with_def js_starts_with_def)
next
  case False
  have "last (js_join ''/'' ws) = last (last ws) \<and> js_join ''/'' ws \<noteq> []" if "ws \<noteq> []" "\<forall>w\<in>set ws. w \<noteq> []" for ws
    using that by (induction "''/''" ws rule: js_join.induct) auto
  then have l: "last (js_join ''/'' segs) = last (last segs)" "js_join ''/'' segs \<noteq> []"
    using assms canonical_segs by blast+
  have "last segs \<noteq> [] \<and> CHR ''/'' \<notin> set (last segs)"
    using assms canonical_segs last_in_set by blast
  then have "last (last segs) \<noteq> CHR ''/''" by (metis last_in_set)
  with l have "last (written lead segs trail) \<noteq> CHR ''/''" and "written lead segs trail \<noteq> []"
    using False by (auto simp: written_def)
  then show ?thesis using False
    by (cases "written lead segs trail" rule: rev_cases) (auto simp: js_ends_with_def js_starts_with_def)
qed

lemma written_segments:
  assumes "canonical (\<not> lead) (rev segs)" and "segs \<noteq> []"
  shows "path_segments (written lead segs trail) = segs"
proof -
  have "norm_segments (\<not> lead) [] segs = rev segs" using norm_canonical [of "\<not> lead" segs "[]"] assms(1) by simp
  then show ?thesis
    unfolding path_segments_def written_split [OF assms] written_absolute [OF assms] by (cases lead) (simp_all add: norm_append)
qed

lemma path_normalize_written:
  "path_segments p \<noteq> [] \<Longrightarrow> p \<noteq> [] \<Longrightarrow>
     path_normalize p = written (path_is_absolute p) (path_segments p) (js_ends_with p ''/'')"
  by (simp add: path_normalize_def Let_def written_def)

lemma path_normalize_idem [simp]: "path_normalize (path_normalize p) = path_normalize p"
proof (cases "p = [] \<or> path_segments p = []")
  case True
  then have "path_normalize p \<in> {''.'', ''/'', ''./''}" by (auto simp: path_normalize_def Let_def)
  moreover have "path_normalize ''.'' = ''.''" "path_normalize ''/'' = ''/''" "path_normalize ''./'' = ''./''"
    by code_simp+
  ultimately show ?thesis by auto
next
  case False
  have c: "canonical (\<not> path_is_absolute p) (rev (path_segments p))" by (rule path_segments_canonical)
  let ?q = "written (path_is_absolute p) (path_segments p) (js_ends_with p ''/'')"
  have "hd (path_segments p) \<noteq> []" using canonical_segs [OF c, of "hd (path_segments p)"] False by simp
  then have "?q \<noteq> []" using False js_join_nonempty by (auto simp: written_def)
  then show ?thesis
    using False c written_segments [OF c] written_absolute [OF c] written_ends [OF c]
    by (simp add: path_normalize_written)
qed

lemma path_resolve_segments: "path_segments (path_resolve cwd p) = path_segments (if path_is_absolute p then p else cwd @ ''/'' @ p)"
  if "path_is_absolute cwd"
proof -
  let ?p = "if path_is_absolute p then p else cwd @ ''/'' @ p"
  have lead: "path_is_absolute ?p" using that by (cases cwd) (auto simp: path_is_absolute_def js_starts_with_def)
  then have c: "canonical (\<not> True) (rev (path_segments ?p))" using path_segments_canonical [of ?p] by simp
  show ?thesis
  proof (cases "path_segments ?p = []")
    case True
    then show ?thesis unfolding path_resolve_def by (simp, code_simp)
  next
    case False
    have "path_resolve cwd p = written True (path_segments ?p) False" by (simp add: path_resolve_def written_def)
    then show ?thesis using written_segments [OF c False, of False] by simp
  qed
qed

text \<open>A path is inside another exactly when it starts with its segments.\<close>

lemma common_prefix_le: "common_prefix xs ys \<le> length xs"
  by (induction xs ys rule: common_prefix.induct) auto

lemma common_prefix_full: "common_prefix xs ys = length xs \<longleftrightarrow> prefix xs ys"
  by (induction xs ys rule: common_prefix.induct) auto

lemma canonical_absolute: "canonical False ss \<Longrightarrow> ''..'' \<notin> set ss"
  by (induction ss) auto

lemma join_dotdot: "js_starts_with (js_join ''/'' (''..'' # ws)) ''../'' \<or> js_join ''/'' (''..'' # ws) = ''..''"
  by (cases ws) (auto simp: js_starts_with_def)

lemma join_inside:
  assumes "canonical False (rev ws)"
  shows "js_join ''/'' ws = [] \<or> \<not> js_starts_with (js_join ''/'' ws) ''../'' \<and> js_join ''/'' ws \<noteq> ''..'' \<and>
    \<not> path_is_absolute (js_join ''/'' ws)"
proof (cases ws)
  case (Cons w vs)
  have ne: "w \<noteq> [] \<and> CHR ''/'' \<notin> set w" using canonical_segs [OF assms] Cons by simp
  have dd: "w \<noteq> ''..''" using canonical_absolute [OF assms] Cons by auto
  obtain r where j: "js_join ''/'' ws = w @ r" and r: "r = [] \<or> hd r = CHR ''/''" using Cons by (cases vs) auto
  have s: "js_split CHR ''/'' (js_join ''/'' ws) = ws"
    by (rule js_split_join) (use Cons canonical_segs [OF assms] in auto)
  have "\<not> js_starts_with (js_join ''/'' ws) ''../''"
  proof
    assume "js_starts_with (js_join ''/'' ws) ''../''"
    then obtain t where "js_join ''/'' ws = ''..'' @ CHR ''/'' # t"
      by (auto simp: js_starts_with_iff_prefix prefix_def)
    with s have "ws = ''..'' # js_split CHR ''/'' t" using js_split_append [of "CHR ''/''" "''..''" t] by simp
    with Cons dd show False by simp
  qed
  moreover have "js_join ''/'' ws \<noteq> ''..''"
  proof
    assume "js_join ''/'' ws = ''..''"
    with s have "ws = [''..'']" by simp
    with Cons dd show False by simp
  qed
  moreover have "\<not> path_is_absolute (js_join ''/'' ws)"
    using ne by (cases w) (auto simp: j path_is_absolute_def js_starts_with_def)
  ultimately show ?thesis by blast
qed simp

lemma canonical_suffix: "canonical a (xs @ ys) \<Longrightarrow> a = False \<Longrightarrow> canonical a xs"
  by (induction xs) auto

lemma isPathInside_prefix:
  assumes "path_is_absolute cwd"
  shows "isPathInside cwd a b \<longleftrightarrow>
    prefix (path_segments (path_resolve cwd a)) (path_segments (path_resolve cwd b))"
proof -
  let ?s = "path_segments (path_resolve cwd a)" and ?t = "path_segments (path_resolve cwd b)"
  let ?n = "common_prefix ?s ?t"
  show ?thesis
  proof (cases "prefix ?s ?t")
    case True
    then obtain r where r: "?t = ?s @ r" by (auto simp: prefix_def)
    have "path_is_absolute (path_resolve cwd b)" by (simp add: path_resolve_def path_is_absolute_def js_starts_with_def)
    then have "canonical False (rev ?t)" using path_segments_canonical [of "path_resolve cwd b"] by simp
    then have "canonical False (rev r)" using canonical_suffix [of False "rev r" "rev ?s"] r by simp
    moreover have "path_relative (path_resolve cwd a) (path_resolve cwd b) = js_join ''/'' r"
      using True r by (simp add: path_relative_def Let_def common_prefix_full [THEN iffD2])
    ultimately show ?thesis using True join_inside [of r] by (auto simp: isPathInside_def)
  next
    case False
    then have "?n < length ?s" using common_prefix_le common_prefix_full by (metis le_neq_implies_less)
    then obtain m where m: "length ?s - ?n = Suc m" by (cases "length ?s - ?n") auto
    have "path_relative (path_resolve cwd a) (path_resolve cwd b) =
        js_join ''/'' (''..'' # replicate m ''..'' @ drop ?n ?t)"
      by (simp add: path_relative_def Let_def m)
    with False show ?thesis using join_dotdot [of "replicate m ''..'' @ drop ?n ?t"]
      by (auto simp: isPathInside_def js_join_nonempty)
  qed
qed

end
