(* ===== verification/Config_Includes.thy ===== *)
theory Config_Includes
  imports Config_Values Node_Path
begin

text \<open>
  Modular configurations, \<^verbatim>\<open>src/config/includes.ts\<close>: the \<open>$include\<close> directive, which names files whose
  content is merged into the object, and the search of includes in \<^verbatim>\<open>src/config/includes-scan.ts\<close>.

  The file system and the JSON5 parser are parameters: the working directory, \<open>realpath\<close> (which may fail),
  reading a file (which may fail with an error of this module or another one) and parsing its contents. An error
  is the kind of message the source builds and the include path it carries.
\<close>

section \<open>Merging\<close>

text \<open>\<open>deepMerge\<close>: arrays are concatenated, objects merged, and otherwise the source wins.\<close>

fun deepMerge :: "json \<Rightarrow> json \<Rightarrow> json"
  and deep_entries :: "plain_object \<Rightarrow> (string \<times> json) list \<Rightarrow> plain_object" where
  "deepMerge target (JArr vs) = (case target of JArr us \<Rightarrow> JArr (us @ vs) | _ \<Rightarrow> JArr vs)"
| "deepMerge target (JObj ps) = (case target of JObj ob \<Rightarrow> JObj (deep_entries ob ps) | _ \<Rightarrow> JObj ps)"
| "deepMerge target v = v"
| "deep_entries result [] = result"
| "deep_entries result ((k, v) # ps) =
     (if isBlockedObjectKey k then deep_entries result ps
      else deep_entries (map_put k (if js_in k result then deepMerge (obj_get result k) v else v) result) ps)"

section \<open>The processor\<close>

definition INCLUDE_KEY :: string where
  "INCLUDE_KEY = ''$include''"

definition MAX_INCLUDE_DEPTH :: nat where
  "MAX_INCLUDE_DEPTH = 10"

datatype include_error =
    Sibling_Keys string
  | Invalid_Array_Item
  | Invalid_Include_Value
  | Escapes_Directory string
  | Escapes_By_Symlink string
  | Depth_Exceeded string
  | Read_Failed string
  | Parse_Failed string
  | Security_Check_Failed string
  | CircularIncludeError "string list"

datatype read_failure = Include_Failure include_error | Other_Failure

text \<open>What the processor uses of its surroundings; \<open>readFile\<close> is given the include path, the
  resolved path and the real root directory, as \<open>readFileWithGuards\<close> is.\<close>

record include_env =
  ie_cwd :: string
  ie_realpath :: "string \<Rightarrow> string option"
  ie_readFile :: "string \<Rightarrow> string \<Rightarrow> string \<Rightarrow> read_failure + string"
  ie_parseJson :: "string \<Rightarrow> json option"

record include_processor =
  ip_basePath :: string
  ip_visited :: "string list"
  ip_depth :: nat
  ip_rootDir :: string
  ip_rootRealDir :: string

definition safeRealpath :: "include_env \<Rightarrow> string \<Rightarrow> string" where
  "safeRealpath env target = (case ie_realpath env target of Some r \<Rightarrow> r | None \<Rightarrow> target)"

definition new_processor :: "include_env \<Rightarrow> string \<Rightarrow> string option \<Rightarrow> include_processor" where
  "new_processor env basePath rootDir =
     (let dir = path_normalize (case rootDir of Some d \<Rightarrow> d | None \<Rightarrow> path_dirname basePath)
      in \<lparr>ip_basePath = basePath, ip_visited = [path_normalize basePath], ip_depth = 0, ip_rootDir = dir,
          ip_rootRealDir = path_normalize (safeRealpath env dir)\<rparr>)"

text \<open>The processor for a file that is included by this one.\<close>

definition nested_processor :: "include_env \<Rightarrow> include_processor \<Rightarrow> string \<Rightarrow> include_processor" where
  "nested_processor env p resolvedPath =
     (new_processor env resolvedPath (Some (ip_rootDir p)))
       \<lparr>ip_visited := js_unique (ip_visited p @ [resolvedPath]), ip_depth := Suc (ip_depth p)\<rparr>"

definition resolvePath :: "include_env \<Rightarrow> include_processor \<Rightarrow> string \<Rightarrow> include_error + string" where
  "resolvePath env p includePath =
     (let configDir = path_dirname (ip_basePath p);
          resolved = (if path_is_absolute includePath then includePath
                      else path_resolve_in (ie_cwd env) configDir includePath);
          normalized = path_normalize resolved
      in if \<not> isPathInside (ie_cwd env) (ip_rootDir p) normalized then Inl (Escapes_Directory includePath)
         else case ie_realpath env normalized of
           None \<Rightarrow> Inr normalized
         | Some target \<Rightarrow>
             if \<not> isPathInside (ie_cwd env) (ip_rootRealDir p) target then Inl (Escapes_By_Symlink includePath)
             else Inr normalized)"

definition checkCircular :: "include_processor \<Rightarrow> string \<Rightarrow> include_error + unit" where
  "checkCircular p resolvedPath =
     (if resolvedPath \<in> set (ip_visited p) then Inl (CircularIncludeError (ip_visited p @ [resolvedPath]))
      else Inr ())"

definition checkDepth :: "include_processor \<Rightarrow> string \<Rightarrow> include_error + unit" where
  "checkDepth p includePath = (if MAX_INCLUDE_DEPTH \<le> ip_depth p then Inl (Depth_Exceeded includePath) else Inr ())"

definition read_include :: "include_env \<Rightarrow> include_processor \<Rightarrow> string \<Rightarrow> string \<Rightarrow> include_error + string" where
  "read_include env p includePath resolvedPath =
     (case ie_readFile env includePath resolvedPath (ip_rootRealDir p) of
        Inl (Include_Failure e) \<Rightarrow> Inl e
      | Inl Other_Failure \<Rightarrow> Inl (Read_Failed includePath)
      | Inr raw \<Rightarrow> Inr raw)"

definition parse_include :: "include_env \<Rightarrow> string \<Rightarrow> string \<Rightarrow> include_error + json" where
  "parse_include env includePath raw =
     (case ie_parseJson env raw of None \<Rightarrow> Inl (Parse_Failed includePath) | Some v \<Rightarrow> Inr v)"

text \<open>Sequencing of steps that may throw.\<close>

fun or_throw :: "'e + 'a \<Rightarrow> ('a \<Rightarrow> 'e + 'b) \<Rightarrow> 'e + 'b" where
  "or_throw (Inl e) f = Inl e"
| "or_throw (Inr x) f = f x"

lemma or_throw_cong [fundef_cong]:
  "r = r' \<Longrightarrow> (\<And>x. r' = Inr x \<Longrightarrow> f x = g x) \<Longrightarrow> or_throw r f = or_throw r' g"
  by (cases r') auto

text \<open>\<open>loadFile\<close> up to the nested processor.\<close>

definition open_include :: "include_env \<Rightarrow> include_processor \<Rightarrow> string \<Rightarrow> include_error + (string \<times> json)" where
  "open_include env p includePath =
     or_throw (resolvePath env p includePath) (\<lambda>resolvedPath.
     or_throw (checkCircular p resolvedPath) (\<lambda>_.
     or_throw (checkDepth p includePath) (\<lambda>_.
     or_throw (read_include env p includePath resolvedPath) (\<lambda>raw.
     or_throw (parse_include env includePath raw) (\<lambda>parsed. Inr (resolvedPath, parsed))))))"

lemma open_include_depth: "open_include env p inc = Inr x \<Longrightarrow> ip_depth p < MAX_INCLUDE_DEPTH"
  unfolding open_include_def
  by (cases "resolvePath env p inc") (auto simp: checkCircular_def checkDepth_def split: if_splits)

lemma nested_depth [simp]: "ip_depth (nested_processor env p path) = Suc (ip_depth p)"
  by (simp add: nested_processor_def)

definition sibling_path :: "json \<Rightarrow> string" where
  "sibling_path includeValue = (case includeValue of JStr s \<Rightarrow> s | _ \<Rightarrow> INCLUDE_KEY)"

lemma size_list_filter: "2 * size_list f (filter P xs) < Suc (Suc (2 * size_list f xs))"
  by (induction xs) auto

lemma size_obj_get: "map_get ob k = Some v \<Longrightarrow> size v < size_list (size_prod (\<lambda>_. 0) size) ob"
  by (induction ob) (auto split: if_splits)

text \<open>\<open>process\<close>, with its loops over items and entries, \<open>resolveInclude\<close> with its loop over an array
  of files, and \<open>loadFile\<close>. A nested file is one level deeper, and there are at most
  \<open>MAX_INCLUDE_DEPTH\<close> levels.\<close>

function (sequential) process_json :: "include_env \<Rightarrow> include_processor \<Rightarrow> json \<Rightarrow> include_error + json"
  and process_items :: "include_env \<Rightarrow> include_processor \<Rightarrow> json list \<Rightarrow> include_error + json list"
  and process_entries :: "include_env \<Rightarrow> include_processor \<Rightarrow> plain_object \<Rightarrow> include_error + plain_object"
  and resolve_include :: "include_env \<Rightarrow> include_processor \<Rightarrow> json \<Rightarrow> include_error + json"
  and load_all :: "include_env \<Rightarrow> include_processor \<Rightarrow> json \<Rightarrow> json list \<Rightarrow> include_error + json"
  and load_file :: "include_env \<Rightarrow> include_processor \<Rightarrow> string \<Rightarrow> include_error + json" where
  "process_json env p (JArr vs) = map_sum id JArr (process_items env p vs)"
| "process_json env p (JObj ob) =
     (case map_get ob INCLUDE_KEY of
        None \<Rightarrow> map_sum id JObj (process_entries env p ob)
      | Some includeValue \<Rightarrow>
          or_throw (resolve_include env p includeValue) (\<lambda>included.
            if filter (\<lambda>e. fst e \<noteq> INCLUDE_KEY) ob = [] then Inr included
            else if \<not> isPlainObject included then Inl (Sibling_Keys (sibling_path includeValue))
            else or_throw (process_entries env p (filter (\<lambda>e. fst e \<noteq> INCLUDE_KEY) ob)) (\<lambda>rest.
              Inr (deepMerge included (JObj rest)))))"
| "process_json env p v = Inr v"
| "process_items env p [] = Inr []"
| "process_items env p (v # vs) =
     or_throw (process_json env p v) (\<lambda>w. map_sum id (Cons w) (process_items env p vs))"
| "process_entries env p [] = Inr []"
| "process_entries env p ((k, v) # ps) =
     or_throw (process_json env p v) (\<lambda>w. map_sum id (Cons (k, w)) (process_entries env p ps))"
| "resolve_include env p (JStr s) = load_file env p s"
| "resolve_include env p (JArr items) = load_all env p (JObj []) items"
| "resolve_include env p v = Inl Invalid_Include_Value"
| "load_all env p merged [] = Inr merged"
| "load_all env p merged (JStr s # items) =
     or_throw (load_file env p s) (\<lambda>v. load_all env p (deepMerge merged v) items)"
| "load_all env p merged (v # items) = Inl Invalid_Array_Item"
| "load_file env p includePath =
     or_throw (open_include env p includePath) (\<lambda>(resolvedPath, parsed).
       process_json env (nested_processor env p resolvedPath) parsed)"
  by pat_completeness auto
termination
proof (relation "inv_image (less_than <*lex*> less_than) (\<lambda>x. case x of
      Inl (Inl (env, p, v)) \<Rightarrow> (11 - ip_depth p, 2 * size v + 1)
    | Inl (Inr (Inl (env, p, vs))) \<Rightarrow> (11 - ip_depth p, 2 * size_list size vs + 1)
    | Inl (Inr (Inr (env, p, ob))) \<Rightarrow> (11 - ip_depth p, 2 * size_list (size_prod (\<lambda>_. 0) size) ob + 1)
    | Inr (Inl (env, p, v)) \<Rightarrow> (11 - ip_depth p, 2 * size v + 1)
    | Inr (Inr (Inl (env, p, m, vs))) \<Rightarrow> (11 - ip_depth p, 2 * size_list size vs + 1)
    | Inr (Inr (Inr (env, p, s))) \<Rightarrow> (11 - ip_depth p, 0))", goal_cases)
  case 1
  show ?case by auto
qed (auto dest!: open_include_depth size_obj_get
      simp: MAX_INCLUDE_DEPTH_def le_imp_less_Suc size_list_filter diff_less_mono2)

definition resolveConfigIncludes :: "include_env \<Rightarrow> json \<Rightarrow> string \<Rightarrow> include_error + json" where
  "resolveConfigIncludes env obj configPath = process_json env (new_processor env configPath None) obj"

section \<open>Listing the included files\<close>

text \<open>\<open>listDirectIncludes\<close>: the include strings of a value, at any depth of it.\<close>

definition include_strings :: "json \<Rightarrow> string list" where
  "include_strings v =
     (case v of
        JStr s \<Rightarrow> [s]
      | JArr items \<Rightarrow> concat (map (\<lambda>i. case i of JStr s \<Rightarrow> [s] | _ \<Rightarrow> []) items)
      | _ \<Rightarrow> [])"

fun listDirectIncludes :: "json \<Rightarrow> string list" where
  "listDirectIncludes (JArr vs) = concat (map listDirectIncludes vs)"
| "listDirectIncludes (JObj ob) =
     include_strings (obj_get ob INCLUDE_KEY) @ concat (map (\<lambda>e. listDirectIncludes (snd e)) ob)"
| "listDirectIncludes v = []"

definition resolveIncludePath :: "string \<Rightarrow> string \<Rightarrow> string \<Rightarrow> string" where
  "resolveIncludePath cwd baseConfigPath includePath =
     path_normalize (if path_is_absolute includePath then includePath
                     else path_resolve_in cwd (path_dirname baseConfigPath) includePath)"

definition json_truthy :: "json \<Rightarrow> bool" where
  "json_truthy v = (case v of
       JUndef \<Rightarrow> False | JNull \<Rightarrow> False | JBool b \<Rightarrow> b | JNum n \<Rightarrow> n \<noteq> Fin 0 \<and> n \<noteq> NaN | JStr s \<Rightarrow> s \<noteq> [] | _ \<Rightarrow> True)"

text \<open>The walk of \<open>collectIncludePathsRecursive\<close>. The set of visited paths always holds the paths of the
  result, so the result stands for both; the first argument is the number of levels that are left, which is
  \<open>MAX_INCLUDE_DEPTH + 1 - depth\<close>. A file is read with a function that gives \<open>None\<close> when reading fails.\<close>

function walk_includes :: "nat \<Rightarrow> string \<Rightarrow> (string \<Rightarrow> string option) \<Rightarrow> (string \<Rightarrow> json option) \<Rightarrow> string
    \<Rightarrow> string list \<Rightarrow> string list \<Rightarrow> string list" where
  "walk_includes left cwd readText parse base [] result = result"
| "walk_includes 0 cwd readText parse base (raw # raws) result = result"
| "walk_includes (Suc left) cwd readText parse base (raw # raws) result =
     (let resolved = resolveIncludePath cwd base raw in
      if resolved \<in> set result then walk_includes (Suc left) cwd readText parse base raws result
      else walk_includes (Suc left) cwd readText parse base raws
        (case readText resolved of
           None \<Rightarrow> result @ [resolved]
         | Some contents \<Rightarrow>
             (case (if contents = [] then None else parse contents) of
                None \<Rightarrow> result @ [resolved]
              | Some nested \<Rightarrow>
                  if json_truthy nested
                  then walk_includes left cwd readText parse resolved (listDirectIncludes nested) (result @ [resolved])
                  else result @ [resolved])))"
  by pat_completeness auto
termination
  by (relation "inv_image (less_than <*lex*> less_than) (\<lambda>(left, _, _, _, _, raws, _). (left, length raws))") auto

definition collectIncludePathsRecursive ::
    "string \<Rightarrow> (string \<Rightarrow> string option) \<Rightarrow> (string \<Rightarrow> json option) \<Rightarrow> string \<Rightarrow> json \<Rightarrow> string list" where
  "collectIncludePathsRecursive cwd readText parse configPath parsed =
     walk_includes (Suc MAX_INCLUDE_DEPTH) cwd readText parse configPath (listDirectIncludes parsed) []"

text \<open>The list has no duplicates, and every file that is named in the configuration is in it.\<close>

lemma walk_includes_grows:
  "distinct result \<Longrightarrow> distinct (walk_includes left cwd readText parse base raws result) \<and>
     set result \<subseteq> set (walk_includes left cwd readText parse base raws result) \<and>
     (left \<noteq> 0 \<longrightarrow> resolveIncludePath cwd base ` set raws \<subseteq> set (walk_includes left cwd readText parse base raws result))"
proof (induction left cwd readText parse base raws result rule: walk_includes.induct)
  case (3 left cwd readText parse base raw raws result)
  let ?x = "resolveIncludePath cwd base raw"
  let ?r = "case readText ?x of None \<Rightarrow> result @ [?x]
    | Some contents \<Rightarrow> (case (if contents = [] then None else parse contents) of None \<Rightarrow> result @ [?x]
        | Some nested \<Rightarrow> if json_truthy nested
            then walk_includes left cwd readText parse ?x (listDirectIncludes nested) (result @ [?x]) else result @ [?x])"
  show ?case
  proof (cases "?x \<in> set result")
    case True
    with 3 show ?thesis by auto
  next
    case False
    have "distinct ?r \<and> insert ?x (set result) \<subseteq> set ?r"
    proof (cases "readText ?x")
      case (Some contents)
      show ?thesis
      proof (cases "if contents = [] then None else parse contents")
        case (Some nested)
        with \<open>readText ?x = Some contents\<close> show ?thesis
          using 3(2) [OF refl False \<open>readText ?x = Some contents\<close> Some] 3(4) False by (cases "json_truthy nested") auto
      qed (use 3(4) False \<open>readText ?x = Some contents\<close> in auto)
    qed (use 3(4) False in auto)
    moreover have "walk_includes (Suc left) cwd readText parse base (raw # raws) result =
        walk_includes (Suc left) cwd readText parse base raws ?r"
      using False by (simp add: Let_def)
    ultimately show ?thesis using 3(3) [OF refl False] by (simp del: walk_includes.simps) blast
  qed
qed simp_all

lemma collected_includes:
  "distinct (collectIncludePathsRecursive cwd readText parse configPath parsed) \<and>
   resolveIncludePath cwd configPath ` set (listDirectIncludes parsed) \<subseteq>
     set (collectIncludePathsRecursive cwd readText parse configPath parsed)"
  unfolding collectIncludePathsRecursive_def by (simp add: walk_includes_grows)

section \<open>Includes stay in the directory of the configuration\<close>

text \<open>What may be read: the path is inside the root, segment by segment, and so is the file it links to.\<close>

definition inside_directory :: "string \<Rightarrow> string \<Rightarrow> string \<Rightarrow> bool" where
  "inside_directory cwd dir path \<longleftrightarrow>
     prefix (path_segments (path_resolve cwd dir)) (path_segments (path_resolve cwd path))"

definition include_allowed :: "include_env \<Rightarrow> string \<Rightarrow> string \<Rightarrow> bool" where
  "include_allowed env configPath path =
     (let dir = path_normalize (path_dirname configPath) in
      inside_directory (ie_cwd env) dir path \<and>
      (case ie_realpath env path of
         None \<Rightarrow> True
       | Some target \<Rightarrow> inside_directory (ie_cwd env) (path_normalize (safeRealpath env dir)) target))"

definition rooted :: "include_env \<Rightarrow> string \<Rightarrow> include_processor \<Rightarrow> bool" where
  "rooted env configPath p \<longleftrightarrow>
     ip_rootDir p = path_normalize (path_dirname configPath) \<and>
     ip_rootRealDir p = path_normalize (safeRealpath env (ip_rootDir p))"

lemma rooted_new: "rooted env configPath (new_processor env configPath None)"
  by (simp add: rooted_def new_processor_def Let_def)

lemma rooted_nested: "rooted env configPath p \<Longrightarrow> rooted env configPath (nested_processor env p path)"
  by (simp add: rooted_def nested_processor_def new_processor_def Let_def)

lemma resolvePath_allowed:
  assumes "path_is_absolute (ie_cwd env)" and "rooted env configPath p" and "resolvePath env p inc = Inr path"
  shows "include_allowed env configPath path"
proof -
  have i: "isPathInside (ie_cwd env) a b \<longleftrightarrow> inside_directory (ie_cwd env) a b" for a b
    by (simp add: inside_directory_def isPathInside_prefix [OF assms(1)])
  show ?thesis
    using assms(2,3)
    by (auto simp: include_allowed_def resolvePath_def rooted_def Let_def i split: if_splits option.splits)
qed

lemma other_reader [simp]:
  "resolvePath (env\<lparr>ie_readFile := rd\<rparr>) p inc = resolvePath env p inc"
  "nested_processor (env\<lparr>ie_readFile := rd\<rparr>) p path = nested_processor env p path"
  "new_processor (env\<lparr>ie_readFile := rd\<rparr>) path dir = new_processor env path dir"
  "parse_include (env\<lparr>ie_readFile := rd\<rparr>) inc raw = parse_include env inc raw"
  by (simp_all add: resolvePath_def nested_processor_def new_processor_def safeRealpath_def parse_include_def Let_def
      cong: option.case_cong if_cong)

lemma open_include_agree:
  assumes "path_is_absolute (ie_cwd env)" and "rooted env configPath p"
    and "\<And>inc path root. include_allowed env configPath path \<Longrightarrow> rd inc path root = ie_readFile env inc path root"
  shows "open_include (env\<lparr>ie_readFile := rd\<rparr>) p inc = open_include env p inc"
proof (cases "resolvePath env p inc")
  case (Inr path)
  then have "rd inc path (ip_rootRealDir p) = ie_readFile env inc path (ip_rootRealDir p)"
    by (intro assms(3) resolvePath_allowed [OF assms(1,2)])
  with Inr show ?thesis by (simp add: open_include_def read_include_def)
qed (simp add: open_include_def)

lemma process_agree:
  assumes cwd: "path_is_absolute (ie_cwd env)"
    and rd: "\<And>inc path root. include_allowed env configPath path \<Longrightarrow> rd inc path root = ie_readFile env inc path root"
  defines "env' \<equiv> env\<lparr>ie_readFile := rd\<rparr>"
  shows "e = env \<Longrightarrow> rooted env configPath p \<Longrightarrow> process_json env' p v = process_json e p v"
    and "e = env \<Longrightarrow> rooted env configPath p \<Longrightarrow> process_items env' p vs = process_items e p vs"
    and "e = env \<Longrightarrow> rooted env configPath p \<Longrightarrow> process_entries env' p ob = process_entries e p ob"
    and "e = env \<Longrightarrow> rooted env configPath p \<Longrightarrow> resolve_include env' p v = resolve_include e p v"
    and "e = env \<Longrightarrow> rooted env configPath p \<Longrightarrow> load_all env' p m vs = load_all e p m vs"
    and "e = env \<Longrightarrow> rooted env configPath p \<Longrightarrow> load_file env' p s = load_file e p s"
proof (induction e p v and e p vs and e p ob and e p v and e p m vs and e p s
    rule: process_json_process_items_process_entries_resolve_include_load_all_load_file.induct)
  case (2 e p ob)
  show ?case
  proof (cases "map_get ob INCLUDE_KEY")
    case None
    with 2 show ?thesis by simp
  next
    case (Some v)
    with 2 show ?thesis
      by (cases "resolve_include e p v") (simp_all del: deepMerge.simps)
  qed
next
  case (14 e p s)
  then have "open_include env' p s = open_include e p s"
    unfolding env'_def by (simp add: open_include_agree [OF cwd _ rd])
  with 14 show ?case
    by (cases "open_include e p s") (auto simp: env'_def rooted_nested)
qed (simp_all cong: or_throw_cong)

text \<open>C22: A configuration can only include files of its own directory. Whatever the files outside the
  directory of the configuration contain (outside by the segments of the normalised path, or by the file that
  a symbolic link leads to), however the includes nest and however they are written, the result of resolving
  the includes is the same, errors included.\<close>

theorem includes_stay_in_directory:
  assumes "path_is_absolute (ie_cwd env)"
    and "\<forall>inc path dir. include_allowed env configPath path \<longrightarrow> rd inc path dir = ie_readFile env inc path dir"
  shows "resolveConfigIncludes (env\<lparr>ie_readFile := rd\<rparr>) obj configPath = resolveConfigIncludes env obj configPath"
  unfolding resolveConfigIncludes_def other_reader
  by (rule process_agree(1) [OF assms(1) _ refl rooted_new]) (use assms(2) in blast)

text \<open>A directory with one file, and a file system that differs from it outside the directory.\<close>

definition sample_env :: include_env where
  "sample_env = \<lparr>ie_cwd = ''/'', ie_realpath = (\<lambda>_. None),
     ie_readFile = (\<lambda>inc path dir. if path = ''/c/a.json'' then Inr ''A'' else Inl Other_Failure),
     ie_parseJson = (\<lambda>raw. if raw = ''A'' then Some (JObj [(''x'', JNull)]) else None)\<rparr>"

definition sample_reader :: "string \<Rightarrow> string \<Rightarrow> string \<Rightarrow> read_failure + string" where
  "sample_reader inc path dir =
     (if inside_directory ''/'' ''/c'' path then ie_readFile sample_env inc path dir else Inr ''A'')"

theorem includes_stay_in_directory_witness:
  "let obj = JObj [(INCLUDE_KEY, JStr ''./a.json''), (''y'', JBool True)];
       outside = JObj [(INCLUDE_KEY, JStr ''../c2/b.json'')];
       env' = sample_env\<lparr>ie_readFile := sample_reader\<rparr>
   in sample_reader ''../c2/b.json'' ''/c2/b.json'' ''/c'' = Inr ''A'' \<and>
      resolveConfigIncludes sample_env obj ''/c/o.json'' = Inr (JObj [(''x'', JNull), (''y'', JBool True)]) \<and>
      resolveConfigIncludes env' obj ''/c/o.json'' = Inr (JObj [(''x'', JNull), (''y'', JBool True)]) \<and>
      resolveConfigIncludes env' outside ''/c/o.json'' = Inl (Escapes_Directory ''../c2/b.json'')"
proof -
  have dir: "path_normalize (path_dirname ''/c/o.json'') = ''/c''" by code_simp
  have 1: "path_is_absolute (ie_cwd sample_env)" by code_simp
  have 2: "\<forall>inc path dir. include_allowed sample_env ''/c/o.json'' path \<longrightarrow>
      sample_reader inc path dir = ie_readFile sample_env inc path dir"
    by (simp add: include_allowed_def dir sample_reader_def sample_env_def)
  have 3: "sample_reader ''../c2/b.json'' ''/c2/b.json'' ''/c'' = Inr ''A''" by code_simp
  have 4: "resolveConfigIncludes sample_env (JObj [(INCLUDE_KEY, JStr ''./a.json''), (''y'', JBool True)]) ''/c/o.json'' =
      Inr (JObj [(''x'', JNull), (''y'', JBool True)])" by code_simp
  have 5: "resolveConfigIncludes sample_env (JObj [(INCLUDE_KEY, JStr ''../c2/b.json'')]) ''/c/o.json'' =
      Inl (Escapes_Directory ''../c2/b.json'')" by code_simp
  show ?thesis unfolding Let_def using 3 4 5 by (simp only: includes_stay_in_directory [OF 1 2])
qed

end
