(* ===== verification/Config_Props.thy ===== *)
theory Config_Props
  imports Config_Values_Props Config_Includes
begin









end
