(* ===== verification/Task_Types.thy ===== *)
theory Task_Types
  imports Config_Values
begin

text \<open>
  Background tasks and the flows that group them: the types of \<^verbatim>\<open>src/tasks/task-registry.types.ts\<close> and
  \<^verbatim>\<open>src/tasks/task-flow-registry.types.ts\<close>, the delivery context of
  \<^verbatim>\<open>src/utils/delivery-context.ts\<close>, the policies of \<^verbatim>\<open>src/tasks/task-executor-policy.ts\<close> and the counts of
  \<^verbatim>\<open>src/tasks/task-registry.summary.ts\<close>.

  The registry of message channels is filled by plugins, so normalising a channel name is a parameter.
  Instants are integers in milliseconds.
\<close>

section \<open>Delivery contexts\<close>

datatype thread_id = Thread_Num js_number | Thread_Str string

record delivery_context =
  dc_channel :: "string option"
  dc_to :: "string option"
  dc_account :: "string option"
  dc_thread :: "thread_id option"

text \<open>\<open>s || undefined\<close> and \<open>s?.trim() || undefined\<close>.\<close>

definition nonempty :: "string \<Rightarrow> string option" where
  "nonempty s = (if s = [] then None else Some s)"

definition trimmed :: "string option \<Rightarrow> string option" where
  "trimmed s = (case s of None \<Rightarrow> None | Some t \<Rightarrow> nonempty (js_trim t))"

text \<open>The account id without the cache, which the session keys are proved not to depend on.\<close>

definition normalizeOptionalAccountId :: "string option \<Rightarrow> string option" where
  "normalizeOptionalAccountId v = Option.bind (trimmed v) normalizeCanonicalAccountId"

definition normalize_thread :: "thread_id option \<Rightarrow> thread_id option" where
  "normalize_thread th =
     (case th of
        Some (Thread_Num (Fin r)) \<Rightarrow> Some (Thread_Num (Fin (of_int (js_trunc r))))
      | Some (Thread_Str s) \<Rightarrow> map_option Thread_Str (nonempty (js_trim s))
      | _ \<Rightarrow> None)"

definition normalizeDeliveryContext ::
    "(string \<Rightarrow> string option) \<Rightarrow> delivery_context option \<Rightarrow> delivery_context option" where
  "normalizeDeliveryContext normalizeMessageChannel ctx =
     (case ctx of
        None \<Rightarrow> None
      | Some c \<Rightarrow>
          let channel = Option.bind (dc_channel c) (\<lambda>ch. nonempty (js_nullish (normalizeMessageChannel ch) (js_trim ch)));
              dest = trimmed (dc_to c);
              account = normalizeOptionalAccountId (dc_account c);
              thread = normalize_thread (dc_thread c)
          in if channel = None \<and> dest = None \<and> account = None \<and> thread = None then None
             else Some \<lparr>dc_channel = channel, dc_to = dest, dc_account = account, dc_thread = thread\<rparr>)"

section \<open>Tasks\<close>

datatype task_runtime = Rt_Subagent | Rt_Acp | Rt_Cli | Rt_Cron

datatype task_status = Queued | Running | Succeeded | Failed | Timed_Out | Cancelled | Lost

datatype task_delivery_status =
  D_Pending | D_Delivered | D_Session_Queued | D_Failed | D_Parent_Missing | D_Not_Applicable

datatype task_notify_policy = Done_Only | State_Changes | Silent

datatype task_terminal_outcome = Outcome_Succeeded | Outcome_Blocked

datatype task_scope_kind = Scope_Session | Scope_System

record task =
  t_id :: string
  t_runtime :: task_runtime
  t_kind :: "string option"
  t_sourceId :: "string option"
  t_requesterSessionKey :: string
  t_ownerKey :: string
  t_scopeKind :: task_scope_kind
  t_childSessionKey :: "string option"
  t_parentFlowId :: "string option"
  t_parentTaskId :: "string option"
  t_agentId :: "string option"
  t_runId :: "string option"
  t_label :: "string option"
  t_task :: string
  t_status :: task_status
  t_deliveryStatus :: task_delivery_status
  t_notifyPolicy :: task_notify_policy
  t_createdAt :: int
  t_startedAt :: "int option"
  t_endedAt :: "int option"
  t_lastEventAt :: "int option"
  t_cleanupAfter :: "int option"
  t_error :: "string option"
  t_progressSummary :: "string option"
  t_terminalSummary :: "string option"
  t_terminalOutcome :: "task_terminal_outcome option"

record task_delivery =
  td_origin :: "delivery_context option"
  td_lastNotified :: "int option"

definition isTerminalTaskStatus :: "task_status \<Rightarrow> bool" where
  "isTerminalTaskStatus s \<longleftrightarrow> s \<in> {Succeeded, Failed, Timed_Out, Cancelled, Lost}"

definition isActiveTaskStatus :: "task_status \<Rightarrow> bool" where
  "isActiveTaskStatus s \<longleftrightarrow> s = Queued \<or> s = Running"

lemma active_or_terminal: "isActiveTaskStatus s \<longleftrightarrow> \<not> isTerminalTaskStatus s"
  by (cases s) (simp_all add: isActiveTaskStatus_def isTerminalTaskStatus_def)

section \<open>Which updates are delivered\<close>

definition shouldAutoDeliverTaskTerminalUpdate :: "task \<Rightarrow> bool" where
  "shouldAutoDeliverTaskTerminalUpdate t =
     (if t_notifyPolicy t = Silent then False
      else if t_runtime t = Rt_Subagent \<and> t_status t \<noteq> Cancelled then False
      else if \<not> isTerminalTaskStatus (t_status t) then False
      else t_deliveryStatus t = D_Pending)"

definition shouldAutoDeliverTaskStateChange :: "task \<Rightarrow> bool" where
  "shouldAutoDeliverTaskStateChange t \<longleftrightarrow>
     t_notifyPolicy t = State_Changes \<and> t_deliveryStatus t = D_Pending \<and> \<not> isTerminalTaskStatus (t_status t)"

definition shouldSuppressDuplicateTerminalDelivery :: "task \<Rightarrow> string option \<Rightarrow> bool" where
  "shouldSuppressDuplicateTerminalDelivery t preferredTaskId =
     (if t_runtime t \<noteq> Rt_Acp \<or> trimmed (t_runId t) = None then False
      else js_truthy preferredTaskId \<and> preferredTaskId \<noteq> Some (t_id t))"

section \<open>Counts\<close>

record task_summary =
  sm_total :: nat
  sm_active :: nat
  sm_terminal :: nat
  sm_failures :: nat
  sm_byStatus :: "task_status \<Rightarrow> nat"
  sm_byRuntime :: "task_runtime \<Rightarrow> nat"

definition createEmptyTaskRegistrySummary :: task_summary where
  "createEmptyTaskRegistrySummary = \<lparr>sm_total = 0, sm_active = 0, sm_terminal = 0, sm_failures = 0,
     sm_byStatus = (\<lambda>_. 0), sm_byRuntime = (\<lambda>_. 0)\<rparr>"

definition count_task :: "task_summary \<Rightarrow> task \<Rightarrow> task_summary" where
  "count_task s t =
     s\<lparr>sm_total := sm_total s + 1,
       sm_byStatus := (sm_byStatus s)(t_status t := sm_byStatus s (t_status t) + 1),
       sm_byRuntime := (sm_byRuntime s)(t_runtime t := sm_byRuntime s (t_runtime t) + 1),
       sm_active := sm_active s + (if isActiveTaskStatus (t_status t) then 1 else 0),
       sm_terminal := sm_terminal s + (if isActiveTaskStatus (t_status t) then 0 else 1),
       sm_failures := sm_failures s + (if t_status t \<in> {Failed, Timed_Out, Lost} then 1 else 0)\<rparr>"

definition summarizeTaskRecords :: "task list \<Rightarrow> task_summary" where
  "summarizeTaskRecords ts = foldl count_task createEmptyTaskRegistrySummary ts"

text \<open>The counts are the sizes of the classes.\<close>

lemma summarize_counts:
  "sm_total (summarizeTaskRecords ts) = length ts"
  "sm_active (summarizeTaskRecords ts) = length (filter (\<lambda>t. isActiveTaskStatus (t_status t)) ts)"
  "sm_terminal (summarizeTaskRecords ts) = length (filter (\<lambda>t. isTerminalTaskStatus (t_status t)) ts)"
  "sm_byStatus (summarizeTaskRecords ts) s = length (filter (\<lambda>t. t_status t = s) ts)"
  "sm_byRuntime (summarizeTaskRecords ts) r = length (filter (\<lambda>t. t_runtime t = r) ts)"
  unfolding summarizeTaskRecords_def
  by (induction ts rule: rev_induct) (auto simp: count_task_def createEmptyTaskRegistrySummary_def active_or_terminal)

section \<open>Flows\<close>

datatype flow_sync = Task_Mirrored | Managed

datatype flow_status = F_Queued | F_Running | F_Waiting | F_Blocked | F_Succeeded | F_Failed | F_Cancelled | F_Lost

record flow =
  fl_id :: string
  fl_sync :: flow_sync
  fl_ownerKey :: string
  fl_origin :: "delivery_context option"
  fl_controllerId :: "string option"
  fl_revision :: int
  fl_status :: flow_status
  fl_notifyPolicy :: task_notify_policy
  fl_goal :: string
  fl_currentStep :: "string option"
  fl_blockedTaskId :: "string option"
  fl_blockedSummary :: "string option"
  fl_stateJson :: json
  fl_waitJson :: json
  fl_cancelRequestedAt :: "int option"
  fl_createdAt :: int
  fl_updatedAt :: int
  fl_endedAt :: "int option"

definition isTerminalFlowStatus :: "flow_status \<Rightarrow> bool" where
  "isTerminalFlowStatus s \<longleftrightarrow> s \<in> {F_Succeeded, F_Failed, F_Cancelled, F_Lost}"

end
