(* ===== verification/Task_Flows.thy ===== *)
theory Task_Flows
  imports Task_Types
begin

text \<open>
  The registry of task flows, \<^verbatim>\<open>src/tasks/task-flow-registry.ts\<close>, and what the owner of a session may see
  of it, \<^verbatim>\<open>src/tasks/task-flow-owner-access.ts\<close>.

  The state is the map of flows. A patch says for each field whether it is left alone; where the source
  distinguishes an absent field from \<open>null\<close>, the field is an option of an option. The store and the observers
  only see copies of the records and are left out; new ids and the clock are arguments. A thrown error is
  \<open>Inl\<close>.
\<close>

type_synonym flows = "(string, flow) js_map"

datatype flow_error = Flow_Owner_Required | Flow_Controller_Required

record flow_patch =
  fp_status :: "flow_status option"
  fp_notifyPolicy :: "task_notify_policy option"
  fp_goal :: "string option"
  fp_currentStep :: "string option option"
  fp_blockedTaskId :: "string option option"
  fp_blockedSummary :: "string option option"
  fp_controllerId :: "string option option"
  fp_stateJson :: json
  fp_waitJson :: json
  fp_cancelRequestedAt :: "int option option"
  fp_updatedAt :: "int option"
  fp_endedAt :: "int option option"

definition empty_patch :: flow_patch where
  "empty_patch = \<lparr>fp_status = None, fp_notifyPolicy = None, fp_goal = None, fp_currentStep = None,
     fp_blockedTaskId = None, fp_blockedSummary = None, fp_controllerId = None, fp_stateJson = JUndef,
     fp_waitJson = JUndef, fp_cancelRequestedAt = None, fp_updatedAt = None, fp_endedAt = None\<rparr>"

datatype flow_update_result =
    Flow_Applied flow
  | Flow_Not_Found
  | Flow_Revision_Conflict flow

section \<open>Records\<close>

definition assertFlowOwnerKey :: "string \<Rightarrow> flow_error + string" where
  "assertFlowOwnerKey ownerKey =
     (case trimmed (Some ownerKey) of None \<Rightarrow> Inl Flow_Owner_Required | Some k \<Rightarrow> Inr k)"

definition assertControllerId :: "string option \<Rightarrow> flow_error + string" where
  "assertControllerId c = (case trimmed c of None \<Rightarrow> Inl Flow_Controller_Required | Some k \<Rightarrow> Inr k)"

definition resolveFlowGoal :: "task \<Rightarrow> string" where
  "resolveFlowGoal t = js_or (js_nullish (trimmed (t_label t)) []) (js_or (js_trim (t_task t)) ''Background task'')"

definition or_option :: "'a option \<Rightarrow> 'a option \<Rightarrow> 'a option" where
  "or_option a b = (case a of None \<Rightarrow> b | Some x \<Rightarrow> Some x)"

definition resolveFlowBlockedSummary :: "task \<Rightarrow> string option" where
  "resolveFlowBlockedSummary t =
     (if t_status t \<noteq> Succeeded \<or> t_terminalOutcome t \<noteq> Some Outcome_Blocked then None
      else or_option (trimmed (t_terminalSummary t)) (trimmed (t_progressSummary t)))"

definition deriveTaskFlowStatusFromTask :: "task \<Rightarrow> flow_status" where
  "deriveTaskFlowStatusFromTask t =
     (case t_status t of
        Queued \<Rightarrow> F_Queued
      | Running \<Rightarrow> F_Running
      | Succeeded \<Rightarrow> if t_terminalOutcome t = Some Outcome_Blocked then F_Blocked else F_Succeeded
      | Cancelled \<Rightarrow> F_Cancelled
      | Lost \<Rightarrow> F_Lost
      | _ \<Rightarrow> F_Failed)"

text \<open>The statuses that a mirrored flow treats as terminal include \<open>blocked\<close>.\<close>

definition ended_flow_status :: "flow_status \<Rightarrow> bool" where
  "ended_flow_status s \<longleftrightarrow> s \<in> {F_Succeeded, F_Blocked, F_Failed, F_Cancelled, F_Lost}"

text \<open>The parameters of \<open>createFlowRecord\<close>; \<open>JUndef\<close> is an absent blob.\<close>

record flow_params =
  cf_syncMode :: "flow_sync option"
  cf_ownerKey :: string
  cf_requesterOrigin :: "delivery_context option"
  cf_controllerId :: "string option"
  cf_revision :: "int option"
  cf_status :: "flow_status option"
  cf_notifyPolicy :: "task_notify_policy option"
  cf_goal :: string
  cf_currentStep :: "string option"
  cf_blockedTaskId :: "string option"
  cf_blockedSummary :: "string option"
  cf_stateJson :: json
  cf_waitJson :: json
  cf_cancelRequestedAt :: "int option"
  cf_createdAt :: "int option"
  cf_updatedAt :: "int option"
  cf_endedAt :: "int option"

definition buildFlowRecord :: "string \<Rightarrow> int \<Rightarrow> flow_params \<Rightarrow> flow_error + flow" where
  "buildFlowRecord newId clock p =
     (let now = js_nullish (cf_createdAt p) clock;
          syncMode = js_nullish (cf_syncMode p) Managed;
          controllerId = (if syncMode = Managed then map_sum id Some (assertControllerId (cf_controllerId p)) else Inr None)
      in case controllerId of
           Inl e \<Rightarrow> Inl e
         | Inr c \<Rightarrow>
             (case assertFlowOwnerKey (cf_ownerKey p) of
                Inl e \<Rightarrow> Inl e
              | Inr owner \<Rightarrow> Inr \<lparr>fl_id = newId, fl_sync = syncMode, fl_ownerKey = owner,
                  fl_origin = cf_requesterOrigin p, fl_controllerId = c,
                  fl_revision = max 0 (js_nullish (cf_revision p) 0),
                  fl_status = js_nullish (cf_status p) F_Queued,
                  fl_notifyPolicy = js_nullish (cf_notifyPolicy p) Done_Only,
                  fl_goal = cf_goal p,
                  fl_currentStep = trimmed (cf_currentStep p),
                  fl_blockedTaskId = trimmed (cf_blockedTaskId p),
                  fl_blockedSummary = trimmed (cf_blockedSummary p),
                  fl_stateJson = cf_stateJson p, fl_waitJson = cf_waitJson p,
                  fl_cancelRequestedAt = cf_cancelRequestedAt p,
                  fl_createdAt = now, fl_updatedAt = js_nullish (cf_updatedAt p) now,
                  fl_endedAt = cf_endedAt p\<rparr>))"

text \<open>A flow that is read back from the store.\<close>

definition normalizeRestoredFlowRecord :: "flow \<Rightarrow> flow_error + flow" where
  "normalizeRestoredFlowRecord f =
     (case assertFlowOwnerKey (fl_ownerKey f) of
        Inl e \<Rightarrow> Inl e
      | Inr owner \<Rightarrow> Inr (f\<lparr>fl_ownerKey := owner,
          fl_controllerId := (if fl_sync f = Managed
            then or_option (trimmed (fl_controllerId f)) (Some ''core/legacy-restored'') else fl_controllerId f),
          fl_currentStep := trimmed (fl_currentStep f),
          fl_blockedTaskId := trimmed (fl_blockedTaskId f),
          fl_blockedSummary := trimmed (fl_blockedSummary f),
          fl_revision := max 0 (fl_revision f)\<rparr>))"

text \<open>The loop of \<open>ensureFlowRegistryReady\<close>: a record without an owner throws, and the registry stays empty.\<close>

fun restore_loop :: "(string \<times> flow) list \<Rightarrow> flows \<Rightarrow> flow_error + flows" where
  "restore_loop [] fs = Inr fs"
| "restore_loop ((flowId, f) # rest) fs =
     (case normalizeRestoredFlowRecord f of Inl e \<Rightarrow> Inl e | Inr g \<Rightarrow> restore_loop rest (map_put flowId g fs))"

definition ensureFlowRegistryReady :: "(string \<times> flow) list \<Rightarrow> flow_error option \<times> flows" where
  "ensureFlowRegistryReady stored =
     (case restore_loop stored [] of Inl e \<Rightarrow> (Some e, []) | Inr fs \<Rightarrow> (None, fs))"

text \<open>An absent field keeps the old text; \<open>null\<close> and text without content clear it.\<close>

definition patch_text :: "string option option \<Rightarrow> string option \<Rightarrow> string option" where
  "patch_text p current = (case p of None \<Rightarrow> current | Some t \<Rightarrow> trimmed t)"

definition patch_json :: "json \<Rightarrow> json \<Rightarrow> json" where
  "patch_json p current = (if is_undef p then current else p)"

definition applyFlowPatch :: "int \<Rightarrow> flow \<Rightarrow> flow_patch \<Rightarrow> flow_error + flow" where
  "applyFlowPatch clock f p =
     (let controllerId = patch_text (fp_controllerId p) (fl_controllerId f) in
      if fl_sync f = Managed \<and> trimmed controllerId = None then Inl Flow_Controller_Required
      else Inr (f\<lparr>fl_status := js_nullish (fp_status p) (fl_status f),
        fl_notifyPolicy := js_nullish (fp_notifyPolicy p) (fl_notifyPolicy f),
        fl_goal := js_or (js_nullish (fp_goal p) []) (fl_goal f),
        fl_controllerId := controllerId,
        fl_currentStep := patch_text (fp_currentStep p) (fl_currentStep f),
        fl_blockedTaskId := patch_text (fp_blockedTaskId p) (fl_blockedTaskId f),
        fl_blockedSummary := patch_text (fp_blockedSummary p) (fl_blockedSummary f),
        fl_stateJson := patch_json (fp_stateJson p) (fl_stateJson f),
        fl_waitJson := patch_json (fp_waitJson p) (fl_waitJson f),
        fl_cancelRequestedAt := js_nullish (fp_cancelRequestedAt p) (fl_cancelRequestedAt f),
        fl_revision := fl_revision f + 1,
        fl_updatedAt := js_nullish (fp_updatedAt p) clock,
        fl_endedAt := js_nullish (fp_endedAt p) (fl_endedAt f)\<rparr>))"

section \<open>Operations\<close>

definition writeFlowRecord :: "flow \<Rightarrow> flows \<Rightarrow> flows" where
  "writeFlowRecord f fs = map_put (fl_id f) f fs"

definition getTaskFlowById :: "flows \<Rightarrow> string \<Rightarrow> flow option" where
  "getTaskFlowById fs flowId = map_get fs flowId"

definition createFlowRecord :: "string \<Rightarrow> int \<Rightarrow> flow_params \<Rightarrow> flows \<Rightarrow> (flow_error + flow) \<times> flows" where
  "createFlowRecord newId clock p fs =
     (case buildFlowRecord newId clock p of
        Inl e \<Rightarrow> (Inl e, fs)
      | Inr f \<Rightarrow> (Inr f, writeFlowRecord f fs))"

definition createManagedTaskFlow :: "string \<Rightarrow> int \<Rightarrow> flow_params \<Rightarrow> flows \<Rightarrow> (flow_error + flow) \<times> flows" where
  "createManagedTaskFlow newId clock p fs =
     (case assertControllerId (cf_controllerId p) of
        Inl e \<Rightarrow> (Inl e, fs)
      | Inr c \<Rightarrow> createFlowRecord newId clock (p\<lparr>cf_syncMode := Some Managed, cf_controllerId := Some c\<rparr>) fs)"

definition createTaskFlowForTask ::
    "string \<Rightarrow> int \<Rightarrow> task \<Rightarrow> delivery_context option \<Rightarrow> flows \<Rightarrow> (flow_error + flow) \<times> flows" where
  "createTaskFlowForTask newId clock t requesterOrigin fs =
     (let status = deriveTaskFlowStatusFromTask t;
          lastAt = js_nullish (t_lastEventAt t) (t_createdAt t)
      in createFlowRecord newId clock
           \<lparr>cf_syncMode = Some Task_Mirrored, cf_ownerKey = t_ownerKey t, cf_requesterOrigin = requesterOrigin,
            cf_controllerId = None, cf_revision = None, cf_status = Some status,
            cf_notifyPolicy = Some (t_notifyPolicy t), cf_goal = resolveFlowGoal t, cf_currentStep = None,
            cf_blockedTaskId = (if status = F_Blocked then nonempty (js_trim (t_id t)) else None),
            cf_blockedSummary = resolveFlowBlockedSummary t, cf_stateJson = JUndef, cf_waitJson = JUndef,
            cf_cancelRequestedAt = None, cf_createdAt = Some (t_createdAt t), cf_updatedAt = Some lastAt,
            cf_endedAt = (if ended_flow_status status then Some (js_nullish (t_endedAt t) lastAt) else None)\<rparr> fs)"

definition updateFlowRecordByIdUnchecked ::
    "int \<Rightarrow> string \<Rightarrow> flow_patch \<Rightarrow> flows \<Rightarrow> (flow_error + flow option) \<times> flows" where
  "updateFlowRecordByIdUnchecked clock flowId p fs =
     (case map_get fs flowId of
        None \<Rightarrow> (Inr None, fs)
      | Some f \<Rightarrow>
          (case applyFlowPatch clock f p of
             Inl e \<Rightarrow> (Inl e, fs)
           | Inr g \<Rightarrow> (Inr (Some g), writeFlowRecord g fs)))"

definition updateFlowRecordByIdExpectedRevision ::
    "int \<Rightarrow> string \<Rightarrow> int \<Rightarrow> flow_patch \<Rightarrow> flows \<Rightarrow> (flow_error + flow_update_result) \<times> flows" where
  "updateFlowRecordByIdExpectedRevision clock flowId expectedRevision p fs =
     (case map_get fs flowId of
        None \<Rightarrow> (Inr Flow_Not_Found, fs)
      | Some f \<Rightarrow>
          if fl_revision f \<noteq> expectedRevision then (Inr (Flow_Revision_Conflict f), fs)
          else (case applyFlowPatch clock f p of
                  Inl e \<Rightarrow> (Inl e, fs)
                | Inr g \<Rightarrow> (Inr (Flow_Applied g), writeFlowRecord g fs)))"

text \<open>The patches of the named transitions. An absent or \<open>null\<close> parameter is passed on as it is.\<close>

definition waiting_patch :: "string option option \<Rightarrow> json \<Rightarrow> json \<Rightarrow> string option option \<Rightarrow> string option option
    \<Rightarrow> int option \<Rightarrow> flow_patch" where
  "waiting_patch currentStep stateJson waitJson blockedTaskId blockedSummary updatedAt =
     empty_patch\<lparr>fp_status := Some (if trimmed (Option.bind blockedTaskId id) \<noteq> None \<or>
          trimmed (Option.bind blockedSummary id) \<noteq> None then F_Blocked else F_Waiting),
       fp_currentStep := currentStep, fp_stateJson := stateJson, fp_waitJson := waitJson,
       fp_blockedTaskId := blockedTaskId, fp_blockedSummary := blockedSummary, fp_endedAt := Some None,
       fp_updatedAt := updatedAt\<rparr>"

definition setFlowWaiting where
  "setFlowWaiting clock flowId expectedRevision currentStep stateJson waitJson blockedTaskId blockedSummary updatedAt fs =
     updateFlowRecordByIdExpectedRevision clock flowId expectedRevision
       (waiting_patch currentStep stateJson waitJson blockedTaskId blockedSummary updatedAt) fs"

definition resume_patch :: "flow_status option \<Rightarrow> string option option \<Rightarrow> json \<Rightarrow> int option \<Rightarrow> flow_patch" where
  "resume_patch status currentStep stateJson updatedAt =
     empty_patch\<lparr>fp_status := Some (js_nullish status F_Queued), fp_currentStep := currentStep,
       fp_stateJson := stateJson, fp_waitJson := JNull, fp_blockedTaskId := Some None,
       fp_blockedSummary := Some None, fp_endedAt := Some None, fp_updatedAt := updatedAt\<rparr>"

definition resumeFlow where
  "resumeFlow clock flowId expectedRevision status currentStep stateJson updatedAt fs =
     updateFlowRecordByIdExpectedRevision clock flowId expectedRevision
       (resume_patch status currentStep stateJson updatedAt) fs"

definition finish_patch :: "int \<Rightarrow> string option option \<Rightarrow> json \<Rightarrow> int option \<Rightarrow> int option \<Rightarrow> flow_patch" where
  "finish_patch clock currentStep stateJson updatedAt endedAt =
     (let ended = js_nullish (or_option endedAt updatedAt) clock in
      empty_patch\<lparr>fp_status := Some F_Succeeded, fp_currentStep := currentStep, fp_stateJson := stateJson,
        fp_waitJson := JNull, fp_blockedTaskId := Some None, fp_blockedSummary := Some None,
        fp_endedAt := Some (Some ended), fp_updatedAt := Some (js_nullish updatedAt ended)\<rparr>)"

definition finishFlow where
  "finishFlow clock flowId expectedRevision currentStep stateJson updatedAt endedAt fs =
     updateFlowRecordByIdExpectedRevision clock flowId expectedRevision
       (finish_patch clock currentStep stateJson updatedAt endedAt) fs"

definition fail_patch :: "int \<Rightarrow> string option option \<Rightarrow> json \<Rightarrow> string option option \<Rightarrow> string option option
    \<Rightarrow> int option \<Rightarrow> int option \<Rightarrow> flow_patch" where
  "fail_patch clock currentStep stateJson blockedTaskId blockedSummary updatedAt endedAt =
     (let ended = js_nullish (or_option endedAt updatedAt) clock in
      empty_patch\<lparr>fp_status := Some F_Failed, fp_currentStep := currentStep, fp_stateJson := stateJson,
        fp_waitJson := JNull, fp_blockedTaskId := blockedTaskId, fp_blockedSummary := blockedSummary,
        fp_endedAt := Some (Some ended), fp_updatedAt := Some (js_nullish updatedAt ended)\<rparr>)"

definition failFlow where
  "failFlow clock flowId expectedRevision currentStep stateJson blockedTaskId blockedSummary updatedAt endedAt fs =
     updateFlowRecordByIdExpectedRevision clock flowId expectedRevision
       (fail_patch clock currentStep stateJson blockedTaskId blockedSummary updatedAt endedAt) fs"

definition requestFlowCancel where
  "requestFlowCancel clock flowId expectedRevision cancelRequestedAt updatedAt fs =
     updateFlowRecordByIdExpectedRevision clock flowId expectedRevision
       (empty_patch\<lparr>fp_cancelRequestedAt := Some (Some (js_nullish (or_option cancelRequestedAt updatedAt) clock)),
          fp_updatedAt := updatedAt\<rparr>) fs"

text \<open>A mirrored flow follows its task.\<close>

definition mirror_patch :: "int \<Rightarrow> task \<Rightarrow> flow_patch" where
  "mirror_patch clock t =
     (let status = deriveTaskFlowStatusFromTask t in
      empty_patch\<lparr>fp_status := Some status, fp_notifyPolicy := Some (t_notifyPolicy t),
        fp_goal := Some (resolveFlowGoal t),
        fp_blockedTaskId := Some (if status = F_Blocked then nonempty (js_trim (t_id t)) else None),
        fp_blockedSummary := Some (if status = F_Blocked then resolveFlowBlockedSummary t else None),
        fp_waitJson := JNull, fp_updatedAt := Some (js_nullish (t_lastEventAt t) clock),
        fp_endedAt := Some (if ended_flow_status status
          then Some (js_nullish (or_option (t_endedAt t) (t_lastEventAt t)) clock) else None)\<rparr>)"

definition syncFlowFromTask :: "int \<Rightarrow> task \<Rightarrow> flows \<Rightarrow> (flow_error + flow option) \<times> flows" where
  "syncFlowFromTask clock t fs =
     (case trimmed (t_parentFlowId t) of
        None \<Rightarrow> (Inr None, fs)
      | Some flowId \<Rightarrow>
          (case getTaskFlowById fs flowId of
             None \<Rightarrow> (Inr None, fs)
           | Some f \<Rightarrow>
               if fl_sync f \<noteq> Task_Mirrored then (Inr (Some f), fs)
               else updateFlowRecordByIdUnchecked clock flowId (mirror_patch clock t) fs))"

definition newest_first :: "flow \<Rightarrow> flow \<Rightarrow> int" where
  "newest_first l r = fl_createdAt r - fl_createdAt l"

definition listTaskFlowsForOwnerKey :: "flows \<Rightarrow> string \<Rightarrow> flow list" where
  "listTaskFlowsForOwnerKey fs ownerKey =
     (if js_trim ownerKey = [] then []
      else js_sort newest_first (filter (\<lambda>f. js_trim (fl_ownerKey f) = js_trim ownerKey) (map snd fs)))"

definition first_of :: "'a list \<Rightarrow> 'a option" where
  "first_of xs = (case xs of [] \<Rightarrow> None | x # _ \<Rightarrow> Some x)"

definition findLatestTaskFlowForOwnerKey :: "flows \<Rightarrow> string \<Rightarrow> flow option" where
  "findLatestTaskFlowForOwnerKey fs ownerKey = first_of (listTaskFlowsForOwnerKey fs ownerKey)"

definition resolveTaskFlowForLookupToken :: "flows \<Rightarrow> string \<Rightarrow> flow option" where
  "resolveTaskFlowForLookupToken fs token =
     (if js_trim token = [] then None
      else or_option (getTaskFlowById fs (js_trim token)) (findLatestTaskFlowForOwnerKey fs (js_trim token)))"

definition listTaskFlowRecords :: "flows \<Rightarrow> flow list" where
  "listTaskFlowRecords fs = js_sort newest_first (map snd fs)"

definition deleteTaskFlowRecordById :: "string \<Rightarrow> flows \<Rightarrow> bool \<times> flows" where
  "deleteTaskFlowRecordById flowId fs =
     (case map_get fs flowId of None \<Rightarrow> (False, fs) | Some _ \<Rightarrow> (True, map_del flowId fs))"

section \<open>What the owner of a session may see\<close>

definition canOwnerAccessFlow :: "flow \<Rightarrow> string \<Rightarrow> bool" where
  "canOwnerAccessFlow f callerOwnerKey \<longleftrightarrow> trimmed (Some (fl_ownerKey f)) = trimmed (Some callerOwnerKey)"

definition keep_if :: "('a \<Rightarrow> bool) \<Rightarrow> 'a option \<Rightarrow> 'a option" where
  "keep_if P x = (case x of None \<Rightarrow> None | Some v \<Rightarrow> if P v then Some v else None)"

definition getTaskFlowByIdForOwner :: "flows \<Rightarrow> string \<Rightarrow> string \<Rightarrow> flow option" where
  "getTaskFlowByIdForOwner fs flowId callerOwnerKey =
     keep_if (\<lambda>f. canOwnerAccessFlow f callerOwnerKey) (getTaskFlowById fs flowId)"

definition listTaskFlowsForOwner :: "flows \<Rightarrow> string \<Rightarrow> flow list" where
  "listTaskFlowsForOwner fs callerOwnerKey =
     (case trimmed (Some callerOwnerKey) of None \<Rightarrow> [] | Some k \<Rightarrow> listTaskFlowsForOwnerKey fs k)"

definition findLatestTaskFlowForOwner :: "flows \<Rightarrow> string \<Rightarrow> flow option" where
  "findLatestTaskFlowForOwner fs callerOwnerKey =
     Option.bind (trimmed (Some callerOwnerKey)) (findLatestTaskFlowForOwnerKey fs)"

definition resolveTaskFlowForLookupTokenForOwner :: "flows \<Rightarrow> string \<Rightarrow> string \<Rightarrow> flow option" where
  "resolveTaskFlowForLookupTokenForOwner fs token callerOwnerKey =
     (case getTaskFlowByIdForOwner fs token callerOwnerKey of
        Some f \<Rightarrow> Some f
      | None \<Rightarrow>
          (case trimmed (Some token) of
             None \<Rightarrow> None
           | Some tok \<Rightarrow>
               if Some tok \<noteq> trimmed (Some callerOwnerKey) then None else findLatestTaskFlowForOwner fs tok))"

end
