(* ===== verification/Task_Registry.thy ===== *)
theory Task_Registry
  imports Task_Flows
begin

text \<open>
  The registry of background tasks, \<^verbatim>\<open>src/tasks/task-registry.ts\<close>, with its four indexes, its link to the
  flow registry and the delivery of task updates.

  The state is the record of the module's maps together with the flow registry, the deliveries that wait for
  the channel, and the calls made to other components in order (system events, heartbeats, messages).
  Date.now, new ids and the parameters of the environment are arguments: the channel registry and
  the text sanitizer of \<^verbatim>\<open>src/tasks/task-status.ts\<close>, which belongs to the agent runner. Copies of records are
  the records; the store and the observers, which only see copies, are left out.
\<close>

section \<open>State\<close>

type_synonym task_index = "(string, string list) js_map"

record task_event =
  ev_at :: int
  ev_kind :: "task_status option"
  ev_summary :: "string option"

record task_owner =
  ow_sessionKey :: "string option"
  ow_origin :: "delivery_context option"
  ow_flowId :: "string option"

record outgoing_message =
  om_channel :: "string option"
  om_to :: string
  om_account :: "string option"
  om_thread :: "thread_id option"
  om_content :: string
  om_agentId :: "string option"
  om_idempotencyKey :: string
  om_sessionKey :: string

datatype task_call =
    System_Event string string string "delivery_context option"
  | Request_Heartbeat string string
  | Send_Message outgoing_message

text \<open>A delivery that waits: what the function has computed before its first \<open>await\<close>. A job for a state change
  also holds the event and the requester origin that was stored then.\<close>

datatype job_kind = Terminal_Job | State_Change_Job task_event "delivery_context option"

record delivery_job =
  dj_kind :: job_kind
  dj_task :: task
  dj_owner :: task_owner
  dj_text :: string
  dj_sent :: bool

record task_registry =
  tr_tasks :: "(string, task) js_map"
  tr_delivery :: "(string, task_delivery) js_map"
  tr_byRunId :: task_index
  tr_byOwnerKey :: task_index
  tr_byFlowId :: task_index
  tr_bySession :: task_index
  tr_pending :: "string list"
  tr_flows :: flows
  tr_jobs :: "(nat, delivery_job) js_map"
  tr_nextJob :: nat
  tr_calls :: "task_call list"

definition empty_registry :: task_registry where
  "empty_registry = \<lparr>tr_tasks = [], tr_delivery = [], tr_byRunId = [], tr_byOwnerKey = [], tr_byFlowId = [],
     tr_bySession = [], tr_pending = [], tr_flows = [], tr_jobs = [], tr_nextJob = 0, tr_calls = []\<rparr>"

record task_env =
  te_normalizeChannel :: "string \<Rightarrow> string option"
  te_deliverable :: "string \<Rightarrow> bool"
  te_sanitize :: "bool \<Rightarrow> string \<Rightarrow> string"
  te_titleText :: "string \<Rightarrow> string"

datatype link_error_code =
  Link_Scope_Not_Session | Link_Flow_Not_Found | Link_Owner_Mismatch | Link_Cancel_Requested | Link_Terminal

datatype task_error = Task_Owner_Required | ParentFlowLinkError link_error_code string

definition DEFAULT_TASK_RETENTION_MS :: int where
  "DEFAULT_TASK_RETENTION_MS = 7 * 24 * 60 * 60000"

section \<open>Checks and defaults\<close>

definition assertTaskOwner :: "string \<Rightarrow> task_scope_kind \<Rightarrow> task_error + unit" where
  "assertTaskOwner ownerKey scopeKind =
     (if js_trim ownerKey = [] \<and> scopeKind \<noteq> Scope_System then Inl Task_Owner_Required else Inr ())"

definition normalizeOwnerKey :: "string \<Rightarrow> string option" where
  "normalizeOwnerKey ownerKey = trimmed (Some ownerKey)"

definition assertParentFlowLinkAllowed ::
    "flows \<Rightarrow> string \<Rightarrow> task_scope_kind \<Rightarrow> string option \<Rightarrow> task_error + unit" where
  "assertParentFlowLinkAllowed fs ownerKey scopeKind parentFlowId =
     (case trimmed parentFlowId of
        None \<Rightarrow> Inr ()
      | Some flowId \<Rightarrow>
          if scopeKind \<noteq> Scope_Session then Inl (ParentFlowLinkError Link_Scope_Not_Session flowId)
          else (case getTaskFlowById fs flowId of
              None \<Rightarrow> Inl (ParentFlowLinkError Link_Flow_Not_Found flowId)
            | Some f \<Rightarrow>
                if normalizeOwnerKey (fl_ownerKey f) \<noteq> normalizeOwnerKey ownerKey
                then Inl (ParentFlowLinkError Link_Owner_Mismatch flowId)
                else if fl_cancelRequestedAt f \<noteq> None then Inl (ParentFlowLinkError Link_Cancel_Requested flowId)
                else if isTerminalFlowStatus (fl_status f) then Inl (ParentFlowLinkError Link_Terminal flowId)
                else Inr ()))"

definition ensureDeliveryStatus :: "string \<Rightarrow> task_scope_kind \<Rightarrow> task_delivery_status" where
  "ensureDeliveryStatus ownerKey scopeKind =
     (if scopeKind = Scope_System then D_Not_Applicable
      else if js_trim ownerKey \<noteq> [] then D_Pending else D_Parent_Missing)"

definition ensureNotifyPolicy ::
    "task_notify_policy option \<Rightarrow> task_delivery_status option \<Rightarrow> string \<Rightarrow> task_scope_kind \<Rightarrow> task_notify_policy" where
  "ensureNotifyPolicy notifyPolicy deliveryStatus ownerKey scopeKind =
     (case notifyPolicy of
        Some p \<Rightarrow> p
      | None \<Rightarrow> if js_nullish deliveryStatus (ensureDeliveryStatus ownerKey scopeKind) = D_Not_Applicable
                then Silent else Done_Only)"

definition resolveTaskScopeKind :: "task_scope_kind option \<Rightarrow> string \<Rightarrow> task_scope_kind" where
  "resolveTaskScopeKind scopeKind requesterSessionKey =
     (case scopeKind of Some s \<Rightarrow> s | None \<Rightarrow> if js_trim requesterSessionKey \<noteq> [] then Scope_Session else Scope_System)"

definition resolveTaskRequesterSessionKey ::
    "string option \<Rightarrow> string option \<Rightarrow> task_scope_kind option \<Rightarrow> string" where
  "resolveTaskRequesterSessionKey requesterSessionKey ownerKey scopeKind =
     (case trimmed requesterSessionKey of
        Some k \<Rightarrow> k
      | None \<Rightarrow> if scopeKind = Some Scope_System then [] else js_trim (js_nullish ownerKey []))"

definition resolveTaskOwnerKey :: "string \<Rightarrow> string option \<Rightarrow> string" where
  "resolveTaskOwnerKey requesterSessionKey ownerKey =
     (case trimmed ownerKey of Some k \<Rightarrow> k | None \<Rightarrow> js_trim requesterSessionKey)"

text \<open>\<open>value?.replace(/\s+/g, " ").trim()\<close>, or nothing when that is empty.\<close>

fun collapse_space :: "bool \<Rightarrow> string \<Rightarrow> string" where
  "collapse_space _ [] = []"
| "collapse_space in_space (c # s) =
     (if js_space c then (if in_space then collapse_space True s else CHR '' '' # collapse_space True s)
      else c # collapse_space False s)"

definition normalizeTaskSummary :: "string option \<Rightarrow> string option" where
  "normalizeTaskSummary v = trimmed (map_option (collapse_space False) v)"

definition resolveTaskTerminalOutcome :: "task_status \<Rightarrow> task_terminal_outcome option \<Rightarrow> task_terminal_outcome option" where
  "resolveTaskTerminalOutcome status outcome =
     (case outcome of Some x \<Rightarrow> Some x | None \<Rightarrow> if status = Succeeded then Some Outcome_Succeeded else None)"

text \<open>The kind \<open>progress\<close> of an event is the absent status.\<close>

definition appendTaskEvent :: "int \<Rightarrow> task_status option \<Rightarrow> string option \<Rightarrow> task_event" where
  "appendTaskEvent eventAt kind summary = \<lparr>ev_at = eventAt, ev_kind = kind, ev_summary = normalizeTaskSummary summary\<rparr>"

section \<open>Indexes\<close>

definition addIndexedKey :: "string \<Rightarrow> string \<Rightarrow> task_index \<Rightarrow> task_index" where
  "addIndexedKey key taskId ix =
     (let ids = js_nullish (map_get ix key) []
      in map_put key (if taskId \<in> set ids then ids else ids @ [taskId]) ix)"

definition deleteIndexedKey :: "string \<Rightarrow> string \<Rightarrow> task_index \<Rightarrow> task_index" where
  "deleteIndexedKey key taskId ix =
     (case map_get ix key of
        None \<Rightarrow> ix
      | Some ids \<Rightarrow>
          let rest = filter (\<lambda>i. i \<noteq> taskId) ids
          in if rest = [] then map_del key ix else map_put key rest ix)"

text \<open>The keys under which each index files a task.\<close>

definition the_list :: "'a option \<Rightarrow> 'a list" where
  "the_list x = (case x of None \<Rightarrow> [] | Some v \<Rightarrow> [v])"

definition run_keys :: "task \<Rightarrow> string list" where
  "run_keys t = the_list (trimmed (t_runId t))"

definition owner_keys :: "task \<Rightarrow> string list" where
  "owner_keys t = the_list (trimmed (Some (t_ownerKey t)))"

definition flow_keys :: "task \<Rightarrow> string list" where
  "flow_keys t = the_list (trimmed (t_parentFlowId t))"

definition getTaskRelatedSessionIndexKeys :: "task \<Rightarrow> string list" where
  "getTaskRelatedSessionIndexKeys t =
     js_unique (the_list (trimmed (Some (t_ownerKey t))) @ the_list (trimmed (t_childSessionKey t)))"

definition add_keys :: "string list \<Rightarrow> string \<Rightarrow> task_index \<Rightarrow> task_index" where
  "add_keys keys taskId ix = foldl (\<lambda>ix k. addIndexedKey k taskId ix) ix keys"

definition delete_keys :: "string list \<Rightarrow> string \<Rightarrow> task_index \<Rightarrow> task_index" where
  "delete_keys keys taskId ix = foldl (\<lambda>ix k. deleteIndexedKey k taskId ix) ix keys"

definition rebuild_index :: "(task \<Rightarrow> string list) \<Rightarrow> (string, task) js_map \<Rightarrow> task_index" where
  "rebuild_index keys ts = foldl (\<lambda>ix (taskId, t). add_keys (keys t) taskId ix) [] ts"

section \<open>Reading\<close>

text \<open>Newest first; of tasks with the same instant, the one that was inserted later.\<close>

definition compareTasksNewestFirst :: "nat \<times> task \<Rightarrow> nat \<times> task \<Rightarrow> int" where
  "compareTasksNewestFirst l r =
     (let d = t_createdAt (snd r) - t_createdAt (snd l) in if d \<noteq> 0 then d else int (fst r) - int (fst l))"

definition sort_tasks :: "(nat \<times> task) list \<Rightarrow> task list" where
  "sort_tasks its = map snd (js_sort compareTasksNewestFirst its)"

definition listTaskRecords :: "task_registry \<Rightarrow> task list" where
  "listTaskRecords st = sort_tasks (enumerate 0 (map snd (tr_tasks st)))"

definition indexed_tasks :: "(string, task) js_map \<Rightarrow> (nat \<times> string) list \<Rightarrow> (nat \<times> task) list" where
  "indexed_tasks ts ids = concat (map (\<lambda>(n, i). map (Pair n) (the_list (map_get ts i))) ids)"

definition listTasksFromIndex :: "(string, task) js_map \<Rightarrow> task_index \<Rightarrow> string \<Rightarrow> task list" where
  "listTasksFromIndex ts ix key =
     (case map_get ix key of None \<Rightarrow> [] | Some ids \<Rightarrow> sort_tasks (indexed_tasks ts (enumerate 0 ids)))"

definition list_by :: "(string, task) js_map \<Rightarrow> task_index \<Rightarrow> string \<Rightarrow> task list" where
  "list_by ts ix key = (case trimmed (Some key) of None \<Rightarrow> [] | Some k \<Rightarrow> listTasksFromIndex ts ix k)"

definition listTasksForSessionKey :: "task_registry \<Rightarrow> string \<Rightarrow> task list" where
  "listTasksForSessionKey st sessionKey = list_by (tr_tasks st) (tr_bySession st) sessionKey"

definition listTasksForRelatedSessionKey :: "task_registry \<Rightarrow> string \<Rightarrow> task list" where
  "listTasksForRelatedSessionKey st sessionKey = list_by (tr_tasks st) (tr_bySession st) sessionKey"

definition listTasksForOwnerKey :: "task_registry \<Rightarrow> string \<Rightarrow> task list" where
  "listTasksForOwnerKey st ownerKey = list_by (tr_tasks st) (tr_byOwnerKey st) ownerKey"

definition listTasksForFlowId :: "task_registry \<Rightarrow> string \<Rightarrow> task list" where
  "listTasksForFlowId st flowId = list_by (tr_tasks st) (tr_byFlowId st) flowId"

definition listTasksForAgentId :: "task_registry \<Rightarrow> string \<Rightarrow> task list" where
  "listTasksForAgentId st agentId =
     (if js_trim agentId = [] then []
      else sort_tasks (map (Pair 0) (filter (\<lambda>t. map_option js_trim (t_agentId t) = Some (js_trim agentId))
        (map snd (tr_tasks st)))))"

definition findLatestTaskForSessionKey :: "task_registry \<Rightarrow> string \<Rightarrow> task option" where
  "findLatestTaskForSessionKey st k = first_of (listTasksForSessionKey st k)"

definition findLatestTaskForOwnerKey :: "task_registry \<Rightarrow> string \<Rightarrow> task option" where
  "findLatestTaskForOwnerKey st k = first_of (listTasksForOwnerKey st k)"

definition findLatestTaskForFlowId :: "task_registry \<Rightarrow> string \<Rightarrow> task option" where
  "findLatestTaskForFlowId st k = first_of (listTasksForFlowId st k)"

definition findLatestTaskForRelatedSessionKey :: "task_registry \<Rightarrow> string \<Rightarrow> task option" where
  "findLatestTaskForRelatedSessionKey st k = first_of (listTasksForRelatedSessionKey st k)"

definition getTasksByRunId :: "task_registry \<Rightarrow> string \<Rightarrow> task list" where
  "getTasksByRunId st runId =
     concat (map (\<lambda>i. the_list (map_get (tr_tasks st) i)) (js_nullish (map_get (tr_byRunId st) (js_trim runId)) []))"

definition normalizeComparableText :: "string option \<Rightarrow> string" where
  "normalizeComparableText v = js_trim (js_nullish v [])"

definition runtime_text :: "task_runtime \<Rightarrow> string" where
  "runtime_text r = (case r of Rt_Subagent \<Rightarrow> ''subagent'' | Rt_Acp \<Rightarrow> ''acp'' | Rt_Cli \<Rightarrow> ''cli'' | Rt_Cron \<Rightarrow> ''cron'')"

definition scope_text :: "task_scope_kind \<Rightarrow> string" where
  "scope_text k = (case k of Scope_Session \<Rightarrow> ''session'' | Scope_System \<Rightarrow> ''system'')"

definition taskRunScopeKey :: "task \<Rightarrow> string" where
  "taskRunScopeKey t = js_join [CHR 0x00] [runtime_text (t_runtime t), scope_text (t_scopeKind t),
     normalizeComparableText (Some (t_ownerKey t)), normalizeComparableText (t_childSessionKey t)]"

definition getTasksByRunScope :: "task_registry \<Rightarrow> string \<Rightarrow> task_runtime option \<Rightarrow> string option \<Rightarrow> task list" where
  "getTasksByRunScope st runId runtime sessionKey =
     (let matches = filter (\<lambda>t. runtime = None \<or> Some (t_runtime t) = runtime) (getTasksByRunId st runId)
      in case trimmed sessionKey of
           Some k \<Rightarrow>
             (let childMatches = filter (\<lambda>t. trimmed (t_childSessionKey t) = Some k) matches
              in if childMatches \<noteq> [] then childMatches
                 else filter (\<lambda>t. t_scopeKind t = Scope_Session \<and> trimmed (Some (t_ownerKey t)) = Some k) matches)
         | None \<Rightarrow> if length (js_unique (map taskRunScopeKey matches)) \<le> 1 then matches else [])"

definition getPeerTasksForDelivery :: "task_registry \<Rightarrow> task \<Rightarrow> task list" where
  "getPeerTasksForDelivery st t =
     (case trimmed (t_runId t) of
        None \<Rightarrow> []
      | Some _ \<Rightarrow> filter (\<lambda>c. t_runtime c = t_runtime t \<and> t_scopeKind c = t_scopeKind t \<and>
          normalizeComparableText (Some (t_ownerKey c)) = normalizeComparableText (Some (t_ownerKey t)) \<and>
          normalizeComparableText (t_childSessionKey c) = normalizeComparableText (t_childSessionKey t))
        (getTasksByRunId st (the (t_runId t))))"

definition taskLookupPriority :: "task \<Rightarrow> int" where
  "taskLookupPriority t = (if t_runtime t = Rt_Cli then 1 else 0)"

definition compare_preferred :: "task \<Rightarrow> task \<Rightarrow> int" where
  "compare_preferred l r =
     (let d = taskLookupPriority l - taskLookupPriority r in if d \<noteq> 0 then d else t_createdAt l - t_createdAt r)"

definition pickPreferredRunIdTask :: "task list \<Rightarrow> task option" where
  "pickPreferredRunIdTask matches = first_of (js_sort compare_preferred matches)"

definition getTaskById :: "task_registry \<Rightarrow> string \<Rightarrow> task option" where
  "getTaskById st taskId = map_get (tr_tasks st) (js_trim taskId)"

definition findTaskByRunId :: "task_registry \<Rightarrow> string \<Rightarrow> task option" where
  "findTaskByRunId st runId = pickPreferredRunIdTask (getTasksByRunId st runId)"

definition resolveTaskForLookupToken :: "task_registry \<Rightarrow> string \<Rightarrow> task option" where
  "resolveTaskForLookupToken st token =
     (let lookup = js_trim token in
      if lookup = [] then None
      else or_option (getTaskById st lookup)
        (or_option (findTaskByRunId st lookup) (findLatestTaskForRelatedSessionKey st lookup)))"

definition getTaskRegistrySummary :: "task_registry \<Rightarrow> task_summary" where
  "getTaskRegistrySummary st = summarizeTaskRecords (map snd (tr_tasks st))"

definition getTaskRegistrySnapshot :: "task_registry \<Rightarrow> task list \<times> task_delivery list" where
  "getTaskRegistrySnapshot st = (listTaskRecords st, map snd (tr_delivery st))"

end
