(* ===== verification/Task_Operations.thy ===== *)
theory Task_Operations
  imports Task_Registry
begin

text \<open>
  What changes the task registry: updates with the synchronisation of flows, creation, delivery in steps,
  events of agent runs, cancellation and deletion (\<^verbatim>\<open>src/tasks/task-registry.ts\<close>).

  A patch is a function on the record that sets the fields the source's object sets. An asynchronous
  function runs up to its first \<open>await\<close> in the call; what it still has to do is a job of the state, and loading
  the delivery runtime, the answer of the channel and a failure are steps of their own.
\<close>

section \<open>Owners and messages\<close>

definition getLinkedFlowForDelivery :: "task_registry \<Rightarrow> task \<Rightarrow> flow option" where
  "getLinkedFlowForDelivery st t =
     (case trimmed (t_parentFlowId t) of
        None \<Rightarrow> None
      | Some flowId \<Rightarrow>
          if t_scopeKind t \<noteq> Scope_Session then None
          else keep_if (\<lambda>f. normalizeOwnerKey (fl_ownerKey f) = normalizeOwnerKey (t_ownerKey t))
                 (getTaskFlowById (tr_flows st) flowId))"

definition stored_origin :: "task_registry \<Rightarrow> string \<Rightarrow> delivery_context option" where
  "stored_origin st taskId = Option.bind (map_get (tr_delivery st) taskId) td_origin"

definition resolveTaskDeliveryOwner :: "task_env \<Rightarrow> task_registry \<Rightarrow> task \<Rightarrow> task_owner" where
  "resolveTaskDeliveryOwner env st t =
     (case getLinkedFlowForDelivery st t of
        Some f \<Rightarrow> \<lparr>ow_sessionKey = Some (js_trim (fl_ownerKey f)),
          ow_origin = normalizeDeliveryContext (te_normalizeChannel env)
            (or_option (fl_origin f) (stored_origin st (t_id t))),
          ow_flowId = Some (fl_id f)\<rparr>
      | None \<Rightarrow>
          if t_scopeKind t \<noteq> Scope_Session then \<lparr>ow_sessionKey = None, ow_origin = None, ow_flowId = None\<rparr>
          else \<lparr>ow_sessionKey = Some (js_trim (t_ownerKey t)),
            ow_origin = normalizeDeliveryContext (te_normalizeChannel env) (stored_origin st (t_id t)),
            ow_flowId = None\<rparr>)"

definition canDeliverTaskToRequesterOrigin :: "task_env \<Rightarrow> task_registry \<Rightarrow> task \<Rightarrow> bool" where
  "canDeliverTaskToRequesterOrigin env st t =
     (case ow_origin (resolveTaskDeliveryOwner env st t) of
        None \<Rightarrow> False
      | Some c \<Rightarrow>
          (case trimmed (dc_channel c) of
             None \<Rightarrow> False
           | Some ch \<Rightarrow> trimmed (dc_to c) \<noteq> None \<and> te_deliverable env ch))"

definition resolveMissingOwnerDeliveryStatus :: "task \<Rightarrow> task_delivery_status" where
  "resolveMissingOwnerDeliveryStatus t = (if t_scopeKind t = Scope_System then D_Not_Applicable else D_Parent_Missing)"

definition resolveTaskDisplayTitle :: "task_env \<Rightarrow> task \<Rightarrow> string" where
  "resolveTaskDisplayTitle env t =
     te_titleText env (js_or (js_nullish (trimmed (t_label t)) [])
       (case t_runtime t of
          Rt_Acp \<Rightarrow> ''ACP background task''
        | Rt_Subagent \<Rightarrow> ''Subagent task''
        | _ \<Rightarrow> js_or (js_trim (t_task t)) ''Background task''))"

definition resolveTaskRunLabel :: "task \<Rightarrow> string" where
  "resolveTaskRunLabel t =
     (case t_runId t of None \<Rightarrow> [] | Some r \<Rightarrow> if r = [] then [] else '' (run '' @ take 8 r @ '')'')"

text \<open>\<open>sanitizeTaskStatusText\<close> of an optional text.\<close>

definition sanitized :: "task_env \<Rightarrow> bool \<Rightarrow> string option \<Rightarrow> string" where
  "sanitized env errorContext v = (case v of None \<Rightarrow> [] | Some s \<Rightarrow> te_sanitize env errorContext s)"

definition with_detail :: "string \<Rightarrow> string \<Rightarrow> string" where
  "with_detail headline detail = (if detail = [] then headline @ ''.'' else headline @ ''. '' @ detail)"

definition formatTaskTerminalMessage :: "task_env \<Rightarrow> task \<Rightarrow> string" where
  "formatTaskTerminalMessage env t =
     (let name = resolveTaskDisplayTitle env t @ resolveTaskRunLabel t;
          blocked = (t_terminalOutcome t = Some Outcome_Blocked);
          summary = sanitized env (t_status t \<noteq> Succeeded \<or> blocked) (t_terminalSummary t);
          err = sanitized env True (t_error t);
          fallback = sanitized env True (t_terminalSummary t)
      in case t_status t of
           Succeeded \<Rightarrow>
             if blocked then with_detail (''Background task blocked: '' @ name) summary
             else with_detail (''Background task done: '' @ name) summary
         | Timed_Out \<Rightarrow> ''Background task timed out: '' @ name @ ''.''
         | Lost \<Rightarrow> ''Background task lost: '' @ name @ ''. '' @ js_or err (js_or fallback ''Backing session disappeared.'')
         | Cancelled \<Rightarrow> ''Background task cancelled: '' @ name @ ''.''
         | _ \<Rightarrow> with_detail (''Background task failed: '' @ name) (js_or err fallback))"

definition formatTaskBlockedFollowupMessage :: "task_env \<Rightarrow> task \<Rightarrow> string option" where
  "formatTaskBlockedFollowupMessage env t =
     (if t_status t \<noteq> Succeeded \<or> t_terminalOutcome t \<noteq> Some Outcome_Blocked then None
      else Some (''Task needs follow-up: '' @ resolveTaskDisplayTitle env t @ resolveTaskRunLabel t @ ''. '' @
        js_or (sanitized env True (t_terminalSummary t)) ''Task is blocked and needs follow-up.''))"

definition formatTaskStateChangeMessage :: "task_env \<Rightarrow> task \<Rightarrow> task_event \<Rightarrow> string option" where
  "formatTaskStateChangeMessage env t e =
     (case ev_kind e of
        Some Running \<Rightarrow> Some (''Background task started: '' @ resolveTaskDisplayTitle env t @ ''.'')
      | None \<Rightarrow>
          (let summary = sanitized env False (ev_summary e)
           in if summary = [] then None
              else Some (''Background task update: '' @ resolveTaskDisplayTitle env t @ ''. '' @ summary))
      | _ \<Rightarrow> None)"

definition status_text :: "task_status \<Rightarrow> string" where
  "status_text s = (case s of Queued \<Rightarrow> ''queued'' | Running \<Rightarrow> ''running'' | Succeeded \<Rightarrow> ''succeeded''
     | Failed \<Rightarrow> ''failed'' | Timed_Out \<Rightarrow> ''timed_out'' | Cancelled \<Rightarrow> ''cancelled'' | Lost \<Rightarrow> ''lost'')"

definition int_str :: "int \<Rightarrow> string" where
  "int_str i = (if i < 0 then CHR ''-'' # nat_str (nat (- i)) else nat_str (nat i))"

definition terminal_outcome_text :: "task \<Rightarrow> string" where
  "terminal_outcome_text t =
     (if t_status t = Succeeded
      then (case t_terminalOutcome t of None \<Rightarrow> ''default'' | Some Outcome_Succeeded \<Rightarrow> ''succeeded''
        | Some Outcome_Blocked \<Rightarrow> ''blocked'')
      else ''default'')"

definition taskTerminalDeliveryIdempotencyKey :: "task \<Rightarrow> string" where
  "taskTerminalDeliveryIdempotencyKey t =
     ''task-terminal:'' @ t_id t @ '':'' @ status_text (t_status t) @ '':'' @ terminal_outcome_text t"

definition resolveTaskTerminalIdempotencyKey :: "task_env \<Rightarrow> task_registry \<Rightarrow> task \<Rightarrow> string" where
  "resolveTaskTerminalIdempotencyKey env st t =
     (case ow_flowId (resolveTaskDeliveryOwner env st t) of
        None \<Rightarrow> taskTerminalDeliveryIdempotencyKey t
      | Some flowId \<Rightarrow>
          if flowId = [] then taskTerminalDeliveryIdempotencyKey t
          else ''flow-terminal:'' @ flowId @ '':'' @ t_id t @ '':'' @ status_text (t_status t) @ '':'' @ terminal_outcome_text t)"

definition event_kind_text :: "task_event \<Rightarrow> string" where
  "event_kind_text e = (case ev_kind e of None \<Rightarrow> ''progress'' | Some s \<Rightarrow> status_text s)"

definition resolveTaskStateChangeIdempotencyKey :: "task \<Rightarrow> task_event \<Rightarrow> task_owner \<Rightarrow> string" where
  "resolveTaskStateChangeIdempotencyKey t e ow =
     (let tail_text = t_id t @ '':'' @ int_str (ev_at e) @ '':'' @ event_kind_text e in
      if js_truthy (ow_flowId ow) then ''flow-event:'' @ the (ow_flowId ow) @ '':'' @ tail_text
      else ''task-event:'' @ tail_text)"

section \<open>Updates\<close>

definition upsertTaskDeliveryState ::
    "task_env \<Rightarrow> string \<Rightarrow> delivery_context option \<Rightarrow> int option \<Rightarrow> task_registry \<Rightarrow> task_registry" where
  "upsertTaskDeliveryState env taskId origin lastNotified st =
     (let nxt = \<lparr>td_origin = normalizeDeliveryContext (te_normalizeChannel env) origin, td_lastNotified = lastNotified\<rparr>
      in if td_origin nxt = None \<and> lastNotified = None \<and> map_get (tr_delivery st) taskId = None then st
         else st\<lparr>tr_delivery := map_put taskId nxt (tr_delivery st)\<rparr>)"

text \<open>The loop of \<open>syncManagedFlowCancellationFromTask\<close>; \<open>None\<close> as the flow ends it.\<close>

definition cancellation_due :: "flow \<Rightarrow> bool" where
  "cancellation_due f \<longleftrightarrow>
     fl_sync f = Managed \<and> fl_cancelRequestedAt f \<noteq> None \<and> \<not> isTerminalFlowStatus (fl_status f)"

definition has_active_task :: "task_registry \<Rightarrow> string \<Rightarrow> bool" where
  "has_active_task st flowId \<longleftrightarrow> list_ex (\<lambda>t. isActiveTaskStatus (t_status t)) (listTasksForFlowId st flowId)"

definition cancelled_patch :: "int \<Rightarrow> flow_patch" where
  "cancelled_patch endedAt = empty_patch\<lparr>fp_status := Some F_Cancelled, fp_blockedTaskId := Some None,
     fp_blockedSummary := Some None, fp_waitJson := JNull, fp_endedAt := Some (Some endedAt),
     fp_updatedAt := Some endedAt\<rparr>"

fun finalize_cancellation :: "nat \<Rightarrow> int \<Rightarrow> int \<Rightarrow> string \<Rightarrow> flow \<Rightarrow> task_registry \<Rightarrow> task_registry" where
  "finalize_cancellation 0 clock endedAt flowId f st = st"
| "finalize_cancellation (Suc attempts) clock endedAt flowId f st =
     (case updateFlowRecordByIdExpectedRevision clock flowId (fl_revision f) (cancelled_patch endedAt) (tr_flows st) of
        (Inr (Flow_Revision_Conflict g), fs) \<Rightarrow>
          if \<not> cancellation_due g \<or> has_active_task st flowId then st
          else finalize_cancellation attempts clock endedAt flowId g st
      | (_, fs) \<Rightarrow> st\<lparr>tr_flows := fs\<rparr>)"

definition syncManagedFlowCancellationFromTask :: "int \<Rightarrow> task \<Rightarrow> task_registry \<Rightarrow> task_registry" where
  "syncManagedFlowCancellationFromTask clock t st =
     (case trimmed (t_parentFlowId t) of
        None \<Rightarrow> st
      | Some flowId \<Rightarrow>
          (case getTaskFlowById (tr_flows st) flowId of
             None \<Rightarrow> st
           | Some f \<Rightarrow>
               if \<not> cancellation_due f \<or> has_active_task st flowId then st
               else finalize_cancellation 2 clock (js_nullish (or_option (t_endedAt t) (t_lastEventAt t)) clock)
                      flowId f st))"

text \<open>A terminal task gets the instant at which it may be cleaned up, if it has none.\<close>

definition stamp_cleanup :: "int \<Rightarrow> task \<Rightarrow> task" where
  "stamp_cleanup clock t =
     (if isTerminalTaskStatus (t_status t) \<and> t_cleanupAfter t = None
      then t\<lparr>t_cleanupAfter := Some (js_nullish (or_option (t_endedAt t) (t_lastEventAt t)) clock + DEFAULT_TASK_RETENTION_MS)\<rparr>
      else t)"

definition reindex :: "task \<Rightarrow> task \<Rightarrow> string \<Rightarrow> task_registry \<Rightarrow> task_registry" where
  "reindex current nxt taskId st =
     (let sessionIndexChanged = (trimmed (Some (t_ownerKey current)) \<noteq> trimmed (Some (t_ownerKey nxt)) \<or>
            trimmed (t_childSessionKey current) \<noteq> trimmed (t_childSessionKey nxt));
          parentFlowIndexChanged = (map_option js_trim (t_parentFlowId current) \<noteq> map_option js_trim (t_parentFlowId nxt));
          st1 = (if js_truthy (t_runId nxt) \<and> t_runId nxt \<noteq> t_runId current
                 then st\<lparr>tr_byRunId := rebuild_index run_keys (tr_tasks st)\<rparr> else st);
          st2 = (if sessionIndexChanged
                 then st1\<lparr>tr_byOwnerKey := add_keys (owner_keys nxt) taskId
                           (delete_keys (owner_keys current) taskId (tr_byOwnerKey st1)),
                        tr_bySession := add_keys (getTaskRelatedSessionIndexKeys nxt) taskId
                           (delete_keys (getTaskRelatedSessionIndexKeys current) taskId (tr_bySession st1))\<rparr>
                 else st1)
      in if parentFlowIndexChanged
         then st2\<lparr>tr_byFlowId := add_keys (flow_keys nxt) taskId (delete_keys (flow_keys current) taskId (tr_byFlowId st2))\<rparr>
         else st2)"

definition updateTask :: "int \<Rightarrow> string \<Rightarrow> (task \<Rightarrow> task) \<Rightarrow> task_registry \<Rightarrow> task option \<times> task_registry" where
  "updateTask clock taskId patch st =
     (case map_get (tr_tasks st) taskId of
        None \<Rightarrow> (None, st)
      | Some current \<Rightarrow>
          let nxt = stamp_cleanup clock (patch current);
              st1 = reindex current nxt taskId (st\<lparr>tr_tasks := map_put taskId nxt (tr_tasks st)\<rparr>);
              st2 = st1\<lparr>tr_flows := snd (syncFlowFromTask clock nxt (tr_flows st1))\<rparr>
          in (Some nxt, syncManagedFlowCancellationFromTask clock nxt st2))"

section \<open>Delivery\<close>

definition call :: "task_call list \<Rightarrow> task_registry \<Rightarrow> task_registry" where
  "call cs st = st\<lparr>tr_calls := tr_calls st @ cs\<rparr>"

definition queueTaskSystemEvent :: "task_env \<Rightarrow> task \<Rightarrow> string \<Rightarrow> task_registry \<Rightarrow> task_registry" where
  "queueTaskSystemEvent env t content st =
     (let ow = resolveTaskDeliveryOwner env st t in
      case trimmed (ow_sessionKey ow) of
        None \<Rightarrow> st
      | Some k \<Rightarrow> call [System_Event content k (''task:'' @ t_id t) (ow_origin ow),
                         Request_Heartbeat ''background-task'' k] st)"

definition queueBlockedTaskFollowup :: "task_env \<Rightarrow> task \<Rightarrow> task_registry \<Rightarrow> task_registry" where
  "queueBlockedTaskFollowup env t st =
     (case formatTaskBlockedFollowupMessage env t of
        None \<Rightarrow> st
      | Some content \<Rightarrow>
          (let ow = resolveTaskDeliveryOwner env st t in
           case trimmed (ow_sessionKey ow) of
             None \<Rightarrow> st
           | Some k \<Rightarrow> call [System_Event content k (''task:'' @ t_id t @ '':blocked-followup'') (ow_origin ow),
                              Request_Heartbeat ''background-task-blocked'' k] st))"

definition queue_followup_if_blocked :: "task_env \<Rightarrow> task \<Rightarrow> task_registry \<Rightarrow> task_registry" where
  "queue_followup_if_blocked env t st =
     (if t_terminalOutcome t = Some Outcome_Blocked then queueBlockedTaskFollowup env t st else st)"

definition set_delivery :: "int \<Rightarrow> string \<Rightarrow> task_delivery_status \<Rightarrow> task_registry \<Rightarrow> task_registry" where
  "set_delivery clock taskId status st =
     snd (updateTask clock taskId (\<lambda>t. t\<lparr>t_deliveryStatus := status, t_lastEventAt := Some clock\<rparr>) st)"

definition add_job :: "delivery_job \<Rightarrow> task_registry \<Rightarrow> task_registry" where
  "add_job j st = st\<lparr>tr_jobs := map_put (tr_nextJob st) j (tr_jobs st), tr_nextJob := Suc (tr_nextJob st)\<rparr>"

text \<open>\<open>maybeDeliverTaskTerminalUpdate\<close> up to its first \<open>await\<close>. The paths without an \<open>await\<close> also leave the
  \<open>finally\<close> block behind them, so the set of pending deliveries is what it was.\<close>

definition maybeDeliverTaskTerminalUpdate :: "task_env \<Rightarrow> int \<Rightarrow> string \<Rightarrow> task_registry \<Rightarrow> task_registry" where
  "maybeDeliverTaskTerminalUpdate env clock taskId st =
     (case map_get (tr_tasks st) taskId of
        None \<Rightarrow> st
      | Some latest \<Rightarrow>
          if \<not> shouldAutoDeliverTaskTerminalUpdate latest then st
          else if taskId \<in> set (tr_pending st) then st
          else
            let preferred = (if js_truthy (t_runId latest)
                  then pickPreferredRunIdTask (getPeerTasksForDelivery st latest) else None);
                ow = resolveTaskDeliveryOwner env st latest;
                content = formatTaskTerminalMessage env latest
            in if shouldSuppressDuplicateTerminalDelivery latest (map_option t_id preferred)
               then set_delivery clock taskId D_Not_Applicable st
               else if trimmed (ow_sessionKey ow) = None
               then set_delivery clock taskId (resolveMissingOwnerDeliveryStatus latest) st
               else if \<not> canDeliverTaskToRequesterOrigin env st latest
               then set_delivery clock taskId D_Session_Queued
                      (queue_followup_if_blocked env latest (queueTaskSystemEvent env latest content st))
               else add_job \<lparr>dj_kind = Terminal_Job, dj_task = latest, dj_owner = ow, dj_text = content, dj_sent = False\<rparr>
                      (st\<lparr>tr_pending := tr_pending st @ [taskId]\<rparr>))"

definition maybeDeliverTaskStateChangeUpdate ::
    "task_env \<Rightarrow> int \<Rightarrow> string \<Rightarrow> task_event option \<Rightarrow> task_registry \<Rightarrow> task_registry" where
  "maybeDeliverTaskStateChangeUpdate env clock taskId latestEvent st =
     (case (map_get (tr_tasks st) taskId, latestEvent) of
        (Some current, Some e) \<Rightarrow>
          if \<not> shouldAutoDeliverTaskStateChange current then st
          else if js_nullish (Option.bind (map_get (tr_delivery st) taskId) td_lastNotified) 0 \<ge> ev_at e then st
          else (case formatTaskStateChangeMessage env current e of
              None \<Rightarrow> st
            | Some content \<Rightarrow>
                let ow = resolveTaskDeliveryOwner env st current; origin = stored_origin st taskId in
                if trimmed (ow_sessionKey ow) = None
                then set_delivery clock taskId (resolveMissingOwnerDeliveryStatus current) st
                else if \<not> canDeliverTaskToRequesterOrigin env st current
                then snd (updateTask clock taskId (\<lambda>t. t\<lparr>t_lastEventAt := Some clock\<rparr>)
                       (upsertTaskDeliveryState env taskId origin (Some (ev_at e))
                          (queueTaskSystemEvent env current content st)))
                else add_job \<lparr>dj_kind = State_Change_Job e origin, dj_task = current, dj_owner = ow,
                       dj_text = content, dj_sent = False\<rparr> st)
      | _ \<Rightarrow> st)"

text \<open>The runtime is loaded: the message goes to the channel, under a key that is the same for every
  attempt to send it.\<close>

definition job_message :: "task_env \<Rightarrow> task_registry \<Rightarrow> delivery_job \<Rightarrow> outgoing_message" where
  "job_message env st j =
     (let ow = dj_owner j; session = js_nullish (trimmed (ow_sessionKey ow)) [];
          origin = ow_origin ow
      in \<lparr>om_channel = Option.bind origin dc_channel, om_to = js_nullish (Option.bind origin dc_to) [],
          om_account = Option.bind origin dc_account, om_thread = Option.bind origin dc_thread,
          om_content = dj_text j,
          om_agentId = map_option pk_agentId (parseAgentSessionKey (Some session)),
          om_idempotencyKey = (case dj_kind j of
             Terminal_Job \<Rightarrow> resolveTaskTerminalIdempotencyKey env st (dj_task j)
           | State_Change_Job e _ \<Rightarrow> resolveTaskStateChangeIdempotencyKey (dj_task j) e ow),
          om_sessionKey = session\<rparr>)"

definition send_job :: "task_env \<Rightarrow> nat \<Rightarrow> task_registry \<Rightarrow> task_registry" where
  "send_job env n st =
     (case map_get (tr_jobs st) n of
        None \<Rightarrow> st
      | Some j \<Rightarrow>
          if dj_sent j then st
          else call [Send_Message (job_message env st j)] (st\<lparr>tr_jobs := map_put n (j\<lparr>dj_sent := True\<rparr>) (tr_jobs st)\<rparr>))"

text \<open>The channel answers, or loading or sending fails. A job can only succeed after it was sent.\<close>

definition end_job :: "nat \<Rightarrow> task_registry \<Rightarrow> task_registry" where
  "end_job n st = st\<lparr>tr_jobs := map_del n (tr_jobs st)\<rparr>"

definition release_pending :: "string \<Rightarrow> task_registry \<Rightarrow> task_registry" where
  "release_pending taskId st = st\<lparr>tr_pending := filter (\<lambda>i. i \<noteq> taskId) (tr_pending st)\<rparr>"

definition finish_job :: "task_env \<Rightarrow> int \<Rightarrow> bool \<Rightarrow> nat \<Rightarrow> task_registry \<Rightarrow> task_registry" where
  "finish_job env clock success n st =
     (case map_get (tr_jobs st) n of
        None \<Rightarrow> st
      | Some j \<Rightarrow>
          let t = dj_task j in
          if success \<and> \<not> dj_sent j then st
          else (case dj_kind j of
              Terminal_Job \<Rightarrow>
                if success
                then release_pending (t_id t) (set_delivery clock (t_id t) D_Delivered
                       (queue_followup_if_blocked env t (end_job n st)))
                else release_pending (t_id t) (set_delivery clock (t_id t) D_Failed
                       (queue_followup_if_blocked env t (queueTaskSystemEvent env t (dj_text j) (end_job n st))))
            | State_Change_Job e origin \<Rightarrow>
                if success
                then snd (updateTask clock (t_id t) (\<lambda>t. t\<lparr>t_lastEventAt := Some clock\<rparr>)
                       (upsertTaskDeliveryState env (t_id t) origin (Some (ev_at e)) (end_job n st)))
                else end_job n st))"

section \<open>Creation\<close>

record task_params =
  cp_runtime :: task_runtime
  cp_taskKind :: "string option"
  cp_sourceId :: "string option"
  cp_requesterSessionKey :: "string option"
  cp_ownerKey :: "string option"
  cp_scopeKind :: "task_scope_kind option"
  cp_requesterOrigin :: "delivery_context option"
  cp_childSessionKey :: "string option"
  cp_parentFlowId :: "string option"
  cp_parentTaskId :: "string option"
  cp_agentId :: "string option"
  cp_runId :: "string option"
  cp_label :: "string option"
  cp_task :: string
  cp_preferMetadata :: bool
  cp_status :: "task_status option"
  cp_deliveryStatus :: "task_delivery_status option"
  cp_notifyPolicy :: "task_notify_policy option"
  cp_startedAt :: "int option"
  cp_lastEventAt :: "int option"
  cp_cleanupAfter :: "int option"
  cp_progressSummary :: "string option"
  cp_terminalSummary :: "string option"
  cp_terminalOutcome :: "task_terminal_outcome option"

definition findExistingTaskForCreate :: "task_registry \<Rightarrow> string \<Rightarrow> task_scope_kind \<Rightarrow> task_params \<Rightarrow> task option" where
  "findExistingTaskForCreate st ownerKey scopeKind p =
     (case trimmed (cp_runId p) of
        None \<Rightarrow> None
      | Some runId \<Rightarrow>
          let same = normalizeComparableText;
              scoped = filter (\<lambda>t. t_runtime t = cp_runtime p \<and> t_scopeKind t = scopeKind \<and>
                same (Some (t_ownerKey t)) = same (Some ownerKey) \<and>
                same (t_childSessionKey t) = same (cp_childSessionKey p) \<and>
                same (t_parentFlowId t) = same (cp_parentFlowId p)) (getTasksByRunId st runId);
              exact = find (\<lambda>t. same (t_label t) = same (cp_label p) \<and>
                same (Some (t_task t)) = same (Some (cp_task p))) scoped
          in if exact \<noteq> None then exact
             else if cp_runtime p \<noteq> Rt_Acp then None
             else if scoped = [] then None
             else pickPreferredRunIdTask scoped)"

text \<open>The entries of the patch object, in the order the source adds them; the empty list is the empty
  object.\<close>

definition fill :: "string option \<Rightarrow> string option \<Rightarrow> (string option \<Rightarrow> task \<Rightarrow> task) \<Rightarrow> (task \<Rightarrow> task) list" where
  "fill new old set_field =
     (case trimmed new of None \<Rightarrow> [] | Some v \<Rightarrow> if trimmed old = None then [set_field (Some v)] else [])"

definition merge_patch :: "task \<Rightarrow> task_params \<Rightarrow> (task \<Rightarrow> task) list" where
  "merge_patch existing p =
     fill (cp_sourceId p) (t_sourceId existing) (\<lambda>v t. t\<lparr>t_sourceId := v\<rparr>) @
     fill (cp_taskKind p) (t_kind existing) (\<lambda>v t. t\<lparr>t_kind := v\<rparr>) @
     fill (cp_parentFlowId p) (t_parentFlowId existing) (\<lambda>v t. t\<lparr>t_parentFlowId := v\<rparr>) @
     fill (cp_parentTaskId p) (t_parentTaskId existing) (\<lambda>v t. t\<lparr>t_parentTaskId := v\<rparr>) @
     fill (cp_agentId p) (t_agentId existing) (\<lambda>v t. t\<lparr>t_agentId := v\<rparr>) @
     (if cp_preferMetadata p
      then (case trimmed (cp_label p) of
              None \<Rightarrow> []
            | Some l \<Rightarrow> if normalizeComparableText (t_label existing) \<noteq> l then [\<lambda>t. t\<lparr>t_label := Some l\<rparr>] else []) @
           (let nextTask = js_trim (cp_task p) in
            if nextTask \<noteq> [] \<and> normalizeComparableText (Some (t_task existing)) \<noteq> nextTask
            then [\<lambda>t. t\<lparr>t_task := nextTask\<rparr>] else [])
      else fill (cp_label p) (t_label existing) (\<lambda>v t. t\<lparr>t_label := v\<rparr>)) @
     (if cp_deliveryStatus p = Some D_Pending \<and> t_deliveryStatus existing \<noteq> D_Delivered
      then [\<lambda>t. t\<lparr>t_deliveryStatus := D_Pending\<rparr>] else []) @
     (let notifyPolicy = ensureNotifyPolicy (cp_notifyPolicy p) (cp_deliveryStatus p) (t_ownerKey existing)
            (t_scopeKind existing)
      in if notifyPolicy \<noteq> t_notifyPolicy existing \<and> t_notifyPolicy existing = Silent
         then [\<lambda>t. t\<lparr>t_notifyPolicy := notifyPolicy\<rparr>] else [])"

definition mergeExistingTaskForCreate ::
    "task_env \<Rightarrow> int \<Rightarrow> task \<Rightarrow> task_params \<Rightarrow> task_registry \<Rightarrow> (task_error + task) \<times> task_registry" where
  "mergeExistingTaskForCreate env clock existing p st =
     (let origin = normalizeDeliveryContext (te_normalizeChannel env) (cp_requesterOrigin p);
          current = map_get (tr_delivery st) (t_id existing);
          st1 = (if origin \<noteq> None \<and> Option.bind current td_origin = None
                 then upsertTaskDeliveryState env (t_id existing) origin (Option.bind current td_lastNotified) st else st);
          link = (if trimmed (cp_parentFlowId p) \<noteq> None \<and> trimmed (t_parentFlowId existing) = None
                  then assertParentFlowLinkAllowed (tr_flows st1) (t_ownerKey existing) (t_scopeKind existing)
                         (cp_parentFlowId p) else Inr ());
          changes = merge_patch existing p
      in case link of
           Inl e \<Rightarrow> (Inl e, st1)
         | Inr _ \<Rightarrow>
             if length changes = 0 then (Inr existing, st1)
             else (case updateTask clock (t_id existing) (fold (\<lambda>f t. f t) changes) st1 of
                 (r, st2) \<Rightarrow> (Inr (js_nullish r existing), st2)))"

definition new_task :: "string \<Rightarrow> int \<Rightarrow> string \<Rightarrow> task_scope_kind \<Rightarrow> string \<Rightarrow> task_params \<Rightarrow> task" where
  "new_task newId clock ownerKey scopeKind requesterSessionKey p =
     (let status = js_nullish (cp_status p) Queued;
          deliveryStatus = js_nullish (cp_deliveryStatus p) (ensureDeliveryStatus ownerKey scopeKind);
          lastEventAt = js_nullish (or_option (cp_lastEventAt p) (cp_startedAt p)) clock
      in \<lparr>t_id = newId, t_runtime = cp_runtime p, t_kind = trimmed (cp_taskKind p),
          t_sourceId = trimmed (cp_sourceId p), t_requesterSessionKey = requesterSessionKey,
          t_ownerKey = ownerKey, t_scopeKind = scopeKind, t_childSessionKey = cp_childSessionKey p,
          t_parentFlowId = trimmed (cp_parentFlowId p), t_parentTaskId = trimmed (cp_parentTaskId p),
          t_agentId = trimmed (cp_agentId p), t_runId = trimmed (cp_runId p), t_label = trimmed (cp_label p),
          t_task = cp_task p, t_status = status, t_deliveryStatus = deliveryStatus,
          t_notifyPolicy = ensureNotifyPolicy (cp_notifyPolicy p) (Some deliveryStatus) ownerKey scopeKind,
          t_createdAt = clock, t_startedAt = cp_startedAt p, t_endedAt = None, t_lastEventAt = Some lastEventAt,
          t_cleanupAfter = (if isTerminalTaskStatus status \<and> cp_cleanupAfter p = None
            then Some (lastEventAt + DEFAULT_TASK_RETENTION_MS) else cp_cleanupAfter p),
          t_error = None, t_progressSummary = normalizeTaskSummary (cp_progressSummary p),
          t_terminalSummary = normalizeTaskSummary (cp_terminalSummary p),
          t_terminalOutcome = resolveTaskTerminalOutcome status (cp_terminalOutcome p)\<rparr>)"

definition insert_task :: "task_env \<Rightarrow> int \<Rightarrow> task \<Rightarrow> delivery_context option \<Rightarrow> task_registry \<Rightarrow> task_registry" where
  "insert_task env clock t origin st =
     (let st1 = upsertTaskDeliveryState env (t_id t) (normalizeDeliveryContext (te_normalizeChannel env) origin) None
                  (st\<lparr>tr_tasks := map_put (t_id t) t (tr_tasks st)\<rparr>);
          st2 = st1\<lparr>tr_byRunId := add_keys (run_keys t) (t_id t) (tr_byRunId st1),
                    tr_byOwnerKey := add_keys (owner_keys t) (t_id t) (tr_byOwnerKey st1),
                    tr_byFlowId := add_keys (flow_keys t) (t_id t) (tr_byFlowId st1),
                    tr_bySession := add_keys (getTaskRelatedSessionIndexKeys t) (t_id t) (tr_bySession st1)\<rparr>
      in st2\<lparr>tr_flows := snd (syncFlowFromTask clock t (tr_flows st2))\<rparr>)"

definition createTaskRecord ::
    "task_env \<Rightarrow> string \<Rightarrow> int \<Rightarrow> task_params \<Rightarrow> task_registry \<Rightarrow> (task_error + task) \<times> task_registry" where
  "createTaskRecord env newId clock p st =
     (let requesterSessionKey = resolveTaskRequesterSessionKey (cp_requesterSessionKey p) (cp_ownerKey p) (cp_scopeKind p);
          scopeKind = resolveTaskScopeKind (cp_scopeKind p) requesterSessionKey;
          ownerKey = resolveTaskOwnerKey requesterSessionKey (cp_ownerKey p)
      in case assertTaskOwner ownerKey scopeKind of
           Inl e \<Rightarrow> (Inl e, st)
         | Inr _ \<Rightarrow>
             (case assertParentFlowLinkAllowed (tr_flows st) ownerKey scopeKind (cp_parentFlowId p) of
                Inl e \<Rightarrow> (Inl e, st)
              | Inr _ \<Rightarrow>
                  (case findExistingTaskForCreate st ownerKey scopeKind p of
                     Some existing \<Rightarrow> mergeExistingTaskForCreate env clock existing p st
                   | None \<Rightarrow>
                       let t = new_task newId clock ownerKey scopeKind requesterSessionKey p;
                           st1 = insert_task env clock t (cp_requesterOrigin p) st
                       in (Inr t, if isTerminalTaskStatus (t_status t)
                             then maybeDeliverTaskTerminalUpdate env clock newId st1 else st1))))"

section \<open>Changes by id\<close>

text \<open>An optional parameter that sets a field only when it is given; of a \<open>null\<close>-able one, \<open>None\<close> is
  absent and \<open>Some None\<close> is \<open>null\<close>.\<close>

definition given :: "'a option \<Rightarrow> ('a \<Rightarrow> task \<Rightarrow> task) \<Rightarrow> task \<Rightarrow> task" where
  "given x f t = (case x of None \<Rightarrow> t | Some v \<Rightarrow> f v t)"

definition setTaskProgressById ::
    "int \<Rightarrow> string \<Rightarrow> string option option \<Rightarrow> int option \<Rightarrow> task_registry \<Rightarrow> task option \<times> task_registry" where
  "setTaskProgressById clock taskId progressSummary lastEventAt st =
     updateTask clock taskId (given lastEventAt (\<lambda>v t. t\<lparr>t_lastEventAt := Some v\<rparr>) \<circ>
       given progressSummary (\<lambda>v t. t\<lparr>t_progressSummary := normalizeTaskSummary v\<rparr>)) st"

definition timing_patch :: "int option \<Rightarrow> int option \<Rightarrow> int option \<Rightarrow> task \<Rightarrow> task" where
  "timing_patch startedAt endedAt lastEventAt =
     given lastEventAt (\<lambda>v t. t\<lparr>t_lastEventAt := Some v\<rparr>) \<circ> given endedAt (\<lambda>v t. t\<lparr>t_endedAt := Some v\<rparr>) \<circ>
     given startedAt (\<lambda>v t. t\<lparr>t_startedAt := Some v\<rparr>)"

definition setTaskTimingById ::
    "int \<Rightarrow> string \<Rightarrow> int option \<Rightarrow> int option \<Rightarrow> int option \<Rightarrow> task_registry \<Rightarrow> task option \<times> task_registry" where
  "setTaskTimingById clock taskId startedAt endedAt lastEventAt st =
     updateTask clock taskId (timing_patch startedAt endedAt lastEventAt) st"

definition setTaskCleanupAfterById :: "int \<Rightarrow> string \<Rightarrow> int \<Rightarrow> task_registry \<Rightarrow> task option \<times> task_registry" where
  "setTaskCleanupAfterById clock taskId cleanupAfter st =
     updateTask clock taskId (\<lambda>t. t\<lparr>t_cleanupAfter := Some cleanupAfter\<rparr>) st"

definition markTaskTerminalById ::
    "int \<Rightarrow> string \<Rightarrow> task_status \<Rightarrow> int \<Rightarrow> int option \<Rightarrow> string option \<Rightarrow> string option option
      \<Rightarrow> task_terminal_outcome option option \<Rightarrow> task_registry \<Rightarrow> task option \<times> task_registry" where
  "markTaskTerminalById clock taskId status endedAt lastEventAt err terminalSummary terminalOutcome st =
     updateTask clock taskId
       (given terminalOutcome (\<lambda>v t. t\<lparr>t_terminalOutcome := resolveTaskTerminalOutcome status v\<rparr>) \<circ>
        given terminalSummary (\<lambda>v t. t\<lparr>t_terminalSummary := normalizeTaskSummary v\<rparr>) \<circ>
        given err (\<lambda>v t. t\<lparr>t_error := Some v\<rparr>) \<circ>
        (\<lambda>t. t\<lparr>t_status := status, t_endedAt := Some endedAt,
           t_lastEventAt := Some (js_nullish lastEventAt endedAt)\<rparr>)) st"

definition markTaskLostById ::
    "int \<Rightarrow> string \<Rightarrow> int \<Rightarrow> int option \<Rightarrow> string option \<Rightarrow> int option \<Rightarrow> task_registry \<Rightarrow> task option \<times> task_registry" where
  "markTaskLostById clock taskId endedAt lastEventAt err cleanupAfter st =
     updateTask clock taskId
       (given cleanupAfter (\<lambda>v t. t\<lparr>t_cleanupAfter := Some v\<rparr>) \<circ> given err (\<lambda>v t. t\<lparr>t_error := Some v\<rparr>) \<circ>
        (\<lambda>t. t\<lparr>t_status := Lost, t_endedAt := Some endedAt,
           t_lastEventAt := Some (js_nullish lastEventAt endedAt)\<rparr>)) st"

definition updateTaskNotifyPolicyById ::
    "int \<Rightarrow> string \<Rightarrow> task_notify_policy \<Rightarrow> task_registry \<Rightarrow> task option \<times> task_registry" where
  "updateTaskNotifyPolicyById clock taskId policy st =
     updateTask clock taskId (\<lambda>t. t\<lparr>t_notifyPolicy := policy, t_lastEventAt := Some clock\<rparr>) st"

definition linkTaskToFlowById ::
    "int \<Rightarrow> string \<Rightarrow> string \<Rightarrow> task_registry \<Rightarrow> (task_error + task option) \<times> task_registry" where
  "linkTaskToFlowById clock taskId flowId st =
     (case trimmed (Some flowId) of
        None \<Rightarrow> (Inr None, st)
      | Some flow \<Rightarrow>
          (case map_get (tr_tasks st) taskId of
             None \<Rightarrow> (Inr None, st)
           | Some current \<Rightarrow>
               if trimmed (t_parentFlowId current) \<noteq> None then (Inr (Some current), st)
               else (case assertParentFlowLinkAllowed (tr_flows st) (t_ownerKey current) (t_scopeKind current) (Some flow) of
                   Inl e \<Rightarrow> (Inl e, st)
                 | Inr _ \<Rightarrow>
                     (case updateTask clock taskId (\<lambda>t. t\<lparr>t_parentFlowId := Some flow\<rparr>) st of
                        (r, st1) \<Rightarrow> (Inr r, st1)))))"

definition deleteTaskRecordById :: "string \<Rightarrow> task_registry \<Rightarrow> bool \<times> task_registry" where
  "deleteTaskRecordById taskId st =
     (case map_get (tr_tasks st) taskId of
        None \<Rightarrow> (False, st)
      | Some current \<Rightarrow>
          let ts = map_del taskId (tr_tasks st) in
          (True, st\<lparr>tr_tasks := ts, tr_delivery := map_del taskId (tr_delivery st),
             tr_byOwnerKey := delete_keys (owner_keys current) taskId (tr_byOwnerKey st),
             tr_byFlowId := delete_keys (flow_keys current) taskId (tr_byFlowId st),
             tr_bySession := delete_keys (getTaskRelatedSessionIndexKeys current) taskId (tr_bySession st),
             tr_byRunId := rebuild_index run_keys ts\<rparr>))"

text \<open>\<open>restoreTaskRegistryOnce\<close> on a registry that has not been restored yet.\<close>

definition restoreTaskRegistry ::
    "(string, task) js_map \<Rightarrow> (string, task_delivery) js_map \<Rightarrow> task_registry \<Rightarrow> task_registry" where
  "restoreTaskRegistry restoredTasks restoredStates st =
     (if restoredTasks = [] \<and> restoredStates = [] then st
      else let ts = foldl (\<lambda>m (k, t). map_put k t m) (tr_tasks st) restoredTasks
           in st\<lparr>tr_tasks := ts,
                 tr_delivery := foldl (\<lambda>m (k, d). map_put k d m) (tr_delivery st) restoredStates,
                 tr_byRunId := rebuild_index run_keys ts, tr_byOwnerKey := rebuild_index owner_keys ts,
                 tr_byFlowId := rebuild_index flow_keys ts,
                 tr_bySession := rebuild_index getTaskRelatedSessionIndexKeys ts\<rparr>)"

section \<open>Changes by run\<close>

definition updateTasksByRunId ::
    "int \<Rightarrow> string \<Rightarrow> task_runtime option \<Rightarrow> string option \<Rightarrow> (task \<Rightarrow> task) \<Rightarrow> task_registry \<Rightarrow> task_registry" where
  "updateTasksByRunId clock runId runtime sessionKey patch st =
     foldl (\<lambda>st m. snd (updateTask clock (t_id m) patch st)) st (getTasksByRunScope st runId runtime sessionKey)"

definition setTaskRunDeliveryStatusByRunId ::
    "int \<Rightarrow> string \<Rightarrow> task_runtime option \<Rightarrow> string option \<Rightarrow> task_delivery_status \<Rightarrow> task_registry \<Rightarrow> task_registry" where
  "setTaskRunDeliveryStatusByRunId clock runId runtime sessionKey status st =
     updateTasksByRunId clock runId runtime sessionKey (\<lambda>t. t\<lparr>t_deliveryStatus := status\<rparr>) st"

text \<open>The updates that follow every change of a run: the event of the change, then the end of the task.\<close>

definition deliver_updates ::
    "task_env \<Rightarrow> int \<Rightarrow> string \<Rightarrow> task_event option \<Rightarrow> task_registry \<Rightarrow> task_registry" where
  "deliver_updates env clock taskId e st =
     maybeDeliverTaskTerminalUpdate env clock taskId (maybeDeliverTaskStateChangeUpdate env clock taskId e st)"

record run_change =
  rc_status :: "task_status option"
  rc_startedAt :: "int option"
  rc_endedAt :: "int option"
  rc_lastEventAt :: "int option"
  rc_error :: "string option"
  rc_progressSummary :: "string option option"
  rc_terminalSummary :: "string option option"
  rc_terminalOutcome :: "task_terminal_outcome option option"
  rc_eventSummary :: "string option"

definition run_change_patch :: "run_change \<Rightarrow> task_status \<Rightarrow> task \<Rightarrow> task" where
  "run_change_patch c nextStatus =
     given (rc_terminalOutcome c) (\<lambda>v t. t\<lparr>t_terminalOutcome := resolveTaskTerminalOutcome nextStatus v\<rparr>) \<circ>
     given (rc_terminalSummary c) (\<lambda>v t. t\<lparr>t_terminalSummary := normalizeTaskSummary v\<rparr>) \<circ>
     given (rc_progressSummary c) (\<lambda>v t. t\<lparr>t_progressSummary := normalizeTaskSummary v\<rparr>) \<circ>
     given (rc_error c) (\<lambda>v t. t\<lparr>t_error := Some v\<rparr>) \<circ>
     timing_patch (rc_startedAt c) (rc_endedAt c) (rc_lastEventAt c) \<circ>
     given (rc_status c) (\<lambda>v t. t\<lparr>t_status := v\<rparr>)"

definition run_change_event :: "int \<Rightarrow> run_change \<Rightarrow> task \<Rightarrow> task_event option" where
  "run_change_event clock c current =
     (let nextStatus = js_nullish (rc_status c) (t_status current);
          changed = (rc_status c \<noteq> None \<and> rc_status c \<noteq> Some (t_status current));
          eventSummary = or_option (normalizeTaskSummary (rc_eventSummary c))
            (if nextStatus = Failed then normalizeTaskSummary (or_option (rc_error c) (t_error current))
             else if nextStatus = Succeeded
             then normalizeTaskSummary (or_option (Option.bind (rc_terminalSummary c) id) (t_terminalSummary current))
             else None)
      in if changed \<or> normalizeTaskSummary (rc_eventSummary c) \<noteq> None
         then Some (appendTaskEvent (js_nullish (or_option (rc_lastEventAt c) (rc_endedAt c)) clock)
                (if changed then rc_status c else None) eventSummary)
         else None)"

definition updateTaskStateByRunId ::
    "task_env \<Rightarrow> int \<Rightarrow> string \<Rightarrow> task_runtime option \<Rightarrow> string option \<Rightarrow> run_change \<Rightarrow> task_registry \<Rightarrow> task_registry" where
  "updateTaskStateByRunId env clock runId runtime sessionKey c st =
     foldl (\<lambda>st current.
         case updateTask clock (t_id current)
                (run_change_patch c (js_nullish (rc_status c) (t_status current))) st of
           (None, st1) \<Rightarrow> st1
         | (Some t, st1) \<Rightarrow> deliver_updates env clock (t_id t) (run_change_event clock c current) st1)
       st (getTasksByRunScope st runId runtime sessionKey)"

text \<open>The named changes of a run.\<close>

definition no_change :: run_change where
  "no_change = \<lparr>rc_status = None, rc_startedAt = None, rc_endedAt = None, rc_lastEventAt = None, rc_error = None,
     rc_progressSummary = None, rc_terminalSummary = None, rc_terminalOutcome = None, rc_eventSummary = None\<rparr>"

definition markTaskRunningByRunId where
  "markTaskRunningByRunId env clock runId runtime sessionKey startedAt lastEventAt progressSummary eventSummary st =
     updateTaskStateByRunId env clock runId runtime sessionKey
       (no_change\<lparr>rc_status := Some Running, rc_startedAt := startedAt, rc_lastEventAt := lastEventAt,
          rc_progressSummary := progressSummary, rc_eventSummary := eventSummary\<rparr>) st"

definition recordTaskProgressByRunId where
  "recordTaskProgressByRunId env clock runId runtime sessionKey lastEventAt progressSummary eventSummary st =
     updateTaskStateByRunId env clock runId runtime sessionKey
       (no_change\<lparr>rc_lastEventAt := lastEventAt, rc_progressSummary := progressSummary,
          rc_eventSummary := eventSummary\<rparr>) st"

definition markTaskTerminalByRunId where
  "markTaskTerminalByRunId env clock runId runtime sessionKey status startedAt endedAt lastEventAt err progressSummary
     terminalSummary terminalOutcome st =
     updateTaskStateByRunId env clock runId runtime sessionKey
       (no_change\<lparr>rc_status := Some status, rc_startedAt := startedAt, rc_endedAt := Some endedAt,
          rc_lastEventAt := lastEventAt, rc_error := err, rc_progressSummary := progressSummary,
          rc_terminalSummary := terminalSummary, rc_terminalOutcome := terminalOutcome\<rparr>) st"

text \<open>What the listener reads of an agent event, with the checks of its types done.\<close>

record agent_event =
  ae_runId :: string
  ae_sessionKey :: "string option"
  ae_ts :: int
  ae_stream :: string
  ae_phase :: "string option"
  ae_startedAt :: "int option"
  ae_endedAt :: "int option"
  ae_aborted :: bool
  ae_error :: "string option"

definition agent_status :: "agent_event \<Rightarrow> task_status option" where
  "agent_status e =
     (if ae_stream e \<noteq> ''lifecycle'' then None
      else if ae_phase e = Some ''start'' then Some Running
      else if ae_phase e = Some ''end'' then Some (if ae_aborted e then Timed_Out else Succeeded)
      else if ae_phase e = Some ''error'' then Some Failed
      else None)"

definition agent_patch :: "int \<Rightarrow> agent_event \<Rightarrow> task \<Rightarrow> task \<Rightarrow> task" where
  "agent_patch now e current t =
     (let t1 = t\<lparr>t_lastEventAt := Some now\<rparr>;
          started = or_option (ae_startedAt e) (t_startedAt current);
          err = or_option (ae_error e) (t_error current);
          ended = Some (js_nullish (ae_endedAt e) now)
      in if ae_stream e = ''lifecycle'' then
           (let t2 = (if js_nullish started 0 \<noteq> 0 then t1\<lparr>t_startedAt := started\<rparr> else t1) in
            case agent_status e of
              None \<Rightarrow> t2
            | Some Running \<Rightarrow> t2\<lparr>t_status := Running\<rparr>
            | Some Failed \<Rightarrow> t2\<lparr>t_status := Failed, t_endedAt := ended, t_error := err\<rparr>
            | Some s \<Rightarrow> t2\<lparr>t_status := s, t_endedAt := ended\<rparr>)
         else if ae_stream e = ''error'' then t1\<lparr>t_error := err\<rparr> else t1)"

definition agent_state_change :: "int \<Rightarrow> agent_event \<Rightarrow> task \<Rightarrow> task_event option" where
  "agent_state_change now e current =
     (case agent_status e of
        None \<Rightarrow> None
      | Some s \<Rightarrow>
          if s = t_status current then None
          else Some (appendTaskEvent now (Some s)
            (if s = Failed then or_option (ae_error e) (t_error current)
             else if s = Succeeded then t_terminalSummary current else None)))"

definition onAgentEvent :: "task_env \<Rightarrow> int \<Rightarrow> agent_event \<Rightarrow> task_registry \<Rightarrow> task_registry" where
  "onAgentEvent env clock e st =
     (let now = (if ae_ts e = 0 then clock else ae_ts e) in
      foldl (\<lambda>st current.
          case updateTask clock (t_id current) (agent_patch now e current) st of
            (None, st1) \<Rightarrow> st1
          | (Some _, st1) \<Rightarrow> deliver_updates env clock (t_id current) (agent_state_change now e current) st1)
        st (getTasksByRunScope st (ae_runId e) None (ae_sessionKey e)))"

section \<open>Cancellation\<close>

text \<open>\<open>cancelTaskById\<close> up to the call that stops the run, which is what it answers or \<open>Cancel_Run\<close>; then
  what follows when the run was stopped.\<close>

datatype cancel_answer =
    Task_Not_Found
  | Already_Terminal task
  | No_Child_Session task
  | Cancel_Unsupported task
  | Cancel_Run task_runtime string

definition cancelTaskById :: "string \<Rightarrow> task_registry \<Rightarrow> cancel_answer" where
  "cancelTaskById taskId st =
     (case map_get (tr_tasks st) (js_trim taskId) of
        None \<Rightarrow> Task_Not_Found
      | Some t \<Rightarrow>
          if isTerminalTaskStatus (t_status t) then Already_Terminal t
          else (case trimmed (t_childSessionKey t) of
              None \<Rightarrow> No_Child_Session t
            | Some k \<Rightarrow>
                if t_runtime t = Rt_Acp \<or> t_runtime t = Rt_Subagent then Cancel_Run (t_runtime t) k
                else Cancel_Unsupported t))"

definition finish_cancel :: "task_env \<Rightarrow> int \<Rightarrow> string \<Rightarrow> task_registry \<Rightarrow> task_registry" where
  "finish_cancel env clock taskId st =
     (case updateTask clock taskId (\<lambda>t. t\<lparr>t_status := Cancelled, t_endedAt := Some clock, t_lastEventAt := Some clock,
               t_error := Some ''Cancelled by operator.''\<rparr>) st of
        (None, st1) \<Rightarrow> st1
      | (Some t, st1) \<Rightarrow> maybeDeliverTaskTerminalUpdate env clock (t_id t) st1)"

end
