(* ===== verification/Task_Index_Props.thy ===== *)
theory Task_Index_Props
  imports Task_Operations
begin

text \<open>
  The indexes of the task registry: an index of ids by key as an interface, what it files after any sequence
  of additions and removals, and that the model's index keeps the contract.
\<close>

section \<open>An index of ids\<close>

text \<open>The ids that the index holds under a key are those of the records that have the key.\<close>

definition filed_by ::
    "('ix \<Rightarrow> 'k \<Rightarrow> 'i list) \<Rightarrow> ('r \<Rightarrow> 'k list) \<Rightarrow> ('i \<Rightarrow> 'r option) \<Rightarrow> 'ix \<Rightarrow> bool" where
  "filed_by ids keys rs x \<longleftrightarrow>
     (\<forall>k. distinct (ids x k) \<and> (\<forall>i. i \<in> set (ids x k) \<longleftrightarrow> (\<exists>r. rs i = Some r \<and> k \<in> set (keys r))))"

locale id_index =
  fixes ids :: "'ix \<Rightarrow> 'k \<Rightarrow> 'i list"
    and add :: "'k \<Rightarrow> 'i \<Rightarrow> 'ix \<Rightarrow> 'ix"
    and del :: "'k \<Rightarrow> 'i \<Rightarrow> 'ix \<Rightarrow> 'ix"
    and void :: 'ix
  assumes ids_add: "ids (add k i x) k' =
      (if k' = k \<and> i \<notin> set (ids x k) then ids x k @ [i] else ids x k')"
    and ids_del: "ids (del k i x) k' = (if k' = k then filter (\<lambda>j. j \<noteq> i) (ids x k) else ids x k')"
    and ids_void: "ids void k = []"
begin

lemma filed_void: "filed_by ids keys (\<lambda>_. None) void"
  by (simp add: filed_by_def ids_void)

lemma set_add_all: "set (ids (foldl (\<lambda>x k. add k i x) x ks) k') = set (ids x k') \<union> (if k' \<in> set ks then {i} else {})"
  by (induction ks arbitrary: x) (auto simp: ids_add)

lemma distinct_add_all: "distinct (ids x k') \<Longrightarrow> distinct (ids (foldl (\<lambda>x k. add k i x) x ks) k')"
proof (induction ks arbitrary: x)
  case (Cons k ks)
  then have "distinct (ids (add k i x) k')" by (auto simp: ids_add)
  with Cons.IH show ?case by simp
qed simp

lemma set_del_all: "set (ids (foldl (\<lambda>x k. del k i x) x ks) k') = set (ids x k') - (if k' \<in> set ks then {i} else {})"
  by (induction ks arbitrary: x) (auto simp: ids_del)

lemma distinct_del_all: "distinct (ids x k') \<Longrightarrow> distinct (ids (foldl (\<lambda>x k. del k i x) x ks) k')"
proof (induction ks arbitrary: x)
  case (Cons k ks)
  then have "distinct (ids (del k i x) k')" by (auto simp: ids_del)
  with Cons.IH show ?case by simp
qed simp

lemma filed_add:
  "filed_by ids keys rs x \<Longrightarrow> rs i = None \<Longrightarrow>
     filed_by ids keys (rs(i := Some r)) (foldl (\<lambda>x k. add k i x) x (keys r))"
  by (auto simp: filed_by_def set_add_all distinct_add_all)

lemma filed_del:
  "filed_by ids keys rs x \<Longrightarrow> rs i = Some r \<Longrightarrow>
     filed_by ids keys (rs(i := None)) (foldl (\<lambda>x k. del k i x) x (keys r))"
  by (auto simp: filed_by_def set_del_all distinct_del_all)

text \<open>A record that changes is refiled, and one whose keys stay need not be.\<close>

lemma filed_change:
  assumes "filed_by ids keys rs x" and "rs i = Some r"
  shows "filed_by ids keys (rs(i := Some r'))
    (foldl (\<lambda>x k. add k i x) (foldl (\<lambda>x k. del k i x) x (keys r)) (keys r'))"
  using filed_add [OF filed_del [OF assms], of i r'] by simp

lemma filed_same: "filed_by ids keys rs x \<Longrightarrow> rs i = Some r \<Longrightarrow> set (keys r') = set (keys r) \<Longrightarrow>
    filed_by ids keys (rs(i := Some r')) x"
  by (auto simp: filed_by_def)

end

definition ids_at :: "task_index \<Rightarrow> string \<Rightarrow> string list" where
  "ids_at ix k = js_nullish (map_get ix k) []"

interpretation tix: id_index ids_at addIndexedKey deleteIndexedKey "[]"
proof unfold_locales
  fix k i k' :: string and x :: task_index
  show "ids_at (addIndexedKey k i x) k' = (if k' = k \<and> i \<notin> set (ids_at x k) then ids_at x k @ [i] else ids_at x k')"
    by (auto simp: ids_at_def addIndexedKey_def Let_def jm.get_put)
  show "ids_at (deleteIndexedKey k i x) k' = (if k' = k then filter (\<lambda>j. j \<noteq> i) (ids_at x k) else ids_at x k')"
    by (auto simp: ids_at_def deleteIndexedKey_def Let_def jm.get_put jm.get_del split: option.split)
  show "ids_at [] k = []" by (simp add: ids_at_def)
qed

text \<open>The index of tasks under a key function.\<close>

definition filed :: "(task \<Rightarrow> string list) \<Rightarrow> (string, task) js_map \<Rightarrow> task_index \<Rightarrow> bool" where
  "filed keys ts ix \<longleftrightarrow> filed_by ids_at keys (map_get ts) ix"

lemma map_get_fun_put: "map_get (map_put k v m) = (map_get m)(k := Some v)"
  by (rule ext) (simp add: jm.get_put)

lemma map_get_fun_del: "map_get (map_del k m) = (map_get m)(k := None)"
  by (rule ext) (simp add: jm.get_del)

lemma filed_insert:
  "filed keys ts ix \<Longrightarrow> map_get ts i = None \<Longrightarrow> filed keys (map_put i t ts) (add_keys (keys t) i ix)"
  unfolding filed_def add_keys_def map_get_fun_put by (rule tix.filed_add)

lemma filed_remove:
  "filed keys ts ix \<Longrightarrow> map_get ts i = Some t \<Longrightarrow> filed keys (map_del i ts) (delete_keys (keys t) i ix)"
  unfolding filed_def delete_keys_def map_get_fun_del by (rule tix.filed_del)

lemma filed_refile:
  "filed keys ts ix \<Longrightarrow> map_get ts i = Some t \<Longrightarrow>
     filed keys (map_put i t' ts) (add_keys (keys t') i (delete_keys (keys t) i ix))"
  unfolding filed_def add_keys_def delete_keys_def map_get_fun_put by (rule tix.filed_change)

lemma filed_keep:
  "filed keys ts ix \<Longrightarrow> map_get ts i = Some t \<Longrightarrow> set (keys t') = set (keys t) \<Longrightarrow> filed keys (map_put i t' ts) ix"
  unfolding filed_def map_get_fun_put by (rule tix.filed_same)

lemma filed_Nil: "filed keys [] []"
proof -
  have "map_get ([] :: (string, task) js_map) = (\<lambda>_. None)" by (rule ext) simp
  then show ?thesis unfolding filed_def using tix.filed_void by metis
qed

lemma map_get_append: "map_get (xs @ ys) k = (case map_get xs k of None \<Rightarrow> map_get ys k | Some v \<Rightarrow> Some v)"
  by (induction xs) auto

text \<open>Building an index anew files every task.\<close>

lemma filed_rebuild: "map_ok ts \<Longrightarrow> filed keys ts (rebuild_index keys ts)"
proof (induction ts rule: rev_induct)
  case Nil
  then show ?case by (simp add: rebuild_index_def filed_Nil)
next
  case (snoc p ts)
  obtain i t where p: "p = (i, t)" by fastforce
  have ok: "map_ok ts" and n: "map_get ts i = None"
    using snoc.prems p by (auto simp: map_ok_def map_get_def map_of_eq_None_iff)
  have put: "map_get (map_put i t ts) = map_get (ts @ [p])"
    by (rule ext) (auto simp: p jm.get_put map_get_append n split: option.split)
  have "filed keys (map_put i t ts) (add_keys (keys t) i (rebuild_index keys ts))"
    by (rule filed_insert [OF snoc.IH [OF ok] n])
  then show ?case by (simp add: filed_def put rebuild_index_def p)
qed

section \<open>Lists are what a scan gives\<close>

lemma consistent_newest: "consistent_cmp compareTasksNewestFirst"
  by (auto simp: consistent_cmp_def compareTasksNewestFirst_def Let_def split: if_splits)

lemma set_sort_tasks [simp]: "set (sort_tasks its) = snd ` set its"
  by (simp add: sort_tasks_def)

lemma sorted_sort_tasks: "sorted_wrt (\<lambda>a b. t_createdAt b \<le> t_createdAt a) (sort_tasks its)"
proof -
  have "sorted_wrt (\<lambda>a b. compareTasksNewestFirst a b \<le> 0) (js_sort compareTasksNewestFirst its)"
    by (rule sorted_js_sort [OF consistent_newest])
  then have "sorted_wrt (\<lambda>a b. t_createdAt (snd b) \<le> t_createdAt (snd a)) (js_sort compareTasksNewestFirst its)"
    by (rule sorted_wrt_mono_rel [rotated]) (auto simp: compareTasksNewestFirst_def Let_def split: if_splits)
  then show ?thesis by (simp add: sort_tasks_def sorted_wrt_map)
qed

lemma indexed_tasks_simps [simp]:
  "indexed_tasks ts [] = []"
  "indexed_tasks ts ((n, i) # ids) = map (Pair n) (the_list (map_get ts i)) @ indexed_tasks ts ids"
  by (simp_all add: indexed_tasks_def)

lemma set_the_list [simp]: "set (the_list x) = set_option x"
  by (cases x) (simp_all add: the_list_def)

lemma set_indexed_tasks:
  "snd ` set (indexed_tasks ts (enumerate n ids)) = {t. \<exists>i\<in>set ids. map_get ts i = Some t}"
proof (induction ids arbitrary: n)
  case (Cons i ids)
  have "snd ` set (indexed_tasks ts (enumerate n (i # ids))) =
      set_option (map_get ts i) \<union> snd ` set (indexed_tasks ts (enumerate (Suc n) ids))"
    by (simp add: image_Un image_image)
  with Cons.IH show ?case by (auto simp: elem_set)
qed simp

text \<open>A list function gives, newest first, exactly the tasks that have the key.\<close>

lemma list_by_exact:
  assumes "filed keys ts ix"
  shows "set (list_by ts ix key) = {t. \<exists>i. map_get ts i = Some t \<and> (\<exists>k. trimmed (Some key) = Some k \<and> k \<in> set (keys t))} \<and>
    sorted_wrt (\<lambda>a b. t_createdAt b \<le> t_createdAt a) (list_by ts ix key)"
proof (cases "trimmed (Some key)")
  case None
  then show ?thesis by (simp add: list_by_def)
next
  case (Some k)
  have f: "i \<in> set (ids_at ix k) \<longleftrightarrow> (\<exists>t. map_get ts i = Some t \<and> k \<in> set (keys t))" for i
    using assms by (auto simp: filed_def filed_by_def)
  have l: "listTasksFromIndex ts ix k = sort_tasks (indexed_tasks ts (enumerate 0 (ids_at ix k)))"
    by (auto simp: listTasksFromIndex_def ids_at_def sort_tasks_def indexed_tasks_def split: option.split)
  have "set (list_by ts ix key) = {t. \<exists>i\<in>set (ids_at ix k). map_get ts i = Some t}"
    by (simp add: list_by_def Some l set_indexed_tasks)
  also have "\<dots> = {t. \<exists>i. map_get ts i = Some t \<and> k \<in> set (keys t)}"
    by (auto simp: f)
  finally show ?thesis by (simp add: Some list_by_def l sorted_sort_tasks)
qed

lemma runs_exact:
  "filed run_keys (tr_tasks st) (tr_byRunId st) \<Longrightarrow>
     set (getTasksByRunId st runId) =
       {t. \<exists>i. map_get (tr_tasks st) i = Some t \<and> js_trim runId \<noteq> [] \<and> trimmed (t_runId t) = Some (js_trim runId)}"
proof -
  assume f: "filed run_keys (tr_tasks st) (tr_byRunId st)"
  have "set (getTasksByRunId st runId) = {t. \<exists>i\<in>set (ids_at (tr_byRunId st) (js_trim runId)). map_get (tr_tasks st) i = Some t}"
    by (auto simp: getTasksByRunId_def ids_at_def the_list_def split: option.splits)
  also have "\<dots> = {t. \<exists>i. map_get (tr_tasks st) i = Some t \<and> js_trim runId \<in> set (run_keys t)}"
    using f by (auto simp: filed_def filed_by_def)
  also have "\<dots> = {t. \<exists>i. map_get (tr_tasks st) i = Some t \<and> js_trim runId \<noteq> [] \<and> trimmed (t_runId t) = Some (js_trim runId)}"
    by (auto simp: run_keys_def the_list_def trimmed_def nonempty_def split: option.splits if_splits)
  finally show ?thesis .
qed

end
