(* ===== verification/Task_Props.thy ===== *)
theory Task_Props
  imports Task_Index_Props
begin

text \<open>
  What holds of the task registry in every state that its operations and the restarts of the process can
  reach: the lists are exact, tasks and flows of different owners are never linked, and a task's end is
  delivered by one job at a time.
\<close>

section \<open>The invariant\<close>

definition tasks_ok :: "(string, task) js_map \<Rightarrow> bool" where
  "tasks_ok ts \<longleftrightarrow> map_ok ts \<and>
     (\<forall>i t. map_get ts i = Some t \<longrightarrow> t_id t = i \<and> (isTerminalTaskStatus (t_status t) \<longrightarrow> t_cleanupAfter t \<noteq> None))"

text \<open>A managed flow names its controller, so no patch of it but one of the controller throws.\<close>

definition has_controller :: "flow \<Rightarrow> bool" where
  "has_controller f \<longleftrightarrow> (fl_sync f = Managed \<longrightarrow> trimmed (fl_controllerId f) \<noteq> None)"

definition flows_ok :: "flows \<Rightarrow> bool" where
  "flows_ok fs \<longleftrightarrow> map_ok fs \<and> (\<forall>k f. map_get fs k = Some f \<longrightarrow> fl_id f = k \<and> has_controller f)"

text \<open>A task and the flow it is linked to have the same owner.\<close>

definition may_link :: "flows \<Rightarrow> task \<Rightarrow> bool" where
  "may_link fs t \<longleftrightarrow>
     (\<forall>k f. trimmed (t_parentFlowId t) = Some k \<longrightarrow> map_get fs k = Some f \<longrightarrow>
        t_scopeKind t = Scope_Session \<and> normalizeOwnerKey (fl_ownerKey f) = normalizeOwnerKey (t_ownerKey t))"

definition linked_ok :: "(string, task) js_map \<Rightarrow> flows \<Rightarrow> bool" where
  "linked_ok ts fs \<longleftrightarrow> (\<forall>i t. map_get ts i = Some t \<longrightarrow> may_link fs t)"

definition indexes_ok :: "task_registry \<Rightarrow> bool" where
  "indexes_ok st \<longleftrightarrow>
     filed run_keys (tr_tasks st) (tr_byRunId st) \<and> filed owner_keys (tr_tasks st) (tr_byOwnerKey st) \<and>
     filed flow_keys (tr_tasks st) (tr_byFlowId st) \<and>
     filed getTaskRelatedSessionIndexKeys (tr_tasks st) (tr_bySession st)"

text \<open>The jobs that deliver the end of a task, one for each pending task.\<close>

definition terminal_job :: "task_registry \<Rightarrow> nat \<Rightarrow> string \<Rightarrow> bool" where
  "terminal_job st n taskId \<longleftrightarrow>
     (\<exists>j. map_get (tr_jobs st) n = Some j \<and> dj_kind j = Terminal_Job \<and> t_id (dj_task j) = taskId)"

definition jobs_ok :: "task_registry \<Rightarrow> bool" where
  "jobs_ok st \<longleftrightarrow>
     (\<forall>n j. map_get (tr_jobs st) n = Some j \<longrightarrow> n < tr_nextJob st) \<and>
     (\<forall>i. i \<in> set (tr_pending st) \<longleftrightarrow> (\<exists>n. terminal_job st n i)) \<and>
     (\<forall>n m i. terminal_job st n i \<longrightarrow> terminal_job st m i \<longrightarrow> n = m) \<and>
     (\<forall>n j. map_get (tr_jobs st) n = Some j \<longrightarrow> dj_kind j = Terminal_Job \<longrightarrow>
        shouldAutoDeliverTaskTerminalUpdate (dj_task j))"

definition core_ok :: "task_registry \<Rightarrow> bool" where
  "core_ok st \<longleftrightarrow> tasks_ok (tr_tasks st) \<and> flows_ok (tr_flows st) \<and> linked_ok (tr_tasks st) (tr_flows st) \<and> indexes_ok st"

definition registry_ok :: "task_registry \<Rightarrow> bool" where
  "registry_ok st \<longleftrightarrow> core_ok st \<and> jobs_ok st"

lemma registry_ok_empty: "registry_ok empty_registry"
  by (simp add: registry_ok_def core_ok_def empty_registry_def tasks_ok_def flows_ok_def linked_ok_def indexes_ok_def
      jobs_ok_def terminal_job_def filed_Nil)

section \<open>Flows keep their owner\<close>

text \<open>A change of the flow registry that creates no flow and changes no owner.\<close>

definition same_owners :: "flows \<Rightarrow> flows \<Rightarrow> bool" where
  "same_owners fs fs' \<longleftrightarrow>
     (\<forall>k f'. map_get fs' k = Some f' \<longrightarrow> (\<exists>f. map_get fs k = Some f \<and> fl_ownerKey f' = fl_ownerKey f)) \<and>
     (flows_ok fs \<longrightarrow> flows_ok fs')"

lemma same_owners_refl [simp]: "same_owners fs fs"
  by (simp add: same_owners_def)

lemma same_owners_trans: "same_owners fs gs \<Longrightarrow> same_owners gs hs \<Longrightarrow> same_owners fs hs"
  unfolding same_owners_def by metis

lemma applyFlowPatch_keeps:
  "applyFlowPatch clock f p = Inr g \<Longrightarrow> fl_id g = fl_id f \<and> fl_ownerKey g = fl_ownerKey f \<and>
     fl_revision g = fl_revision f + 1 \<and> fl_sync g = fl_sync f \<and> has_controller g"
  by (auto simp: applyFlowPatch_def has_controller_def Let_def split: if_splits)

lemma write_same_owners:
  assumes "flows_ok fs" and "map_get fs k = Some f" and "applyFlowPatch clock f p = Inr g"
  shows "same_owners fs (writeFlowRecord g fs)"
proof -
  have k: "fl_id g = k" using assms applyFlowPatch_keeps by (auto simp: flows_ok_def)
  show ?thesis
    using assms applyFlowPatch_keeps [OF assms(3)]
    by (auto simp: same_owners_def writeFlowRecord_def jm.get_put flows_ok_def k split: if_splits)
qed

lemma update_expected_same_owners:
  "flows_ok fs \<Longrightarrow> same_owners fs (snd (updateFlowRecordByIdExpectedRevision clock k r p fs))"
  by (auto simp: updateFlowRecordByIdExpectedRevision_def intro: write_same_owners split: option.split sum.split)

lemma sync_same_owners: "flows_ok fs \<Longrightarrow> same_owners fs (snd (syncFlowFromTask clock t fs))"
  by (auto simp: syncFlowFromTask_def updateFlowRecordByIdUnchecked_def getTaskFlowById_def
      intro: write_same_owners split: option.split sum.split)

lemma finalize_only_flows:
  "flows_ok (tr_flows st) \<Longrightarrow>
     \<exists>fs. finalize_cancellation n clock e k f st = st\<lparr>tr_flows := fs\<rparr> \<and> same_owners (tr_flows st) fs"
proof (induction n arbitrary: f)
  case 0
  show ?case by (rule exI [of _ "tr_flows st"]) simp
next
  case (Suc n)
  let ?u = "updateFlowRecordByIdExpectedRevision clock k (fl_revision f) (cancelled_patch e) (tr_flows st)"
  have s: "same_owners (tr_flows st) (snd ?u)" by (rule update_expected_same_owners [OF Suc.prems])
  have id: "\<exists>fs. st = st\<lparr>tr_flows := fs\<rparr> \<and> same_owners (tr_flows st) fs"
    by (rule exI [of _ "tr_flows st"]) simp
  show ?case
  proof (cases "\<exists>g. fst ?u = Inr (Flow_Revision_Conflict g)")
    case True
    then obtain g fs where "?u = (Inr (Flow_Revision_Conflict g), fs)" by (metis prod.collapse)
    then show ?thesis using Suc.IH [OF Suc.prems, of g] id by (auto split: if_splits)
  next
    case False
    then have "finalize_cancellation (Suc n) clock e k f st = st\<lparr>tr_flows := snd ?u\<rparr>"
      by (auto split: prod.split sum.split flow_update_result.split)
    with s show ?thesis by blast
  qed
qed

lemma sync_cancellation_only_flows:
  "flows_ok (tr_flows st) \<Longrightarrow>
     \<exists>fs. syncManagedFlowCancellationFromTask clock t st = st\<lparr>tr_flows := fs\<rparr> \<and> same_owners (tr_flows st) fs"
proof -
  assume ok: "flows_ok (tr_flows st)"
  have id: "\<exists>fs. st = st\<lparr>tr_flows := fs\<rparr> \<and> same_owners (tr_flows st) fs"
    by (rule exI [of _ "tr_flows st"]) simp
  show ?thesis
    unfolding syncManagedFlowCancellationFromTask_def
    by (auto split: option.split simp: id finalize_only_flows [OF ok])
qed

lemma may_link_same_owners: "may_link fs t \<Longrightarrow> same_owners fs fs' \<Longrightarrow> may_link fs' t"
  unfolding may_link_def same_owners_def by metis

lemma linked_same_owners: "linked_ok ts fs \<Longrightarrow> same_owners fs fs' \<Longrightarrow> linked_ok ts fs'"
  unfolding linked_ok_def using may_link_same_owners by blast

section \<open>Updates\<close>

lemma trimmed_idem [simp]: "trimmed (trimmed x) = trimmed x"
  by (auto simp: trimmed_def nonempty_def split: option.splits)

lemma trimmed_Some: "trimmed x = Some k \<Longrightarrow> trimmed (Some k) = Some k"
  using trimmed_idem [of x] by simp

lemma trimmed_bind: "trimmed x = Option.bind (map_option js_trim x) nonempty"
  by (cases x) (simp_all add: trimmed_def)

lemma stamp_cleanup_simps [simp]:
  "t_id (stamp_cleanup clock t) = t_id t"
  "t_runId (stamp_cleanup clock t) = t_runId t"
  "t_ownerKey (stamp_cleanup clock t) = t_ownerKey t"
  "t_scopeKind (stamp_cleanup clock t) = t_scopeKind t"
  "t_childSessionKey (stamp_cleanup clock t) = t_childSessionKey t"
  "t_parentFlowId (stamp_cleanup clock t) = t_parentFlowId t"
  "t_status (stamp_cleanup clock t) = t_status t"
  by (simp_all add: stamp_cleanup_def)

lemma stamp_cleanup_stamps: "isTerminalTaskStatus (t_status t) \<Longrightarrow> t_cleanupAfter (stamp_cleanup clock t) \<noteq> None"
  by (simp add: stamp_cleanup_def)

lemma reindex_only_indexes:
  "\<exists>a b c d. reindex current nxt i st = st\<lparr>tr_byRunId := a, tr_byOwnerKey := b, tr_byFlowId := c, tr_bySession := d\<rparr>"
proof -
  have "reindex current nxt i st = st\<lparr>tr_byRunId := tr_byRunId (reindex current nxt i st),
      tr_byOwnerKey := tr_byOwnerKey (reindex current nxt i st), tr_byFlowId := tr_byFlowId (reindex current nxt i st),
      tr_bySession := tr_bySession (reindex current nxt i st)\<rparr>"
    by (simp add: reindex_def Let_def)
  then show ?thesis by blast
qed

lemma reindex_tasks [simp]:
  "tr_tasks (reindex current nxt i st) = tr_tasks st"
  "tr_flows (reindex current nxt i st) = tr_flows st"
  "tr_jobs (reindex current nxt i st) = tr_jobs st"
  "tr_pending (reindex current nxt i st) = tr_pending st"
  "tr_nextJob (reindex current nxt i st) = tr_nextJob st"
  "tr_delivery (reindex current nxt i st) = tr_delivery st"
  by (simp_all add: reindex_def Let_def)

lemma reindex_ok:
  assumes ix: "indexes_ok st" and cur: "map_get (tr_tasks st) i = Some current" and r: "t_runId nxt = t_runId current"
  shows "indexes_ok (reindex current nxt i (st\<lparr>tr_tasks := map_put i nxt (tr_tasks st)\<rparr>))"
proof -
  let ?ts = "map_put i nxt (tr_tasks st)"
  have run: "filed run_keys ?ts (tr_byRunId st)"
    using filed_keep [OF _ cur] ix r by (simp add: indexes_ok_def run_keys_def)
  have owner: "trimmed (Some (t_ownerKey current)) = trimmed (Some (t_ownerKey nxt)) \<Longrightarrow>
      filed owner_keys ?ts (tr_byOwnerKey st)"
    using filed_keep [OF _ cur] ix by (simp add: indexes_ok_def owner_keys_def)
  have session: "trimmed (Some (t_ownerKey current)) = trimmed (Some (t_ownerKey nxt)) \<Longrightarrow>
      trimmed (t_childSessionKey current) = trimmed (t_childSessionKey nxt) \<Longrightarrow>
      filed getTaskRelatedSessionIndexKeys ?ts (tr_bySession st)"
    using filed_keep [OF _ cur] ix by (simp add: indexes_ok_def getTaskRelatedSessionIndexKeys_def)
  have "map_option js_trim (t_parentFlowId current) = map_option js_trim (t_parentFlowId nxt) \<Longrightarrow>
      trimmed (t_parentFlowId nxt) = trimmed (t_parentFlowId current)"
    by (simp add: trimmed_bind)
  then have flow: "map_option js_trim (t_parentFlowId current) = map_option js_trim (t_parentFlowId nxt) \<Longrightarrow>
      filed flow_keys ?ts (tr_byFlowId st)"
    using filed_keep [OF _ cur, of flow_keys] ix by (simp add: indexes_ok_def flow_keys_def)
  have refile: "filed owner_keys ?ts (add_keys (owner_keys nxt) i (delete_keys (owner_keys current) i (tr_byOwnerKey st)))"
    "filed flow_keys ?ts (add_keys (flow_keys nxt) i (delete_keys (flow_keys current) i (tr_byFlowId st)))"
    "filed getTaskRelatedSessionIndexKeys ?ts (add_keys (getTaskRelatedSessionIndexKeys nxt) i
       (delete_keys (getTaskRelatedSessionIndexKeys current) i (tr_bySession st)))"
    using filed_refile [OF _ cur] ix by (simp_all add: indexes_ok_def)
  show ?thesis
    using run owner session flow refile r by (simp add: indexes_ok_def reindex_def Let_def)
qed

text \<open>A patch that leaves what the indexes and links are made of alone, but for the parent flow.\<close>

definition plain_patch :: "(task \<Rightarrow> task) \<Rightarrow> bool" where
  "plain_patch f \<longleftrightarrow> (\<forall>t. t_id (f t) = t_id t \<and> t_runId (f t) = t_runId t \<and> t_ownerKey (f t) = t_ownerKey t \<and>
     t_scopeKind (f t) = t_scopeKind t \<and> t_childSessionKey (f t) = t_childSessionKey t)"

definition keeps_flow :: "(task \<Rightarrow> task) \<Rightarrow> bool" where
  "keeps_flow f \<longleftrightarrow> (\<forall>t. t_parentFlowId (f t) = t_parentFlowId t)"

text \<open>An update that finds its task changes the task, the indexes and the flows.\<close>

lemma updateTask_form:
  assumes fl: "flows_ok (tr_flows st)" and Some: "map_get (tr_tasks st) i = Some current"
  shows "\<exists>fs. snd (updateTask clock i f st) =
      reindex current (stamp_cleanup clock (f current)) i
        (st\<lparr>tr_tasks := map_put i (stamp_cleanup clock (f current)) (tr_tasks st)\<rparr>)\<lparr>tr_flows := fs\<rparr> \<and>
    same_owners (tr_flows st) fs"
proof -
  let ?nxt = "stamp_cleanup clock (f current)"
  let ?st1 = "reindex current ?nxt i (st\<lparr>tr_tasks := map_put i ?nxt (tr_tasks st)\<rparr>)"
  let ?st2 = "?st1\<lparr>tr_flows := snd (syncFlowFromTask clock ?nxt (tr_flows ?st1))\<rparr>"
  have s2: "same_owners (tr_flows st) (tr_flows ?st2)" using sync_same_owners [OF fl] by simp
  then have "flows_ok (tr_flows ?st2)" using fl by (simp add: same_owners_def)
  then obtain fs where st3: "syncManagedFlowCancellationFromTask clock ?nxt ?st2 = ?st2\<lparr>tr_flows := fs\<rparr>"
      and "same_owners (tr_flows ?st2) fs"
    using sync_cancellation_only_flows by blast
  then have s3: "same_owners (tr_flows st) fs" using s2 same_owners_trans by blast
  have "snd (updateTask clock i f st) = ?st1\<lparr>tr_flows := fs\<rparr>"
    using st3 by (simp add: updateTask_def Some Let_def)
  with s3 show ?thesis by blast
qed

lemma updateTask_none: "map_get (tr_tasks st) i = None \<Longrightarrow> updateTask clock i f st = (None, st)"
  by (simp add: updateTask_def)

lemma updateTask_rest:
  assumes "flows_ok (tr_flows st)"
  shows "tr_jobs (snd (updateTask clock i f st)) = tr_jobs st \<and> tr_pending (snd (updateTask clock i f st)) = tr_pending st \<and>
    tr_nextJob (snd (updateTask clock i f st)) = tr_nextJob st \<and>
    (map_get (tr_tasks st) j = None \<longrightarrow> map_get (tr_tasks (snd (updateTask clock i f st))) j = None)"
proof (cases "map_get (tr_tasks st) i")
  case (Some current)
  then show ?thesis using updateTask_form [OF assms Some, of clock f] by (auto simp: jm.get_put)
qed (simp add: updateTask_none)

lemma updateTask_core:
  assumes ok: "core_ok st" and f: "plain_patch f"
    and link: "\<And>t. map_get (tr_tasks st) i = Some t \<Longrightarrow> may_link (tr_flows st) t \<Longrightarrow> may_link (tr_flows st) (f t)"
  shows "core_ok (snd (updateTask clock i f st))"
proof (cases "map_get (tr_tasks st) i")
  case None
  with ok show ?thesis by (simp add: updateTask_none)
next
  case (Some current)
  let ?nxt = "stamp_cleanup clock (f current)"
  let ?ts = "map_put i ?nxt (tr_tasks st)"
  let ?st1 = "reindex current ?nxt i (st\<lparr>tr_tasks := ?ts\<rparr>)"
  have fl: "flows_ok (tr_flows st)" using ok by (simp add: core_ok_def)
  obtain fs where st': "snd (updateTask clock i f st) = ?st1\<lparr>tr_flows := fs\<rparr>" and s3: "same_owners (tr_flows st) fs"
    using updateTask_form [OF fl Some] by blast
  have c: "t_id current = i" "may_link (tr_flows st) current"
    using ok Some by (auto simp: core_ok_def tasks_ok_def linked_ok_def)
  have n: "t_id ?nxt = i" "t_runId ?nxt = t_runId current" using f c by (simp_all add: plain_patch_def)
  have "tasks_ok ?ts"
    using ok n stamp_cleanup_stamps [of "f current" clock]
    by (auto simp: core_ok_def tasks_ok_def jm.get_put split: if_splits)
  moreover have "linked_ok ?ts fs"
  proof -
    have "may_link (tr_flows st) ?nxt" using link [OF Some c(2)] by (simp add: may_link_def)
    then have "linked_ok ?ts (tr_flows st)" using ok by (simp add: core_ok_def linked_ok_def jm.get_put)
    then show ?thesis by (rule linked_same_owners [OF _ s3])
  qed
  moreover have "indexes_ok ?st1" using reindex_ok [OF _ Some n(2)] ok by (simp add: core_ok_def)
  moreover have "flows_ok fs" using s3 fl by (simp add: same_owners_def)
  ultimately show ?thesis unfolding st' by (simp add: core_ok_def indexes_ok_def)
qed

text \<open>The part of the invariant about deliveries only reads three fields.\<close>

definition same_jobs :: "task_registry \<Rightarrow> task_registry \<Rightarrow> bool" where
  "same_jobs st st' \<longleftrightarrow> tr_jobs st' = tr_jobs st \<and> tr_pending st' = tr_pending st \<and> tr_nextJob st' = tr_nextJob st"

lemma jobs_ok_same: "jobs_ok st \<Longrightarrow> same_jobs st st' \<Longrightarrow> jobs_ok st'"
  by (simp add: same_jobs_def jobs_ok_def terminal_job_def)

text \<open>A step that keeps the core and does not touch the deliveries.\<close>

definition core_step :: "task_registry \<Rightarrow> task_registry \<Rightarrow> bool" where
  "core_step st st' \<longleftrightarrow> (core_ok st \<longrightarrow> core_ok st' \<and> same_jobs st st' \<and>
     (\<forall>i. map_get (tr_tasks st) i = None \<longrightarrow> map_get (tr_tasks st') i = None))"

lemma core_step_refl [simp]: "core_step st st"
  by (simp add: core_step_def same_jobs_def)

lemma core_step_trans [trans]: "core_step st st' \<Longrightarrow> core_step st' st'' \<Longrightarrow> core_step st st''"
  by (auto simp: core_step_def same_jobs_def)

lemma core_step_ok: "core_step st st' \<Longrightarrow> registry_ok st \<Longrightarrow> registry_ok st'"
  using jobs_ok_same by (auto simp: core_step_def registry_ok_def)

lemma updateTask_step:
  assumes "plain_patch f"
    and "\<And>t. core_ok st \<Longrightarrow> map_get (tr_tasks st) i = Some t \<Longrightarrow> may_link (tr_flows st) t \<Longrightarrow> may_link (tr_flows st) (f t)"
  shows "core_step st (snd (updateTask clock i f st))"
  unfolding core_step_def same_jobs_def
  using updateTask_core [OF _ assms(1), of st i clock] assms(2) updateTask_rest [of st clock i f]
  by (auto simp: core_ok_def)

lemma updateTask_plain:
  "plain_patch f \<Longrightarrow> keeps_flow f \<Longrightarrow> core_step st (snd (updateTask clock i f st))"
  by (rule updateTask_step) (auto simp: plain_patch_def keeps_flow_def may_link_def)

text \<open>What only records calls or delivery contexts.\<close>

lemma core_step_fields:
  "tr_tasks st' = tr_tasks st \<Longrightarrow> tr_flows st' = tr_flows st \<Longrightarrow> tr_byRunId st' = tr_byRunId st \<Longrightarrow>
     tr_byOwnerKey st' = tr_byOwnerKey st \<Longrightarrow> tr_byFlowId st' = tr_byFlowId st \<Longrightarrow> tr_bySession st' = tr_bySession st \<Longrightarrow>
     same_jobs st st' \<Longrightarrow> core_step st st'"
  by (simp add: core_step_def core_ok_def indexes_ok_def)

lemma queue_step:
  "core_step st (call cs st)"
  "core_step st (queueTaskSystemEvent env t content st)"
  "core_step st (queueBlockedTaskFollowup env t st)"
  "core_step st (queue_followup_if_blocked env t st)"
proof -
  show c: "core_step st (call cs st)" for cs st by (rule core_step_fields) (simp_all add: call_def same_jobs_def)
  show "core_step st (queueTaskSystemEvent env t content st)"
    by (auto simp: queueTaskSystemEvent_def Let_def c split: option.split)
  show f: "core_step st (queueBlockedTaskFollowup env t st)" for st
    by (auto simp: queueBlockedTaskFollowup_def Let_def c split: option.split)
  show "core_step st (queue_followup_if_blocked env t st)" by (simp add: queue_followup_if_blocked_def f)
qed

lemma upsert_step: "core_step st (upsertTaskDeliveryState env i origin n st)"
  by (rule core_step_fields) (simp_all add: upsertTaskDeliveryState_def Let_def same_jobs_def)

lemma set_delivery_step: "core_step st (set_delivery clock i status st)"
  unfolding set_delivery_def by (rule updateTask_plain) (simp_all add: plain_patch_def keeps_flow_def)

lemma touch_step: "core_step st (snd (updateTask clock i (\<lambda>t. t\<lparr>t_lastEventAt := v\<rparr>) st))"
  by (rule updateTask_plain) (simp_all add: plain_patch_def keeps_flow_def)

section \<open>Deliveries\<close>

lemma add_terminal_job:
  assumes ok: "jobs_ok st" and id: "t_id (dj_task j) = i" and fresh: "i \<notin> set (tr_pending st)"
    and j: "dj_kind j = Terminal_Job" "shouldAutoDeliverTaskTerminalUpdate (dj_task j)"
  shows "jobs_ok (add_job j (st\<lparr>tr_pending := tr_pending st @ [i]\<rparr>))"
proof -
  let ?st = "add_job j (st\<lparr>tr_pending := tr_pending st @ [i]\<rparr>)"
  have new: "map_get (tr_jobs st) (tr_nextJob st) = None"
    using ok by (metis jobs_ok_def less_irrefl not_None_eq)
  then have t: "terminal_job ?st n k \<longleftrightarrow> terminal_job st n k \<or> n = tr_nextJob st \<and> k = i" for n k
    using j id by (auto simp: terminal_job_def add_job_def jm.get_put)
  have "k \<in> set (tr_pending ?st) \<longleftrightarrow> (\<exists>n. terminal_job ?st n k)" for k
    using ok unfolding t by (auto simp: jobs_ok_def add_job_def)
  moreover have "n = m" if "terminal_job ?st n k" "terminal_job ?st m k" for n m k
    using that ok fresh unfolding t jobs_ok_def by metis
  moreover have "n < tr_nextJob ?st" if "map_get (tr_jobs ?st) n = Some k" for n k
    using that ok by (auto simp: jobs_ok_def add_job_def jm.get_put less_SucI split: if_splits)
  moreover have "shouldAutoDeliverTaskTerminalUpdate (dj_task k)"
    if "map_get (tr_jobs ?st) n = Some k" "dj_kind k = Terminal_Job" for n k
    using that ok j by (auto simp: jobs_ok_def add_job_def jm.get_put split: if_splits)
  ultimately show ?thesis unfolding jobs_ok_def by blast
qed

lemma add_other_job:
  assumes "jobs_ok st" and "dj_kind j \<noteq> Terminal_Job"
  shows "jobs_ok (add_job j st)"
proof -
  have new: "map_get (tr_jobs st) (tr_nextJob st) = None"
    using assms(1) by (metis jobs_ok_def less_irrefl not_None_eq)
  then have t: "terminal_job (add_job j st) n i \<longleftrightarrow> terminal_job st n i" for n i
    using assms(2) by (auto simp: terminal_job_def add_job_def jm.get_put)
  show ?thesis using assms unfolding jobs_ok_def t
    by (auto simp: add_job_def jm.get_put less_SucI split: if_splits)
qed

lemma core_ok_jobs [simp]:
  "core_ok (add_job j st) = core_ok st"
  "core_ok (st\<lparr>tr_pending := p\<rparr>) = core_ok st"
  "core_ok (st\<lparr>tr_jobs := js\<rparr>) = core_ok st"
  by (simp_all add: core_ok_def indexes_ok_def add_job_def)

lemma deliver_terminal_ok: "registry_ok st \<Longrightarrow> registry_ok (maybeDeliverTaskTerminalUpdate env clock i st)"
proof (cases "map_get (tr_tasks st) i")
  case (Some t)
  assume ok: "registry_ok st"
  then have i: "t_id t = i" using Some by (auto simp: registry_ok_def core_ok_def tasks_ok_def)
  have q: "core_step st (set_delivery clock i D_Session_Queued
      (queue_followup_if_blocked env t (queueTaskSystemEvent env t c st)))" for c
    by (rule core_step_trans [OF queue_step(2) core_step_trans [OF queue_step(4) set_delivery_step]])
  show ?thesis
    using ok core_step_ok [OF set_delivery_step ok] core_step_ok [OF q ok] add_terminal_job [of st _ i]
    by (auto simp: maybeDeliverTaskTerminalUpdate_def Some Let_def registry_ok_def i)
qed (simp add: maybeDeliverTaskTerminalUpdate_def)

lemma deliver_state_change_ok: "registry_ok st \<Longrightarrow> registry_ok (maybeDeliverTaskStateChangeUpdate env clock i e st)"
proof (cases "map_get (tr_tasks st) i"; cases e)
  fix t ev
  assume ok: "registry_ok st" and t: "map_get (tr_tasks st) i = Some t" and e: "e = Some ev"
  have q: "core_step st (snd (updateTask clock i (\<lambda>t. t\<lparr>t_lastEventAt := Some clock\<rparr>)
      (upsertTaskDeliveryState env i origin n (queueTaskSystemEvent env t c st))))" for origin n c
    by (rule core_step_trans [OF queue_step(2) core_step_trans [OF upsert_step touch_step]])
  show ?thesis
    using ok core_step_ok [OF set_delivery_step ok] core_step_ok [OF q ok] add_other_job [of st]
    by (auto simp: maybeDeliverTaskStateChangeUpdate_def t e Let_def registry_ok_def split: option.split)
qed (simp_all add: maybeDeliverTaskStateChangeUpdate_def)

lemma deliver_updates_ok: "registry_ok st \<Longrightarrow> registry_ok (deliver_updates env clock i e st)"
  by (simp add: deliver_updates_def deliver_terminal_ok deliver_state_change_ok)

lemma send_job_ok: "registry_ok st \<Longrightarrow> registry_ok (send_job env n st)"
proof (cases "map_get (tr_jobs st) n")
  case (Some j)
  assume ok: "registry_ok st"
  let ?st = "st\<lparr>tr_jobs := map_put n (j\<lparr>dj_sent := True\<rparr>) (tr_jobs st)\<rparr>"
  have t: "terminal_job ?st m i \<longleftrightarrow> terminal_job st m i" for m i
    using Some by (auto simp: terminal_job_def jm.get_put)
  have "jobs_ok ?st"
    using ok Some unfolding registry_ok_def jobs_ok_def t by (auto simp: jm.get_put split: if_splits)
  then have "registry_ok ?st" using ok by (simp add: registry_ok_def)
  then show ?thesis using ok core_step_ok [OF queue_step(1)] by (auto simp: send_job_def Some)
qed (simp add: send_job_def)

end
