(* ===== verification/Task_Steps.thy ===== *)
theory Task_Steps
  imports Task_Props
begin

text \<open>
  Every operation of the task registry keeps the invariant: the end of a delivery, creation, the changes by id
  and by run, deletion, the operations on flows and the restart of the process.
\<close>

section \<open>The end of a delivery\<close>

lemma release_ok:
  assumes ok: "registry_ok st" and j: "map_get (tr_jobs st) n = Some j" "dj_kind j = Terminal_Job"
    and step: "core_step (end_job n st) st2"
  shows "registry_ok (release_pending (t_id (dj_task j)) st2)"
proof -
  let ?i = "t_id (dj_task j)" and ?st3 = "release_pending (t_id (dj_task j)) st2"
  have jb: "jobs_ok st" and "core_ok (end_job n st)" using ok by (simp_all add: registry_ok_def end_job_def)
  with step have c: "core_ok st2" and s: "same_jobs (end_job n st) st2" by (auto simp: core_step_def)
  then have f: "tr_jobs ?st3 = map_del n (tr_jobs st)" "tr_nextJob ?st3 = tr_nextJob st"
      "tr_pending ?st3 = filter (\<lambda>i. i \<noteq> ?i) (tr_pending st)"
    by (simp_all add: same_jobs_def end_job_def release_pending_def)
  have n: "terminal_job st n ?i" using j by (simp add: terminal_job_def)
  have t: "terminal_job ?st3 m k \<longleftrightarrow> terminal_job st m k \<and> k \<noteq> ?i" for m k
  proof -
    have "terminal_job ?st3 m k \<longleftrightarrow> terminal_job st m k \<and> m \<noteq> n" by (auto simp: terminal_job_def f jm.get_del)
    moreover have "terminal_job st m k \<Longrightarrow> m = n \<longleftrightarrow> k = ?i"
      using jb n j by (auto simp: jobs_ok_def terminal_job_def)
    ultimately show ?thesis by blast
  qed
  have "jobs_ok ?st3"
    using jb unfolding jobs_ok_def t f by (auto simp: jm.get_del split: if_splits)
  with c show ?thesis by (simp add: registry_ok_def release_pending_def)
qed

lemma end_other_job_ok:
  assumes ok: "registry_ok st" and j: "map_get (tr_jobs st) n = Some j" "dj_kind j \<noteq> Terminal_Job"
  shows "registry_ok (end_job n st)"
proof -
  have t: "terminal_job (end_job n st) m k \<longleftrightarrow> terminal_job st m k" for m k
    using j by (auto simp: terminal_job_def end_job_def jm.get_del)
  have "jobs_ok (end_job n st)"
    using ok unfolding registry_ok_def jobs_ok_def t by (auto simp: end_job_def jm.get_del split: if_splits)
  with ok show ?thesis by (simp add: registry_ok_def end_job_def)
qed

lemma finish_job_ok: "registry_ok st \<Longrightarrow> registry_ok (finish_job env clock success n st)"
proof (cases "map_get (tr_jobs st) n")
  case (Some j)
  assume ok: "registry_ok st"
  show ?thesis
  proof (cases "dj_kind j")
    case Terminal_Job
    show ?thesis
      using ok release_ok [OF ok Some Terminal_Job] core_step_trans [OF queue_step(4) set_delivery_step]
        core_step_trans [OF queue_step(2) core_step_trans [OF queue_step(4) set_delivery_step]]
      by (simp add: finish_job_def Some Terminal_Job Let_def)
  next
    case (State_Change_Job e origin)
    then have e: "registry_ok (end_job n st)" using end_other_job_ok [OF ok Some] by simp
    show ?thesis
      using ok e core_step_ok [OF core_step_trans [OF upsert_step touch_step] e]
      by (simp add: finish_job_def Some State_Change_Job Let_def)
  qed
qed (simp add: finish_job_def)

section \<open>Creation\<close>

lemma link_allowed:
  "assertParentFlowLinkAllowed fs (t_ownerKey t) (t_scopeKind t) p = Inr u \<Longrightarrow>
     trimmed (t_parentFlowId t) = trimmed p \<Longrightarrow> may_link fs t"
  by (auto simp: assertParentFlowLinkAllowed_def may_link_def getTaskFlowById_def split: option.splits if_splits)

lemma upsert_fields [simp]:
  "tr_tasks (upsertTaskDeliveryState env i origin n st) = tr_tasks st"
  "tr_flows (upsertTaskDeliveryState env i origin n st) = tr_flows st"
  "tr_byRunId (upsertTaskDeliveryState env i origin n st) = tr_byRunId st"
  "tr_byOwnerKey (upsertTaskDeliveryState env i origin n st) = tr_byOwnerKey st"
  "tr_byFlowId (upsertTaskDeliveryState env i origin n st) = tr_byFlowId st"
  "tr_bySession (upsertTaskDeliveryState env i origin n st) = tr_bySession st"
  "tr_jobs (upsertTaskDeliveryState env i origin n st) = tr_jobs st"
  "tr_pending (upsertTaskDeliveryState env i origin n st) = tr_pending st"
  "tr_nextJob (upsertTaskDeliveryState env i origin n st) = tr_nextJob st"
  by (simp_all add: upsertTaskDeliveryState_def Let_def)

lemma insert_task_ok:
  assumes ok: "registry_ok st" and fresh: "map_get (tr_tasks st) (t_id t) = None"
    and link: "may_link (tr_flows st) t" and stamped: "isTerminalTaskStatus (t_status t) \<Longrightarrow> t_cleanupAfter t \<noteq> None"
  shows "registry_ok (insert_task env clock t origin st)"
proof -
  let ?st = "insert_task env clock t origin st"
  let ?ts = "map_put (t_id t) t (tr_tasks st)"
  have c: "core_ok st" using ok by (simp add: registry_ok_def)
  have fs: "same_owners (tr_flows st) (snd (syncFlowFromTask clock t (tr_flows st)))"
    using c by (intro sync_same_owners) (simp add: core_ok_def)
  have f: "tr_tasks ?st = ?ts" "tr_flows ?st = snd (syncFlowFromTask clock t (tr_flows st))"
    by (simp_all add: insert_task_def Let_def)
  have "tasks_ok ?ts" using c stamped by (auto simp: core_ok_def tasks_ok_def jm.get_put)
  moreover have "linked_ok ?ts (tr_flows ?st)"
  proof -
    have "linked_ok ?ts (tr_flows st)" using c link by (simp add: core_ok_def linked_ok_def jm.get_put)
    then show ?thesis unfolding f by (rule linked_same_owners [OF _ fs])
  qed
  moreover have "indexes_ok ?st"
    using c filed_insert [OF _ fresh] by (simp add: core_ok_def indexes_ok_def insert_task_def Let_def)
  moreover have "flows_ok (tr_flows ?st)" using c fs by (simp add: f same_owners_def core_ok_def)
  moreover have "same_jobs st ?st" by (simp add: same_jobs_def insert_task_def Let_def)
  ultimately show ?thesis using ok jobs_ok_same [of st ?st] by (simp add: registry_ok_def core_ok_def f)
qed

text \<open>The changes that a repeated creation makes to the existing task.\<close>

definition plain_keeping :: "(task \<Rightarrow> task) list \<Rightarrow> bool" where
  "plain_keeping fs \<longleftrightarrow> (\<forall>f\<in>set fs. plain_patch f \<and> keeps_flow f)"

lemma plain_keeping_simps [simp]:
  "plain_keeping []"
  "plain_keeping (f # fs) \<longleftrightarrow> plain_patch f \<and> keeps_flow f \<and> plain_keeping fs"
  "plain_keeping (fs @ gs) \<longleftrightarrow> plain_keeping fs \<and> plain_keeping gs"
  by (auto simp: plain_keeping_def)

lemma plain_fold: "\<forall>f\<in>set fs. plain_patch f \<Longrightarrow> plain_patch (fold (\<lambda>f t. f t) fs)"
  by (induction fs) (auto simp: plain_patch_def)

lemma plain_keeping_fold: "plain_keeping fs \<Longrightarrow> t_parentFlowId (fold (\<lambda>f t. f t) fs t) = t_parentFlowId t"
  by (induction fs arbitrary: t) (auto simp: keeps_flow_def)

lemma plain_keeping_fill: "plain_patch (g (trimmed v)) \<Longrightarrow> keeps_flow (g (trimmed v)) \<Longrightarrow> plain_keeping (fill v old g)"
  by (auto simp: fill_def split: option.split)

lemma merge_patch_parts:
  "\<exists>as bs. merge_patch t p = as @ fill (cp_parentFlowId p) (t_parentFlowId t) (\<lambda>v t. t\<lparr>t_parentFlowId := v\<rparr>) @ bs \<and>
     plain_keeping as \<and> plain_keeping bs"
  by (rule exI [of _ "fill (cp_sourceId p) (t_sourceId t) (\<lambda>v t. t\<lparr>t_sourceId := v\<rparr>) @
      fill (cp_taskKind p) (t_kind t) (\<lambda>v t. t\<lparr>t_kind := v\<rparr>)"],
      rule exI, rule conjI, simp only: merge_patch_def append_assoc)
    (auto simp: plain_keeping_fill Let_def plain_patch_def keeps_flow_def split: option.split)

lemma merge_patch_plain: "plain_patch (fold (\<lambda>f t. f t) (merge_patch t p))"
proof -
  obtain as bs where m: "merge_patch t p =
      as @ fill (cp_parentFlowId p) (t_parentFlowId t) (\<lambda>v t. t\<lparr>t_parentFlowId := v\<rparr>) @ bs"
    and "plain_keeping as" "plain_keeping bs"
    using merge_patch_parts by blast
  then have "\<forall>f\<in>set (merge_patch t p). plain_patch f"
    by (auto simp: plain_keeping_def fill_def plain_patch_def split: option.splits if_splits)
  then show ?thesis by (rule plain_fold)
qed

lemma merge_patch_flow:
  "t_parentFlowId (fold (\<lambda>f t. f t) (merge_patch t p) u) =
     (if trimmed (cp_parentFlowId p) \<noteq> None \<and> trimmed (t_parentFlowId t) = None
      then trimmed (cp_parentFlowId p) else t_parentFlowId u)"
proof -
  obtain as bs where "merge_patch t p =
      as @ fill (cp_parentFlowId p) (t_parentFlowId t) (\<lambda>v t. t\<lparr>t_parentFlowId := v\<rparr>) @ bs"
    and "plain_keeping as" "plain_keeping bs"
    using merge_patch_parts by blast
  then show ?thesis by (auto simp: plain_keeping_fold fill_def split: option.splits)
qed

lemma merge_existing_step:
  assumes cur: "map_get (tr_tasks st) (t_id existing) = Some existing"
  shows "core_step st (snd (mergeExistingTaskForCreate env clock existing p st))"
proof -
  let ?f = "fold (\<lambda>f t. f t) (merge_patch existing p)"
  have link: "may_link (tr_flows st') (?f existing)"
    if "may_link (tr_flows st') existing" and
      "trimmed (cp_parentFlowId p) \<noteq> None \<and> trimmed (t_parentFlowId existing) = None \<Longrightarrow>
        assertParentFlowLinkAllowed (tr_flows st') (t_ownerKey existing) (t_scopeKind existing) (cp_parentFlowId p) = Inr ()"
    for st'
  proof -
    have same: "t_ownerKey (?f existing) = t_ownerKey existing" "t_scopeKind (?f existing) = t_scopeKind existing"
      using merge_patch_plain [of existing p] by (simp_all add: plain_patch_def)
    show ?thesis
    proof (cases "trimmed (cp_parentFlowId p) \<noteq> None \<and> trimmed (t_parentFlowId existing) = None")
      case True
      then show ?thesis
        using link_allowed [of _ "?f existing" "cp_parentFlowId p" "()"] that(2) same by (simp add: merge_patch_flow)
    next
      case False
      with that(1) same show ?thesis by (simp add: may_link_def merge_patch_flow if_not_P)
    qed
  qed
  have update: "core_step st' (snd (updateTask clock (t_id existing) ?f st'))"
    if "tr_tasks st' = tr_tasks st" and
      "trimmed (cp_parentFlowId p) \<noteq> None \<and> trimmed (t_parentFlowId existing) = None \<Longrightarrow>
        assertParentFlowLinkAllowed (tr_flows st') (t_ownerKey existing) (t_scopeKind existing) (cp_parentFlowId p) = Inr ()"
    for st'
    using link [OF _ that(2)] cur that(1) by (intro updateTask_step merge_patch_plain) auto
  show ?thesis
    using update [of st] core_step_trans [OF upsert_step update]
    by (auto simp: mergeExistingTaskForCreate_def Let_def case_prod_unfold upsert_step split: sum.split)
qed

lemma existing_is_a_task:
  assumes "core_ok st" and "findExistingTaskForCreate st ownerKey scopeKind p = Some t"
  shows "map_get (tr_tasks st) (t_id t) = Some t"
proof -
  have pick: "pickPreferredRunIdTask ts = Some t \<Longrightarrow> t \<in> set ts" for ts
    by (auto simp: pickPreferredRunIdTask_def first_of_def split: list.splits) (metis list.set_intros(1) set_js_sort)
  have find: "find P ts = Some t \<Longrightarrow> t \<in> set ts" for P and ts :: "task list"
    by (auto simp: find_Some_iff)
  have "t \<in> set (getTasksByRunId st (the (trimmed (cp_runId p))))"
    using assms(2)
    by (auto simp: findExistingTaskForCreate_def Let_def dest!: pick find split: option.splits if_splits)
  then obtain i where "map_get (tr_tasks st) i = Some t"
    by (auto simp: getTasksByRunId_def the_list_def split: option.splits)
  with assms(1) show ?thesis by (auto simp: core_ok_def tasks_ok_def)
qed

lemma createTaskRecord_ok:
  assumes ok: "registry_ok st" and fresh: "map_get (tr_tasks st) newId = None"
  shows "registry_ok (snd (createTaskRecord env newId clock p st))"
proof -
  define requester where "requester = resolveTaskRequesterSessionKey (cp_requesterSessionKey p) (cp_ownerKey p) (cp_scopeKind p)"
  define scope where "scope = resolveTaskScopeKind (cp_scopeKind p) requester"
  define owner where "owner = resolveTaskOwnerKey requester (cp_ownerKey p)"
  let ?t = "new_task newId clock owner scope requester p"
  have made: "registry_ok (insert_task env clock ?t (cp_requesterOrigin p) st)"
    if "assertParentFlowLinkAllowed (tr_flows st) owner scope (cp_parentFlowId p) = Inr ()"
  proof (rule insert_task_ok [OF ok])
    show "map_get (tr_tasks st) (t_id ?t) = None" using fresh by (simp add: new_task_def Let_def)
    show "may_link (tr_flows st) ?t"
      by (rule link_allowed [of _ _ "cp_parentFlowId p" "()"]) (use that in \<open>simp_all add: new_task_def Let_def\<close>)
    show "isTerminalTaskStatus (t_status ?t) \<Longrightarrow> t_cleanupAfter ?t \<noteq> None" by (simp add: new_task_def Let_def)
  qed
  have merged: "registry_ok (snd (mergeExistingTaskForCreate env clock t p st))"
    if "findExistingTaskForCreate st owner scope p = Some t" for t
    using existing_is_a_task [OF _ that] ok by (intro core_step_ok [OF merge_existing_step ok]) (simp add: registry_ok_def)
  show ?thesis
    unfolding createTaskRecord_def Let_def requester_def [symmetric] scope_def [symmetric] owner_def [symmetric]
    using ok made merged deliver_terminal_ok [OF made] by (auto split: sum.split option.split)
qed

section \<open>Changes by id and by run\<close>

lemma given_plain: "\<forall>v. plain_patch (f v) \<and> keeps_flow (f v) \<Longrightarrow> plain_patch (given x f) \<and> keeps_flow (given x f)"
  by (auto simp: given_def plain_patch_def keeps_flow_def split: option.split)

lemma comp_plain:
  "plain_patch f \<and> keeps_flow f \<Longrightarrow> plain_patch g \<and> keeps_flow g \<Longrightarrow> plain_patch (f \<circ> g) \<and> keeps_flow (f \<circ> g)"
  by (simp add: plain_patch_def keeps_flow_def)

lemma timing_plain: "plain_patch (timing_patch a b c) \<and> keeps_flow (timing_patch a b c)"
  unfolding timing_patch_def by (intro comp_plain given_plain) (simp_all add: plain_patch_def keeps_flow_def)

lemma run_change_plain: "plain_patch (run_change_patch c s) \<and> keeps_flow (run_change_patch c s)"
  unfolding run_change_patch_def by (intro comp_plain given_plain timing_plain) (simp_all add: plain_patch_def keeps_flow_def)

lemma agent_plain: "plain_patch (agent_patch now e current) \<and> keeps_flow (agent_patch now e current)"
  by (auto simp: agent_patch_def plain_patch_def keeps_flow_def Let_def split: option.split task_status.split)

lemma plain_ok: "registry_ok st \<Longrightarrow> plain_patch f \<and> keeps_flow f \<Longrightarrow> registry_ok (snd (updateTask clock i f st))"
  by (rule core_step_ok [OF updateTask_plain]) simp_all

lemma changes_by_id_ok:
  assumes "registry_ok st"
  shows "registry_ok (snd (setTaskProgressById clock i progress lastAt st))"
    and "registry_ok (snd (setTaskTimingById clock i a b c st))"
    and "registry_ok (snd (setTaskCleanupAfterById clock i cleanup st))"
    and "registry_ok (snd (markTaskTerminalById clock i status endedAt lastAt err summary outcome st))"
    and "registry_ok (snd (markTaskLostById clock i endedAt lastAt err cleanup' st))"
    and "registry_ok (snd (updateTaskNotifyPolicyById clock i policy st))"
  unfolding setTaskProgressById_def setTaskTimingById_def setTaskCleanupAfterById_def markTaskTerminalById_def
    markTaskLostById_def updateTaskNotifyPolicyById_def
  by (intro plain_ok [OF assms] comp_plain given_plain timing_plain; simp add: plain_patch_def keeps_flow_def)+

lemma linkTaskToFlowById_ok:
  assumes ok: "registry_ok st"
  shows "registry_ok (snd (linkTaskToFlowById clock i flowId st))"
proof -
  have "core_step st (snd (updateTask clock i (\<lambda>t. t\<lparr>t_parentFlowId := Some k\<rparr>) st))"
    if "trimmed (Some flowId) = Some k" "map_get (tr_tasks st) i = Some t"
      "assertParentFlowLinkAllowed (tr_flows st) (t_ownerKey t) (t_scopeKind t) (Some k) = Inr u" for k t u
    by (rule updateTask_step, simp add: plain_patch_def)
      (use that in \<open>auto intro!: link_allowed [of _ _ "Some k"]\<close>)
  then show ?thesis
    using ok core_step_ok [OF _ ok]
    by (auto simp: linkTaskToFlowById_def case_prod_unfold split: option.split sum.split)
qed

lemma deleteTaskRecordById_ok:
  assumes ok: "registry_ok st"
  shows "registry_ok (snd (deleteTaskRecordById i st))"
proof (cases "map_get (tr_tasks st) i")
  case (Some t)
  let ?st = "snd (deleteTaskRecordById i st)"
  have c: "core_ok st" using ok by (simp add: registry_ok_def)
  then have "core_ok ?st"
    using filed_remove [OF _ Some] filed_rebuild [of "map_del i (tr_tasks st)"]
    by (auto simp: core_ok_def tasks_ok_def linked_ok_def indexes_ok_def deleteTaskRecordById_def Some Let_def
        jm.get_del split: if_splits)
  moreover have "same_jobs st ?st" by (simp add: same_jobs_def deleteTaskRecordById_def Some Let_def)
  ultimately show ?thesis using ok jobs_ok_same by (auto simp: registry_ok_def)
qed (simp add: deleteTaskRecordById_def ok)

lemma foldl_keeps: "P s \<Longrightarrow> (\<And>s x. P s \<Longrightarrow> P (step s x)) \<Longrightarrow> P (foldl step s xs)"
  by (induction xs arbitrary: s) simp_all

lemma changes_by_run_ok:
  assumes ok: "registry_ok st"
  shows "registry_ok (setTaskRunDeliveryStatusByRunId clock r rt k status st)"
    and "registry_ok (updateTaskStateByRunId env clock r rt k c st)"
    and "registry_ok (onAgentEvent env clock e st)"
proof -
  show "registry_ok (setTaskRunDeliveryStatusByRunId clock r rt k status st)"
    unfolding setTaskRunDeliveryStatusByRunId_def updateTasksByRunId_def
    by (rule foldl_keeps [where P = registry_ok, OF ok], rule plain_ok) (simp_all add: plain_patch_def keeps_flow_def)
  have then_deliver: "registry_ok (case updateTask clock i f s of (None, s1) \<Rightarrow> s1
      | (Some t, s1) \<Rightarrow> deliver_updates env clock (g t) ev s1)"
    if "registry_ok s" "plain_patch f \<and> keeps_flow f" for s i f g ev
    using plain_ok [OF that, of clock i] deliver_updates_ok
    by (cases "updateTask clock i f s") (auto split: option.split)
  show "registry_ok (updateTaskStateByRunId env clock r rt k c st)"
    unfolding updateTaskStateByRunId_def by (rule foldl_keeps [where P = registry_ok, OF ok], rule then_deliver [OF _ run_change_plain])
  show "registry_ok (onAgentEvent env clock e st)"
    unfolding onAgentEvent_def Let_def by (rule foldl_keeps [where P = registry_ok, OF ok], rule then_deliver [OF _ agent_plain])
qed

lemma finish_cancel_ok: "registry_ok st \<Longrightarrow> registry_ok (finish_cancel env clock i st)"
proof -
  let ?u = "updateTask clock i (\<lambda>t. t\<lparr>t_status := Cancelled, t_endedAt := Some clock, t_lastEventAt := Some clock,
               t_error := Some ''Cancelled by operator.''\<rparr>) st"
  assume "registry_ok st"
  then have "registry_ok (snd ?u)" by (rule plain_ok) (simp add: plain_patch_def keeps_flow_def)
  then show ?thesis
    by (cases ?u) (auto simp: finish_cancel_def deliver_terminal_ok split: option.split)
qed

end
