(* ===== verification/Task_Reachable.thy ===== *)
theory Task_Reachable
  imports Task_Steps
begin

text \<open>
  The states that the task registry can reach: any sequence of its operations, of the operations of the flow
  registry, of the steps of deliveries and of restarts of the process; and what holds in all of them.

  New ids are UUIDs: the rules that take one ask that no record has it. A restart finds in the store what the
  registries held, in any order.
\<close>

section \<open>Steps\<close>

definition has_task :: "task_registry \<Rightarrow> task \<Rightarrow> bool" where
  "has_task st t \<longleftrightarrow> (\<exists>i. map_get (tr_tasks st) i = Some t)"

definition fresh_flow_id :: "task_registry \<Rightarrow> string \<Rightarrow> bool" where
  "fresh_flow_id st newId \<longleftrightarrow>
     map_get (tr_flows st) newId = None \<and> (\<forall>t. has_task st t \<longrightarrow> trimmed (t_parentFlowId t) \<noteq> Some newId)"

inductive flow_step :: "task_registry \<Rightarrow> flows \<Rightarrow> bool" for st where
  flow_created: "fresh_flow_id st newId \<Longrightarrow> flow_step st (snd (createFlowRecord newId clock p (tr_flows st)))"
| flow_managed: "fresh_flow_id st newId \<Longrightarrow> flow_step st (snd (createManagedTaskFlow newId clock p (tr_flows st)))"
| flow_for_task:
    "fresh_flow_id st newId \<Longrightarrow> flow_step st (snd (createTaskFlowForTask newId clock t origin (tr_flows st)))"
| flow_patched: "flow_step st (snd (updateFlowRecordByIdExpectedRevision clock k r p (tr_flows st)))"
| flow_synced: "flow_step st (snd (syncFlowFromTask clock t (tr_flows st)))"
| flow_deleted: "flow_step st (snd (deleteTaskFlowRecordById k (tr_flows st)))"

inductive task_step :: "task_env \<Rightarrow> task_registry \<Rightarrow> task_registry \<Rightarrow> bool" for env st where
  step_create: "map_get (tr_tasks st) newId = None \<Longrightarrow> task_step env st (snd (createTaskRecord env newId clock p st))"
| step_progress: "task_step env st (snd (setTaskProgressById clock i progress lastAt st))"
| step_timing: "task_step env st (snd (setTaskTimingById clock i a b c st))"
| step_cleanup: "task_step env st (snd (setTaskCleanupAfterById clock i cleanup st))"
| step_terminal: "task_step env st (snd (markTaskTerminalById clock i status endedAt lastAt err summary outcome st))"
| step_lost: "task_step env st (snd (markTaskLostById clock i endedAt lastAt err cleanup' st))"
| step_policy: "task_step env st (snd (updateTaskNotifyPolicyById clock i policy st))"
| step_link: "task_step env st (snd (linkTaskToFlowById clock i flowId st))"
| step_delete: "task_step env st (snd (deleteTaskRecordById i st))"
| step_run_delivery: "task_step env st (setTaskRunDeliveryStatusByRunId clock r rt k status st)"
| step_run_change: "task_step env st (updateTaskStateByRunId env clock r rt k change st)"
| step_agent_event: "task_step env st (onAgentEvent env clock ev st)"
| step_cancelled: "task_step env st (finish_cancel env clock i st)"
| step_deliver_end: "task_step env st (maybeDeliverTaskTerminalUpdate env clock i st)"
| step_deliver_change: "task_step env st (maybeDeliverTaskStateChangeUpdate env clock i e st)"
| step_send: "task_step env st (send_job env n st)"
| step_answer: "task_step env st (finish_job env clock success n st)"
| step_flows: "flow_step st fs \<Longrightarrow> task_step env st (st\<lparr>tr_flows := fs\<rparr>)"
| step_restart:
    "map_ok ts \<Longrightarrow> (\<forall>i. map_get ts i = map_get (tr_tasks st) i) \<Longrightarrow>
     map_ok stored \<Longrightarrow> (\<forall>k. map_get stored k = map_get (tr_flows st) k) \<Longrightarrow>
     task_step env st (restoreTaskRegistry ts ds (empty_registry\<lparr>tr_flows := snd (ensureFlowRegistryReady stored)\<rparr>))"

inductive task_reachable :: "task_env \<Rightarrow> task_registry \<Rightarrow> bool" for env where
  reachable_start: "task_reachable env empty_registry"
| reachable_step: "task_reachable env st \<Longrightarrow> task_step env st st' \<Longrightarrow> task_reachable env st'"

section \<open>Flows\<close>

lemma createFlowRecord_form:
  "snd (createFlowRecord newId clock p fs) = fs \<or>
     (\<exists>f. fl_id f = newId \<and> has_controller f \<and> snd (createFlowRecord newId clock p fs) = map_put newId f fs)"
proof -
  have "buildFlowRecord newId clock p = Inr f \<Longrightarrow> fl_id f = newId \<and> has_controller f" for f
    by (auto simp: buildFlowRecord_def has_controller_def assertControllerId_def trimmed_def nonempty_def Let_def
        split: sum.splits if_splits option.splits)
  then show ?thesis by (auto simp: createFlowRecord_def writeFlowRecord_def split: sum.split)
qed

lemma new_flow_ok:
  assumes ok: "registry_ok st" and fresh: "fresh_flow_id st newId" and id: "fl_id f = newId" "has_controller f"
  shows "registry_ok (st\<lparr>tr_flows := map_put newId f (tr_flows st)\<rparr>)"
proof -
  have "linked_ok (tr_tasks st) (map_put newId f (tr_flows st))"
    using ok fresh
    by (auto simp: registry_ok_def core_ok_def linked_ok_def may_link_def jm.get_put fresh_flow_id_def has_task_def
        split: if_splits)
  moreover have "flows_ok (map_put newId f (tr_flows st))"
    using ok id by (auto simp: registry_ok_def core_ok_def flows_ok_def jm.get_put)
  ultimately show ?thesis
    using ok by (simp add: registry_ok_def core_ok_def indexes_ok_def jobs_ok_def terminal_job_def)
qed

lemma same_owner_flows_ok:
  "registry_ok st \<Longrightarrow> same_owners (tr_flows st) fs \<Longrightarrow> registry_ok (st\<lparr>tr_flows := fs\<rparr>)"
  using linked_same_owners
  by (auto simp: registry_ok_def core_ok_def indexes_ok_def jobs_ok_def terminal_job_def same_owners_def)

lemma delete_same_owners: "same_owners fs (snd (deleteTaskFlowRecordById k fs))"
  by (auto simp: same_owners_def flows_ok_def deleteTaskFlowRecordById_def jm.get_del split: option.split if_splits)

lemma created_flow_ok:
  assumes ok: "registry_ok st" and fresh: "fresh_flow_id st newId"
  shows "registry_ok (st\<lparr>tr_flows := snd (createFlowRecord newId clock p (tr_flows st))\<rparr>)"
  using createFlowRecord_form [of newId clock p "tr_flows st"]
proof (elim disjE exE conjE)
  assume "snd (createFlowRecord newId clock p (tr_flows st)) = tr_flows st"
  with ok show ?thesis by simp
next
  fix f
  assume "fl_id f = newId" "has_controller f" and f: "snd (createFlowRecord newId clock p (tr_flows st)) = map_put newId f (tr_flows st)"
  then show ?thesis unfolding f by (intro new_flow_ok [OF ok fresh])
qed

lemma flow_step_ok: "flow_step st fs \<Longrightarrow> registry_ok st \<Longrightarrow> registry_ok (st\<lparr>tr_flows := fs\<rparr>)"
proof (induction rule: flow_step.induct)
  case (flow_created newId clock p)
  then show ?case by (simp add: created_flow_ok)
next
  case (flow_managed newId clock p)
  then show ?case by (auto simp: createManagedTaskFlow_def created_flow_ok split: sum.split)
next
  case (flow_for_task newId clock t origin)
  show ?case unfolding createTaskFlowForTask_def Let_def
    by (rule created_flow_ok [OF flow_for_task.prems flow_for_task.hyps])
next
  case (flow_patched clock k r p)
  then show ?case
    by (intro same_owner_flows_ok update_expected_same_owners) (simp_all add: registry_ok_def core_ok_def)
next
  case (flow_synced clock t)
  then show ?case by (intro same_owner_flows_ok sync_same_owners) (simp_all add: registry_ok_def core_ok_def)
next
  case (flow_deleted k)
  then show ?case by (intro same_owner_flows_ok delete_same_owners)
qed

section \<open>The restart\<close>

lemma restored_flow:
  "normalizeRestoredFlowRecord f = Inr g \<Longrightarrow>
     fl_id g = fl_id f \<and> normalizeOwnerKey (fl_ownerKey g) = normalizeOwnerKey (fl_ownerKey f) \<and> has_controller g"
proof -
  assume g: "normalizeRestoredFlowRecord f = Inr g"
  then obtain owner where k: "trimmed (Some (fl_ownerKey f)) = Some owner" and o: "fl_ownerKey g = owner"
    and same: "fl_id g = fl_id f" "fl_sync g = fl_sync f"
    and c: "fl_sync f = Managed \<Longrightarrow> fl_controllerId g = or_option (trimmed (fl_controllerId f)) (Some ''core/legacy-restored'')"
    by (auto simp: normalizeRestoredFlowRecord_def assertFlowOwnerKey_def split: sum.splits option.splits)
  have "trimmed (or_option (trimmed v) (Some ''core/legacy-restored'')) \<noteq> None" for v
  proof (cases "trimmed v")
    case None
    have "trimmed (Some ''core/legacy-restored'') \<noteq> None" by code_simp
    with None show ?thesis by (simp add: or_option_def)
  next
    case (Some w)
    then show ?thesis using trimmed_Some by (simp add: or_option_def)
  qed
  then show ?thesis using same c o k trimmed_Some [OF k] by (simp add: has_controller_def normalizeOwnerKey_def)
qed

lemma restore_loop_flows:
  "restore_loop kvs m = Inr fs \<Longrightarrow> map_ok m \<Longrightarrow>
     map_ok fs \<and> (\<forall>k g. map_get fs k = Some g \<longrightarrow>
       map_get m k = Some g \<or> (\<exists>f. (k, f) \<in> set kvs \<and> normalizeRestoredFlowRecord f = Inr g))"
proof (induction kvs m rule: restore_loop.induct)
  case (2 flowId f rest m)
  then show ?case
    by (auto simp: jm.get_put split: sum.splits if_splits) (metis (no_types, lifting))+
qed simp

lemma ready_flows:
  assumes "map_ok stored"
  shows "map_ok (snd (ensureFlowRegistryReady stored)) \<and>
    (\<forall>k g. map_get (snd (ensureFlowRegistryReady stored)) k = Some g \<longrightarrow>
       (\<exists>f. map_get stored k = Some f \<and> fl_id g = fl_id f \<and>
          normalizeOwnerKey (fl_ownerKey g) = normalizeOwnerKey (fl_ownerKey f) \<and> has_controller g))"
proof (cases "restore_loop stored []")
  case (Inr fs)
  then have "map_ok fs" and f: "\<And>k g. map_get fs k = Some g \<Longrightarrow>
      \<exists>f. (k, f) \<in> set stored \<and> normalizeRestoredFlowRecord f = Inr g"
    using restore_loop_flows [OF Inr] by auto
  moreover have "\<exists>f. map_get stored k = Some f \<and> fl_id g = fl_id f \<and>
      normalizeOwnerKey (fl_ownerKey g) = normalizeOwnerKey (fl_ownerKey f) \<and> has_controller g" if "map_get fs k = Some g" for k g
    using f [OF that] restored_flow map_get_of_mem [OF assms] by blast
  ultimately show ?thesis by (simp add: ensureFlowRegistryReady_def Inr)
qed (simp add: ensureFlowRegistryReady_def)

lemma put_all:
  "map_ok kvs \<Longrightarrow> map_ok m \<Longrightarrow> map_ok (foldl (\<lambda>m (k, v). map_put k v m) m kvs) \<and>
     map_get (foldl (\<lambda>m (k, v). map_put k v m) m kvs) k =
       (case map_get kvs k of None \<Rightarrow> map_get m k | Some v \<Rightarrow> Some v)"
proof (induction kvs arbitrary: m)
  case (Cons p kvs)
  obtain i v where p: "p = (i, v)" by fastforce
  have "map_get kvs i = None" using Cons.prems p by (auto simp: map_ok_def map_get_def map_of_eq_None_iff)
  moreover have "map_ok kvs" using Cons.prems by (simp add: map_ok_def)
  ultimately show ?case using Cons.IH [of "map_put i v m"] Cons.prems by (auto simp: p jm.get_put split: option.split)
qed simp

lemma restart_ok:
  assumes ok: "registry_ok st" and ts: "map_ok ts" "\<forall>i. map_get ts i = map_get (tr_tasks st) i"
    and fs: "map_ok stored" "\<forall>k. map_get stored k = map_get (tr_flows st) k"
  shows "registry_ok (restoreTaskRegistry ts ds (empty_registry\<lparr>tr_flows := snd (ensureFlowRegistryReady stored)\<rparr>))"
proof -
  let ?fs = "snd (ensureFlowRegistryReady stored)" and ?ts = "foldl (\<lambda>m (i, t). map_put i t m) [] ts"
  have m: "map_ok ?ts" "\<And>i. map_get ?ts i = map_get (tr_tasks st) i"
    using put_all [OF ts(1), of "[]"] ts(2) by (simp_all split: option.splits)
  have "flows_ok ?fs"
    using ready_flows [OF fs(1)] ok fs(2) by (fastforce simp: flows_ok_def registry_ok_def core_ok_def)
  moreover have l: "linked_ok (tr_tasks st) ?fs"
    using ready_flows [OF fs(1)] ok fs(2) unfolding registry_ok_def core_ok_def linked_ok_def may_link_def by metis
  ultimately have "registry_ok (empty_registry\<lparr>tr_flows := ?fs\<rparr>)"
    using registry_ok_empty
    by (simp add: registry_ok_def core_ok_def linked_ok_def indexes_ok_def jobs_ok_def terminal_job_def empty_registry_def)
  moreover have "registry_ok (restoreTaskRegistry ts ds (empty_registry\<lparr>tr_flows := ?fs\<rparr>))"
    if "\<not> (ts = [] \<and> ds = [])"
    using that ok m l filed_rebuild [OF m(1)] \<open>flows_ok ?fs\<close>
    by (auto simp: restoreTaskRegistry_def Let_def registry_ok_def core_ok_def tasks_ok_def linked_ok_def indexes_ok_def
        jobs_ok_def terminal_job_def empty_registry_def)
  ultimately show ?thesis by (cases "ts = [] \<and> ds = []") (auto simp: restoreTaskRegistry_def)
qed

section \<open>Every reachable state\<close>

lemma task_step_ok: "task_step env st st' \<Longrightarrow> registry_ok st \<Longrightarrow> registry_ok st'"
proof (induction rule: task_step.induct)
  case (step_flows fs)
  then show ?case by (rule flow_step_ok)
next
  case (step_restart ts stored ds)
  then show ?case using restart_ok by blast
qed (simp_all add: createTaskRecord_ok changes_by_id_ok linkTaskToFlowById_ok deleteTaskRecordById_ok changes_by_run_ok
    finish_cancel_ok deliver_terminal_ok deliver_state_change_ok send_job_ok finish_job_ok)

lemma reachable_ok: "task_reachable env st \<Longrightarrow> registry_ok st"
  by (induction rule: task_reachable.induct) (simp_all add: registry_ok_empty task_step_ok)

end
