(* ===== verification/Task_Samples.thy ===== *)
theory Task_Samples
  imports Task_Reachable
begin

text \<open>
  A run of the task registry that the witnesses use: a managed flow is created, a task is linked to it and
  runs, the cancellation of the flow is requested, the task ends, and its end waits for the channel.
\<close>

definition sample_env :: task_env where
  "sample_env = \<lparr>te_normalizeChannel = Some, te_deliverable = (\<lambda>c. c = ''telegram''), te_sanitize = (\<lambda>_ s. s), te_titleText = id\<rparr>"

definition sample_flow_params :: flow_params where
  "sample_flow_params = \<lparr>cf_syncMode = None, cf_ownerKey = '' main '', cf_requesterOrigin = None, cf_controllerId = Some ''ctl'',
     cf_revision = None, cf_status = None, cf_notifyPolicy = None, cf_goal = ''goal'', cf_currentStep = None,
     cf_blockedTaskId = None, cf_blockedSummary = None, cf_stateJson = JUndef, cf_waitJson = JUndef,
     cf_cancelRequestedAt = None, cf_createdAt = None, cf_updatedAt = None, cf_endedAt = None\<rparr>"

definition sample_task_params :: task_params where
  "sample_task_params = \<lparr>cp_runtime = Rt_Acp, cp_taskKind = None, cp_sourceId = None, cp_requesterSessionKey = Some ''main'',
     cp_ownerKey = None, cp_scopeKind = None,
     cp_requesterOrigin = Some \<lparr>dc_channel = Some ''telegram'', dc_to = Some ''42'', dc_account = None, dc_thread = None\<rparr>,
     cp_childSessionKey = Some ''child'', cp_parentFlowId = Some '' flow'', cp_parentTaskId = None, cp_agentId = None,
     cp_runId = Some ''run'', cp_label = None, cp_task = ''work'', cp_preferMetadata = False, cp_status = Some Running,
     cp_deliveryStatus = None, cp_notifyPolicy = None, cp_startedAt = None, cp_lastEventAt = None, cp_cleanupAfter = None,
     cp_progressSummary = None, cp_terminalSummary = None, cp_terminalOutcome = None\<rparr>"

definition sample_flows :: task_registry where
  "sample_flows = empty_registry\<lparr>tr_flows := snd (createManagedTaskFlow ''flow'' 1 sample_flow_params [])\<rparr>"

definition sample_linked :: task_registry where
  "sample_linked = snd (createTaskRecord sample_env ''task'' 2 sample_task_params sample_flows)"

definition sample_cancelling :: task_registry where
  "sample_cancelling = sample_linked\<lparr>tr_flows := snd (requestFlowCancel 3 ''flow'' 0 None None (tr_flows sample_linked))\<rparr>"

definition sample_done :: task_registry where
  "sample_done = snd (markTaskTerminalById 4 ''task'' Succeeded 4 None None None None sample_cancelling)"

definition sample_delivering :: task_registry where
  "sample_delivering = maybeDeliverTaskTerminalUpdate sample_env 5 ''task'' sample_done"

section \<open>The states of the run are reachable\<close>

lemma sample_flows_reachable: "task_reachable sample_env sample_flows"
proof -
  have "fresh_flow_id empty_registry ''flow''" by (simp add: fresh_flow_id_def has_task_def empty_registry_def)
  then have "task_step sample_env empty_registry
      (empty_registry\<lparr>tr_flows := snd (createManagedTaskFlow ''flow'' 1 sample_flow_params (tr_flows empty_registry))\<rparr>)"
    by (intro step_flows flow_managed)
  moreover have "tr_flows empty_registry = []" by (simp add: empty_registry_def)
  ultimately show ?thesis unfolding sample_flows_def using reachable_start reachable_step by metis
qed

lemma sample_linked_reachable: "task_reachable sample_env sample_linked"
proof -
  have "map_get (tr_tasks sample_flows) ''task'' = None" by (simp add: sample_flows_def empty_registry_def)
  then show ?thesis
    unfolding sample_linked_def by (intro reachable_step [OF sample_flows_reachable] step_create)
qed

lemma sample_cancelling_reachable: "task_reachable sample_env sample_cancelling"
  unfolding sample_cancelling_def requestFlowCancel_def
  by (intro reachable_step [OF sample_linked_reachable] step_flows flow_patched)

lemma sample_done_reachable: "task_reachable sample_env sample_done"
  unfolding sample_done_def by (intro reachable_step [OF sample_cancelling_reachable] step_terminal)

lemma sample_delivering_reachable: "task_reachable sample_env sample_delivering"
  unfolding sample_delivering_def by (intro reachable_step [OF sample_done_reachable] step_deliver_end)

end
