(* ===== verification/Task_Registry_Props.thy ===== *)
theory Task_Registry_Props
  imports Task_Samples
begin

text \<open>
  What the invariant of the task registry gives: the lists and lookups are exact, links keep to one owner, the
  end of a task is delivered by one job at a time, and a flow whose cancellation was requested is cancelled by
  the end of its last active task.
\<close>

section \<open>Lists\<close>

lemma trimmed_eq: "trimmed (Some key) = Some k \<longleftrightarrow> js_trim key = k \<and> k \<noteq> []"
  by (auto simp: trimmed_def nonempty_def)

lemma list_by_reachable:
  assumes "filed keys (tr_tasks st) ix"
  shows "set (list_by (tr_tasks st) ix key) = {t. has_task st t \<and> js_trim key \<noteq> [] \<and> js_trim key \<in> set (keys t)} \<and>
    sorted_wrt (\<lambda>a b. t_createdAt b \<le> t_createdAt a) (list_by (tr_tasks st) ix key)"
  using list_by_exact [OF assms, of key] by (auto simp: trimmed_eq has_task_def)

lemma keys_iff:
  "x \<noteq> [] \<Longrightarrow> x \<in> set (owner_keys t) \<longleftrightarrow> js_trim (t_ownerKey t) = x"
  "x \<noteq> [] \<Longrightarrow> x \<in> set (flow_keys t) \<longleftrightarrow> map_option js_trim (t_parentFlowId t) = Some x"
  "x \<noteq> [] \<Longrightarrow> x \<in> set (getTaskRelatedSessionIndexKeys t) \<longleftrightarrow>
     js_trim (t_ownerKey t) = x \<or> map_option js_trim (t_childSessionKey t) = Some x"
  by (auto simp: owner_keys_def flow_keys_def getTaskRelatedSessionIndexKeys_def trimmed_def nonempty_def the_list_def
      split: option.splits if_splits)

text \<open>C24: In every state that the task registry can reach, by any sequence of its operations, of flow operations, of
  delivery steps and of restarts of the process, the lists by owner, by session, by flow and by run hold exactly
  the tasks of the registry that have the key (the owner key, the owner or child session key, the parent flow,
  the run id, each trimmed), and the first three are sorted newest first. So the four indexes never miss a task
  and never name a task that is gone or has moved to another flow.\<close>

theorem task_lists_are_exact:
  assumes "task_reachable env st"
  shows "set (listTasksForOwnerKey st k) = {t. has_task st t \<and> js_trim k \<noteq> [] \<and> js_trim (t_ownerKey t) = js_trim k} \<and>
    set (listTasksForSessionKey st k) =
      {t. has_task st t \<and> js_trim k \<noteq> [] \<and>
        (js_trim (t_ownerKey t) = js_trim k \<or> map_option js_trim (t_childSessionKey t) = Some (js_trim k))} \<and>
    set (listTasksForFlowId st k) =
      {t. has_task st t \<and> js_trim k \<noteq> [] \<and> map_option js_trim (t_parentFlowId t) = Some (js_trim k)} \<and>
    set (getTasksByRunId st k) =
      {t. has_task st t \<and> js_trim k \<noteq> [] \<and> map_option js_trim (t_runId t) = Some (js_trim k)} \<and>
    sorted_wrt (\<lambda>a b. t_createdAt b \<le> t_createdAt a) (listTasksForOwnerKey st k) \<and>
    sorted_wrt (\<lambda>a b. t_createdAt b \<le> t_createdAt a) (listTasksForSessionKey st k) \<and>
    sorted_wrt (\<lambda>a b. t_createdAt b \<le> t_createdAt a) (listTasksForFlowId st k)"
proof -
  have ix: "indexes_ok st" using reachable_ok [OF assms] by (simp add: registry_ok_def core_ok_def)
  then have o: "filed owner_keys (tr_tasks st) (tr_byOwnerKey st)"
    and f: "filed flow_keys (tr_tasks st) (tr_byFlowId st)"
    and s: "filed getTaskRelatedSessionIndexKeys (tr_tasks st) (tr_bySession st)"
    and r: "filed run_keys (tr_tasks st) (tr_byRunId st)"
    by (simp_all add: indexes_ok_def)
  have "trimmed x = Some (js_trim k) \<longleftrightarrow> js_trim k \<noteq> [] \<and> map_option js_trim x = Some (js_trim k)" for x
    by (cases x) (auto simp: trimmed_def nonempty_def)
  then have "set (getTasksByRunId st k) =
      {t. has_task st t \<and> js_trim k \<noteq> [] \<and> map_option js_trim (t_runId t) = Some (js_trim k)}"
    using runs_exact [OF r, of k] by (auto simp: has_task_def)
  then show ?thesis
    using list_by_reachable [OF o, of k] list_by_reachable [OF f, of k] list_by_reachable [OF s, of k]
    unfolding listTasksForOwnerKey_def listTasksForFlowId_def listTasksForSessionKey_def
    by (auto simp: keys_iff)
qed

lemma task_lists_are_exact_witness:
  "\<exists>t. has_task sample_linked t \<and> t_id t = ''task'' \<and> t \<in> set (listTasksForOwnerKey sample_linked '' main '') \<and>
     t \<in> set (listTasksForSessionKey sample_linked ''child'') \<and> t \<in> set (listTasksForFlowId sample_linked ''flow'') \<and>
     t \<in> set (getTasksByRunId sample_linked ''run'')"
proof -
  have "map_option (\<lambda>t. (t_id t, js_trim (t_ownerKey t), map_option js_trim (t_childSessionKey t),
        map_option js_trim (t_parentFlowId t), map_option js_trim (t_runId t))) (map_get (tr_tasks sample_linked) ''task'') =
      Some (''task'', ''main'', Some ''child'', Some ''flow'', Some ''run'')"
    by code_simp
  then obtain t where t: "map_get (tr_tasks sample_linked) ''task'' = Some t" "t_id t = ''task''"
      "js_trim (t_ownerKey t) = ''main''" "map_option js_trim (t_childSessionKey t) = Some ''child''"
      "map_option js_trim (t_parentFlowId t) = Some ''flow''" "map_option js_trim (t_runId t) = Some ''run''"
    by (cases "map_get (tr_tasks sample_linked) ''task''") simp_all
  then have "has_task sample_linked t" by (auto simp: has_task_def)
  moreover have "js_trim '' main '' = ''main''" "js_trim ''child'' = ''child''" "js_trim ''flow'' = ''flow''"
      "js_trim ''run'' = ''run''"
    by code_simp+
  ultimately show ?thesis
    using t task_lists_are_exact [OF sample_linked_reachable] by auto
qed

section \<open>Links and deliveries\<close>

text \<open>C25: In every reachable state a task that names a flow of the registry as its parent is a task of a session, its
  owner is the owner of the flow, and so both are visible to the same callers. This includes links that a
  repeated creation or a later change adds, flows that are restored with other spaces around their owner, and
  flows that are patched, mirrored or deleted in between.\<close>

theorem links_keep_to_one_owner:
  assumes "task_reachable env st" and "map_get (tr_tasks st) i = Some t"
    and "trimmed (t_parentFlowId t) = Some k" and "getTaskFlowById (tr_flows st) k = Some f"
  shows "t_scopeKind t = Scope_Session \<and> canOwnerAccessFlow f (t_ownerKey t) \<and>
    (\<forall>caller. getTaskFlowByIdForOwner (tr_flows st) k caller \<noteq> None \<longleftrightarrow> trimmed (Some caller) = trimmed (Some (t_ownerKey t)))"
proof -
  have "may_link (tr_flows st) t"
    using reachable_ok [OF assms(1)] assms(2) by (auto simp: registry_ok_def core_ok_def linked_ok_def)
  then have "t_scopeKind t = Scope_Session" "trimmed (Some (fl_ownerKey f)) = trimmed (Some (t_ownerKey t))"
    using assms(3,4) by (auto simp: may_link_def getTaskFlowById_def normalizeOwnerKey_def)
  with assms(4) show ?thesis
    by (auto simp: canOwnerAccessFlow_def getTaskFlowByIdForOwner_def keep_if_def)
qed

lemma links_keep_to_one_owner_witness:
  "\<exists>t f. map_get (tr_tasks sample_linked) ''task'' = Some t \<and> getTaskFlowById (tr_flows sample_linked) ''flow'' = Some f \<and>
     t_scopeKind t = Scope_Session \<and> canOwnerAccessFlow f (t_ownerKey t)"
proof -
  have "map_option (\<lambda>t. trimmed (t_parentFlowId t)) (map_get (tr_tasks sample_linked) ''task'') = Some (Some ''flow'')"
    "map_option (\<lambda>_. ()) (getTaskFlowById (tr_flows sample_linked) ''flow'') = Some ()"
    by code_simp+
  then obtain t f where "map_get (tr_tasks sample_linked) ''task'' = Some t" "trimmed (t_parentFlowId t) = Some ''flow''"
      "getTaskFlowById (tr_flows sample_linked) ''flow'' = Some f"
    by auto
  then show ?thesis using links_keep_to_one_owner [OF sample_linked_reachable] by blast
qed

text \<open>C26: In every reachable state a task is marked as pending delivery exactly when one job delivers its end, and never
  when there are two: whatever changes, events, answers of the channel and failures interleave, the end of a
  task is not sent twice at the same time, and no mark is left behind that would keep the end from ever being
  sent. A job of this kind was only made for a task that had ended, was not silent, and was still waiting for
  delivery; and every task that has ended has the instant at which it may be cleaned up.\<close>

theorem one_delivery_at_a_time:
  assumes "task_reachable env st"
  shows "(i \<in> set (tr_pending st) \<longleftrightarrow>
      (\<exists>!n. \<exists>j. map_get (tr_jobs st) n = Some j \<and> dj_kind j = Terminal_Job \<and> t_id (dj_task j) = i)) \<and>
    (\<exists>\<^sub>\<le>\<^sub>1n. \<exists>j. map_get (tr_jobs st) n = Some j \<and> dj_kind j = Terminal_Job \<and> t_id (dj_task j) = i) \<and>
    (map_get (tr_jobs st) n = Some j \<and> dj_kind j = Terminal_Job \<longrightarrow>
      isTerminalTaskStatus (t_status (dj_task j)) \<and> t_notifyPolicy (dj_task j) \<noteq> Silent \<and>
      t_deliveryStatus (dj_task j) = D_Pending) \<and>
    (map_get (tr_tasks st) i = Some t \<and> isTerminalTaskStatus (t_status t) \<longrightarrow> t_cleanupAfter t \<noteq> None)"
proof -
  have ok: "jobs_ok st" "tasks_ok (tr_tasks st)"
    using reachable_ok [OF assms] by (simp_all add: registry_ok_def core_ok_def)
  have one: "\<exists>\<^sub>\<le>\<^sub>1n. terminal_job st n i" using ok(1) unfolding jobs_ok_def Uniq_def by blast
  moreover have "i \<in> set (tr_pending st) \<longleftrightarrow> (\<exists>!n. terminal_job st n i)"
    using ok(1) unfolding jobs_ok_def by blast
  moreover have "map_get (tr_jobs st) n = Some j \<and> dj_kind j = Terminal_Job \<longrightarrow>
      shouldAutoDeliverTaskTerminalUpdate (dj_task j)"
    using ok(1) unfolding jobs_ok_def by blast
  ultimately show ?thesis
    using ok(2)
    by (auto simp: terminal_job_def tasks_ok_def shouldAutoDeliverTaskTerminalUpdate_def split: if_splits)
qed

lemma one_delivery_at_a_time_witness:
  "''task'' \<in> set (tr_pending sample_delivering) \<and>
   (\<exists>!n. \<exists>j. map_get (tr_jobs sample_delivering) n = Some j \<and> dj_kind j = Terminal_Job \<and> t_id (dj_task j) = ''task'')"
proof -
  have "tr_pending sample_delivering = [''task'']" by code_simp
  then have "''task'' \<in> set (tr_pending sample_delivering)" by simp
  then show ?thesis using one_delivery_at_a_time [OF sample_delivering_reachable, of "''task''"] by blast
qed

section \<open>Cancellation of flows\<close>


lemma cancelled_patch_fields [simp]:
  "fp_status (cancelled_patch e) = Some F_Cancelled"
  "fp_notifyPolicy (cancelled_patch e) = None"
  "fp_goal (cancelled_patch e) = None"
  "fp_currentStep (cancelled_patch e) = None"
  "fp_blockedTaskId (cancelled_patch e) = Some None"
  "fp_blockedSummary (cancelled_patch e) = Some None"
  "fp_controllerId (cancelled_patch e) = None"
  "fp_stateJson (cancelled_patch e) = JUndef"
  "fp_waitJson (cancelled_patch e) = JNull"
  "fp_cancelRequestedAt (cancelled_patch e) = None"
  "fp_updatedAt (cancelled_patch e) = Some e"
  "fp_endedAt (cancelled_patch e) = Some (Some e)"
  by (simp_all add: cancelled_patch_def empty_patch_def)


lemma has_active_task_flows [simp]: "has_active_task (st\<lparr>tr_flows := fs\<rparr>) k = has_active_task st k"
  by (simp add: has_active_task_def listTasksForFlowId_def)






end
