(* ===== verification/Cron_Schedule.thy ===== *)
theory Cron_Schedule
  imports Js_Prelude
begin

text \<open>
  When a scheduled job runs next: \<^verbatim>\<open>src/cron/parse.ts\<close>, \<^verbatim>\<open>src/cron/schedule.ts\<close> and
  \<^verbatim>\<open>src/cron/stagger.ts\<close>.

  The library that evaluates cron expressions, the parser of dates, the conversion of text to a number, the
  digest and the local time zone are parameters. An evaluation may throw, and gives nothing when there is no
  run or its date is invalid. The caches of evaluators and offsets hold what is computed again without them
  and are left out. Instants are integers in milliseconds; numbers that a stored job may hold as text or as
  a fraction keep their form; an absolute time is a whole number of milliseconds.
\<close>

record cron_env =
  ce_dateParse :: "string \<Rightarrow> int option"
  ce_toNumber :: "string \<Rightarrow> js_number"
  ce_nextRun :: "string \<Rightarrow> string \<Rightarrow> int \<Rightarrow> string + int option"
  ce_previousRun :: "string \<Rightarrow> string \<Rightarrow> int \<Rightarrow> string + int option"
  ce_digest :: "string \<Rightarrow> nat"
  ce_timeZone :: string
  ce_isHttpUrl :: "string \<Rightarrow> bool"

text \<open>A field of a stored schedule whose type is not checked.\<close>

datatype raw_field = Raw_Number js_number | Raw_Text string | Raw_Missing

datatype cron_schedule =
    At_Schedule "string option" raw_field
  | Every_Schedule raw_field raw_field
  | Cron_Schedule "string option" "string option" "string option" raw_field

section \<open>Absolute times\<close>

fun matches :: "(char \<Rightarrow> bool) list \<Rightarrow> string \<Rightarrow> bool" where
  "matches [] s = True"
| "matches (p # ps) [] = False"
| "matches (p # ps) (c # s) = (p c \<and> matches ps s)"

definition is_char :: "char \<Rightarrow> char \<Rightarrow> bool" where
  "is_char c d \<longleftrightarrow> c = d"

definition date_pattern :: "(char \<Rightarrow> bool) list" where
  "date_pattern = replicate 4 js_is_digit @ [is_char CHR ''-''] @ replicate 2 js_is_digit @ [is_char CHR ''-'']
     @ replicate 2 js_is_digit"

definition zone_pattern :: "bool \<Rightarrow> (char \<Rightarrow> bool) list" where
  "zone_pattern colon = [\<lambda>c. c = CHR ''+'' \<or> c = CHR ''-''] @ replicate 2 js_is_digit @
     (if colon then [is_char CHR '':''] else []) @ replicate 2 js_is_digit"

definition has_zone :: "string \<Rightarrow> bool" where
  "has_zone raw \<longleftrightarrow> js_ends_with raw ''Z'' \<or> js_ends_with raw ''z'' \<or>
     5 \<le> length raw \<and> matches (zone_pattern False) (drop (length raw - 5) raw) \<or>
     6 \<le> length raw \<and> matches (zone_pattern True) (drop (length raw - 6) raw)"

definition normalizeUtcIso :: "string \<Rightarrow> string" where
  "normalizeUtcIso raw =
     (if has_zone raw then raw
      else if length raw = 10 \<and> matches date_pattern raw then raw @ ''T00:00:00Z''
      else if matches (date_pattern @ [is_char CHR ''T'']) raw then raw @ ''Z''
      else raw)"

definition parseAbsoluteTimeMs :: "cron_env \<Rightarrow> string \<Rightarrow> int option" where
  "parseAbsoluteTimeMs env input =
     (let raw = js_trim input in
      if raw = [] then None
      else if list_all js_is_digit raw \<and> 0 < js_parse_nat raw then Some (int (js_parse_nat raw))
      else ce_dateParse env (normalizeUtcIso raw))"

section \<open>Staggering\<close>

definition DEFAULT_TOP_OF_HOUR_STAGGER_MS :: int where
  "DEFAULT_TOP_OF_HOUR_STAGGER_MS = 5 * 60 * 1000"

definition parseCronFields :: "string \<Rightarrow> string list" where
  "parseCronFields expr =
     js_nonempty (js_split CHR '' '' (map (\<lambda>c. if js_space c then CHR '' '' else c) (js_trim expr)))"

definition isRecurringTopOfHourCronExpr :: "string \<Rightarrow> bool" where
  "isRecurringTopOfHourCronExpr expr =
     (case parseCronFields expr of
        [minute, hour, _, _, _] \<Rightarrow> minute = ''0'' \<and> CHR ''*'' \<in> set hour
      | [second, minute, hour, _, _, _] \<Rightarrow> second = ''0'' \<and> minute = ''0'' \<and> CHR ''*'' \<in> set hour
      | _ \<Rightarrow> False)"

definition finite_number :: "js_number \<Rightarrow> rat option" where
  "finite_number x = (case x of Fin r \<Rightarrow> Some r | _ \<Rightarrow> None)"

definition normalizeCronStaggerMs :: "cron_env \<Rightarrow> raw_field \<Rightarrow> int option" where
  "normalizeCronStaggerMs env raw =
     map_option (\<lambda>r. max 0 \<lfloor>r\<rfloor>) (finite_number
       (case raw of
          Raw_Number x \<Rightarrow> x
        | Raw_Text s \<Rightarrow> if js_trim s \<noteq> [] then ce_toNumber env s else NaN
        | Raw_Missing \<Rightarrow> NaN))"

definition resolveDefaultCronStaggerMs :: "string \<Rightarrow> int option" where
  "resolveDefaultCronStaggerMs expr =
     (if isRecurringTopOfHourCronExpr expr then Some DEFAULT_TOP_OF_HOUR_STAGGER_MS else None)"

definition resolveCronStaggerMs :: "cron_env \<Rightarrow> string option \<Rightarrow> raw_field \<Rightarrow> int" where
  "resolveCronStaggerMs env expr staggerMs =
     (case normalizeCronStaggerMs env staggerMs of
        Some ms \<Rightarrow> ms
      | None \<Rightarrow> js_nullish (resolveDefaultCronStaggerMs (js_nullish expr [])) 0)"

section \<open>The next run of a schedule\<close>

definition coerceFiniteScheduleNumber :: "cron_env \<Rightarrow> raw_field \<Rightarrow> rat option" where
  "coerceFiniteScheduleNumber env value =
     (case value of
        Raw_Number x \<Rightarrow> finite_number x
      | Raw_Text s \<Rightarrow> if js_trim s = [] then None else finite_number (ce_toNumber env (js_trim s))
      | Raw_Missing \<Rightarrow> None)"

definition resolveCronTimezone :: "cron_env \<Rightarrow> string option \<Rightarrow> string" where
  "resolveCronTimezone env tz = js_or (js_trim (js_nullish tz [])) (ce_timeZone env)"

text \<open>The evaluator is the pair of the expression and the zone.\<close>

definition resolveCronFromSchedule ::
    "cron_env \<Rightarrow> string option \<Rightarrow> string option \<Rightarrow> string option \<Rightarrow> string + (string \<times> string) option" where
  "resolveCronFromSchedule env expr legacy tz =
     (case (case expr of Some e \<Rightarrow> Some e | None \<Rightarrow> legacy) of
        None \<Rightarrow> Inl ''invalid cron schedule: expr is required''
      | Some e \<Rightarrow> Inr (if js_trim e = [] then None else Some (js_trim e, resolveCronTimezone env tz)))"

definition at_time :: "cron_env \<Rightarrow> string option \<Rightarrow> raw_field \<Rightarrow> int option" where
  "at_time env at_text atMs =
     (case atMs of
        Raw_Number (Fin r) \<Rightarrow> if 0 < r then Some \<lfloor>r\<rfloor> else Option.bind at_text (parseAbsoluteTimeMs env)
      | Raw_Text s \<Rightarrow> parseAbsoluteTimeMs env s
      | _ \<Rightarrow> Option.bind at_text (parseAbsoluteTimeMs env))"

definition every_next :: "int \<Rightarrow> int \<Rightarrow> int \<Rightarrow> int" where
  "every_next everyMs anchor nowMs =
     (if nowMs < anchor then anchor
      else anchor + max 1 ((nowMs - anchor + everyMs - 1) div everyMs) * everyMs)"

definition day_ms :: int where
  "day_ms = 86400000"

text \<open>The result of an evaluation that lies in the past is tried again from the next second and from tomorrow.\<close>

definition after_now :: "int \<Rightarrow> string + int option \<Rightarrow> (string + int option) \<Rightarrow> string + int option" where
  "after_now nowMs attempt otherwise =
     (case attempt of
        Inl e \<Rightarrow> Inl e
      | Inr (Some t) \<Rightarrow> if nowMs < t then Inr (Some t) else otherwise
      | Inr None \<Rightarrow> otherwise)"

definition next_second :: "int \<Rightarrow> int" where
  "next_second nowMs = nowMs div 1000 * 1000 + 1000"

definition cron_next :: "cron_env \<Rightarrow> string \<Rightarrow> string \<Rightarrow> int \<Rightarrow> string + int option" where
  "cron_next env expr tz nowMs =
     (case ce_nextRun env expr tz nowMs of
        Inl e \<Rightarrow> Inl e
      | Inr None \<Rightarrow> Inr None
      | Inr (Some t) \<Rightarrow>
          if nowMs < t then Inr (Some t)
          else after_now nowMs (ce_nextRun env expr tz (next_second nowMs))
                 (after_now nowMs (ce_nextRun env expr tz ((nowMs div day_ms + 1) * day_ms)) (Inr None)))"

definition computeNextRunAtMs :: "cron_env \<Rightarrow> cron_schedule \<Rightarrow> int \<Rightarrow> string + int option" where
  "computeNextRunAtMs env schedule nowMs =
     (case schedule of
        At_Schedule at_text atMs \<Rightarrow>
          Inr (case at_time env at_text atMs of None \<Rightarrow> None | Some t \<Rightarrow> if nowMs < t then Some t else None)
      | Every_Schedule everyMs anchorMs \<Rightarrow>
          Inr (case coerceFiniteScheduleNumber env everyMs of
             None \<Rightarrow> None
           | Some r \<Rightarrow> Some (every_next (max 1 \<lfloor>r\<rfloor>)
               (max 0 \<lfloor>js_nullish (coerceFiniteScheduleNumber env anchorMs) (of_int nowMs)\<rfloor>) nowMs))
      | Cron_Schedule expr legacy tz _ \<Rightarrow>
          (case resolveCronFromSchedule env expr legacy tz of
             Inl e \<Rightarrow> Inl e
           | Inr None \<Rightarrow> Inr None
           | Inr (Some (e, zone)) \<Rightarrow> cron_next env e zone nowMs))"

definition computePreviousRunAtMs :: "cron_env \<Rightarrow> cron_schedule \<Rightarrow> int \<Rightarrow> string + int option" where
  "computePreviousRunAtMs env schedule nowMs =
     (case schedule of
        Cron_Schedule expr legacy tz _ \<Rightarrow>
          (case resolveCronFromSchedule env expr legacy tz of
             Inl e \<Rightarrow> Inl e
           | Inr None \<Rightarrow> Inr None
           | Inr (Some (e, zone)) \<Rightarrow>
               (case ce_previousRun env e zone nowMs of
                  Inl err \<Rightarrow> Inl err
                | Inr p \<Rightarrow> Inr (case p of None \<Rightarrow> None | Some t \<Rightarrow> if nowMs \<le> t then None else Some t)))
      | _ \<Rightarrow> Inr None)"

section \<open>What the schedule guarantees\<close>

text \<open>A run that is computed is never in the past, whatever the evaluator answers; only an interval may fall
  on the present instant.\<close>

lemma cron_next_future: "cron_next env expr tz now = Inr (Some t) \<Longrightarrow> now < t"
  by (auto simp: cron_next_def after_now_def split: sum.splits option.splits if_splits)

lemma every_next_bounds:
  assumes "0 < every"
  shows "now \<le> every_next every anchor now" and "anchor \<le> now \<Longrightarrow> every_next every anchor now \<le> now + every"
    and "every dvd every_next every anchor now - anchor"
proof -
  let ?q = "(now - anchor + every - 1) div every"
  have d: "every * ?q + (now - anchor + every - 1) mod every = now - anchor + every - 1" by simp
  have m: "0 \<le> (now - anchor + every - 1) mod every" "(now - anchor + every - 1) mod every < every" using assms by simp_all
  have "now - anchor \<le> every * ?q" "every * ?q \<le> now - anchor + every - 1" using d m by linarith+
  then have lo: "now - anchor \<le> ?q * every" and hi: "?q * every \<le> now - anchor + every - 1"
    by (simp_all only: mult.commute)
  have "?q * every \<le> max 1 ?q * every" using assms by (intro mult_right_mono) simp_all
  then show "now \<le> every_next every anchor now" using lo by (simp add: every_next_def)
  show "every_next every anchor now \<le> now + every" if "anchor \<le> now"
    using hi that by (cases "1 \<le> ?q") (simp_all add: every_next_def max_def)
  show "every dvd every_next every anchor now - anchor" by (simp add: every_next_def)
qed

lemma computeNextRunAtMs_not_past: "computeNextRunAtMs env s now = Inr (Some t) \<Longrightarrow> now \<le> t"
  using every_next_bounds(1) [of "max 1 _"]
  by (auto simp: computeNextRunAtMs_def dest!: cron_next_future split: cron_schedule.splits sum.splits option.splits if_splits)

end
