(* ===== verification/Cron_Jobs.thy ===== *)
theory Cron_Jobs
  imports Cron_Schedule Task_Types
begin

text \<open>
  Scheduled jobs as records and what \<^verbatim>\<open>src/cron/service/jobs.ts\<close> does with them: the next run of a
  job, the repair of stored jobs, creation and patches, with \<^verbatim>\<open>src/cron/types.ts\<close>,
  \<^verbatim>\<open>types-shared.ts\<close>, \<^verbatim>\<open>session-target.ts\<close>, \<^verbatim>\<open>webhook-url.ts\<close>, \<^verbatim>\<open>service/initial-delivery.ts\<close>
  and \<^verbatim>\<open>service/normalize.ts\<close>.

  A job is changed in place in the source, so a patch that is refused after its first changes leaves them: a
  function that may throw gives the error, if any, together with the job as it is then. Fields of the
  source that are only stored (run telemetry, the classified reason of an error) are left out.
\<close>

section \<open>Records\<close>

datatype run_status = Run_Ok | Run_Error | Run_Skipped

datatype wake_mode = Wake_Now | Wake_Next_Heartbeat

datatype delivery_status = Delivered | Not_Delivered | Delivery_Unknown | Not_Requested

record failure_destination =
  fd_channel :: "string option"
  fd_to :: "string option"
  fd_accountId :: "string option"
  fd_mode :: "string option"

record cron_delivery =
  cd_mode :: string
  cd_channel :: "string option"
  cd_to :: "string option"
  cd_threadId :: "thread_id option"
  cd_accountId :: "string option"
  cd_bestEffort :: "bool option"
  cd_failureDestination :: "failure_destination option"

record failure_alert =
  fa_after :: "js_number option"
  fa_channel :: "string option"
  fa_to :: "string option"
  fa_cooldownMs :: "js_number option"
  fa_mode :: "string option"
  fa_accountId :: "string option"

datatype alert_setting = Alert_Unset | Alert_Off | Alert_On failure_alert

record agent_turn =
  tn_message :: string
  tn_model :: "string option"
  tn_fallbacks :: "string list option"
  tn_thinking :: "string option"
  tn_timeoutSeconds :: "js_number option"
  tn_lightContext :: "bool option"
  tn_allowUnsafe :: "bool option"
  tn_toolsAllow :: "string list option"
  tn_externalSource :: "string option"

datatype cron_payload = System_Payload string | Agent_Payload agent_turn

record job_state =
  js_nextRunAtMs :: "int option"
  js_runningAtMs :: "int option"
  js_lastRunAtMs :: "int option"
  js_lastRunStatus :: "run_status option"
  js_lastStatus :: "run_status option"
  js_lastError :: "string option"
  js_lastDurationMs :: "int option"
  js_consecutiveErrors :: "int option"
  js_lastFailureAlertAtMs :: "int option"
  js_scheduleErrorCount :: "int option"
  js_lastDeliveryStatus :: "delivery_status option"
  js_lastDeliveryError :: "string option"
  js_lastDelivered :: "bool option"

record cron_job =
  cj_id :: string
  cj_agentId :: "string option"
  cj_sessionKey :: "string option"
  cj_name :: string
  cj_description :: "string option"
  cj_enabled :: bool
  cj_deleteAfterRun :: "bool option"
  cj_createdAtMs :: int
  cj_updatedAtMs :: int
  cj_schedule :: cron_schedule
  cj_sessionTarget :: string
  cj_wakeMode :: wake_mode
  cj_payload :: cron_payload
  cj_delivery :: "cron_delivery option"
  cj_failureAlert :: alert_setting
  cj_state :: job_state

definition empty_state :: job_state where
  "empty_state = \<lparr>js_nextRunAtMs = None, js_runningAtMs = None, js_lastRunAtMs = None, js_lastRunStatus = None,
     js_lastStatus = None, js_lastError = None, js_lastDurationMs = None, js_consecutiveErrors = None,
     js_lastFailureAlertAtMs = None, js_scheduleErrorCount = None, js_lastDeliveryStatus = None,
     js_lastDeliveryError = None, js_lastDelivered = None\<rparr>"

datatype cron_error =
    Name_Required
  | Invalid_Session_Target
  | Main_Requires_SystemEvent
  | Isolated_Requires_AgentTurn
  | Main_Default_Agent_Only
  | Webhook_Requires_Url
  | Channel_Delivery_Isolated_Only
  | Failure_Destination_Isolated_Only
  | Failure_Webhook_Requires_Url
  | SystemEvent_Requires_Text
  | AgentTurn_Requires_Message
  | Unknown_Job string
  | Schedule_Error string

text \<open>What the service asks of other components, in order.\<close>

datatype cron_output =
    Enqueue_Event string "string option" "string option" "string option"
  | Request_Wake string "string option" "string option"
  | Send_Alert string string string "string option" "string option" "string option"
  | Job_Added string "int option"
  | Job_Updated string "int option"
  | Job_Removed string
  | Job_Started string int
  | Run_Enqueued string
  | Job_Finished string run_status "string option" int "int option" "int option"
  | Ledger_Started string string "string option" "string option" string string int
  | Ledger_Completed string int "string option"
  | Ledger_Failed string bool int "string option" "string option"

abbreviation upd_state :: "(job_state \<Rightarrow> job_state) \<Rightarrow> cron_job \<Rightarrow> cron_job" where
  "upd_state f j \<equiv> j\<lparr>cj_state := f (cj_state j)\<rparr>"

abbreviation nextRun :: "cron_job \<Rightarrow> int option" where
  "nextRun j \<equiv> js_nextRunAtMs (cj_state j)"

abbreviation runningAt :: "cron_job \<Rightarrow> int option" where
  "runningAt j \<equiv> js_runningAtMs (cj_state j)"

abbreviation lastRun :: "cron_job \<Rightarrow> int option" where
  "lastRun j \<equiv> js_lastRunAtMs (cj_state j)"

abbreviation set_next :: "int option \<Rightarrow> cron_job \<Rightarrow> cron_job" where
  "set_next v \<equiv> upd_state (\<lambda>s. s\<lparr>js_nextRunAtMs := v\<rparr>)"

abbreviation set_running :: "int option \<Rightarrow> cron_job \<Rightarrow> cron_job" where
  "set_running v \<equiv> upd_state (\<lambda>s. s\<lparr>js_runningAtMs := v\<rparr>)"

section \<open>The next run of a job\<close>

definition STUCK_RUN_MS :: int where
  "STUCK_RUN_MS = 2 * 60 * 60 * 1000"

definition resolveStableCronOffsetMs :: "cron_env \<Rightarrow> string \<Rightarrow> int \<Rightarrow> int" where
  "resolveStableCronOffsetMs env jobId staggerMs =
     (if staggerMs \<le> 1 then 0 else int (ce_digest env jobId) mod staggerMs)"

text \<open>The loops of four attempts; the first argument is what is left of them.\<close>

fun staggered_next :: "nat \<Rightarrow> cron_env \<Rightarrow> cron_schedule \<Rightarrow> int \<Rightarrow> int \<Rightarrow> int \<Rightarrow> string + int option" where
  "staggered_next 0 env schedule offset nowMs cursor = Inr None"
| "staggered_next (Suc attempts) env schedule offset nowMs cursor =
     (case computeNextRunAtMs env schedule cursor of
        Inl e \<Rightarrow> Inl e
      | Inr None \<Rightarrow> Inr None
      | Inr (Some base) \<Rightarrow>
          if nowMs < base + offset then Inr (Some (base + offset))
          else staggered_next attempts env schedule offset nowMs (max (cursor + 1) (base + 1000)))"

fun staggered_previous :: "nat \<Rightarrow> cron_env \<Rightarrow> cron_schedule \<Rightarrow> int \<Rightarrow> int \<Rightarrow> int \<Rightarrow> string + int option" where
  "staggered_previous 0 env schedule offset nowMs cursor = Inr None"
| "staggered_previous (Suc attempts) env schedule offset nowMs cursor =
     (case computePreviousRunAtMs env schedule cursor of
        Inl e \<Rightarrow> Inl e
      | Inr None \<Rightarrow> Inr None
      | Inr (Some base) \<Rightarrow>
          if base + offset \<le> nowMs then Inr (Some (base + offset))
          else staggered_previous attempts env schedule offset nowMs (max 0 (base - 1000)))"

definition job_offset :: "cron_env \<Rightarrow> cron_job \<Rightarrow> int" where
  "job_offset env j =
     (case cj_schedule j of
        Cron_Schedule expr _ _ staggerMs \<Rightarrow>
          resolveStableCronOffsetMs env (cj_id j) (resolveCronStaggerMs env expr staggerMs)
      | _ \<Rightarrow> 0)"

definition computeStaggeredCronNextRunAtMs :: "cron_env \<Rightarrow> cron_job \<Rightarrow> int \<Rightarrow> string + int option" where
  "computeStaggeredCronNextRunAtMs env j nowMs =
     (if job_offset env j \<le> 0 then computeNextRunAtMs env (cj_schedule j) nowMs
      else staggered_next 4 env (cj_schedule j) (job_offset env j) nowMs (max 0 (nowMs - job_offset env j)))"

definition computeStaggeredCronPreviousRunAtMs :: "cron_env \<Rightarrow> cron_job \<Rightarrow> int \<Rightarrow> string + int option" where
  "computeStaggeredCronPreviousRunAtMs env j nowMs =
     (case cj_schedule j of
        Cron_Schedule _ _ _ _ \<Rightarrow>
          if job_offset env j \<le> 0 then computePreviousRunAtMs env (cj_schedule j) nowMs
          else staggered_previous 4 env (cj_schedule j) (job_offset env j) nowMs (max 0 (nowMs - job_offset env j))
      | _ \<Rightarrow> Inr None)"

definition resolveEveryAnchorMs :: "cron_env \<Rightarrow> raw_field \<Rightarrow> int \<Rightarrow> int" where
  "resolveEveryAnchorMs env anchorMs fallbackAnchorMs =
     (case coerceFiniteScheduleNumber env anchorMs of Some r \<Rightarrow> max 0 \<lfloor>r\<rfloor> | None \<Rightarrow> max 0 fallbackAnchorMs)"

definition computeJobNextRunAtMs :: "cron_env \<Rightarrow> cron_job \<Rightarrow> int \<Rightarrow> string + int option" where
  "computeJobNextRunAtMs env j nowMs =
     (if \<not> cj_enabled j then Inr None
      else case cj_schedule j of
        Every_Schedule everyMs anchorMs \<Rightarrow>
          Inr (case coerceFiniteScheduleNumber env everyMs of
             None \<Rightarrow> None
           | Some r \<Rightarrow>
               let every = max 1 \<lfloor>r\<rfloor>;
                   grid = every_next every (resolveEveryAnchorMs env anchorMs (cj_createdAtMs j)) nowMs
               in Some (case lastRun j of
                    Some prev \<Rightarrow> if nowMs < prev + every then prev + every else grid
                  | None \<Rightarrow> grid))
      | At_Schedule at_text atMs \<Rightarrow>
          Inr (if js_lastStatus (cj_state j) = Some Run_Ok \<and> lastRun j \<noteq> None \<and> lastRun j \<noteq> Some 0
               then (case at_time env at_text atMs of
                       None \<Rightarrow> None
                     | Some t \<Rightarrow> if the (lastRun j) < t then Some t else None)
               else at_time env at_text atMs)
      | Cron_Schedule _ _ _ _ \<Rightarrow>
          (case computeStaggeredCronNextRunAtMs env j nowMs of
             Inr None \<Rightarrow> computeStaggeredCronNextRunAtMs env j (next_second nowMs)
           | r \<Rightarrow> r))"

definition computeJobPreviousRunAtMs :: "cron_env \<Rightarrow> cron_job \<Rightarrow> int \<Rightarrow> string + int option" where
  "computeJobPreviousRunAtMs env j nowMs =
     (if \<not> cj_enabled j then Inr None else computeStaggeredCronPreviousRunAtMs env j nowMs)"

section \<open>Repair of stored jobs\<close>

definition MAX_SCHEDULE_ERRORS :: int where
  "MAX_SCHEDULE_ERRORS = 3"

text \<open>The warning sign that starts the message, as its UTF-8 bytes.\<close>

definition warning_sign :: string where
  "warning_sign = [CHR 0xE2, CHR 0x9A, CHR 0xA0, CHR 0xEF, CHR 0xB8, CHR 0x8F]"

definition recordScheduleComputeError :: "cron_job \<Rightarrow> string \<Rightarrow> cron_job \<times> cron_output list" where
  "recordScheduleComputeError j err =
     (let n = js_nullish (js_scheduleErrorCount (cj_state j)) 0 + 1;
          j1 = upd_state (\<lambda>s. s\<lparr>js_scheduleErrorCount := Some n, js_nextRunAtMs := None,
                 js_lastError := Some (''schedule error: '' @ err)\<rparr>) j;
          context = ''cron:'' @ cj_id j @ '':auto-disabled''
      in if MAX_SCHEDULE_ERRORS \<le> n
         then (j1\<lparr>cj_enabled := False\<rparr>,
           [Enqueue_Event (warning_sign @ '' Cron job \"'' @ cj_name j @ ''\" has been auto-disabled after '' @
              nat_str (nat n) @ '' consecutive schedule errors. Last error: '' @ err) (cj_agentId j) (cj_sessionKey j)
              (Some context),
            Request_Wake context (cj_agentId j) (cj_sessionKey j)])
         else (j1, []))"

text \<open>\<open>normalizeJobTickState\<close>: the repaired job and whether it is skipped.\<close>

definition normalizeJobTickState :: "cron_env \<Rightarrow> int \<Rightarrow> cron_job \<Rightarrow> cron_job \<times> bool" where
  "normalizeJobTickState env nowMs j =
     (let j1 = (case cj_schedule j of
                  Every_Schedule everyMs anchorMs \<Rightarrow>
                    j\<lparr>cj_schedule := Every_Schedule everyMs
                        (Raw_Number (Fin (of_int (resolveEveryAnchorMs env anchorMs (cj_createdAtMs j)))))\<rparr>
                | _ \<Rightarrow> j)
      in if \<not> cj_enabled j1 then (set_running None (set_next None j1), True)
         else (case runningAt j1 of
                 Some t \<Rightarrow> (if STUCK_RUN_MS < nowMs - t then set_running None j1 else j1, False)
               | None \<Rightarrow> (j1, False)))"

fun walkSchedulableJobs ::
    "cron_env \<Rightarrow> int \<Rightarrow> (cron_job \<Rightarrow> cron_job \<times> cron_output list) \<Rightarrow> cron_job list \<Rightarrow> cron_job list \<times> cron_output list" where
  "walkSchedulableJobs env nowMs f [] = ([], [])"
| "walkSchedulableJobs env nowMs f (j # jobs) =
     (let (j1, skip) = normalizeJobTickState env nowMs j;
          (j2, out) = (if skip then (j1, []) else f j1);
          (rest, outs) = walkSchedulableJobs env nowMs f jobs
      in (j2 # rest, out @ outs))"

definition recomputeJobNextRunAtMs :: "cron_env \<Rightarrow> int \<Rightarrow> cron_job \<Rightarrow> cron_job \<times> cron_output list" where
  "recomputeJobNextRunAtMs env nowMs j =
     (case computeJobNextRunAtMs env j nowMs of
        Inl err \<Rightarrow> recordScheduleComputeError j err
      | Inr t \<Rightarrow> (upd_state (\<lambda>s. s\<lparr>js_nextRunAtMs := t,
          js_scheduleErrorCount := (if js_scheduleErrorCount s = Some 0 then Some 0 else None)\<rparr>) j, []))"

definition recompute_step :: "cron_env \<Rightarrow> int \<Rightarrow> cron_job \<Rightarrow> cron_job \<times> cron_output list" where
  "recompute_step env nowMs j =
     (case nextRun j of
        None \<Rightarrow> recomputeJobNextRunAtMs env nowMs j
      | Some t \<Rightarrow> if t \<le> nowMs then recomputeJobNextRunAtMs env nowMs j else (j, []))"

definition recomputeNextRuns :: "cron_env \<Rightarrow> int \<Rightarrow> cron_job list \<Rightarrow> cron_job list \<times> cron_output list" where
  "recomputeNextRuns env nowMs = walkSchedulableJobs env nowMs (recompute_step env nowMs)"

definition maintenance_step :: "cron_env \<Rightarrow> bool \<Rightarrow> int \<Rightarrow> cron_job \<Rightarrow> cron_job \<times> cron_output list" where
  "maintenance_step env recomputeExpired nowMs j =
     (case nextRun j of
        None \<Rightarrow> recomputeJobNextRunAtMs env nowMs j
      | Some t \<Rightarrow>
          if recomputeExpired \<and> t \<le> nowMs \<and> runningAt j = None then
            (case lastRun j of
               Some prev \<Rightarrow> if t \<le> prev then recomputeJobNextRunAtMs env nowMs j else (j, [])
             | None \<Rightarrow> (j, []))
          else (j, []))"

definition recomputeNextRunsForMaintenance ::
    "cron_env \<Rightarrow> bool \<Rightarrow> int \<Rightarrow> cron_job list \<Rightarrow> cron_job list \<times> cron_output list" where
  "recomputeNextRunsForMaintenance env recomputeExpired nowMs =
     walkSchedulableJobs env nowMs (maintenance_step env recomputeExpired nowMs)"

definition nextWakeAtMs :: "cron_job list \<Rightarrow> int option" where
  "nextWakeAtMs jobs =
     (case filter (\<lambda>j. cj_enabled j \<and> nextRun j \<noteq> None) jobs of
        [] \<Rightarrow> None
      | j # js \<Rightarrow> Some (foldl (\<lambda>m k. min m (the (nextRun k))) (the (nextRun j)) (j # js)))"

definition isJobDue :: "cron_job \<Rightarrow> int \<Rightarrow> bool \<Rightarrow> bool" where
  "isJobDue j nowMs forced =
     (if runningAt j \<noteq> None then False
      else if forced then True
      else cj_enabled j \<and> (case nextRun j of None \<Rightarrow> False | Some t \<Rightarrow> t \<le> nowMs))"

end
