(* ===== verification/Cron_Edits.thy ===== *)
theory Cron_Edits
  imports Cron_Jobs
begin

text \<open>
  The checks, creation and patches of jobs in \<^verbatim>\<open>src/cron/service/jobs.ts\<close>.

  In a patch, an absent field is \<open>None\<close>; a field that is present but \<open>undefined\<close> or \<open>null\<close> is \<open>Some None\<close>.
\<close>

section \<open>Text\<close>

definition normalizeRequiredName :: "string option \<Rightarrow> cron_error + string" where
  "normalizeRequiredName raw = (case trimmed raw of None \<Rightarrow> Inl Name_Required | Some n \<Rightarrow> Inr n)"

definition normalizeOptionalAgentId :: "string option \<Rightarrow> string option" where
  "normalizeOptionalAgentId raw = map_option (\<lambda>t. normalizeAgentId (Some t)) (trimmed raw)"

definition normalizeHttpWebhookUrl :: "cron_env \<Rightarrow> string option \<Rightarrow> string option" where
  "normalizeHttpWebhookUrl env v =
     Option.bind (trimmed v) (\<lambda>t. if ce_isHttpUrl env t then Some t else None)"

section \<open>Checks\<close>

text \<open>A check gives the first error it meets and the job, of which it may have normalised a URL.\<close>

type_synonym job_edit = "cron_job \<Rightarrow> cron_error option \<times> cron_job"

definition and_then :: "job_edit \<Rightarrow> job_edit \<Rightarrow> job_edit" where
  "and_then f g j = (case f j of (Some e, j1) \<Rightarrow> (Some e, j1) | (None, j1) \<Rightarrow> g j1)"

definition edit :: "(cron_job \<Rightarrow> cron_job) \<Rightarrow> job_edit" where
  "edit f j = (None, f j)"

definition demand :: "(cron_job \<Rightarrow> bool) \<Rightarrow> cron_error \<Rightarrow> job_edit" where
  "demand P e j = (if P j then (None, j) else (Some e, j))"

definition isIsolatedLike :: "string \<Rightarrow> bool" where
  "isIsolatedLike target \<longleftrightarrow> target = ''isolated'' \<or> target = ''current'' \<or> js_starts_with target ''session:''"

definition is_system :: "cron_payload \<Rightarrow> bool" where
  "is_system p = (case p of System_Payload _ \<Rightarrow> True | Agent_Payload _ \<Rightarrow> False)"

definition safe_session_target :: "string \<Rightarrow> bool" where
  "safe_session_target sessionId \<longleftrightarrow>
     (let t = js_trim sessionId in t \<noteq> [] \<and> CHR ''/'' \<notin> set t \<and> CHR 0x5C \<notin> set t \<and> CHR 0x00 \<notin> set t)"

definition assertSupportedJobSpec :: job_edit where
  "assertSupportedJobSpec =
     and_then (demand (\<lambda>j. js_starts_with (cj_sessionTarget j) ''session:'' \<longrightarrow>
         safe_session_target (drop 8 (cj_sessionTarget j))) Invalid_Session_Target)
     (and_then (demand (\<lambda>j. cj_sessionTarget j = ''main'' \<longrightarrow> is_system (cj_payload j)) Main_Requires_SystemEvent)
       (demand (\<lambda>j. isIsolatedLike (cj_sessionTarget j) \<longrightarrow> \<not> is_system (cj_payload j)) Isolated_Requires_AgentTurn))"

definition assertMainSessionAgentId :: "string option \<Rightarrow> job_edit" where
  "assertMainSessionAgentId defaultAgentId =
     demand (\<lambda>j. cj_sessionTarget j = ''main'' \<and> js_truthy (cj_agentId j) \<longrightarrow>
       normalizeAgentId (cj_agentId j) = normalizeAgentId defaultAgentId) Main_Default_Agent_Only"

definition assertDeliverySupport :: "cron_env \<Rightarrow> job_edit" where
  "assertDeliverySupport env j =
     (case cj_delivery j of
        None \<Rightarrow> (None, j)
      | Some d \<Rightarrow>
          if cd_mode d = ''none'' then (None, j)
          else if cd_mode d = ''webhook'' then
            (case normalizeHttpWebhookUrl env (cd_to d) of
               None \<Rightarrow> (Some Webhook_Requires_Url, j)
             | Some target \<Rightarrow> (None, j\<lparr>cj_delivery := Some (d\<lparr>cd_to := Some target\<rparr>)\<rparr>))
          else if isIsolatedLike (cj_sessionTarget j) then (None, j)
          else (Some Channel_Delivery_Isolated_Only, j))"

definition failure_destination_of :: "cron_job \<Rightarrow> failure_destination option" where
  "failure_destination_of j = Option.bind (cj_delivery j) cd_failureDestination"

definition webhook_delivery :: "cron_job \<Rightarrow> bool" where
  "webhook_delivery j \<longleftrightarrow> map_option cd_mode (cj_delivery j) = Some ''webhook''"

definition assertFailureDestinationSupport :: "cron_env \<Rightarrow> job_edit" where
  "assertFailureDestinationSupport env j =
     (case (cj_delivery j, failure_destination_of j) of
        (Some d, Some fd) \<Rightarrow>
          if cj_sessionTarget j = ''main'' \<and> \<not> webhook_delivery j then (Some Failure_Destination_Isolated_Only, j)
          else if fd_mode fd = Some ''webhook'' then
            (case normalizeHttpWebhookUrl env (fd_to fd) of
               None \<Rightarrow> (Some Failure_Webhook_Requires_Url, j)
             | Some target \<Rightarrow>
                 (None, j\<lparr>cj_delivery := Some (d\<lparr>cd_failureDestination := Some (fd\<lparr>fd_to := Some target\<rparr>)\<rparr>)\<rparr>))
          else (None, j)
      | _ \<Rightarrow> (None, j))"

definition assert_job :: "cron_env \<Rightarrow> string option \<Rightarrow> job_edit" where
  "assert_job env defaultAgentId =
     and_then assertSupportedJobSpec (and_then (assertMainSessionAgentId defaultAgentId)
       (and_then (assertDeliverySupport env) (assertFailureDestinationSupport env)))"

section \<open>Creation\<close>

record cron_create =
  cc_agentId :: "string option"
  cc_sessionKey :: "string option"
  cc_name :: "string option"
  cc_description :: "string option"
  cc_enabled :: "bool option"
  cc_deleteAfterRun :: "bool option"
  cc_schedule :: cron_schedule
  cc_sessionTarget :: string
  cc_wakeMode :: wake_mode
  cc_payload :: cron_payload
  cc_delivery :: "cron_delivery option"
  cc_failureAlert :: alert_setting
  cc_state :: job_state

definition whole_ms :: "int \<Rightarrow> raw_field" where
  "whole_ms i = Raw_Number (Fin (of_int i))"

definition create_schedule :: "cron_env \<Rightarrow> int \<Rightarrow> cron_schedule \<Rightarrow> cron_schedule" where
  "create_schedule env now s =
     (case s of
        Every_Schedule everyMs anchorMs \<Rightarrow> Every_Schedule everyMs (whole_ms (resolveEveryAnchorMs env anchorMs now))
      | Cron_Schedule expr legacy tz staggerMs \<Rightarrow>
          (case normalizeCronStaggerMs env staggerMs of
             Some ms \<Rightarrow> Cron_Schedule expr legacy tz (whole_ms ms)
           | None \<Rightarrow>
               (case resolveDefaultCronStaggerMs (js_nullish expr []) of
                  Some ms \<Rightarrow> Cron_Schedule expr legacy tz (whole_ms ms)
                | None \<Rightarrow> s))
      | At_Schedule _ _ \<Rightarrow> s)"

definition is_at :: "cron_schedule \<Rightarrow> bool" where
  "is_at s = (case s of At_Schedule _ _ \<Rightarrow> True | _ \<Rightarrow> False)"

definition announce_delivery :: cron_delivery where
  "announce_delivery = \<lparr>cd_mode = ''announce'', cd_channel = None, cd_to = None, cd_threadId = None,
     cd_accountId = None, cd_bestEffort = None, cd_failureDestination = None\<rparr>"

definition resolveInitialCronDelivery :: "cron_create \<Rightarrow> cron_delivery option" where
  "resolveInitialCronDelivery p =
     (case cc_delivery p of
        Some d \<Rightarrow> Some d
      | None \<Rightarrow>
          if cc_sessionTarget p = ''isolated'' \<and> \<not> is_system (cc_payload p) then Some announce_delivery else None)"

definition createJob ::
    "cron_env \<Rightarrow> string option \<Rightarrow> string \<Rightarrow> int \<Rightarrow> cron_create \<Rightarrow> cron_error + cron_job" where
  "createJob env defaultAgentId newId now p =
     (case normalizeRequiredName (cc_name p) of
        Inl e \<Rightarrow> Inl e
      | Inr name \<Rightarrow>
          let schedule = create_schedule env now (cc_schedule p);
              j = \<lparr>cj_id = newId, cj_agentId = normalizeOptionalAgentId (cc_agentId p),
                   cj_sessionKey = trimmed (cc_sessionKey p), cj_name = name,
                   cj_description = trimmed (cc_description p), cj_enabled = js_nullish (cc_enabled p) True,
                   cj_deleteAfterRun = (case cc_deleteAfterRun p of Some b \<Rightarrow> Some b
                     | None \<Rightarrow> if is_at schedule then Some True else None),
                   cj_createdAtMs = now, cj_updatedAtMs = now, cj_schedule = schedule,
                   cj_sessionTarget = cc_sessionTarget p, cj_wakeMode = cc_wakeMode p,
                   cj_payload = cc_payload p, cj_delivery = resolveInitialCronDelivery p,
                   cj_failureAlert = cc_failureAlert p, cj_state = cc_state p\<rparr>
          in (case assert_job env defaultAgentId j of
                (Some e, _) \<Rightarrow> Inl e
              | (None, j1) \<Rightarrow>
                  (case computeJobNextRunAtMs env j1 now of
                     Inl err \<Rightarrow> Inl (Schedule_Error err)
                   | Inr t \<Rightarrow> Inr (set_next t j1))))"

section \<open>Patches\<close>

record agent_patch =
  ap_message :: "string option"
  ap_model :: "string option"
  ap_fallbacks :: "string list option"
  ap_thinking :: "string option"
  ap_timeoutSeconds :: "js_number option"
  ap_lightContext :: "bool option"
  ap_allowUnsafe :: "bool option"
  ap_toolsAllow :: "string list option option"

datatype payload_patch = System_Patch "string option" | Agent_Patch agent_patch

record destination_patch =
  dp_channel :: "string option option"
  dp_to :: "string option option"
  dp_accountId :: "string option option"
  dp_mode :: "string option option"

record delivery_patch =
  vp_mode :: "string option"
  vp_channel :: "string option option"
  vp_to :: "string option option"
  vp_threadId :: "thread_id option option"
  vp_accountId :: "string option option"
  vp_bestEffort :: "bool option"
  vp_failureDestination :: "destination_patch option option"

record alert_patch =
  lp_after :: "js_number option option"
  lp_channel :: "string option option"
  lp_to :: "string option option"
  lp_cooldownMs :: "js_number option option"
  lp_mode :: "string option option"
  lp_accountId :: "string option option"

datatype alert_change = Alert_Keep | Alert_Disable | Alert_Change alert_patch

record cron_patch =
  cp_name :: "string option option"
  cp_description :: "string option option"
  cp_enabled :: "bool option"
  cp_deleteAfterRun :: "bool option"
  cp_schedule :: "cron_schedule option"
  cp_sessionTarget :: "string option"
  cp_wakeMode :: "wake_mode option"
  cp_payload :: "payload_patch option"
  cp_delivery :: "delivery_patch option"
  cp_failureAlert :: alert_change
  cp_state :: "job_state \<Rightarrow> job_state"
  cp_agentId :: "string option option"
  cp_sessionKey :: "string option option"

definition buildPayloadFromPatch :: "payload_patch \<Rightarrow> cron_error + cron_payload" where
  "buildPayloadFromPatch patch =
     (case patch of
        System_Patch text \<Rightarrow>
          if js_nullish text [] = [] then Inl SystemEvent_Requires_Text else Inr (System_Payload (the text))
      | Agent_Patch a \<Rightarrow>
          if js_nullish (ap_message a) [] = [] then Inl AgentTurn_Requires_Message
          else Inr (Agent_Payload \<lparr>tn_message = the (ap_message a), tn_model = ap_model a,
            tn_fallbacks = ap_fallbacks a, tn_thinking = ap_thinking a, tn_timeoutSeconds = ap_timeoutSeconds a,
            tn_lightContext = ap_lightContext a, tn_allowUnsafe = ap_allowUnsafe a,
            tn_toolsAllow = Option.bind (ap_toolsAllow a) id, tn_externalSource = None\<rparr>))"

definition keep_or :: "'a option \<Rightarrow> 'a option \<Rightarrow> 'a option" where
  "keep_or new old = (case new of Some v \<Rightarrow> Some v | None \<Rightarrow> old)"

definition mergeCronPayload :: "cron_payload \<Rightarrow> payload_patch \<Rightarrow> cron_error + cron_payload" where
  "mergeCronPayload existing patch =
     (case (existing, patch) of
        (System_Payload old, System_Patch text) \<Rightarrow> Inr (System_Payload (js_nullish text old))
      | (Agent_Payload t, Agent_Patch a) \<Rightarrow>
          Inr (Agent_Payload (t\<lparr>tn_message := js_nullish (ap_message a) (tn_message t),
            tn_model := keep_or (ap_model a) (tn_model t),
            tn_fallbacks := keep_or (ap_fallbacks a) (tn_fallbacks t),
            tn_toolsAllow := (case ap_toolsAllow a of None \<Rightarrow> tn_toolsAllow t | Some v \<Rightarrow> v),
            tn_thinking := keep_or (ap_thinking a) (tn_thinking t),
            tn_timeoutSeconds := keep_or (ap_timeoutSeconds a) (tn_timeoutSeconds t),
            tn_lightContext := keep_or (ap_lightContext a) (tn_lightContext t),
            tn_allowUnsafe := keep_or (ap_allowUnsafe a) (tn_allowUnsafe t)\<rparr>))
      | _ \<Rightarrow> buildPayloadFromPatch patch)"

text \<open>A field that is present is trimmed, and text without content clears it.\<close>

definition text_field :: "string option option \<Rightarrow> string option \<Rightarrow> string option" where
  "text_field p old = (case p of None \<Rightarrow> old | Some v \<Rightarrow> trimmed v)"

definition normalizeOptionalThreadId :: "thread_id option \<Rightarrow> thread_id option" where
  "normalizeOptionalThreadId v =
     (case v of
        Some (Thread_Num (Fin r)) \<Rightarrow> Some (Thread_Num (Fin r))
      | Some (Thread_Str s) \<Rightarrow> map_option Thread_Str (trimmed (Some s))
      | _ \<Rightarrow> None)"

definition mode_field :: "string option option \<Rightarrow> string option \<Rightarrow> string option" where
  "mode_field p old =
     (case p of
        None \<Rightarrow> old
      | Some v \<Rightarrow> (case trimmed v of
          Some m \<Rightarrow> if m = ''announce'' \<or> m = ''webhook'' then Some m else None
        | None \<Rightarrow> None))"

definition merge_destination ::
    "failure_destination option \<Rightarrow> destination_patch option option \<Rightarrow> failure_destination option" where
  "merge_destination old p =
     (case p of
        None \<Rightarrow> old
      | Some None \<Rightarrow> None
      | Some (Some d) \<Rightarrow> Some
          \<lparr>fd_channel = text_field (dp_channel d) (Option.bind old fd_channel),
           fd_to = text_field (dp_to d) (Option.bind old fd_to),
           fd_accountId = text_field (dp_accountId d) (Option.bind old fd_accountId),
           fd_mode = mode_field (dp_mode d) (Option.bind old fd_mode)\<rparr>)"

definition mergeCronDelivery :: "cron_delivery option \<Rightarrow> delivery_patch \<Rightarrow> cron_delivery" where
  "mergeCronDelivery existing p =
     \<lparr>cd_mode = (case vp_mode p of Some m \<Rightarrow> if m = ''deliver'' then ''announce'' else m
        | None \<Rightarrow> js_nullish (map_option cd_mode existing) ''none''),
      cd_channel = text_field (vp_channel p) (Option.bind existing cd_channel),
      cd_to = text_field (vp_to p) (Option.bind existing cd_to),
      cd_threadId = (case vp_threadId p of None \<Rightarrow> Option.bind existing cd_threadId
        | Some v \<Rightarrow> normalizeOptionalThreadId v),
      cd_accountId = text_field (vp_accountId p) (Option.bind existing cd_accountId),
      cd_bestEffort = keep_or (vp_bestEffort p) (Option.bind existing cd_bestEffort),
      cd_failureDestination = merge_destination (Option.bind existing cd_failureDestination) (vp_failureDestination p)\<rparr>"

text \<open>A number that is present is kept when it is above the bound, as a whole number.\<close>

definition floor_from :: "rat \<Rightarrow> js_number option option \<Rightarrow> js_number option \<Rightarrow> js_number option" where
  "floor_from bound p old =
     (case p of
        None \<Rightarrow> old
      | Some (Some (Fin r)) \<Rightarrow> if bound < r then Some (Fin (of_int \<lfloor>r\<rfloor>)) else None
      | _ \<Rightarrow> None)"

definition empty_alert :: failure_alert where
  "empty_alert = \<lparr>fa_after = None, fa_channel = None, fa_to = None, fa_cooldownMs = None, fa_mode = None,
     fa_accountId = None\<rparr>"

definition mergeCronFailureAlert :: "alert_setting \<Rightarrow> alert_change \<Rightarrow> alert_setting" where
  "mergeCronFailureAlert existing patch =
     (case patch of
        Alert_Disable \<Rightarrow> Alert_Off
      | Alert_Keep \<Rightarrow> existing
      | Alert_Change p \<Rightarrow>
          let base = (case existing of Alert_On a \<Rightarrow> a | _ \<Rightarrow> empty_alert)
          in Alert_On \<lparr>fa_after = floor_from 0 (lp_after p) (fa_after base),
               fa_channel = text_field (lp_channel p) (fa_channel base),
               fa_to = text_field (lp_to p) (fa_to base),
               fa_cooldownMs = (case lp_cooldownMs p of
                  None \<Rightarrow> fa_cooldownMs base
                | Some (Some (Fin r)) \<Rightarrow> if 0 \<le> r then Some (Fin (of_int \<lfloor>r\<rfloor>)) else None
                | _ \<Rightarrow> None),
               fa_mode = mode_field (lp_mode p) (fa_mode base),
               fa_accountId = text_field (lp_accountId p) (fa_accountId base)\<rparr>)"

definition patch_schedule :: "cron_env \<Rightarrow> cron_schedule \<Rightarrow> cron_schedule \<Rightarrow> cron_schedule" where
  "patch_schedule env old new =
     (case new of
        Cron_Schedule expr legacy tz staggerMs \<Rightarrow>
          (case normalizeCronStaggerMs env staggerMs of
             Some ms \<Rightarrow> Cron_Schedule expr legacy tz (whole_ms ms)
           | None \<Rightarrow>
               (case old of
                  Cron_Schedule _ _ _ stored \<Rightarrow> Cron_Schedule expr legacy tz stored
                | _ \<Rightarrow>
                    (case resolveDefaultCronStaggerMs (js_nullish expr []) of
                       Some ms \<Rightarrow> Cron_Schedule expr legacy tz (whole_ms ms)
                     | None \<Rightarrow> new)))
      | _ \<Rightarrow> new)"

definition if_given :: "'a option \<Rightarrow> ('a \<Rightarrow> cron_job \<Rightarrow> cron_job) \<Rightarrow> job_edit" where
  "if_given x f = edit (\<lambda>j. case x of None \<Rightarrow> j | Some v \<Rightarrow> f v j)"

definition edit_or_fail :: "(cron_job \<Rightarrow> cron_error + cron_job) \<Rightarrow> job_edit" where
  "edit_or_fail f j = (case f j of Inl e \<Rightarrow> (Some e, j) | Inr k \<Rightarrow> (None, k))"

fun in_order :: "job_edit list \<Rightarrow> job_edit" where
  "in_order [] = edit id"
| "in_order (f # fs) = and_then f (in_order fs)"

text \<open>The edits of a patch before and after that of the state.\<close>

definition patch_fields :: "cron_env \<Rightarrow> cron_patch \<Rightarrow> job_edit list" where
  "patch_fields env p =
     [edit_or_fail (\<lambda>j. case cp_name p of
        None \<Rightarrow> Inr j
      | Some n \<Rightarrow> map_sum id (\<lambda>v. j\<lparr>cj_name := v\<rparr>) (normalizeRequiredName n)),
      if_given (cp_description p) (\<lambda>v j. j\<lparr>cj_description := trimmed v\<rparr>),
      if_given (cp_enabled p) (\<lambda>v j. j\<lparr>cj_enabled := v\<rparr>),
      if_given (cp_deleteAfterRun p) (\<lambda>v j. j\<lparr>cj_deleteAfterRun := Some v\<rparr>),
      if_given (cp_schedule p) (\<lambda>v j. j\<lparr>cj_schedule := patch_schedule env (cj_schedule j) v\<rparr>),
      if_given (cp_sessionTarget p) (\<lambda>v j. if v = [] then j else j\<lparr>cj_sessionTarget := v\<rparr>),
      if_given (cp_wakeMode p) (\<lambda>v j. j\<lparr>cj_wakeMode := v\<rparr>),
      edit_or_fail (\<lambda>j. case cp_payload p of
        None \<Rightarrow> Inr j
      | Some v \<Rightarrow> map_sum id (\<lambda>w. j\<lparr>cj_payload := w\<rparr>) (mergeCronPayload (cj_payload j) v)),
      if_given (cp_delivery p) (\<lambda>v j. j\<lparr>cj_delivery := Some (mergeCronDelivery (cj_delivery j) v)\<rparr>),
      edit (\<lambda>j. j\<lparr>cj_failureAlert := mergeCronFailureAlert (cj_failureAlert j) (cp_failureAlert p)\<rparr>),
      demand (\<lambda>j. \<not> (cj_sessionTarget j = ''main'' \<and> \<not> webhook_delivery j \<and> failure_destination_of j \<noteq> None))
        Failure_Destination_Isolated_Only,
      edit (\<lambda>j. if cj_sessionTarget j = ''main'' \<and> \<not> webhook_delivery j then j\<lparr>cj_delivery := None\<rparr> else j)]"

definition patch_owner :: "cron_env \<Rightarrow> string option \<Rightarrow> cron_patch \<Rightarrow> job_edit list" where
  "patch_owner env defaultAgentId p =
     [if_given (cp_agentId p) (\<lambda>v j. j\<lparr>cj_agentId := normalizeOptionalAgentId v\<rparr>),
      if_given (cp_sessionKey p) (\<lambda>v j. j\<lparr>cj_sessionKey := trimmed v\<rparr>),
      assert_job env defaultAgentId]"

definition applyJobPatch :: "cron_env \<Rightarrow> string option \<Rightarrow> cron_patch \<Rightarrow> job_edit" where
  "applyJobPatch env defaultAgentId p =
     in_order (patch_fields env p @ edit (upd_state (cp_state p)) # patch_owner env defaultAgentId p)"

end
