(* ===== verification/Cron_Results.thy ===== *)
theory Cron_Results
  imports Cron_Jobs
begin

text \<open>
  What the result of a run does to its job, and which jobs may run: the part of
  \<^verbatim>\<open>src/cron/service/timer.ts\<close> that works on a single job, with \<^verbatim>\<open>src/cron/delivery-plan.ts\<close>
  (the plan of the delivery), \<^verbatim>\<open>service/timeout-policy.ts\<close> and the retry configuration of
  \<^verbatim>\<open>src/config/types.cron.ts\<close>.
\<close>

section \<open>Configuration\<close>

datatype retry_on = On_Rate_Limit | On_Overloaded | On_Network | On_Timeout | On_Server_Error

record alert_config =
  ac_enabled :: "bool option"
  ac_after :: "js_number option"
  ac_cooldownMs :: "js_number option"
  ac_mode :: "string option"
  ac_accountId :: "string option"

record cron_config =
  cf_maxAttempts :: "int option"
  cf_backoffMs :: "int list option"
  cf_retryOn :: "retry_on list option"
  cf_failureAlert :: "alert_config option"
  cf_maxConcurrentRuns :: "js_number option"
  cf_maxMissedJobs :: "int option"
  cf_missedStaggerMs :: "int option"
  cf_hasAlertSender :: bool
  cf_defaultAgentId :: "string option"
  cf_cronEnabled :: bool

definition MIN_REFIRE_GAP_MS :: int where
  "MIN_REFIRE_GAP_MS = 2000"

definition MAX_TIMER_DELAY_MS :: int where
  "MAX_TIMER_DELAY_MS = 60000"

definition DEFAULT_BACKOFF_SCHEDULE_MS :: "int list" where
  "DEFAULT_BACKOFF_SCHEDULE_MS = [30000, 60000, 5 * 60000, 15 * 60000, 60 * 60000]"

text \<open>The list of delays is not empty; the index is kept inside it.\<close>

definition errorBackoffMs :: "int \<Rightarrow> int list \<Rightarrow> int" where
  "errorBackoffMs consecutiveErrors scheduleMs =
     scheduleMs ! nat (max 0 (min (consecutiveErrors - 1) (int (length scheduleMs) - 1)))"

record retry_config =
  rt_maxAttempts :: int
  rt_backoffMs :: "int list"
  rt_retryOn :: "retry_on list option"

definition resolveRetryConfig :: "cron_config \<Rightarrow> retry_config" where
  "resolveRetryConfig cfg =
     \<lparr>rt_maxAttempts = js_nullish (cf_maxAttempts cfg) 3,
      rt_backoffMs = (case cf_backoffMs cfg of
         Some (b # bs) \<Rightarrow> b # bs | _ \<Rightarrow> take 3 DEFAULT_BACKOFF_SCHEDULE_MS),
      rt_retryOn = (case cf_retryOn cfg of Some (r # rs) \<Rightarrow> Some (r # rs) | _ \<Rightarrow> None)\<rparr>"

section \<open>Errors that may pass\<close>

text \<open>\<open>\b\<close>: the text between two positions where a word character meets none.\<close>

definition word_char :: "char \<Rightarrow> bool" where
  "word_char c \<longleftrightarrow> js_is_digit c \<or> c = CHR ''_'' \<or> (let n = (of_char (js_lower_char c) :: nat) in 97 \<le> n \<and> n \<le> 122)"

definition no_word_start :: "string \<Rightarrow> bool" where
  "no_word_start s \<longleftrightarrow> (case s of [] \<Rightarrow> True | c # _ \<Rightarrow> \<not> word_char c)"

text \<open>A word that matches one of the patterns, with a boundary on both sides; the flag says whether a word
  character comes before.\<close>

fun has_word :: "(char \<Rightarrow> bool) list list \<Rightarrow> bool \<Rightarrow> string \<Rightarrow> bool" where
  "has_word pats inside [] = False"
| "has_word pats inside (c # s) =
     (\<not> inside \<and> list_ex (\<lambda>p. matches p (c # s) \<and> no_word_start (drop (length p) (c # s))) pats
      \<or> has_word pats (word_char c) s)"

definition word_pattern :: "string \<Rightarrow> (char \<Rightarrow> bool) list" where
  "word_pattern w = map is_char w"

fun transient_match :: "retry_on \<Rightarrow> string \<Rightarrow> bool" where
  "transient_match On_Rate_Limit s = list_ex (js_includes (js_lower s))
     [''rate_limit'', ''rate limit'', ''too many requests'', ''429'', ''resource has been exhausted'', ''cloudflare'',
      ''tokens per day'']"
| "transient_match On_Overloaded s =
     (has_word [word_pattern ''529''] False s \<or>
      has_word [word_pattern ''overloaded'', word_pattern ''overloaded_error''] False (js_lower s) \<or>
      list_ex (js_includes (js_lower s))
        [''high demand'', ''temporarily overloaded'', ''temporary overloaded'', ''capacity exceeded''])"
| "transient_match On_Network s = list_ex (js_includes (js_lower s))
     [''network'', ''econnreset'', ''econnrefused'', ''fetch failed'', ''socket'']"
| "transient_match On_Timeout s = list_ex (js_includes (js_lower s)) [''timeout'', ''etimedout'']"
| "transient_match On_Server_Error s =
     has_word [[is_char CHR ''5'', js_is_digit, js_is_digit]] False s"

definition isTransientCronError :: "string option \<Rightarrow> retry_on list option \<Rightarrow> bool" where
  "isTransientCronError err retryOn =
     (case err of
        None \<Rightarrow> False
      | Some e \<Rightarrow> e \<noteq> [] \<and>
          list_ex (\<lambda>k. transient_match k e)
            (case retryOn of Some (k # ks) \<Rightarrow> k # ks
             | _ \<Rightarrow> [On_Rate_Limit, On_Overloaded, On_Network, On_Timeout, On_Server_Error]))"

section \<open>Deliveries and alerts\<close>

definition plan_mode :: "cron_job \<Rightarrow> string" where
  "plan_mode j =
     (case cj_delivery j of
        Some d \<Rightarrow>
          let m = js_lower (js_trim (cd_mode d)) in
          if m = ''announce'' \<or> m = ''webhook'' \<or> m = ''none'' then m else ''announce''
      | None \<Rightarrow>
          if (case cj_payload j of Agent_Payload _ \<Rightarrow> True | _ \<Rightarrow> False) \<and>
             (cj_sessionTarget j = ''isolated'' \<or> cj_sessionTarget j = ''current'' \<or>
              js_starts_with (cj_sessionTarget j) ''session:'')
          then ''announce'' else ''none'')"

definition resolveDeliveryStatus :: "cron_job \<Rightarrow> bool option \<Rightarrow> delivery_status" where
  "resolveDeliveryStatus j delivered =
     (case delivered of
        Some True \<Rightarrow> Delivered
      | Some False \<Rightarrow> Not_Delivered
      | None \<Rightarrow> if plan_mode j = ''announce'' then Delivery_Unknown else Not_Requested)"

definition normalizeCronMessageChannel :: "string option \<Rightarrow> string option" where
  "normalizeCronMessageChannel v = map_option js_lower (trimmed v)"

definition clamp_int :: "int \<Rightarrow> js_number option \<Rightarrow> int \<Rightarrow> int" where
  "clamp_int lowest v fallback =
     (case v of Some (Fin r) \<Rightarrow> if lowest \<le> \<lfloor>r\<rfloor> then \<lfloor>r\<rfloor> else fallback | _ \<Rightarrow> fallback)"

record alert_plan =
  al_after :: int
  al_cooldownMs :: int
  al_channel :: string
  al_to :: "string option"
  al_mode :: "string option"
  al_accountId :: "string option"

definition first_given :: "'a option \<Rightarrow> 'a option \<Rightarrow> 'a option" where
  "first_given a b = (case a of Some v \<Rightarrow> Some v | None \<Rightarrow> b)"

definition resolveFailureAlert :: "cron_config \<Rightarrow> cron_job \<Rightarrow> alert_plan option" where
  "resolveFailureAlert cfg j =
     (case cj_failureAlert j of
        Alert_Off \<Rightarrow> None
      | setting \<Rightarrow>
          let own = (case setting of Alert_On a \<Rightarrow> Some a | _ \<Rightarrow> None);
              global = cf_failureAlert cfg
          in if own = None \<and> Option.bind global ac_enabled \<noteq> Some True then None
             else
               let mode = first_given (Option.bind own fa_mode) (Option.bind global ac_mode);
                   explicitTo = trimmed (Option.bind own fa_to)
               in Some \<lparr>al_after = clamp_int 1 (first_given (Option.bind own fa_after) (Option.bind global ac_after)) 2,
                 al_cooldownMs = clamp_int 0 (first_given (Option.bind own fa_cooldownMs)
                   (Option.bind global ac_cooldownMs)) (60 * 60000),
                 al_channel = js_nullish (first_given (normalizeCronMessageChannel (Option.bind own fa_channel))
                   (normalizeCronMessageChannel (Option.bind (cj_delivery j) cd_channel))) ''last'',
                 al_to = (if mode = Some ''webhook'' then explicitTo
                   else first_given explicitTo (trimmed (Option.bind (cj_delivery j) cd_to))),
                 al_mode = mode,
                 al_accountId = first_given (Option.bind own fa_accountId) (Option.bind global ac_accountId)\<rparr>)"

definition alert_text :: "cron_job \<Rightarrow> string option \<Rightarrow> int \<Rightarrow> string" where
  "alert_text j err consecutiveErrors =
     ''Cron job \"'' @ js_or (cj_name j) (cj_id j) @ ''\" failed '' @ nat_str (nat consecutiveErrors) @ '' times'' @
     [CHR 0x0A] @ ''Last error: '' @ take 200 (js_or (js_nullish (trimmed err) []) ''unknown error'')"

definition emitFailureAlert :: "cron_config \<Rightarrow> cron_job \<Rightarrow> string option \<Rightarrow> int \<Rightarrow> alert_plan \<Rightarrow> cron_output list" where
  "emitFailureAlert cfg j err consecutiveErrors p =
     (let content = alert_text j err consecutiveErrors in
      if cf_hasAlertSender cfg then [Send_Alert (cj_id j) content (al_channel p) (al_to p) (al_mode p) (al_accountId p)]
      else Enqueue_Event content (cj_agentId j) None None #
        (if cj_wakeMode j = Wake_Now then [Request_Wake (''cron:'' @ cj_id j @ '':failure-alert'') None None] else []))"

section \<open>The result of a run\<close>

record run_result =
  rr_status :: run_status
  rr_error :: "string option"
  rr_delivered :: "bool option"
  rr_startedAt :: int
  rr_endedAt :: int

definition store_result :: "run_result \<Rightarrow> cron_job \<Rightarrow> cron_job" where
  "store_result r j =
     (let ds = resolveDeliveryStatus j (rr_delivered r) in
      upd_state (\<lambda>s. s\<lparr>js_runningAtMs := None, js_lastRunAtMs := Some (rr_startedAt r),
        js_lastRunStatus := Some (rr_status r), js_lastStatus := Some (rr_status r),
        js_lastDurationMs := Some (max 0 (rr_endedAt r - rr_startedAt r)), js_lastError := rr_error r,
        js_lastDelivered := rr_delivered r, js_lastDeliveryStatus := Some ds,
        js_lastDeliveryError := (if ds = Not_Delivered \<and> js_truthy (rr_error r) then rr_error r else None)\<rparr>)
        (j\<lparr>cj_updatedAtMs := rr_endedAt r\<rparr>))"

text \<open>The count of consecutive errors and the alert that may follow it; \<open>now\<close> is the instant of the alert.\<close>

definition count_result :: "cron_config \<Rightarrow> int \<Rightarrow> run_result \<Rightarrow> cron_job \<Rightarrow> cron_job \<times> cron_output list" where
  "count_result cfg now r j =
     (if rr_status r \<noteq> Run_Error
      then (upd_state (\<lambda>s. s\<lparr>js_consecutiveErrors := Some 0, js_lastFailureAlertAtMs := None\<rparr>) j, [])
      else
        let n = js_nullish (js_consecutiveErrors (cj_state j)) 0 + 1;
            j1 = upd_state (\<lambda>s. s\<lparr>js_consecutiveErrors := Some n\<rparr>) j
        in (case resolveFailureAlert cfg j1 of
              None \<Rightarrow> (j1, [])
            | Some p \<Rightarrow>
                if n < al_after p \<or> Option.bind (cj_delivery j1) cd_bestEffort = Some True \<or>
                   (case js_lastFailureAlertAtMs (cj_state j1) of None \<Rightarrow> False
                    | Some t \<Rightarrow> now - t < max 0 (al_cooldownMs p))
                then (j1, [])
                else (upd_state (\<lambda>s. s\<lparr>js_lastFailureAlertAtMs := Some now\<rparr>) j1,
                      emitFailureAlert cfg j1 (rr_error r) n p)))"

text \<open>The next run of a job that is not deleted. A forced run keeps the previous last run of an interval.\<close>

definition next_after_run :: "cron_env \<Rightarrow> int option \<Rightarrow> bool \<Rightarrow> int \<Rightarrow> cron_job \<Rightarrow> string + int option" where
  "next_after_run env prevLastRun preserve endedAt j =
     (case cj_schedule j of
        Every_Schedule _ _ \<Rightarrow>
          if preserve then computeJobNextRunAtMs env (upd_state (\<lambda>s. s\<lparr>js_lastRunAtMs := prevLastRun\<rparr>) j) endedAt
          else computeJobNextRunAtMs env j endedAt
      | _ \<Rightarrow> computeJobNextRunAtMs env j endedAt)"

definition later :: "int option \<Rightarrow> int \<Rightarrow> int" where
  "later t lowest = (case t of Some v \<Rightarrow> max v lowest | None \<Rightarrow> lowest)"

definition schedule_one_shot :: "cron_config \<Rightarrow> run_result \<Rightarrow> cron_job \<Rightarrow> cron_job" where
  "schedule_one_shot cfg r j =
     (let rc = resolveRetryConfig cfg; n = js_nullish (js_consecutiveErrors (cj_state j)) 0 in
      if rr_status r = Run_Error \<and> isTransientCronError (rr_error r) (rt_retryOn rc) \<and> n \<le> rt_maxAttempts rc
      then set_next (Some (rr_endedAt r + errorBackoffMs n (rt_backoffMs rc))) j
      else set_next None (j\<lparr>cj_enabled := False\<rparr>))"

definition schedule_recurring ::
    "cron_env \<Rightarrow> int option \<Rightarrow> bool \<Rightarrow> run_result \<Rightarrow> cron_job \<Rightarrow> cron_job \<times> cron_output list" where
  "schedule_recurring env prevLastRun preserve r j =
     (if \<not> cj_enabled j then (set_next None j, [])
      else
        let (j1, out, natural) =
              (case next_after_run env prevLastRun preserve (rr_endedAt r) j of
                 Inl err \<Rightarrow> (let (k, o1) = recordScheduleComputeError j err in (k, o1, None))
               | Inr t \<Rightarrow> (j, [], t))
        in (set_next
              (if rr_status r = Run_Error then
                 Some (later natural (rr_endedAt r +
                   errorBackoffMs (js_nullish (js_consecutiveErrors (cj_state j)) 1) DEFAULT_BACKOFF_SCHEDULE_MS))
               else (case cj_schedule j of
                   Cron_Schedule _ _ _ _ \<Rightarrow> Some (later natural (rr_endedAt r + MIN_REFIRE_GAP_MS))
                 | _ \<Rightarrow> natural)) j1, out))"

text \<open>The answer says whether the job is to be deleted.\<close>

definition applyJobResult ::
    "cron_env \<Rightarrow> cron_config \<Rightarrow> int \<Rightarrow> bool \<Rightarrow> run_result \<Rightarrow> cron_job \<Rightarrow> bool \<times> cron_job \<times> cron_output list" where
  "applyJobResult env cfg now preserve r j =
     (let (j1, out) = count_result cfg now r (store_result r j);
          one_shot = (case cj_schedule j of At_Schedule _ _ \<Rightarrow> True | _ \<Rightarrow> False)
      in if one_shot \<and> cj_deleteAfterRun j = Some True \<and> rr_status r = Run_Ok then (True, j1, out)
         else if one_shot then (False, schedule_one_shot cfg r j1, out)
         else let (j2, out2) = schedule_recurring env (lastRun j) preserve r j1 in (False, j2, out @ out2))"

section \<open>Which jobs run\<close>

definition isErrorBackoffPending :: "cron_job \<Rightarrow> int \<Rightarrow> bool" where
  "isErrorBackoffPending j nowMs =
     (case (cj_schedule j, js_lastStatus (cj_state j), lastRun j) of
        (At_Schedule _ _, _, _) \<Rightarrow> False
      | (_, Some Run_Error, Some t) \<Rightarrow>
          nowMs < t + errorBackoffMs (case js_consecutiveErrors (cj_state j) of Some n \<Rightarrow> max 1 n | None \<Rightarrow> 1)
            DEFAULT_BACKOFF_SCHEDULE_MS
      | _ \<Rightarrow> False)"

text \<open>A one-shot job that has run is only run again by a retry that was scheduled after that run.\<close>

definition retry_due :: "cron_job \<Rightarrow> int \<Rightarrow> bool" where
  "retry_due j nowMs =
     (case (js_lastStatus (cj_state j), nextRun j, lastRun j) of
        (Some Run_Error, Some n, Some l) \<Rightarrow> l < n \<and> n \<le> nowMs
      | _ \<Rightarrow> False)"

definition missed_slot :: "cron_env \<Rightarrow> cron_job \<Rightarrow> int \<Rightarrow> bool" where
  "missed_slot env j nowMs =
     (case (cj_schedule j, lastRun j) of
        (Cron_Schedule _ _ _ _, Some l) \<Rightarrow>
          (case computeJobPreviousRunAtMs env j nowMs of Inr (Some p) \<Rightarrow> l < p | _ \<Rightarrow> False)
      | _ \<Rightarrow> False)"

text \<open>\<open>startup\<close> stands for the two options that the catch-up of a restart sets.\<close>

definition isRunnableJob :: "cron_env \<Rightarrow> string list \<Rightarrow> bool \<Rightarrow> int \<Rightarrow> cron_job \<Rightarrow> bool" where
  "isRunnableJob env skipJobIds startup nowMs j =
     (if \<not> cj_enabled j then False
      else if cj_id j \<in> set skipJobIds then False
      else if runningAt j \<noteq> None then False
      else if startup \<and> (case cj_schedule j of At_Schedule _ _ \<Rightarrow> True | _ \<Rightarrow> False) \<and>
          js_lastStatus (cj_state j) \<noteq> None then retry_due j nowMs
      else (case nextRun j of
          Some t \<Rightarrow>
            if t \<le> nowMs then True
            else if isErrorBackoffPending j nowMs then False
            else startup \<and> missed_slot env j nowMs
        | None \<Rightarrow> startup \<and> missed_slot env j nowMs))"

section \<open>Time limits\<close>

definition resolveCronJobTimeoutMs :: "cron_job \<Rightarrow> js_number option" where
  "resolveCronJobTimeoutMs j =
     (case cj_payload j of
        System_Payload _ \<Rightarrow> Some (Fin (10 * 60000))
      | Agent_Payload t \<Rightarrow>
          (case tn_timeoutSeconds t of
             None \<Rightarrow> Some (Fin (60 * 60000))
           | Some (Fin r) \<Rightarrow> if \<lfloor>r * 1000\<rfloor> \<le> 0 then None else Some (Fin (of_int \<lfloor>r * 1000\<rfloor>))
           | Some NegInf \<Rightarrow> None
           | Some x \<Rightarrow> Some x))"

end
