(* ===== verification/Cron_Execute.thy ===== *)
theory Cron_Execute
  imports Cron_Results
begin

text \<open>
  One execution of a job: \<^verbatim>\<open>executeJobCore\<close>, its time limit and the text of its errors in
  \<^verbatim>\<open>src/cron/service/timer.ts\<close>.

  The agent's run and the heartbeat are parameters: what each call answers, when, and whether the run has
  been aborted at the points where the code asks. A job of the main session polls the heartbeat until it is
  not refused as busy; the answers are a list, and nothing is the result while the list is too short.
\<close>

record run_outcome =
  ro_status :: run_status
  ro_error :: "string option"
  ro_summary :: "string option"
  ro_delivered :: "bool option"

text \<open>What a call throws: an error with its name and message, or a text.\<close>

datatype run_failure = Failure_Error string string | Failure_Text string

datatype core_end = Core_Result run_outcome | Core_Threw run_failure

definition timeoutErrorMessage :: string where
  "timeoutErrorMessage = ''cron: job execution timed out''"

definition isAbortError :: "run_failure \<Rightarrow> bool" where
  "isAbortError err =
     (case err of
        Failure_Error name message \<Rightarrow> name = ''AbortError'' \<or> message = timeoutErrorMessage
      | Failure_Text _ \<Rightarrow> False)"

text \<open>\<open>String(err)\<close> of an error.\<close>

definition error_string :: "string \<Rightarrow> string \<Rightarrow> string" where
  "error_string name message =
     (if name = [] then message else if message = [] then name else name @ '': '' @ message)"

definition normalizeCronRunErrorText :: "run_failure \<Rightarrow> string" where
  "normalizeCronRunErrorText err =
     (if isAbortError err then timeoutErrorMessage
      else case err of
        Failure_Text s \<Rightarrow> if s = ''Error: '' @ timeoutErrorMessage then timeoutErrorMessage else s
      | Failure_Error name message \<Rightarrow> error_string name message)"

text \<open>The error of an outcome, which may be missing.\<close>

definition outcome_error_text :: "string option \<Rightarrow> string" where
  "outcome_error_text err =
     (case err of Some e \<Rightarrow> normalizeCronRunErrorText (Failure_Text e) | None \<Rightarrow> ''undefined'')"

definition timed_out_outcome :: run_outcome where
  "timed_out_outcome = \<lparr>ro_status = Run_Error, ro_error = Some timeoutErrorMessage, ro_summary = None, ro_delivered = None\<rparr>"

section \<open>Jobs of the main session\<close>

definition resolveJobPayloadTextForMain :: "cron_job \<Rightarrow> string option" where
  "resolveJobPayloadTextForMain j =
     (case cj_payload j of
        System_Payload text \<Rightarrow> if js_trim text = [] then None else Some (js_trim text)
      | Agent_Payload _ \<Rightarrow> None)"

datatype heartbeat_answer = Beat_Ran | Beat_Skipped string | Beat_Failed string

text \<open>One turn of the polling loop: whether the run is aborted before the call, the answer, whether it is
  aborted after it, the time then, and whether it is aborted when the wait has been too long.\<close>

record heartbeat_poll =
  hp_abortedBefore :: bool
  hp_answer :: heartbeat_answer
  hp_abortedAfter :: bool
  hp_now :: int
  hp_abortedLate :: bool

definition ok_outcome :: "string \<Rightarrow> run_outcome" where
  "ok_outcome text = \<lparr>ro_status = Run_Ok, ro_error = None, ro_summary = Some text, ro_delivered = None\<rparr>"

definition beat_outcome :: "string \<Rightarrow> heartbeat_answer \<Rightarrow> run_outcome" where
  "beat_outcome text answer =
     (case answer of
        Beat_Ran \<Rightarrow> ok_outcome text
      | Beat_Skipped reason \<Rightarrow>
          \<lparr>ro_status = Run_Skipped, ro_error = Some reason, ro_summary = Some text, ro_delivered = None\<rparr>
      | Beat_Failed reason \<Rightarrow>
          \<lparr>ro_status = Run_Error, ro_error = Some reason, ro_summary = Some text, ro_delivered = None\<rparr>)"

definition wake_of_job :: "cron_job \<Rightarrow> cron_output" where
  "wake_of_job j = Request_Wake (''cron:'' @ cj_id j) (cj_agentId j) (cj_sessionKey j)"

text \<open>\<open>startedAt\<close> is when the waiting began and \<open>maxWaitMs\<close> how long a one-shot job may wait.\<close>

fun poll_heartbeat ::
    "cron_job \<Rightarrow> string \<Rightarrow> int \<Rightarrow> int \<Rightarrow> heartbeat_poll list \<Rightarrow> (run_outcome \<times> cron_output list) option" where
  "poll_heartbeat j text startedAt maxWaitMs [] = None"
| "poll_heartbeat j text startedAt maxWaitMs (p # ps) =
     (if hp_abortedBefore p then Some (timed_out_outcome, [])
      else if hp_answer p \<noteq> Beat_Skipped ''requests-in-flight'' then Some (beat_outcome text (hp_answer p), [])
      else if (case cj_schedule j of At_Schedule _ _ \<Rightarrow> False | _ \<Rightarrow> True) then Some (ok_outcome text, [wake_of_job j])
      else if hp_abortedAfter p then Some (timed_out_outcome, [])
      else if maxWaitMs < hp_now p - startedAt then
        (if hp_abortedLate p then Some (timed_out_outcome, []) else Some (ok_outcome text, [wake_of_job j]))
      else poll_heartbeat j text startedAt maxWaitMs ps)"

record core_env =
  xe_hasHeartbeat :: bool
  xe_maxWaitMs :: "int option"
  xe_startedAt :: int
  xe_polls :: "heartbeat_poll list"
  xe_aborted :: bool
  xe_abortedLater :: bool
  xe_isolatedRun :: core_end

definition executeMainSessionCronJob :: "core_env \<Rightarrow> cron_job \<Rightarrow> (run_outcome \<times> cron_output list) option" where
  "executeMainSessionCronJob x j =
     (case resolveJobPayloadTextForMain j of
        None \<Rightarrow> Some (\<lparr>ro_status = Run_Skipped,
          ro_error = Some (case cj_payload j of
             System_Payload _ \<Rightarrow> ''main job requires non-empty systemEvent text''
           | Agent_Payload _ \<Rightarrow> ''main job requires payload.kind=\"systemEvent\"''),
          ro_summary = None, ro_delivered = None\<rparr>, [])
      | Some text \<Rightarrow>
          let queued = Enqueue_Event text (cj_agentId j) (cj_sessionKey j) (Some (''cron:'' @ cj_id j))
          in if cj_wakeMode j = Wake_Now \<and> xe_hasHeartbeat x then
               map_option (\<lambda>(r, out). (r, queued # out))
                 (poll_heartbeat j text (xe_startedAt x) (js_nullish (xe_maxWaitMs x) (2 * 60000)) (xe_polls x))
             else if xe_abortedLater x then Some (timed_out_outcome, [queued])
             else Some (ok_outcome text, [queued, wake_of_job j]))"

section \<open>Detached jobs\<close>

definition executeDetachedCronJob :: "core_env \<Rightarrow> cron_job \<Rightarrow> core_end" where
  "executeDetachedCronJob x j =
     (case cj_payload j of
        System_Payload _ \<Rightarrow> Core_Result \<lparr>ro_status = Run_Skipped,
          ro_error = Some ''isolated job requires payload.kind=agentTurn'', ro_summary = None, ro_delivered = None\<rparr>
      | Agent_Payload _ \<Rightarrow>
          (case xe_isolatedRun x of
             Core_Threw e \<Rightarrow> Core_Threw e
           | Core_Result r \<Rightarrow> if xe_abortedLater x then Core_Result timed_out_outcome else Core_Result r))"

definition executeJobCore :: "core_env \<Rightarrow> cron_job \<Rightarrow> (core_end \<times> cron_output list) option" where
  "executeJobCore x j =
     (if xe_aborted x then Some (Core_Result timed_out_outcome, [])
      else if cj_sessionTarget j = ''main'' then map_option (map_prod Core_Result id) (executeMainSessionCronJob x j)
      else Some (executeDetachedCronJob x j, []))"

text \<open>The race with the timer: when the time limit of the job comes first, its rejection is the result,
  whatever the run still does.\<close>

definition executeJobCoreWithTimeout :: "bool \<Rightarrow> core_end \<Rightarrow> cron_job \<Rightarrow> core_end" where
  "executeJobCoreWithTimeout timerFirst core j =
     (if timerFirst \<and> resolveCronJobTimeoutMs j \<noteq> None
      then Core_Threw (Failure_Error ''Error'' timeoutErrorMessage) else core)"

text \<open>The handlers of \<open>runDueJob\<close> and of the manual runs turn what was thrown into an outcome.\<close>

definition settled :: "core_end \<Rightarrow> run_outcome" where
  "settled c =
     (case c of
        Core_Result r \<Rightarrow> r
      | Core_Threw e \<Rightarrow> \<lparr>ro_status = Run_Error, ro_error = Some (normalizeCronRunErrorText e), ro_summary = None,
          ro_delivered = None\<rparr>)"

section \<open>The task ledger\<close>

definition createCronTaskRunId :: "string \<Rightarrow> int \<Rightarrow> string" where
  "createCronTaskRunId jobId startedAt = ''cron:'' @ jobId @ '':'' @ nat_str (nat startedAt)"

text \<open>\<open>recorded\<close> says whether the ledger took the record; when it throws there is no run id.\<close>

definition tryCreateCronTaskRun :: "bool \<Rightarrow> int \<Rightarrow> cron_job \<Rightarrow> string option \<times> cron_output list" where
  "tryCreateCronTaskRun recorded startedAt j =
     (if recorded then (Some (createCronTaskRunId (cj_id j) startedAt),
        [Ledger_Started (createCronTaskRunId (cj_id j) startedAt) (cj_id j) (cj_sessionKey j) (cj_agentId j) (cj_name j)
          (js_or (cj_name j) (cj_id j)) startedAt])
      else (None, []))"

definition tryFinishCronTaskRun :: "string option \<Rightarrow> int \<Rightarrow> run_outcome \<Rightarrow> cron_output list" where
  "tryFinishCronTaskRun taskRunId endedAt r =
     (case taskRunId of
        None \<Rightarrow> []
      | Some runId \<Rightarrow>
          if runId = [] then []
          else if ro_status r \<noteq> Run_Error then [Ledger_Completed runId endedAt (ro_summary r)]
          else [Ledger_Failed runId (outcome_error_text (ro_error r) = timeoutErrorMessage) endedAt
            (Some (outcome_error_text (ro_error r))) (ro_summary r)])"

end
