(* ===== verification/Cron_Service.thy ===== *)
theory Cron_Service
  imports Cron_Edits Cron_Execute
begin

text \<open>
  The state of the cron service and its operations: \<^verbatim>\<open>src/cron/service/state.ts\<close>, \<^verbatim>\<open>store.ts\<close>,
  \<^verbatim>\<open>ops.ts\<close>, \<^verbatim>\<open>timer.ts\<close> and \<^verbatim>\<open>src/cron/active-jobs.ts\<close>.

  Every operation runs its changes of the store under a lock (\<^verbatim>\<open>locked.ts\<close>), so each locked section is
  one function here; what a tick or a manual run does between two sections are further functions. The jobs in
  memory are objects that a tick keeps using after they left the store, so every job carries the number of its
  object, and the objects that left the store stay readable. The disk holds the jobs as they were saved; reading
  and writing the file succeed. Each section takes the instants at which it reads the clock.
\<close>

section \<open>State\<close>

type_synonym job_entry = "nat \<times> cron_job"

record cron_service =
  cs_store :: "job_entry list option"
  cs_dropped :: "job_entry list"
  cs_fresh :: nat
  cs_disk :: "cron_job list"
  cs_timer :: "int option"
  cs_running :: bool
  cs_active :: "string list"
  cs_warned :: bool
  cs_manualId :: nat
  cs_out :: "cron_output list"

definition createCronServiceState :: "cron_job list \<Rightarrow> cron_service" where
  "createCronServiceState disk = \<lparr>cs_store = None, cs_dropped = [], cs_fresh = 0, cs_disk = disk, cs_timer = None,
     cs_running = False, cs_active = [], cs_warned = False, cs_manualId = 1, cs_out = []\<rparr>"

definition entries :: "cron_service \<Rightarrow> job_entry list" where
  "entries s = js_nullish (cs_store s) []"

definition jobs_of :: "cron_service \<Rightarrow> cron_job list" where
  "jobs_of s = map snd (entries s)"

definition find_job :: "string \<Rightarrow> cron_job list \<Rightarrow> cron_job option" where
  "find_job jobId jobs = find (\<lambda>j. cj_id j = jobId) jobs"

definition object :: "cron_service \<Rightarrow> nat \<Rightarrow> cron_job option" where
  "object s a = map_of (entries s @ cs_dropped s) a"

definition emit :: "cron_output list \<Rightarrow> cron_service \<Rightarrow> cron_service" where
  "emit out s = s\<lparr>cs_out := cs_out s @ out\<rparr>"

definition map_entries :: "(job_entry \<Rightarrow> cron_job) \<Rightarrow> cron_service \<Rightarrow> cron_service" where
  "map_entries f s = s\<lparr>cs_store := map_option (map (\<lambda>e. (fst e, f e))) (cs_store s)\<rparr>"

text \<open>A change of the object with a number, in the store or out of it.\<close>

definition change_object :: "nat \<Rightarrow> (cron_job \<Rightarrow> cron_job) \<Rightarrow> cron_service \<Rightarrow> cron_service" where
  "change_object a f s =
     (let g = (\<lambda>e. if fst e = a then f (snd e) else snd e)
      in map_entries g (s\<lparr>cs_dropped := map (\<lambda>e. (fst e, g e)) (cs_dropped s)\<rparr>))"

text \<open>A change of the first job with an id.\<close>

fun change_first :: "string \<Rightarrow> (cron_job \<Rightarrow> cron_job) \<Rightarrow> job_entry list \<Rightarrow> job_entry list" where
  "change_first jobId f [] = []"
| "change_first jobId f (e # es) =
     (if cj_id (snd e) = jobId then (fst e, f (snd e)) # es else e # change_first jobId f es)"

definition change_job :: "string \<Rightarrow> (cron_job \<Rightarrow> cron_job) \<Rightarrow> cron_service \<Rightarrow> cron_service" where
  "change_job jobId f s = s\<lparr>cs_store := map_option (change_first jobId f) (cs_store s)\<rparr>"

definition remove_job :: "string \<Rightarrow> cron_service \<Rightarrow> cron_service" where
  "remove_job jobId s =
     s\<lparr>cs_store := map_option (filter (\<lambda>e. cj_id (snd e) \<noteq> jobId)) (cs_store s),
       cs_dropped := filter (\<lambda>e. cj_id (snd e) = jobId) (entries s) @ cs_dropped s\<rparr>"

definition push_job :: "cron_job \<Rightarrow> cron_service \<Rightarrow> cron_service" where
  "push_job j s = (case cs_store s of
      None \<Rightarrow> s
    | Some es \<Rightarrow> s\<lparr>cs_store := Some (es @ [(cs_fresh s, j)]), cs_fresh := Suc (cs_fresh s)\<rparr>)"

text \<open>A walk over the jobs; the flag is what the source returns as \<open>changed\<close>.\<close>

definition walk ::
    "(cron_job list \<Rightarrow> cron_job list \<times> cron_output list) \<Rightarrow> cron_service \<Rightarrow> bool \<times> cron_service" where
  "walk f s =
     (case cs_store s of
        None \<Rightarrow> (False, s)
      | Some es \<Rightarrow>
          let (js, out) = f (map snd es)
          in (js \<noteq> map snd es, emit out (s\<lparr>cs_store := Some (zip (map fst es) js)\<rparr>)))"

definition maintain :: "cron_env \<Rightarrow> bool \<Rightarrow> int \<Rightarrow> cron_service \<Rightarrow> bool \<times> cron_service" where
  "maintain env recomputeExpired nowMs = walk (recomputeNextRunsForMaintenance env recomputeExpired nowMs)"

definition recompute_all :: "cron_env \<Rightarrow> int \<Rightarrow> cron_service \<Rightarrow> bool \<times> cron_service" where
  "recompute_all env nowMs = walk (recomputeNextRuns env nowMs)"

section \<open>store.ts\<close>

definition reload :: "cron_service \<Rightarrow> cron_service" where
  "reload s = s\<lparr>cs_store := Some (zip [cs_fresh s ..< cs_fresh s + length (cs_disk s)] (cs_disk s)),
     cs_dropped := entries s @ cs_dropped s, cs_fresh := cs_fresh s + length (cs_disk s)\<rparr>"

definition ensureLoaded :: "cron_env \<Rightarrow> bool \<Rightarrow> bool \<Rightarrow> int \<Rightarrow> cron_service \<Rightarrow> cron_service" where
  "ensureLoaded env forceReload skipRecompute nowMs s =
     (if cs_store s \<noteq> None \<and> \<not> forceReload then s
      else if skipRecompute then reload s
      else snd (recompute_all env nowMs (reload s)))"

definition warnIfDisabled :: "cron_config \<Rightarrow> cron_service \<Rightarrow> cron_service" where
  "warnIfDisabled cfg s = (if cf_cronEnabled cfg \<or> cs_warned s then s else s\<lparr>cs_warned := True\<rparr>)"

definition persist :: "cron_service \<Rightarrow> cron_service" where
  "persist s = (case cs_store s of None \<Rightarrow> s | Some es \<Rightarrow> s\<lparr>cs_disk := map snd es\<rparr>)"

definition persist_if :: "bool \<times> cron_service \<Rightarrow> cron_service" where
  "persist_if r = (if fst r then persist (snd r) else snd r)"

section \<open>active-jobs.ts\<close>

definition markCronJobActive :: "string \<Rightarrow> cron_service \<Rightarrow> cron_service" where
  "markCronJobActive jobId s = (if jobId = [] then s else s\<lparr>cs_active := List.insert jobId (cs_active s)\<rparr>)"

definition clearCronJobActive :: "string \<Rightarrow> cron_service \<Rightarrow> cron_service" where
  "clearCronJobActive jobId s = (if jobId = [] then s else s\<lparr>cs_active := removeAll jobId (cs_active s)\<rparr>)"

definition isCronJobActive :: "string \<Rightarrow> cron_service \<Rightarrow> bool" where
  "isCronJobActive jobId s \<longleftrightarrow> jobId \<noteq> [] \<and> jobId \<in> set (cs_active s)"

section \<open>The timer\<close>

definition armTimer :: "cron_config \<Rightarrow> int \<Rightarrow> cron_service \<Rightarrow> cron_service" where
  "armTimer cfg nowMs s =
     s\<lparr>cs_timer :=
       (if \<not> cf_cronEnabled cfg then None
        else case nextWakeAtMs (jobs_of s) of
          None \<Rightarrow> None
        | Some t \<Rightarrow>
            if t = 0 then None
            else let delay = max (t - nowMs) 0;
                     floored = (if delay = 0 then MIN_REFIRE_GAP_MS else delay)
                 in Some (min floored MAX_TIMER_DELAY_MS))\<rparr>"

definition armRunningRecheckTimer :: "cron_service \<Rightarrow> cron_service" where
  "armRunningRecheckTimer s = s\<lparr>cs_timer := Some MAX_TIMER_DELAY_MS\<rparr>"

definition stopTimer :: "cron_service \<Rightarrow> cron_service" where
  "stopTimer s = s\<lparr>cs_timer := None\<rparr>"

definition resolveRunConcurrency :: "cron_config \<Rightarrow> nat" where
  "resolveRunConcurrency cfg =
     (case cf_maxConcurrentRuns cfg of Some (Fin r) \<Rightarrow> nat (max 1 \<lfloor>r\<rfloor>) | _ \<Rightarrow> 1)"

section \<open>A tick\<close>

text \<open>The entry of \<open>onTimer\<close>; the answer says whether a tick begins.\<close>

definition onTimer :: "cron_service \<Rightarrow> bool \<times> cron_service" where
  "onTimer s =
     (if cs_running s then (False, armRunningRecheckTimer s)
      else (True, armRunningRecheckTimer (s\<lparr>cs_running := True\<rparr>)))"

definition collectRunnableJobs :: "cron_env \<Rightarrow> string list \<Rightarrow> bool \<Rightarrow> int \<Rightarrow> cron_service \<Rightarrow> job_entry list" where
  "collectRunnableJobs env skipJobIds startup nowMs s =
     filter (\<lambda>e. isRunnableJob env skipJobIds startup nowMs (snd e)) (entries s)"

definition mark_running :: "nat list \<Rightarrow> int \<Rightarrow> cron_service \<Rightarrow> cron_service" where
  "mark_running objs now =
     map_entries (\<lambda>e. if fst e \<in> set objs
       then upd_state (\<lambda>st. st\<lparr>js_runningAtMs := Some now, js_lastError := None\<rparr>) (snd e) else snd e)"

text \<open>The first locked section: the ids and objects of the jobs to run.\<close>

definition collect_due :: "cron_env \<Rightarrow> int \<Rightarrow> int \<Rightarrow> cron_service \<Rightarrow> (string \<times> nat) list \<times> cron_service" where
  "collect_due env dueCheckNow now s =
     (let s1 = ensureLoaded env True True dueCheckNow s;
          due = collectRunnableJobs env [] False dueCheckNow s1
      in if due = [] then ([], persist_if (maintain env True dueCheckNow s1))
         else (map (\<lambda>e. (cj_id (snd e), fst e)) due, persist (mark_running (map fst due) now s1)))"

text \<open>\<open>runDueJob\<close> up to the execution: the run id of the ledger and the state.\<close>

definition start_due :: "bool \<Rightarrow> int \<Rightarrow> nat \<Rightarrow> cron_service \<Rightarrow> string option \<times> cron_service" where
  "start_due recorded startedAt a s =
     (case object s a of
        None \<Rightarrow> (None, s)
      | Some j \<Rightarrow>
          let (runId, out) = tryCreateCronTaskRun recorded startedAt j
          in (runId, emit (Job_Started (cj_id j) startedAt # out)
                (markCronJobActive (cj_id j) (change_object a (set_running (Some startedAt)) s))))"

record timed_outcome =
  tc_jobId :: string
  tc_taskRunId :: "string option"
  tc_outcome :: run_outcome
  tc_startedAt :: int
  tc_endedAt :: int

definition result_of :: "timed_outcome \<Rightarrow> run_result" where
  "result_of r = \<lparr>rr_status = ro_status (tc_outcome r), rr_error = ro_error (tc_outcome r),
     rr_delivered = ro_delivered (tc_outcome r), rr_startedAt = tc_startedAt r, rr_endedAt = tc_endedAt r\<rparr>"

definition emitJobFinished :: "cron_job \<Rightarrow> run_outcome \<Rightarrow> int \<Rightarrow> cron_output" where
  "emitJobFinished j r runAtMs = Job_Finished (cj_id j) (ro_status r) (ro_error r) runAtMs
     (js_lastDurationMs (cj_state j)) (nextRun j)"

text \<open>The result of a run is written to the job in the store; the events follow.\<close>

definition store_outcome ::
    "cron_env \<Rightarrow> cron_config \<Rightarrow> int \<Rightarrow> bool \<Rightarrow> timed_outcome \<Rightarrow> cron_job \<Rightarrow> cron_service \<Rightarrow> cron_service" where
  "store_outcome env cfg now preserve r j s =
     (let (del, j1, out) = applyJobResult env cfg now preserve (result_of r) j;
          s1 = emit (out @ [emitJobFinished j1 (tc_outcome r) (tc_startedAt r)]) (change_job (tc_jobId r) (\<lambda>_. j1) s)
      in if del then emit [Job_Removed (tc_jobId r)] (remove_job (tc_jobId r) s1) else s1)"

definition applyOutcomeToStoredJob ::
    "cron_env \<Rightarrow> cron_config \<Rightarrow> int \<Rightarrow> timed_outcome \<Rightarrow> cron_service \<Rightarrow> cron_service" where
  "applyOutcomeToStoredJob env cfg now r s =
     (let s1 = emit (tryFinishCronTaskRun (tc_taskRunId r) (tc_endedAt r) (tc_outcome r))
                 (clearCronJobActive (tc_jobId r) s)
      in (case find_job (tc_jobId r) (jobs_of s1) of
            None \<Rightarrow> s1
          | Some j \<Rightarrow> store_outcome env cfg now False r j s1))"

definition apply_outcomes ::
    "cron_env \<Rightarrow> cron_config \<Rightarrow> int \<Rightarrow> timed_outcome list \<Rightarrow> cron_service \<Rightarrow> cron_service" where
  "apply_outcomes env cfg now rs s = foldl (\<lambda>st r. applyOutcomeToStoredJob env cfg now r st) s rs"

text \<open>The last locked section of a tick.\<close>

definition finish_due :: "cron_env \<Rightarrow> cron_config \<Rightarrow> int \<Rightarrow> timed_outcome list \<Rightarrow> cron_service \<Rightarrow> cron_service" where
  "finish_due env cfg now rs s =
     (if rs = [] then s
      else persist (snd (maintain env False now (apply_outcomes env cfg now rs (ensureLoaded env True True now s)))))"

text \<open>The \<open>finally\<close> block; the sweep of old sessions changes no job.\<close>

definition end_tick :: "cron_config \<Rightarrow> int \<Rightarrow> cron_service \<Rightarrow> cron_service" where
  "end_tick cfg now s = armTimer cfg now (s\<lparr>cs_running := False\<rparr>)"

end
