(* ===== verification/Cron_Operations.thy ===== *)
theory Cron_Operations
  imports Cron_Service
begin

text \<open>
  The operations that clients of the cron service call (\<^verbatim>\<open>src/cron/service/ops.ts\<close>,
  \<^verbatim>\<open>src/cron/service.ts\<close>): the start with its catch-up, reads, changes, manual runs and wakes.
\<close>

section \<open>Start\<close>

text \<open>The first section clears the markers of runs that a stopped process left behind; the ids of one-shot
  jobs among them are not caught up.\<close>

definition start_clear :: "cron_env \<Rightarrow> int \<Rightarrow> cron_service \<Rightarrow> string list \<times> cron_service" where
  "start_clear env now s =
     (let s1 = ensureLoaded env False True now s;
          stale = filter (\<lambda>j. runningAt j \<noteq> None) (jobs_of s1);
          s2 = map_entries (\<lambda>e. set_running None (snd e)) s1
      in (map cj_id (filter (\<lambda>j. is_at (cj_schedule j)) stale), if stale = [] then s1 else persist s2))"

definition by_next_run :: "('a \<Rightarrow> cron_job) \<Rightarrow> 'a list \<Rightarrow> 'a list" where
  "by_next_run job = js_sort (\<lambda>a b. js_nullish (nextRun (job a)) 0 - js_nullish (nextRun (job b)) 0)"

definition DEFAULT_MAX_MISSED_JOBS_PER_RESTART :: int where
  "DEFAULT_MAX_MISSED_JOBS_PER_RESTART = 5"

definition DEFAULT_MISSED_JOB_STAGGER_MS :: int where
  "DEFAULT_MISSED_JOB_STAGGER_MS = 5000"

record catchup_plan =
  cu_candidates :: "(string \<times> nat) list"
  cu_deferred :: "string list"

definition planStartupCatchup ::
    "cron_env \<Rightarrow> cron_config \<Rightarrow> string list \<Rightarrow> int \<Rightarrow> cron_service \<Rightarrow> catchup_plan \<times> cron_service" where
  "planStartupCatchup env cfg skip now s =
     (let s1 = ensureLoaded env False True now s;
          most = nat (max 0 (js_nullish (cf_maxMissedJobs cfg) DEFAULT_MAX_MISSED_JOBS_PER_RESTART));
          missed = by_next_run snd (collectRunnableJobs env skip True now s1)
      in if missed = [] then (\<lparr>cu_candidates = [], cu_deferred = []\<rparr>, s1)
         else (\<lparr>cu_candidates = map (\<lambda>e. (cj_id (snd e), fst e)) (take most missed),
                cu_deferred = map (cj_id \<circ> snd) (drop most missed)\<rparr>,
               persist (mark_running (map fst (take most missed)) now s1)))"

text \<open>\<open>runStartupCatchupCandidate\<close> up to the execution.\<close>

definition start_candidate :: "bool \<Rightarrow> int \<Rightarrow> nat \<Rightarrow> cron_service \<Rightarrow> string option \<times> cron_service" where
  "start_candidate recorded startedAt a s =
     (case object s a of
        None \<Rightarrow> (None, s)
      | Some j \<Rightarrow>
          let (runId, out) = tryCreateCronTaskRun recorded startedAt j
          in (runId, emit (out @ [Job_Started (cj_id j) startedAt]) s))"

text \<open>The jobs that wait get one slot each, a stagger apart.\<close>

fun defer_jobs :: "int \<Rightarrow> int \<Rightarrow> string list \<Rightarrow> cron_service \<Rightarrow> cron_service" where
  "defer_jobs at_ms staggerMs [] s = s"
| "defer_jobs at_ms staggerMs (jobId # ids) s =
     (case find_job jobId (jobs_of s) of
        None \<Rightarrow> defer_jobs at_ms staggerMs ids s
      | Some j \<Rightarrow>
          if cj_enabled j
          then defer_jobs (at_ms + staggerMs) staggerMs ids (change_job jobId (set_next (Some at_ms)) s)
          else defer_jobs at_ms staggerMs ids s)"

definition applyStartupCatchupOutcomes ::
    "cron_env \<Rightarrow> cron_config \<Rightarrow> catchup_plan \<Rightarrow> timed_outcome list \<Rightarrow> int \<Rightarrow> cron_service \<Rightarrow> cron_service" where
  "applyStartupCatchupOutcomes env cfg plan outcomes now s =
     (let staggerMs = max 0 (js_nullish (cf_missedStaggerMs cfg) DEFAULT_MISSED_JOB_STAGGER_MS);
          s1 = apply_outcomes env cfg now outcomes (ensureLoaded env False True now s);
          s2 = defer_jobs (now + staggerMs) staggerMs (cu_deferred plan) s1
      in persist (snd (maintain env False now s2)))"

text \<open>The part of \<open>runMissedJobs\<close> after the executions.\<close>

definition runMissedJobs_end ::
    "cron_env \<Rightarrow> cron_config \<Rightarrow> catchup_plan \<Rightarrow> timed_outcome list \<Rightarrow> int \<Rightarrow> cron_service \<Rightarrow> cron_service" where
  "runMissedJobs_end env cfg plan outcomes now s =
     (if cu_candidates plan = [] \<and> cu_deferred plan = [] then s
      else applyStartupCatchupOutcomes env cfg plan outcomes now s)"

definition start_arm :: "cron_env \<Rightarrow> cron_config \<Rightarrow> int \<Rightarrow> cron_service \<Rightarrow> cron_service" where
  "start_arm env cfg now s = armTimer cfg now (persist_if (recompute_all env now (ensureLoaded env False True now s)))"

section \<open>Reads\<close>

definition ensureLoadedForRead :: "cron_env \<Rightarrow> int \<Rightarrow> cron_service \<Rightarrow> cron_service" where
  "ensureLoadedForRead env now s = persist_if (maintain env False now (ensureLoaded env False True now s))"

record cron_status =
  st_enabled :: bool
  st_jobs :: nat
  st_nextWakeAtMs :: "int option"

definition status :: "cron_env \<Rightarrow> cron_config \<Rightarrow> int \<Rightarrow> cron_service \<Rightarrow> cron_status \<times> cron_service" where
  "status env cfg now s =
     (let s1 = ensureLoadedForRead env now s
      in (\<lparr>st_enabled = cf_cronEnabled cfg, st_jobs = length (jobs_of s1),
           st_nextWakeAtMs = (if cf_cronEnabled cfg then nextWakeAtMs (jobs_of s1) else None)\<rparr>, s1))"

definition list_jobs :: "cron_env \<Rightarrow> bool \<Rightarrow> int \<Rightarrow> cron_service \<Rightarrow> cron_job list \<times> cron_service" where
  "list_jobs env includeDisabled now s =
     (let s1 = ensureLoadedForRead env now s
      in (by_next_run id (filter (\<lambda>j. includeDisabled \<or> cj_enabled j) (jobs_of s1)), s1))"

datatype enabled_filter = All_Jobs | Enabled_Jobs | Disabled_Jobs

datatype sort_field = By_Next_Run | By_Updated | By_Name

record page_options =
  pg_includeDisabled :: bool
  pg_limit :: "int option"
  pg_offset :: "int option"
  pg_query :: "string option"
  pg_enabled :: "enabled_filter option"
  pg_sortBy :: "sort_field option"
  pg_descending :: bool

definition resolveEnabledFilter :: "page_options \<Rightarrow> enabled_filter" where
  "resolveEnabledFilter opts =
     (case pg_enabled opts of
        Some f \<Rightarrow> f
      | None \<Rightarrow> if pg_includeDisabled opts then All_Jobs else Enabled_Jobs)"

text \<open>The two collations of \<open>localeCompare\<close>, for names and for ids, are parameters.\<close>

definition compare_next :: "int option \<Rightarrow> int option \<Rightarrow> int" where
  "compare_next a b =
     (case (a, b) of
        (Some x, Some y) \<Rightarrow> x - y | (Some _, None) \<Rightarrow> -1 | (None, Some _) \<Rightarrow> 1 | (None, None) \<Rightarrow> 0)"

definition sortJobs ::
    "(string \<Rightarrow> string \<Rightarrow> int) \<Rightarrow> (string \<Rightarrow> string \<Rightarrow> int) \<Rightarrow> sort_field \<Rightarrow> bool \<Rightarrow> cron_job list \<Rightarrow> cron_job list" where
  "sortJobs nameCompare idCompare sortBy descending =
     js_sort (\<lambda>a b.
       let cmp = (case sortBy of
                    By_Name \<Rightarrow> nameCompare (cj_name a) (cj_name b)
                  | By_Updated \<Rightarrow> cj_updatedAtMs a - cj_updatedAtMs b
                  | By_Next_Run \<Rightarrow> compare_next (nextRun a) (nextRun b))
       in if cmp \<noteq> 0 then cmp * (if descending then -1 else 1) else idCompare (cj_id a) (cj_id b))"

record job_page =
  jp_jobs :: "cron_job list"
  jp_total :: int
  jp_offset :: int
  jp_limit :: int
  jp_hasMore :: bool
  jp_nextOffset :: "int option"

definition in_page :: "enabled_filter \<Rightarrow> string \<Rightarrow> cron_job \<Rightarrow> bool" where
  "in_page f query j \<longleftrightarrow>
     (f = Enabled_Jobs \<longrightarrow> cj_enabled j) \<and> (f = Disabled_Jobs \<longrightarrow> \<not> cj_enabled j) \<and>
     (query = [] \<or> js_includes (js_lower (cj_name j @ '' '' @ js_nullish (cj_description j) [] @ '' '' @
        js_nullish (cj_agentId j) [])) query)"

definition page_of :: "page_options \<Rightarrow> cron_job list \<Rightarrow> job_page" where
  "page_of opts found =
     (let total = int (length found);
          offset = max 0 (min total (js_nullish (pg_offset opts) 0));
          limit = max 1 (min 200 (js_nullish (pg_limit opts) (if total = 0 then 50 else total)));
          jobs = js_slice (nat offset) (nat (offset + limit)) found;
          nextOffset = offset + int (length jobs)
      in \<lparr>jp_jobs = jobs, jp_total = total, jp_offset = offset, jp_limit = limit, jp_hasMore = nextOffset < total,
          jp_nextOffset = (if nextOffset < total then Some nextOffset else None)\<rparr>)"

definition listPage ::
    "cron_env \<Rightarrow> (string \<Rightarrow> string \<Rightarrow> int) \<Rightarrow> (string \<Rightarrow> string \<Rightarrow> int) \<Rightarrow> page_options \<Rightarrow> int \<Rightarrow> cron_service \<Rightarrow>
       job_page \<times> cron_service" where
  "listPage env nameCompare idCompare opts now s =
     (let s1 = ensureLoadedForRead env now s;
          query = js_lower (js_trim (js_nullish (pg_query opts) []));
          found = filter (in_page (resolveEnabledFilter opts) query) (jobs_of s1)
      in (page_of opts (sortJobs nameCompare idCompare (js_nullish (pg_sortBy opts) By_Next_Run)
            (pg_descending opts) found), s1))"

definition getJob :: "string \<Rightarrow> cron_service \<Rightarrow> cron_job option" where
  "getJob jobId s = find_job jobId (jobs_of s)"

section \<open>Changes\<close>

text \<open>\<open>now\<close> is the time of the creation, \<open>armAt\<close> that of the recomputation and of the timer.\<close>

definition add ::
    "cron_env \<Rightarrow> cron_config \<Rightarrow> string \<Rightarrow> int \<Rightarrow> int \<Rightarrow> cron_create \<Rightarrow> cron_service \<Rightarrow>
       (cron_error + cron_job option) \<times> cron_service" where
  "add env cfg newId now armAt p s =
     (let s1 = ensureLoaded env False False now (warnIfDisabled cfg s)
      in case createJob env (cf_defaultAgentId cfg) newId now p of
           Inl e \<Rightarrow> (Inl e, s1)
         | Inr j \<Rightarrow>
             let a = cs_fresh s1;
                 s2 = armTimer cfg armAt (persist (snd (recompute_all env armAt (push_job j s1))));
                 added = object s2 a
             in (Inr added, emit [Job_Added newId (Option.bind added nextRun)] s2))"

text \<open>An interval without a number as its anchor gets one.\<close>

definition anchor_after_patch :: "cron_patch \<Rightarrow> int \<Rightarrow> cron_job \<Rightarrow> cron_job" where
  "anchor_after_patch p now j =
     (case cj_schedule j of
        Every_Schedule everyMs (Raw_Number (Fin _)) \<Rightarrow> j
      | Every_Schedule everyMs anchorMs \<Rightarrow>
          j\<lparr>cj_schedule := Every_Schedule everyMs (whole_ms (max 0
             (case cp_schedule p of Some (Every_Schedule _ _) \<Rightarrow> now | _ \<Rightarrow> cj_createdAtMs j)))\<rparr>
      | _ \<Rightarrow> j)"

definition next_after_patch :: "cron_env \<Rightarrow> cron_patch \<Rightarrow> int \<Rightarrow> job_edit" where
  "next_after_patch env p now j =
     (let recompute = (\<lambda>k. case computeJobNextRunAtMs env k now of
            Inl err \<Rightarrow> (Some (Schedule_Error err), k)
          | Inr t \<Rightarrow> (None, set_next t k))
      in if cp_schedule p \<noteq> None \<or> cp_enabled p \<noteq> None then
           (if cj_enabled j then recompute j else (None, set_running None (set_next None j)))
         else if cj_enabled j \<and> nextRun j = None then recompute j
         else (None, j))"

definition update_edit :: "cron_env \<Rightarrow> cron_config \<Rightarrow> cron_patch \<Rightarrow> int \<Rightarrow> job_edit" where
  "update_edit env cfg p now =
     and_then (applyJobPatch env (cf_defaultAgentId cfg) p)
       (and_then (edit (\<lambda>j. (anchor_after_patch p now j)\<lparr>cj_updatedAtMs := now\<rparr>)) (next_after_patch env p now))"

definition update ::
    "cron_env \<Rightarrow> cron_config \<Rightarrow> string \<Rightarrow> cron_patch \<Rightarrow> int \<Rightarrow> int \<Rightarrow> cron_service \<Rightarrow>
       (cron_error + cron_job) \<times> cron_service" where
  "update env cfg jobId p now armAt s =
     (let s1 = ensureLoaded env False True now (warnIfDisabled cfg s)
      in case find_job jobId (jobs_of s1) of
           None \<Rightarrow> (Inl (Unknown_Job jobId), s1)
         | Some j \<Rightarrow>
             (case update_edit env cfg p now j of
                (Some e, j1) \<Rightarrow> (Inl e, change_job jobId (\<lambda>_. j1) s1)
              | (None, j1) \<Rightarrow>
                  (Inr j1, emit [Job_Updated jobId (nextRun j1)]
                    (armTimer cfg armAt (persist (change_job jobId (\<lambda>_. j1) s1))))))"

definition remove :: "cron_env \<Rightarrow> cron_config \<Rightarrow> string \<Rightarrow> int \<Rightarrow> int \<Rightarrow> cron_service \<Rightarrow> bool \<times> cron_service" where
  "remove env cfg jobId now armAt s =
     (let s1 = ensureLoaded env False False now (warnIfDisabled cfg s);
          removed = (\<exists>e\<in>set (entries s1). cj_id (snd e) = jobId);
          s2 = armTimer cfg armAt (persist (remove_job jobId s1))
      in (removed, if removed then emit [Job_Removed jobId] s2 else s2))"

section \<open>Manual runs\<close>

datatype preflight = Refused cron_error | Already_Running | Not_Due | Runnable int

definition inspectManualRunPreflight ::
    "cron_env \<Rightarrow> cron_config \<Rightarrow> string \<Rightarrow> bool \<Rightarrow> int \<Rightarrow> cron_service \<Rightarrow> preflight \<times> cron_service" where
  "inspectManualRunPreflight env cfg jobId forced now s =
     (let s1 = snd (maintain env False now (ensureLoaded env False True now (warnIfDisabled cfg s)))
      in case find_job jobId (jobs_of s1) of
           None \<Rightarrow> (Refused (Unknown_Job jobId), s1)
         | Some j \<Rightarrow>
             (case fst (assertSupportedJobSpec j) of
                Some e \<Rightarrow> (Refused e, s1)
              | None \<Rightarrow>
                  (if runningAt j \<noteq> None then Already_Running
                   else if isJobDue j now forced then Runnable now else Not_Due, s1)))"

record manual_run =
  mr_jobId :: string
  mr_taskRunId :: "string option"
  mr_startedAt :: int
  mr_job :: cron_job
  mr_forced :: bool

datatype reservation = Reserve_Refused cron_error | Reserve_Running | Reserved manual_run

text \<open>The second section of \<open>prepareManualRun\<close>, with the instant of the first.\<close>

definition reserveManualRun ::
    "bool \<Rightarrow> string \<Rightarrow> bool \<Rightarrow> int \<Rightarrow> cron_service \<Rightarrow> reservation \<times> cron_service" where
  "reserveManualRun recorded jobId forced now s =
     (case find_job jobId (jobs_of s) of
        None \<Rightarrow> (Reserve_Refused (Unknown_Job jobId), s)
      | Some j \<Rightarrow>
          if runningAt j \<noteq> None then (Reserve_Running, s)
          else
            let mark = upd_state (\<lambda>st. st\<lparr>js_runningAtMs := Some now, js_lastError := None\<rparr>);
                (runId, out) = tryCreateCronTaskRun recorded now (mark j)
            in (Reserved \<lparr>mr_jobId = jobId, mr_taskRunId = runId, mr_startedAt = now, mr_job = mark j, mr_forced = forced\<rparr>,
                emit (Job_Started jobId now # out) (persist (change_job jobId mark s))))"

definition mergeManualRunSnapshotAfterReload :: "string \<Rightarrow> cron_job option \<Rightarrow> cron_service \<Rightarrow> cron_service" where
  "mergeManualRunSnapshotAfterReload jobId snapshot s =
     (case snapshot of
        None \<Rightarrow> remove_job jobId s
      | Some k \<Rightarrow> change_job jobId
          (\<lambda>j. j\<lparr>cj_enabled := cj_enabled k, cj_updatedAtMs := cj_updatedAtMs k, cj_state := cj_state k\<rparr>) s)"

definition outcome_of_manual :: "manual_run \<Rightarrow> run_outcome \<Rightarrow> int \<Rightarrow> timed_outcome" where
  "outcome_of_manual r outcome endedAt = \<lparr>tc_jobId = mr_jobId r, tc_taskRunId = mr_taskRunId r, tc_outcome = outcome,
     tc_startedAt = mr_startedAt r, tc_endedAt = endedAt\<rparr>"

text \<open>\<open>finishPreparedManualRun\<close> from the end of the execution; \<open>now\<close> is read in the locked section. The
  snapshot is the changed job unless it was deleted.\<close>

definition finishPreparedManualRun ::
    "cron_env \<Rightarrow> cron_config \<Rightarrow> int \<Rightarrow> manual_run \<Rightarrow> run_outcome \<Rightarrow> int \<Rightarrow> cron_service \<Rightarrow> cron_service" where
  "finishPreparedManualRun env cfg now r outcome endedAt s =
     (let jobId = mr_jobId r;
          t = outcome_of_manual r outcome endedAt;
          s1 = ensureLoaded env False True now (emit (tryFinishCronTaskRun (mr_taskRunId r) endedAt outcome) s)
      in case find_job jobId (jobs_of s1) of
           None \<Rightarrow> s1
         | Some j \<Rightarrow>
             let (del, j1, _) = applyJobResult env cfg now (mr_forced r) (result_of t) j;
                 s2 = reload (store_outcome env cfg now (mr_forced r) t j s1);
                 s3 = mergeManualRunSnapshotAfterReload jobId (if del then None else Some j1) s2
             in armTimer cfg now (persist (snd (maintain env True now s3))))"

text \<open>\<open>enqueueRun\<close>: a job that may run is put on the cron lane of the command queue.\<close>

definition enqueueRun ::
    "cron_env \<Rightarrow> cron_config \<Rightarrow> string \<Rightarrow> bool \<Rightarrow> int \<Rightarrow> cron_service \<Rightarrow> (preflight + string) \<times> cron_service" where
  "enqueueRun env cfg jobId forced now s =
     (let (pre, s1) = inspectManualRunPreflight env cfg jobId forced now s
      in case pre of
           Runnable _ \<Rightarrow>
             let runId = ''manual:'' @ jobId @ '':'' @ nat_str (nat now) @ '':'' @ nat_str (cs_manualId s1)
             in (Inr runId, emit [Run_Enqueued runId] (s1\<lparr>cs_manualId := Suc (cs_manualId s1)\<rparr>))
         | _ \<Rightarrow> (Inl pre, s1))"

section \<open>Wakes\<close>

definition wake :: "wake_mode \<Rightarrow> string \<Rightarrow> cron_service \<Rightarrow> bool \<times> cron_service" where
  "wake mode text_in s =
     (if js_trim text_in = [] then (False, s)
      else (True, emit (Enqueue_Event (js_trim text_in) None None None #
        (if mode = Wake_Now then [Request_Wake ''wake'' None None] else [])) s))"

end
