(* ===== verification/Cron_Steps.thy ===== *)
theory Cron_Steps
  imports Cron_Operations
begin

text \<open>
  The cron service as it runs: its locked sections and the executions between them, in any order.

  The world is the state of the service together with what is suspended: a tick of the timer, the start, and
  the manual runs that passed their first check or execute. An event is one step of one of them; it gives no
  world when that step cannot happen. The clock does not go back. \<^verbatim>\<open>start\<close> begins before the first run; a
  restart of the process drops all that is suspended, and keeps the disk.
\<close>

record cron_tick =
  tk_due :: "(string \<times> nat) list"
  tk_started :: "(string option \<times> int) list"
  tk_results :: "timed_outcome option list"

datatype tick_phase = Tick_Idle | Tick_Entered | Tick_Running cron_tick | Tick_Ending

record cron_catchup =
  ct_plan :: catchup_plan
  ct_current :: "(string option \<times> int) option"
  ct_outcomes :: "timed_outcome list"

datatype start_phase = Start_Idle | Start_Cleared "string list" | Start_Running cron_catchup | Start_Arming

record cron_world =
  cw_service :: cron_service
  cw_tick :: tick_phase
  cw_start :: start_phase
  cw_passed :: "(string \<times> bool \<times> int) list"
  cw_manual :: "manual_run list"
  cw_clock :: int

definition initial_world :: "cron_job list \<Rightarrow> int \<Rightarrow> cron_world" where
  "initial_world disk now = \<lparr>cw_service = createCronServiceState disk, cw_tick = Tick_Idle, cw_start = Start_Idle,
     cw_passed = [], cw_manual = [], cw_clock = now\<rparr>"

datatype cron_event =
    Tick_Fires
  | Tick_Collects int
  | Tick_Starts bool int
  | Tick_Run_Ends nat run_outcome int
  | Tick_Applies int
  | Tick_Ends int
  | Start_Clears int
  | Start_Plans int
  | Candidate_Starts bool int
  | Candidate_Ends run_outcome int
  | Start_Applies int
  | Start_Arms int
  | Reads int
  | Adds string int cron_create
  | Updates string cron_patch int
  | Removes string int
  | Passes string bool int
  | Reserves nat bool int
  | Manual_Ends nat run_outcome int
  | Enqueues string bool int
  | Stops
  | Restarts

section \<open>The runs in flight\<close>

definition tick_ids :: "tick_phase \<Rightarrow> string list" where
  "tick_ids p = (case p of Tick_Running t \<Rightarrow> map fst (tk_due t) | _ \<Rightarrow> [])"

definition start_ids :: "start_phase \<Rightarrow> string list" where
  "start_ids p = (case p of Start_Running c \<Rightarrow> map fst (cu_candidates (ct_plan c)) | _ \<Rightarrow> [])"

text \<open>The jobs whose run was begun and whose result is not stored yet, one entry for each run.\<close>

definition in_flight :: "cron_world \<Rightarrow> string list" where
  "in_flight w = tick_ids (cw_tick w) @ start_ids (cw_start w) @ map mr_jobId (cw_manual w)"

section \<open>Steps\<close>

text \<open>Workers take the due jobs in order; a slot is free while fewer runs execute than workers exist.\<close>

definition executing :: "cron_tick \<Rightarrow> nat" where
  "executing t = length (tk_started t) - length (filter (\<lambda>r. r \<noteq> None) (tk_results t))"

definition workers :: "cron_config \<Rightarrow> cron_tick \<Rightarrow> nat" where
  "workers cfg t = min (resolveRunConcurrency cfg) (max 1 (length (tk_due t)))"

definition tick_outcome :: "cron_tick \<Rightarrow> nat \<Rightarrow> run_outcome \<Rightarrow> int \<Rightarrow> timed_outcome" where
  "tick_outcome t i r endedAt = \<lparr>tc_jobId = fst (tk_due t ! i), tc_taskRunId = fst (tk_started t ! i), tc_outcome = r,
     tc_startedAt = snd (tk_started t ! i), tc_endedAt = endedAt\<rparr>"

definition at_time_of :: "int \<Rightarrow> cron_world \<Rightarrow> cron_service \<Rightarrow> cron_world" where
  "at_time_of now w s = w\<lparr>cw_service := s, cw_clock := now\<rparr>"

definition event_time :: "cron_event \<Rightarrow> cron_world \<Rightarrow> int" where
  "event_time ev w =
     (case ev of
        Tick_Collects now \<Rightarrow> now | Tick_Starts _ now \<Rightarrow> now | Tick_Run_Ends _ _ now \<Rightarrow> now | Tick_Applies now \<Rightarrow> now
      | Tick_Ends now \<Rightarrow> now | Start_Clears now \<Rightarrow> now | Start_Plans now \<Rightarrow> now | Candidate_Starts _ now \<Rightarrow> now
      | Candidate_Ends _ now \<Rightarrow> now | Start_Applies now \<Rightarrow> now | Start_Arms now \<Rightarrow> now | Reads now \<Rightarrow> now
      | Adds _ now _ \<Rightarrow> now | Updates _ _ now \<Rightarrow> now | Removes _ now \<Rightarrow> now | Passes _ _ now \<Rightarrow> now
      | Reserves _ _ now \<Rightarrow> now | Manual_Ends _ _ now \<Rightarrow> now | Enqueues _ _ now \<Rightarrow> now
      | Tick_Fires \<Rightarrow> cw_clock w | Stops \<Rightarrow> cw_clock w | Restarts \<Rightarrow> cw_clock w)"

definition tick_step :: "cron_env \<Rightarrow> cron_config \<Rightarrow> cron_event \<Rightarrow> cron_world \<Rightarrow> cron_world option" where
  "tick_step env cfg ev w =
     (let s = cw_service w
      in case (ev, cw_tick w) of
        (Tick_Fires, phase) \<Rightarrow>
          if cs_timer s = None then None
          else (case onTimer (s\<lparr>cs_timer := None\<rparr>) of
             (True, s1) \<Rightarrow> Some (w\<lparr>cw_service := s1, cw_tick := Tick_Entered\<rparr>)
           | (False, s1) \<Rightarrow> Some (w\<lparr>cw_service := s1\<rparr>))
      | (Tick_Collects now, Tick_Entered) \<Rightarrow>
          (let (due, s1) = collect_due env now now s
           in Some ((at_time_of now w s1)\<lparr>cw_tick := Tick_Running
                \<lparr>tk_due = due, tk_started = [], tk_results = replicate (length due) None\<rparr>\<rparr>))
      | (Tick_Starts recorded now, Tick_Running t) \<Rightarrow>
          if length (tk_started t) < length (tk_due t) \<and> executing t < workers cfg t then
            (let (runId, s1) = start_due recorded now (snd (tk_due t ! length (tk_started t))) s
             in Some ((at_time_of now w s1)\<lparr>cw_tick := Tick_Running (t\<lparr>tk_started := tk_started t @ [(runId, now)]\<rparr>)\<rparr>))
          else None
      | (Tick_Run_Ends i r now, Tick_Running t) \<Rightarrow>
          if i < length (tk_started t) \<and> tk_results t ! i = None then
            Some ((at_time_of now w s)\<lparr>cw_tick := Tick_Running
              (t\<lparr>tk_results := (tk_results t)[i := Some (tick_outcome t i r now)]\<rparr>)\<rparr>)
          else None
      | (Tick_Applies now, Tick_Running t) \<Rightarrow>
          if None \<in> set (tk_results t) then None
          else Some ((at_time_of now w (finish_due env cfg now (map the (tk_results t)) s))\<lparr>cw_tick := Tick_Ending\<rparr>)
      | (Tick_Ends now, Tick_Ending) \<Rightarrow> Some ((at_time_of now w (end_tick cfg now s))\<lparr>cw_tick := Tick_Idle\<rparr>)
      | _ \<Rightarrow> None)"

definition start_step :: "cron_env \<Rightarrow> cron_config \<Rightarrow> cron_event \<Rightarrow> cron_world \<Rightarrow> cron_world option" where
  "start_step env cfg ev w =
     (let s = cw_service w
      in case (ev, cw_start w) of
        (Start_Clears now, Start_Idle) \<Rightarrow>
          if cf_cronEnabled cfg \<and> in_flight w = [] then
            (let (skip, s1) = start_clear env now s in Some ((at_time_of now w s1)\<lparr>cw_start := Start_Cleared skip\<rparr>))
          else None
      | (Start_Plans now, Start_Cleared skip) \<Rightarrow>
          (let (plan, s1) = planStartupCatchup env cfg skip now s
           in Some ((at_time_of now w s1)\<lparr>cw_start := Start_Running
                \<lparr>ct_plan = plan, ct_current = None, ct_outcomes = []\<rparr>\<rparr>))
      | (Candidate_Starts recorded now, Start_Running c) \<Rightarrow>
          if ct_current c = None \<and> length (ct_outcomes c) < length (cu_candidates (ct_plan c)) then
            (let (runId, s1) = start_candidate recorded now (snd (cu_candidates (ct_plan c) ! length (ct_outcomes c))) s
             in Some ((at_time_of now w s1)\<lparr>cw_start := Start_Running (c\<lparr>ct_current := Some (runId, now)\<rparr>)\<rparr>))
          else None
      | (Candidate_Ends r now, Start_Running c) \<Rightarrow>
          (case ct_current c of
             None \<Rightarrow> None
           | Some (runId, startedAt) \<Rightarrow>
               Some ((at_time_of now w s)\<lparr>cw_start := Start_Running (c\<lparr>ct_current := None,
                 ct_outcomes := ct_outcomes c @ [\<lparr>tc_jobId = fst (cu_candidates (ct_plan c) ! length (ct_outcomes c)),
                   tc_taskRunId = runId, tc_outcome = r, tc_startedAt = startedAt, tc_endedAt = now\<rparr>]\<rparr>)\<rparr>))
      | (Start_Applies now, Start_Running c) \<Rightarrow>
          if length (ct_outcomes c) = length (cu_candidates (ct_plan c)) then
            Some ((at_time_of now w (runMissedJobs_end env cfg (ct_plan c) (ct_outcomes c) now s))\<lparr>cw_start := Start_Arming\<rparr>)
          else None
      | (Start_Arms now, Start_Arming) \<Rightarrow>
          Some ((at_time_of now w (start_arm env cfg now s))\<lparr>cw_start := Start_Idle\<rparr>)
      | _ \<Rightarrow> None)"

text \<open>The requests of clients. Two calls of \<^verbatim>\<open>run\<close> may both have passed their first check.\<close>

definition drop_nth :: "nat \<Rightarrow> 'a list \<Rightarrow> 'a list" where
  "drop_nth i xs = take i xs @ drop (Suc i) xs"

definition request_step :: "cron_env \<Rightarrow> cron_config \<Rightarrow> cron_event \<Rightarrow> cron_world \<Rightarrow> cron_world option" where
  "request_step env cfg ev w =
     (let s = cw_service w
      in case ev of
        Reads now \<Rightarrow> Some (at_time_of now w (ensureLoadedForRead env now s))
      | Adds newId now p \<Rightarrow> Some (at_time_of now w (snd (add env cfg newId now now p s)))
      | Updates jobId p now \<Rightarrow> Some (at_time_of now w (snd (update env cfg jobId p now now s)))
      | Removes jobId now \<Rightarrow> Some (at_time_of now w (snd (remove env cfg jobId now now s)))
      | Passes jobId forced now \<Rightarrow>
          (case inspectManualRunPreflight env cfg jobId forced now s of
             (Runnable t, s1) \<Rightarrow> Some ((at_time_of now w s1)\<lparr>cw_passed := cw_passed w @ [(jobId, forced, t)]\<rparr>)
           | (_, s1) \<Rightarrow> Some (at_time_of now w s1))
      | Reserves i recorded now \<Rightarrow>
          if i < length (cw_passed w) then
            (let (jobId, forced, t) = cw_passed w ! i;
                 w1 = (at_time_of now w s)\<lparr>cw_passed := drop_nth i (cw_passed w)\<rparr>
             in (case reserveManualRun recorded jobId forced t s of
                   (Reserved r, s1) \<Rightarrow> Some (w1\<lparr>cw_service := s1, cw_manual := cw_manual w @ [r]\<rparr>)
                 | (_, s1) \<Rightarrow> Some (w1\<lparr>cw_service := s1\<rparr>)))
          else None
      | Manual_Ends i r now \<Rightarrow>
          if i < length (cw_manual w) then
            Some ((at_time_of now w (finishPreparedManualRun env cfg now (cw_manual w ! i) r now s))
              \<lparr>cw_manual := drop_nth i (cw_manual w)\<rparr>)
          else None
      | Enqueues jobId forced now \<Rightarrow> Some (at_time_of now w (snd (enqueueRun env cfg jobId forced now s)))
      | Stops \<Rightarrow> Some (w\<lparr>cw_service := stopTimer s\<rparr>)
      | Restarts \<Rightarrow> Some (initial_world (cs_disk s) (cw_clock w))
      | _ \<Rightarrow> None)"

definition cron_step :: "cron_env \<Rightarrow> cron_config \<Rightarrow> cron_event \<Rightarrow> cron_world \<Rightarrow> cron_world option" where
  "cron_step env cfg ev w =
     (if event_time ev w < cw_clock w then None
      else case tick_step env cfg ev w of
        Some w1 \<Rightarrow> Some w1
      | None \<Rightarrow> (case start_step env cfg ev w of Some w1 \<Rightarrow> Some w1 | None \<Rightarrow> request_step env cfg ev w))"

fun cron_run :: "cron_env \<Rightarrow> cron_config \<Rightarrow> cron_event list \<Rightarrow> cron_world \<Rightarrow> cron_world option" where
  "cron_run env cfg [] w = Some w"
| "cron_run env cfg (ev # evs) w = Option.bind (cron_step env cfg ev w) (cron_run env cfg evs)"

end
