(* ===== verification/Cron_Keeps.thy ===== *)
theory Cron_Keeps
  imports Cron_Steps
begin

text \<open>
  What the locked sections of the cron service keep. The locale \<open>job_sections\<close> is the contract of a property of
  the service that its elementary changes keep, changes to the jobs of some ids aside: every section that stores
  no result for these ids keeps it. The locale \<open>kept_jobs\<close> is the case of a property of single jobs, in memory
  and on the disk, that maintenance keeps.
\<close>

section \<open>The walk as a map over the jobs\<close>

definition walk_job ::
    "cron_env \<Rightarrow> int \<Rightarrow> (cron_job \<Rightarrow> cron_job \<times> cron_output list) \<Rightarrow> cron_job \<Rightarrow> cron_job" where
  "walk_job env now f j =
     (if snd (normalizeJobTickState env now j) then fst (normalizeJobTickState env now j)
      else fst (f (fst (normalizeJobTickState env now j))))"

lemma fst_walkSchedulableJobs [simp]: "fst (walkSchedulableJobs env now f jobs) = map (walk_job env now f) jobs"
  by (induction jobs) (auto simp: walk_job_def split: prod.splits)

abbreviation maintain_job :: "cron_env \<Rightarrow> bool \<Rightarrow> int \<Rightarrow> cron_job \<Rightarrow> cron_job" where
  "maintain_job env expired now \<equiv> walk_job env now (maintenance_step env expired now)"

abbreviation recompute_job :: "cron_env \<Rightarrow> int \<Rightarrow> cron_job \<Rightarrow> cron_job" where
  "recompute_job env now \<equiv> walk_job env now (recompute_step env now)"

lemma normalize_cases:
  obtains (off) "\<not> cj_enabled j" "snd (normalizeJobTickState env now j)"
      "cj_enabled (fst (normalizeJobTickState env now j)) = False"
    | (on) "cj_enabled j" "\<not> snd (normalizeJobTickState env now j)"
  by (cases "cj_enabled j") (auto simp: normalizeJobTickState_def Let_def split: cron_schedule.splits option.splits)

lemma normalize_id [simp]: "cj_id (fst (normalizeJobTickState env now j)) = cj_id j"
  by (auto simp: normalizeJobTickState_def Let_def split: cron_schedule.splits option.splits)

lemma normalize_enabled [simp]: "cj_enabled (fst (normalizeJobTickState env now j)) = cj_enabled j"
  by (auto simp: normalizeJobTickState_def Let_def split: cron_schedule.splits option.splits)

lemma normalize_state:
  assumes "cj_enabled j"
  shows "cj_state (fst (normalizeJobTickState env now j)) =
    (case runningAt j of Some t \<Rightarrow> if STUCK_RUN_MS < now - t then (cj_state j)\<lparr>js_runningAtMs := None\<rparr> else cj_state j
     | None \<Rightarrow> cj_state j)"
  using assms by (auto simp: normalizeJobTickState_def Let_def split: cron_schedule.splits option.splits)

lemma recompute_id [simp]: "cj_id (fst (recomputeJobNextRunAtMs env now j)) = cj_id j"
  by (auto simp: recomputeJobNextRunAtMs_def recordScheduleComputeError_def Let_def split: sum.splits)

lemma recompute_running [simp]: "runningAt (fst (recomputeJobNextRunAtMs env now j)) = runningAt j"
  by (auto simp: recomputeJobNextRunAtMs_def recordScheduleComputeError_def Let_def split: sum.splits)

lemma recompute_enabled: "cj_enabled (fst (recomputeJobNextRunAtMs env now j)) \<Longrightarrow> cj_enabled j"
  by (auto simp: recomputeJobNextRunAtMs_def recordScheduleComputeError_def Let_def split: sum.splits if_splits)

lemma maintain_job_id [simp]: "cj_id (maintain_job env expired now j) = cj_id j"
  by (auto simp: walk_job_def maintenance_step_def split: option.splits)

lemma recompute_job_id [simp]: "cj_id (recompute_job env now j) = cj_id j"
  by (auto simp: walk_job_def recompute_step_def split: option.splits)

section \<open>Jobs in memory and on the disk after each part of a section\<close>

lemma jobs_emit [simp]: "jobs_of (emit out s) = jobs_of s" "cs_disk (emit out s) = cs_disk s" "cs_store (emit out s) = cs_store s"
  by (simp_all add: emit_def jobs_of_def entries_def)

lemma jobs_arm [simp]: "jobs_of (armTimer cfg now s) = jobs_of s" "cs_disk (armTimer cfg now s) = cs_disk s"
  "cs_store (armTimer cfg now s) = cs_store s"
  by (simp_all add: armTimer_def jobs_of_def entries_def)

lemma jobs_active [simp]: "jobs_of (clearCronJobActive i s) = jobs_of s" "cs_disk (clearCronJobActive i s) = cs_disk s"
  "cs_store (clearCronJobActive i s) = cs_store s" "jobs_of (markCronJobActive i s) = jobs_of s"
  "cs_disk (markCronJobActive i s) = cs_disk s" "cs_store (markCronJobActive i s) = cs_store s"
  by (simp_all add: clearCronJobActive_def markCronJobActive_def jobs_of_def entries_def)

lemma jobs_warn [simp]: "jobs_of (warnIfDisabled cfg s) = jobs_of s" "cs_disk (warnIfDisabled cfg s) = cs_disk s"
  "cs_store (warnIfDisabled cfg s) = cs_store s"
  by (simp_all add: warnIfDisabled_def jobs_of_def entries_def)

lemma jobs_plain [simp]: "jobs_of (s\<lparr>cs_running := b\<rparr>) = jobs_of s" "jobs_of (s\<lparr>cs_timer := t\<rparr>) = jobs_of s"
  "jobs_of (s\<lparr>cs_manualId := n\<rparr>) = jobs_of s" "jobs_of (armRunningRecheckTimer s) = jobs_of s"
  "jobs_of (stopTimer s) = jobs_of s" "cs_disk (armRunningRecheckTimer s) = cs_disk s" "cs_disk (stopTimer s) = cs_disk s"
  "cs_store (armRunningRecheckTimer s) = cs_store s" "cs_store (stopTimer s) = cs_store s"
  by (simp_all add: jobs_of_def entries_def armRunningRecheckTimer_def stopTimer_def)

lemma jobs_persist [simp]: "jobs_of (persist s) = jobs_of s" "cs_store (persist s) = cs_store s"
  by (simp_all add: persist_def jobs_of_def entries_def split: option.splits)

lemma disk_persist: "cs_disk (persist s) = (if cs_store s = None then cs_disk s else jobs_of s)"
  by (simp add: persist_def jobs_of_def entries_def js_nullish_def split: option.splits)

lemma jobs_reload [simp]: "jobs_of (reload s) = cs_disk s" "cs_disk (reload s) = cs_disk s" "cs_store (reload s) \<noteq> None"
  by (simp_all add: reload_def jobs_of_def entries_def js_nullish_def)

lemma jobs_walk:
  assumes "\<And>js. length (fst (f js)) = length js" and "fst (f []) = []"
  shows "jobs_of (snd (walk f s)) = fst (f (jobs_of s))" "cs_disk (snd (walk f s)) = cs_disk s"
    "cs_store (snd (walk f s)) = None \<longleftrightarrow> cs_store s = None"
proof -
  have "map snd (zip (map fst es) (fst (f (map snd es)))) = fst (f (map snd es))" for es :: "job_entry list"
    using assms(1) [of "map snd es"] by (intro map_snd_zip) simp
  then show "jobs_of (snd (walk f s)) = fst (f (jobs_of s))"
    using assms(2) by (simp add: walk_def jobs_of_def entries_def emit_def js_nullish_def split_beta split: option.splits)
  show "cs_disk (snd (walk f s)) = cs_disk s" "cs_store (snd (walk f s)) = None \<longleftrightarrow> cs_store s = None"
    by (simp_all add: walk_def emit_def split_beta split: option.splits)
qed

lemma jobs_maintain [simp]: "jobs_of (snd (maintain env e now s)) = map (maintain_job env e now) (jobs_of s)"
  "cs_disk (snd (maintain env e now s)) = cs_disk s" "cs_store (snd (maintain env e now s)) = None \<longleftrightarrow> cs_store s = None"
  unfolding maintain_def by (subst jobs_walk; simp add: recomputeNextRunsForMaintenance_def)+

lemma jobs_recompute_all [simp]: "jobs_of (snd (recompute_all env now s)) = map (recompute_job env now) (jobs_of s)"
  "cs_disk (snd (recompute_all env now s)) = cs_disk s" "cs_store (snd (recompute_all env now s)) = None \<longleftrightarrow> cs_store s = None"
  unfolding recompute_all_def by (subst jobs_walk; simp add: recomputeNextRuns_def)+

lemma jobs_map_entries [simp]:
  "jobs_of (map_entries f s) = map f (entries s)" "cs_disk (map_entries f s) = cs_disk s"
  "cs_store (map_entries f s) = None \<longleftrightarrow> cs_store s = None"
  by (simp_all add: map_entries_def jobs_of_def entries_def js_nullish_def split: option.splits)

lemma jobs_change_job [simp]:
  "jobs_of (change_job i f s) = map snd (change_first i f (entries s))" "cs_disk (change_job i f s) = cs_disk s"
  "cs_store (change_job i f s) = None \<longleftrightarrow> cs_store s = None"
  by (simp_all add: change_job_def jobs_of_def entries_def js_nullish_def split: option.splits)

lemma jobs_remove_job [simp]:
  "jobs_of (remove_job i s) = filter (\<lambda>j. cj_id j \<noteq> i) (jobs_of s)" "cs_disk (remove_job i s) = cs_disk s"
  "cs_store (remove_job i s) = None \<longleftrightarrow> cs_store s = None"
  by (simp_all add: remove_job_def jobs_of_def entries_def js_nullish_def filter_map o_def split: option.splits)

lemma jobs_change_object [simp]:
  "jobs_of (change_object a f s) = map (\<lambda>e. if fst e = a then f (snd e) else snd e) (entries s)"
  "cs_disk (change_object a f s) = cs_disk s" "cs_store (change_object a f s) = None \<longleftrightarrow> cs_store s = None"
  by (simp_all add: change_object_def Let_def entries_def)

lemma same_store: "cs_store s' = cs_store s \<Longrightarrow> jobs_of s' = jobs_of s" "cs_store s' = cs_store s \<Longrightarrow> entries s' = entries s"
  by (simp_all add: jobs_of_def entries_def)

lemma jobs_entries: "j \<in> set (jobs_of s) \<longleftrightarrow> (\<exists>a. (a, j) \<in> set (entries s))"
  by (force simp: jobs_of_def)

lemma find_job_Some: "find_job i jobs = Some j \<Longrightarrow> j \<in> set jobs \<and> cj_id j = i"
  by (auto simp: find_job_def find_Some_iff)

section \<open>The contract\<close>

text \<open>The changed first job with an id, when it has one.\<close>

lemma change_first_mem:
  "e \<in> set (change_first i f es) \<Longrightarrow> e \<in> set es \<or> (\<exists>a j. (a, j) \<in> set es \<and> cj_id j = i \<and> e = (a, f j))"
  by (induction es) (auto split: if_splits)

definition every_job :: "(cron_job \<Rightarrow> bool) \<Rightarrow> cron_service \<Rightarrow> bool" where
  "every_job P s \<longleftrightarrow> (\<forall>j\<in>set (jobs_of s). P j) \<and> (\<forall>j\<in>set (cs_disk s). P j)"

lemma every_job_persist: "every_job P s \<Longrightarrow> every_job P (persist s)"
  by (simp add: every_job_def disk_persist)

lemma every_job_reload: "every_job P s \<Longrightarrow> every_job P (reload s)"
  by (simp add: every_job_def)

lemma every_job_remove: "every_job P s \<Longrightarrow> every_job P (remove_job i s)"
  by (simp add: every_job_def)

lemma every_job_change:
  assumes "every_job P s" and "\<And>j. j \<in> set (jobs_of s) \<Longrightarrow> cj_id j = i \<Longrightarrow> P j \<Longrightarrow> P (f j)"
  shows "every_job P (change_job i f s)"
  using assms by (fastforce simp: every_job_def jobs_entries dest!: change_first_mem)

lemma every_job_map:
  assumes "every_job P s" and "\<And>a j. (a, j) \<in> set (entries s) \<Longrightarrow> P j \<Longrightarrow> P (f (a, j))"
  shows "every_job P (map_entries f s)"
  using assms by (auto simp: every_job_def) (metis jobs_entries)

lemma every_job_object:
  assumes "every_job P s" and "\<And>j. P j \<Longrightarrow> P (f j)"
  shows "every_job P (change_object a f s)"
  using assms by (auto simp: every_job_def) (metis jobs_entries)+

lemma count_result_id [simp]: "cj_id (fst (count_result cfg now r j)) = cj_id j"
  by (auto simp: count_result_def Let_def split: option.splits)

lemma recordScheduleComputeError_id [simp]: "cj_id (fst (recordScheduleComputeError j e)) = cj_id j"
  by (simp add: recordScheduleComputeError_def Let_def)

lemma schedule_recurring_id [simp]: "cj_id (fst (schedule_recurring env prev preserve r j)) = cj_id j"
  by (auto simp: schedule_recurring_def Let_def split: prod.splits sum.splits) (metis fst_conv recordScheduleComputeError_id)+

lemma applyJobResult_id [simp]: "cj_id (fst (snd (applyJobResult env cfg now preserve r j))) = cj_id j"
  by (simp add: applyJobResult_def Let_def split_beta schedule_one_shot_def store_result_def)

text \<open>The instant of a section, the ids whose jobs it may not change, and the property.\<close>

locale job_sections =
  fixes env :: cron_env and now :: int and own :: "string set" and Q :: "cron_service \<Rightarrow> bool"
  assumes same: "Q s \<Longrightarrow> cs_store s' = cs_store s \<Longrightarrow> cs_disk s' = cs_disk s \<Longrightarrow> cs_fresh s' = cs_fresh s \<Longrightarrow> Q s'"
    and maintain: "Q s \<Longrightarrow> Q (snd (maintain env expired now s))"
    and persist: "Q s \<Longrightarrow> Q (persist s)"
    and reload: "Q s \<Longrightarrow> Q (reload s)"
    and remove: "Q s \<Longrightarrow> i \<notin> own \<Longrightarrow> Q (remove_job i s)"
    and change: "Q s \<Longrightarrow> i \<notin> own \<Longrightarrow> (\<And>j. cj_id j = i \<Longrightarrow> cj_id (f j) = i) \<Longrightarrow> Q (change_job i f s)"
begin

lemma plain [simp]:
  "Q (emit out s) = Q s" "Q (armTimer cfg t s) = Q s" "Q (clearCronJobActive i s) = Q s" "Q (markCronJobActive i s) = Q s"
  "Q (warnIfDisabled cfg s) = Q s" "Q (s\<lparr>cs_running := b\<rparr>) = Q s" "Q (s\<lparr>cs_timer := d\<rparr>) = Q s"
  "Q (s\<lparr>cs_manualId := n\<rparr>) = Q s" "Q (armRunningRecheckTimer s) = Q s" "Q (stopTimer s) = Q s"
  by (auto elim!: same simp: emit_def armTimer_def clearCronJobActive_def markCronJobActive_def warnIfDisabled_def
      armRunningRecheckTimer_def stopTimer_def)

lemma persist_changed: "Q (snd r) \<Longrightarrow> Q (persist_if r)"
  by (simp add: persist_if_def persist)

lemma load: "Q s \<Longrightarrow> Q (ensureLoaded env force True now s)"
  by (simp add: ensureLoaded_def reload)

lemma read_keeps: "Q s \<Longrightarrow> Q (ensureLoadedForRead env now s)"
  by (simp add: ensureLoadedForRead_def persist_changed maintain load)

lemma end_tick_keeps: "Q s \<Longrightarrow> Q (end_tick cfg now s)"
  by (simp add: end_tick_def)

lemma on_timer_keeps: "Q s \<Longrightarrow> Q (snd (onTimer s))"
  by (simp add: onTimer_def)

lemma store_outcome_keeps:
  assumes "Q s" and "tc_jobId r \<notin> own" and "cj_id j = tc_jobId r"
  shows "Q (store_outcome env cfg t preserve r j s)"
  using assms by (simp add: store_outcome_def split_beta Let_def change remove)

lemma applyOutcomeToStoredJob_keeps:
  "Q s \<Longrightarrow> tc_jobId r \<notin> own \<Longrightarrow> Q (applyOutcomeToStoredJob env cfg t r s)"
  by (auto simp: applyOutcomeToStoredJob_def Let_def store_outcome_keeps dest!: find_job_Some split: option.splits)

lemma apply_outcomes_keeps:
  assumes "Q s" and "\<forall>r\<in>set rs. tc_jobId r \<notin> own"
  shows "Q (apply_outcomes env cfg t rs s)"
  using assms by (induction rs arbitrary: s) (simp_all add: apply_outcomes_def applyOutcomeToStoredJob_keeps)

lemma finish_due_keeps:
  "Q s \<Longrightarrow> \<forall>r\<in>set rs. tc_jobId r \<notin> own \<Longrightarrow> Q (finish_due env cfg now rs s)"
  by (simp add: finish_due_def persist maintain apply_outcomes_keeps load)

lemma finish_manual_keeps:
  assumes "Q s" and "mr_jobId r \<notin> own"
  shows "Q (finishPreparedManualRun env cfg now r outcome endedAt s)"
  using assms
  by (auto simp: finishPreparedManualRun_def Let_def split_beta outcome_of_manual_def mergeManualRunSnapshotAfterReload_def
      load persist maintain reload store_outcome_keeps change remove
      dest!: find_job_Some split: option.splits)

lemma preflight_keeps: "Q s \<Longrightarrow> Q (snd (inspectManualRunPreflight env cfg i forced now s))"
  by (simp add: inspectManualRunPreflight_def Let_def load maintain split: option.splits)

lemma enqueue_keeps: "Q s \<Longrightarrow> Q (snd (enqueueRun env cfg i forced now s))"
  using preflight_keeps [of s cfg i forced] by (auto simp: enqueueRun_def Let_def split: prod.splits preflight.splits)

lemma reserve_other:
  "Q s \<Longrightarrow> i \<notin> own \<Longrightarrow> Q (snd (reserveManualRun recorded i forced t s))"
  by (auto simp: reserveManualRun_def Let_def split_beta persist change split: option.splits)

lemma start_candidate_keeps: "Q s \<Longrightarrow> Q (snd (start_candidate recorded t a s))"
  by (simp add: start_candidate_def split_beta Let_def split: option.splits)

lemma catchup_end_keeps:
  assumes "Q s" and "\<forall>r\<in>set outcomes. tc_jobId r \<notin> own"
    and "\<And>i t s. Q s \<Longrightarrow> i \<in> set (cu_deferred plan) \<Longrightarrow> Q (change_job i (set_next t) s)"
  shows "Q (runMissedJobs_end env cfg plan outcomes now s)"
proof -
  have "Q (defer_jobs t gap ids s)" if "Q s" "set ids \<subseteq> set (cu_deferred plan)" for t gap ids s
    using that assms(3) by (induction t gap ids s rule: defer_jobs.induct) (auto split: option.splits)
  then show ?thesis
    using assms by (simp add: runMissedJobs_end_def applyStartupCatchupOutcomes_def Let_def persist maintain
        apply_outcomes_keeps load)
qed

end

text \<open>A property of jobs that maintenance keeps, and that says nothing of other ids.\<close>

locale kept_jobs =
  fixes env :: cron_env and now :: int and own :: "string set" and P :: "cron_job \<Rightarrow> bool"
  assumes kept: "P j \<Longrightarrow> P (maintain_job env expired now j)"
    and other: "cj_id j \<notin> own \<Longrightarrow> P j"

sublocale kept_jobs \<subseteq> job_sections env now own "every_job P"
proof
  fix s s' i f and expired :: bool
  show "every_job P s \<Longrightarrow> cs_store s' = cs_store s \<Longrightarrow> cs_disk s' = cs_disk s \<Longrightarrow> cs_fresh s' = cs_fresh s \<Longrightarrow>
    every_job P s'" by (auto simp: every_job_def dest: same_store)
  show "every_job P s \<Longrightarrow> every_job P (snd (maintain env expired now s))" by (auto simp: every_job_def kept)
  show "every_job P s \<Longrightarrow> i \<notin> own \<Longrightarrow> (\<And>j. cj_id j = i \<Longrightarrow> cj_id (f j) = i) \<Longrightarrow> every_job P (change_job i f s)"
    by (rule every_job_change) (auto intro: other)
qed (simp_all add: every_job_persist every_job_reload every_job_remove)

context kept_jobs
begin

lemma start_due_keeps:
  assumes "every_job P s" and "\<And>j. P j \<Longrightarrow> P (set_running (Some t) j)"
  shows "every_job P (snd (start_due recorded t a s))"
  using assms by (simp add: start_due_def Let_def split_beta every_job_object plain split: option.splits)

end

end
