(* ===== verification/Cron_Patches.thy ===== *)
theory Cron_Patches
  imports Cron_Operations
begin

text \<open>
  What a patch leaves alone: a patch is a list of edits, and an edit that keeps a relation between the job
  before and after can be put in any list of such edits.
\<close>

section \<open>What a patch leaves alone\<close>

definition alike :: "cron_job \<Rightarrow> cron_job \<Rightarrow> bool" where
  "alike j k \<longleftrightarrow> cj_id k = cj_id j \<and> cj_enabled k = cj_enabled j \<and> cj_state k = cj_state j"

lemma alike_refl [simp]: "alike j j"
  by (simp add: alike_def)

lemma alike_trans: "alike j k \<Longrightarrow> alike k l \<Longrightarrow> alike j l"
  by (simp add: alike_def)

text \<open>Edits that keep a relation between the job before and after.\<close>

definition relates :: "(cron_job \<Rightarrow> cron_job \<Rightarrow> bool) \<Rightarrow> job_edit \<Rightarrow> bool" where
  "relates R f \<longleftrightarrow> (\<forall>j. R j (snd (f j)))"

lemma snd_and_then: "snd (and_then f g j) = snd (f j) \<or> snd (and_then f g j) = snd (g (snd (f j)))"
  by (auto simp: and_then_def split: prod.splits option.splits)

locale edit_relation =
  fixes R :: "cron_job \<Rightarrow> cron_job \<Rightarrow> bool"
  assumes refl: "R j j" and trans: "R j k \<Longrightarrow> R k l \<Longrightarrow> R j l"
begin

lemma edit: "(\<And>j. R j (f j)) \<Longrightarrow> relates R (edit f)"
  by (simp add: relates_def edit_def)

lemma if_given: "(\<And>v j. x = Some v \<Longrightarrow> R j (f v j)) \<Longrightarrow> relates R (if_given x f)"
  by (auto simp: if_given_def refl intro: edit split: option.splits)

lemma demand [simp]: "relates R (demand P e)"
  by (simp add: relates_def demand_def refl)

lemma edit_or_fail: "(\<And>j k. f j = Inr k \<Longrightarrow> R j k) \<Longrightarrow> relates R (edit_or_fail f)"
  by (auto simp: relates_def edit_or_fail_def refl split: sum.splits)

lemma and_then:
  assumes "relates R f" and "relates R g"
  shows "relates R (and_then f g)"
  unfolding relates_def
proof
  fix j
  have f: "R j (snd (f j))" and g: "R (snd (f j)) (snd (g (snd (f j))))" using assms by (simp_all add: relates_def)
  then show "R j (snd (and_then f g j))" using snd_and_then [of f g j] trans [OF f g] by auto
qed

lemma in_order: "list_all (relates R) fs \<Longrightarrow> relates R (in_order fs)"
  by (induction fs) (simp_all add: and_then edit refl)

end

text \<open>Edits that keep the id, the switch and the state; edits that keep the id.\<close>

interpretation frames: edit_relation alike
  by unfold_locales (auto intro: alike_trans)

interpretation same_id: edit_relation "\<lambda>j k. cj_id k = cj_id j"
  by unfold_locales simp_all

abbreviation frame :: "job_edit \<Rightarrow> bool" where
  "frame \<equiv> relates alike"

lemma frame_assert_job [simp]: "frame (assert_job env d)"
proof -
  have "frame (assertDeliverySupport env)"
    by (auto simp: relates_def alike_def assertDeliverySupport_def split: option.splits)
  moreover have "frame (assertFailureDestinationSupport env)"
    by (auto simp: relates_def alike_def assertFailureDestinationSupport_def split: option.splits prod.splits)
  ultimately show ?thesis
    by (simp add: assert_job_def assertSupportedJobSpec_def assertMainSessionAgentId_def frames.and_then)
qed

text \<open>A list of edits that are frames except one.\<close>

lemma in_order_one:
  assumes "list_all frame xs" and ys: "list_all frame ys"
  shows "\<exists>k. alike j k \<and> (alike j (snd (in_order (xs @ h # ys) j)) \<or> alike (snd (h k)) (snd (in_order (xs @ h # ys) j)))"
  using assms(1)
proof (induction xs arbitrary: j)
  case Nil
  have "alike (snd (h j)) (snd (in_order ys (snd (h j))))" using frames.in_order [OF ys] by (simp add: relates_def)
  then show ?case using snd_and_then [of h "in_order ys" j] by (intro exI [of _ j]) auto
next
  case (Cons x xs)
  have x: "alike j (snd (x j))" using Cons.prems by (simp add: relates_def)
  obtain k where k: "alike (snd (x j)) k" "alike (snd (x j)) (snd (in_order (xs @ h # ys) (snd (x j)))) \<or>
      alike (snd (h k)) (snd (in_order (xs @ h # ys) (snd (x j))))"
    using Cons.IH [of "snd (x j)"] Cons.prems by auto
  show ?case
    using snd_and_then [of x "in_order (xs @ h # ys)" j] k x
    by (intro exI [of _ k]) (auto intro: alike_trans)
qed

lemma map_sum_id_Inr: "map_sum id g x = Inr k \<longleftrightarrow> (\<exists>y. x = Inr y \<and> k = g y)"
  by (cases x) auto

lemma patch_keeps:
  assumes "cp_enabled p = None"
  shows "cj_id (snd (applyJobPatch env d p j)) = cj_id j" and "cj_enabled (snd (applyJobPatch env d p j)) = cj_enabled j"
    and "cj_state (snd (applyJobPatch env d p j)) \<in> {cj_state j, cp_state p (cj_state j)}"
proof -
  have xs: "list_all frame (patch_fields env p)"
    using assms unfolding patch_fields_def list.pred_inject
    by (intro conjI frames.edit frames.if_given frames.edit_or_fail frames.demand TrueI)
      (auto simp: alike_def map_sum_id_Inr split: option.splits if_splits)
  have ys: "list_all frame (patch_owner env d p)"
    unfolding patch_owner_def by (simp add: frames.if_given alike_def)
  show "cj_id (snd (applyJobPatch env d p j)) = cj_id j" "cj_enabled (snd (applyJobPatch env d p j)) = cj_enabled j"
    "cj_state (snd (applyJobPatch env d p j)) \<in> {cj_state j, cp_state p (cj_state j)}"
    using in_order_one [OF xs ys, of j "edit (upd_state (cp_state p))"]
    by (auto simp: applyJobPatch_def edit_def alike_def)
qed

text \<open>Whatever is in a patch, the id stays.\<close>

lemma frame_same_id: "frame f \<Longrightarrow> relates (\<lambda>j k. cj_id k = cj_id j) f"
  by (simp add: relates_def alike_def)

lemma update_edit_id: "cj_id (snd (update_edit env cfg p now j)) = cj_id j"
proof -
  have "list_all (relates (\<lambda>j k. cj_id k = cj_id j)) (patch_fields env p)"
    unfolding patch_fields_def list.pred_inject
    by (intro conjI same_id.edit same_id.if_given same_id.edit_or_fail same_id.demand TrueI)
      (auto simp: map_sum_id_Inr split: option.splits if_splits)
  moreover have "list_all (relates (\<lambda>j k. cj_id k = cj_id j)) (patch_owner env (cf_defaultAgentId cfg) p)"
    unfolding patch_owner_def by (simp add: same_id.if_given frame_same_id)
  ultimately have "relates (\<lambda>j k. cj_id k = cj_id j) (applyJobPatch env (cf_defaultAgentId cfg) p)"
    unfolding applyJobPatch_def by (intro same_id.in_order) (simp add: same_id.edit)
  moreover have "cj_id (anchor_after_patch p now k) = cj_id k" for k
    by (auto simp: anchor_after_patch_def split: cron_schedule.splits raw_field.splits js_number.splits)
  then have "relates (\<lambda>j k. cj_id k = cj_id j) (Cron_Edits.edit (\<lambda>j. (anchor_after_patch p now j)\<lparr>cj_updatedAtMs := now\<rparr>))"
    by (intro same_id.edit) simp
  moreover have "relates (\<lambda>j k. cj_id k = cj_id j) (next_after_patch env p now)"
    by (auto simp: relates_def next_after_patch_def Let_def split: sum.splits)
  ultimately have "relates (\<lambda>j k. cj_id k = cj_id j) (update_edit env cfg p now)"
    unfolding update_edit_def by (intro same_id.and_then)
  then show ?thesis by (simp add: relates_def)
qed

lemma update_keeps:
  assumes "cp_enabled p = None" and "js_runningAtMs (cp_state p (cj_state j)) = runningAt j"
  shows "cj_id (snd (update_edit env cfg p now j)) = cj_id j"
    and "cj_enabled (snd (update_edit env cfg p now j)) = cj_enabled j"
    and "cj_enabled j \<Longrightarrow> runningAt (snd (update_edit env cfg p now j)) = runningAt j"
proof -
  let ?k = "snd (applyJobPatch env (cf_defaultAgentId cfg) p j)"
  let ?g = "edit (\<lambda>j. (anchor_after_patch p now j)\<lparr>cj_updatedAtMs := now\<rparr>)"
  have fr: "frame ?g" by (rule frames.edit) (auto simp: alike_def anchor_after_patch_def split: cron_schedule.splits raw_field.splits js_number.splits)
  note k = patch_keeps [OF assms(1), of env "cf_defaultAgentId cfg" j]
  have r: "runningAt ?k = runningAt j" using k(3) assms(2) by auto
  have nx: "cj_id (snd (next_after_patch env p now q)) = cj_id q \<and> cj_enabled (snd (next_after_patch env p now q)) = cj_enabled q \<and>
      (cj_enabled q \<longrightarrow> runningAt (snd (next_after_patch env p now q)) = runningAt q)" for q
    by (auto simp: next_after_patch_def Let_def split: sum.splits)
  consider "snd (update_edit env cfg p now j) = ?k" | "snd (update_edit env cfg p now j) = snd (?g ?k)"
    | "snd (update_edit env cfg p now j) = snd (next_after_patch env p now (snd (?g ?k)))"
    unfolding update_edit_def
    using snd_and_then [of "applyJobPatch env (cf_defaultAgentId cfg) p" "and_then ?g (next_after_patch env p now)" j]
      snd_and_then [of ?g "next_after_patch env p now" ?k] by argo
  then show "cj_id (snd (update_edit env cfg p now j)) = cj_id j"
    "cj_enabled (snd (update_edit env cfg p now j)) = cj_enabled j"
    "cj_enabled j \<Longrightarrow> runningAt (snd (update_edit env cfg p now j)) = runningAt j"
    using k r nx fr by (cases; simp add: relates_def alike_def)+
qed

end
