(* ===== verification/Cron_World.thy ===== *)
theory Cron_World
  imports Cron_Keeps Cron_Patches
begin

text \<open>
  The worlds that are reachable, and what holds in all of them: the results of a tick and of the catch-up
  belong to its runs, and the objects that a tick holds are not the objects of other jobs.
\<close>

inductive cron_reachable :: "cron_env \<Rightarrow> cron_config \<Rightarrow> cron_world \<Rightarrow> bool" for env cfg where
  initial: "cron_reachable env cfg (initial_world disk now)"
| event: "cron_reachable env cfg w \<Longrightarrow> cron_step env cfg ev w = Some w' \<Longrightarrow> cron_reachable env cfg w'"

section \<open>The objects of a tick\<close>

definition objects_ok :: "(string \<times> nat) list \<Rightarrow> cron_service \<Rightarrow> bool" where
  "objects_ok due s \<longleftrightarrow> distinct (map fst (entries s)) \<and> (\<forall>e\<in>set (entries s). fst e < cs_fresh s) \<and>
     (\<forall>d\<in>set due. snd d < cs_fresh s \<and> (\<forall>e\<in>set (entries s). fst e = snd d \<longrightarrow> cj_id (snd e) = fst d))"

lemma fresh_walk [simp]: "cs_fresh (snd (walk f s)) = cs_fresh s"
  by (simp add: walk_def emit_def split_beta Let_def split: option.splits)

lemma entries_walk:
  assumes "\<And>js. fst (f js) = map g js"
  shows "entries (snd (walk f s)) = map (\<lambda>e. (fst e, g (snd e))) (entries s)"
  using assms by (simp add: walk_def emit_def entries_def js_nullish_def split_beta Let_def zip_map_map zip_same_conv_map
      split: option.splits)

lemma entries_maintain [simp]:
  "entries (snd (maintain env e now s)) = map (\<lambda>e'. (fst e', maintain_job env e now (snd e'))) (entries s)"
  "cs_fresh (snd (maintain env e now s)) = cs_fresh s"
  unfolding maintain_def by (simp_all add: entries_walk recomputeNextRunsForMaintenance_def)

lemma entries_recompute [simp]:
  "entries (snd (recompute_all env now s)) = map (\<lambda>e. (fst e, recompute_job env now (snd e))) (entries s)"
  "cs_fresh (snd (recompute_all env now s)) = cs_fresh s"
  unfolding recompute_all_def by (simp_all add: entries_walk recomputeNextRuns_def)

lemma entries_simps [simp]:
  "entries (persist s) = entries s" "cs_fresh (persist s) = cs_fresh s"
  "entries (reload s) = zip [cs_fresh s ..< cs_fresh s + length (cs_disk s)] (cs_disk s)"
  "cs_fresh (reload s) = cs_fresh s + length (cs_disk s)"
  "entries (remove_job i s) = filter (\<lambda>e. cj_id (snd e) \<noteq> i) (entries s)" "cs_fresh (remove_job i s) = cs_fresh s"
  "entries (change_job i f s) = change_first i f (entries s)" "cs_fresh (change_job i f s) = cs_fresh s"
  "entries (map_entries g s) = map (\<lambda>e. (fst e, g e)) (entries s)" "cs_fresh (map_entries g s) = cs_fresh s"
  by (simp_all add: persist_def entries_def reload_def remove_job_def change_job_def map_entries_def js_nullish_def
      split: option.splits)

lemma change_first_numbers [simp]: "map fst (change_first i f es) = map fst es"
  by (induction es) auto

lemma objects_map:
  assumes "objects_ok due s" and "entries s' = map (\<lambda>e. (fst e, g e)) (entries s)" and "cs_fresh s' = cs_fresh s"
    and "\<And>e. cj_id (g e) = cj_id (snd e)"
  shows "objects_ok due s'"
  using assms by (auto simp: objects_ok_def comp_def)

lemma objects_reload: "objects_ok due s \<Longrightarrow> objects_ok due (reload s)"
  by (auto simp: objects_ok_def dest!: set_zip_leftD)

lemma objects_change:
  assumes "objects_ok due s" and "\<And>j. cj_id j = i \<Longrightarrow> cj_id (f j) = i"
  shows "objects_ok due (change_job i f s)"
  using assms by (fastforce simp: objects_ok_def dest!: change_first_mem)

lemma same_objects: "objects_ok due s \<Longrightarrow> entries s' = entries s \<Longrightarrow> cs_fresh s' = cs_fresh s \<Longrightarrow> objects_ok due s'"
  by (simp add: objects_ok_def)

interpretation objs: job_sections env now "{}" "objects_ok due" for env now due
proof
  fix s s' i f and expired :: bool
  show "objects_ok due s \<Longrightarrow> cs_store s' = cs_store s \<Longrightarrow> cs_disk s' = cs_disk s \<Longrightarrow> cs_fresh s' = cs_fresh s \<Longrightarrow> objects_ok due s'"
    by (rule same_objects) (auto dest: same_store)
  show "objects_ok due s \<Longrightarrow> objects_ok due (snd (maintain env expired now s))"
    by (rule objects_map [where g = "\<lambda>e. maintain_job env expired now (snd e)"]) simp_all
  show "objects_ok due s \<Longrightarrow> objects_ok due (persist s)" by (rule same_objects) simp_all
  show "objects_ok due s \<Longrightarrow> objects_ok due (remove_job i s)" by (auto simp: objects_ok_def distinct_map_filter)
qed (simp_all add: objects_reload objects_change)

lemma objects_recompute: "objects_ok due s \<Longrightarrow> objects_ok due (snd (recompute_all env now s))"
  by (rule objects_map [where g = "\<lambda>e. recompute_job env now (snd e)"]) simp_all

lemma objects_load: "objects_ok due s \<Longrightarrow> objects_ok due (ensureLoaded env force skip now s)"
  by (simp add: ensureLoaded_def objects_reload objects_recompute)

lemma objects_entries:
  "objects_ok due s \<Longrightarrow> (\<And>e. cj_id (g e) = cj_id (snd e)) \<Longrightarrow> objects_ok due (map_entries g s)"
  by (rule objects_map [where g = g]) simp_all

lemma objects_mark: "objects_ok due s \<Longrightarrow> objects_ok due (mark_running as now s)"
  unfolding mark_running_def by (erule objects_entries) simp

lemma objects_push: "objects_ok due s \<Longrightarrow> objects_ok due (push_job j s)"
  by (auto simp: objects_ok_def push_job_def entries_def js_nullish_def less_Suc_eq split: option.splits)

lemma objects_add: "objects_ok due s \<Longrightarrow> objects_ok due (snd (add env cfg newId now armAt p s))"
  by (simp add: add_def Let_def objects_load objects_push objects_recompute objs.persist split: sum.splits)

lemma objects_update:
  assumes "objects_ok due s"
  shows "objects_ok due (snd (update env cfg i p now armAt s))"
proof -
  let ?s = "ensureLoaded env False True now (warnIfDisabled cfg s)"
  have l: "objects_ok due ?s" using assms by (simp add: objects_load)
  show ?thesis
  proof (cases "find_job i (jobs_of ?s)")
    case (Some j)
    obtain e k where e: "update_edit env cfg p now j = (e, k)" by fastforce
    have "cj_id k = i" using update_edit_id [of env cfg p now j] e find_job_Some [OF Some] by simp
    then have "objects_ok due (change_job i (\<lambda>_. k) ?s)" using l by (simp add: objects_change)
    then show ?thesis using Some e by (cases e) (simp_all add: update_def Let_def objs.persist)
  qed (use l in \<open>simp add: update_def Let_def\<close>)
qed

lemma objects_remove: "objects_ok due s \<Longrightarrow> objects_ok due (snd (remove env cfg i now armAt s))"
  by (simp add: remove_def Let_def objects_load objs.remove objs.persist)

lemma objects_start_clear: "objects_ok due s \<Longrightarrow> objects_ok due (snd (start_clear env now s))"
  by (simp add: start_clear_def Let_def objs.load objs.persist objects_entries)

lemma objects_start_arm: "objects_ok due s \<Longrightarrow> objects_ok due (start_arm env cfg now s)"
  by (simp add: start_arm_def objs.persist_changed objects_recompute objects_load)

lemma objects_plan: "objects_ok due s \<Longrightarrow> objects_ok due (snd (planStartupCatchup env cfg skip now s))"
  by (simp add: planStartupCatchup_def Let_def objs.load objs.persist objects_mark)

lemma objects_reserve: "objects_ok due s \<Longrightarrow> objects_ok due (snd (reserveManualRun recorded i forced t s))"
  by (rule objs.reserve_other) simp_all

lemma objects_start_due: "objects_ok due s \<Longrightarrow> objects_ok due (snd (start_due recorded t a s))"
proof -
  assume "objects_ok due s"
  then have "objects_ok due (change_object a (set_running (Some t)) s)"
    by (rule objects_map [where g = "\<lambda>e. if fst e = a then set_running (Some t) (snd e) else snd e"])
      (auto simp: change_object_def map_entries_def entries_def js_nullish_def split: option.splits)
  with \<open>objects_ok due s\<close> show ?thesis by (simp add: start_due_def Let_def split_beta split: option.splits)
qed

text \<open>What a tick collects are objects of the store.\<close>

lemma objects_collect:
  assumes "objects_ok [] s" and "collect_due env t now s = (due, s')"
  shows "objects_ok due s'"
proof -
  let ?s = "ensureLoaded env True True t s"
  let ?d = "collectRunnableJobs env [] False t ?s"
  have ok: "objects_ok [] ?s" using assms(1) by (simp add: objects_load)
  show ?thesis
  proof (cases "?d = []")
    case True
    then have "due = []" "s' = persist_if (maintain env True t ?s)" using assms(2) by (simp_all add: collect_due_def Let_def)
    moreover have "objects_ok [] (snd (maintain env True t ?s))" using ok by (rule objs.maintain)
    ultimately show ?thesis using objs.persist_changed by simp
  next
    case False
    then have d: "due = map (\<lambda>e. (cj_id (snd e), fst e)) ?d" and s': "s' = persist (mark_running (map fst ?d) now ?s)"
      using assms(2) by (simp_all add: collect_due_def Let_def)
    have sub: "set ?d \<subseteq> set (entries ?s)" by (auto simp: collectRunnableJobs_def)
    have "objects_ok due ?s"
      using ok sub unfolding objects_ok_def d by (auto dest: eq_key_imp_eq_value)
    then show ?thesis unfolding s' by (intro objs.persist objects_mark)
  qed
qed

section \<open>The invariant\<close>

definition tick_wf :: "tick_phase \<Rightarrow> bool" where
  "tick_wf p = (case p of
      Tick_Running t \<Rightarrow> length (tk_results t) = length (tk_due t) \<and> length (tk_started t) \<le> length (tk_due t) \<and>
        (\<forall>r. Some r \<in> set (tk_results t) \<longrightarrow> tc_jobId r \<in> set (map fst (tk_due t)))
    | _ \<Rightarrow> True)"

definition start_wf :: "start_phase \<Rightarrow> bool" where
  "start_wf p = (case p of
      Start_Running c \<Rightarrow>
        (ct_current c \<noteq> None \<longrightarrow> length (ct_outcomes c) < length (cu_candidates (ct_plan c))) \<and>
        (\<forall>r\<in>set (ct_outcomes c). tc_jobId r \<in> set (map fst (cu_candidates (ct_plan c))))
    | _ \<Rightarrow> True)"

lemma at_time_simps [simp]:
  "cw_service (at_time_of now w s) = s" "cw_tick (at_time_of now w s) = cw_tick w" "cw_start (at_time_of now w s) = cw_start w"
  "cw_passed (at_time_of now w s) = cw_passed w" "cw_manual (at_time_of now w s) = cw_manual w"
  by (simp_all add: at_time_of_def)

definition tick_due :: "tick_phase \<Rightarrow> (string \<times> nat) list" where
  "tick_due p = (case p of Tick_Running t \<Rightarrow> tk_due t | _ \<Rightarrow> [])"

definition world_wf :: "cron_world \<Rightarrow> bool" where
  "world_wf w \<longleftrightarrow> tick_wf (cw_tick w) \<and> start_wf (cw_start w) \<and> objects_ok (tick_due (cw_tick w)) (cw_service w)"

lemma objects_mono: "objects_ok due s \<Longrightarrow> set due' \<subseteq> set due \<Longrightarrow> objects_ok due' s"
  by (auto simp: objects_ok_def)

lemma tick_world:
  assumes wf: "world_wf w" and st: "tick_step env cfg ev w = Some w'"
  shows "world_wf w'"
proof -
  have d: "tick_wf (cw_tick w)" "start_wf (cw_start w)" and ok: "objects_ok (tick_due (cw_tick w)) (cw_service w)"
    using wf by (auto simp: world_wf_def)
  have none: "objects_ok [] s" if "objects_ok due s" for due s using that by (rule objects_mono) simp
  show ?thesis
  proof (cases ev)
    case Tick_Fires
    obtain b s1 where b: "onTimer (cw_service w\<lparr>cs_timer := None\<rparr>) = (b, s1)" by fastforce
    have k: "objects_ok (tick_due (cw_tick w)) s1"
      using objs.on_timer_keeps [of "tick_due (cw_tick w)" "cw_service w\<lparr>cs_timer := None\<rparr>"] ok b by simp
    have "w' = w\<lparr>cw_service := s1, cw_tick := Tick_Entered\<rparr> \<or> w' = w\<lparr>cw_service := s1\<rparr>"
      using st b Tick_Fires by (simp add: tick_step_def Let_def split: if_splits bool.splits)
    then show ?thesis using d k none [OF k] by (auto simp: world_wf_def tick_wf_def tick_due_def)
  next
    case (Tick_Collects now)
    then have e: "cw_tick w = Tick_Entered" using st by (auto simp: tick_step_def Let_def split: tick_phase.splits)
    obtain due s1 where c: "collect_due env now now (cw_service w) = (due, s1)" by fastforce
    have "objects_ok due s1" using objects_collect [OF none [OF ok] c] .
    then show ?thesis using st e c Tick_Collects d by (auto simp: tick_step_def Let_def world_wf_def tick_wf_def tick_due_def)
  next
    case (Tick_Starts recorded now)
    then obtain t where t: "cw_tick w = Tick_Running t" using st by (auto simp: tick_step_def Let_def split: tick_phase.splits)
    obtain runId s1 where c: "start_due recorded now (snd (tk_due t ! length (tk_started t))) (cw_service w) = (runId, s1)" by fastforce
    have "objects_ok (tick_due (cw_tick w)) s1" using objects_start_due [OF ok, of recorded now] c by (metis snd_conv)
    then show ?thesis using st t c Tick_Starts d
      by (auto simp: tick_step_def Let_def world_wf_def tick_wf_def tick_due_def split: if_splits)
  next
    case (Tick_Run_Ends k r now)
    then obtain t where t: "cw_tick w = Tick_Running t" using st by (auto simp: tick_step_def Let_def split: tick_phase.splits)
    let ?r = "tick_outcome t k r now"
    have w': "w' = (at_time_of now w (cw_service w))\<lparr>cw_tick := Tick_Running
        (t\<lparr>tk_results := (tk_results t)[k := Some ?r]\<rparr>)\<rparr>" and l: "k < length (tk_started t)"
      using st t Tick_Run_Ends by (auto simp: tick_step_def Let_def split: if_splits)
    have m: "tc_jobId ?r \<in> set (map fst (tk_due t))" using l d(1) t by (simp add: tick_wf_def tick_outcome_def)
    have "tc_jobId q \<in> set (map fst (tk_due t))" if "Some q \<in> set ((tk_results t)[k := Some ?r])" for q
      using that set_update_subset_insert [of "tk_results t" k "Some ?r"] d(1) t m by (auto simp: tick_wf_def simp del: set_map)
    then have "tick_wf (cw_tick w')" using d(1) t w' by (simp add: tick_wf_def)
    then show ?thesis using w' t d ok by (simp add: world_wf_def tick_due_def)
  next
    case (Tick_Applies now)
    then obtain t where t: "cw_tick w = Tick_Running t" using st by (auto simp: tick_step_def Let_def split: tick_phase.splits)
    have "objects_ok [] (finish_due env cfg now (map the (tk_results t)) (cw_service w))"
      using none [OF ok] by (rule objs.finish_due_keeps) simp
    then show ?thesis using st t Tick_Applies d
      by (auto simp: tick_step_def Let_def world_wf_def tick_wf_def tick_due_def split: if_splits)
  next
    case (Tick_Ends now)
    then have e: "cw_tick w = Tick_Ending" using st by (auto simp: tick_step_def Let_def split: tick_phase.splits)
    have "objects_ok [] (end_tick cfg now (cw_service w))" using none [OF ok] by (rule objs.end_tick_keeps)
    then show ?thesis using st e Tick_Ends d by (auto simp: tick_step_def Let_def world_wf_def tick_wf_def tick_due_def)
  qed (use st in \<open>auto simp: tick_step_def Let_def\<close>)
qed

lemma start_world:
  assumes wf: "world_wf w" and st: "start_step env cfg ev w = Some w'"
  shows "world_wf w'"
proof -
  have d: "tick_wf (cw_tick w)" "start_wf (cw_start w)" and ok: "objects_ok (tick_due (cw_tick w)) (cw_service w)"
    using wf by (auto simp: world_wf_def)
  show ?thesis
  proof (cases ev)
    case (Start_Clears now)
    then show ?thesis using st d objects_start_clear [OF ok, of env now]
      by (auto simp: start_step_def Let_def world_wf_def start_wf_def split: start_phase.splits if_splits prod.splits)
  next
    case (Start_Plans now)
    then obtain skip where e: "cw_start w = Start_Cleared skip" using st by (auto simp: start_step_def Let_def split: start_phase.splits)
    show ?thesis using st d e Start_Plans objects_plan [OF ok, of env cfg skip now]
      by (auto simp: start_step_def Let_def world_wf_def start_wf_def split: prod.splits)
  next
    case (Candidate_Starts recorded now)
    then obtain c where c: "cw_start w = Start_Running c" using st by (auto simp: start_step_def Let_def split: start_phase.splits)
    obtain runId s1 where r: "start_candidate recorded now (snd (cu_candidates (ct_plan c) ! length (ct_outcomes c)))
        (cw_service w) = (runId, s1)" by fastforce
    have "objects_ok (tick_due (cw_tick w)) s1" using objs.start_candidate_keeps [OF ok, of recorded now] r by (metis snd_conv)
    then show ?thesis using st c r Candidate_Starts d
      by (auto simp: start_step_def Let_def world_wf_def start_wf_def split: if_splits)
  next
    case (Candidate_Ends r now)
    then obtain c where c: "cw_start w = Start_Running c" using st by (auto simp: start_step_def Let_def split: start_phase.splits)
    obtain runId startedAt where cur: "ct_current c = Some (runId, startedAt)"
      using st c Candidate_Ends by (auto simp: start_step_def Let_def split: option.splits)
    have "length (ct_outcomes c) < length (cu_candidates (ct_plan c))" using d(2) c cur by (simp add: start_wf_def)
    then have "fst (cu_candidates (ct_plan c) ! length (ct_outcomes c)) \<in> fst ` set (cu_candidates (ct_plan c))" by simp
    moreover have "w' = (at_time_of now w (cw_service w))\<lparr>cw_start := Start_Running (c\<lparr>ct_current := None,
                 ct_outcomes := ct_outcomes c @ [\<lparr>tc_jobId = fst (cu_candidates (ct_plan c) ! length (ct_outcomes c)),
                   tc_taskRunId = runId, tc_outcome = r, tc_startedAt = startedAt, tc_endedAt = now\<rparr>]\<rparr>)\<rparr>"
      using st c cur Candidate_Ends by (simp add: start_step_def Let_def)
    ultimately show ?thesis using c d ok by (auto simp: world_wf_def start_wf_def)
  next
    case (Start_Applies now)
    then obtain c where c: "cw_start w = Start_Running c" using st by (auto simp: start_step_def Let_def split: start_phase.splits)
    have "objects_ok (tick_due (cw_tick w)) (runMissedJobs_end env cfg (ct_plan c) (ct_outcomes c) now (cw_service w))"
      using ok by (rule objs.catchup_end_keeps) (auto intro: objects_change)
    then show ?thesis using st c Start_Applies d
      by (auto simp: start_step_def Let_def world_wf_def start_wf_def split: if_splits)
  next
    case (Start_Arms now)
    then show ?thesis using st d objects_start_arm [OF ok, of env cfg now]
      by (auto simp: start_step_def Let_def world_wf_def start_wf_def split: start_phase.splits)
  qed (use st in \<open>auto simp: start_step_def Let_def\<close>)
qed

lemma initial_world_wf: "world_wf (initial_world disk now)"
  by (simp add: world_wf_def initial_world_def tick_wf_def start_wf_def tick_due_def objects_ok_def createCronServiceState_def
      entries_def js_nullish_def)

lemma request_world:
  assumes wf: "world_wf w" and st: "request_step env cfg ev w = Some w'"
  shows "world_wf w'"
proof -
  have ok: "objects_ok (tick_due (cw_tick w)) (cw_service w)" using wf by (simp add: world_wf_def)
  have keep: "world_wf w'" if "objects_ok (tick_due (cw_tick w)) (cw_service w')" "cw_tick w' = cw_tick w" "cw_start w' = cw_start w"
    using that wf by (simp add: world_wf_def)
  show ?thesis
  proof (cases ev)
    case (Passes i forced now)
    then show ?thesis using st keep objs.preflight_keeps [OF ok, where env = env and now = now and cfg = cfg and i = i and forced = forced]
      by (auto simp: request_step_def Let_def split: prod.splits preflight.splits)
  next
    case (Reserves k recorded now)
    obtain i forced t where p: "cw_passed w ! k = (i, forced, t)" by (cases "cw_passed w ! k") auto
    show ?thesis using st keep Reserves p objects_reserve [OF ok, of recorded i forced t]
      by (auto simp: request_step_def Let_def split: prod.splits reservation.splits if_splits)
  next
    case (Manual_Ends k r now)
    then show ?thesis using st keep objs.finish_manual_keeps [OF ok, where env = env and now = now and cfg = cfg and r = "cw_manual w ! k" and outcome = r and endedAt = now]
      by (auto simp: request_step_def Let_def split: if_splits)
  next
    case Stops
    then show ?thesis using st keep ok by (auto simp: request_step_def Let_def)
  next
    case Restarts
    then show ?thesis using st by (auto simp: request_step_def Let_def initial_world_wf)
  qed (use st keep ok in \<open>auto simp: request_step_def Let_def objs.read_keeps objs.enqueue_keeps objects_add objects_update
      objects_remove\<close>)
qed

lemma step_world: "world_wf w \<Longrightarrow> cron_step env cfg ev w = Some w' \<Longrightarrow> world_wf w'"
  by (auto simp: cron_step_def intro: tick_world start_world request_world split: if_splits option.splits)

lemma reachable_world: "cron_reachable env cfg w \<Longrightarrow> world_wf w"
  by (induction rule: cron_reachable.induct) (auto intro: initial_world_wf step_world)

end
