(* ===== verification/Cron_Flight.thy ===== *)
theory Cron_Flight
  imports Cron_World
begin

text \<open>
  At most one run of a job is in flight. What protects a run is the marker of its job, in memory and on the
  disk: maintenance removes it after two hours or when the job is disabled, and clients can change it through
  a patch. The runs considered are those in which none of this happens.
\<close>

section \<open>Marked jobs\<close>

definition held :: "int \<Rightarrow> cron_job \<Rightarrow> bool" where
  "held now j \<longleftrightarrow> (cj_enabled j \<longrightarrow> (case runningAt j of None \<Rightarrow> False | Some t \<Rightarrow> now - t \<le> STUCK_RUN_MS))"

abbreviation held_in :: "string set \<Rightarrow> int \<Rightarrow> cron_job \<Rightarrow> bool" where
  "held_in ids now j \<equiv> cj_id j \<in> ids \<longrightarrow> held now j"

text \<open>A walk keeps a mark when its function neither touches the marker nor enables a job.\<close>

lemma walk_held:
  assumes "\<And>k. cj_enabled (fst (f k)) \<Longrightarrow> cj_enabled k" and "\<And>k. runningAt (fst (f k)) = runningAt k" and h: "held now j"
  shows "held now (walk_job env now f j)"
proof (cases "cj_enabled j")
  case True
  let ?n = "fst (normalizeJobTickState env now j)"
  have st: "cj_state ?n = cj_state j" using normalize_state [OF True] h True by (auto simp: held_def split: option.splits)
  have sk: "\<not> snd (normalizeJobTickState env now j)" using normalize_cases [of j env now] True by blast
  show ?thesis using assms True sk st by (auto simp: walk_job_def held_def)
next
  case False
  then have "snd (normalizeJobTickState env now j)" using normalize_cases [of j env now] by blast
  with False show ?thesis by (simp add: walk_job_def held_def)
qed

lemma maintain_held: "held now j \<Longrightarrow> held now (maintain_job env expired now j)"
  by (rule walk_held) (auto simp: maintenance_step_def dest: recompute_enabled split: option.splits if_splits)

lemma recompute_held: "held now j \<Longrightarrow> held now (recompute_job env now j)"
  by (rule walk_held) (auto simp: recompute_step_def dest: recompute_enabled split: option.splits if_splits)

interpretation marks: kept_jobs env now ids "held_in ids now" for env now ids
  by unfold_locales (auto simp: maintain_held)

definition distinct_ids :: "cron_service \<Rightarrow> bool" where
  "distinct_ids s \<longleftrightarrow> distinct (map cj_id (jobs_of s)) \<and> distinct (map cj_id (cs_disk s))"

lemma change_first_ids:
  "(\<And>j. cj_id j = i \<Longrightarrow> cj_id (f j) = i) \<Longrightarrow> map (\<lambda>e. cj_id (snd e)) (change_first i f es) = map (\<lambda>e. cj_id (snd e)) es"
  by (induction es) auto

lemma jobs_ids: "map cj_id (jobs_of s) = map (\<lambda>e. cj_id (snd e)) (entries s)"
  by (simp add: jobs_of_def)

interpretation uniq: job_sections env now "{}" distinct_ids for env now
proof
  fix s i f
  show "distinct_ids s \<Longrightarrow> distinct_ids (change_job i f s)" if "i \<notin> {}" "\<And>j. cj_id j = i \<Longrightarrow> cj_id (f j) = i"
    using change_first_ids [of i f "entries s"] that(2) by (simp add: distinct_ids_def jobs_ids comp_def)
qed (auto simp: distinct_ids_def comp_def disk_persist distinct_map_filter dest: same_store)

definition flight_ok :: "string set \<Rightarrow> int \<Rightarrow> cron_service \<Rightarrow> bool" where
  "flight_ok ids now s \<longleftrightarrow> every_job (held_in ids now) s \<and> distinct_ids s"

interpretation flight: job_sections env now ids "flight_ok ids now" for env now ids
proof
  fix s s' i f and expired :: bool
  show "flight_ok ids now s \<Longrightarrow> cs_store s' = cs_store s \<Longrightarrow> cs_disk s' = cs_disk s \<Longrightarrow> cs_fresh s' = cs_fresh s \<Longrightarrow>
      flight_ok ids now s'"
    by (auto simp: flight_ok_def every_job_def distinct_ids_def dest: same_store)
  show "flight_ok ids now s \<Longrightarrow> i \<notin> ids \<Longrightarrow> (\<And>j. cj_id j = i \<Longrightarrow> cj_id (f j) = i) \<Longrightarrow> flight_ok ids now (change_job i f s)"
    by (auto simp: flight_ok_def intro: marks.change uniq.change)
qed (simp_all add: flight_ok_def marks.maintain uniq.maintain marks.persist uniq.persist marks.reload uniq.reload
    every_job_remove uniq.remove)

section \<open>Sections that begin runs or recompute\<close>

lemma flight_recompute: "flight_ok ids now s \<Longrightarrow> flight_ok ids now (snd (recompute_all env now s))"
  by (auto simp: flight_ok_def every_job_def distinct_ids_def comp_def recompute_held)

lemma flight_load: "flight_ok ids now s \<Longrightarrow> flight_ok ids now (ensureLoaded env force skip now s)"
  by (simp add: ensureLoaded_def flight.reload flight_recompute)

lemma loaded [simp]: "cs_store (ensureLoaded env force skip now s) \<noteq> None"
  by (simp add: ensureLoaded_def del: not_None_eq)

text \<open>The same without the time: what holds between two events.\<close>

abbreviation marked_in :: "string set \<Rightarrow> cron_job \<Rightarrow> bool" where
  "marked_in ids j \<equiv> cj_id j \<in> ids \<longrightarrow> cj_enabled j \<longrightarrow> runningAt j \<noteq> None"

definition flight_weak :: "string set \<Rightarrow> cron_service \<Rightarrow> bool" where
  "flight_weak ids s \<longleftrightarrow> every_job (marked_in ids) s \<and> distinct_ids s"

lemma flight_weakI: "flight_ok ids now s \<Longrightarrow> flight_weak ids s"
  by (auto simp: flight_ok_def flight_weak_def every_job_def held_def split: option.splits)

lemma flight_weak_mono: "flight_weak ids s \<Longrightarrow> ids' \<subseteq> ids \<Longrightarrow> flight_weak ids' s"
  by (auto simp: flight_weak_def every_job_def)

lemma every_job_persisted: "cs_store s \<noteq> None \<Longrightarrow> every_job P (persist s) \<longleftrightarrow> (\<forall>j\<in>set (jobs_of s). P j)"
  by (auto simp: every_job_def disk_persist)

lemma distinct_ids_persisted: "cs_store s \<noteq> None \<Longrightarrow> distinct_ids (persist s) \<longleftrightarrow> distinct (map cj_id (jobs_of s))"
  by (simp add: distinct_ids_def disk_persist del: not_None_eq)

lemma same_id_same_entry:
  assumes "distinct (map (\<lambda>e. cj_id (snd e)) es)" and "e \<in> set es" "d \<in> set es" "cj_id (snd e) = cj_id (snd d)"
  shows "e = d"
  using assms by (metis (mono_tags, lifting) distinct_map inj_on_def)

text \<open>Marking some idle jobs begins one run of each.\<close>

lemma mark_runs:
  assumes ok: "flight_weak ids s" and ld: "cs_store s \<noteq> None"
    and sub: "set es \<subseteq> set (entries s)" and "distinct es" and idle: "\<forall>e\<in>set es. cj_enabled (snd e) \<and> runningAt (snd e) = None"
  shows "flight_weak (ids \<union> (\<lambda>e. cj_id (snd e)) ` set es) (persist (mark_running (map fst es) now s))"
    and "distinct (map (\<lambda>e. cj_id (snd e)) es)" and "ids \<inter> (\<lambda>e. cj_id (snd e)) ` set es = {}"
proof -
  have u: "distinct (map (\<lambda>e. cj_id (snd e)) (entries s))" using ok by (simp add: flight_weak_def distinct_ids_def jobs_ids)
  have inj: "inj_on (\<lambda>e. cj_id (snd e)) (set (entries s))" using u by (simp add: distinct_map)
  show "distinct (map (\<lambda>e. cj_id (snd e)) es)" using inj_on_subset [OF inj sub] \<open>distinct es\<close> by (simp add: distinct_map)
  show "ids \<inter> (\<lambda>e. cj_id (snd e)) ` set es = {}"
  proof (intro equals0I)
    fix i assume "i \<in> ids \<inter> (\<lambda>e. cj_id (snd e)) ` set es"
    then obtain e where e: "e \<in> set es" "cj_id (snd e) \<in> ids" by auto
    then have "snd e \<in> set (jobs_of s)" using sub by (auto simp: jobs_of_def)
    with ok e idle show False by (auto simp: flight_weak_def every_job_def)
  qed
  have mk: "marked_in (ids \<union> (\<lambda>e. cj_id (snd e)) ` set es) j" if jm: "j \<in> set (jobs_of (mark_running (map fst es) now s))" for j
  proof -
    obtain e where e: "e \<in> set (entries s)"
      and j: "j = (if fst e \<in> fst ` set es then upd_state (\<lambda>st. st\<lparr>js_runningAtMs := Some now, js_lastError := None\<rparr>) (snd e)
               else snd e)"
      using jm unfolding mark_running_def jobs_map_entries set_map by blast
    show ?thesis
    proof (cases "fst e \<in> fst ` set es")
      case False
      have "e \<notin> set es" using False by blast
      then have "cj_id (snd e) \<notin> (\<lambda>e. cj_id (snd e)) ` set es" using e sub same_id_same_entry [OF u e] by fastforce
      moreover have "marked_in ids (snd e)" using ok e by (auto simp: flight_weak_def every_job_def jobs_of_def)
      ultimately show ?thesis using j False by auto
    qed (use j in simp)
  qed
  have ld': "cs_store (mark_running (map fst es) now s) \<noteq> None" using ld by (simp add: mark_running_def)
  have "map cj_id (jobs_of (mark_running (map fst es) now s)) = map cj_id (jobs_of s)"
    by (simp add: mark_running_def jobs_ids comp_def if_distrib cong: if_cong)
  then show "flight_weak (ids \<union> (\<lambda>e. cj_id (snd e)) ` set es) (persist (mark_running (map fst es) now s))"
    unfolding flight_weak_def every_job_persisted [OF ld'] distinct_ids_persisted [OF ld'] using mk ok
    by (simp add: flight_weak_def distinct_ids_def)
qed

lemma runnable_idle: "isRunnableJob env skip startup now j \<Longrightarrow> cj_enabled j \<and> runningAt j = None"
  by (auto simp: isRunnableJob_def split: if_splits)

lemma distinct_job_entries: "distinct_ids s \<Longrightarrow> distinct (entries s)"
  by (simp add: distinct_ids_def jobs_ids distinct_map)

lemma collect_flight:
  assumes "flight_ok ids now s" and "collect_due env now now s = (due, s')"
  shows "flight_weak (ids \<union> set (map fst due)) s'" and "distinct (map fst due)" and "ids \<inter> set (map fst due) = {}"
proof -
  let ?s = "ensureLoaded env True True now s"
  let ?d = "collectRunnableJobs env [] False now ?s"
  have ok: "flight_ok ids now ?s" using assms(1) by (rule flight.load)
  have d: "set ?d \<subseteq> set (entries ?s)" "distinct ?d" "\<forall>e\<in>set ?d. cj_enabled (snd e) \<and> runningAt (snd e) = None"
    using ok by (auto simp: collectRunnableJobs_def flight_ok_def distinct_job_entries dest: runnable_idle)
  note m = mark_runs [OF flight_weakI [OF ok] loaded d]
  have "flight_weak (ids \<union> set (map fst due)) s' \<and> distinct (map fst due) \<and> ids \<inter> set (map fst due) = {}"
  proof (cases "?d = []")
    case True
    then have "due = []" "s' = persist_if (maintain env True now ?s)" using assms(2) by (simp_all add: collect_due_def Let_def)
    then show ?thesis using flight_weakI [OF flight.persist_changed [OF flight.maintain [OF ok, of env True]]] by simp
  next
    case False
    then have "due = map (\<lambda>e. (cj_id (snd e), fst e)) ?d" "s' = persist (mark_running (map fst ?d) now ?s)"
      using assms(2) by (simp_all add: collect_due_def Let_def)
    then show ?thesis using m by (simp add: comp_def)
  qed
  then show "flight_weak (ids \<union> set (map fst due)) s'" "distinct (map fst due)" "ids \<inter> set (map fst due) = {}" by simp_all
qed

lemma plan_flight:
  assumes "flight_ok ids now s" and "planStartupCatchup env cfg skip now s = (plan, s')"
  shows "flight_weak (ids \<union> set (map fst (cu_candidates plan))) s'" and "distinct (map fst (cu_candidates plan))"
    and "ids \<inter> set (map fst (cu_candidates plan)) = {}"
proof -
  let ?s = "ensureLoaded env False True now s"
  define most where "most = nat (max 0 (js_nullish (cf_maxMissedJobs cfg) DEFAULT_MAX_MISSED_JOBS_PER_RESTART))"
  define ms where "ms = by_next_run snd (collectRunnableJobs env skip True now ?s)"
  have ok: "flight_ok ids now ?s" using assms(1) by (rule flight.load)
  have "set ms \<subseteq> set (entries ?s)" "distinct ms" "\<forall>e\<in>set ms. cj_enabled (snd e) \<and> runningAt (snd e) = None"
    using ok by (auto simp: ms_def by_next_run_def collectRunnableJobs_def flight_ok_def distinct_job_entries dest: runnable_idle)
  then have d: "set (take most ms) \<subseteq> set (entries ?s)" "distinct (take most ms)"
      "\<forall>e\<in>set (take most ms). cj_enabled (snd e) \<and> runningAt (snd e) = None"
    using set_take_subset [of most ms] by auto
  note m = mark_runs [OF flight_weakI [OF ok] loaded d]
  have "flight_weak (ids \<union> set (map fst (cu_candidates plan))) s' \<and> distinct (map fst (cu_candidates plan)) \<and>
      ids \<inter> set (map fst (cu_candidates plan)) = {}"
  proof (cases "ms = []")
    case True
    then have "cu_candidates plan = []" "s' = ?s" using assms(2) by (auto simp: planStartupCatchup_def Let_def ms_def)
    then show ?thesis using flight_weakI [OF ok] by simp
  next
    case False
    then have "cu_candidates plan = map (\<lambda>e. (cj_id (snd e), fst e)) (take most ms)"
        "s' = persist (mark_running (map fst (take most ms)) now ?s)"
      using assms(2) by (auto simp: planStartupCatchup_def Let_def ms_def most_def)
    then show ?thesis using m by (simp add: comp_def)
  qed
  then show "flight_weak (ids \<union> set (map fst (cu_candidates plan))) s'" "distinct (map fst (cu_candidates plan))"
    "ids \<inter> set (map fst (cu_candidates plan)) = {}" by simp_all
qed

lemma change_first_map:
  "distinct (map (\<lambda>e. cj_id (snd e)) es) \<Longrightarrow>
     change_first i f es = map (\<lambda>e. if cj_id (snd e) = i then (fst e, f (snd e)) else e) es"
proof (induction es)
  case (Cons e es)
  show ?case
  proof (cases "cj_id (snd e) = i")
    case True
    then have "\<forall>d\<in>set es. cj_id (snd d) \<noteq> i" using Cons.prems by (metis (mono_tags, lifting) distinct.simps(2) image_eqI list.simps(9) set_map)
    then have "map (\<lambda>e. if cj_id (snd e) = i then (fst e, f (snd e)) else e) es = es" by (simp add: map_idI)
    with True show ?thesis by simp
  qed (use Cons in simp)
qed simp

lemma jobs_change_map:
  "distinct_ids s \<Longrightarrow> jobs_of (change_job i f s) = map (\<lambda>j. if cj_id j = i then f j else j) (jobs_of s)"
  by (simp add: change_first_map distinct_ids_def jobs_ids) (auto simp: jobs_of_def)

lemma reserve_flight:
  assumes ok: "flight_weak ids s" and r: "reserveManualRun recorded i forced t s = (Reserved r, s')"
    and en: "\<And>j. find_job i (jobs_of s) = Some j \<Longrightarrow> cj_enabled j"
  shows "flight_weak (insert i ids) s'" and "i \<notin> ids" and "mr_jobId r = i"
proof -
  let ?mark = "upd_state (\<lambda>st. st\<lparr>js_runningAtMs := Some t, js_lastError := None\<rparr>)"
  obtain j where j: "find_job i (jobs_of s) = Some j" and idle: "runningAt j = None"
    using r by (auto simp: reserveManualRun_def split: option.splits if_splits)
  have out: "mr_jobId r = i" "\<exists>o1. s' = emit o1 (persist (change_job i ?mark s))"
    using r j idle by (auto simp: reserveManualRun_def Let_def split_beta)
  have mem: "j \<in> set (jobs_of s)" "cj_id j = i" using find_job_Some [OF j] by auto
  show "mr_jobId r = i" by (rule out(1))
  show "i \<notin> ids" using ok mem idle en [OF j] by (auto simp: flight_weak_def every_job_def)
  have ld: "cs_store (change_job i ?mark s) \<noteq> None"
    using mem(1) by (cases "cs_store s") (simp_all add: jobs_of_def entries_def js_nullish_def change_job_def)
  have "\<forall>k\<in>set (jobs_of (change_job i ?mark s)). marked_in (insert i ids) k"
    using ok by (auto simp: jobs_change_map flight_weak_def every_job_def simp del: jobs_change_job)
  moreover have "distinct_ids (change_job i ?mark s)" using ok by (auto simp: flight_weak_def intro: uniq.change)
  ultimately have "flight_weak (insert i ids) (persist (change_job i ?mark s))"
    unfolding flight_weak_def every_job_persisted [OF ld] distinct_ids_persisted [OF ld] by (simp add: distinct_ids_def)
  with out(2) show "flight_weak (insert i ids) s'" by (auto simp: flight_weak_def every_job_def distinct_ids_def)
qed

lemma reserve_refused: "reserveManualRun recorded i forced t s = (a, s') \<Longrightarrow> \<forall>r. a \<noteq> Reserved r \<Longrightarrow> s' = s"
  by (auto simp: reserveManualRun_def Let_def split: option.splits if_splits prod.splits)

end
