(* ===== verification/Cron_Single_Run.thy ===== *)
theory Cron_Single_Run
  imports Cron_Flight
begin

text \<open>
  The changes that clients make, and the invariant of all events: no job has two runs in flight as long as
  runs end within two hours and clients neither switch jobs on and off nor force disabled jobs to run.
\<close>

section \<open>Requests\<close>

text \<open>A loaded store has the jobs it had or those of the disk.\<close>

lemma load_ids: "cj_id ` set (jobs_of (ensureLoaded env force skip now s)) \<subseteq> cj_id ` set (jobs_of s) \<union> cj_id ` set (cs_disk s)"
  by (auto simp: ensureLoaded_def image_image)

lemma load_every:
  assumes "every_job P s" and "\<And>j. P j \<Longrightarrow> P (recompute_job env now j)"
  shows "every_job P (ensureLoaded env force skip now s)"
  using assms by (auto simp: ensureLoaded_def every_job_def)

lemma createJob_id: "createJob env d newId now p = Inr j \<Longrightarrow> cj_id j = newId"
proof -
  assume c: "createJob env d newId now p = Inr j"
  have "cj_id k = cj_id q" if "assert_job env d q = (None, k)" for q k
    using frame_assert_job [of env d] that unfolding relates_def alike_def by (metis snd_conv)
  with c show ?thesis
    by (fastforce simp: createJob_def Let_def split: sum.splits prod.splits option.splits)
qed

lemma push_flight:
  assumes ok: "flight_ok ids now s" and ld: "cs_store s \<noteq> None" and new: "cj_id j \<notin> ids" "cj_id j \<notin> cj_id ` set (jobs_of s)"
  shows "flight_ok ids now (push_job j s)"
proof -
  have "jobs_of (push_job j s) = jobs_of s @ [j]" "cs_disk (push_job j s) = cs_disk s"
    using ld by (auto simp: push_job_def jobs_of_def entries_def js_nullish_def split: option.splits)
  then show ?thesis using ok new by (auto simp: flight_ok_def every_job_def distinct_ids_def)
qed

lemma add_flight:
  assumes ok: "flight_ok ids now s" and new: "newId \<notin> ids" "newId \<notin> cj_id ` set (jobs_of s)" "newId \<notin> cj_id ` set (cs_disk s)"
  shows "flight_ok ids now (snd (add env cfg newId now now p s))"
proof -
  let ?s = "ensureLoaded env False False now (warnIfDisabled cfg s)"
  have l: "flight_ok ids now ?s" using ok by (simp add: flight_load)
  have n: "newId \<notin> cj_id ` set (jobs_of ?s)" using load_ids [of env False False now "warnIfDisabled cfg s"] new by auto
  show ?thesis
  proof (cases "createJob env (cf_defaultAgentId cfg) newId now p")
    case (Inr j)
    have "flight_ok ids now (push_job j ?s)"
      using push_flight [OF l loaded] createJob_id [OF Inr] new(1) n by simp
    then show ?thesis using Inr by (simp add: add_def Let_def flight.persist flight_recompute)
  qed (use l in \<open>simp add: add_def Let_def\<close>)
qed

lemma update_flight:
  assumes ok: "flight_ok ids now s" and p: "cp_enabled p = None"
    and st: "every_job (\<lambda>j. cj_id j = i \<longrightarrow> js_runningAtMs (cp_state p (cj_state j)) = runningAt j) s"
  shows "flight_ok ids now (snd (update env cfg i p now armAt s))"
proof -
  let ?s = "ensureLoaded env False True now (warnIfDisabled cfg s)"
  have l: "flight_ok ids now ?s" using ok by (simp add: flight_load)
  have st': "every_job (\<lambda>j. cj_id j = i \<longrightarrow> js_runningAtMs (cp_state p (cj_state j)) = runningAt j) ?s"
    using st by (simp add: ensureLoaded_def every_job_def)
  have ch: "flight_ok ids now (change_job i (\<lambda>_. snd (update_edit env cfg p now j)) ?s)"
    if j: "find_job i (jobs_of ?s) = Some j" for j
  proof -
    have m: "j \<in> set (jobs_of ?s)" "cj_id j = i" using find_job_Some [OF j] by auto
    then have r: "js_runningAtMs (cp_state p (cj_state j)) = runningAt j" using st' by (simp add: every_job_def)
    note k = update_keeps [OF p r, of env cfg now]
    have "held_in ids now j" using l m by (simp add: flight_ok_def every_job_def)
    then have "held_in ids now (snd (update_edit env cfg p now j))" using k by (auto simp: held_def)
    then have "every_job (held_in ids now) (change_job i (\<lambda>_. snd (update_edit env cfg p now j)) ?s)"
      using l by (intro every_job_change) (simp_all add: flight_ok_def)
    moreover have "distinct_ids (change_job i (\<lambda>_. snd (update_edit env cfg p now j)) ?s)"
      using l k(1) m(2) by (intro uniq.change) (simp_all add: flight_ok_def)
    ultimately show ?thesis by (simp add: flight_ok_def)
  qed
  show ?thesis
  proof (cases "find_job i (jobs_of ?s)")
    case (Some j)
    obtain e k where e: "update_edit env cfg p now j = (e, k)" by fastforce
    show ?thesis using ch [OF Some] Some e
      by (cases e) (simp_all add: update_def Let_def flight.persist)
  qed (use l in \<open>simp add: update_def Let_def\<close>)
qed

lemma remove_flight: "flight_ok ids now s \<Longrightarrow> flight_ok ids now (snd (remove env cfg i now armAt s))"
proof -
  assume "flight_ok ids now s"
  then have "flight_ok ids now (ensureLoaded env False False now (warnIfDisabled cfg s))" by (simp add: flight_load)
  then have "flight_ok ids now (remove_job i (ensureLoaded env False False now (warnIfDisabled cfg s)))"
    by (simp add: flight_ok_def every_job_remove uniq.remove)
  then show ?thesis by (simp add: remove_def Let_def flight.persist)
qed

lemma uniq_map_entries: "distinct_ids s \<Longrightarrow> (\<And>e. cj_id (f e) = cj_id (snd e)) \<Longrightarrow> distinct_ids (map_entries f s)"
  by (simp add: distinct_ids_def jobs_ids comp_def) 

lemma start_clear_flight:
  assumes "flight_ok {} now s"
  shows "flight_ok {} now (snd (start_clear env now s))"
proof -
  have "flight_ok {} now (ensureLoaded env False True now s)" using assms by (rule flight.load)
  then show ?thesis
    by (simp add: start_clear_def Let_def flight_ok_def uniq_map_entries uniq.persist every_job_def disk_persist)
qed

lemma start_arm_flight: "flight_ok ids now s \<Longrightarrow> flight_ok ids now (start_arm env cfg now s)"
  by (simp add: start_arm_def flight.persist_changed flight_recompute flight_load)

lemma start_due_flight:
  assumes "flight_ok ids now s"
  shows "flight_ok ids now (snd (start_due recorded now a s))"
proof -
  have "every_job (held_in ids now) (snd (start_due recorded now a s))"
    using assms by (intro marks.start_due_keeps) (simp_all add: flight_ok_def held_def STUCK_RUN_MS_def)
  moreover have "distinct_ids (change_object a (set_running (Some now)) s)"
    using assms by (simp add: flight_ok_def distinct_ids_def jobs_ids comp_def if_distrib cong: if_cong)
  ultimately show ?thesis using assms
    by (auto simp: flight_ok_def start_due_def Let_def split_beta split: option.splits)
qed

lemma defer_flight: "flight_ok ids now s \<Longrightarrow> flight_ok ids now (change_job i (set_next t) s)"
  unfolding flight_ok_def by (auto intro!: every_job_change uniq.change simp: held_def)

section \<open>The invariant of all events\<close>

definition recent :: "int \<Rightarrow> cron_job \<Rightarrow> bool" where
  "recent now j \<longleftrightarrow> (case runningAt j of None \<Rightarrow> True | Some t \<Rightarrow> now - t \<le> STUCK_RUN_MS)"

text \<open>What an event must respect: the markers of the runs in flight are at most two hours old; a new id is
  fresh; a patch changes neither the switch nor the marker of its job; a job that is run by hand is enabled.\<close>

definition calm :: "cron_event \<Rightarrow> cron_world \<Rightarrow> bool" where
  "calm ev w \<longleftrightarrow>
     (let s = cw_service w; stored = jobs_of s @ cs_disk s in
      list_all (\<lambda>j. cj_id j \<in> set (in_flight w) \<longrightarrow> recent (event_time ev w) j) stored \<and>
      (case ev of
         Adds newId _ _ \<Rightarrow> newId \<notin> set (in_flight w) \<and> newId \<notin> cj_id ` set stored
       | Updates i p _ \<Rightarrow> cp_enabled p = None \<and>
           list_all (\<lambda>j. cj_id j = i \<longrightarrow> js_runningAtMs (cp_state p (cj_state j)) = runningAt j) stored
       | Reserves k _ _ \<Rightarrow> list_all (\<lambda>j. k < length (cw_passed w) \<longrightarrow> cj_id j = fst (cw_passed w ! k) \<longrightarrow> cj_enabled j)
           (jobs_of s)
       | _ \<Rightarrow> True))"

inductive calm_reachable :: "cron_env \<Rightarrow> cron_config \<Rightarrow> cron_world \<Rightarrow> bool" for env cfg where
  initial: "distinct (map cj_id disk) \<Longrightarrow> calm_reachable env cfg (initial_world disk now)"
| event: "calm_reachable env cfg w \<Longrightarrow> calm ev w \<Longrightarrow> cron_step env cfg ev w = Some w' \<Longrightarrow> calm_reachable env cfg w'"

definition flight_inv :: "cron_world \<Rightarrow> bool" where
  "flight_inv w \<longleftrightarrow> distinct (in_flight w) \<and> flight_weak (set (in_flight w)) (cw_service w)"

lemma weak_calm:
  assumes "flight_weak ids s" and "list_all (\<lambda>j. cj_id j \<in> ids \<longrightarrow> recent now j) (jobs_of s @ cs_disk s)"
  shows "flight_ok ids now s"
  using assms by (auto simp: flight_weak_def flight_ok_def every_job_def list_all_iff recent_def held_def split: option.splits)

lemma flight_mono: "flight_ok ids now s \<Longrightarrow> ids' \<subseteq> ids \<Longrightarrow> flight_ok ids' now s"
  by (auto simp: flight_ok_def every_job_def)

lemma in_flight_simps [simp]:
  "in_flight (at_time_of now w s) = in_flight w" "in_flight (w\<lparr>cw_service := s\<rparr>) = in_flight w"
  "in_flight (w\<lparr>cw_passed := ps\<rparr>) = in_flight w"
  "in_flight (w\<lparr>cw_tick := p\<rparr>) = tick_ids p @ start_ids (cw_start w) @ map mr_jobId (cw_manual w)"
  "in_flight (w\<lparr>cw_start := q\<rparr>) = tick_ids (cw_tick w) @ start_ids q @ map mr_jobId (cw_manual w)"
  "in_flight (w\<lparr>cw_manual := ms\<rparr>) = tick_ids (cw_tick w) @ start_ids (cw_start w) @ map mr_jobId ms"
  by (simp_all add: in_flight_def at_time_of_def)

lemma in_flight_sets: "distinct (in_flight w) \<longleftrightarrow>
    distinct (tick_ids (cw_tick w)) \<and> distinct (start_ids (cw_start w)) \<and> distinct (map mr_jobId (cw_manual w)) \<and>
    set (tick_ids (cw_tick w)) \<inter> set (start_ids (cw_start w)) = {} \<and>
    set (tick_ids (cw_tick w)) \<inter> set (map mr_jobId (cw_manual w)) = {} \<and>
    set (start_ids (cw_start w)) \<inter> set (map mr_jobId (cw_manual w)) = {}"
  by (auto simp: in_flight_def)

lemma tick_flight:
  assumes inv: "flight_inv w" and wf: "world_wf w" and calm: "calm ev w" and st: "tick_step env cfg ev w = Some w'"
  shows "flight_inv w'"
proof -
  have ok: "flight_ok (set (in_flight w)) (event_time ev w) (cw_service w)"
    using weak_calm inv calm by (auto simp: flight_inv_def calm_def Let_def)
  have d: "distinct (in_flight w)" "tick_wf (cw_tick w)" "start_wf (cw_start w)" using inv wf by (auto simp: flight_inv_def world_wf_def)
  show ?thesis
  proof (cases ev)
    case Tick_Fires
    obtain b s1 where b: "onTimer (cw_service w\<lparr>cs_timer := None\<rparr>) = (b, s1)" by fastforce
    have "flight_ok (set (in_flight w)) (event_time ev w) s1"
      using flight.on_timer_keeps [of "set (in_flight w)" "event_time ev w" "cw_service w\<lparr>cs_timer := None\<rparr>"] ok b by simp
    then have k: "flight_weak (set (in_flight w)) s1" by (rule flight_weakI)
    show ?thesis
    proof (cases b)
      case True
      then have "w' = w\<lparr>cw_service := s1, cw_tick := Tick_Entered\<rparr>" using st b Tick_Fires
        by (simp add: tick_step_def Let_def split: if_splits)
      then show ?thesis using d flight_weak_mono [OF k]
        by (auto simp: flight_inv_def in_flight_sets tick_ids_def in_flight_def tick_wf_def)
    next
      case False
      then have "w' = w\<lparr>cw_service := s1\<rparr>" using st b Tick_Fires by (simp add: tick_step_def Let_def split: if_splits)
      then show ?thesis using d k by (simp add: flight_inv_def)
    qed
  next
    case (Tick_Collects now)
    then have e: "cw_tick w = Tick_Entered" using st by (auto simp: tick_step_def Let_def split: tick_phase.splits)
    obtain due s1 where c: "collect_due env now now (cw_service w) = (due, s1)" by fastforce
    have w': "w' = (at_time_of now w s1)\<lparr>cw_tick := Tick_Running
        \<lparr>tk_due = due, tk_started = [], tk_results = replicate (length due) None\<rparr>\<rparr>"
      using st e c Tick_Collects by (simp add: tick_step_def Let_def)
    have "flight_ok (set (in_flight w)) now (cw_service w)" using ok Tick_Collects by (simp add: event_time_def)
    note f = collect_flight [OF this c]
    have "in_flight w = start_ids (cw_start w) @ map mr_jobId (cw_manual w)" using e by (simp add: in_flight_def tick_ids_def)
    then show ?thesis using w' f d
      by (auto simp: flight_inv_def tick_ids_def tick_wf_def Un_commute)
  next
    case (Tick_Starts recorded now)
    then obtain t where t: "cw_tick w = Tick_Running t" using st by (auto simp: tick_step_def Let_def split: tick_phase.splits)
    obtain runId s1 where c: "start_due recorded now (snd (tk_due t ! length (tk_started t))) (cw_service w) = (runId, s1)" by fastforce
    have w': "w' = (at_time_of now w s1)\<lparr>cw_tick := Tick_Running (t\<lparr>tk_started := tk_started t @ [(runId, now)]\<rparr>)\<rparr>"
      and l: "length (tk_started t) < length (tk_due t)"
      using st t c Tick_Starts by (auto simp: tick_step_def Let_def split: if_splits)
    have "flight_ok (set (in_flight w)) now s1"
      using start_due_flight [of "set (in_flight w)" now "cw_service w" recorded] ok Tick_Starts c
      by (simp add: event_time_def) (metis snd_conv)
    then show ?thesis using w' t d l flight_weakI
      by (auto simp: flight_inv_def tick_ids_def tick_wf_def in_flight_def)
  next
    case (Tick_Run_Ends k r now)
    then obtain t where t: "cw_tick w = Tick_Running t" using st by (auto simp: tick_step_def Let_def split: tick_phase.splits)
    have w': "w' = (at_time_of now w (cw_service w))\<lparr>cw_tick := Tick_Running
        (t\<lparr>tk_results := (tk_results t)[k := Some (tick_outcome t k r now)]\<rparr>)\<rparr>" and l: "k < length (tk_started t)"
      using st t Tick_Run_Ends by (auto simp: tick_step_def Let_def split: if_splits)
    show ?thesis using w' t d flight_weakI [OF ok]
      by (auto simp: flight_inv_def tick_ids_def in_flight_def)
  next
    case (Tick_Applies now)
    then obtain t where t: "cw_tick w = Tick_Running t" using st by (auto simp: tick_step_def Let_def split: tick_phase.splits)
    let ?rest = "set (start_ids (cw_start w)) \<union> set (map mr_jobId (cw_manual w))"
    have w': "w' = (at_time_of now w (finish_due env cfg now (map the (tk_results t)) (cw_service w)))\<lparr>cw_tick := Tick_Ending\<rparr>"
      and n: "None \<notin> set (tk_results t)"
      using st t Tick_Applies by (auto simp: tick_step_def Let_def split: if_splits)
    have "tc_jobId r \<notin> ?rest" if rm: "r \<in> set (map the (tk_results t))" for r
    proof -
      obtain q where q: "q \<in> set (tk_results t)" "r = the q" using rm by auto
      with n have "Some r \<in> set (tk_results t)" by (cases q) auto
      then have "tc_jobId r \<in> set (tick_ids (cw_tick w))" using d(2) t by (simp add: tick_wf_def tick_ids_def)
      then show ?thesis using d(1) by (auto simp: in_flight_sets)
    qed
    moreover have "flight_ok ?rest now (cw_service w)"
      using flight_mono [OF ok, of ?rest] Tick_Applies by (auto simp: in_flight_def event_time_def)
    ultimately have "flight_ok ?rest now (finish_due env cfg now (map the (tk_results t)) (cw_service w))"
      by (intro flight.finish_due_keeps) auto
    then show ?thesis using w' d flight_weakI
      by (auto simp: flight_inv_def tick_ids_def tick_wf_def in_flight_sets)
  next
    case (Tick_Ends now)
    then have e: "cw_tick w = Tick_Ending" using st by (auto simp: tick_step_def Let_def split: tick_phase.splits)
    have w': "w' = (at_time_of now w (end_tick cfg now (cw_service w)))\<lparr>cw_tick := Tick_Idle\<rparr>"
      using st e Tick_Ends by (simp add: tick_step_def Let_def)
    have "flight_ok (set (in_flight w)) now (end_tick cfg now (cw_service w))"
      using ok Tick_Ends by (simp add: event_time_def flight.end_tick_keeps)
    then show ?thesis using w' d e flight_weakI
      by (auto simp: flight_inv_def tick_ids_def tick_wf_def in_flight_def)
  qed (use st in \<open>auto simp: tick_step_def Let_def\<close>)
qed

lemma start_flight:
  assumes inv: "flight_inv w" and wf: "world_wf w" and calm: "calm ev w" and st: "start_step env cfg ev w = Some w'"
  shows "flight_inv w'"
proof -
  have ok: "flight_ok (set (in_flight w)) (event_time ev w) (cw_service w)"
    using weak_calm inv calm by (auto simp: flight_inv_def calm_def Let_def)
  have d: "distinct (in_flight w)" "tick_wf (cw_tick w)" "start_wf (cw_start w)" using inv wf by (auto simp: flight_inv_def world_wf_def)
  show ?thesis
  proof (cases ev)
    case (Start_Clears now)
    obtain skip s1 where c: "start_clear env now (cw_service w) = (skip, s1)" by fastforce
    have w': "w' = (at_time_of now w s1)\<lparr>cw_start := Start_Cleared skip\<rparr>" and n: "in_flight w = []"
      using st c Start_Clears by (auto simp: start_step_def Let_def split: start_phase.splits if_splits)
    have "flight_ok {} now s1" using start_clear_flight [of now "cw_service w" env] ok n c Start_Clears by (simp add: event_time_def)
    then show ?thesis using w' n d flight_weakI
      by (auto simp: flight_inv_def start_wf_def start_ids_def in_flight_def)
  next
    case (Start_Plans now)
    then obtain skip where e: "cw_start w = Start_Cleared skip" using st by (auto simp: start_step_def Let_def split: start_phase.splits)
    obtain plan s1 where c: "planStartupCatchup env cfg skip now (cw_service w) = (plan, s1)" by fastforce
    have w': "w' = (at_time_of now w s1)\<lparr>cw_start := Start_Running \<lparr>ct_plan = plan, ct_current = None, ct_outcomes = []\<rparr>\<rparr>"
      using st e c Start_Plans by (simp add: start_step_def Let_def)
    have "flight_ok (set (in_flight w)) now (cw_service w)" using ok Start_Plans by (simp add: event_time_def)
    note f = plan_flight [OF this c]
    have "in_flight w = tick_ids (cw_tick w) @ map mr_jobId (cw_manual w)" using e by (simp add: in_flight_def start_ids_def)
    moreover have "set (tick_ids (cw_tick w)) \<union> (mr_jobId ` set (cw_manual w) \<union> fst ` set (cu_candidates plan)) =
        set (tick_ids (cw_tick w)) \<union> (fst ` set (cu_candidates plan) \<union> mr_jobId ` set (cw_manual w))" by auto
    ultimately show ?thesis using w' f d
      by (auto simp: flight_inv_def start_ids_def start_wf_def Un_assoc)
  next
    case (Candidate_Starts recorded now)
    then obtain c where c: "cw_start w = Start_Running c" using st by (auto simp: start_step_def Let_def split: start_phase.splits)
    obtain runId s1 where r: "start_candidate recorded now (snd (cu_candidates (ct_plan c) ! length (ct_outcomes c)))
        (cw_service w) = (runId, s1)" by fastforce
    have w': "w' = (at_time_of now w s1)\<lparr>cw_start := Start_Running (c\<lparr>ct_current := Some (runId, now)\<rparr>)\<rparr>"
      and l: "length (ct_outcomes c) < length (cu_candidates (ct_plan c))"
      using st c r Candidate_Starts by (auto simp: start_step_def Let_def split: if_splits)
    have "flight_ok (set (in_flight w)) now s1"
      using flight.start_candidate_keeps [of "set (in_flight w)" now "cw_service w" recorded] ok Candidate_Starts r
      by (simp add: event_time_def) (metis snd_conv)
    then show ?thesis using w' c d l flight_weakI
      by (auto simp: flight_inv_def start_ids_def start_wf_def in_flight_def)
  next
    case (Candidate_Ends r now)
    then obtain c where c: "cw_start w = Start_Running c" using st by (auto simp: start_step_def Let_def split: start_phase.splits)
    obtain runId startedAt where cur: "ct_current c = Some (runId, startedAt)"
      using st c Candidate_Ends by (auto simp: start_step_def Let_def split: option.splits)
    have "w' = (at_time_of now w (cw_service w))\<lparr>cw_start := Start_Running (c\<lparr>ct_current := None,
                 ct_outcomes := ct_outcomes c @ [\<lparr>tc_jobId = fst (cu_candidates (ct_plan c) ! length (ct_outcomes c)),
                   tc_taskRunId = runId, tc_outcome = r, tc_startedAt = startedAt, tc_endedAt = now\<rparr>]\<rparr>)\<rparr>"
      using st c cur Candidate_Ends by (simp add: start_step_def Let_def)
    then show ?thesis using c d flight_weakI [OF ok]
      by (auto simp: flight_inv_def start_ids_def start_wf_def in_flight_def)
  next
    case (Start_Applies now)
    then obtain c where c: "cw_start w = Start_Running c" using st by (auto simp: start_step_def Let_def split: start_phase.splits)
    let ?rest = "set (tick_ids (cw_tick w)) \<union> set (map mr_jobId (cw_manual w))"
    have w': "w' = (at_time_of now w (runMissedJobs_end env cfg (ct_plan c) (ct_outcomes c) now (cw_service w)))
        \<lparr>cw_start := Start_Arming\<rparr>"
      using st c Start_Applies by (simp add: start_step_def Let_def split: if_splits)
    have "tc_jobId r \<notin> ?rest" if "r \<in> set (ct_outcomes c)" for r
    proof -
      have "tc_jobId r \<in> set (start_ids (cw_start w))" using that d(3) c by (simp add: start_wf_def start_ids_def)
      then show ?thesis using d(1) by (auto simp: in_flight_sets)
    qed
    moreover have "flight_ok ?rest now (cw_service w)"
      using flight_mono [OF ok, of ?rest] Start_Applies by (auto simp: in_flight_def event_time_def)
    ultimately have "flight_ok ?rest now (runMissedJobs_end env cfg (ct_plan c) (ct_outcomes c) now (cw_service w))"
      by (intro flight.catchup_end_keeps) (auto intro: defer_flight)
    then show ?thesis using w' d flight_weakI
      by (auto simp: flight_inv_def start_ids_def start_wf_def in_flight_sets)
  next
    case (Start_Arms now)
    then have c: "cw_start w = Start_Arming" using st by (auto simp: start_step_def Let_def split: start_phase.splits)
    have w': "w' = (at_time_of now w (start_arm env cfg now (cw_service w)))\<lparr>cw_start := Start_Idle\<rparr>"
      using st c Start_Arms by (simp add: start_step_def Let_def)
    have "flight_ok (set (in_flight w)) now (start_arm env cfg now (cw_service w))"
      using ok Start_Arms by (simp add: event_time_def start_arm_flight)
    then show ?thesis using w' c d flight_weakI
      by (auto simp: flight_inv_def start_ids_def start_wf_def in_flight_def)
  qed (use st in \<open>auto simp: start_step_def Let_def\<close>)
qed

lemma less_disjoint: "A \<inter> B = {} \<Longrightarrow> C \<subseteq> B \<Longrightarrow> A \<inter> C = {}"
  by blast

lemma drop_nth_distinct:
  assumes "distinct (map f xs)" and "i < length xs"
  shows "distinct (map f (drop_nth i xs))" and "f (xs ! i) \<notin> f ` set (drop_nth i xs)" and "set (drop_nth i xs) \<subseteq> set xs"
proof -
  have s: "xs = take i xs @ xs ! i # drop (Suc i) xs" using assms(2) by (rule id_take_nth_drop)
  have "distinct (map f (take i xs @ xs ! i # drop (Suc i) xs))" using assms(1) s by simp
  then show "distinct (map f (drop_nth i xs))" "f (xs ! i) \<notin> f ` set (drop_nth i xs)"
    by (auto simp: drop_nth_def)
  show "set (drop_nth i xs) \<subseteq> set xs"
    by (auto simp: drop_nth_def dest: in_set_takeD in_set_dropD)
qed

lemma request_flight:
  assumes inv: "flight_inv w" and wf: "world_wf w" and calm: "calm ev w" and st: "request_step env cfg ev w = Some w'"
  shows "flight_inv w'"
proof -
  have ok: "flight_ok (set (in_flight w)) (event_time ev w) (cw_service w)"
    using weak_calm inv calm by (auto simp: flight_inv_def calm_def Let_def)
  have d: "distinct (in_flight w)" "tick_wf (cw_tick w)" "start_wf (cw_start w)" using inv wf by (auto simp: flight_inv_def world_wf_def)
  have same: "flight_inv (at_time_of now w s)" if "flight_ok (set (in_flight w)) now s" for now s
    using that d flight_weakI by (simp add: flight_inv_def)
  show ?thesis
  proof (cases ev)
    case (Reads now)
    then show ?thesis using st ok same by (auto simp: request_step_def Let_def event_time_def flight.read_keeps)
  next
    case (Adds newId now p)
    have "flight_ok (set (in_flight w)) now (snd (add env cfg newId now now p (cw_service w)))"
      using ok calm Adds by (intro add_flight) (auto simp: event_time_def calm_def Let_def)
    then show ?thesis using st same Adds by (auto simp: request_step_def Let_def)
  next
    case (Updates i p now)
    have "flight_ok (set (in_flight w)) now (snd (update env cfg i p now now (cw_service w)))"
      using ok calm Updates by (intro update_flight) (auto simp: event_time_def calm_def Let_def every_job_def list_all_iff)
    then show ?thesis using st same Updates by (auto simp: request_step_def Let_def)
  next
    case (Removes i now)
    then show ?thesis using st ok same by (auto simp: request_step_def Let_def event_time_def remove_flight)
  next
    case (Passes i forced now)
    obtain a s1 where a: "inspectManualRunPreflight env cfg i forced now (cw_service w) = (a, s1)" by fastforce
    have k: "flight_ok (set (in_flight w)) now s1"
      using flight.preflight_keeps [of "set (in_flight w)" now "cw_service w" env cfg i forced] ok Passes a by (simp add: event_time_def)
    have "w' = at_time_of now w s1 \<or> (\<exists>ps. w' = (at_time_of now w s1)\<lparr>cw_passed := ps\<rparr>)"
      using st a Passes by (auto simp: request_step_def Let_def split: preflight.splits)
    then show ?thesis using same [OF k] by (auto simp: flight_inv_def)
  next
    case (Reserves k recorded now)
    obtain i forced t where p: "cw_passed w ! k = (i, forced, t)" by (cases "cw_passed w ! k") auto
    obtain a s1 where a: "reserveManualRun recorded i forced t (cw_service w) = (a, s1)" by fastforce
    have l: "k < length (cw_passed w)" using st Reserves by (auto simp: request_step_def Let_def split: if_splits)
    have k: "flight_weak (set (in_flight w)) (cw_service w)" using inv by (simp add: flight_inv_def)
    show ?thesis
    proof (cases "\<exists>r. a = Reserved r")
      case True
      then obtain r where r: "a = Reserved r" by blast
      have en: "cj_enabled j" if "find_job i (jobs_of (cw_service w)) = Some j" for j
        using calm Reserves l p find_job_Some [OF that] by (auto simp: calm_def Let_def list_all_iff)
      note f = reserve_flight [OF k a [unfolded r] en]
      have "w' = (at_time_of now w (cw_service w))\<lparr>cw_passed := drop_nth k (cw_passed w), cw_service := s1,
          cw_manual := cw_manual w @ [r]\<rparr>"
        using st Reserves l p a r by (simp add: request_step_def Let_def)
      then show ?thesis using d f by (auto simp: flight_inv_def in_flight_def)
    next
      case False
      then have "s1 = cw_service w" using reserve_refused [OF a] by blast
      then have "w' = (at_time_of now w (cw_service w))\<lparr>cw_passed := drop_nth k (cw_passed w), cw_service := cw_service w\<rparr>"
        using st Reserves l p a False by (auto simp: request_step_def Let_def split: reservation.splits)
      then show ?thesis using d k by (simp add: flight_inv_def)
    qed
  next
    case (Manual_Ends k r now)
    have l: "k < length (cw_manual w)" using st Manual_Ends by (auto simp: request_step_def Let_def split: if_splits)
    let ?m = "cw_manual w ! k" and ?ms = "drop_nth k (cw_manual w)"
    let ?rest = "set (tick_ids (cw_tick w)) \<union> set (start_ids (cw_start w)) \<union> mr_jobId ` set ?ms"
    have w': "w' = (at_time_of now w (finishPreparedManualRun env cfg now ?m r now (cw_service w)))\<lparr>cw_manual := ?ms\<rparr>"
      using st Manual_Ends l by (simp add: request_step_def Let_def)
    have dm: "distinct (map mr_jobId (cw_manual w))" using d(1) by (simp add: in_flight_def)
    note n = drop_nth_distinct [OF dm l]
    have "mr_jobId ?m \<in> set (map mr_jobId (cw_manual w))" using l by simp
    then have "mr_jobId ?m \<notin> ?rest" using n(2) d(1) by (auto simp: in_flight_sets simp del: set_map)
    moreover have "?rest \<subseteq> set (in_flight w)" using n(3) by (auto simp: in_flight_def)
    then have "flight_ok ?rest now (cw_service w)"
      using flight_mono [OF ok, of ?rest] Manual_Ends by (simp add: event_time_def)
    ultimately have "flight_ok ?rest now (finishPreparedManualRun env cfg now ?m r now (cw_service w))"
      by (intro flight.finish_manual_keeps)
    then have fw: "flight_weak ?rest (cw_service w')" unfolding w' using flight_weakI by simp
    have i: "in_flight w' = tick_ids (cw_tick w) @ start_ids (cw_start w) @ map mr_jobId ?ms" unfolding w' by simp
    have ir: "set (in_flight w') = ?rest" unfolding i by (simp add: Un_assoc)
    have sub: "mr_jobId ` set ?ms \<subseteq> mr_jobId ` set (cw_manual w)" using n(3) by (rule image_mono)
    have "distinct (in_flight w')" unfolding i 
    proof -
      have "set (tick_ids (cw_tick w)) \<inter> mr_jobId ` set ?ms = {}" "set (start_ids (cw_start w)) \<inter> mr_jobId ` set ?ms = {}"
        using d(1) by (simp_all add: in_flight_sets less_disjoint [OF _ sub])
      then show "distinct (tick_ids (cw_tick w) @ start_ids (cw_start w) @ map mr_jobId ?ms)"
        using d(1) n(1) by (simp add: in_flight_sets Int_Un_distrib)
    qed
    then show ?thesis using fw w' d unfolding flight_inv_def ir by simp
  next
    case (Enqueues i forced now)
    then show ?thesis using st ok same by (auto simp: request_step_def Let_def event_time_def flight.enqueue_keeps)
  next
    case Stops
    then show ?thesis using st ok d flight_weakI by (auto simp: request_step_def Let_def flight_inv_def)
  next
    case Restarts
    have "distinct_ids (createCronServiceState (cs_disk (cw_service w)))"
      using ok by (simp add: flight_ok_def distinct_ids_def createCronServiceState_def jobs_of_def entries_def js_nullish_def)
    then show ?thesis using st Restarts
      by (auto simp: request_step_def Let_def initial_world_def flight_inv_def in_flight_def tick_ids_def start_ids_def tick_wf_def
          start_wf_def flight_weak_def every_job_def)
  qed (use st in \<open>auto simp: request_step_def Let_def\<close>)
qed

lemma step_flight: "flight_inv w \<Longrightarrow> world_wf w \<Longrightarrow> calm ev w \<Longrightarrow> cron_step env cfg ev w = Some w' \<Longrightarrow> flight_inv w'"
  by (auto simp: cron_step_def intro: tick_flight start_flight request_flight split: if_splits option.splits)

lemma calm_reachable_inv: "calm_reachable env cfg w \<Longrightarrow> flight_inv w \<and> world_wf w"
proof (induction rule: calm_reachable.induct)
  case (initial disk now)
  then show ?case
    by (simp add: flight_inv_def initial_world_wf)
      (simp add: initial_world_def in_flight_def tick_ids_def start_ids_def flight_weak_def
        every_job_def distinct_ids_def createCronServiceState_def jobs_of_def entries_def js_nullish_def)
qed (auto intro: step_flight step_world)

end
