(* ===== verification/Cron_Slots.thy ===== *)
theory Cron_Slots
  imports Cron_Single_Run
begin

text \<open>
  A slot that is due is not lost: it stays with its job, in memory and on the disk, until a run of the job
  begins, whatever else the service does, and the next tick begins it. Only an addition and the end of the
  start move the slots of other jobs.
\<close>

section \<open>A slot that was not run\<close>

definition due_slot :: "int \<Rightarrow> cron_job \<Rightarrow> bool" where
  "due_slot t j \<longleftrightarrow> cj_enabled j \<and> nextRun j = Some t \<and> runningAt j = None \<and>
     (case lastRun j of None \<Rightarrow> True | Some l \<Rightarrow> l < t)"

text \<open>A loaded store in which the jobs with an id have that slot, as has the disk.\<close>

definition has_slot :: "string \<Rightarrow> int \<Rightarrow> cron_service \<Rightarrow> bool" where
  "has_slot i t s \<longleftrightarrow> cs_store s \<noteq> None \<and> every_job (\<lambda>j. cj_id j = i \<longrightarrow> due_slot t j) s \<and>
     i \<in> cj_id ` set (jobs_of s) \<and> i \<in> cj_id ` set (cs_disk s)"

lemma walk_due_slot:
  assumes "due_slot t j" and "\<And>k. due_slot t k \<Longrightarrow> f k = (k, [])"
  shows "due_slot t (walk_job env now f j)"
proof -
  let ?n = "fst (normalizeJobTickState env now j)"
  have e: "cj_enabled j" using assms(1) by (simp add: due_slot_def)
  have "cj_state ?n = cj_state j" using normalize_state [OF e, of env now] assms(1) by (simp add: due_slot_def)
  then have "due_slot t ?n" using assms(1) by (simp add: due_slot_def)
  moreover have "\<not> snd (normalizeJobTickState env now j)" using normalize_cases [of j env now] e by blast
  ultimately show ?thesis by (simp add: walk_job_def assms(2))
qed

lemma maintain_due_slot: "due_slot t j \<Longrightarrow> due_slot t (maintain_job env expired now j)"
  by (erule walk_due_slot) (auto simp: due_slot_def maintenance_step_def split: option.splits)

lemma recompute_due_slot: "due_slot t j \<Longrightarrow> now < t \<Longrightarrow> due_slot t (recompute_job env now j)"
  by (erule walk_due_slot) (auto simp: due_slot_def recompute_step_def)

interpretation slot_jobs: kept_jobs env now "{i}" "\<lambda>j. cj_id j = i \<longrightarrow> due_slot t j" for env now i t
  by unfold_locales (auto simp: maintain_due_slot)

lemma change_first_same_ids:
  "(\<And>j. cj_id j = k \<Longrightarrow> cj_id (f j) = k) \<Longrightarrow> cj_id ` set (jobs_of (change_job k f s)) = cj_id ` set (jobs_of s)"
  using change_first_ids [of k f "entries s"] by (metis (no_types, lifting) entries_simps(7) jobs_ids list.set_map)

interpretation slots: job_sections env now "{i}" "has_slot i t" for env now i t
proof
  fix s s' k f and expired :: bool
  show "has_slot i t s \<Longrightarrow> cs_store s' = cs_store s \<Longrightarrow> cs_disk s' = cs_disk s \<Longrightarrow> cs_fresh s' = cs_fresh s \<Longrightarrow> has_slot i t s'"
    by (simp add: has_slot_def every_job_def same_store(1) [of s' s])
  show "has_slot i t s \<Longrightarrow> has_slot i t (snd (maintain env expired now s))"
    by (simp add: has_slot_def slot_jobs.maintain image_image del: not_None_eq)
  show "has_slot i t s \<Longrightarrow> has_slot i t (persist s)"
    by (simp add: has_slot_def slot_jobs.persist disk_persist)
  show "has_slot i t s \<Longrightarrow> has_slot i t (reload s)"
    by (simp add: has_slot_def slot_jobs.reload del: not_None_eq)
  show "has_slot i t s \<Longrightarrow> k \<notin> {i} \<Longrightarrow> has_slot i t (remove_job k s)"
    by (auto simp: has_slot_def slot_jobs.remove simp del: not_None_eq)
  show "has_slot i t s \<Longrightarrow> k \<notin> {i} \<Longrightarrow> (\<And>j. cj_id j = k \<Longrightarrow> cj_id (f j) = k) \<Longrightarrow> has_slot i t (change_job k f s)"
    using change_first_same_ids [of k f s]
    by (simp add: has_slot_def slot_jobs.change del: not_None_eq)
qed

section \<open>Sections that begin runs, and the recomputation\<close>

lemma slot_recompute: "has_slot i t s \<Longrightarrow> now < t \<Longrightarrow> has_slot i t (snd (recompute_all env now s))"
  by (auto simp: has_slot_def every_job_def recompute_due_slot image_image)

lemma slot_loaded: "has_slot i t s \<Longrightarrow> ensureLoaded env False skip now s = s"
  by (simp add: has_slot_def ensureLoaded_def)

lemma slot_entry: "has_slot i t s \<Longrightarrow> \<exists>e\<in>set (entries s). cj_id (snd e) = i \<and> due_slot t (snd e)"
  by (auto simp: has_slot_def every_job_def jobs_of_def)

lemma slot_map_entries:
  assumes "has_slot i t s" and "\<And>e. cj_id (g e) = cj_id (snd e)"
    and "\<And>e. e \<in> set (entries s) \<Longrightarrow> cj_id (snd e) = i \<Longrightarrow> due_slot t (snd e) \<Longrightarrow> due_slot t (g e)"
  shows "has_slot i t (map_entries g s)"
  using assms by (auto simp: has_slot_def every_job_def jobs_of_def image_image)

text \<open>Marking other jobs leaves the slot; their objects are others, because the numbers are distinct.\<close>

lemma slot_mark:
  assumes "has_slot i t s" and "objects_ok [] s" and "set es \<subseteq> set (entries s)" and "\<forall>e\<in>set es. cj_id (snd e) \<noteq> i"
  shows "has_slot i t (mark_running (map fst es) now s)"
  unfolding mark_running_def
proof (rule slot_map_entries [OF assms(1)])
  fix e assume e: "e \<in> set (entries s)" "cj_id (snd e) = i" "due_slot t (snd e)"
  have "fst e \<notin> fst ` set es"
  proof
    assume "fst e \<in> fst ` set es"
    then obtain d where d: "d \<in> set es" "fst d = fst e" by auto
    then have "d = e" using assms(2,3) e(1) by (metis (no_types, lifting) distinct_map inj_on_def objects_ok_def subsetD)
    with d(1) assms(4) e(2) show False by blast
  qed
  with e(3) show "due_slot t (if fst e \<in> set (map fst es)
      then upd_state (\<lambda>st. st\<lparr>js_runningAtMs := Some now, js_lastError := None\<rparr>) (snd e) else snd e)" by simp
qed simp

lemma slot_collect:
  assumes slot: "has_slot i t s" and ok: "objects_ok due0 s" and c: "collect_due env now now s = (due, s')"
  shows "i \<in> fst ` set due \<or> has_slot i t s'" and "t \<le> now \<Longrightarrow> i \<in> fst ` set due"
proof -
  let ?s = "ensureLoaded env True True now s"
  let ?d = "collectRunnableJobs env [] False now ?s"
  have sl: "has_slot i t ?s" using slot by (rule slots.load)
  have obs: "objects_ok [] ?s" using objs.load [OF ok] by (rule objects_mono) simp
  have due: "due = map (\<lambda>e. (cj_id (snd e), fst e)) ?d" using c by (cases "?d = []") (simp_all add: collect_due_def Let_def)
  have sub: "set ?d \<subseteq> set (entries ?s)" by (auto simp: collectRunnableJobs_def)
  show "i \<in> fst ` set due \<or> has_slot i t s'"
  proof (cases "?d = []")
    case True
    then have "s' = persist_if (maintain env True now ?s)" using c by (simp add: collect_due_def Let_def)
    then show ?thesis using slots.persist_changed [OF slots.maintain [OF sl]] by simp
  next
    case False
    then have s': "s' = persist (mark_running (map fst ?d) now ?s)" using c by (simp add: collect_due_def Let_def)
    show ?thesis
    proof (cases "\<exists>e\<in>set ?d. cj_id (snd e) = i")
      case True
      then show ?thesis by (force simp: due)
    next
      case False
      then have "has_slot i t (mark_running (map fst ?d) now ?s)" using slot_mark [OF sl obs sub] by blast
      then show ?thesis using slots.persist s' by blast
    qed
  qed
  assume "t \<le> now"
  obtain e where e: "e \<in> set (entries ?s)" "cj_id (snd e) = i" "due_slot t (snd e)" using slot_entry [OF sl] by blast
  then have "isRunnableJob env [] False now (snd e)" using \<open>t \<le> now\<close> by (simp add: isRunnableJob_def due_slot_def)
  then have "e \<in> set ?d" using e(1) by (simp add: collectRunnableJobs_def)
  then show "i \<in> fst ` set due" using e(2) by (force simp: due)
qed

lemma slot_plan:
  assumes slot: "has_slot i t s" and ok: "objects_ok due0 s" and c: "planStartupCatchup env cfg skip now s = (plan, s')"
  shows "i \<in> fst ` set (cu_candidates plan) \<or> has_slot i t s'"
proof -
  define most where "most = nat (max 0 (js_nullish (cf_maxMissedJobs cfg) DEFAULT_MAX_MISSED_JOBS_PER_RESTART))"
  define ms where "ms = by_next_run snd (collectRunnableJobs env skip True now s)"
  have l: "ensureLoaded env False True now s = s" using slot by (rule slot_loaded)
  have obs: "objects_ok [] s" using ok by (rule objects_mono) simp
  have sub: "set (take most ms) \<subseteq> set (entries s)"
    using set_take_subset [of most ms] by (auto simp: ms_def by_next_run_def collectRunnableJobs_def)
  show ?thesis
  proof (cases "ms = []")
    case True
    then show ?thesis using c l slot by (auto simp: planStartupCatchup_def Let_def ms_def)
  next
    case False
    then have p: "cu_candidates plan = map (\<lambda>e. (cj_id (snd e), fst e)) (take most ms)"
        "s' = persist (mark_running (map fst (take most ms)) now s)"
      using c l by (auto simp: planStartupCatchup_def Let_def ms_def most_def)
    show ?thesis
    proof (cases "\<exists>e\<in>set (take most ms). cj_id (snd e) = i")
      case True
      then show ?thesis by (force simp: p(1))
    next
      case False
      then show ?thesis using slots.persist [OF slot_mark [OF slot obs sub]] p(2) by blast
    qed
  qed
qed

text \<open>A tick that begins a run of another job marks the object of that job.\<close>

lemma slot_start_due:
  assumes slot: "has_slot i t s" and ok: "objects_ok due s" and "(k, a) \<in> set due" and "k \<noteq> i"
  shows "has_slot i t (snd (start_due recorded now a s))"
proof -
  have "\<forall>e\<in>set (entries s). fst e = a \<longrightarrow> cj_id (snd e) = k" using ok assms(3) by (fastforce simp: objects_ok_def)
  then have "has_slot i t (map_entries (\<lambda>e. if fst e = a then set_running (Some now) (snd e) else snd e) s)"
    using assms(1,4) by (intro slot_map_entries) auto
  then have "has_slot i t (change_object a (set_running (Some now)) s)"
    by (rule slots.same) (auto simp: change_object_def map_entries_def)
  with slot show ?thesis by (simp add: start_due_def Let_def split_beta split: option.splits)
qed

lemma slot_reserve:
  assumes "has_slot i t s" and "reserveManualRun recorded k forced u s = (a, s')"
  shows "has_slot i t s' \<or> (\<exists>r. a = Reserved r \<and> mr_jobId r = i)"
proof (cases "k = i")
  case True
  then show ?thesis using assms by (auto simp: reserveManualRun_def Let_def split: option.splits if_splits prod.splits)
next
  case False
  then show ?thesis using slots.reserve_other [OF assms(1), of k recorded forced u] assms(2) by simp
qed

section \<open>All events\<close>

definition moves_slot :: "string \<Rightarrow> int \<Rightarrow> cron_event \<Rightarrow> cron_world \<Rightarrow> bool" where
  "moves_slot i t ev w =
     (case ev of
        Adds newId now _ \<Rightarrow> newId = i \<or> t \<le> now
      | Start_Arms now \<Rightarrow> t \<le> now
      | Start_Applies _ \<Rightarrow>
          (case cw_start w of Start_Running c \<Rightarrow> i \<in> set (cu_deferred (ct_plan c)) | _ \<Rightarrow> False)
      | Updates k _ _ \<Rightarrow> k = i
      | Removes k _ \<Rightarrow> k = i
      | Restarts \<Rightarrow> True
      | _ \<Rightarrow> False)"

lemma slot_push: "has_slot i t s \<Longrightarrow> cj_id j \<noteq> i \<Longrightarrow> has_slot i t (push_job j s)"
proof -
  assume s: "has_slot i t s" and j: "cj_id j \<noteq> i"
  have "jobs_of (push_job j s) = jobs_of s @ [j]" "cs_disk (push_job j s) = cs_disk s" "cs_store (push_job j s) \<noteq> None"
    using s by (auto simp: has_slot_def push_job_def jobs_of_def entries_def js_nullish_def split: option.splits)
  then show ?thesis using s j by (auto simp: has_slot_def every_job_def)
qed

lemma slot_add:
  assumes slot: "has_slot i t s" and new: "newId \<noteq> i" and "now < t"
  shows "has_slot i t (snd (add env cfg newId now now p s))"
proof -
  have s1: "has_slot i t (warnIfDisabled cfg s)" using slot by (simp add: slots.plain)
  show ?thesis
  proof (cases "createJob env (cf_defaultAgentId cfg) newId now p")
    case (Inr j)
    have "has_slot i t (push_job j (warnIfDisabled cfg s))" using slot_push [OF s1, of j] createJob_id [OF Inr] new by simp
    then show ?thesis using Inr slot_loaded [OF s1] assms(3)
      by (simp add: add_def Let_def slots.persist slot_recompute slots.plain)
  qed (use s1 slot_loaded [OF s1] in \<open>simp add: add_def Let_def\<close>)
qed

lemma slot_update:
  assumes slot: "has_slot i t s" and k: "k \<noteq> i"
  shows "has_slot i t (snd (update env cfg k p now armAt s))"
proof -
  have s1: "has_slot i t (warnIfDisabled cfg s)" using slot by (simp add: slots.plain)
  show ?thesis
  proof (cases "find_job k (jobs_of (warnIfDisabled cfg s))")
    case (Some j)
    obtain e q where e: "update_edit env cfg p now j = (e, q)" by fastforce
    have "cj_id q = k" using update_edit_id [of env cfg p now j] e find_job_Some [OF Some] by simp
    then have "has_slot i t (change_job k (\<lambda>_. q) (warnIfDisabled cfg s))" using s1 k by (simp add: slots.change)
    then show ?thesis using Some e slot_loaded [OF s1]
      by (cases e) (simp_all add: update_def Let_def slots.persist slots.plain del: jobs_warn)
  qed (use s1 slot_loaded [OF s1] in \<open>simp add: update_def Let_def del: jobs_warn\<close>)
qed

lemma slot_remove:
  assumes slot: "has_slot i t s" and k: "k \<noteq> i"
  shows "has_slot i t (snd (remove env cfg k now armAt s))"
proof -
  have s1: "has_slot i t (warnIfDisabled cfg s)" using slot by (simp add: slots.plain)
  then show ?thesis using k slot_loaded [OF s1] by (simp add: remove_def Let_def slots.remove slots.persist slots.plain)
qed

lemma slot_tick:
  assumes wf: "world_wf w" and slot: "has_slot i t (cw_service w)" and idle: "i \<notin> set (in_flight w)"
    and st: "tick_step env cfg ev w = Some w'"
  shows "i \<in> set (in_flight w') \<or> has_slot i t (cw_service w')"
proof -
  have d: "tick_wf (cw_tick w)" and ok: "objects_ok (tick_due (cw_tick w)) (cw_service w)"
    using wf by (auto simp: world_wf_def)
  have timer: "has_slot i t (cw_service w\<lparr>cs_timer := None\<rparr>)" using slot by (simp add: slots.plain)
  show ?thesis
  proof (cases ev)
    case Tick_Fires
    have "has_slot i t (snd (onTimer (cw_service w\<lparr>cs_timer := None\<rparr>)))" using timer by (rule slots.on_timer_keeps)
    then show ?thesis using st Tick_Fires
      by (auto simp: tick_step_def Let_def split: if_splits prod.splits bool.splits)
  next
    case (Tick_Collects now)
    obtain due s1 where c: "collect_due env now now (cw_service w) = (due, s1)" by fastforce
    have w': "w' = (at_time_of now w s1)\<lparr>cw_tick := Tick_Running
        \<lparr>tk_due = due, tk_started = [], tk_results = replicate (length due) None\<rparr>\<rparr>"
      using st c Tick_Collects by (auto simp: tick_step_def Let_def split: tick_phase.splits)
    show ?thesis using slot_collect(1) [OF slot ok c] by (simp add: w' tick_ids_def) argo
  next
    case (Tick_Starts recorded now)
    then obtain u where u: "cw_tick w = Tick_Running u" using st by (auto simp: tick_step_def Let_def split: tick_phase.splits)
    let ?d = "tk_due u ! length (tk_started u)"
    have l: "length (tk_started u) < length (tk_due u)" using st u Tick_Starts by (auto simp: tick_step_def Let_def split: if_splits)
    have m: "(fst ?d, snd ?d) \<in> set (tick_due (cw_tick w))" using l u by (simp add: tick_due_def)
    have "fst ?d \<noteq> i" using l u idle by (force simp: in_flight_def tick_ids_def)
    then have "has_slot i t (snd (start_due recorded now (snd ?d) (cw_service w)))"
      using slot_start_due [OF slot ok m] by blast
    then show ?thesis using st u l Tick_Starts by (auto simp: tick_step_def Let_def split: if_splits prod.splits)
  next
    case (Tick_Run_Ends k r now)
    then show ?thesis using st slot by (auto simp: tick_step_def Let_def split: tick_phase.splits if_splits)
  next
    case (Tick_Applies now)
    then obtain u where u: "cw_tick w = Tick_Running u" and n: "None \<notin> set (tk_results u)"
      using st by (auto simp: tick_step_def Let_def split: tick_phase.splits if_splits)
    have "tc_jobId r \<noteq> i" if "Some r \<in> set (tk_results u)" for r
      using that d idle u by (auto simp: tick_wf_def in_flight_def tick_ids_def)
    then have "\<forall>r\<in>set (map the (tk_results u)). tc_jobId r \<notin> {i}" using n by (auto split: option.splits) (metis option.exhaust_sel)
    then have "has_slot i t (finish_due env cfg now (map the (tk_results u)) (cw_service w))" by (rule slots.finish_due_keeps [OF slot])
    then show ?thesis using st u n Tick_Applies by (auto simp: tick_step_def Let_def)
  next
    case (Tick_Ends now)
    then show ?thesis using st slots.end_tick_keeps [OF slot] by (auto simp: tick_step_def Let_def split: tick_phase.splits)
  qed (use st in \<open>auto simp: tick_step_def Let_def\<close>)
qed

lemma slot_start:
  assumes wf: "world_wf w" and slot: "has_slot i t (cw_service w)" and idle: "i \<notin> set (in_flight w)"
    and stays: "\<not> moves_slot i t ev w" and st: "start_step env cfg ev w = Some w'"
  shows "i \<in> set (in_flight w') \<or> has_slot i t (cw_service w')"
proof -
  have d: "start_wf (cw_start w)" and ok: "objects_ok (tick_due (cw_tick w)) (cw_service w)"
    using wf by (auto simp: world_wf_def)
  show ?thesis
  proof (cases ev)
    case (Start_Clears now)
    have "has_slot i t (map_entries (\<lambda>e. set_running None (snd e)) (cw_service w))"
      using slot by (rule slot_map_entries) (auto simp: due_slot_def)
    then have "has_slot i t (snd (start_clear env now (cw_service w)))"
      using slot by (simp add: start_clear_def Let_def slot_loaded slots.persist)
    then show ?thesis using st Start_Clears by (auto simp: start_step_def Let_def split: start_phase.splits if_splits prod.splits)
  next
    case (Start_Plans now)
    then obtain skip where e: "cw_start w = Start_Cleared skip" using st by (auto simp: start_step_def Let_def split: start_phase.splits)
    obtain plan s1 where c: "planStartupCatchup env cfg skip now (cw_service w) = (plan, s1)" by fastforce
    have w': "w' = (at_time_of now w s1)\<lparr>cw_start := Start_Running \<lparr>ct_plan = plan, ct_current = None, ct_outcomes = []\<rparr>\<rparr>"
      using st e c Start_Plans by (simp add: start_step_def Let_def)
    show ?thesis using slot_plan [OF slot ok c] by (simp add: w' start_ids_def) argo
  next
    case (Candidate_Starts recorded now)
    have "has_slot i t (snd (start_candidate recorded now a (cw_service w)))" for a by (rule slots.start_candidate_keeps [OF slot])
    then show ?thesis using st Candidate_Starts
      by (auto simp: start_step_def Let_def split: start_phase.splits if_splits prod.splits) (metis snd_conv)
  next
    case (Candidate_Ends r now)
    then show ?thesis using st slot by (auto simp: start_step_def Let_def split: start_phase.splits option.splits)
  next
    case (Start_Applies now)
    then obtain c where c: "cw_start w = Start_Running c" using st by (auto simp: start_step_def Let_def split: start_phase.splits)
    have "\<forall>r\<in>set (ct_outcomes c). tc_jobId r \<notin> {i}" using d idle c by (auto simp: start_wf_def in_flight_def start_ids_def)
    moreover have "i \<notin> set (cu_deferred (ct_plan c))" using stays Start_Applies c by (simp add: moves_slot_def)
    ultimately have "has_slot i t (runMissedJobs_end env cfg (ct_plan c) (ct_outcomes c) now (cw_service w))"
      by (intro slots.catchup_end_keeps slot) (auto intro!: slots.change)
    then show ?thesis using st c Start_Applies by (auto simp: start_step_def Let_def split: if_splits)
  next
    case (Start_Arms now)
    then have "now < t" using stays by (simp add: moves_slot_def)
    then have "has_slot i t (start_arm env cfg now (cw_service w))"
      using slot by (simp add: start_arm_def slot_loaded slots.persist_changed slot_recompute slots.plain)
    then show ?thesis using st Start_Arms by (auto simp: start_step_def Let_def split: start_phase.splits)
  qed (use st in \<open>auto simp: start_step_def Let_def\<close>)
qed

lemma slot_request:
  assumes slot: "has_slot i t (cw_service w)" and idle: "i \<notin> set (in_flight w)"
    and stays: "\<not> moves_slot i t ev w" and st: "request_step env cfg ev w = Some w'"
  shows "i \<in> set (in_flight w') \<or> has_slot i t (cw_service w')"
proof (cases ev)
  case (Reads now)
  then show ?thesis using st slots.read_keeps [OF slot] by (auto simp: request_step_def Let_def)
next
  case (Adds newId now p)
  then show ?thesis using st stays slot_add [OF slot] by (auto simp: request_step_def Let_def moves_slot_def)
next
  case (Updates k p now)
  then show ?thesis using st stays slot_update [OF slot] by (auto simp: request_step_def Let_def moves_slot_def)
next
  case (Removes k now)
  then show ?thesis using st stays slot_remove [OF slot] by (auto simp: request_step_def Let_def moves_slot_def)
next
  case (Passes k forced now)
  then show ?thesis
    using st slots.preflight_keeps [OF slot, where env = env and now = now and cfg = cfg and i = k and forced = forced]
    by (auto simp: request_step_def Let_def split: prod.splits preflight.splits)
next
  case (Reserves n recorded now)
  obtain k forced u where p: "cw_passed w ! n = (k, forced, u)" by (cases "cw_passed w ! n") auto
  obtain a s1 where a: "reserveManualRun recorded k forced u (cw_service w) = (a, s1)" by fastforce
  show ?thesis using st p a Reserves slot_reserve [OF slot a]
    by (auto simp: request_step_def Let_def split: reservation.splits if_splits)
next
  case (Manual_Ends k r now)
  have l: "k < length (cw_manual w)" using st Manual_Ends by (auto simp: request_step_def Let_def split: if_splits)
  then have "mr_jobId (cw_manual w ! k) \<notin> {i}" using idle by (auto simp: in_flight_def)
  then have "has_slot i t (finishPreparedManualRun env cfg now (cw_manual w ! k) r now (cw_service w))"
    by (rule slots.finish_manual_keeps [OF slot])
  then show ?thesis using st l Manual_Ends by (auto simp: request_step_def Let_def)
next
  case (Enqueues k forced now)
  then show ?thesis using st slots.enqueue_keeps [OF slot] by (auto simp: request_step_def Let_def)
next
  case Stops
  then show ?thesis using st slot by (auto simp: request_step_def Let_def slots.plain)
next
  case Restarts
  then show ?thesis using stays by (simp add: moves_slot_def)
qed (use st in \<open>auto simp: request_step_def Let_def\<close>)

lemma slot_step:
  assumes "world_wf w" and "has_slot i t (cw_service w)" and "i \<notin> set (in_flight w)" and "\<not> moves_slot i t ev w"
    and "cron_step env cfg ev w = Some w'"
  shows "i \<in> set (in_flight w') \<or> has_slot i t (cw_service w')"
  using assms slot_tick [of w i t env cfg ev w'] slot_start [of w i t ev env cfg w'] slot_request [of i t w ev env cfg w']
  by (auto simp: cron_step_def split: if_splits option.splits)

end
