(* ===== verification/Cron_Timing.thy ===== *)
theory Cron_Timing
  imports Cron_Service
begin

text \<open>
  When a job runs again: the result of a run never leaves a job due at once, a one-shot job is given up after
  a bounded number of errors, and the timer is neither late nor hot.
\<close>

section \<open>The result of a run\<close>

abbreviation errors_of :: "cron_job \<Rightarrow> int" where
  "errors_of j \<equiv> js_nullish (js_consecutiveErrors (cj_state j)) 0"

lemma count_result_errors:
  "errors_of (fst (count_result cfg now r j)) = (if rr_status r = Run_Error then errors_of j + 1 else 0)"
  "rr_status r = Run_Error \<Longrightarrow> js_consecutiveErrors (cj_state (fst (count_result cfg now r j))) = Some (errors_of j + 1)"
  by (auto simp: count_result_def Let_def js_nullish_def split: option.splits)

lemma count_result_same [simp]:
  "cj_schedule (fst (count_result cfg now r j)) = cj_schedule j" "cj_enabled (fst (count_result cfg now r j)) = cj_enabled j"
  "cj_deleteAfterRun (fst (count_result cfg now r j)) = cj_deleteAfterRun j"
  by (auto simp: count_result_def Let_def split: option.splits)

lemma store_result_same [simp]:
  "cj_schedule (store_result r j) = cj_schedule j" "cj_enabled (store_result r j) = cj_enabled j"
  "cj_deleteAfterRun (store_result r j) = cj_deleteAfterRun j" "errors_of (store_result r j) = errors_of j"
  by (simp_all add: store_result_def Let_def)

lemma record_error_same [simp]:
  "cj_schedule (fst (recordScheduleComputeError j e)) = cj_schedule j"
  "js_consecutiveErrors (cj_state (fst (recordScheduleComputeError j e))) = js_consecutiveErrors (cj_state j)"
  by (simp_all add: recordScheduleComputeError_def Let_def)

lemma every_not_past:
  assumes "cj_schedule j = Every_Schedule e a" and "computeJobNextRunAtMs env j now = Inr (Some t)"
  shows "now \<le> t"
proof -
  have "now \<le> every_next (max 1 k) anchor now" for k anchor by (rule every_next_bounds(1)) simp
  with assms show ?thesis
    by (auto simp: computeJobNextRunAtMs_def Let_def split: if_splits option.splits)
qed

lemma next_after_run_every:
  "cj_schedule j = Every_Schedule e a \<Longrightarrow> next_after_run env prev preserve endedAt j = Inr (Some t) \<Longrightarrow> endedAt \<le> t"
  by (auto simp: next_after_run_def split: if_splits dest: every_not_past [rotated])

lemma later_ge: "lowest \<le> later t lowest"
  by (simp add: later_def split: option.splits)

definition recurring :: "cron_job \<Rightarrow> bool" where
  "recurring j \<longleftrightarrow> (case cj_schedule j of At_Schedule _ _ \<Rightarrow> False | _ \<Rightarrow> True)"

definition is_cron :: "cron_job \<Rightarrow> bool" where
  "is_cron j \<longleftrightarrow> (case cj_schedule j of Cron_Schedule _ _ _ _ \<Rightarrow> True | _ \<Rightarrow> False)"

lemma recurring_spaced:
  assumes "recurring j" and "nextRun (fst (schedule_recurring env prev preserve r j)) = Some t"
  shows "rr_status r = Run_Error \<Longrightarrow>
      rr_endedAt r + errorBackoffMs (js_nullish (js_consecutiveErrors (cj_state j)) 1) DEFAULT_BACKOFF_SCHEDULE_MS \<le> t"
    and "rr_status r \<noteq> Run_Error \<Longrightarrow> is_cron j \<Longrightarrow> rr_endedAt r + MIN_REFIRE_GAP_MS \<le> t"
    and "rr_status r \<noteq> Run_Error \<Longrightarrow> rr_endedAt r \<le> t"
  using assms later_ge
  by (auto simp: schedule_recurring_def recurring_def is_cron_def Let_def MIN_REFIRE_GAP_MS_def later_def
      split: if_splits cron_schedule.splits sum.splits prod.splits option.splits dest: next_after_run_every)

section \<open>One-shot jobs\<close>

text \<open>A job after runs that ended with the given results, one after the other.\<close>

fun after_runs :: "cron_env \<Rightarrow> cron_config \<Rightarrow> int \<Rightarrow> run_result list \<Rightarrow> cron_job \<Rightarrow> cron_job" where
  "after_runs env cfg now [] j = j"
| "after_runs env cfg now (r # rs) j = after_runs env cfg now rs (fst (snd (applyJobResult env cfg now False r j)))"

lemma after_runs_snoc:
  "after_runs env cfg now (rs @ [r]) j = fst (snd (applyJobResult env cfg now False r (after_runs env cfg now rs j)))"
  by (induction rs arbitrary: j) simp_all

lemma schedule_one_shot_same [simp]:
  "cj_schedule (schedule_one_shot cfg r j) = cj_schedule j"
  "js_consecutiveErrors (cj_state (schedule_one_shot cfg r j)) = js_consecutiveErrors (cj_state j)"
  by (simp_all add: schedule_one_shot_def Let_def)

lemma one_shot_result:
  assumes "\<not> recurring j" and "rr_status r = Run_Error"
  shows "fst (snd (applyJobResult env cfg now preserve r j)) = schedule_one_shot cfg r (fst (count_result cfg now r (store_result r j)))"
  using assms by (simp add: applyJobResult_def Let_def split_beta recurring_def split: cron_schedule.splits)

lemma one_shot_errors:
  assumes "\<not> recurring j" and "list_all (\<lambda>r. rr_status r = Run_Error) rs"
  shows "\<not> recurring (after_runs env cfg now rs j)"
    and "errors_of (after_runs env cfg now rs j) = errors_of j + int (length rs)"
proof -
  have "\<not> recurring (after_runs env cfg now rs j) \<and> errors_of (after_runs env cfg now rs j) = errors_of j + int (length rs)"
    using assms(2)
  proof (induction rs rule: rev_induct)
    case (snoc r rs)
    let ?k = "after_runs env cfg now rs j"
    have k: "\<not> recurring ?k" "errors_of ?k = errors_of j + int (length rs)" and r: "rr_status r = Run_Error" using snoc by auto
    have "recurring (schedule_one_shot cfg r (fst (count_result cfg now r (store_result r ?k)))) = recurring ?k"
      by (simp add: recurring_def)
    moreover have "errors_of (fst (count_result cfg now r (store_result r ?k))) = errors_of ?k + 1"
      using r by (simp add: count_result_errors)
    ultimately show ?case using k r by (simp add: after_runs_snoc one_shot_result)
  qed (use assms(1) in simp)
  then show "\<not> recurring (after_runs env cfg now rs j)"
    "errors_of (after_runs env cfg now rs j) = errors_of j + int (length rs)" by simp_all
qed

section \<open>The timer\<close>

lemma nextWake_min:
  assumes "j \<in> set jobs" "cj_enabled j" "nextRun j = Some t" and "\<And>k u. k \<in> set jobs \<Longrightarrow> nextRun k = Some u \<Longrightarrow> 0 < u"
  shows "\<exists>m. nextWakeAtMs jobs = Some m \<and> m \<le> t \<and> 0 < m"
proof -
  have le: "foldl (\<lambda>m k. min m (the (nextRun k))) z ks \<le> z" for z and ks :: "cron_job list"
  proof (induction ks arbitrary: z)
    case (Cons q ks)
    show ?case using Cons.IH [of "min z (the (nextRun q))"] by simp
  qed simp
  have mem: "k \<in> set ks \<Longrightarrow> foldl (\<lambda>m k. min m (the (nextRun k))) z ks \<le> the (nextRun k)" for z k and ks :: "cron_job list"
  proof (induction ks arbitrary: z)
    case (Cons q ks)
    then show ?case using le [of "min z (the (nextRun q))" ks] by auto
  qed simp
  have pos: "0 < z \<Longrightarrow> (\<And>k. k \<in> set ks \<Longrightarrow> 0 < the (nextRun k)) \<Longrightarrow> 0 < foldl (\<lambda>m k. min m (the (nextRun k))) z ks"
    for z and ks :: "cron_job list"
    by (induction ks arbitrary: z) auto
  let ?f = "filter (\<lambda>j. cj_enabled j \<and> nextRun j \<noteq> None) jobs"
  have j: "j \<in> set ?f" using assms(1-3) by simp
  then obtain k ks where f: "?f = k # ks" by (metis list.exhaust list.set_cases)
  let ?m = "foldl (\<lambda>m k. min m (the (nextRun k))) (the (nextRun k)) (k # ks)"
  have all: "0 < the (nextRun q)" if "q \<in> set (k # ks)" for q
    using that assms(4) [of q] unfolding f [symmetric] by auto
  have "nextWakeAtMs jobs = Some ?m" using f by (simp add: nextWakeAtMs_def)
  moreover have "j \<in> set (k # ks)" using j unfolding f .
  then have "?m \<le> t" using mem [of j "k # ks" "the (nextRun k)"] assms(3) by simp
  moreover have "0 < ?m" by (rule pos) (use all in auto)
  ultimately show ?thesis by blast
qed

end
