(* ===== verification/Cron_Props.thy ===== *)
theory Cron_Props
  imports Cron_Slots Cron_Timing
begin

text \<open>
  The properties of the cron service, the runs that show that their hypotheses can hold, and the runs behind
  what the modelling found.
\<close>

section \<open>Samples\<close>

definition sample_env :: cron_env where
  "sample_env = \<lparr>ce_dateParse = (\<lambda>_. None), ce_toNumber = (\<lambda>_. NaN), ce_nextRun = (\<lambda>_ _ now. Inr (Some (now + 60000))),
     ce_previousRun = (\<lambda>_ _ _. Inr None), ce_digest = (\<lambda>_. 0), ce_timeZone = ''UTC'', ce_isHttpUrl = (\<lambda>_. False)\<rparr>"

definition sample_config :: cron_config where
  "sample_config = \<lparr>cf_maxAttempts = None, cf_backoffMs = None, cf_retryOn = None, cf_failureAlert = None,
     cf_maxConcurrentRuns = None, cf_maxMissedJobs = None, cf_missedStaggerMs = None, cf_hasAlertSender = False,
     cf_defaultAgentId = None, cf_cronEnabled = True\<rparr>"

definition sample_job :: "string \<Rightarrow> bool \<Rightarrow> int option \<Rightarrow> cron_job" where
  "sample_job jobId enabled due =
     \<lparr>cj_id = jobId, cj_agentId = None, cj_sessionKey = None, cj_name = jobId, cj_description = None, cj_enabled = enabled,
      cj_deleteAfterRun = None, cj_createdAtMs = 0, cj_updatedAtMs = 0,
      cj_schedule = Cron_Schedule (Some ''* * * * *'') None None Raw_Missing, cj_sessionTarget = ''main'',
      cj_wakeMode = Wake_Next_Heartbeat, cj_payload = System_Payload ''tick'', cj_delivery = None,
      cj_failureAlert = Alert_Unset, cj_state = empty_state\<lparr>js_nextRunAtMs := due\<rparr>\<rparr>"

definition sample_create :: cron_create where
  "sample_create = \<lparr>cc_agentId = None, cc_sessionKey = None, cc_name = Some ''new'', cc_description = None, cc_enabled = None,
     cc_deleteAfterRun = None, cc_schedule = Cron_Schedule (Some ''* * * * *'') None None Raw_Missing,
     cc_sessionTarget = ''main'', cc_wakeMode = Wake_Now, cc_payload = System_Payload ''x'', cc_delivery = None,
     cc_failureAlert = Alert_Unset, cc_state = empty_state\<rparr>"

definition sample_disk :: "cron_job list" where
  "sample_disk = [sample_job ''a'' True (Some 1000), sample_job ''b'' True (Some 90000)]"

definition sample_run :: "cron_event list \<Rightarrow> cron_world option" where
  "sample_run evs = cron_run sample_env sample_config evs (initial_world sample_disk 0)"

text \<open>The service is started before anything is due; the timer fires, job a is run by the tick and job b by hand.\<close>

definition sample_start :: "cron_event list" where
  "sample_start = [Start_Clears 10, Start_Plans 20, Start_Applies 30, Start_Arms 40]"

definition sample_events :: "cron_event list" where
  "sample_events = sample_start @ [Tick_Fires, Tick_Collects 1000, Tick_Starts True 1010, Passes ''b'' True 1020,
     Reserves 0 True 1030]"

text \<open>The calm runs of a list of events.\<close>

fun calm_run :: "cron_env \<Rightarrow> cron_config \<Rightarrow> cron_event list \<Rightarrow> cron_world \<Rightarrow> bool" where
  "calm_run env cfg [] w = True"
| "calm_run env cfg (ev # evs) w =
     (calm ev w \<and> (case cron_step env cfg ev w of None \<Rightarrow> False | Some w1 \<Rightarrow> calm_run env cfg evs w1))"

lemma calm_run_reachable:
  "calm_reachable env cfg w \<Longrightarrow> calm_run env cfg evs w \<Longrightarrow> cron_run env cfg evs w = Some w' \<Longrightarrow> calm_reachable env cfg w'"
proof (induction evs arbitrary: w)
  case (Cons ev evs)
  then obtain w1 where w1: "cron_step env cfg ev w = Some w1" "calm ev w" "calm_run env cfg evs w1"
    by (auto split: option.splits)
  then show ?case using Cons.IH [OF calm_reachable.event [OF Cons.prems(1) w1(2,1)]] Cons.prems(3) by simp
qed simp

lemma run_reachable: "cron_reachable env cfg w \<Longrightarrow> cron_run env cfg evs w = Some w' \<Longrightarrow> cron_reachable env cfg w'"
proof (induction evs arbitrary: w)
  case (Cons ev evs)
  then obtain w1 where w1: "cron_step env cfg ev w = Some w1" "cron_run env cfg evs w1 = Some w'"
    by (auto split: bind_splits)
  show ?case by (rule Cons.IH [OF cron_reachable.event [OF Cons.prems(1) w1(1)] w1(2)])
qed simp

definition sample_world :: "cron_event list \<Rightarrow> cron_world" where
  "sample_world evs = the (sample_run evs)"

lemma sample_some: "sample_run evs \<noteq> None \<Longrightarrow> sample_run evs = Some (sample_world evs)"
  by (auto simp: sample_world_def)

lemma sample_reachable: "sample_run evs \<noteq> None \<Longrightarrow> cron_reachable sample_env sample_config (sample_world evs)"
  using run_reachable [OF cron_reachable.initial] sample_some unfolding sample_run_def by blast

lemma sample_calm: "calm_run sample_env sample_config sample_events (initial_world sample_disk 0)"
  by code_simp

lemma sample_runs: "sample_run sample_events \<noteq> None" "sample_run sample_start \<noteq> None"
  by code_simp+

section \<open>One run at a time\<close>

text \<open>C28: no job has two runs in flight, however ticks, the start's catch-up, manual runs and all other requests
  are interleaved, as long as runs end within two hours, patches neither switch a job on or off nor change its
  marker, and no disabled job is forced to run.\<close>

theorem no_two_runs_of_a_job:
  assumes "calm_reachable env cfg w"
  shows "distinct (in_flight w)"
  using calm_reachable_inv [OF assms] by (simp add: flight_inv_def)

theorem no_two_runs_of_a_job_witness:
  "in_flight (sample_world sample_events) = [''a'', ''b''] \<and> distinct (in_flight (sample_world sample_events))"
proof -
  have "calm_reachable sample_env sample_config (initial_world sample_disk 0)"
    by (rule calm_reachable.initial) code_simp
  then have "calm_reachable sample_env sample_config (sample_world sample_events)"
    using calm_run_reachable sample_calm sample_some [OF sample_runs(1)] unfolding sample_run_def by blast
  moreover have "in_flight (sample_world sample_events) = [''a'', ''b'']" by code_simp
  ultimately show ?thesis using no_two_runs_of_a_job [of sample_env sample_config "sample_world sample_events"] by blast
qed

section \<open>Due slots\<close>

text \<open>C29: a slot that was not run stays with its job, in memory and on the disk, until a run of the job begins,
  whatever step the service takes except an addition or the end of the start after the slot is due, the catch-up
  that postpones this job, a change of this job, or the loss of the memory; and the next tick begins its run.\<close>

theorem due_slot_waits_for_its_run:
  assumes "cron_reachable env cfg w" and "has_slot i t (cw_service w)" and "i \<notin> set (in_flight w)"
    and "\<not> moves_slot i t ev w" and "cron_step env cfg ev w = Some w'"
  shows "(i \<in> set (in_flight w') \<or> has_slot i t (cw_service w')) \<and>
    (\<forall>now. ev = Tick_Collects now \<and> t \<le> now \<longrightarrow> i \<in> set (in_flight w'))"
proof -
  have wf: "world_wf w" by (rule reachable_world [OF assms(1)])
  have "i \<in> set (in_flight w')" if ev: "ev = Tick_Collects now" and t: "t \<le> now" for now
  proof -
    have ph: "cw_tick w = Tick_Entered" using assms(5) ev
      by (auto simp: cron_step_def tick_step_def start_step_def request_step_def Let_def split: if_splits tick_phase.splits)
    obtain due s1 where c: "collect_due env now now (cw_service w) = (due, s1)" by fastforce
    have "objects_ok (tick_due (cw_tick w)) (cw_service w)" using wf by (simp add: world_wf_def)
    then have "i \<in> fst ` set due" by (rule slot_collect(2) [OF assms(2) _ c t])
    moreover have "w' = (at_time_of now w s1)\<lparr>cw_tick := Tick_Running
        \<lparr>tk_due = due, tk_started = [], tk_results = replicate (length due) None\<rparr>\<rparr>"
      using assms(5) ev ph c by (auto simp: cron_step_def tick_step_def Let_def split: if_splits)
    ultimately show ?thesis by (simp add: tick_ids_def)
  qed
  then show ?thesis using slot_step [OF wf assms(2-5)] by blast
qed

definition fired :: "cron_event list" where
  "fired = sample_start @ [Reads 50, Tick_Fires]"

lemma fired_run: "sample_run fired \<noteq> None" "sample_run (fired @ [Tick_Collects 1000]) \<noteq> None"
  by code_simp+

theorem due_slot_waits_for_its_run_witness:
  "has_slot ''a'' 1000 (cw_service (sample_world fired)) \<and>
     ''a'' \<in> set (in_flight (sample_world (fired @ [Tick_Collects 1000])))"
proof -
  have slot: "has_slot ''a'' 1000 (cw_service (sample_world fired))" by code_simp
  have idle: "''a'' \<notin> set (in_flight (sample_world fired))" by code_simp
  have st: "\<not> moves_slot ''a'' 1000 (Tick_Collects 1000) (sample_world fired)" by (simp add: moves_slot_def)
  have "cron_step sample_env sample_config (Tick_Collects 1000) (sample_world fired) \<noteq> None \<and>
      the (cron_step sample_env sample_config (Tick_Collects 1000) (sample_world fired)) =
        sample_world (fired @ [Tick_Collects 1000])" by code_simp
  then have step: "cron_step sample_env sample_config (Tick_Collects 1000) (sample_world fired) =
      Some (sample_world (fired @ [Tick_Collects 1000]))" by (metis option.collapse)
  show ?thesis
    using slot due_slot_waits_for_its_run [OF sample_reachable [OF fired_run(1)] slot idle st step] by blast
qed

section \<open>The time of the next run\<close>

text \<open>C30: the result of a run never leaves its job due at once. After an error a recurring job waits at least the
  delay of its count of consecutive errors, and a one-shot job exactly the delay of the retry configuration; after
  a success only a recurring job runs again, not before the run ended, and a cron expression not within two
  seconds of it.\<close>

theorem runs_are_spaced:
  assumes "applyJobResult env cfg now preserve r j = (False, j', out)" and "nextRun j' = Some t"
  shows "(if rr_status r = Run_Error
      then (if recurring j then rr_endedAt r + errorBackoffMs (errors_of j + 1) DEFAULT_BACKOFF_SCHEDULE_MS \<le> t
            else t = rr_endedAt r + errorBackoffMs (errors_of j + 1) (rt_backoffMs (resolveRetryConfig cfg)))
      else recurring j \<and> rr_endedAt r \<le> t \<and> (is_cron j \<longrightarrow> rr_endedAt r + MIN_REFIRE_GAP_MS \<le> t))"
proof -
  let ?k = "fst (count_result cfg now r (store_result r j))"
  have rec: "recurring ?k = recurring j" "is_cron ?k = is_cron j" by (simp_all add: recurring_def is_cron_def)
  show ?thesis
  proof (cases "recurring j")
    case True
    then have "nextRun (fst (schedule_recurring env (lastRun j) preserve r ?k)) = Some t"
      using assms by (simp add: applyJobResult_def Let_def split_beta recurring_def split: cron_schedule.splits)
    note s = recurring_spaced [OF _ this, unfolded rec]
    have "js_nullish (js_consecutiveErrors (cj_state ?k)) 1 = errors_of j + 1" if "rr_status r = Run_Error"
      by (simp add: count_result_errors(2) [OF that])
    then show ?thesis using s True by auto
  next
    case False
    then have "nextRun (schedule_one_shot cfg r ?k) = Some t"
      using assms by (simp add: applyJobResult_def Let_def split_beta recurring_def split: cron_schedule.splits if_splits)
    then show ?thesis using False count_result_errors(1) [of cfg now r "store_result r j"]
      by (auto simp: schedule_one_shot_def Let_def split: if_splits)
  qed
qed

definition failed :: "int \<Rightarrow> run_result" where
  "failed endedAt = \<lparr>rr_status = Run_Error, rr_error = Some ''socket'', rr_delivered = None, rr_startedAt = endedAt - 10,
     rr_endedAt = endedAt\<rparr>"

theorem runs_are_spaced_witness:
  "nextRun (fst (snd (applyJobResult sample_env sample_config 5 False (failed 2000) (sample_job ''a'' True (Some 1000))))) = Some 62000
     \<and> 2000 + errorBackoffMs 1 DEFAULT_BACKOFF_SCHEDULE_MS \<le> 62000"
proof -
  let ?j = "sample_job ''a'' True (Some 1000)"
  obtain d k out where r: "applyJobResult sample_env sample_config 5 False (failed 2000) ?j = (d, k, out)" by (rule prod_cases3)
  have "fst (applyJobResult sample_env sample_config 5 False (failed 2000) ?j) = False \<and>
      nextRun (fst (snd (applyJobResult sample_env sample_config 5 False (failed 2000) ?j))) = Some 62000" by code_simp
  then have k: "d = False" "nextRun k = Some 62000" using r by simp_all
  have "rr_status (failed 2000) = Run_Error \<and> recurring ?j \<and> rr_endedAt (failed 2000) = 2000 \<and> errors_of ?j = 0" by code_simp
  then show ?thesis using runs_are_spaced [of sample_env sample_config 5 False "failed 2000" ?j k out 62000] r k by simp
qed

text \<open>C31: a one-shot job that only fails is retried at most as often as the configuration says and is then switched
  off for good, also for the catch-up of a restart; while it is below the limit, a transient error gives it one
  more run.\<close>

theorem one_shot_is_given_up:
  assumes "\<not> recurring j" and "list_all (\<lambda>r. rr_status r = Run_Error) rs" and "rs \<noteq> []"
  shows "(rt_maxAttempts (resolveRetryConfig cfg) < errors_of j + int (length rs) \<longrightarrow>
       \<not> cj_enabled (after_runs env cfg now rs j) \<and> nextRun (after_runs env cfg now rs j) = None \<and>
       \<not> isRunnableJob env skip startup t (after_runs env cfg now rs j)) \<and>
     (errors_of j + int (length rs) \<le> rt_maxAttempts (resolveRetryConfig cfg) \<and>
        isTransientCronError (rr_error (last rs)) (rt_retryOn (resolveRetryConfig cfg)) \<longrightarrow>
       nextRun (after_runs env cfg now rs j) = Some (rr_endedAt (last rs) +
         errorBackoffMs (errors_of j + int (length rs)) (rt_backoffMs (resolveRetryConfig cfg))))"
proof -
  obtain qs r where rs: "rs = qs @ [r]" using assms(3) by (metis append_butlast_last_id)
  let ?k = "after_runs env cfg now qs j"
  let ?c = "fst (count_result cfg now r (store_result r ?k))"
  have q: "list_all (\<lambda>r. rr_status r = Run_Error) qs" and r: "rr_status r = Run_Error" using assms(2) rs by auto
  note k = one_shot_errors [OF assms(1) q, of env cfg now]
  have e: "after_runs env cfg now rs j = schedule_one_shot cfg r ?c"
    unfolding rs after_runs_snoc by (rule one_shot_result [OF k(1) r])
  have n: "errors_of ?c = errors_of j + int (length rs)" using k(2) r rs by (simp add: count_result_errors)
  show ?thesis unfolding e
    using n r rs by (auto simp: schedule_one_shot_def Let_def isRunnableJob_def)
qed

definition one_shot :: cron_job where
  "one_shot = (sample_job ''o'' True (Some 1000))\<lparr>cj_schedule := At_Schedule (Some ''soon'') Raw_Missing\<rparr>"

theorem one_shot_is_given_up_witness:
  "\<not> cj_enabled (after_runs sample_env sample_config 5 [failed 1, failed 2, failed 3, failed 4] one_shot) \<and>
   nextRun (after_runs sample_env sample_config 5 [failed 1, failed 2, failed 3] one_shot) = Some 300003"
proof -
  have o: "\<not> recurring one_shot" "errors_of one_shot = 0" by code_simp+
  have f: "list_all (\<lambda>r. rr_status r = Run_Error) [failed 1, failed 2, failed 3, failed 4]" by (simp add: failed_def)
  have m: "rt_maxAttempts (resolveRetryConfig sample_config) = 3" by code_simp
  have "nextRun (after_runs sample_env sample_config 5 [failed 1, failed 2, failed 3] one_shot) = Some 300003" by code_simp
  moreover have "\<not> cj_enabled (after_runs sample_env sample_config 5 [failed 1, failed 2, failed 3, failed 4] one_shot)"
    using one_shot_is_given_up [OF o(1) f, of sample_config sample_env 5] o(2) m by simp
  ultimately show ?thesis by blast
qed


definition loaded_service :: cron_service where
  "loaded_service = reload (createCronServiceState sample_disk)"


section \<open>What the modelling found\<close>

text \<open>An addition recomputes the slots of all jobs, so a job that is due and was never run loses its slot.\<close>

lemma addition_skips_due_slot:
  "has_slot ''a'' 1000 (cw_service (sample_world fired)) \<and>
   map (\<lambda>j. (cj_id j, nextRun j, lastRun j))
     (jobs_of (cw_service (sample_world (fired @ [Adds ''c'' 1000 sample_create])))) =
     [(''a'', Some 61000, None), (''b'', Some 90000, None), (''c'', Some 61000, None)]"
  by code_simp

text \<open>The end of the start does the same to a job that became due while the catch-up ran.\<close>

lemma start_skips_due_slot:
  "map (\<lambda>j. (cj_id j, nextRun j, lastRun j)) (jobs_of (cw_service (sample_world
      [Start_Clears 10, Start_Plans 20, Start_Applies 1000, Start_Arms 1000]))) =
     [(''a'', Some 61000, None), (''b'', Some 90000, None)]"
  by code_simp

text \<open>A tick that is under way when the service is stopped sets the timer again.\<close>

lemma stop_during_a_tick_is_undone:
  "cs_timer (cw_service (sample_world (sample_events @
      [Stops, Tick_Run_Ends 0 (ok_outcome ''x'') 1040, Tick_Applies 1050, Tick_Ends 1060]))) = Some 59980"
  by code_simp

text \<open>Reading the list of jobs while a disabled job is forced to run removes its marker, and it can be forced again.\<close>

lemma disabled_job_runs_twice_at_once:
  "in_flight (the (cron_run sample_env sample_config
      [Passes ''d'' True 10, Reserves 0 True 11, Reads 12, Passes ''d'' True 13, Reserves 0 True 14]
      (initial_world [sample_job ''d'' False None] 0))) = [''d'', ''d'']"
  by code_simp

text \<open>A patch that is refused leaves its earlier changes in the store, and the next read or change saves them.\<close>

definition refused_patch :: cron_patch where
  "refused_patch = \<lparr>cp_name = Some (Some ''renamed''), cp_description = None, cp_enabled = None, cp_deleteAfterRun = None,
     cp_schedule = None, cp_sessionTarget = Some ''isolated'', cp_wakeMode = None, cp_payload = None, cp_delivery = None,
     cp_failureAlert = Alert_Keep, cp_state = id, cp_agentId = None, cp_sessionKey = None\<rparr>"

lemma refused_patch_is_kept:
  "(case update sample_env sample_config ''a'' refused_patch 50 50 loaded_service of
      (answer, s) \<Rightarrow> (answer, map (\<lambda>j. (cj_name j, cj_sessionTarget j)) (jobs_of s))) =
     (Inl Isolated_Requires_AgentTurn, [(''renamed'', ''isolated''), (''b'', ''main'')])"
  by code_simp

end
