(* ===== verification/Transcript_Repair.thy ===== *)
theory Transcript_Repair
  imports Config_Values
begin

text \<open>
  The repair of transcripts before a model sees them: \<^verbatim>\<open>src/agents/session-transcript-repair.ts\<close>, with the
  extraction of call and result ids from \<^verbatim>\<open>src/agents/tool-call-id.ts\<close>.

  A transcript is a list of messages read from a session file, so a message is any JSON value, and the code
  looks at its fields with care. Where the code tells a changed object from an unchanged one by identity, the
  model returns an option: no value means that the same object is kept. The clock of the synthetic results is
  read once for each of them.
\<close>

section \<open>Fields of messages and blocks\<close>

text \<open>A value of type \<open>object\<close> that is not null, as its own properties; an array has none of the names that
  are read here.\<close>

definition object_of :: "json \<Rightarrow> plain_object option" where
  "object_of v = (case v of JObj ob \<Rightarrow> Some ob | JArr _ \<Rightarrow> Some [] | _ \<Rightarrow> None)"

definition string_of :: "json \<Rightarrow> string option" where
  "string_of v = (case v of JStr s \<Rightarrow> Some s | _ \<Rightarrow> None)"

definition array_of :: "json \<Rightarrow> json list option" where
  "array_of v = (case v of JArr vs \<Rightarrow> Some vs | _ \<Rightarrow> None)"

definition TOOL_CALL_TYPES :: "string list" where
  "TOOL_CALL_TYPES = [''toolCall'', ''toolUse'', ''functionCall'']"

definition has_call_type :: "plain_object \<Rightarrow> bool" where
  "has_call_type ob = (case string_of (obj_get ob ''type'') of Some t \<Rightarrow> t \<in> set TOOL_CALL_TYPES | None \<Rightarrow> False)"

definition isRawToolCallBlock :: "json \<Rightarrow> bool" where
  "isRawToolCallBlock b = (case object_of b of Some ob \<Rightarrow> has_call_type ob | None \<Rightarrow> False)"

definition hasToolCallInput :: "plain_object \<Rightarrow> bool" where
  "hasToolCallInput ob =
     (let present = (\<lambda>k. js_in k ob \<and> obj_get ob k \<noteq> JUndef \<and> obj_get ob k \<noteq> JNull)
      in present ''input'' \<or> present ''arguments'')"

definition hasNonEmptyStringField :: "json \<Rightarrow> bool" where
  "hasNonEmptyStringField v = (case string_of v of Some s \<Rightarrow> js_trim s \<noteq> [] | None \<Rightarrow> False)"

definition hasToolCallId :: "plain_object \<Rightarrow> bool" where
  "hasToolCallId ob = hasNonEmptyStringField (obj_get ob ''id'')"

text \<open>A set of names is the list of its elements.\<close>

definition normalizeAllowedToolNames :: "json list option \<Rightarrow> string list option" where
  "normalizeAllowedToolNames names =
     (case names of
        None \<Rightarrow> None
      | Some vs \<Rightarrow>
          (case List.map_filter (\<lambda>v. case string_of v of
                 Some s \<Rightarrow> if js_trim s = [] then None else Some (js_lower (js_trim s))
               | None \<Rightarrow> None) vs of
             [] \<Rightarrow> None | ns \<Rightarrow> Some (js_unique ns)))"

definition TOOL_CALL_NAME_MAX_CHARS :: nat where
  "TOOL_CALL_NAME_MAX_CHARS = 64"

definition name_char :: "char \<Rightarrow> bool" where
  "name_char c = (let n = of_char c :: nat in
     65 \<le> n \<and> n \<le> 90 \<or> 97 \<le> n \<and> n \<le> 122 \<or> 48 \<le> n \<and> n \<le> 57 \<or> c \<in> set ''_:.-'')"

definition hasToolCallName :: "string list option \<Rightarrow> plain_object \<Rightarrow> bool" where
  "hasToolCallName allowed ob =
     (case string_of (obj_get ob ''name'') of
        None \<Rightarrow> False
      | Some name \<Rightarrow>
          let t = js_trim name
          in if t = [] then False
             else if TOOL_CALL_NAME_MAX_CHARS < length t \<or> \<not> list_all name_char t then False
             else (case allowed of None \<Rightarrow> True | Some ns \<Rightarrow> js_lower t \<in> set ns))"

section \<open>The repair of calls\<close>

definition redacted :: json where
  "redacted = JStr ''__OPENCLAW_REDACTED__''"

definition redact_item :: "json \<Rightarrow> json" where
  "redact_item item =
     (case object_of item of
        None \<Rightarrow> item
      | Some a \<Rightarrow>
          if map_get a ''content'' = None then item
          else JObj (map_put ''content'' redacted (map_del ''content'' a)))"

text \<open>No value when the argument itself is returned.\<close>

definition redactSessionsSpawnAttachmentsArgs :: "json \<Rightarrow> json option" where
  "redactSessionsSpawnAttachmentsArgs v =
     (case object_of v of
        None \<Rightarrow> None
      | Some rec \<Rightarrow>
          (case array_of (obj_get rec ''attachments'') of
             None \<Rightarrow> None
           | Some raw \<Rightarrow> Some (JObj (map_put ''attachments'' (JArr (map redact_item raw)) rec))))"

definition put_if :: "bool \<Rightarrow> string \<Rightarrow> json \<Rightarrow> plain_object \<Rightarrow> plain_object" where
  "put_if b k v ob = (if b then map_put k v ob else ob)"

definition sanitizeToolCallBlock :: "plain_object \<Rightarrow> plain_object option" where
  "sanitizeToolCallBlock ob =
     (let rawName = string_of (obj_get ob ''name'');
          trimmedName = map_option js_trim rawName;
          hasTrimmedName = js_truthy trimmedName;
          nameChanged = (hasTrimmedName \<and> rawName \<noteq> trimmedName);
          isSessionsSpawn = (hasTrimmedName \<and> js_lower (the trimmedName) = ''sessions_spawn'')
      in if \<not> isSessionsSpawn then
           (if \<not> nameChanged then None else Some (map_put ''name'' (JStr (the trimmedName)) ob))
         else
           let nextArgs = redactSessionsSpawnAttachmentsArgs (obj_get ob ''arguments'');
               nextInput = redactSessionsSpawnAttachmentsArgs (obj_get ob ''input'')
           in if nextArgs = None \<and> nextInput = None \<and> \<not> nameChanged then None
              else
                let named = put_if nameChanged ''name'' (JStr (the trimmedName)) ob;
                    argued = put_if (nextArgs \<noteq> None \<or> map_get ob ''arguments'' \<noteq> None) ''arguments''
                      (js_nullish nextArgs (obj_get ob ''arguments'')) named
                in Some (put_if (nextInput \<noteq> None \<or> map_get ob ''input'' \<noteq> None) ''input''
                     (js_nullish nextInput (obj_get ob ''input'')) argued))"

text \<open>What becomes of one block of an assistant message: it is dropped, kept or replaced.\<close>

datatype fate = Drop_Block | Keep_Block | Replace_Block json

definition valid_call :: "string list option \<Rightarrow> plain_object \<Rightarrow> bool" where
  "valid_call allowed ob \<longleftrightarrow> hasToolCallInput ob \<and> hasToolCallId ob \<and> hasToolCallName allowed ob"

definition renamed :: "plain_object \<Rightarrow> plain_object option" where
  "renamed ob =
     (case string_of (obj_get ob ''name'') of
        Some rawName \<Rightarrow> if rawName \<noteq> js_trim rawName \<and> js_trim rawName \<noteq> []
          then Some (map_put ''name'' (JStr (js_trim rawName)) ob) else None
      | None \<Rightarrow> None)"

definition block_fate :: "string list option \<Rightarrow> json \<Rightarrow> fate" where
  "block_fate allowed b =
     (if \<not> isRawToolCallBlock b then Keep_Block
      else
        let ob = the (object_of b)
        in if \<not> valid_call allowed ob then Drop_Block
           else
             let blockName = map_option js_trim (string_of (obj_get ob ''name''));
                 next = (if map_option js_lower blockName = Some ''sessions_spawn'' then sanitizeToolCallBlock ob
                   else renamed ob)
             in (case next of None \<Rightarrow> Keep_Block | Some ob' \<Rightarrow> Replace_Block (JObj ob')))"

definition apply_fate :: "fate \<Rightarrow> json \<Rightarrow> json list" where
  "apply_fate f b = (case f of Drop_Block \<Rightarrow> [] | Keep_Block \<Rightarrow> [b] | Replace_Block b' \<Rightarrow> [b'])"

text \<open>The role of a message, and the content of an assistant message when it is an array.\<close>

definition role_of :: "json \<Rightarrow> string option" where
  "role_of msg = (case object_of msg of Some ob \<Rightarrow> string_of (obj_get ob ''role'') | None \<Rightarrow> None)"

definition assistant_content :: "json \<Rightarrow> (plain_object \<times> json list) option" where
  "assistant_content msg =
     (case object_of msg of
        Some ob \<Rightarrow>
          if string_of (obj_get ob ''role'') = Some ''assistant''
          then map_option (Pair ob) (array_of (obj_get ob ''content'')) else None
      | None \<Rightarrow> None)"

record input_report =
  ir_messages :: "json list"
  ir_droppedToolCalls :: nat
  ir_droppedAssistantMessages :: nat
  ir_changed :: bool

definition repair_message :: "string list option \<Rightarrow> json \<Rightarrow> input_report \<Rightarrow> input_report" where
  "repair_message allowed msg r =
     (case assistant_content msg of
        None \<Rightarrow> r\<lparr>ir_messages := ir_messages r @ [msg]\<rparr>
      | Some (ob, content) \<Rightarrow>
          let fates = map (block_fate allowed) content;
              nextContent = concat (map2 apply_fate fates content);
              droppedInMessage = length (filter (\<lambda>f. f = Drop_Block) fates);
              messageChanged = list_ex (\<lambda>f. f \<noteq> Keep_Block) fates;
              r1 = r\<lparr>ir_droppedToolCalls := ir_droppedToolCalls r + droppedInMessage,
                     ir_changed := (ir_changed r \<or> messageChanged)\<rparr>;
              msg' = JObj (map_put ''content'' (JArr nextContent) ob)
          in if 0 < droppedInMessage then
               (if nextContent = [] then r1\<lparr>ir_droppedAssistantMessages := ir_droppedAssistantMessages r + 1\<rparr>
                else r1\<lparr>ir_messages := ir_messages r @ [msg']\<rparr>)
             else if messageChanged then r1\<lparr>ir_messages := ir_messages r @ [msg']\<rparr>
             else r1\<lparr>ir_messages := ir_messages r @ [msg]\<rparr>)"

definition repairToolCallInputs :: "json list option \<Rightarrow> json list \<Rightarrow> input_report" where
  "repairToolCallInputs allowedToolNames messages =
     (let r = foldl (\<lambda>r msg. repair_message (normalizeAllowedToolNames allowedToolNames) msg r)
        \<lparr>ir_messages = [], ir_droppedToolCalls = 0, ir_droppedAssistantMessages = 0, ir_changed = False\<rparr> messages
      in r\<lparr>ir_messages := (if ir_changed r then ir_messages r else messages)\<rparr>)"

definition sanitizeToolCallInputs :: "json list option \<Rightarrow> json list \<Rightarrow> json list" where
  "sanitizeToolCallInputs allowedToolNames messages = ir_messages (repairToolCallInputs allowedToolNames messages)"

text \<open>The details of results, which a model never sees.\<close>

definition strip_details :: "json \<Rightarrow> json" where
  "strip_details msg =
     (case object_of msg of
        Some ob \<Rightarrow>
          if string_of (obj_get ob ''role'') = Some ''toolResult'' \<and> js_in ''details'' ob
          then JObj (map_del ''details'' ob) else msg
      | None \<Rightarrow> msg)"

definition stripToolResultDetails :: "json list \<Rightarrow> json list" where
  "stripToolResultDetails messages = map strip_details messages"

section \<open>Calls and results\<close>

definition call_of_block :: "json \<Rightarrow> (string \<times> string option) option" where
  "call_of_block b =
     (case object_of b of
        None \<Rightarrow> None
      | Some ob \<Rightarrow>
          (case string_of (obj_get ob ''id'') of
             Some i \<Rightarrow> if i \<noteq> [] \<and> has_call_type ob then Some (i, string_of (obj_get ob ''name'')) else None
           | None \<Rightarrow> None))"

definition extractToolCallsFromAssistant :: "json \<Rightarrow> (string \<times> string option) list" where
  "extractToolCallsFromAssistant msg =
     (case object_of msg of
        Some ob \<Rightarrow>
          (case array_of (obj_get ob ''content'') of Some content \<Rightarrow> List.map_filter call_of_block content | None \<Rightarrow> [])
      | None \<Rightarrow> [])"

definition extractToolResultId :: "json \<Rightarrow> string option" where
  "extractToolResultId msg =
     (case object_of msg of
        None \<Rightarrow> None
      | Some ob \<Rightarrow>
          let toolCallId = string_of (obj_get ob ''toolCallId''); toolUseId = string_of (obj_get ob ''toolUseId'')
          in if js_truthy toolCallId then toolCallId else if js_truthy toolUseId then toolUseId else None)"

definition makeMissingToolResult :: "int \<Rightarrow> string \<Rightarrow> string option \<Rightarrow> json" where
  "makeMissingToolResult now toolCallId toolName =
     JObj [(''role'', JStr ''toolResult''), (''toolCallId'', JStr toolCallId),
       (''toolName'', JStr (js_nullish toolName ''unknown'')),
       (''content'', JArr [JObj [(''type'', JStr ''text''),
          (''text'', JStr ''[openclaw] missing tool result in session history; inserted synthetic error result for transcript repair.'')]]),
       (''isError'', JBool True), (''timestamp'', JNum (Fin (of_int now)))]"

definition trimNonEmptyString :: "string option \<Rightarrow> string option" where
  "trimNonEmptyString v = (case v of Some s \<Rightarrow> if js_trim s = [] then None else Some (js_trim s) | None \<Rightarrow> None)"

text \<open>No value when the message itself is returned.\<close>

definition normalizeToolResultName :: "json \<Rightarrow> string option \<Rightarrow> json option" where
  "normalizeToolResultName msg fallbackName =
     (let ob = the (object_of msg);
          rawToolName = string_of (obj_get ob ''toolName'');
          named = (\<lambda>n. Some (JObj (map_put ''toolName'' (JStr n) ob)))
      in case trimNonEmptyString rawToolName of
           Some n \<Rightarrow> if rawToolName = Some n then None else named n
         | None \<Rightarrow>
             (case trimNonEmptyString fallbackName of
                Some n \<Rightarrow> named n
              | None \<Rightarrow> if rawToolName \<noteq> None then named ''unknown'' else None))"

section \<open>The pairing of calls and results\<close>

record pairing =
  pr_out :: "json list"
  pr_added :: "json list"
  pr_seen :: "string list"
  pr_droppedDuplicates :: nat
  pr_droppedOrphans :: nat
  pr_moved :: bool
  pr_changed :: bool

definition pushToolResult :: "json \<Rightarrow> pairing \<Rightarrow> pairing" where
  "pushToolResult msg p =
     (case extractToolResultId msg of
        Some i \<Rightarrow>
          if i \<in> set (pr_seen p)
          then p\<lparr>pr_droppedDuplicates := pr_droppedDuplicates p + 1, pr_changed := True\<rparr>
          else p\<lparr>pr_seen := i # pr_seen p, pr_out := pr_out p @ [msg]\<rparr>
      | None \<Rightarrow> p\<lparr>pr_out := pr_out p @ [msg]\<rparr>)"

text \<open>The span of an assistant turn: the results by their ids, and the other messages.\<close>

record span =
  sp_results :: "(string, json) js_map"
  sp_remainder :: "json list"

definition span_message :: "(string \<times> string option) list \<Rightarrow> json \<Rightarrow> span \<times> pairing \<Rightarrow> span \<times> pairing" where
  "span_message toolCalls next = (\<lambda>(sp, p).
     if role_of next \<noteq> Some ''toolResult'' then (sp\<lparr>sp_remainder := sp_remainder sp @ [next]\<rparr>, p)
     else
       (case extractToolResultId next of
          Some i \<Rightarrow>
            if i \<in> fst ` set toolCalls then
              if i \<in> set (pr_seen p)
              then (sp, p\<lparr>pr_droppedDuplicates := pr_droppedDuplicates p + 1, pr_changed := True\<rparr>)
              else
                let name = Option.bind (map_of (rev toolCalls) i) id;
                    normalized = normalizeToolResultName next name
                in (if map_get (sp_results sp) i = None
                    then sp\<lparr>sp_results := map_put i (js_nullish normalized next) (sp_results sp)\<rparr> else sp,
                    p\<lparr>pr_changed := (pr_changed p \<or> normalized \<noteq> None)\<rparr>)
            else (sp, p\<lparr>pr_droppedOrphans := pr_droppedOrphans p + 1, pr_changed := True\<rparr>)
        | None \<Rightarrow> (sp, p\<lparr>pr_droppedOrphans := pr_droppedOrphans p + 1, pr_changed := True\<rparr>)))"

definition is_assistant :: "json \<Rightarrow> bool" where
  "is_assistant msg \<longleftrightarrow> role_of msg = Some ''assistant''"

definition errored :: "json \<Rightarrow> bool" where
  "errored msg =
     (case object_of msg of
        Some ob \<Rightarrow> string_of (obj_get ob ''stopReason'') \<in> {Some ''error'', Some ''aborted''}
      | None \<Rightarrow> False)"

definition push_call :: "(nat \<Rightarrow> int) \<Rightarrow> (string, json) js_map \<Rightarrow> pairing \<Rightarrow> string \<times> string option \<Rightarrow> pairing" where
  "push_call clock results p call =
     (case map_get results (fst call) of
        Some existing \<Rightarrow> pushToolResult existing p
      | None \<Rightarrow>
          let missing = makeMissingToolResult (clock (length (pr_added p))) (fst call) (snd call)
          in pushToolResult missing (p\<lparr>pr_added := pr_added p @ [missing], pr_changed := True\<rparr>))"

definition push_existing :: "(string, json) js_map \<Rightarrow> pairing \<Rightarrow> string \<times> string option \<Rightarrow> pairing" where
  "push_existing results p call =
     (case map_get results (fst call) of Some existing \<Rightarrow> pushToolResult existing p | None \<Rightarrow> p)"

text \<open>\<open>dropErrored\<close> is the policy \<open>drop\<close>. The turn is the assistant message with what follows up to the next
  one.\<close>

definition repair_turn :: "(nat \<Rightarrow> int) \<Rightarrow> bool \<Rightarrow> json \<Rightarrow> json list \<Rightarrow> pairing \<Rightarrow> pairing" where
  "repair_turn clock dropErrored msg following p =
     (let toolCalls = extractToolCallsFromAssistant msg;
          (sp, p1) = foldl (\<lambda>s next. span_message toolCalls next s) (\<lparr>sp_results = [], sp_remainder = []\<rparr>, p) following;
          p2 = p1\<lparr>pr_out := pr_out p1 @ [msg]\<rparr>;
          p3 = (if errored msg then
                  (if \<not> dropErrored then foldl (push_existing (sp_results sp)) p2 toolCalls
                   else p2\<lparr>pr_changed := (pr_changed p2 \<or> sp_results sp \<noteq> [])\<rparr>)
                else
                  foldl (push_call clock (sp_results sp))
                    (if sp_results sp \<noteq> [] \<and> sp_remainder sp \<noteq> [] then p2\<lparr>pr_moved := True, pr_changed := True\<rparr> else p2)
                    toolCalls)
      in p3\<lparr>pr_out := pr_out p3 @ sp_remainder sp\<rparr>)"

function repair_loop :: "(nat \<Rightarrow> int) \<Rightarrow> bool \<Rightarrow> json list \<Rightarrow> pairing \<Rightarrow> pairing" where
  "repair_loop clock dropErrored [] p = p"
| "repair_loop clock dropErrored (msg # messages) p =
     (if role_of msg = Some ''toolResult''
      then repair_loop clock dropErrored messages (p\<lparr>pr_droppedOrphans := pr_droppedOrphans p + 1, pr_changed := True\<rparr>)
      else if \<not> is_assistant msg \<or> extractToolCallsFromAssistant msg = []
      then repair_loop clock dropErrored messages (p\<lparr>pr_out := pr_out p @ [msg]\<rparr>)
      else repair_loop clock dropErrored (dropWhile (\<lambda>m. \<not> is_assistant m) messages)
        (repair_turn clock dropErrored msg (takeWhile (\<lambda>m. \<not> is_assistant m) messages) p))"
  by pat_completeness auto
termination
  by (relation "measure (\<lambda>(_, _, ms, _). length ms)") (auto simp: le_imp_less_Suc length_dropWhile_le)

record use_report =
  ur_messages :: "json list"
  ur_added :: "json list"
  ur_droppedDuplicates :: nat
  ur_droppedOrphans :: nat
  ur_moved :: bool

definition empty_pairing :: pairing where
  "empty_pairing = \<lparr>pr_out = [], pr_added = [], pr_seen = [], pr_droppedDuplicates = 0, pr_droppedOrphans = 0,
     pr_moved = False, pr_changed = False\<rparr>"

definition repairToolUseResultPairing :: "(nat \<Rightarrow> int) \<Rightarrow> bool \<Rightarrow> json list \<Rightarrow> use_report" where
  "repairToolUseResultPairing clock dropErrored messages =
     (let p = repair_loop clock dropErrored messages empty_pairing;
          changedOrMoved = (pr_changed p \<or> pr_moved p)
      in \<lparr>ur_messages = (if changedOrMoved then pr_out p else messages), ur_added = pr_added p,
          ur_droppedDuplicates = pr_droppedDuplicates p, ur_droppedOrphans = pr_droppedOrphans p,
          ur_moved = changedOrMoved\<rparr>)"

definition sanitizeToolUseResultPairing :: "(nat \<Rightarrow> int) \<Rightarrow> bool \<Rightarrow> json list \<Rightarrow> json list" where
  "sanitizeToolUseResultPairing clock dropErrored messages =
     ur_messages (repairToolUseResultPairing clock dropErrored messages)"

end
