(* ===== verification/Transcript_Props.thy ===== *)
theory Transcript_Props
  imports Transcript_Repair
begin

text \<open>
  What the repair of transcripts guarantees: after a repair that changed anything each turn with calls is
  followed by exactly one result for each of its calls, the other messages stay as they were, and the calls
  that are left are complete and carry no attached content.
\<close>

section \<open>Turns\<close>

abbreviation is_result :: "json \<Rightarrow> bool" where
  "is_result m \<equiv> role_of m = Some ''toolResult''"

definition call_ids :: "json \<Rightarrow> string list" where
  "call_ids m = map fst (extractToolCallsFromAssistant m)"

definition with_calls :: "json \<Rightarrow> bool" where
  "with_calls m \<longleftrightarrow> is_assistant m \<and> extractToolCallsFromAssistant m \<noteq> []"

text \<open>The turns with calls: whether the turn failed, its calls, and the results that directly follow it.\<close>

fun turns :: "json list \<Rightarrow> (bool \<times> string list \<times> string option list) list" where
  "turns [] = []"
| "turns (m # ms) =
     (if with_calls m then (errored m, call_ids m, map extractToolResultId (takeWhile is_result ms)) # turns ms
      else turns ms)"

text \<open>The results that do not directly follow a turn with calls.\<close>

fun loose_results :: "json list \<Rightarrow> bool \<Rightarrow> json list" where
  "loose_results [] b = []"
| "loose_results (m # ms) b =
     (if is_result m then (if b then loose_results ms b else m # loose_results ms b)
      else loose_results ms (with_calls m))"

text \<open>No turn uses an id of an earlier turn.\<close>

fun fresh_ids :: "string list \<Rightarrow> json list \<Rightarrow> bool" where
  "fresh_ids seen [] = True"
| "fresh_ids seen (m # ms) =
     (if with_calls m then set (call_ids m) \<inter> set seen = {} \<and> fresh_ids (call_ids m @ seen) ms
      else fresh_ids seen ms)"

text \<open>Results only of calls of the turn, and of all of them unless the turn failed; each once.\<close>

definition turn_answered :: "bool \<times> string list \<times> string option list \<Rightarrow> bool" where
  "turn_answered = (\<lambda>(failed, ids, rs). set rs \<subseteq> Some ` set ids \<and> (\<not> failed \<longrightarrow> Some ` set ids \<subseteq> set rs))"

definition answered_once :: "bool \<times> string list \<times> string option list \<Rightarrow> bool" where
  "answered_once t \<longleftrightarrow> turn_answered t \<and> distinct (snd (snd t))"

lemma result_not_assistant: "is_result m \<Longrightarrow> \<not> is_assistant m"
  by (simp add: is_assistant_def)

lemma result_without_calls: "is_result m \<Longrightarrow> \<not> with_calls m"
  by (simp add: with_calls_def is_assistant_def)

lemma turns_skip: "list_all (\<lambda>m. \<not> is_assistant m) xs \<Longrightarrow> turns (xs @ ys) = turns ys"
  by (induction xs) (auto simp: with_calls_def)

lemma fresh_skip: "list_all (\<lambda>m. \<not> is_assistant m) xs \<Longrightarrow> fresh_ids seen (xs @ ys) = fresh_ids seen ys"
  by (induction xs) (auto simp: with_calls_def)

lemma loose_results_results: "list_all is_result rs \<Longrightarrow> loose_results (rs @ ys) True = loose_results ys True"
  by (induction rs) auto

lemma loose_skip:
  "list_all (\<lambda>m. \<not> is_assistant m \<and> \<not> is_result m) xs \<Longrightarrow>
     loose_results (xs @ ys) b = loose_results ys (if xs = [] then b else False)"
  by (induction xs arbitrary: b) (auto simp: with_calls_def)

text \<open>A list that does not begin with a result has the same loose results whatever precedes it.\<close>

lemma loose_start: "ys = [] \<or> \<not> is_result (hd ys) \<Longrightarrow> loose_results ys b = loose_results ys c"
  by (cases ys) auto

lemma loose_hd: "loose_results ys False = [] \<Longrightarrow> ys = [] \<or> \<not> is_result (hd ys)"
  by (cases ys) auto

lemma takeWhile_loose: "ys = [] \<or> \<not> is_result (hd ys) \<Longrightarrow> takeWhile is_result ys = []"
  by (cases ys) auto

section \<open>Results\<close>

lemma obj_get_put [simp]: "obj_get (map_put k v ob) k' = (if k' = k then v else obj_get ob k')"
  by (simp add: obj_get_def map_simps)

lemma object_of_JObj [simp]: "object_of (JObj ob) = Some ob"
  by (simp add: object_of_def)

lemma result_is_object: "is_result m \<Longrightarrow> \<exists>ob. m = JObj ob"
  by (cases m) (simp_all add: role_of_def object_of_def obj_get_def string_of_def inherited_keys_def)

lemma normalize_keeps:
  "normalizeToolResultName m n = Some v \<Longrightarrow> is_result m \<Longrightarrow>
     is_result v \<and> extractToolResultId v = extractToolResultId m"
  using result_is_object [of m]
  by (auto simp: normalizeToolResultName_def Let_def role_of_def extractToolResultId_def split: option.splits if_splits)

lemma missing_is_result [simp]: "is_result (makeMissingToolResult now i n)"
  by (simp add: makeMissingToolResult_def role_of_def obj_get_def string_of_def)

lemma missing_id: "i \<noteq> [] \<Longrightarrow> extractToolResultId (makeMissingToolResult now i n) = Some i"
  by (simp add: makeMissingToolResult_def extractToolResultId_def obj_get_def string_of_def js_truthy_def)

lemma set_map_filter_iff: "y \<in> set (List.map_filter f xs) \<longleftrightarrow> (\<exists>x\<in>set xs. f x = Some y)"
  by (induction xs) (auto simp: map_filter_simps split: option.splits)

lemma call_of_block_id: "call_of_block b = Some c \<Longrightarrow> fst c \<noteq> []"
  by (auto simp: call_of_block_def split: option.splits if_splits)

lemma call_id_nonempty: "c \<in> set (extractToolCallsFromAssistant m) \<Longrightarrow> fst c \<noteq> []"
  by (auto simp: extractToolCallsFromAssistant_def set_map_filter_iff dest: call_of_block_id split: option.splits)

text \<open>The ids that were not seen before, each once.\<close>

fun unseen :: "string list \<Rightarrow> string list \<Rightarrow> string list" where
  "unseen seen [] = []"
| "unseen seen (i # is) = (if i \<in> set seen then unseen seen is else i # unseen (i # seen) is)"

lemma set_unseen [simp]: "set (unseen seen is) = set is - set seen"
  by (induction seen "is" rule: unseen.induct) auto

lemma distinct_unseen [simp]: "distinct (unseen seen is)"
  by (induction seen "is" rule: unseen.induct) auto

definition results_ok :: "(string, json) js_map \<Rightarrow> bool" where
  "results_ok rs \<longleftrightarrow> (\<forall>i v. map_get rs i = Some v \<longrightarrow> is_result v \<and> extractToolResultId v = Some i)"

lemma push_calls:
  "results_ok res \<Longrightarrow> \<forall>c\<in>set cs. fst c \<noteq> [] \<Longrightarrow>
     \<exists>rs. pr_out (foldl (push_call clock res) p cs) = pr_out p @ rs \<and>
       map extractToolResultId rs = map Some (unseen (pr_seen p) (map fst cs)) \<and> list_all is_result rs \<and>
       set (pr_seen (foldl (push_call clock res) p cs)) = set (pr_seen p) \<union> set (map fst cs)"
proof (induction cs arbitrary: p)
  case (Cons c cs)
  let ?q = "push_call clock res p c"
  obtain v where v: "is_result v" "extractToolResultId v = Some (fst c)"
    and q: "pr_out ?q = (if fst c \<in> set (pr_seen p) then pr_out p else pr_out p @ [v])"
      "pr_seen ?q = (if fst c \<in> set (pr_seen p) then pr_seen p else fst c # pr_seen p)"
  proof (cases "map_get res (fst c)")
    case None
    then show ?thesis using that [of "makeMissingToolResult (clock (length (pr_added p))) (fst c) (snd c)"] Cons.prems
      by (simp add: push_call_def pushToolResult_def Let_def missing_id)
  next
    case (Some v)
    then have "is_result v" "extractToolResultId v = Some (fst c)"
      using Cons.prems(1) by (auto simp: results_ok_def)
    then show ?thesis using that [of v] Some by (simp add: push_call_def pushToolResult_def)
  qed
  obtain rs where rs: "pr_out (foldl (push_call clock res) ?q cs) = pr_out ?q @ rs"
    "map extractToolResultId rs = map Some (unseen (pr_seen ?q) (map fst cs))" "list_all is_result rs"
    "set (pr_seen (foldl (push_call clock res) ?q cs)) = set (pr_seen ?q) \<union> set (map fst cs)"
    using Cons.IH [of ?q] Cons.prems by auto
  show ?case
    by (rule exI [of _ "if fst c \<in> set (pr_seen p) then rs else v # rs"]) (use rs q v in auto)
qed simp

text \<open>Pushing only the results there are is pushing the calls that have one.\<close>

lemma push_existing_calls:
  "foldl (push_existing res) p cs = foldl (push_call clock res) p (filter (\<lambda>c. map_get res (fst c) \<noteq> None) cs)"
  by (induction cs arbitrary: p) (auto simp: push_existing_def push_call_def)

section \<open>One turn\<close>

text \<open>What the pass over the messages after a turn has established.\<close>

definition span_ok :: "(string \<times> string option) list \<Rightarrow> json list \<Rightarrow> pairing \<Rightarrow> span \<times> pairing \<Rightarrow> bool" where
  "span_ok calls following p s \<longleftrightarrow>
     (let (sp, q) = s
      in sp_remainder sp = filter (\<lambda>m. \<not> is_result m) following \<and>
         pr_out q = pr_out p \<and> pr_seen q = pr_seen p \<and> pr_added q = pr_added p \<and> pr_moved q = pr_moved p \<and>
         (\<forall>i v. map_get (sp_results sp) i = Some v \<longrightarrow>
            i \<in> fst ` set calls \<and> i \<notin> set (pr_seen p) \<and> is_result v \<and> extractToolResultId v = Some i \<and>
            (\<exists>m\<in>set following. is_result m \<and> (v = m \<or> (\<exists>n. normalizeToolResultName m n = Some v)))) \<and>
         (\<not> pr_changed q \<longrightarrow> \<not> pr_changed p \<and>
            (\<forall>m\<in>set following. is_result m \<longrightarrow>
               (\<exists>i. extractToolResultId m = Some i \<and> i \<in> fst ` set calls \<and> map_get (sp_results sp) i \<noteq> None))))"

lemma span_step: "span_ok calls following p s \<Longrightarrow> span_ok calls (following @ [m]) p (span_message calls m s)"
proof -
  assume ok: "span_ok calls following p s"
  obtain sp q where s: "s = (sp, q)" by (cases s)
  show ?thesis
  proof (cases "is_result m")
    case False
    then show ?thesis using ok by (auto simp: span_ok_def s span_message_def)
  next
    case r: True
    show ?thesis
    proof (cases "\<exists>i. extractToolResultId m = Some i \<and> i \<in> fst ` set calls \<and> i \<notin> set (pr_seen q)")
      case False
      then show ?thesis using ok r by (auto simp: span_ok_def s span_message_def split: option.splits)
    next
      case True
      then obtain i where i: "extractToolResultId m = Some i" "i \<in> fst ` set calls" "i \<notin> set (pr_seen q)" by blast
      let ?n = "normalizeToolResultName m (Option.bind (map_of (rev calls) i) id)"
      let ?v = "js_nullish ?n m"
      have v: "is_result ?v" "extractToolResultId ?v = Some i"
        using r i(1) by (auto simp: js_nullish_def dest: normalize_keeps split: option.splits)
      let ?res = "if map_get (sp_results sp) i = None then map_put i ?v (sp_results sp) else sp_results sp"
      have step: "span_message calls m s = (sp\<lparr>sp_results := ?res\<rparr>, q\<lparr>pr_changed := (pr_changed q \<or> ?n \<noteq> None)\<rparr>)"
        using r i by (simp add: s span_message_def Let_def)
      have old: "map_get (sp_results sp) j = Some w \<Longrightarrow>
            j \<in> fst ` set calls \<and> j \<notin> set (pr_seen p) \<and> is_result w \<and> extractToolResultId w = Some j \<and>
            (\<exists>m\<in>set following. is_result m \<and> (w = m \<or> (\<exists>n. normalizeToolResultName m n = Some w)))" for j w
        using ok by (simp add: span_ok_def s)
      have seen: "pr_seen q = pr_seen p" using ok by (simp add: span_ok_def s)
      have from_m: "?v = m \<or> (\<exists>n. normalizeToolResultName m n = Some ?v)"
        by (cases ?n) auto
      have entries: "map_get ?res j = Some w \<Longrightarrow>
            j \<in> fst ` set calls \<and> j \<notin> set (pr_seen p) \<and> is_result w \<and> extractToolResultId w = Some j \<and>
            (\<exists>m\<in>set (following @ [m]). is_result m \<and> (w = m \<or> (\<exists>n. normalizeToolResultName m n = Some w)))" for j w
      proof (cases "map_get (sp_results sp) j = Some w")
        case True
        then show ?thesis using old [of j w] by auto
      next
        case False
        assume "map_get ?res j = Some w"
        with False have "j = i" "w = ?v" by (auto simp: map_simps split: if_splits)
        then show ?thesis using i v from_m r seen by simp
      qed
      have kept: "map_get (sp_results sp) j \<noteq> None \<Longrightarrow> map_get ?res j \<noteq> None" for j
        by (simp add: map_simps)
      have here: "map_get ?res i \<noteq> None" by (simp add: map_simps)
      have unchanged: "\<not> pr_changed p \<and> (\<forall>x\<in>set (following @ [m]). is_result x \<longrightarrow>
             (\<exists>j. extractToolResultId x = Some j \<and> j \<in> fst ` set calls \<and> map_get ?res j \<noteq> None))"
        if "\<not> pr_changed q"
      proof -
        have "\<not> pr_changed p" and "\<forall>x\<in>set following. is_result x \<longrightarrow>
            (\<exists>j. extractToolResultId x = Some j \<and> j \<in> fst ` set calls \<and> map_get (sp_results sp) j \<noteq> None)"
          using ok that by (simp_all add: span_ok_def s)
        then show ?thesis using kept here i(1,2) by (metis Un_iff empty_iff empty_set insert_iff list.simps(15) set_append)
      qed
      define res where "res = ?res"
      show ?thesis unfolding step res_def [symmetric]
        using ok entries [folded res_def] unchanged [folded res_def] r by (simp add: span_ok_def s)
    qed
  qed
qed

lemma span_fold:
  "span_ok calls following p (foldl (\<lambda>s next. span_message calls next s) (\<lparr>sp_results = [], sp_remainder = []\<rparr>, p) following)"
proof (induction following rule: rev_induct)
  case Nil
  show ?case by (simp add: span_ok_def)
next
  case (snoc m following)
  then show ?case by (simp add: span_step)
qed

text \<open>The effect of a turn: the message, its results in the order of the calls, and the other messages of the
  span.\<close>

definition turn_results :: "json \<Rightarrow> string list \<Rightarrow> json list \<Rightarrow> bool" where
  "turn_results msg seen rs \<longleftrightarrow>
     list_all is_result rs \<and> distinct (map extractToolResultId rs) \<and>
     set (map extractToolResultId rs) \<subseteq> Some ` (set (call_ids msg) - set seen) \<and>
     (\<not> errored msg \<longrightarrow> Some ` (set (call_ids msg) - set seen) \<subseteq> set (map extractToolResultId rs))"

lemma turn_effect:
  "\<exists>rs. pr_out (repair_turn clock dropErrored msg following p) = pr_out p @ msg # rs @ filter (\<lambda>m. \<not> is_result m) following \<and>
     turn_results msg (pr_seen p) rs \<and>
     set (pr_seen (repair_turn clock dropErrored msg following p)) \<subseteq> set (pr_seen p) \<union> set (call_ids msg)"
proof -
  let ?calls = "extractToolCallsFromAssistant msg"
  obtain sp q where sq: "foldl (\<lambda>s next. span_message ?calls next s) (\<lparr>sp_results = [], sp_remainder = []\<rparr>, p) following = (sp, q)"
    by (metis prod.exhaust)
  have ok: "span_ok ?calls following p (sp, q)" using span_fold [of ?calls following p] by (simp add: sq)
  then have rem: "sp_remainder sp = filter (\<lambda>m. \<not> is_result m) following" and q: "pr_out q = pr_out p" "pr_seen q = pr_seen p"
    and res: "results_ok (sp_results sp)"
    by (simp_all add: span_ok_def results_ok_def)
  have ne: "\<forall>c\<in>set cs. fst c \<noteq> []" if "set cs \<subseteq> set ?calls" for cs
    using that call_id_nonempty by blast
  have push: "\<exists>rs. pr_out (foldl (push_call clock (sp_results sp)) q' cs) = pr_out q' @ rs \<and>
      map extractToolResultId rs = map Some (unseen (pr_seen q') (map fst cs)) \<and> list_all is_result rs \<and>
      set (pr_seen (foldl (push_call clock (sp_results sp)) q' cs)) = set (pr_seen q') \<union> set (map fst cs)"
    if "set cs \<subseteq> set ?calls" for q' cs
    using push_calls [OF res ne [OF that]] .
  have good: "turn_results msg (pr_seen p) rs"
    if "map extractToolResultId rs = map Some (unseen (pr_seen p) (map fst cs))" "list_all is_result rs"
      "set cs \<subseteq> set ?calls" "errored msg \<or> cs = ?calls" for rs cs
    using that by (auto simp: turn_results_def call_ids_def distinct_map)
  show ?thesis
  proof (cases "errored msg")
    case e: True
    show ?thesis
    proof (cases dropErrored)
      case True
      have "turn_results msg (pr_seen p) []" using e by (simp add: turn_results_def)
      then show ?thesis using e True rem q by (intro exI [of _ "[]"]) (auto simp: repair_turn_def sq)
    next
      case False
      let ?cs = "filter (\<lambda>c. map_get (sp_results sp) (fst c) \<noteq> None) ?calls"
      obtain rs where rs: "pr_out (foldl (push_call clock (sp_results sp)) (q\<lparr>pr_out := pr_out q @ [msg]\<rparr>) ?cs) = pr_out p @ msg # rs"
        "map extractToolResultId rs = map Some (unseen (pr_seen p) (map fst ?cs))" "list_all is_result rs"
        "set (pr_seen (foldl (push_call clock (sp_results sp)) (q\<lparr>pr_out := pr_out q @ [msg]\<rparr>) ?cs)) =
           set (pr_seen p) \<union> set (map fst ?cs)"
        using push [of ?cs "q\<lparr>pr_out := pr_out q @ [msg]\<rparr>"] q by auto
      then show ?thesis using e False rem good [OF rs(2) rs(3)]
        by (intro exI [of _ rs]) (auto simp: repair_turn_def sq Let_def push_existing_calls [where clock = clock] call_ids_def)
    qed
  next
    case e: False
    let ?b = "sp_results sp \<noteq> [] \<and> sp_remainder sp \<noteq> []"
    let ?q = "q\<lparr>pr_out := pr_out q @ [msg]\<rparr>"
    let ?q' = "if ?b then ?q\<lparr>pr_moved := True, pr_changed := True\<rparr> else ?q"
    obtain rs where rs: "pr_out (foldl (push_call clock (sp_results sp)) ?q' ?calls) = pr_out p @ msg # rs"
      "map extractToolResultId rs = map Some (unseen (pr_seen p) (map fst ?calls))" "list_all is_result rs"
      "set (pr_seen (foldl (push_call clock (sp_results sp)) ?q' ?calls)) = set (pr_seen p) \<union> set (map fst ?calls)"
      using push [of ?calls ?q'] q by (auto split: if_splits)
    then show ?thesis using e rem good [OF rs(2) rs(3)]
      by (intro exI [of _ rs]) (auto simp: repair_turn_def sq Let_def call_ids_def)
  qed
qed

section \<open>The whole transcript\<close>

lemma takeWhile_results: "list_all is_result rs \<Longrightarrow> ys = [] \<or> \<not> is_result (hd ys) \<Longrightarrow> takeWhile is_result (rs @ ys) = rs"
  by (induction rs) (auto simp: takeWhile_loose)

lemma others_of_results: "list_all is_result rs \<Longrightarrow> filter (\<lambda>m. \<not> is_result m) rs = []"
  by (induction rs) auto

lemma turn_answered_once:
  "turn_results msg seen rs \<Longrightarrow> set (call_ids msg) \<inter> set seen = {} \<Longrightarrow>
     answered_once (errored msg, call_ids msg, map extractToolResultId rs)"
  by (auto simp: turn_results_def answered_once_def turn_answered_def Diff_triv)

text \<open>What the loop appends has no loose results, keeps the other messages, and answers each turn once.\<close>

lemma loop_shape:
  "\<exists>tail. pr_out (repair_loop clock dropErrored ms p) = pr_out p @ tail \<and> loose_results tail False = [] \<and>
     filter (\<lambda>m. \<not> is_result m) tail = filter (\<lambda>m. \<not> is_result m) ms \<and>
     (\<forall>seen. fresh_ids seen ms \<longrightarrow> set (pr_seen p) \<subseteq> set seen \<longrightarrow> list_all answered_once (turns tail))"
proof (induction clock dropErrored ms p rule: repair_loop.induct)
  case (1 clock dropErrored p)
  show ?case by simp
next
  case (2 clock dropErrored msg ms p)
  let ?follow = "takeWhile (\<lambda>m. \<not> is_assistant m) ms" and ?rest = "dropWhile (\<lambda>m. \<not> is_assistant m) ms"
  consider (orphan) "is_result msg" | (plain) "\<not> is_result msg" "\<not> with_calls msg" | (turn) "\<not> is_result msg" "with_calls msg"
    by blast
  then show ?case
  proof cases
    case orphan
    then show ?thesis using 2(1) by (simp add: result_without_calls)
  next
    case plain
    have IH: "\<exists>tail. pr_out (repair_loop clock dropErrored ms (p\<lparr>pr_out := pr_out p @ [msg]\<rparr>)) = (pr_out p @ [msg]) @ tail \<and>
        loose_results tail False = [] \<and> filter (\<lambda>m. \<not> is_result m) tail = filter (\<lambda>m. \<not> is_result m) ms \<and>
        (\<forall>seen. fresh_ids seen ms \<longrightarrow> set (pr_seen p) \<subseteq> set seen \<longrightarrow> list_all answered_once (turns tail))"
      using 2(2) plain by (auto simp: with_calls_def)
    then obtain tail where t: "pr_out (repair_loop clock dropErrored ms (p\<lparr>pr_out := pr_out p @ [msg]\<rparr>)) = (pr_out p @ [msg]) @ tail"
      "loose_results tail False = []" "filter (\<lambda>m. \<not> is_result m) tail = filter (\<lambda>m. \<not> is_result m) ms"
      "\<forall>seen. fresh_ids seen ms \<longrightarrow> set (pr_seen p) \<subseteq> set seen \<longrightarrow> list_all answered_once (turns tail)" by blast
    then show ?thesis using plain by (intro exI [of _ "msg # tail"]) (auto simp: with_calls_def)
  next
    case turn
    let ?q = "repair_turn clock dropErrored msg ?follow p"
    obtain rs where rs: "pr_out ?q = pr_out p @ msg # rs @ filter (\<lambda>m. \<not> is_result m) ?follow"
      "turn_results msg (pr_seen p) rs" "set (pr_seen ?q) \<subseteq> set (pr_seen p) \<union> set (call_ids msg)"
      using turn_effect by blast
    have loop: "repair_loop clock dropErrored (msg # ms) p = repair_loop clock dropErrored ?rest ?q"
      using turn by (simp add: with_calls_def)
    obtain tail where t: "pr_out (repair_loop clock dropErrored ?rest ?q) = pr_out ?q @ tail"
      "loose_results tail False = []" "filter (\<lambda>m. \<not> is_result m) tail = filter (\<lambda>m. \<not> is_result m) ?rest"
      "\<forall>seen. fresh_ids seen ?rest \<longrightarrow> set (pr_seen ?q) \<subseteq> set seen \<longrightarrow> list_all answered_once (turns tail)"
      using 2(3) turn unfolding with_calls_def by blast
    let ?rem = "filter (\<lambda>m. \<not> is_result m) ?follow"
    have plain_follow: "list_all (\<lambda>m. \<not> is_assistant m) ?follow" by (auto simp: list_all_iff dest: set_takeWhileD)
    have plain_rem: "list_all (\<lambda>m. \<not> is_assistant m \<and> \<not> is_result m) ?rem"
      using plain_follow by (simp add: list_all_iff)
    have start: "?rem @ tail = [] \<or> \<not> is_result (hd (?rem @ tail))"
      using loose_hd [OF t(2)] plain_rem by (cases ?rem) auto
    have res: "list_all is_result rs" using rs(2) by (simp add: turn_results_def)
    have "loose_results (msg # rs @ ?rem @ tail) False = loose_results (?rem @ tail) True"
      using turn by (simp add: loose_results_results [OF res])
    also have "\<dots> = loose_results (?rem @ tail) False" by (rule loose_start [OF start])
    also have "\<dots> = []" using loose_skip [OF plain_rem] t(2) by simp
    finally have loose: "loose_results (msg # rs @ ?rem @ tail) False = []" .
    have kept: "filter (\<lambda>m. \<not> is_result m) (msg # rs @ ?rem @ tail) = filter (\<lambda>m. \<not> is_result m) (msg # ms)"
    proof -
      have "filter (\<lambda>m. \<not> is_result m) ms = ?rem @ filter (\<lambda>m. \<not> is_result m) ?rest"
        by (metis filter_append takeWhile_dropWhile_id)
      then show ?thesis using t(3) turn by (simp add: others_of_results [OF res])
    qed
    have once: "list_all answered_once (turns (msg # rs @ ?rem @ tail))"
      if fresh: "fresh_ids seen (msg # ms)" and sub: "set (pr_seen p) \<subseteq> set seen" for seen
    proof -
      have ids: "set (call_ids msg) \<inter> set seen = {}" and f: "fresh_ids (call_ids msg @ seen) ms" using fresh turn by simp_all
      have "fresh_ids (call_ids msg @ seen) ?rest"
        using f fresh_skip [OF plain_follow, of "call_ids msg @ seen" ?rest] by simp
      moreover have "set (pr_seen ?q) \<subseteq> set (call_ids msg @ seen)" using rs(3) sub by auto
      ultimately have "list_all answered_once (turns tail)" using t(4) by blast
      moreover have "answered_once (errored msg, call_ids msg, map extractToolResultId rs)"
        using turn_answered_once [OF rs(2)] ids sub by blast
      moreover have "turns (rs @ ?rem @ tail) = turns tail"
      proof -
        have a: "list_all (\<lambda>m. \<not> is_assistant m) (rs @ ?rem)"
          using res plain_rem by (auto simp: list_all_iff dest: result_not_assistant)
        show ?thesis using turns_skip [OF a, of tail] by simp
      qed
      ultimately show ?thesis using turn takeWhile_results [OF res start] by simp
    qed
    show ?thesis unfolding loop
      by (rule exI [of _ "msg # rs @ ?rem @ tail"]) (use t(1) rs(1) loose kept once in auto)
  qed
qed

section \<open>Reports without a change\<close>

lemma push_calls_unchanged:
  "\<not> pr_changed (foldl (push_call clock res) p cs) \<Longrightarrow>
     \<not> pr_changed p \<and> (\<forall>c\<in>set cs. map_get res (fst c) \<noteq> None)"
proof (induction cs arbitrary: p)
  case (Cons c cs)
  then have "\<not> pr_changed (push_call clock res p c)" and rest: "\<forall>c\<in>set cs. map_get res (fst c) \<noteq> None" by auto
  then have "\<not> pr_changed p" "map_get res (fst c) \<noteq> None"
    by (auto simp: push_call_def pushToolResult_def Let_def split: option.splits if_splits)
  with rest show ?case by simp
qed simp

lemma turn_unchanged:
  assumes un: "\<not> pr_changed (repair_turn clock dropErrored msg following p)"
  shows "\<not> pr_changed p \<and> (\<forall>m\<in>set following. is_result m \<longrightarrow> extractToolResultId m \<in> Some ` set (call_ids msg)) \<and>
     (\<not> errored msg \<longrightarrow> with_calls msg \<longrightarrow> list_all is_result following \<and>
        Some ` set (call_ids msg) \<subseteq> set (map extractToolResultId following))"
proof -
  let ?calls = "extractToolCallsFromAssistant msg"
  obtain sp q where sq: "foldl (\<lambda>s next. span_message ?calls next s) (\<lparr>sp_results = [], sp_remainder = []\<rparr>, p) following = (sp, q)"
    by (metis prod.exhaust)
  have ok: "span_ok ?calls following p (sp, q)" using span_fold [of ?calls following p] by (simp add: sq)
  let ?q = "q\<lparr>pr_out := pr_out q @ [msg]\<rparr>"
  have same: "pr_changed (p3\<lparr>pr_out := xs\<rparr>) = pr_changed p3" for p3 :: pairing and xs by simp
  have parts: "\<not> pr_changed q \<and> (\<not> errored msg \<longrightarrow> (sp_results sp = [] \<or> sp_remainder sp = []) \<and>
      (\<forall>c\<in>set ?calls. map_get (sp_results sp) (fst c) \<noteq> None))"
  proof (cases "errored msg")
    case True
    then have "\<not> pr_changed ?q"
    proof (cases dropErrored)
      case d: True
      then show ?thesis using un True by (simp add: repair_turn_def sq)
    next
      case d: False
      then show ?thesis using un True push_calls_unchanged [of undefined "sp_results sp" ?q]
        by (simp add: repair_turn_def sq Let_def push_existing_calls [where clock = undefined])
    qed
    then show ?thesis using True by simp
  next
    case False
    have "\<not> pr_changed (foldl (push_call clock (sp_results sp))
        (if sp_results sp \<noteq> [] \<and> sp_remainder sp \<noteq> [] then ?q\<lparr>pr_moved := True, pr_changed := True\<rparr> else ?q) ?calls)"
      using un False by (simp add: repair_turn_def sq Let_def)
    from push_calls_unchanged [OF this] show ?thesis by (simp split: if_splits)
  qed
  have q: "\<not> pr_changed p" and each: "\<forall>m\<in>set following. is_result m \<longrightarrow>
      (\<exists>i. extractToolResultId m = Some i \<and> i \<in> fst ` set ?calls \<and> map_get (sp_results sp) i \<noteq> None)"
    and vals: "map_get (sp_results sp) i = Some v \<Longrightarrow> is_result v \<and> extractToolResultId v = Some i \<and>
      (\<exists>m\<in>set following. is_result m \<and> (v = m \<or> (\<exists>n. normalizeToolResultName m n = Some v)))"
    and rem: "sp_remainder sp = filter (\<lambda>m. \<not> is_result m) following" for i v
    using ok parts by (simp_all add: span_ok_def)
  have "list_all is_result following \<and> Some ` set (call_ids msg) \<subseteq> set (map extractToolResultId following)"
    if e: "\<not> errored msg" and c: "with_calls msg"
  proof -
    have all: "map_get (sp_results sp) (fst c) \<noteq> None" if "c \<in> set ?calls" for c using parts e that by blast
    obtain c0 where "c0 \<in> set ?calls" using c by (cases ?calls) (auto simp: with_calls_def)
    then have "sp_results sp \<noteq> []" using all by fastforce
    then have "filter (\<lambda>m. \<not> is_result m) following = []" using parts e rem by auto
    moreover have "Some i \<in> set (map extractToolResultId following)" if i: "i \<in> set (call_ids msg)" for i
    proof -
      obtain v where v: "map_get (sp_results sp) i = Some v" using all i by (force simp: call_ids_def)
      then obtain m where "m \<in> set following" "is_result m" "v = m \<or> (\<exists>n. normalizeToolResultName m n = Some v)"
        using vals by blast
      then have "extractToolResultId m = Some i" "m \<in> set following" using vals [OF v] normalize_keeps by auto
      then show ?thesis by (metis image_eqI list.set_map)
    qed
    ultimately show ?thesis by (auto simp: list_all_iff filter_empty_conv)
  qed
  moreover have "extractToolResultId m \<in> Some ` set (call_ids msg)" if "m \<in> set following" "is_result m" for m
    using each that by (metis call_ids_def image_eqI list.set_map)
  ultimately show ?thesis using q by blast
qed

lemma loop_unchanged:
  "\<not> pr_changed (repair_loop clock dropErrored ms p) \<Longrightarrow>
     \<not> pr_changed p \<and> (list_all (\<lambda>t. \<not> fst t) (turns ms) \<longrightarrow> loose_results ms False = [] \<and> list_all turn_answered (turns ms))"
proof (induction clock dropErrored ms p rule: repair_loop.induct)
  case (1 clock dropErrored p)
  then show ?case by simp
next
  case (2 clock dropErrored msg ms p)
  let ?follow = "takeWhile (\<lambda>m. \<not> is_assistant m) ms" and ?rest = "dropWhile (\<lambda>m. \<not> is_assistant m) ms"
  consider (orphan) "is_result msg" | (plain) "\<not> is_result msg" "\<not> with_calls msg" | (turn) "\<not> is_result msg" "with_calls msg"
    by blast
  then show ?case
  proof cases
    case orphan
    then show ?thesis using 2(1) 2(4) by simp
  next
    case plain
    then show ?thesis using 2(2) 2(4) by (auto simp: with_calls_def)
  next
    case turn
    let ?q = "repair_turn clock dropErrored msg ?follow p"
    have un: "\<not> pr_changed (repair_loop clock dropErrored ?rest ?q)" using 2(4) turn by (simp add: with_calls_def)
    have IH: "\<not> pr_changed ?q \<and> (list_all (\<lambda>t. \<not> fst t) (turns ?rest) \<longrightarrow>
        loose_results ?rest False = [] \<and> list_all turn_answered (turns ?rest))"
      using 2(3) turn un unfolding with_calls_def by blast
    note tu = turn_unchanged [OF conjunct1 [OF IH]]
    have plain_follow: "list_all (\<lambda>m. \<not> is_assistant m) ?follow" by (auto simp: list_all_iff dest: set_takeWhileD)
    have turns_ms: "turns ms = turns ?rest" using turns_skip [OF plain_follow, of ?rest] by simp
    have start: "?rest = [] \<or> \<not> is_result (hd ?rest)"
      by (metis hd_dropWhile result_not_assistant)
    have "loose_results (msg # ms) False = [] \<and> list_all turn_answered (turns (msg # ms))"
      if ok: "list_all (\<lambda>t. \<not> fst t) (turns (msg # ms))"
    proof -
      have e: "\<not> errored msg" and rest: "list_all (\<lambda>t. \<not> fst t) (turns ?rest)" using ok turn turns_ms by simp_all
      have fl: "list_all is_result ?follow" and ids: "Some ` set (call_ids msg) \<subseteq> set (map extractToolResultId ?follow)"
        using tu e turn by simp_all
      have "\<forall>m\<in>set ?follow. extractToolResultId m \<in> Some ` set (call_ids msg)"
        using tu fl by (auto simp: list_all_iff)
      moreover have "takeWhile is_result ms = ?follow" using takeWhile_results [OF fl start] by simp
      ultimately have a: "turn_answered (errored msg, call_ids msg, map extractToolResultId (takeWhile is_result ms))"
        using ids by (auto simp: turn_answered_def)
      have "loose_results ms True = loose_results ?rest True" using loose_results_results [OF fl, of ?rest] by simp
      also have "\<dots> = loose_results ?rest False" by (rule loose_start [OF start])
      finally show ?thesis using turn a IH rest turns_ms by simp
    qed
    then show ?thesis using tu by blast
  qed
qed

section \<open>Where results come from\<close>

definition result_from :: "json list \<Rightarrow> json \<Rightarrow> bool" where
  "result_from ms v \<longleftrightarrow> (\<exists>m\<in>set ms. v = m \<or> (is_result m \<and> (\<exists>n. normalizeToolResultName m n = Some v)))"

definition synthetic :: "json \<Rightarrow> bool" where
  "synthetic v \<longleftrightarrow> (\<exists>now i n. v = makeMissingToolResult now i n)"

definition sourced :: "json list \<Rightarrow> pairing \<Rightarrow> bool" where
  "sourced ms p \<longleftrightarrow> (\<forall>v\<in>set (pr_out p). v \<in> set (pr_added p) \<or> result_from ms v) \<and> (\<forall>v\<in>set (pr_added p). synthetic v)"

lemma sourced_push_calls:
  "\<forall>i v. map_get res i = Some v \<longrightarrow> result_from ms v \<Longrightarrow> sourced ms p \<Longrightarrow> sourced ms (foldl (push_call clock res) p cs)"
proof (induction cs arbitrary: p)
  case (Cons c cs)
  have "sourced ms (push_call clock res p c)"
    using Cons.prems unfolding sourced_def push_call_def pushToolResult_def Let_def synthetic_def
    by (fastforce split: option.splits if_splits)
  then show ?case using Cons by simp
qed simp

lemma sourced_turn:
  assumes src: "sourced ms p" and sub: "insert msg (set following) \<subseteq> set ms"
  shows "sourced ms (repair_turn clock dropErrored msg following p)"
proof -
  let ?calls = "extractToolCallsFromAssistant msg"
  obtain sp q where sq: "foldl (\<lambda>s next. span_message ?calls next s) (\<lparr>sp_results = [], sp_remainder = []\<rparr>, p) following = (sp, q)"
    by (metis prod.exhaust)
  have ok: "span_ok ?calls following p (sp, q)" using span_fold [of ?calls following p] by (simp add: sq)
  have q: "sourced ms q" using ok src by (simp add: span_ok_def sourced_def)
  have vals: "\<forall>i v. map_get (sp_results sp) i = Some v \<longrightarrow> result_from ms v"
    using ok sub unfolding span_ok_def result_from_def by (simp add: subset_iff) blast
  have rem: "\<forall>v\<in>set (sp_remainder sp). result_from ms v"
    using ok sub unfolding span_ok_def result_from_def by auto
  have add: "sourced ms p' \<Longrightarrow> \<forall>v\<in>set xs. result_from ms v \<Longrightarrow> sourced ms (p'\<lparr>pr_out := pr_out p' @ xs\<rparr>)" for p' xs
    by (auto simp: sourced_def)
  have flags: "sourced ms (p'\<lparr>pr_changed := b\<rparr>) = sourced ms p'" "sourced ms (p'\<lparr>pr_moved := b, pr_changed := c\<rparr>) = sourced ms p'"
    for p' b c by (simp_all add: sourced_def)
  have "sourced ms (q\<lparr>pr_out := pr_out q @ [msg]\<rparr>)"
    using add [OF q, of "[msg]"] sub by (auto simp: result_from_def)
  then have pushed: "sourced ms (foldl (push_call clock (sp_results sp)) p' cs)"
    if "p' \<in> {q\<lparr>pr_out := pr_out q @ [msg]\<rparr>, q\<lparr>pr_out := pr_out q @ [msg]\<rparr>\<lparr>pr_moved := True, pr_changed := True\<rparr>,
      q\<lparr>pr_out := pr_out q @ [msg]\<rparr>\<lparr>pr_changed := b\<rparr>}" for p' cs b
    using sourced_push_calls [OF vals] that flags by auto
  show ?thesis unfolding repair_turn_def sq Let_def prod.case push_existing_calls [where clock = clock]
    by (intro add [OF _ rem]) (use pushed [where cs = "[]"] pushed in auto)
qed

lemma sourced_loop:
  "sourced all p \<Longrightarrow> set ms \<subseteq> set all \<Longrightarrow> sourced all (repair_loop clock dropErrored ms p)"
proof (induction clock dropErrored ms p rule: repair_loop.induct)
  case (2 clock dropErrored msg ms p)
  have follow: "insert msg (set (takeWhile (\<lambda>m. \<not> is_assistant m) ms)) \<subseteq> set all"
    and rest: "set (dropWhile (\<lambda>m. \<not> is_assistant m) ms) \<subseteq> set all"
    using 2(5) by (auto dest: set_takeWhileD set_dropWhileD)
  have "sourced all (p\<lparr>pr_out := pr_out p @ [msg]\<rparr>)" using 2(4,5) by (auto simp: sourced_def result_from_def)
  moreover have "sourced all (p\<lparr>pr_droppedOrphans := pr_droppedOrphans p + 1, pr_changed := True\<rparr>)"
    using 2(4) by (simp add: sourced_def)
  ultimately show ?case
    using 2(1-3) 2(5) sourced_turn [OF 2(4) follow] rest by simp
qed simp

section \<open>Complete calls\<close>

text \<open>No attachment of a value carries its content.\<close>

definition is_redacted :: "json \<Rightarrow> bool" where
  "is_redacted v =
     (case object_of v of
        None \<Rightarrow> True
      | Some rec \<Rightarrow>
          (case array_of (obj_get rec ''attachments'') of
             None \<Rightarrow> True
           | Some items \<Rightarrow>
               list_all (\<lambda>item. case object_of item of
                 Some a \<Rightarrow> map_get a ''content'' = None \<or> map_get a ''content'' = Some redacted | None \<Rightarrow> True) items))"

text \<open>A block is no call, or a call with input, id and an allowed name without blanks around it; of calls
  that start sessions the attachments are redacted.\<close>

definition complete_call :: "string list option \<Rightarrow> json \<Rightarrow> bool" where
  "complete_call allowed b =
     (isRawToolCallBlock b \<longrightarrow>
        (let ob = the (object_of b); name = the (string_of (obj_get ob ''name''))
         in valid_call allowed ob \<and> string_of (obj_get ob ''name'') = Some name \<and> js_trim name = name \<and>
            (js_lower name = ''sessions_spawn'' \<longrightarrow>
               is_redacted (obj_get ob ''arguments'') \<and> is_redacted (obj_get ob ''input''))))"

definition calls_complete :: "string list option \<Rightarrow> json \<Rightarrow> bool" where
  "calls_complete allowed m =
     (case assistant_content m of Some (_, content) \<Rightarrow> list_all (complete_call allowed) content | None \<Rightarrow> True)"

lemma js_in_put [simp]: "js_in k (map_put k' v ob) \<longleftrightarrow> k = k' \<or> js_in k ob"
  by (auto simp: js_in_def map_simps)

lemma put_if_simps [simp]:
  "obj_get (put_if b k v ob) k' = (if b \<and> k' = k then v else obj_get ob k')"
  "js_in k' (put_if b k v ob) \<longleftrightarrow> b \<and> k' = k \<or> js_in k' ob"
  by (auto simp: put_if_def)

lemma redact_item_redacted: "case object_of (redact_item item) of
    Some a \<Rightarrow> map_get a ''content'' = None \<or> map_get a ''content'' = Some redacted | None \<Rightarrow> True"
  by (auto simp: redact_item_def map_simps split: option.splits)

lemma redact_redacted: "is_redacted (js_nullish (redactSessionsSpawnAttachmentsArgs v) v)"
proof (cases "redactSessionsSpawnAttachmentsArgs v")
  case None
  then show ?thesis by (auto simp: redactSessionsSpawnAttachmentsArgs_def is_redacted_def split: option.splits)
next
  case (Some w)
  then obtain rec items where "w = JObj (map_put ''attachments'' (JArr (map redact_item items)) rec)"
    by (auto simp: redactSessionsSpawnAttachmentsArgs_def split: option.splits)
  then show ?thesis using Some redact_item_redacted
    by (simp add: is_redacted_def array_of_def list_all_iff)
qed

lemma redact_present: "redactSessionsSpawnAttachmentsArgs v = Some w \<Longrightarrow> w \<noteq> JUndef \<and> w \<noteq> JNull \<and> v \<noteq> JUndef \<and> v \<noteq> JNull"
  by (auto simp: redactSessionsSpawnAttachmentsArgs_def object_of_def split: option.splits json.splits)

lemma valid_name: "valid_call allowed ob \<Longrightarrow> \<exists>n. string_of (obj_get ob ''name'') = Some n \<and> js_trim n \<noteq> []"
  by (auto simp: valid_call_def hasToolCallName_def Let_def split: option.splits if_splits)

text \<open>An object that differs from a valid call in what the repair changes is a valid call.\<close>

lemma valid_changed:
  assumes "valid_call allowed ob" and "string_of (obj_get ob ''name'') = Some n" and "obj_get ob' ''name'' = JStr (js_trim n)"
    and "obj_get ob' ''id'' = obj_get ob ''id''"
    and "\<And>k. k \<in> {''input'', ''arguments''} \<Longrightarrow> js_in k ob \<Longrightarrow> obj_get ob k \<notin> {JUndef, JNull} \<Longrightarrow>
      js_in k ob' \<and> obj_get ob' k \<notin> {JUndef, JNull}"
  shows "valid_call allowed ob'"
  using assms by (auto simp: valid_call_def hasToolCallName_def hasToolCallInput_def hasToolCallId_def Let_def
      string_of_def split: option.splits if_splits)

lemma sanitize_spawn:
  assumes valid: "valid_call allowed ob" and n: "string_of (obj_get ob ''name'') = Some n"
    and spawn: "js_lower (js_trim n) = ''sessions_spawn''" and some: "sanitizeToolCallBlock ob = Some ob'"
  shows "obj_get ob' ''name'' = JStr (js_trim n) \<and> obj_get ob' ''id'' = obj_get ob ''id'' \<and>
    obj_get ob' ''type'' = obj_get ob ''type'' \<and>
    (\<forall>k\<in>{''input'', ''arguments''}. is_redacted (obj_get ob' k) \<and>
       (js_in k ob \<longrightarrow> obj_get ob k \<notin> {JUndef, JNull} \<longrightarrow> js_in k ob' \<and> obj_get ob' k \<notin> {JUndef, JNull}))"
proof -
  have ne: "js_trim n \<noteq> []" using valid_name [OF valid] n by auto
  let ?a = "redactSessionsSpawnAttachmentsArgs (obj_get ob ''arguments'')"
  let ?i = "redactSessionsSpawnAttachmentsArgs (obj_get ob ''input'')"
  have name: "obj_get ob ''name'' = JStr n" using n by (cases "obj_get ob ''name''") (auto simp: string_of_def)
  have ob': "ob' = put_if (?i \<noteq> None \<or> map_get ob ''input'' \<noteq> None) ''input'' (js_nullish ?i (obj_get ob ''input''))
      (put_if (?a \<noteq> None \<or> map_get ob ''arguments'' \<noteq> None) ''arguments'' (js_nullish ?a (obj_get ob ''arguments''))
        (put_if (n \<noteq> js_trim n) ''name'' (JStr (js_trim n)) ob))"
    using some spawn ne n by (simp add: sanitizeToolCallBlock_def Let_def js_truthy_def split: if_splits)
  have a: "is_redacted (obj_get ob' ''arguments'')" "is_redacted (obj_get ob' ''input'')"
    unfolding ob' using redact_redacted [of "obj_get ob ''arguments''"] redact_redacted [of "obj_get ob ''input''"] by auto
  have b: "js_in k ob \<longrightarrow> obj_get ob k \<notin> {JUndef, JNull} \<longrightarrow> js_in k ob' \<and> obj_get ob' k \<notin> {JUndef, JNull}"
    if "k \<in> {''input'', ''arguments''}" for k
    unfolding ob' using that redact_present by (auto simp: js_nullish_def split: option.splits)
  have c: "obj_get ob' ''name'' = JStr (js_trim n)" "obj_get ob' ''id'' = obj_get ob ''id''" "obj_get ob' ''type'' = obj_get ob ''type''"
    unfolding ob' using name by auto
  show ?thesis using a b c by auto
qed

lemma fate_complete: "b' \<in> set (apply_fate (block_fate allowed b) b) \<Longrightarrow> complete_call allowed b'"
proof (cases "isRawToolCallBlock b")
  case False
  assume "b' \<in> set (apply_fate (block_fate allowed b) b)"
  with False show ?thesis by (simp add: block_fate_def apply_fate_def complete_call_def)
next
  case raw: True
  assume b': "b' \<in> set (apply_fate (block_fate allowed b) b)"
  then obtain ob where ob: "object_of b = Some ob" "has_call_type ob"
    using raw by (auto simp: isRawToolCallBlock_def split: option.splits)
  have valid: "valid_call allowed ob" using b' raw ob by (auto simp: block_fate_def apply_fate_def Let_def split: if_splits)
  obtain n where n: "string_of (obj_get ob ''name'') = Some n" "js_trim n \<noteq> []" using valid_name [OF valid] by blast
  let ?next = "if js_lower (js_trim n) = ''sessions_spawn'' then sanitizeToolCallBlock ob else renamed ob"
  have fate: "block_fate allowed b = (case ?next of None \<Rightarrow> Keep_Block | Some ob' \<Rightarrow> Replace_Block (JObj ob'))"
    using raw ob valid n by (simp add: block_fate_def Let_def)
  show ?thesis
  proof (cases ?next)
    case None
    then have "js_trim n = n" using n
      by (auto simp: renamed_def sanitizeToolCallBlock_def Let_def js_truthy_def split: if_splits)
    moreover have "is_redacted (obj_get ob ''arguments'') \<and> is_redacted (obj_get ob ''input'')"
      if "js_lower (js_trim n) = ''sessions_spawn''"
      using None that n redact_redacted [of "obj_get ob ''arguments''"] redact_redacted [of "obj_get ob ''input''"]
      by (auto simp: sanitizeToolCallBlock_def Let_def js_truthy_def split: if_splits)
    ultimately show ?thesis using b' fate None ob n valid by (simp add: apply_fate_def complete_call_def Let_def)
  next
    case (Some ob')
    have same: "obj_get ob' ''name'' = JStr (js_trim n) \<and> obj_get ob' ''id'' = obj_get ob ''id'' \<and>
        obj_get ob' ''type'' = obj_get ob ''type'' \<and>
        (js_lower (js_trim n) = ''sessions_spawn'' \<longrightarrow>
           is_redacted (obj_get ob' ''arguments'') \<and> is_redacted (obj_get ob' ''input'')) \<and>
        (\<forall>k\<in>{''input'', ''arguments''}.
           js_in k ob \<longrightarrow> obj_get ob k \<notin> {JUndef, JNull} \<longrightarrow> js_in k ob' \<and> obj_get ob' k \<notin> {JUndef, JNull})"
    proof (cases "js_lower (js_trim n) = ''sessions_spawn''")
      case True
      then show ?thesis using sanitize_spawn [OF valid n(1) True] Some by auto
    next
      case False
      then have "ob' = map_put ''name'' (JStr (js_trim n)) ob" using Some n by (auto simp: renamed_def split: if_splits)
      then show ?thesis using False by auto
    qed
    then have "valid_call allowed ob'" using valid_changed [OF valid n(1), of ob'] by blast
    moreover have "has_call_type ob'" using same ob(2) by (simp add: has_call_type_def)
    moreover have "b' = JObj ob'" using b' fate Some by (simp add: apply_fate_def)
    ultimately show ?thesis using same by (simp add: complete_call_def isRawToolCallBlock_def string_of_def Let_def)
  qed
qed

lemma map2_same: "map2 g (map f xs) xs = map (\<lambda>x. g (f x) x) xs"
  by (induction xs) auto

definition incomplete_calls :: "string list option \<Rightarrow> json \<Rightarrow> nat" where
  "incomplete_calls allowed m =
     (case assistant_content m of
        Some (_, content) \<Rightarrow> length (filter (\<lambda>b. isRawToolCallBlock b \<and> \<not> valid_call allowed (the (object_of b))) content)
      | None \<Rightarrow> 0)"

lemma fate_dropped: "block_fate allowed b = Drop_Block \<longleftrightarrow> isRawToolCallBlock b \<and> \<not> valid_call allowed (the (object_of b))"
  by (auto simp: block_fate_def Let_def split: option.splits)

lemma content_put:
  "assistant_content m = Some (ob, content) \<Longrightarrow>
     assistant_content (JObj (map_put ''content'' (JArr xs) ob)) = Some (map_put ''content'' (JArr xs) ob, xs)"
  by (auto simp: assistant_content_def array_of_def split: option.splits if_splits)

lemma repair_message_step:
  fixes allowed :: "string list option" and m :: json and r :: input_report
  defines "r' \<equiv> repair_message allowed m r"
  shows "\<not> ir_changed r' \<Longrightarrow> \<not> ir_changed r \<and> ir_messages r' = ir_messages r @ [m]"
    and "ir_droppedToolCalls r' = ir_droppedToolCalls r + incomplete_calls allowed m"
    and "list_all (calls_complete allowed) (ir_messages r) \<Longrightarrow> list_all (calls_complete allowed) (ir_messages r')"
proof -
  have goals: "(\<not> ir_changed r' \<longrightarrow> \<not> ir_changed r \<and> ir_messages r' = ir_messages r @ [m]) \<and>
      ir_droppedToolCalls r' = ir_droppedToolCalls r + incomplete_calls allowed m \<and>
      (list_all (calls_complete allowed) (ir_messages r) \<longrightarrow> list_all (calls_complete allowed) (ir_messages r'))"
  proof (cases "assistant_content m")
    case None
    then show ?thesis by (simp add: r'_def repair_message_def incomplete_calls_def calls_complete_def)
  next
    case (Some oc)
    then obtain ob content where oc: "assistant_content m = Some (ob, content)" by (cases oc) auto
    let ?fates = "map (block_fate allowed) content"
    let ?next = "concat (map2 apply_fate ?fates content)"
    have all: "list_all (complete_call allowed) ?next"
      unfolding map2_same list_all_iff by (auto dest: fate_complete)
    have new: "calls_complete allowed (JObj (map_put ''content'' (JArr ?next) ob))"
      using all by (simp add: calls_complete_def content_put [OF oc])
    have same: "calls_complete allowed m" if "\<not> list_ex (\<lambda>f. f \<noteq> Keep_Block) ?fates"
    proof -
      have "complete_call allowed b" if "b \<in> set content" for b
        using that \<open>\<not> list_ex (\<lambda>f. f \<noteq> Keep_Block) ?fates\<close> fate_complete [of b allowed b]
        by (auto simp: list_ex_iff apply_fate_def)
      then show ?thesis by (simp add: calls_complete_def oc list_all_iff)
    qed
    have "length (filter (\<lambda>f. f = Drop_Block) ?fates) = incomplete_calls allowed m"
      by (simp add: incomplete_calls_def oc filter_map o_def fate_dropped)
    moreover have drops: "filter (\<lambda>f. f = Drop_Block) fs \<noteq> [] \<Longrightarrow> list_ex (\<lambda>f. f \<noteq> Keep_Block) fs" for fs
      by (induction fs) (auto split: if_splits)
    moreover obtain fates nxt where fn: "fates = ?fates" "nxt = ?next" by blast
    moreover have "r' = (let d = length (filter (\<lambda>f. f = Drop_Block) fates); changed = list_ex (\<lambda>f. f \<noteq> Keep_Block) fates;
        r1 = r\<lparr>ir_droppedToolCalls := ir_droppedToolCalls r + d, ir_changed := (ir_changed r \<or> changed)\<rparr>;
        m' = JObj (map_put ''content'' (JArr nxt) ob)
      in if 0 < d then (if nxt = [] then r1\<lparr>ir_droppedAssistantMessages := ir_droppedAssistantMessages r + 1\<rparr>
           else r1\<lparr>ir_messages := ir_messages r @ [m']\<rparr>)
         else if changed then r1\<lparr>ir_messages := ir_messages r @ [m']\<rparr> else r1\<lparr>ir_messages := ir_messages r @ [m]\<rparr>)"
      unfolding fn r'_def repair_message_def oc by (simp only: Let_def option.case prod.case)
    moreover have "0 < length (filter (\<lambda>f. f = Drop_Block) fates) \<Longrightarrow> list_ex (\<lambda>f. f \<noteq> Keep_Block) fates"
      using drops by simp
    ultimately show ?thesis using new same unfolding fn [symmetric]
      by (cases "list_ex (\<lambda>f. f \<noteq> Keep_Block) fates"; cases "incomplete_calls allowed m = 0") (simp_all add: Let_def)
  qed
  then show "\<not> ir_changed r' \<Longrightarrow> \<not> ir_changed r \<and> ir_messages r' = ir_messages r @ [m]"
    and "ir_droppedToolCalls r' = ir_droppedToolCalls r + incomplete_calls allowed m"
    and "list_all (calls_complete allowed) (ir_messages r) \<Longrightarrow> list_all (calls_complete allowed) (ir_messages r')"
    by blast+
qed

lemma repair_inputs:
  fixes allowed :: "string list option"
  defines "r ms \<equiv> foldl (\<lambda>r m. repair_message allowed m r)
     \<lparr>ir_messages = [], ir_droppedToolCalls = 0, ir_droppedAssistantMessages = 0, ir_changed = False\<rparr> ms"
  shows "(\<not> ir_changed (r ms) \<longrightarrow> ir_messages (r ms) = ms) \<and>
     ir_droppedToolCalls (r ms) = sum_list (map (incomplete_calls allowed) ms) \<and>
     list_all (calls_complete allowed) (ir_messages (r ms))"
proof (induction ms rule: rev_induct)
  case Nil
  show ?case by (simp add: r_def)
next
  case (snoc m ms)
  have "r (ms @ [m]) = repair_message allowed m (r ms)" by (simp add: r_def)
  then show ?case using snoc repair_message_step [where allowed = allowed and m = m and r = "r ms"] by auto
qed

section \<open>The properties\<close>

text \<open>The messages of a report are the output of the loop whenever anything changed, and else what was
  given.\<close>

lemma pairing_shape:
  "filter (\<lambda>m. \<not> is_result m) (ur_messages (repairToolUseResultPairing clock dropErrored ms)) =
     filter (\<lambda>m. \<not> is_result m) ms"
  using loop_shape [of clock dropErrored ms empty_pairing]
  by (auto simp: repairToolUseResultPairing_def Let_def empty_pairing_def)

definition failed_turns :: "json list \<Rightarrow> bool" where
  "failed_turns ms = list_ex fst (turns ms)"

lemma pairing_changed:
  "ur_moved (repairToolUseResultPairing clock dropErrored ms) \<Longrightarrow>
     ur_messages (repairToolUseResultPairing clock dropErrored ms) = pr_out (repair_loop clock dropErrored ms empty_pairing)"
  by (simp add: repairToolUseResultPairing_def Let_def)

lemma pairing_unchanged:
  "\<not> ur_moved (repairToolUseResultPairing clock dropErrored ms) \<Longrightarrow>
     ur_messages (repairToolUseResultPairing clock dropErrored ms) = ms \<and>
     \<not> pr_changed (repair_loop clock dropErrored ms empty_pairing)"
  by (simp add: repairToolUseResultPairing_def Let_def)

text \<open>C33: When no turn uses an id of an earlier one, the repair pairs calls and results: if it reports a
  change, every result stands directly after its turn, and every turn is followed by exactly one result for
  each of its calls (for some of them when the turn failed); if it reports none, the messages are as they
  were, and unless some turn failed all calls are answered where they stand.\<close>

theorem repaired_turns_are_answered:
  assumes "fresh_ids [] ms"
  shows "let r = repairToolUseResultPairing clock dropErrored ms
    in if ur_moved r
       then loose_results (ur_messages r) False = [] \<and> list_all answered_once (turns (ur_messages r))
       else ur_messages r = ms \<and>
         (failed_turns ms \<or> loose_results ms False = [] \<and> list_all turn_answered (turns ms))"
proof (cases "ur_moved (repairToolUseResultPairing clock dropErrored ms)")
  case True
  then show ?thesis using loop_shape [of clock dropErrored ms empty_pairing] assms
    by (auto simp: pairing_changed empty_pairing_def)
next
  case False
  then show ?thesis using pairing_unchanged [OF False] loop_unchanged [of clock dropErrored ms empty_pairing]
    by (auto simp: failed_turns_def list_ex_iff list_all_iff)
qed

text \<open>Sample messages.\<close>

definition sample_call :: "string \<Rightarrow> string \<Rightarrow> json" where
  "sample_call stopReason i = JObj [(''role'', JStr ''assistant''),
     (''content'', JArr [JObj [(''type'', JStr ''toolCall''), (''id'', JStr i), (''name'', JStr ''read''), (''arguments'', JObj [])]]),
     (''stopReason'', JStr stopReason)]"

definition sample_result :: "string \<Rightarrow> json" where
  "sample_result i = JObj [(''role'', JStr ''toolResult''), (''toolCallId'', JStr i), (''toolName'', JStr ''read''),
     (''content'', JArr [])]"

definition sample_user :: json where
  "sample_user = JObj [(''role'', JStr ''user''), (''content'', JStr ''ok'')]"

definition displaced :: "json list" where
  "displaced = [sample_result ''c'', sample_call ''toolUse'' ''a'', sample_user, sample_result ''a'', sample_result ''a'',
     sample_call ''toolUse'' ''b'']"

theorem repaired_turns_are_answered_witness:
  "ur_moved (repairToolUseResultPairing (\<lambda>_. 0) False displaced) \<and>
   ur_messages (repairToolUseResultPairing (\<lambda>_. 0) False displaced) =
     [sample_call ''toolUse'' ''a'', sample_result ''a'', sample_user, sample_call ''toolUse'' ''b'',
      makeMissingToolResult 0 ''b'' (Some ''read'')] \<and>
   list_all answered_once (turns (ur_messages (repairToolUseResultPairing (\<lambda>_. 0) False displaced)))"
proof -
  have f: "fresh_ids [] displaced" by code_simp
  have m: "ur_moved (repairToolUseResultPairing (\<lambda>_. 0) False displaced)" by code_simp
  have "ur_messages (repairToolUseResultPairing (\<lambda>_. 0) False displaced) =
     [sample_call ''toolUse'' ''a'', sample_result ''a'', sample_user, sample_call ''toolUse'' ''b'',
      makeMissingToolResult 0 ''b'' (Some ''read'')]" by code_simp
  with m show ?thesis using repaired_turns_are_answered [OF f, of "\<lambda>_. 0" False] by (simp add: Let_def)
qed

text \<open>C34: The repair of results keeps the conversation: all other messages stay as they are and in their order,
  each result that is left was given (at most its tool name was completed) or is reported as added, and what
  is added is a synthetic error.\<close>

theorem repair_keeps_the_conversation:
  "let r = repairToolUseResultPairing clock dropErrored ms
   in filter (\<lambda>m. \<not> is_result m) (ur_messages r) = filter (\<lambda>m. \<not> is_result m) ms \<and>
      list_all (\<lambda>v. v \<in> set (ur_added r) \<or> result_from ms v) (ur_messages r) \<and> list_all synthetic (ur_added r)"
proof -
  have src: "sourced ms (repair_loop clock dropErrored ms empty_pairing)"
    by (rule sourced_loop) (simp_all add: sourced_def empty_pairing_def)
  have "list_all (\<lambda>v. v \<in> set (ur_added (repairToolUseResultPairing clock dropErrored ms)) \<or> result_from ms v)
      (ur_messages (repairToolUseResultPairing clock dropErrored ms))"
    using src by (auto simp: repairToolUseResultPairing_def Let_def sourced_def list_all_iff result_from_def)
  moreover have "list_all synthetic (ur_added (repairToolUseResultPairing clock dropErrored ms))"
    using src by (simp add: repairToolUseResultPairing_def Let_def sourced_def list_all_iff)
  ultimately show ?thesis using pairing_shape by (simp add: Let_def)
qed

text \<open>C35: After both repairs the model sees only complete calls, each with input, id and an allowed name
  without blanks around it, and no call that starts a session carries the content of its attachments; the calls
  that were dropped are exactly the incomplete ones.\<close>

theorem model_sees_complete_calls:
  "let al = normalizeAllowedToolNames allowed; r = repairToolCallInputs allowed ms
   in list_all (calls_complete al) (sanitizeToolUseResultPairing clock dropErrored (ir_messages r)) \<and>
      ir_droppedToolCalls r = sum_list (map (incomplete_calls al) ms)"
proof -
  let ?al = "normalizeAllowedToolNames allowed" and ?r = "repairToolCallInputs allowed ms"
  have r: "list_all (calls_complete ?al) (ir_messages ?r)"
    "ir_droppedToolCalls ?r = sum_list (map (incomplete_calls ?al) ms)"
    using repair_inputs [where allowed = "?al" and ms = ms] by (auto simp: repairToolCallInputs_def Let_def)
  have "calls_complete ?al m" if m: "m \<in> set (sanitizeToolUseResultPairing clock dropErrored (ir_messages ?r))" for m
  proof (cases "is_result m")
    case True
    then show ?thesis by (auto simp: calls_complete_def assistant_content_def role_of_def split: option.splits)
  next
    case False
    then have "m \<in> set (filter (\<lambda>m. \<not> is_result m) (ur_messages (repairToolUseResultPairing clock dropErrored (ir_messages ?r))))"
      using m by (simp add: sanitizeToolUseResultPairing_def)
    then have "m \<in> set (ir_messages ?r)" unfolding pairing_shape by simp
    then show ?thesis using r(1) by (simp add: list_all_iff)
  qed
  then show ?thesis using r(2) by (simp add: Let_def list_all_iff)
qed

section \<open>What the repair misses\<close>

text \<open>Two results for one call, with nothing else after the turn, both stay: the second is left out of the
  repaired list, but no change is noted, so the list that was given is returned.\<close>

lemma duplicate_results_survive:
  "ur_messages (repairToolUseResultPairing (\<lambda>_. 0) False
     [sample_call ''toolUse'' ''a'', sample_result ''a'', sample_result ''a'']) =
   [sample_call ''toolUse'' ''a'', sample_result ''a'', sample_result ''a'']"
  by code_simp

text \<open>Nor is a change noted when the result of a failed turn is moved to it.\<close>

lemma displaced_result_of_failed_turn_survives:
  "ur_messages (repairToolUseResultPairing (\<lambda>_. 0) False [sample_call ''error'' ''a'', sample_user, sample_result ''a'']) =
   [sample_call ''error'' ''a'', sample_user, sample_result ''a'']"
  by code_simp

text \<open>A turn that uses an id again loses its result, and the synthetic one reported as added is not there.\<close>

lemma reused_id_is_not_answered:
  "let r = repairToolUseResultPairing (\<lambda>_. 0) False
       [sample_call ''toolUse'' ''a'', sample_result ''a'', sample_call ''toolUse'' ''a'', sample_result ''a'']
   in ur_messages r = [sample_call ''toolUse'' ''a'', sample_result ''a'', sample_call ''toolUse'' ''a''] \<and>
      ur_added r = [makeMissingToolResult 0 ''a'' (Some ''read'')]"
  by code_simp

end
