(* ===== verification/Patch_Parse.thy ===== *)
theory Patch_Parse
  imports Js_Prelude
begin

text \<open>
  Patches that the agent writes: the parser of \<^verbatim>\<open>src/agents/apply-patch.ts\<close>.

  A patch is text between two markers; it adds, deletes and updates files. An update is a list of chunks, and a
  chunk says which lines are replaced by which. The parser works on a list of lines and returns how many it
  consumed; an error carries the number of the line it is reported at.
\<close>

definition BEGIN_PATCH_MARKER :: string where "BEGIN_PATCH_MARKER = ''*** Begin Patch''"
definition END_PATCH_MARKER :: string where "END_PATCH_MARKER = ''*** End Patch''"
definition ADD_FILE_MARKER :: string where "ADD_FILE_MARKER = ''*** Add File: ''"
definition DELETE_FILE_MARKER :: string where "DELETE_FILE_MARKER = ''*** Delete File: ''"
definition UPDATE_FILE_MARKER :: string where "UPDATE_FILE_MARKER = ''*** Update File: ''"
definition MOVE_TO_MARKER :: string where "MOVE_TO_MARKER = ''*** Move to: ''"
definition EOF_MARKER :: string where "EOF_MARKER = ''*** End of File''"
definition CHANGE_CONTEXT_MARKER :: string where "CHANGE_CONTEXT_MARKER = ''@@ ''"
definition EMPTY_CHANGE_CONTEXT_MARKER :: string where "EMPTY_CHANGE_CONTEXT_MARKER = ''@@''"

record update_chunk =
  uc_changeContext :: "string option"
  uc_oldLines :: "string list"
  uc_newLines :: "string list"
  uc_isEndOfFile :: bool

datatype hunk =
    Add_File string string
  | Delete_File string
  | Update_File string "string option" "update_chunk list"

datatype patch_error =
    Empty_Patch
  | First_Line_Wrong
  | Last_Line_Wrong
  | Empty_Hunk nat
  | Update_Without_Chunks nat string
  | Invalid_Header nat string
  | Chunk_Without_Lines nat
  | Context_Marker_Expected nat string
  | Unexpected_Line nat string

section \<open>Lines and boundaries\<close>

text \<open>\<open>split(/\r?\n/)\<close>: a carriage return before a line feed belongs to the separator.\<close>

definition drop_return :: "string \<Rightarrow> string" where
  "drop_return w = (if w \<noteq> [] \<and> last w = CHR 0x0D then butlast w else w)"

definition split_lines :: "string \<Rightarrow> string list" where
  "split_lines s = (let ws = js_split CHR 0x0A s in map drop_return (butlast ws) @ [last ws])"

definition checkPatchBoundariesStrict :: "string list \<Rightarrow> patch_error option" where
  "checkPatchBoundariesStrict lines =
     (let firstLine = (case lines of [] \<Rightarrow> None | l # _ \<Rightarrow> Some (js_trim l));
          lastLine = (case lines of [] \<Rightarrow> None | _ \<Rightarrow> Some (js_trim (last lines)))
      in if firstLine = Some BEGIN_PATCH_MARKER \<and> lastLine = Some END_PATCH_MARKER then None
         else if firstLine \<noteq> Some BEGIN_PATCH_MARKER then Some First_Line_Wrong
         else Some Last_Line_Wrong)"

definition HEREDOC_STARTS :: "string list" where
  "HEREDOC_STARTS = [''<<EOF'', ''<<'' @ [CHR 0x27] @ ''EOF'' @ [CHR 0x27], ''<<'' @ [CHR 0x22] @ ''EOF'' @ [CHR 0x22]]"

definition checkPatchBoundariesLenient :: "string list \<Rightarrow> patch_error + string list" where
  "checkPatchBoundariesLenient lines =
     (case checkPatchBoundariesStrict lines of
        None \<Rightarrow> Inr lines
      | Some strictError \<Rightarrow>
          if length lines < 4 then Inl strictError
          else if hd lines \<in> set HEREDOC_STARTS \<and> js_ends_with (last lines) ''EOF'' then
            (let inner = js_slice 1 (length lines - 1) lines
             in case checkPatchBoundariesStrict inner of None \<Rightarrow> Inr inner | Some innerError \<Rightarrow> Inl innerError)
          else Inl strictError)"

section \<open>Chunks\<close>

text \<open>The loop over the lines of a chunk; \<open>parsed\<close> of them were read.\<close>

fun chunk_lines :: "nat \<Rightarrow> string list \<Rightarrow> nat \<Rightarrow> update_chunk \<Rightarrow> patch_error + update_chunk \<times> nat" where
  "chunk_lines lineNumber [] parsed chunk = Inr (chunk, parsed)"
| "chunk_lines lineNumber (line # lines) parsed chunk =
     (if line = EOF_MARKER then
        (if parsed = 0 then Inl (Chunk_Without_Lines (lineNumber + 1))
         else Inr (chunk\<lparr>uc_isEndOfFile := True\<rparr>, parsed + 1))
      else
        (case line of
           [] \<Rightarrow> chunk_lines lineNumber lines (parsed + 1)
             (chunk\<lparr>uc_oldLines := uc_oldLines chunk @ [[]], uc_newLines := uc_newLines chunk @ [[]]\<rparr>)
         | marker # content \<Rightarrow>
             if marker = CHR '' '' then chunk_lines lineNumber lines (parsed + 1)
               (chunk\<lparr>uc_oldLines := uc_oldLines chunk @ [content], uc_newLines := uc_newLines chunk @ [content]\<rparr>)
             else if marker = CHR ''+'' then chunk_lines lineNumber lines (parsed + 1)
               (chunk\<lparr>uc_newLines := uc_newLines chunk @ [content]\<rparr>)
             else if marker = CHR ''-'' then chunk_lines lineNumber lines (parsed + 1)
               (chunk\<lparr>uc_oldLines := uc_oldLines chunk @ [content]\<rparr>)
             else if parsed = 0 then Inl (Unexpected_Line (lineNumber + 1) line)
             else Inr (chunk, parsed)))"

text \<open>The marker at the start of a chunk: its context, and how many lines it takes.\<close>

definition chunk_start :: "nat \<Rightarrow> string \<Rightarrow> bool \<Rightarrow> patch_error + string option \<times> nat" where
  "chunk_start lineNumber line allowMissingContext =
     (if line = EMPTY_CHANGE_CONTEXT_MARKER then Inr (None, 1)
      else if js_starts_with line CHANGE_CONTEXT_MARKER then Inr (Some (drop (length CHANGE_CONTEXT_MARKER) line), 1)
      else if \<not> allowMissingContext then Inl (Context_Marker_Expected lineNumber line)
      else Inr (None, 0))"

definition parseUpdateFileChunk :: "string list \<Rightarrow> nat \<Rightarrow> bool \<Rightarrow> patch_error + update_chunk \<times> nat" where
  "parseUpdateFileChunk lines lineNumber allowMissingContext =
     (if lines = [] then Inl (Chunk_Without_Lines lineNumber)
      else
        (case chunk_start lineNumber (hd lines) allowMissingContext of
           Inl e \<Rightarrow> Inl e
         | Inr (changeContext, startIndex) \<Rightarrow>
             if length lines \<le> startIndex then Inl (Chunk_Without_Lines (lineNumber + 1))
             else
               (case chunk_lines lineNumber (drop startIndex lines) 0
                    \<lparr>uc_changeContext = changeContext, uc_oldLines = [], uc_newLines = [], uc_isEndOfFile = False\<rparr> of
                  Inl e \<Rightarrow> Inl e
                | Inr (chunk, parsedLines) \<Rightarrow> Inr (chunk, parsedLines + startIndex))))"

text \<open>A chunk that is read takes at least one line, so the loops end.\<close>

lemma chunk_lines_progress:
  "chunk_lines n ls parsed c = Inr (c', k) \<Longrightarrow> parsed \<le> k \<and> (ls \<noteq> [] \<longrightarrow> 0 < k)"
  by (induction n ls parsed c rule: chunk_lines.induct) (auto split: if_splits list.splits)

lemma parseUpdateFileChunk_progress: "parseUpdateFileChunk ls n b = Inr (c, k) \<Longrightarrow> 0 < k"
proof -
  assume "parseUpdateFileChunk ls n b = Inr (c, k)"
  then obtain ctx i parsed where "chunk_lines n (drop i ls) 0 ctx = Inr (c, parsed)" "k = parsed + i" "i < length ls"
    by (auto simp: parseUpdateFileChunk_def split: if_splits sum.splits)
  then show ?thesis using chunk_lines_progress [of n "drop i ls" 0 ctx c parsed] by simp
qed

section \<open>Hunks\<close>

text \<open>The loop over the chunks of an update; \<open>consumed\<close> lines of the hunk were read.\<close>

function (sequential) update_chunks ::
    "nat \<Rightarrow> string list \<Rightarrow> nat \<Rightarrow> update_chunk list \<Rightarrow> patch_error + update_chunk list \<times> nat" where
  "update_chunks lineNumber [] consumed chunks = Inr (chunks, consumed)"
| "update_chunks lineNumber (line # remaining) consumed chunks =
     (if js_trim line = [] then update_chunks lineNumber remaining (consumed + 1) chunks
      else if js_starts_with line ''***'' then Inr (chunks, consumed)
      else
        (case parseUpdateFileChunk (line # remaining) (lineNumber + consumed) (chunks = []) of
           Inl e \<Rightarrow> Inl e
         | Inr (chunk, chunkLines) \<Rightarrow>
             update_chunks lineNumber (drop chunkLines (line # remaining)) (consumed + chunkLines) (chunks @ [chunk])))"
  by pat_completeness auto
termination
  by (relation "measure (\<lambda>(_, ls, _, _). length ls)") (auto dest: parseUpdateFileChunk_progress)

definition parse_update :: "string list \<Rightarrow> nat \<Rightarrow> string \<Rightarrow> patch_error + hunk \<times> nat" where
  "parse_update lines lineNumber targetPath =
     (let remaining = tl lines;
          movePath = (case remaining of
             l # _ \<Rightarrow> if js_starts_with (js_trim l) MOVE_TO_MARKER
               then Some (drop (length MOVE_TO_MARKER) (js_trim l)) else None
           | [] \<Rightarrow> None);
          skipped = (if movePath = None then 0 else 1)
      in case update_chunks lineNumber (drop skipped remaining) (1 + skipped) [] of
           Inl e \<Rightarrow> Inl e
         | Inr (chunks, consumed) \<Rightarrow>
             if chunks = [] then Inl (Update_Without_Chunks lineNumber targetPath)
             else Inr (Update_File targetPath movePath chunks, consumed))"

definition parseOneHunk :: "string list \<Rightarrow> nat \<Rightarrow> patch_error + hunk \<times> nat" where
  "parseOneHunk lines lineNumber =
     (if lines = [] then Inl (Empty_Hunk lineNumber)
      else
        let firstLine = js_trim (hd lines)
        in if js_starts_with firstLine ADD_FILE_MARKER then
             (let addLines = takeWhile (\<lambda>l. js_starts_with l ''+'') (tl lines)
              in Inr (Add_File (drop (length ADD_FILE_MARKER) firstLine) (concat (map (\<lambda>l. drop 1 l @ [CHR 0x0A]) addLines)),
                   1 + length addLines))
           else if js_starts_with firstLine DELETE_FILE_MARKER then
             Inr (Delete_File (drop (length DELETE_FILE_MARKER) firstLine), 1)
           else if js_starts_with firstLine UPDATE_FILE_MARKER then
             parse_update lines lineNumber (drop (length UPDATE_FILE_MARKER) firstLine)
           else Inl (Invalid_Header lineNumber (hd lines)))"

lemma update_chunks_progress: "update_chunks n ls consumed cs = Inr (cs', k) \<Longrightarrow> consumed \<le> k"
proof (induction n ls consumed cs rule: update_chunks.induct)
  case (2 n line ls consumed cs)
  then show ?case by (fastforce split: if_splits sum.splits)
qed simp

lemma parseOneHunk_progress: "parseOneHunk ls n = Inr (h, k) \<Longrightarrow> 0 < k"
  by (auto simp: parseOneHunk_def parse_update_def Let_def split: if_splits sum.splits dest!: update_chunks_progress)

function (sequential) parse_hunks :: "string list \<Rightarrow> nat \<Rightarrow> hunk list \<Rightarrow> patch_error + hunk list" where
  "parse_hunks [] lineNumber hunks = Inr hunks"
| "parse_hunks (line # remaining) lineNumber hunks =
     (case parseOneHunk (line # remaining) lineNumber of
        Inl e \<Rightarrow> Inl e
      | Inr (h, consumed) \<Rightarrow> parse_hunks (drop consumed (line # remaining)) (lineNumber + consumed) (hunks @ [h]))"
  by pat_completeness auto
termination
  by (relation "measure (\<lambda>(ls, _, _). length ls)") (auto dest: parseOneHunk_progress)

definition parsePatchText :: "string \<Rightarrow> patch_error + hunk list" where
  "parsePatchText input =
     (if js_trim input = [] then Inl Empty_Patch
      else
        (case checkPatchBoundariesLenient (split_lines (js_trim input)) of
           Inl e \<Rightarrow> Inl e
         | Inr validated \<Rightarrow> parse_hunks (js_slice 1 (length validated - 1) validated) 2 []))"

end
