(* ===== verification/Patch_Apply.thy ===== *)
theory Patch_Apply
  imports Patch_Parse Node_Path
begin

text \<open>
  The application of patches: the edits of \<^verbatim>\<open>src/agents/apply-patch-update.ts\<close>, the files of
  \<^verbatim>\<open>src/agents/apply-patch.ts\<close> and the check of paths in \<^verbatim>\<open>src/agents/sandbox-paths.ts\<close>.

  Files are a table from resolved paths to contents. What the operating system and the boundary checks of the
  file library refuse is a parameter, as are the symbolic links and the bridge to a sandbox. An operation that
  fails ends the patch, and what was done before stays. Of the characters that the last pass of the search
  treats alike only the no-break space is below 256.
\<close>

section \<open>Finding lines\<close>

definition js_trim_end :: "string \<Rightarrow> string" where
  "js_trim_end s = rev (dropWhile js_space (rev s))"

definition normalizePunctuation :: "string \<Rightarrow> string" where
  "normalizePunctuation s = map (\<lambda>c. if c = CHR 0xA0 then CHR '' '' else c) s"

definition linesMatch :: "string list \<Rightarrow> string list \<Rightarrow> nat \<Rightarrow> (string \<Rightarrow> string) \<Rightarrow> bool" where
  "linesMatch lines pattern start canon =
     list_all (\<lambda>i. canon (lines ! (start + i)) = canon (pattern ! i)) [0..<length pattern]"

text \<open>The passes of the search: exactly, without blanks at the end, without blanks around, and with the
  punctuation made alike.\<close>

definition passes :: "(string \<Rightarrow> string) list" where
  "passes = [\<lambda>s. s, js_trim_end, js_trim, \<lambda>s. normalizePunctuation (js_trim s)]"

fun first_pass :: "string list \<Rightarrow> string list \<Rightarrow> nat list \<Rightarrow> (string \<Rightarrow> string) list \<Rightarrow> nat option" where
  "first_pass lines pattern starts [] = None"
| "first_pass lines pattern starts (canon # rest) =
     (case filter (\<lambda>i. linesMatch lines pattern i canon) starts of
        i # _ \<Rightarrow> Some i
      | [] \<Rightarrow> first_pass lines pattern starts rest)"

definition seekSequence :: "string list \<Rightarrow> string list \<Rightarrow> nat \<Rightarrow> bool \<Rightarrow> nat option" where
  "seekSequence lines pattern start eof =
     (if pattern = [] then Some start
      else if length lines < length pattern then None
      else
        let maxStart = length lines - length pattern;
            searchStart = (if eof \<and> length pattern \<le> length lines then maxStart else start)
        in if maxStart < searchStart then None
           else first_pass lines pattern [searchStart..<Suc maxStart] passes)"

section \<open>Replacements\<close>

text \<open>Where, how many lines, and by which.\<close>

type_synonym replacement = "nat \<times> nat \<times> string list"

datatype update_error = Context_Not_Found string | Lines_Not_Found "string list"

definition find_context :: "string list \<Rightarrow> string option \<Rightarrow> nat \<Rightarrow> update_error + nat" where
  "find_context lines changeContext lineIndex =
     (if js_truthy changeContext then
        (case seekSequence lines [the changeContext] lineIndex False of
           None \<Rightarrow> Inl (Context_Not_Found (the changeContext))
         | Some i \<Rightarrow> Inr (i + 1))
      else Inr lineIndex)"

definition insertion_index :: "string list \<Rightarrow> nat" where
  "insertion_index lines = (if lines \<noteq> [] \<and> last lines = [] then length lines - 1 else length lines)"

definition without_last_blank :: "string list \<Rightarrow> string list" where
  "without_last_blank ls = (if ls \<noteq> [] \<and> last ls = [] then butlast ls else ls)"

definition find_chunk :: "string list \<Rightarrow> update_chunk \<Rightarrow> nat \<Rightarrow> update_error + replacement" where
  "find_chunk lines chunk lineIndex =
     (let pattern = uc_oldLines chunk; newSlice = uc_newLines chunk; eof = uc_isEndOfFile chunk
      in case seekSequence lines pattern lineIndex eof of
           Some found \<Rightarrow> Inr (found, length pattern, newSlice)
         | None \<Rightarrow>
             if last pattern = [] then
               (case seekSequence lines (butlast pattern) lineIndex eof of
                  Some found \<Rightarrow> Inr (found, length (butlast pattern), without_last_blank newSlice)
                | None \<Rightarrow> Inl (Lines_Not_Found pattern))
             else Inl (Lines_Not_Found pattern))"

fun find_replacements ::
    "string list \<Rightarrow> update_chunk list \<Rightarrow> nat \<Rightarrow> update_error + replacement list" where
  "find_replacements lines [] lineIndex = Inr []"
| "find_replacements lines (chunk # chunks) lineIndex =
     (case find_context lines (uc_changeContext chunk) lineIndex of
        Inl e \<Rightarrow> Inl e
      | Inr i \<Rightarrow>
          if uc_oldLines chunk = [] then
            map_sum id (Cons (insertion_index lines, 0, uc_newLines chunk)) (find_replacements lines chunks i)
          else
            (case find_chunk lines chunk i of
               Inl e \<Rightarrow> Inl e
             | Inr (found, n, newLines) \<Rightarrow>
                 map_sum id (Cons (found, n, newLines)) (find_replacements lines chunks (found + n))))"

definition by_start :: "replacement \<Rightarrow> replacement \<Rightarrow> int" where
  "by_start a b = int (fst a) - int (fst b)"

definition computeReplacements :: "string list \<Rightarrow> update_chunk list \<Rightarrow> update_error + replacement list" where
  "computeReplacements lines chunks = map_sum id (js_sort by_start) (find_replacements lines chunks 0)"

text \<open>The two loops of splices.\<close>

fun remove_at :: "nat \<Rightarrow> nat \<Rightarrow> string list \<Rightarrow> string list" where
  "remove_at 0 start result = result"
| "remove_at (Suc n) start result =
     remove_at n start (if start < length result then take start result @ drop (Suc start) result else result)"

fun insert_at :: "nat \<Rightarrow> string list \<Rightarrow> string list \<Rightarrow> string list" where
  "insert_at i [] result = result"
| "insert_at i (l # ls) result = insert_at (Suc i) ls (take i result @ l # drop i result)"

definition applyReplacements :: "string list \<Rightarrow> replacement list \<Rightarrow> string list" where
  "applyReplacements lines replacements =
     foldl (\<lambda>result (start, oldLen, newLines). insert_at start newLines (remove_at oldLen start result))
       lines (rev replacements)"

definition lines_of :: "string \<Rightarrow> string list" where
  "lines_of contents = (let ls = js_split CHR 0x0A contents in if last ls = [] then butlast ls else ls)"

definition text_of :: "string list \<Rightarrow> string" where
  "text_of ls = js_join [CHR 0x0A] (if ls = [] \<or> last ls \<noteq> [] then ls @ [[]] else ls)"

definition applyUpdateHunk :: "string \<Rightarrow> update_chunk list \<Rightarrow> update_error + string" where
  "applyUpdateHunk contents chunks =
     map_sum id (\<lambda>reps. text_of (applyReplacements (lines_of contents) reps)) (computeReplacements (lines_of contents) chunks)"

section \<open>Paths\<close>

datatype file_op = Op_Read string | Op_Write string | Op_Remove string | Op_Mkdir string

text \<open>\<open>pe_bridge\<close> gives the host path, if any, the path in the container and the relative path;
  \<open>pe_aliasEscapes\<close> says whether a path leaves a root through a link, when the file itself is only removed or
  not; \<open>pe_aborted\<close> whether the run is aborted before a hunk.\<close>

record patch_env =
  pe_processCwd :: string
  pe_home :: string
  pe_cwd :: string
  pe_workspaceOnly :: bool
  pe_bridge :: "(string \<Rightarrow> string option \<times> string \<times> string) option"
  pe_aliasEscapes :: "string \<Rightarrow> bool \<Rightarrow> bool"
  pe_refuses :: "file_op \<Rightarrow> bool"
  pe_aborted :: "nat \<Rightarrow> bool"

datatype apply_error =
    No_Input
  | Aborted
  | Patch_Invalid patch_error
  | No_Files_Modified
  | Escapes_Root string
  | Escapes_By_Alias string
  | Operation_Failed file_op
  | Update_Failed string update_error

definition expandPath :: "string \<Rightarrow> string \<Rightarrow> string" where
  "expandPath home filePath =
     (let normalized = normalizePunctuation (if js_starts_with filePath ''@'' then drop 1 filePath else filePath)
      in if normalized = ''~'' then home
         else if js_starts_with normalized ''~/'' then home @ drop 1 normalized
         else normalized)"

definition resolveSandboxInputPath :: "patch_env \<Rightarrow> string \<Rightarrow> string" where
  "resolveSandboxInputPath env filePath =
     (let expanded = expandPath (pe_home env) filePath
      in if path_is_absolute expanded then expanded
         else path_resolve_in (pe_processCwd env) (pe_cwd env) expanded)"

text \<open>Whether a path is outside the working directory, as the text of the path says.\<close>

definition outside_root :: "patch_env \<Rightarrow> string \<Rightarrow> bool" where
  "outside_root env p =
     (let rel = path_relative (path_resolve (pe_processCwd env) (pe_cwd env)) (path_resolve (pe_processCwd env) p)
      in rel \<noteq> [] \<and> (js_starts_with rel ''..'' \<or> path_is_absolute rel))"

definition assertSandboxPath :: "patch_env \<Rightarrow> bool \<Rightarrow> string \<Rightarrow> apply_error + string" where
  "assertSandboxPath env unlink filePath =
     (let resolved = resolveSandboxInputPath env filePath
      in if outside_root env resolved then Inl (Escapes_Root filePath)
         else if pe_aliasEscapes env resolved unlink then Inl (Escapes_By_Alias filePath)
         else Inr resolved)"

definition path_basename :: "string \<Rightarrow> string" where
  "path_basename p = (case rev (js_nonempty (js_split CHR ''/'' p)) of [] \<Rightarrow> [] | s # _ \<Rightarrow> s)"

definition toDisplayPath :: "patch_env \<Rightarrow> string \<Rightarrow> string" where
  "toDisplayPath env resolved =
     (let relative = path_relative (path_resolve (pe_processCwd env) (pe_cwd env)) (path_resolve (pe_processCwd env) resolved)
      in if relative = [] then path_basename resolved
         else if js_starts_with relative ''..'' \<or> path_is_absolute relative then resolved
         else relative)"

text \<open>The path on which the operations work, and the one that is shown.\<close>

definition resolvePatchPath :: "patch_env \<Rightarrow> bool \<Rightarrow> string \<Rightarrow> apply_error + string \<times> string" where
  "resolvePatchPath env unlink filePath =
     (case pe_bridge env of
        Some bridge \<Rightarrow>
          (let (hostPath, containerPath, relativePath) = bridge filePath;
               target = (js_nullish hostPath containerPath, js_or relativePath containerPath)
           in if pe_workspaceOnly env \<and> js_truthy hostPath
              then map_sum id (\<lambda>_. target) (assertSandboxPath env unlink (the hostPath))
              else Inr target)
      | None \<Rightarrow>
          map_sum id (\<lambda>resolved. (resolved, toDisplayPath env resolved))
            (if pe_workspaceOnly env then assertSandboxPath env unlink filePath
             else Inr (path_normalize (resolveSandboxInputPath env filePath))))"

section \<open>Files\<close>

record patch_summary =
  ps_added :: "string list"
  ps_modified :: "string list"
  ps_deleted :: "string list"

record patch_state =
  pt_files :: "(string, string) js_map"
  pt_summary :: patch_summary

text \<open>A step of the work: an error or its value, and the state it leaves.\<close>

type_synonym 'a patch_work = "patch_state \<Rightarrow> (apply_error + 'a) \<times> patch_state"

definition work_then :: "'a patch_work \<Rightarrow> ('a \<Rightarrow> 'b patch_work) \<Rightarrow> 'b patch_work" where
  "work_then f g s = (case f s of (Inl e, s1) \<Rightarrow> (Inl e, s1) | (Inr v, s1) \<Rightarrow> g v s1)"

definition work_value :: "apply_error + 'a \<Rightarrow> 'a patch_work" where
  "work_value v s = (v, s)"

definition read_file :: "patch_env \<Rightarrow> string \<Rightarrow> string patch_work" where
  "read_file env p s =
     (case map_get (pt_files s) p of
        Some c \<Rightarrow> (if pe_refuses env (Op_Read p) then Inl (Operation_Failed (Op_Read p)) else Inr c, s)
      | None \<Rightarrow> (Inl (Operation_Failed (Op_Read p)), s))"

definition write_file :: "patch_env \<Rightarrow> string \<Rightarrow> string \<Rightarrow> unit patch_work" where
  "write_file env p c s =
     (if pe_refuses env (Op_Write p) then (Inl (Operation_Failed (Op_Write p)), s)
      else (Inr (), s\<lparr>pt_files := map_put p c (pt_files s)\<rparr>))"

definition remove_file :: "patch_env \<Rightarrow> string \<Rightarrow> unit patch_work" where
  "remove_file env p s =
     (if pe_refuses env (Op_Remove p) \<or> map_get (pt_files s) p = None then (Inl (Operation_Failed (Op_Remove p)), s)
      else (Inr (), s\<lparr>pt_files := map_del p (pt_files s)\<rparr>))"

definition ensureDir :: "patch_env \<Rightarrow> string \<Rightarrow> unit patch_work" where
  "ensureDir env filePath s =
     (let parent = path_dirname filePath
      in if parent = [] \<or> parent = ''.'' then (Inr (), s)
         else if pe_refuses env (Op_Mkdir parent) then (Inl (Operation_Failed (Op_Mkdir parent)), s)
         else (Inr (), s))"

definition record_once :: "string \<Rightarrow> string list \<Rightarrow> string list" where
  "record_once v vs = (if v \<in> set vs then vs else vs @ [v])"

definition recordSummary :: "(patch_summary \<Rightarrow> patch_summary) \<Rightarrow> unit patch_work" where
  "recordSummary f s = (Inr (), s\<lparr>pt_summary := f (pt_summary s)\<rparr>)"

definition added :: "string \<Rightarrow> patch_summary \<Rightarrow> patch_summary" where
  "added v m = m\<lparr>ps_added := record_once v (ps_added m)\<rparr>"

definition modified :: "string \<Rightarrow> patch_summary \<Rightarrow> patch_summary" where
  "modified v m = m\<lparr>ps_modified := record_once v (ps_modified m)\<rparr>"

definition deleted :: "string \<Rightarrow> patch_summary \<Rightarrow> patch_summary" where
  "deleted v m = m\<lparr>ps_deleted := record_once v (ps_deleted m)\<rparr>"

text \<open>One hunk.\<close>

definition apply_hunk :: "patch_env \<Rightarrow> hunk \<Rightarrow> unit patch_work" where
  "apply_hunk env h =
     (case h of
        Add_File p contents \<Rightarrow>
          work_then (work_value (resolvePatchPath env False p)) (\<lambda>(resolved, display).
          work_then (ensureDir env resolved) (\<lambda>_.
          work_then (write_file env resolved contents) (\<lambda>_. recordSummary (added display))))
      | Delete_File p \<Rightarrow>
          work_then (work_value (resolvePatchPath env True p)) (\<lambda>(resolved, display).
          work_then (remove_file env resolved) (\<lambda>_. recordSummary (deleted display)))
      | Update_File p movePath chunks \<Rightarrow>
          work_then (work_value (resolvePatchPath env False p)) (\<lambda>(resolved, display).
          work_then (read_file env resolved) (\<lambda>contents.
          work_then (work_value (map_sum (Update_Failed resolved) id (applyUpdateHunk contents chunks))) (\<lambda>applied.
          if js_truthy movePath then
            work_then (work_value (resolvePatchPath env False (the movePath))) (\<lambda>(moved, movedDisplay).
            work_then (ensureDir env moved) (\<lambda>_.
            work_then (write_file env moved applied) (\<lambda>_.
            work_then (remove_file env resolved) (\<lambda>_. recordSummary (modified movedDisplay)))))
          else work_then (write_file env resolved applied) (\<lambda>_. recordSummary (modified display))))))"

fun apply_hunks :: "patch_env \<Rightarrow> nat \<Rightarrow> hunk list \<Rightarrow> unit patch_work" where
  "apply_hunks env i [] = work_value (Inr ())"
| "apply_hunks env i (h # hs) =
     (if pe_aborted env i then work_value (Inl Aborted)
      else work_then (apply_hunk env h) (\<lambda>_. apply_hunks env (Suc i) hs))"

definition empty_summary :: patch_summary where
  "empty_summary = \<lparr>ps_added = [], ps_modified = [], ps_deleted = []\<rparr>"

definition applyPatch :: "patch_env \<Rightarrow> string \<Rightarrow> (string, string) js_map \<Rightarrow> (apply_error + patch_summary) \<times> (string, string) js_map" where
  "applyPatch env input files =
     (case parsePatchText input of
        Inl e \<Rightarrow> (Inl (Patch_Invalid e), files)
      | Inr hunks \<Rightarrow>
          if hunks = [] then (Inl No_Files_Modified, files)
          else
            (case apply_hunks env 0 hunks \<lparr>pt_files = files, pt_summary = empty_summary\<rparr> of
               (Inl e, s) \<Rightarrow> (Inl e, pt_files s)
             | (Inr _, s) \<Rightarrow> (Inr (pt_summary s), pt_files s)))"

definition formatSummary :: "patch_summary \<Rightarrow> string" where
  "formatSummary m = js_join [CHR 0x0A] (''Success. Updated the following files:'' #
     map ((@) ''A '') (ps_added m) @ map ((@) ''M '') (ps_modified m) @ map ((@) ''D '') (ps_deleted m))"

text \<open>The tool: the text it answers with, and the summary.\<close>

definition execute_apply_patch ::
    "patch_env \<Rightarrow> bool \<Rightarrow> string option \<Rightarrow> (string, string) js_map \<Rightarrow>
       (apply_error + string \<times> patch_summary) \<times> (string, string) js_map" where
  "execute_apply_patch env aborted input files =
     (if js_trim (js_nullish input []) = [] then (Inl No_Input, files)
      else if aborted then (Inl Aborted, files)
      else apfst (map_sum id (\<lambda>m. (formatSummary m, m))) (applyPatch env (js_nullish input []) files))"

end
