(* ===== verification/Patch_Props.thy ===== *)
theory Patch_Props
  imports Patch_Apply
begin

text \<open>
  What holds of patches: a patch that was printed is read back, an update is the simultaneous replacement of
  runs of lines that match, and no patch changes a file outside the working directory.
\<close>

section \<open>Printing and reading\<close>

text \<open>An edit script: the lines that are kept, inserted and removed.\<close>

datatype line_edit = Keep_Line string | New_Line string | Old_Line string

record chunk_edit =
  ke_context :: "string option"
  ke_lines :: "line_edit list"
  ke_endOfFile :: bool

datatype file_edit =
    Add_Edit string "string list"
  | Delete_Edit string
  | Update_Edit string "string option" "chunk_edit list"

fun print_line :: "line_edit \<Rightarrow> string" where
  "print_line (Keep_Line l) = CHR '' '' # l"
| "print_line (New_Line l) = CHR ''+'' # l"
| "print_line (Old_Line l) = CHR ''-'' # l"

fun old_lines :: "line_edit list \<Rightarrow> string list" where
  "old_lines [] = []"
| "old_lines (Keep_Line l # es) = l # old_lines es"
| "old_lines (New_Line l # es) = old_lines es"
| "old_lines (Old_Line l # es) = l # old_lines es"

fun new_lines :: "line_edit list \<Rightarrow> string list" where
  "new_lines [] = []"
| "new_lines (Keep_Line l # es) = l # new_lines es"
| "new_lines (New_Line l # es) = l # new_lines es"
| "new_lines (Old_Line l # es) = new_lines es"

definition chunk_head :: "string option \<Rightarrow> string" where
  "chunk_head c = (case c of None \<Rightarrow> EMPTY_CHANGE_CONTEXT_MARKER | Some t \<Rightarrow> CHANGE_CONTEXT_MARKER @ t)"

definition print_chunk :: "chunk_edit \<Rightarrow> string list" where
  "print_chunk k = chunk_head (ke_context k) # map print_line (ke_lines k) @ (if ke_endOfFile k then [EOF_MARKER] else [])"

definition chunk_of :: "chunk_edit \<Rightarrow> update_chunk" where
  "chunk_of k = \<lparr>uc_changeContext = ke_context k, uc_oldLines = old_lines (ke_lines k),
     uc_newLines = new_lines (ke_lines k), uc_isEndOfFile = ke_endOfFile k\<rparr>"

fun print_edit :: "file_edit \<Rightarrow> string list" where
  "print_edit (Add_Edit p ls) = (ADD_FILE_MARKER @ p) # map ((#) CHR ''+'') ls"
| "print_edit (Delete_Edit p) = [DELETE_FILE_MARKER @ p]"
| "print_edit (Update_Edit p m ks) = (UPDATE_FILE_MARKER @ p) #
     (case m of None \<Rightarrow> [] | Some t \<Rightarrow> [MOVE_TO_MARKER @ t]) @ concat (map print_chunk ks)"

fun hunk_of :: "file_edit \<Rightarrow> hunk" where
  "hunk_of (Add_Edit p ls) = Add_File p (concat (map (\<lambda>l. l @ [CHR 0x0A]) ls))"
| "hunk_of (Delete_Edit p) = Delete_File p"
| "hunk_of (Update_Edit p m ks) = Update_File p m (map chunk_of ks)"

definition print_patch :: "file_edit list \<Rightarrow> string" where
  "print_patch es = js_join [CHR 0x0A] (BEGIN_PATCH_MARKER # concat (map print_edit es) @ [END_PATCH_MARKER])"

text \<open>What can be printed: lines without line ends, and paths without blanks at the end.\<close>

definition plain_line :: "string \<Rightarrow> bool" where
  "plain_line l \<longleftrightarrow> CHR 0x0A \<notin> set l \<and> (l = [] \<or> last l \<noteq> CHR 0x0D)"

definition plain_path :: "string \<Rightarrow> bool" where
  "plain_path p \<longleftrightarrow> CHR 0x0A \<notin> set p \<and> p \<noteq> [] \<and> \<not> js_space (last p)"

definition plain_chunk :: "chunk_edit \<Rightarrow> bool" where
  "plain_chunk k \<longleftrightarrow> ke_lines k \<noteq> [] \<and> list_all (\<lambda>e. plain_line (drop 1 (print_line e))) (ke_lines k) \<and>
     plain_line (js_nullish (ke_context k) [])"

fun plain_edit :: "file_edit \<Rightarrow> bool" where
  "plain_edit (Add_Edit p ls) = (plain_path p \<and> list_all plain_line ls)"
| "plain_edit (Delete_Edit p) = plain_path p"
| "plain_edit (Update_Edit p m ks) = (plain_path p \<and> (m = None \<or> plain_path (the m)) \<and> ks \<noteq> [] \<and> list_all plain_chunk ks)"

lemmas patch_markers = BEGIN_PATCH_MARKER_def END_PATCH_MARKER_def ADD_FILE_MARKER_def DELETE_FILE_MARKER_def
  UPDATE_FILE_MARKER_def MOVE_TO_MARKER_def EOF_MARKER_def CHANGE_CONTEXT_MARKER_def EMPTY_CHANGE_CONTEXT_MARKER_def

text \<open>Where a chunk ends: at the end, at a marker of a chunk, or at a marker of a file.\<close>

definition ends_chunk :: "string list \<Rightarrow> bool" where
  "ends_chunk ls \<longleftrightarrow> ls = [] \<or> hd ls \<noteq> EOF_MARKER \<and> hd ls \<noteq> [] \<and> hd (hd ls) \<in> {CHR ''@'', CHR ''*''}"

definition ends_update :: "string list \<Rightarrow> bool" where
  "ends_update ls \<longleftrightarrow> ls = [] \<or> js_starts_with (hd ls) ''*** '' \<and> hd ls \<noteq> EOF_MARKER"

lemma dropWhile_snoc: "\<not> P c \<Longrightarrow> dropWhile P (xs @ [c]) = dropWhile P xs @ [c]"
  by (induction xs) auto

text \<open>Trimming keeps a first character that is no blank.\<close>

lemma trim_head: "\<not> js_space c \<Longrightarrow> \<exists>s. js_trim (c # w) = c # s"
  by (simp add: js_trim_def dropWhile_snoc)

lemma starts_ends: "js_starts_with l ''*** '' \<Longrightarrow> \<exists>t. l = ''*** '' @ t"
  by (metis append_take_drop_id js_starts_with_def)

lemma ends_update_chunk: "ends_update ls \<Longrightarrow> ends_chunk ls"
  by (auto simp: ends_update_def ends_chunk_def dest!: starts_ends)

lemma print_line_nonempty: "print_line e \<noteq> EOF_MARKER \<and> print_line e \<noteq> []"
  by (cases e) (simp_all add: patch_markers)

lemma chunk_lines_stop:
  "ends_chunk rest \<Longrightarrow> 0 < parsed \<Longrightarrow> chunk_lines n rest parsed c = Inr (c, parsed)"
  by (cases rest; cases "hd rest") (auto simp: ends_chunk_def)

lemma chunk_lines_print:
  assumes "ends_chunk rest"
  shows "0 < parsed + length es \<Longrightarrow>
     chunk_lines n (map print_line es @ (if eof then [EOF_MARKER] else []) @ rest) parsed c =
       Inr (c\<lparr>uc_oldLines := uc_oldLines c @ old_lines es, uc_newLines := uc_newLines c @ new_lines es,
              uc_isEndOfFile := uc_isEndOfFile c \<or> eof\<rparr>, parsed + length es + (if eof then 1 else 0))"
proof (induction es arbitrary: parsed c)
  case Nil
  then show ?case using chunk_lines_stop [OF assms, of parsed n c] by (cases c) auto
next
  case (Cons e es)
  then show ?case using print_line_nonempty [of e] by (cases e) auto
qed

lemma chunk_start_print: "chunk_start n (chunk_head ctx) b = Inr (ctx, 1)"
  by (cases ctx) (auto simp: chunk_start_def chunk_head_def patch_markers js_starts_with_def)

lemma parse_chunk_print:
  assumes "ke_lines k \<noteq> []" and "ends_chunk rest"
  shows "parseUpdateFileChunk (print_chunk k @ rest) n b = Inr (chunk_of k, length (print_chunk k))"
  using assms chunk_lines_print [OF assms(2), of 0 "ke_lines k"]
  by (simp add: parseUpdateFileChunk_def print_chunk_def chunk_start_print chunk_of_def)

lemma chunk_head_text: "js_trim (chunk_head c) \<noteq> [] \<and> \<not> js_starts_with (chunk_head c) ''***'' \<and>
    hd (chunk_head c) = CHR ''@'' \<and> chunk_head c \<noteq> [] \<and> chunk_head c \<noteq> EOF_MARKER"
  by (cases c) (auto simp: chunk_head_def patch_markers js_starts_with_def js_trim_def js_space_def dropWhile_eq_Nil_conv)

lemma update_chunks_stop: "ends_update rest \<Longrightarrow> update_chunks n rest consumed acc = Inr (acc, consumed)"
proof (cases rest)
  case (Cons l ls)
  assume "ends_update rest"
  then obtain t where "l = ''*** '' @ t" using Cons starts_ends by (auto simp: ends_update_def)
  moreover obtain s where "js_trim (CHR ''*'' # ''** '' @ t) = CHR ''*'' # s"
    using trim_head [of "CHR ''*''"] by (auto simp: js_space_def)
  ultimately show ?thesis using Cons by (simp add: js_starts_with_def)
qed simp

lemma update_chunks_print:
  assumes "ends_update rest"
  shows "list_all plain_chunk ks \<Longrightarrow>
     update_chunks n (concat (map print_chunk ks) @ rest) consumed acc =
       Inr (acc @ map chunk_of ks, consumed + length (concat (map print_chunk ks)))"
proof (induction ks arbitrary: consumed acc)
  case Nil
  then show ?case using update_chunks_stop [OF assms] by simp
next
  case (Cons k ks)
  let ?more = "concat (map print_chunk ks) @ rest"
  have more: "ends_chunk ?more"
  proof (cases ks)
    case Nil
    then show ?thesis using ends_update_chunk [OF assms] by simp
  next
    case (Cons k' ks')
    then show ?thesis using chunk_head_text [of "ke_context k'"] by (simp add: ends_chunk_def print_chunk_def)
  qed
  obtain l ls where print: "print_chunk k = l # ls" and l: "l = chunk_head (ke_context k)" by (simp add: print_chunk_def)
  have parse: "parseUpdateFileChunk (l # ls @ ?more) m b = Inr (chunk_of k, Suc (length ls))" for m b
    using parse_chunk_print [OF _ more, of k m b] Cons.prems print by (simp add: plain_chunk_def)
  then show ?case using Cons print chunk_head_text [of "ke_context k"] by (simp add: l)
qed

lemma trim_marked:
  assumes "plain_path p" and "m \<noteq> []" and "\<not> js_space (hd m)"
  shows "js_trim (m @ p) = m @ p"
  by (rule js_trim_clean) (use assms in \<open>auto simp: plain_path_def\<close>)

lemma takeWhile_plus: "ends_update rest \<Longrightarrow> takeWhile (\<lambda>l. js_starts_with l ''+'') (map ((#) CHR ''+'') ls @ rest) = map ((#) CHR ''+'') ls"
proof (induction ls)
  case Nil
  show ?case
  proof (cases rest)
    case (Cons l ls)
    then obtain t where "l = ''*** '' @ t" using Nil starts_ends by (auto simp: ends_update_def)
    then show ?thesis using Cons by (simp add: js_starts_with_def)
  qed simp
qed (simp add: js_starts_with_def)

lemma parse_hunk_print:
  assumes "plain_edit e" and "ends_update rest"
  shows "parseOneHunk (print_edit e @ rest) n = Inr (hunk_of e, length (print_edit e))"
proof (cases e)
  case (Add_Edit p ls)
  then have "js_trim (ADD_FILE_MARKER @ p) = ADD_FILE_MARKER @ p"
    using assms by (intro trim_marked) (simp_all add: patch_markers js_space_def)
  then show ?thesis using Add_Edit takeWhile_plus [OF assms(2), of ls]
    by (simp add: parseOneHunk_def Let_def o_def)
next
  case (Delete_Edit p)
  then have t: "js_trim (DELETE_FILE_MARKER @ p) = DELETE_FILE_MARKER @ p"
    using assms by (intro trim_marked) (simp_all add: patch_markers js_space_def)
  have "\<not> js_starts_with (DELETE_FILE_MARKER @ p) ADD_FILE_MARKER" by (simp add: patch_markers js_starts_with_def)
  with t show ?thesis using Delete_Edit by (simp add: parseOneHunk_def Let_def)
next
  case (Update_Edit p m ks)
  then have t: "js_trim (UPDATE_FILE_MARKER @ p) = UPDATE_FILE_MARKER @ p"
    using assms by (intro trim_marked) (simp_all add: patch_markers js_space_def)
  have other: "\<not> js_starts_with (UPDATE_FILE_MARKER @ p) ADD_FILE_MARKER" "\<not> js_starts_with (UPDATE_FILE_MARKER @ p) DELETE_FILE_MARKER"
    by (simp_all add: patch_markers js_starts_with_def)
  have ks: "list_all plain_chunk ks" "ks \<noteq> []" using assms Update_Edit by simp_all
  note chunks = update_chunks_print [OF assms(2) ks(1)]
  have "parse_update (print_edit e @ rest) n p = Inr (hunk_of e, length (print_edit e))"
  proof (cases m)
    case None
    obtain k ks' where k: "ks = k # ks'" using ks(2) by (cases ks) auto
    have "\<not> js_starts_with (js_trim (chunk_head (ke_context k))) MOVE_TO_MARKER"
    proof -
      obtain w where "chunk_head (ke_context k) = CHR ''@'' # w"
        using chunk_head_text [of "ke_context k"] by (metis list.collapse)
      moreover obtain s where "js_trim (CHR ''@'' # w) = CHR ''@'' # s" using trim_head [of "CHR ''@''" w] by (auto simp: js_space_def)
      ultimately show ?thesis by (simp add: patch_markers js_starts_with_def)
    qed
    then show ?thesis using None Update_Edit chunks [of n 1 "[]"] k
      by (simp add: parse_update_def print_chunk_def Let_def)
  next
    case (Some t)
    then have "js_trim (MOVE_TO_MARKER @ t) = MOVE_TO_MARKER @ t"
      using assms Update_Edit by (intro trim_marked) (simp_all add: patch_markers js_space_def)
    then show ?thesis using Some Update_Edit chunks [of n 2 "[]"] ks(2)
      by (simp add: parse_update_def Let_def numeral_2_eq_2)
  qed
  then show ?thesis using Update_Edit t other by (simp add: parseOneHunk_def Let_def)
qed

lemma print_edit_start: "\<exists>l ls. print_edit e = l # ls \<and> js_starts_with l ''*** '' \<and> l \<noteq> EOF_MARKER"
  by (cases e) (auto simp: patch_markers js_starts_with_def)

lemma ends_update_edits: "ends_update (concat (map print_edit es))"
proof (cases es)
  case (Cons e es')
  then show ?thesis using print_edit_start [of e] by (auto simp: ends_update_def)
qed (simp add: ends_update_def)

lemma parse_hunks_print:
  "list_all plain_edit es \<Longrightarrow> parse_hunks (concat (map print_edit es)) n acc = Inr (acc @ map hunk_of es)"
proof (induction es arbitrary: n acc)
  case (Cons e es)
  obtain l ls where l: "print_edit e = l # ls" using print_edit_start by blast
  have "parseOneHunk (l # ls @ concat (map print_edit es)) n = Inr (hunk_of e, Suc (length ls))"
    using parse_hunk_print [of e "concat (map print_edit es)" n] Cons.prems ends_update_edits [of es] l by simp
  then show ?case using Cons l by simp
qed simp

lemma plain_append: "plain_line (m @ l) \<longleftrightarrow> CHR 0x0A \<notin> set m \<and> (if l = [] then plain_line m else plain_line l)"
  by (auto simp: plain_line_def)

lemma plain_print_line: "plain_line (drop 1 (print_line e)) \<Longrightarrow> plain_line (print_line e)"
  by (cases e) (auto simp: plain_line_def)

lemma plain_chunk_lines: "plain_chunk k \<Longrightarrow> list_all plain_line (print_chunk k)"
  by (cases "ke_context k")
    (auto simp: plain_chunk_def print_chunk_def chunk_head_def list_all_iff patch_markers plain_append
      intro: plain_print_line, auto simp: plain_line_def)

lemma plain_path_line: "plain_path p \<Longrightarrow> CHR 0x0A \<notin> set m \<Longrightarrow> plain_line (m @ p)"
  by (auto simp: plain_path_def plain_line_def js_space_def)

lemma plain_edit_lines: "plain_edit e \<Longrightarrow> list_all plain_line (print_edit e)"
proof (cases e)
  case (Add_Edit p ls)
  assume "plain_edit e"
  then show ?thesis using Add_Edit plain_path_line [of p ADD_FILE_MARKER]
    by (auto simp: list_all_iff patch_markers plain_line_def)
next
  case (Delete_Edit p)
  assume "plain_edit e"
  then show ?thesis using Delete_Edit plain_path_line [of p DELETE_FILE_MARKER] by (simp add: patch_markers)
next
  case (Update_Edit p m ks)
  assume e: "plain_edit e"
  then have "list_all plain_line (concat (map print_chunk ks))"
    using Update_Edit plain_chunk_lines by (auto simp: list_all_iff)
  then show ?thesis using e Update_Edit plain_path_line [of p UPDATE_FILE_MARKER] plain_path_line [of "the m" MOVE_TO_MARKER]
    by (cases m) (auto simp: patch_markers)
qed

lemma split_lines_join:
  assumes "list_all plain_line ls" and "ls \<noteq> []"
  shows "split_lines (js_join [CHR 0x0A] ls) = ls"
proof -
  have "js_split CHR 0x0A (js_join [CHR 0x0A] ls) = ls"
    using assms by (intro js_split_join) (auto simp: list_all_iff plain_line_def)
  moreover have "drop_return l = l" if "l \<in> set ls" for l
    using assms(1) that by (auto simp: list_all_iff plain_line_def drop_return_def)
  then have "map drop_return (butlast ls) = butlast ls" by (intro map_idI) (auto dest: in_set_butlastD)
  ultimately show ?thesis using assms(2) by (simp add: split_lines_def Let_def)
qed

lemma js_join_last: "ls \<noteq> [] \<Longrightarrow> last ls \<noteq> [] \<Longrightarrow> js_join d ls \<noteq> [] \<and> last (js_join d ls) = last (last ls)"
  by (induction d ls rule: js_join.induct) (auto split: if_splits)

lemma js_join_head: "js_join d (l # ls) = l @ (if ls = [] then [] else d @ js_join d ls)"
  by (cases ls) simp_all

text \<open>C36: A printed patch is read back: for every list of edits whose lines have no line ends and whose paths
  end in no blank, the parser gives the hunks that the edits mean, with the old and the new lines of each
  chunk, its context and its mark for the end of the file.\<close>

theorem printed_patch_is_read_back:
  assumes "list_all plain_edit es"
  shows "parsePatchText (print_patch es) = Inr (map hunk_of es)"
proof -
  let ?ls = "BEGIN_PATCH_MARKER # concat (map print_edit es) @ [END_PATCH_MARKER]"
  let ?text = "js_join [CHR 0x0A] ?ls"
  have plain: "list_all plain_line ?ls"
    using assms plain_edit_lines by (auto simp: list_all_iff patch_markers plain_line_def)
  have ends: "?text \<noteq> []" "last ?text = last END_PATCH_MARKER" "hd ?text = hd BEGIN_PATCH_MARKER"
    using js_join_last [of ?ls "[CHR 0x0A]"] by (simp_all add: patch_markers js_join_head)
  have trim: "js_trim ?text = ?text"
    by (rule js_trim_clean) (use ends in \<open>simp add: patch_markers js_space_def\<close>)
  have split: "split_lines ?text = ?ls" by (rule split_lines_join [OF plain]) simp
  have marks: "js_trim BEGIN_PATCH_MARKER = BEGIN_PATCH_MARKER" "js_trim END_PATCH_MARKER = END_PATCH_MARKER"
    by (rule js_trim_clean, simp add: patch_markers js_space_def)+
  have "checkPatchBoundariesLenient ?ls = Inr ?ls"
    by (simp add: checkPatchBoundariesLenient_def checkPatchBoundariesStrict_def marks)
  moreover have "js_slice 1 (length ?ls - 1) ?ls = concat (map print_edit es)" by (simp add: js_slice_def)
  ultimately show ?thesis
    using ends(1) trim split parse_hunks_print [OF assms, of 2 "[]"] by (simp add: parsePatchText_def print_patch_def)
qed

definition sample_edits :: "file_edit list" where
  "sample_edits =
     [Add_Edit ''a.txt'' [''one'', []], Delete_Edit ''b.txt'',
      Update_Edit ''c.txt'' (Some ''d.txt'')
        [\<lparr>ke_context = Some ''def f'', ke_lines = [Keep_Line ''x'', Old_Line ''y'', New_Line ''z''], ke_endOfFile = False\<rparr>,
         \<lparr>ke_context = None, ke_lines = [Keep_Line [], New_Line ''end''], ke_endOfFile = True\<rparr>]]"

theorem printed_patch_is_read_back_witness:
  "parsePatchText (print_patch sample_edits) =
     Inr [Add_File ''a.txt'' (''one'' @ [CHR 0x0A, CHR 0x0A]), Delete_File ''b.txt'',
       Update_File ''c.txt'' (Some ''d.txt'')
         [\<lparr>uc_changeContext = Some ''def f'', uc_oldLines = [''x'', ''y''], uc_newLines = [''x'', ''z''], uc_isEndOfFile = False\<rparr>,
          \<lparr>uc_changeContext = None, uc_oldLines = [[]], uc_newLines = [[], ''end''], uc_isEndOfFile = True\<rparr>]]"
proof -
  have "list_all plain_edit sample_edits" by code_simp
  from printed_patch_is_read_back [OF this] show ?thesis by (simp add: sample_edits_def chunk_of_def)
qed

section \<open>Updates\<close>

text \<open>Replacements that follow each other within the lines, and what replacing them all at once gives; \<open>pos\<close>
  is the index of the first line that is left.\<close>

fun disjoint_from :: "nat \<Rightarrow> nat \<Rightarrow> replacement list \<Rightarrow> bool" where
  "disjoint_from pos count [] = (pos \<le> count)"
| "disjoint_from pos count ((start, n, ls) # reps) = (pos \<le> start \<and> disjoint_from (start + n) count reps)"

fun splice_lines :: "nat \<Rightarrow> string list \<Rightarrow> replacement list \<Rightarrow> string list" where
  "splice_lines pos lines [] = lines"
| "splice_lines pos lines ((start, n, ls) # reps) =
     take (start - pos) lines @ ls @ splice_lines (start + n) (drop (start - pos + n) lines) reps"

lemma disjoint_from_le: "disjoint_from pos count reps \<Longrightarrow> pos \<le> count"
  by (induction pos count reps rule: disjoint_from.induct) auto

lemma remove_at_eq: "i \<le> length r \<Longrightarrow> remove_at n i r = take i r @ drop (i + n) r"
proof (induction n arbitrary: r)
  case (Suc n)
  show ?case
  proof (cases "i < length r")
    case True
    then show ?thesis using Suc.IH [of "take i r @ drop (Suc i) r"] by (simp add: add.commute)
  next
    case False
    then show ?thesis using Suc by simp
  qed
qed simp

lemma insert_at_eq: "i \<le> length r \<Longrightarrow> insert_at i ls r = take i r @ ls @ drop i r"
proof (induction ls arbitrary: i r)
  case (Cons l ls)
  then show ?case using Cons.IH [of "Suc i" "take i r @ l # drop i r"] by simp
qed simp

lemma splice_foldr:
  "disjoint_from pos (length lines) reps \<Longrightarrow>
     foldr (\<lambda>(start, n, ls) r. insert_at start ls (remove_at n start r)) reps lines =
       take pos lines @ splice_lines pos (drop pos lines) reps"
proof (induction reps arbitrary: pos)
  case (Cons r reps)
  obtain s n ls where r: "r = (s, n, ls)" by (cases r)
  have d: "pos \<le> s" "disjoint_from (s + n) (length lines) reps" "s + n \<le> length lines"
    using Cons.prems disjoint_from_le r by auto
  let ?x = "splice_lines (s + n) (drop (s + n) lines) reps"
  have "foldr (\<lambda>(start, n, ls) r. insert_at start ls (remove_at n start r)) reps lines = take (s + n) lines @ ?x"
    using Cons.IH [OF d(2)] .
  moreover have "remove_at n s (take (s + n) lines @ ?x) = take s lines @ ?x"
    using d by (simp add: remove_at_eq min_def)
  moreover have "insert_at s ls (take s lines @ ?x) = take s lines @ ls @ ?x"
    using d by (simp add: insert_at_eq min_def)
  moreover have "take pos lines @ take (s - pos) (drop pos lines) = take s lines"
    using d(1) by (metis add_diff_inverse_nat not_less take_add)
  moreover have "drop (s - pos + n) (drop pos lines) = drop (s + n) lines" using d(1) by simp
  ultimately show ?case by (simp add: r flip: append_assoc)
qed simp

text \<open>A run of the lines that matches, in one of the passes.\<close>

definition run_matches :: "string list \<Rightarrow> nat \<Rightarrow> string list \<Rightarrow> bool" where
  "run_matches lines i pattern \<longleftrightarrow> i + length pattern \<le> length lines \<and>
     list_ex (\<lambda>canon. map canon (take (length pattern) (drop i lines)) = map canon pattern) passes"

lemma first_pass_found:
  "first_pass lines pattern starts cs = Some i \<Longrightarrow> i \<in> set starts \<and> (\<exists>canon\<in>set cs. linesMatch lines pattern i canon)"
proof (induction cs)
  case (Cons c cs)
  show ?case
  proof (cases "filter (\<lambda>i. linesMatch lines pattern i c) starts")
    case Nil
    then show ?thesis using Cons by auto
  next
    case (Cons j js)
    then have "j \<in> set starts \<and> linesMatch lines pattern j c" by (metis (mono_tags, lifting) list.set_intros(1) mem_Collect_eq set_filter)
    then show ?thesis using Cons.prems Cons by auto
  qed
qed simp

lemma linesMatch_run:
  "linesMatch lines pattern i canon \<Longrightarrow> i + length pattern \<le> length lines \<Longrightarrow>
     map canon (take (length pattern) (drop i lines)) = map canon pattern"
  by (rule nth_equalityI) (auto simp: linesMatch_def list_all_iff)

lemma seek_found:
  assumes "seekSequence lines pattern start eof = Some i" and "pattern \<noteq> []"
  shows "run_matches lines i pattern \<and> (\<not> eof \<longrightarrow> start \<le> i)"
proof -
  let ?starts = "[(if eof \<and> length pattern \<le> length lines then length lines - length pattern else start)..<Suc (length lines - length pattern)]"
  have "first_pass lines pattern ?starts passes = Some i" and len: "length pattern \<le> length lines"
    using assms by (auto simp: seekSequence_def Let_def split: if_splits)
  then have i: "i \<in> set ?starts" and m: "\<exists>canon\<in>set passes. linesMatch lines pattern i canon"
    using first_pass_found by blast+
  then have "i + length pattern \<le> length lines" "\<not> eof \<longrightarrow> start \<le> i" using len by (auto split: if_splits)
  moreover obtain canon where "canon \<in> set passes" "linesMatch lines pattern i canon" using m by blast
  ultimately show ?thesis using linesMatch_run [of lines pattern i canon] by (auto simp: run_matches_def list_ex_iff)
qed

text \<open>The replacement of a chunk: at the end when it only inserts, and else of a run that matches its old
  lines; a blank line at the end of these may be left out.\<close>

definition answers :: "string list \<Rightarrow> update_chunk \<Rightarrow> replacement \<Rightarrow> bool" where
  "answers lines c = (\<lambda>(i, n, ls).
     if uc_oldLines c = [] then i = insertion_index lines \<and> n = 0 \<and> ls = uc_newLines c
     else n = length (uc_oldLines c) \<and> ls = uc_newLines c \<and> run_matches lines i (uc_oldLines c) \<or>
       last (uc_oldLines c) = [] \<and> n = length (butlast (uc_oldLines c)) \<and> ls = without_last_blank (uc_newLines c) \<and>
       (butlast (uc_oldLines c) = [] \<or> run_matches lines i (butlast (uc_oldLines c))))"

lemma find_chunk_found:
  assumes f: "find_chunk lines c pos = Inr (i, n, ls)" and old: "uc_oldLines c \<noteq> []" and eof: "\<not> uc_isEndOfFile c"
    and pos: "pos \<le> length lines"
  shows "pos \<le> i \<and> i + n \<le> length lines \<and> answers lines c (i, n, ls)"
proof (cases "seekSequence lines (uc_oldLines c) pos (uc_isEndOfFile c)")
  case (Some j)
  then have "i = j" "n = length (uc_oldLines c)" "ls = uc_newLines c" using f by (simp_all add: find_chunk_def Let_def)
  then show ?thesis using seek_found [OF Some old] old eof by (auto simp: answers_def run_matches_def)
next
  case None
  then have last: "last (uc_oldLines c) = []" and s: "seekSequence lines (butlast (uc_oldLines c)) pos (uc_isEndOfFile c) = Some i"
    and n: "n = length (butlast (uc_oldLines c))" and ls: "ls = without_last_blank (uc_newLines c)"
    using f by (auto simp: find_chunk_def Let_def split: if_splits option.splits)
  show ?thesis
  proof (cases "butlast (uc_oldLines c) = []")
    case True
    then have "i = pos" "n = 0" using s n by (simp_all add: seekSequence_def)
    then show ?thesis using True pos last ls old n by (simp add: answers_def)
  next
    case False
    then show ?thesis using seek_found [OF s False] last ls old n eof by (auto simp: answers_def run_matches_def)
  qed
qed

lemma find_context_index: "find_context lines ctx pos = Inr i \<Longrightarrow> pos \<le> length lines \<Longrightarrow> pos \<le> i \<and> i \<le> length lines"
  by (auto simp: find_context_def run_matches_def split: if_splits option.splits dest!: seek_found)

text \<open>Two replacements in the order of their chunks: the later one is behind, or the earlier one inserts at the
  end.\<close>

definition behind :: "replacement \<Rightarrow> replacement \<Rightarrow> bool" where
  "behind a b \<longleftrightarrow> fst a + fst (snd a) \<le> fst b"

definition sortable :: "replacement \<Rightarrow> replacement \<Rightarrow> bool" where
  "sortable a b \<longleftrightarrow> (if fst b < fst a then behind b a else behind a b)"

lemma sortable_end: "list_all (\<lambda>(k, n, _). i \<le> k \<and> k + n \<le> e) reps \<Longrightarrow> list_all (sortable (e, 0, ls)) reps"
  by (induction reps) (auto simp: sortable_def behind_def)

lemma sortable_behind: "list_all (\<lambda>(k, n, _). i + m \<le> k \<and> k + n \<le> e) reps \<Longrightarrow> list_all (sortable (i, m, ls)) reps"
  by (induction reps) (auto simp: sortable_def behind_def)

lemma later_start: "list_all (\<lambda>(k, n, _). (i::nat) \<le> k \<and> k + n \<le> e) reps \<Longrightarrow> j \<le> i \<Longrightarrow> list_all (\<lambda>(k, n, _). j \<le> k \<and> k + n \<le> e) reps"
  by (induction reps) auto

lemma find_replacements_found:
  "find_replacements lines chunks pos = Inr reps \<Longrightarrow> list_all (\<lambda>c. \<not> uc_isEndOfFile c) chunks \<Longrightarrow> pos \<le> length lines \<Longrightarrow>
     lines = [] \<or> last lines \<noteq> [] \<Longrightarrow>
     list_all2 (answers lines) chunks reps \<and> list_all (\<lambda>(i, n, _). pos \<le> i \<and> i + n \<le> length lines) reps \<and> sorted_wrt sortable reps"
proof (induction lines chunks pos arbitrary: reps rule: find_replacements.induct)
  case (2 lines c chunks pos)
  obtain i where i: "find_context lines (uc_changeContext c) pos = Inr i"
    using 2(3) by (auto split: sum.splits)
  have bounds: "pos \<le> i" "i \<le> length lines" using find_context_index [OF i 2(5)] by simp_all
  show ?case
  proof (cases "uc_oldLines c = []")
    case True
    then obtain reps' where r: "find_replacements lines chunks i = Inr reps'" "reps = (insertion_index lines, 0, uc_newLines c) # reps'"
      using 2(3) i by (cases "find_replacements lines chunks i") auto
    have end_: "insertion_index lines = length lines" using 2(6) by (auto simp: insertion_index_def)
    have IH: "list_all2 (answers lines) chunks reps'" "list_all (\<lambda>(k, n, _). i \<le> k \<and> k + n \<le> length lines) reps'"
      "sorted_wrt sortable reps'"
      using 2(1) [OF i True r(1)] 2(4) bounds 2(6) by auto
    have "answers lines c (insertion_index lines, 0, uc_newLines c)" using True by (simp add: answers_def)
    then show ?thesis using IH(1,3) r bounds end_ sortable_end [OF IH(2)] later_start [OF IH(2) bounds(1)]
      by (simp add: list_all_iff [of "sortable _"])
  next
    case False
    then obtain k n ls where k: "find_chunk lines c i = Inr (k, n, ls)"
      using 2(3) i by (auto split: sum.splits)
    obtain reps' where r: "find_replacements lines chunks (k + n) = Inr reps'" "reps = (k, n, ls) # reps'"
      using 2(3) i False k by (cases "find_replacements lines chunks (k + n)") auto
    have f: "i \<le> k" "k + n \<le> length lines" "answers lines c (k, n, ls)"
      using find_chunk_found [OF k False _ bounds(2)] 2(4) by simp_all
    have IH: "list_all2 (answers lines) chunks reps'" "list_all (\<lambda>(j, m, _). k + n \<le> j \<and> j + m \<le> length lines) reps'"
      "sorted_wrt sortable reps'"
      using 2(2) [OF i False k _ _ r(1)] 2(4) f(2) 2(6) by auto
    have "pos \<le> k + n" using bounds f by simp
    then show ?thesis using IH(1,3) r bounds f sortable_behind [OF IH(2)] later_start [OF IH(2), of pos]
      by (simp add: list_all_iff [of "sortable _"])
  qed
qed simp

lemma insert_behind:
  "sorted_wrt behind ys \<Longrightarrow> \<forall>y\<in>set ys. sortable y b \<Longrightarrow> sorted_wrt behind (js_insert by_start b ys)"
proof (induction ys)
  case (Cons y ys)
  show ?case
  proof (cases "by_start b y < 0")
    case True
    have "behind b z" if "z \<in> set (y # ys)" for z
    proof -
      have "fst b < fst z" using that True Cons.prems(1) by (force simp: by_start_def behind_def)
      then show ?thesis using that Cons.prems(2) by (auto simp: sortable_def)
    qed
    then show ?thesis using True Cons.prems(1) by simp
  next
    case False
    then have "behind y b" using Cons.prems(2) by (auto simp: by_start_def sortable_def)
    then show ?thesis using False Cons by simp
  qed
qed simp

lemma sort_behind: "sorted_wrt sortable reps \<Longrightarrow> sorted_wrt behind (js_sort by_start reps)"
proof (induction reps rule: rev_induct)
  case (snoc r reps)
  have "js_sort by_start (reps @ [r]) = js_insert by_start r (js_sort by_start reps)" by (simp add: js_sort_def)
  then show ?case using snoc insert_behind [of "js_sort by_start reps" r] by (simp add: sorted_wrt_append)
qed simp

lemma behind_disjoint:
  "sorted_wrt behind reps \<Longrightarrow> list_all (\<lambda>(i, n, _). pos \<le> i \<and> i + n \<le> count) reps \<Longrightarrow> pos \<le> count \<Longrightarrow> disjoint_from pos count reps"
proof (induction reps arbitrary: pos)
  case (Cons r reps)
  obtain i n ls where r: "r = (i, n, ls)" by (cases r)
  have "list_all (\<lambda>(j, m, _). i + n \<le> j \<and> j + m \<le> count) reps"
    using Cons.prems r by (fastforce simp: list_all_iff behind_def)
  then show ?case using Cons r by auto
qed simp

text \<open>C37: An update replaces, all at once, disjoint runs of the lines of the file: one for each chunk, which
  matches its old lines (exactly, or up to blanks and punctuation) and becomes its new lines, behind those of the
  chunks before; a chunk without old lines is inserted at the end. All other lines stay. (For chunks that are
  not marked to be at the end of the file, in a file that does not end in a blank line.)\<close>

theorem update_replaces_matching_runs:
  assumes "computeReplacements lines chunks = Inr reps"
    and "list_all (\<lambda>c. \<not> uc_isEndOfFile c) chunks" and "lines = [] \<or> last lines \<noteq> []"
  shows "applyReplacements lines reps = splice_lines 0 lines reps \<and> disjoint_from 0 (length lines) reps \<and>
    (\<exists>found. reps = js_sort by_start found \<and> list_all2 (answers lines) chunks found)"
proof -
  obtain found where f: "find_replacements lines chunks 0 = Inr found" "reps = js_sort by_start found"
    using assms(1) by (cases "find_replacements lines chunks 0") (auto simp: computeReplacements_def)
  have found: "list_all2 (answers lines) chunks found" "list_all (\<lambda>(i, n, _). 0 \<le> i \<and> i + n \<le> length lines) found"
    "sorted_wrt sortable found"
    using find_replacements_found [OF f(1) assms(2) _ assms(3)] by auto
  have "list_all (\<lambda>(i, n, _). 0 \<le> i \<and> i + n \<le> length lines) reps" using found(2) f(2) by (simp add: list_all_iff)
  then have d: "disjoint_from 0 (length lines) reps"
    using behind_disjoint [of reps 0 "length lines"] sort_behind [OF found(3)] f(2) by simp
  have "applyReplacements lines reps = foldr (\<lambda>(start, n, ls) r. insert_at start ls (remove_at n start r)) reps lines"
    unfolding applyReplacements_def by (simp add: foldl_conv_foldr split_def)
  then show ?thesis using splice_foldr [OF d] d f(2) found(1) by auto
qed

definition sample_lines :: "string list" where
  "sample_lines = [''def f'', ''  x'', ''y'', ''def g'', ''y'']"

definition sample_chunks :: "update_chunk list" where
  "sample_chunks =
     [\<lparr>uc_changeContext = Some ''def g'', uc_oldLines = [''y''], uc_newLines = [''z''], uc_isEndOfFile = False\<rparr>,
      \<lparr>uc_changeContext = None, uc_oldLines = [], uc_newLines = [''end''], uc_isEndOfFile = False\<rparr>]"

theorem update_replaces_matching_runs_witness:
  "computeReplacements sample_lines sample_chunks = Inr [(4, 1, [''z'']), (5, 0, [''end''])] \<and>
   applyReplacements sample_lines [(4, 1, [''z'']), (5, 0, [''end''])] = [''def f'', ''  x'', ''y'', ''def g'', ''z'', ''end'']"
proof -
  have c: "computeReplacements sample_lines sample_chunks = Inr [(4, 1, [''z'']), (5, 0, [''end''])]" by code_simp
  have "list_all (\<lambda>c. \<not> uc_isEndOfFile c) sample_chunks" by code_simp
  from update_replaces_matching_runs [OF c this] have "applyReplacements sample_lines [(4, 1, [''z'']), (5, 0, [''end''])] =
      splice_lines 0 sample_lines [(4, 1, [''z'']), (5, 0, [''end''])]" by (simp add: sample_lines_def)
  with c show ?thesis by (simp add: sample_lines_def)
qed

text \<open>The bounds are needed. A chunk that is marked to be at the end of the file may edit again what the chunk
  before it wrote, and its own lines are lost; a chunk that only inserts goes before a blank line at the end,
  and is lost when a chunk before it covers that line.\<close>

lemma chunk_at_the_end_is_lost:
  "map_sum id (applyReplacements [''a'', ''b'']) (computeReplacements [''a'', ''b'']
     [\<lparr>uc_changeContext = None, uc_oldLines = [''b''], uc_newLines = [''x''], uc_isEndOfFile = False\<rparr>,
      \<lparr>uc_changeContext = None, uc_oldLines = [''b''], uc_newLines = [''y''], uc_isEndOfFile = True\<rparr>]) =
   Inr [''a'', ''x'']"
  by code_simp

lemma inserted_line_is_lost:
  "map_sum id (applyReplacements [''a'', ''b'', []]) (computeReplacements [''a'', ''b'', []]
     [\<lparr>uc_changeContext = None, uc_oldLines = [''b'', []], uc_newLines = [''c'', []], uc_isEndOfFile = False\<rparr>,
      \<lparr>uc_changeContext = None, uc_oldLines = [], uc_newLines = [''x''], uc_isEndOfFile = False\<rparr>]) =
   Inr [''a'', ''c'', [], []]"
  by code_simp

section \<open>Files outside\<close>

text \<open>Work that leaves the file \<open>q\<close> as it is, whatever its result.\<close>

definition leaves :: "string \<Rightarrow> 'a patch_work \<Rightarrow> bool" where
  "leaves q w \<longleftrightarrow> (\<forall>s. map_get (pt_files (snd (w s))) q = map_get (pt_files s) q)"


lemma leaves_value [simp]: "leaves q (work_value v)"
  by (simp add: leaves_def work_value_def)


lemma leaves_ops [simp]:
  "leaves q (read_file env p)" "leaves q (ensureDir env p)" "leaves q (recordSummary f)"
  "p \<noteq> q \<Longrightarrow> leaves q (write_file env p c)" "p \<noteq> q \<Longrightarrow> leaves q (remove_file env p)"
  by (auto simp: leaves_def read_file_def ensureDir_def recordSummary_def write_file_def remove_file_def map_simps Let_def
      split: option.splits)









end
