(* ===== verification/Tool_Loop.thy ===== *)
theory Tool_Loop
  imports Config_Values
begin

text \<open>
  The detection of agents that repeat themselves: \<^verbatim>\<open>src/agents/tool-loop-detection.ts\<close>. A session keeps the
  last calls of tools with a digest of their parameters and, once it is known, of their outcome; before a call
  the history decides whether it is let through, warned about or blocked.

  The digest and the text of primitive JSON values are parameters. Parameters and results are JSON values, on
  which the serialisation cannot fail; the fallback for other values is left out.
\<close>

section \<open>Configuration\<close>

definition TOOL_CALL_HISTORY_SIZE :: int where "TOOL_CALL_HISTORY_SIZE = 30"
definition WARNING_THRESHOLD :: int where "WARNING_THRESHOLD = 10"
definition CRITICAL_THRESHOLD :: int where "CRITICAL_THRESHOLD = 20"
definition GLOBAL_CIRCUIT_BREAKER_THRESHOLD :: int where "GLOBAL_CIRCUIT_BREAKER_THRESHOLD = 30"

record loop_config =
  lc_enabled :: "bool option"
  lc_historySize :: "js_number option"
  lc_warningThreshold :: "js_number option"
  lc_criticalThreshold :: "js_number option"
  lc_globalCircuitBreakerThreshold :: "js_number option"
  lc_genericRepeat :: "bool option"
  lc_knownPollNoProgress :: "bool option"
  lc_pingPong :: "bool option"

record resolved_config =
  rv_enabled :: bool
  rv_historySize :: int
  rv_warningThreshold :: int
  rv_criticalThreshold :: int
  rv_breakerThreshold :: int
  rv_genericRepeat :: bool
  rv_knownPollNoProgress :: bool
  rv_pingPong :: bool

definition asPositiveInt :: "js_number option \<Rightarrow> int \<Rightarrow> int" where
  "asPositiveInt v fallback =
     (case v of
        Some (Fin r) \<Rightarrow> if of_int \<lfloor>r\<rfloor> \<noteq> r \<or> r \<le> 0 then fallback else \<lfloor>r\<rfloor>
      | _ \<Rightarrow> fallback)"

definition resolveLoopDetectionConfig :: "loop_config \<Rightarrow> resolved_config" where
  "resolveLoopDetectionConfig c =
     (let warning = asPositiveInt (lc_warningThreshold c) WARNING_THRESHOLD;
          critical = asPositiveInt (lc_criticalThreshold c) CRITICAL_THRESHOLD;
          breaker = asPositiveInt (lc_globalCircuitBreakerThreshold c) GLOBAL_CIRCUIT_BREAKER_THRESHOLD;
          criticalThreshold = (if critical \<le> warning then warning + 1 else critical);
          breakerThreshold = (if breaker \<le> criticalThreshold then criticalThreshold + 1 else breaker)
      in \<lparr>rv_enabled = js_nullish (lc_enabled c) False,
          rv_historySize = asPositiveInt (lc_historySize c) TOOL_CALL_HISTORY_SIZE,
          rv_warningThreshold = warning, rv_criticalThreshold = criticalThreshold, rv_breakerThreshold = breakerThreshold,
          rv_genericRepeat = js_nullish (lc_genericRepeat c) True,
          rv_knownPollNoProgress = js_nullish (lc_knownPollNoProgress c) True,
          rv_pingPong = js_nullish (lc_pingPong c) True\<rparr>)"

section \<open>Digests\<close>

text \<open>The digest and the text of a value that is neither an array nor an object.\<close>

record digests =
  dg_digest :: "string \<Rightarrow> string"
  dg_primitive :: "json \<Rightarrow> string"

fun code_before :: "string \<Rightarrow> string \<Rightarrow> bool" where
  "code_before [] [] = False"
| "code_before [] (d # t) = True"
| "code_before (c # s) [] = False"
| "code_before (c # s) (d # t) = (if c = d then code_before s t else (of_char c :: nat) < of_char d)"

definition sorted_entries :: "(string \<times> 'a) list \<Rightarrow> (string \<times> 'a) list" where
  "sorted_entries = js_sort (\<lambda>a b. if code_before (fst a) (fst b) then -1 else if fst a = fst b then 0 else 1)"

fun stableStringify :: "digests \<Rightarrow> json \<Rightarrow> string" where
  "stableStringify d (JArr vs) = ''['' @ js_join '','' (map (stableStringify d) vs) @ '']''"
| "stableStringify d (JObj ps) =
     ''{'' @ js_join '','' (map (\<lambda>(k, s). dg_primitive d (JStr k) @ '':'' @ s)
       (sorted_entries (map (\<lambda>(k, v). (k, stableStringify d v)) ps))) @ ''}''"
| "stableStringify d v = dg_primitive d v"

definition digestStable :: "digests \<Rightarrow> json \<Rightarrow> string" where
  "digestStable d v = dg_digest d (stableStringify d v)"

definition hashToolCall :: "digests \<Rightarrow> string \<Rightarrow> json \<Rightarrow> string" where
  "hashToolCall d toolName params = toolName @ '':'' @ digestStable d params"

definition isKnownPollToolCall :: "string \<Rightarrow> json \<Rightarrow> bool" where
  "isKnownPollToolCall toolName params =
     (if toolName = ''command_status'' then True
      else if toolName \<noteq> ''process'' \<or> \<not> isPlainObject params then False
      else obj_get (obj_or_empty params) ''action'' \<in> {JStr ''poll'', JStr ''log''})"

definition entry_text :: "json \<Rightarrow> string option" where
  "entry_text entry =
     (case entry of
        JObj ob \<Rightarrow> (case (obj_get ob ''type'', obj_get ob ''text'') of (JStr _, JStr t) \<Rightarrow> Some t | _ \<Rightarrow> None)
      | _ \<Rightarrow> None)"

definition extractTextContent :: "json \<Rightarrow> string" where
  "extractTextContent result =
     (case obj_get (obj_or_empty result) ''content'' of
        JArr entries \<Rightarrow> js_trim (js_join [CHR 0x0A] (List.map_filter entry_text entries))
      | _ \<Rightarrow> [])"

text \<open>What a call ends with: an error with name and message, another thrown value, or a result. Throwing
  \<open>undefined\<close> is recorded like a call without result.\<close>

datatype tool_end = Tool_Error string string | Tool_Threw json | Tool_Result json

definition formatErrorForHash :: "digests \<Rightarrow> tool_end \<Rightarrow> string" where
  "formatErrorForHash d e =
     (case e of
        Tool_Error name message \<Rightarrow> js_or message name
      | Tool_Threw (JStr s) \<Rightarrow> s
      | Tool_Threw v \<Rightarrow> stableStringify d v
      | Tool_Result v \<Rightarrow> stableStringify d v)"

definition or_null :: "json \<Rightarrow> json" where
  "or_null v = (if v = JUndef then JNull else v)"

definition hashToolOutcome :: "digests \<Rightarrow> string \<Rightarrow> json \<Rightarrow> tool_end \<Rightarrow> string option" where
  "hashToolOutcome d toolName params outcome =
     (case outcome of
        Tool_Threw JUndef \<Rightarrow> None
      | Tool_Result result \<Rightarrow>
          if \<not> isPlainObject result then (if result = JUndef then None else Some (digestStable d result))
          else
            let details = obj_or_empty (obj_get (obj_or_empty result) ''details'');
                content = JStr (extractTextContent result);
                action = obj_get (obj_or_empty params) ''action'';
                field = (\<lambda>k. (k, or_null (obj_get details k)))
            in if isKnownPollToolCall toolName params \<and> toolName = ''process'' \<and> action = JStr ''poll'' then
                 Some (digestStable d (JObj [(''action'', action), (''status'', obj_get details ''status''),
                   field ''exitCode'', field ''exitSignal'', field ''aggregated'', (''text'', content)]))
               else if isKnownPollToolCall toolName params \<and> toolName = ''process'' \<and> action = JStr ''log'' then
                 Some (digestStable d (JObj [(''action'', action), (''status'', obj_get details ''status''),
                   field ''totalLines'', field ''totalChars'', field ''truncated'', field ''exitCode'', field ''exitSignal'',
                   (''text'', content)]))
               else Some (digestStable d (JObj [(''details'', JObj details), (''text'', content)]))
      | _ \<Rightarrow> Some (''error:'' @ digestStable d (JStr (formatErrorForHash d outcome))))"

section \<open>The history\<close>

record call_record =
  cr_toolName :: string
  cr_argsHash :: string
  cr_toolCallId :: "string option"
  cr_resultHash :: "string option"
  cr_timestamp :: int

text \<open>The streak of equal outcomes of a call, from the end of the history; a record without outcome does not
  count. The argument is the history from the end.\<close>

fun streak_from :: "string \<Rightarrow> string \<Rightarrow> call_record list \<Rightarrow> nat \<Rightarrow> string option \<Rightarrow> nat \<times> string option" where
  "streak_from toolName argsHash [] streak latest = (streak, latest)"
| "streak_from toolName argsHash (r # rs) streak latest =
     (if cr_toolName r \<noteq> toolName \<or> cr_argsHash r \<noteq> argsHash then streak_from toolName argsHash rs streak latest
      else if \<not> js_truthy (cr_resultHash r) then streak_from toolName argsHash rs streak latest
      else if \<not> js_truthy latest then streak_from toolName argsHash rs 1 (cr_resultHash r)
      else if cr_resultHash r \<noteq> latest then (streak, latest)
      else streak_from toolName argsHash rs (streak + 1) latest)"

definition getNoProgressStreak :: "call_record list \<Rightarrow> string \<Rightarrow> string \<Rightarrow> nat \<times> string option" where
  "getNoProgressStreak history toolName argsHash = streak_from toolName argsHash (rev history) 0 None"

record ping_pong =
  pp_count :: nat
  pp_pairedToolName :: "string option"
  pp_pairedSignature :: "string option"
  pp_noProgressEvidence :: bool

definition no_ping_pong :: ping_pong where
  "no_ping_pong = \<lparr>pp_count = 0, pp_pairedToolName = None, pp_pairedSignature = None, pp_noProgressEvidence = False\<rparr>"

text \<open>How many records from the end alternate between two signatures.\<close>

fun alternating_tail :: "string \<Rightarrow> string \<Rightarrow> call_record list \<Rightarrow> nat" where
  "alternating_tail expected other [] = 0"
| "alternating_tail expected other (r # rs) =
     (if cr_argsHash r \<noteq> expected then 0 else Suc (alternating_tail other expected rs))"

text \<open>Whether the outcomes of both sides are known and each always the same.\<close>

fun steady :: "string \<Rightarrow> string \<Rightarrow> call_record list \<Rightarrow> string option \<Rightarrow> string option \<Rightarrow> bool" where
  "steady lastSignature otherSignature [] firstHashA firstHashB = (js_truthy firstHashA \<and> js_truthy firstHashB)"
| "steady lastSignature otherSignature (r # rs) firstHashA firstHashB =
     (if \<not> js_truthy (cr_resultHash r) then False
      else if cr_argsHash r = lastSignature then
        (if \<not> js_truthy firstHashA then steady lastSignature otherSignature rs (cr_resultHash r) firstHashB
         else if firstHashA \<noteq> cr_resultHash r then False
         else steady lastSignature otherSignature rs firstHashA firstHashB)
      else if cr_argsHash r = otherSignature then
        (if \<not> js_truthy firstHashB then steady lastSignature otherSignature rs firstHashA (cr_resultHash r)
         else if firstHashB \<noteq> cr_resultHash r then False
         else steady lastSignature otherSignature rs firstHashA firstHashB)
      else False)"

definition getPingPongStreak :: "call_record list \<Rightarrow> string \<Rightarrow> ping_pong" where
  "getPingPongStreak history currentSignature =
     (case rev history of
        [] \<Rightarrow> no_ping_pong
      | latest # earlier \<Rightarrow>
          (case List.find (\<lambda>r. cr_argsHash r \<noteq> cr_argsHash latest) earlier of
             None \<Rightarrow> no_ping_pong
           | Some other \<Rightarrow>
               if cr_argsHash other = [] \<or> cr_toolName other = [] then no_ping_pong
               else
                 let n = alternating_tail (cr_argsHash latest) (cr_argsHash other) (rev history)
                 in if n < 2 then no_ping_pong
                    else if currentSignature \<noteq> cr_argsHash other then no_ping_pong
                    else \<lparr>pp_count = n + 1, pp_pairedToolName = Some (cr_toolName latest),
                          pp_pairedSignature = Some (cr_argsHash latest),
                          pp_noProgressEvidence = steady (cr_argsHash latest) (cr_argsHash other)
                            (drop (length history - n) history) None None\<rparr>))"

definition canonicalPairKey :: "string \<Rightarrow> string \<Rightarrow> string" where
  "canonicalPairKey a b = js_join ''|'' (map fst (sorted_entries [(a, ()), (b, ())]))"

section \<open>The decision\<close>

datatype loop_level = Loop_Warning | Loop_Critical

datatype loop_detector = Generic_Repeat | Known_Poll_No_Progress | Global_Circuit_Breaker | Ping_Pong

record stuck =
  sk_level :: loop_level
  sk_detector :: loop_detector
  sk_count :: nat
  sk_pairedToolName :: "string option"
  sk_warningKey :: string

text \<open>No value when the call is not stuck. The message for the agent is \<open>loop_message\<close> below.\<close>

definition detectToolCallLoop :: "digests \<Rightarrow> loop_config \<Rightarrow> string \<Rightarrow> json \<Rightarrow> call_record list \<Rightarrow> stuck option" where
  "detectToolCallLoop d config toolName params history =
     (let cfg = resolveLoopDetectionConfig config;
          currentHash = hashToolCall d toolName params;
          (noProgressStreak, latestResultHash) = getNoProgressStreak history toolName currentHash;
          knownPollTool = isKnownPollToolCall toolName params;
          pingPong = getPingPongStreak history currentHash;
          resultKey = toolName @ '':'' @ currentHash @ '':'' @ js_nullish latestResultHash ''none'';
          pingPongWarningKey = ''pingpong:'' @ (case pp_pairedSignature pingPong of
             Some s \<Rightarrow> if s = [] then toolName @ '':'' @ currentHash else canonicalPairKey currentHash s
           | None \<Rightarrow> toolName @ '':'' @ currentHash);
          recentCount = length (filter (\<lambda>h. cr_toolName h = toolName \<and> cr_argsHash h = currentHash) history)
      in if \<not> rv_enabled cfg then None
         else if rv_breakerThreshold cfg \<le> int noProgressStreak then
           Some \<lparr>sk_level = Loop_Critical, sk_detector = Global_Circuit_Breaker, sk_count = noProgressStreak,
             sk_pairedToolName = None, sk_warningKey = ''global:'' @ resultKey\<rparr>
         else if knownPollTool \<and> rv_knownPollNoProgress cfg \<and> rv_criticalThreshold cfg \<le> int noProgressStreak then
           Some \<lparr>sk_level = Loop_Critical, sk_detector = Known_Poll_No_Progress, sk_count = noProgressStreak,
             sk_pairedToolName = None, sk_warningKey = ''poll:'' @ resultKey\<rparr>
         else if knownPollTool \<and> rv_knownPollNoProgress cfg \<and> rv_warningThreshold cfg \<le> int noProgressStreak then
           Some \<lparr>sk_level = Loop_Warning, sk_detector = Known_Poll_No_Progress, sk_count = noProgressStreak,
             sk_pairedToolName = None, sk_warningKey = ''poll:'' @ resultKey\<rparr>
         else if rv_pingPong cfg \<and> rv_criticalThreshold cfg \<le> int (pp_count pingPong) \<and> pp_noProgressEvidence pingPong then
           Some \<lparr>sk_level = Loop_Critical, sk_detector = Ping_Pong, sk_count = pp_count pingPong,
             sk_pairedToolName = pp_pairedToolName pingPong, sk_warningKey = pingPongWarningKey\<rparr>
         else if rv_pingPong cfg \<and> rv_warningThreshold cfg \<le> int (pp_count pingPong) then
           Some \<lparr>sk_level = Loop_Warning, sk_detector = Ping_Pong, sk_count = pp_count pingPong,
             sk_pairedToolName = pp_pairedToolName pingPong, sk_warningKey = pingPongWarningKey\<rparr>
         else if \<not> knownPollTool \<and> rv_genericRepeat cfg \<and> rv_warningThreshold cfg \<le> int recentCount then
           Some \<lparr>sk_level = Loop_Warning, sk_detector = Generic_Repeat, sk_count = recentCount,
             sk_pairedToolName = None, sk_warningKey = ''generic:'' @ toolName @ '':'' @ currentHash\<rparr>
         else None)"

definition loop_message :: "string \<Rightarrow> stuck \<Rightarrow> string" where
  "loop_message toolName s =
     (let n = nat_str (sk_count s)
      in case (sk_detector s, sk_level s) of
        (Global_Circuit_Breaker, _) \<Rightarrow> ''CRITICAL: '' @ toolName @ '' has repeated identical no-progress outcomes '' @ n @
          '' times. Session execution blocked by global circuit breaker to prevent runaway loops.''
      | (Known_Poll_No_Progress, Loop_Critical) \<Rightarrow> ''CRITICAL: Called '' @ toolName @
          '' with identical arguments and no progress '' @ n @
          '' times. This appears to be a stuck polling loop. Session execution blocked to prevent resource waste.''
      | (Known_Poll_No_Progress, Loop_Warning) \<Rightarrow> ''WARNING: You have called '' @ toolName @ '' '' @ n @
          '' times with identical arguments and no progress. Stop polling and either (1) increase wait time between checks, or (2) report the task as failed if the process is stuck.''
      | (Ping_Pong, Loop_Critical) \<Rightarrow> ''CRITICAL: You are alternating between repeated tool-call patterns ('' @ n @
          '' consecutive calls) with no progress. This appears to be a stuck ping-pong loop. Session execution blocked to prevent resource waste.''
      | (Ping_Pong, Loop_Warning) \<Rightarrow> ''WARNING: You are alternating between repeated tool-call patterns ('' @ n @
          '' consecutive calls). This looks like a ping-pong loop; stop retrying and report the task as failed.''
      | (Generic_Repeat, _) \<Rightarrow> ''WARNING: You have called '' @ toolName @ '' '' @ n @
          '' times with identical arguments. If this is not making progress, stop retrying and report the task as failed.'')"

section \<open>Recording\<close>

definition recordToolCall ::
    "digests \<Rightarrow> loop_config \<Rightarrow> int \<Rightarrow> string \<Rightarrow> json \<Rightarrow> string option \<Rightarrow> call_record list \<Rightarrow> call_record list" where
  "recordToolCall d config now toolName params toolCallId history =
     (let h = history @ [\<lparr>cr_toolName = toolName, cr_argsHash = hashToolCall d toolName params,
            cr_toolCallId = toolCallId, cr_resultHash = None, cr_timestamp = now\<rparr>]
      in if rv_historySize (resolveLoopDetectionConfig config) < int (length h) then tl h else h)"

text \<open>The outcome goes to the latest record of the call that has none; the list is the history from the end.\<close>

fun set_outcome :: "(call_record \<Rightarrow> bool) \<Rightarrow> string \<Rightarrow> call_record list \<Rightarrow> call_record list option" where
  "set_outcome fits resultHash [] = None"
| "set_outcome fits resultHash (r # rs) =
     (if fits r \<and> cr_resultHash r = None then Some (r\<lparr>cr_resultHash := Some resultHash\<rparr> # rs)
      else map_option (Cons r) (set_outcome fits resultHash rs))"

definition record_fits :: "string \<Rightarrow> string \<Rightarrow> string option \<Rightarrow> call_record \<Rightarrow> bool" where
  "record_fits toolName argsHash toolCallId r \<longleftrightarrow>
     (js_truthy toolCallId \<longrightarrow> cr_toolCallId r = toolCallId) \<and> cr_toolName r = toolName \<and> cr_argsHash r = argsHash"

definition recordToolCallOutcome ::
    "digests \<Rightarrow> loop_config \<Rightarrow> int \<Rightarrow> string \<Rightarrow> json \<Rightarrow> string option \<Rightarrow> tool_end \<Rightarrow> call_record list \<Rightarrow> call_record list" where
  "recordToolCallOutcome d config now toolName params toolCallId outcome history =
     (case hashToolOutcome d toolName params outcome of
        None \<Rightarrow> history
      | Some resultHash \<Rightarrow>
          if resultHash = [] then history
          else
            let argsHash = hashToolCall d toolName params;
                h = (case set_outcome (record_fits toolName argsHash toolCallId) resultHash (rev history) of
                  Some rs \<Rightarrow> rev rs
                | None \<Rightarrow> history @ [\<lparr>cr_toolName = toolName, cr_argsHash = argsHash, cr_toolCallId = toolCallId,
                    cr_resultHash = Some resultHash, cr_timestamp = now\<rparr>]);
                size = nat (rv_historySize (resolveLoopDetectionConfig config))
            in drop (length h - size) h)"

record call_stats =
  cl_totalCalls :: nat
  cl_uniquePatterns :: nat
  cl_mostFrequent :: "(string \<times> nat) option"

definition count_pattern :: "call_record \<Rightarrow> (string, string \<times> nat) js_map \<Rightarrow> (string, string \<times> nat) js_map" where
  "count_pattern r m =
     (case map_get m (cr_argsHash r) of
        Some (toolName, n) \<Rightarrow> map_put (cr_argsHash r) (toolName, n + 1) m
      | None \<Rightarrow> map_put (cr_argsHash r) (cr_toolName r, 1) m)"

definition getToolCallStats :: "call_record list \<Rightarrow> call_stats" where
  "getToolCallStats history =
     (let patterns = fold count_pattern history []
      in \<lparr>cl_totalCalls = length history, cl_uniquePatterns = length patterns,
          cl_mostFrequent = foldl (\<lambda>best (_, p). case best of None \<Rightarrow> Some p | Some b \<Rightarrow> if snd b < snd p then Some p else best)
            None patterns\<rparr>)"

end
