(* ===== verification/Tool_Guard.thy ===== *)
theory Tool_Guard
  imports Tool_Loop
begin

text \<open>
  What happens around a call of a tool: \<^verbatim>\<open>src/agents/pi-tools.before-tool-call.ts\<close>, on the states of sessions
  kept by \<^verbatim>\<open>src/logging/diagnostic-session-state.ts\<close>. A call is checked for loops and recorded, then the
  plugins may block it, change its parameters or ask for an approval; when it is over, its outcome is
  recorded.

  The plugins' answer, the gateway's answer to a request for approval and the tool itself are parameters.
  The object that \<open>getDiagnosticSessionState\<close> returns is the entry of the table under the key that is
  returned here, and writing to it updates that entry.
\<close>

section \<open>States of sessions\<close>

datatype session_activity = Session_Idle | Session_Processing | Session_Waiting

record session_state =
  ss_sessionId :: "string option"
  ss_sessionKey :: "string option"
  ss_lastActivity :: int
  ss_state :: session_activity
  ss_queueDepth :: int
  ss_toolCallHistory :: "call_record list"
  ss_toolLoopWarningBuckets :: "(string, nat) js_map"

record session_table =
  st_states :: "(string, session_state) js_map"
  st_lastSessionPruneAt :: int

definition SESSION_STATE_TTL_MS :: int where "SESSION_STATE_TTL_MS = 1800000"
definition SESSION_STATE_PRUNE_INTERVAL_MS :: int where "SESSION_STATE_PRUNE_INTERVAL_MS = 60000"
definition SESSION_STATE_MAX_ENTRIES :: nat where "SESSION_STATE_MAX_ENTRIES = 2000"

definition session_expired :: "int \<Rightarrow> session_state \<Rightarrow> bool" where
  "session_expired now s \<longleftrightarrow>
     ss_state s = Session_Idle \<and> ss_queueDepth s \<le> 0 \<and> now - ss_lastActivity s > SESSION_STATE_TTL_MS"

definition pruneDiagnosticSessionStates :: "int \<Rightarrow> bool \<Rightarrow> session_table \<Rightarrow> session_table" where
  "pruneDiagnosticSessionStates now force t =
     (let shouldPruneForSize = SESSION_STATE_MAX_ENTRIES < length (st_states t)
      in if \<not> force \<and> \<not> shouldPruneForSize \<and> now - st_lastSessionPruneAt t < SESSION_STATE_PRUNE_INTERVAL_MS then t
         else
           let kept = map_retain (\<lambda>_ s. \<not> session_expired now s) (st_states t);
               ordered = js_sort (\<lambda>a b. ss_lastActivity (snd a) - ss_lastActivity (snd b)) kept;
               excess = takeWhile (\<lambda>k. k \<noteq> []) (map fst (take (length kept - SESSION_STATE_MAX_ENTRIES) ordered))
           in t\<lparr>st_states := (if length kept \<le> SESSION_STATE_MAX_ENTRIES then kept else fold map_del excess kept),
                st_lastSessionPruneAt := now\<rparr>)"

definition resolveSessionStateKey :: "string option \<Rightarrow> string option \<Rightarrow> string" where
  "resolveSessionStateKey sessionKey sessionId = js_nullish sessionKey (js_nullish sessionId ''unknown'')"

definition findStateBySessionId :: "string \<Rightarrow> session_table \<Rightarrow> (string \<times> session_state) option" where
  "findStateBySessionId sessionId t = List.find (\<lambda>(_, s). ss_sessionId s = Some sessionId) (st_states t)"

text \<open>The entry that is there, or that of another key with the same id; otherwise a new one. The clock is read
  once for the first pruning and once for the new entry and the second.\<close>

definition getDiagnosticSessionState ::
    "int \<Rightarrow> int \<Rightarrow> string option \<Rightarrow> string option \<Rightarrow> session_table \<Rightarrow> (string \<times> session_state) \<times> session_table" where
  "getDiagnosticSessionState now created_at sessionKey sessionId t0 =
     (let t = pruneDiagnosticSessionStates now False t0;
          key = resolveSessionStateKey sessionKey sessionId;
          existing = (case map_get (st_states t) key of
            Some s \<Rightarrow> Some (key, s)
          | None \<Rightarrow> if js_truthy sessionId then findStateBySessionId (js_nullish sessionId []) t else None)
      in case existing of
        Some (k, s) \<Rightarrow>
          let s1 = (if js_truthy sessionId then s\<lparr>ss_sessionId := sessionId\<rparr> else s);
              s2 = (if js_truthy sessionKey then s1\<lparr>ss_sessionKey := sessionKey\<rparr> else s1)
          in ((k, s2), t\<lparr>st_states := map_put k s2 (st_states t)\<rparr>)
      | None \<Rightarrow>
          let created = \<lparr>ss_sessionId = sessionId, ss_sessionKey = sessionKey, ss_lastActivity = created_at,
                ss_state = Session_Idle, ss_queueDepth = 0, ss_toolCallHistory = [], ss_toolLoopWarningBuckets = []\<rparr>
          in ((key, created),
              pruneDiagnosticSessionStates created_at True (t\<lparr>st_states := map_put key created (st_states t)\<rparr>)))"

text \<open>Writing to the object of an entry; an object that is no longer in the table is lost.\<close>

definition write_session :: "string \<Rightarrow> session_state \<Rightarrow> session_table \<Rightarrow> session_table" where
  "write_session k s t =
     (if map_get (st_states t) k = None then t else t\<lparr>st_states := map_put k s (st_states t)\<rparr>)"

section \<open>Checking a call for loops\<close>

definition LOOP_WARNING_BUCKET_SIZE :: nat where "LOOP_WARNING_BUCKET_SIZE = 10"
definition MAX_LOOP_WARNING_KEYS :: nat where "MAX_LOOP_WARNING_KEYS = 256"
definition MAX_TRACKED_ADJUSTED_PARAMS :: nat where "MAX_TRACKED_ADJUSTED_PARAMS = 1024"

text \<open>Dropping the oldest key of a table that is too big; the empty key is not dropped.\<close>

definition evict_oldest :: "nat \<Rightarrow> (string, 'v) js_map \<Rightarrow> (string, 'v) js_map" where
  "evict_oldest bound m =
     (case m of
        (k, _) # _ \<Rightarrow> if bound < length m \<and> k \<noteq> [] then map_del k m else m
      | [] \<Rightarrow> m)"

definition shouldEmitLoopWarning :: "string \<Rightarrow> nat \<Rightarrow> session_state \<Rightarrow> bool \<times> session_state" where
  "shouldEmitLoopWarning warningKey count s =
     (let bucket = count div LOOP_WARNING_BUCKET_SIZE;
          buckets = ss_toolLoopWarningBuckets s
      in if bucket \<le> js_nullish (map_get buckets warningKey) 0 then (False, s)
         else (True, s\<lparr>ss_toolLoopWarningBuckets :=
                evict_oldest MAX_LOOP_WARNING_KEYS (map_put warningKey bucket buckets)\<rparr>))"

definition normalizeToolName :: "string \<Rightarrow> string" where
  "normalizeToolName name =
     (let normalized = js_lower (js_trim name)
      in if normalized = ''bash'' then ''exec''
         else if normalized = ''apply-patch'' then ''apply_patch''
         else normalized)"

record hook_context =
  hc_agentId :: "string option"
  hc_sessionKey :: "string option"
  hc_runId :: "string option"
  hc_loopDetection :: loop_config

text \<open>The first part of \<open>runBeforeToolCallHook\<close>: the reason when the call is blocked, and what is written to the log
  of tool loops.\<close>

datatype loop_action = Loop_Block stuck | Loop_Warn stuck

definition check_loop ::
    "digests \<Rightarrow> int \<Rightarrow> int \<Rightarrow> hook_context \<Rightarrow> string \<Rightarrow> json \<Rightarrow> string option \<Rightarrow> session_table
       \<Rightarrow> (string option \<times> loop_action list) \<times> session_table" where
  "check_loop d now created_at ctx toolName params toolCallId t0 =
     (if \<not> js_truthy (hc_sessionKey ctx) then ((None, []), t0)
      else
        let ((k, s), t) = getDiagnosticSessionState now created_at (hc_sessionKey ctx) (hc_agentId ctx) t0;
            loopResult = detectToolCallLoop d (hc_loopDetection ctx) toolName params (ss_toolCallHistory s);
            record_call = (\<lambda>s. s\<lparr>ss_toolCallHistory :=
              recordToolCall d (hc_loopDetection ctx) now toolName params toolCallId (ss_toolCallHistory s)\<rparr>)
        in case loopResult of
          None \<Rightarrow> ((None, []), write_session k (record_call s) t)
        | Some r \<Rightarrow>
            if sk_level r = Loop_Critical then ((Some (loop_message toolName r), [Loop_Block r]), t)
            else
              let (emit, s1) = shouldEmitLoopWarning (sk_warningKey r) (sk_count r) s
              in ((None, if emit then [Loop_Warn r] else []), write_session k (record_call s1) t))"

definition recordLoopOutcome ::
    "digests \<Rightarrow> int \<Rightarrow> int \<Rightarrow> hook_context \<Rightarrow> string \<Rightarrow> json \<Rightarrow> string option \<Rightarrow> tool_end \<Rightarrow> session_table \<Rightarrow> session_table" where
  "recordLoopOutcome d now created_at ctx toolName toolParams toolCallId outcome t0 =
     (if \<not> js_truthy (hc_sessionKey ctx) then t0
      else
        let ((k, s), t) = getDiagnosticSessionState now created_at (hc_sessionKey ctx) (hc_agentId ctx) t0
        in write_session k (s\<lparr>ss_toolCallHistory :=
             recordToolCallOutcome d (hc_loopDetection ctx) now toolName toolParams toolCallId outcome
               (ss_toolCallHistory s)\<rparr>) t)"

section \<open>The plugins and approvals\<close>

record approval_request =
  aq_description :: string
  aq_timeoutBehavior :: "string option"

record hook_result =
  hr_block :: bool
  hr_blockReason :: "string option"
  hr_requireApproval :: "approval_request option"
  hr_params :: "plain_object option"

text \<open>The plugins fail, or answer, perhaps with nothing.\<close>

datatype hook_reply = Hook_Failed | Hook_Replied "hook_result option"

text \<open>What the gateway makes of a request: a failure of one of the calls (because the run was aborted or not), no id,
  a decision at once, or one that was waited for. A missing or null decision is \<open>None\<close>.\<close>

datatype approval_reply =
    Gateway_Failed bool
  | Gateway_No_Id
  | Gateway_Immediate "string option"
  | Gateway_Waited "string option"

datatype hook_outcome = Hook_Blocked string | Hook_Allowed json

definition mergeParamsWithApprovalOverrides :: "json \<Rightarrow> plain_object option \<Rightarrow> json" where
  "mergeParamsWithApprovalOverrides originalParams approvalParams =
     (case approvalParams of
        None \<Rightarrow> originalParams
      | Some ap \<Rightarrow> (case originalParams of
          JObj ob \<Rightarrow> JObj (fold (\<lambda>(k, v). map_put k v) ap ob)
        | _ \<Rightarrow> JObj ap))"

text \<open>The outcome of a call that needs an approval, and the resolution that its plugin is told.\<close>

definition decided ::
    "approval_request \<Rightarrow> plain_object option \<Rightarrow> json \<Rightarrow> string option \<Rightarrow> hook_outcome \<times> string" where
  "decided approval overrides params decision =
     (let resolution = (if decision \<in> {Some ''allow-once'', Some ''allow-always'', Some ''deny''}
            then js_nullish decision [] else ''timeout'')
      in if decision \<in> {Some ''allow-once'', Some ''allow-always''} then
           (Hook_Allowed (mergeParamsWithApprovalOverrides params overrides), resolution)
         else if decision = Some ''deny'' then (Hook_Blocked ''Denied by user'', resolution)
         else if js_nullish (aq_timeoutBehavior approval) ''deny'' = ''allow'' then
           (Hook_Allowed (mergeParamsWithApprovalOverrides params overrides), resolution)
         else (Hook_Blocked ''Approval timed out'', resolution))"

definition ask_approval ::
    "approval_request \<Rightarrow> plain_object option \<Rightarrow> json \<Rightarrow> approval_reply \<Rightarrow> hook_outcome \<times> string" where
  "ask_approval approval overrides params reply =
     (case reply of
        Gateway_Failed aborted \<Rightarrow>
          (Hook_Blocked (if aborted then ''Approval cancelled (run aborted)''
             else ''Plugin approval required (gateway unavailable)''), ''cancelled'')
      | Gateway_No_Id \<Rightarrow> (Hook_Blocked (js_or (aq_description approval) ''Plugin approval request failed''), ''cancelled'')
      | Gateway_Immediate None \<Rightarrow> (Hook_Blocked ''Plugin approval unavailable (no approval route)'', ''cancelled'')
      | Gateway_Immediate (Some decision) \<Rightarrow> decided approval overrides params (Some decision)
      | Gateway_Waited decision \<Rightarrow> decided approval overrides params decision)"

text \<open>The second part of \<open>runBeforeToolCallHook\<close>. Without plugins for this event there is no reply; the plugins see
  parameters that are an object.\<close>

definition run_hooks ::
    "(json \<Rightarrow> hook_reply) option \<Rightarrow> (approval_request \<Rightarrow> approval_reply) \<Rightarrow> json \<Rightarrow> hook_outcome \<times> string list" where
  "run_hooks hook gateway params =
     (case hook of
        None \<Rightarrow> (Hook_Allowed params, [])
      | Some run \<Rightarrow>
          (case run (JObj (obj_or_empty params)) of
             Hook_Failed \<Rightarrow> (Hook_Blocked ''Tool call blocked because before_tool_call hook failed'', [])
           | Hook_Replied None \<Rightarrow> (Hook_Allowed params, [])
           | Hook_Replied (Some r) \<Rightarrow>
               if hr_block r then
                 (Hook_Blocked (if js_truthy (hr_blockReason r) then js_nullish (hr_blockReason r) []
                    else ''Tool call blocked by plugin hook''), [])
               else (case hr_requireApproval r of
                   Some approval \<Rightarrow>
                     let (outcome, resolution) = ask_approval approval (hr_params r) params (gateway approval)
                     in (outcome, [resolution])
                 | None \<Rightarrow> (Hook_Allowed (mergeParamsWithApprovalOverrides params (hr_params r)), []))))"

record before_call =
  bc_outcome :: hook_outcome
  bc_actions :: "loop_action list"
  bc_resolutions :: "string list"
  bc_table :: session_table

definition runBeforeToolCallHook ::
    "digests \<Rightarrow> (json \<Rightarrow> hook_reply) option \<Rightarrow> (approval_request \<Rightarrow> approval_reply) \<Rightarrow> int \<Rightarrow> int \<Rightarrow> hook_context
       \<Rightarrow> string \<Rightarrow> json \<Rightarrow> string option \<Rightarrow> session_table \<Rightarrow> before_call" where
  "runBeforeToolCallHook d hook gateway now created_at ctx name params toolCallId t0 =
     (let toolName = normalizeToolName (js_or name ''tool'');
          ((blocked, actions), t) = check_loop d now created_at ctx toolName params toolCallId t0
      in case blocked of
        Some reason \<Rightarrow> \<lparr>bc_outcome = Hook_Blocked reason, bc_actions = actions, bc_resolutions = [], bc_table = t\<rparr>
      | None \<Rightarrow>
          let (outcome, resolutions) = run_hooks hook gateway params
          in \<lparr>bc_outcome = outcome, bc_actions = actions, bc_resolutions = resolutions, bc_table = t\<rparr>)"

section \<open>The wrapped tool\<close>

definition buildAdjustedParamsKey :: "string option \<Rightarrow> string \<Rightarrow> string" where
  "buildAdjustedParamsKey runId toolCallId =
     (if js_truthy runId \<and> js_trim (js_nullish runId []) \<noteq> [] then js_nullish runId [] @ '':'' @ toolCallId else toolCallId)"

definition track_params :: "hook_context \<Rightarrow> string option \<Rightarrow> json \<Rightarrow> (string, json) js_map \<Rightarrow> (string, json) js_map" where
  "track_params ctx toolCallId params adjusted =
     (if js_truthy toolCallId then
        evict_oldest MAX_TRACKED_ADJUSTED_PARAMS
          (map_put (buildAdjustedParamsKey (hc_runId ctx) (js_nullish toolCallId [])) params adjusted)
      else adjusted)"

definition consumeAdjustedParamsForToolCall ::
    "string \<Rightarrow> string option \<Rightarrow> (string, json) js_map \<Rightarrow> json option \<times> (string, json) js_map" where
  "consumeAdjustedParamsForToolCall toolCallId runId adjusted =
     (let key = buildAdjustedParamsKey runId toolCallId in (map_get adjusted key, map_del key adjusted))"

record guard_state =
  gs_table :: session_table
  gs_adjusted :: "(string, json) js_map"

datatype wrapped_end = Call_Blocked string | Call_Ended tool_end

text \<open>\<open>wrapToolWithBeforeToolCallHook\<close>: one call from its check to the record of its outcome, with nothing in between.
  The clock is read before the call and after it.\<close>

definition execute_wrapped ::
    "digests \<Rightarrow> (json \<Rightarrow> hook_reply) option \<Rightarrow> (approval_request \<Rightarrow> approval_reply) \<Rightarrow> (json \<Rightarrow> tool_end) \<Rightarrow> hook_context
       \<Rightarrow> string \<Rightarrow> json \<Rightarrow> int \<times> int \<times> string option \<Rightarrow> guard_state \<Rightarrow> wrapped_end \<times> guard_state" where
  "execute_wrapped d hook gateway execute ctx name params call g =
     (let (now, later, toolCallId) = call;
          toolName = js_or name ''tool'';
          before = runBeforeToolCallHook d hook gateway now now ctx toolName params toolCallId (gs_table g)
      in case bc_outcome before of
        Hook_Blocked reason \<Rightarrow> (Call_Blocked reason, g\<lparr>gs_table := bc_table before\<rparr>)
      | Hook_Allowed callParams \<Rightarrow>
          let outcome = execute callParams
          in (Call_Ended outcome,
              \<lparr>gs_table = recordLoopOutcome d later later ctx (normalizeToolName toolName) callParams toolCallId outcome
                 (bc_table before),
               gs_adjusted = track_params ctx toolCallId callParams (gs_adjusted g)\<rparr>))"

end
