(* ===== verification/Tool_Props.thy ===== *)
theory Tool_Props
  imports Tool_Guard
begin

text \<open>
  What the guard around the calls of tools gives: thresholds in order, a bounded history, no verdict against a
  call that makes progress, a bound on the runs of a call that makes none, and calls that wait for an approval.
\<close>

section \<open>Thresholds\<close>

lemma asPositiveInt_pos: "0 < fallback \<Longrightarrow> 0 < asPositiveInt v fallback"
  by (auto simp: asPositiveInt_def split: option.split js_number.split)

lemma resolved_thresholds:
  "0 < rv_warningThreshold (resolveLoopDetectionConfig c)"
  "rv_warningThreshold (resolveLoopDetectionConfig c) < rv_criticalThreshold (resolveLoopDetectionConfig c)"
  "rv_criticalThreshold (resolveLoopDetectionConfig c) < rv_breakerThreshold (resolveLoopDetectionConfig c)"
  "0 < rv_historySize (resolveLoopDetectionConfig c)"
  by (simp_all add: resolveLoopDetectionConfig_def Let_def asPositiveInt_pos WARNING_THRESHOLD_def
      TOOL_CALL_HISTORY_SIZE_def)

section \<open>Streaks\<close>

text \<open>The completed records of one call, and whether the last records of a history are such.\<close>

definition same_call :: "string \<Rightarrow> string \<Rightarrow> call_record \<Rightarrow> bool" where
  "same_call toolName argsHash r \<longleftrightarrow> cr_toolName r = toolName \<and> cr_argsHash r = argsHash"

definition outcomes_of :: "string \<Rightarrow> string \<Rightarrow> call_record list \<Rightarrow> string option list" where
  "outcomes_of toolName argsHash rs =
     map cr_resultHash (filter (\<lambda>r. same_call toolName argsHash r \<and> js_truthy (cr_resultHash r)) rs)"

lemma outcomes_of_simps [simp]:
  "outcomes_of n a [] = []"
  "outcomes_of n a (r # rs) =
     (if same_call n a r \<and> js_truthy (cr_resultHash r) then cr_resultHash r # outcomes_of n a rs else outcomes_of n a rs)"
  by (simp_all add: outcomes_of_def)

lemma outcomes_of_append [simp]: "outcomes_of n a (xs @ ys) = outcomes_of n a xs @ outcomes_of n a ys"
  by (simp add: outcomes_of_def)

lemma outcomes_of_rev: "outcomes_of n a (rev rs) = rev (outcomes_of n a rs)"
  by (simp add: outcomes_of_def rev_filter rev_map)

lemma length_outcomes_of: "length (outcomes_of n a rs) \<le> length rs"
  by (simp add: outcomes_of_def)

text \<open>The streak is the length of the run of equal outcomes at the end.\<close>

lemma streak_from_some:
  assumes "js_truthy v"
  shows "streak_from n a rs k v = (k + length (takeWhile (\<lambda>w. w = v) (outcomes_of n a rs)), v)"
  using assms by (induction rs arbitrary: k) (auto simp: same_call_def)

lemma streak_from_none:
  "streak_from n a rs 0 None =
     (case outcomes_of n a rs of [] \<Rightarrow> (0, None) | v # vs \<Rightarrow> (Suc (length (takeWhile (\<lambda>w. w = v) vs)), v))"
proof (induction rs)
  case (Cons r rs)
  have none: "\<not> js_truthy None" by (simp add: js_truthy_def)
  show ?case using Cons none
    by (auto simp: same_call_def streak_from_some)
qed simp

lemma getNoProgressStreak_eq:
  "getNoProgressStreak history n a =
     (case rev (outcomes_of n a history) of
        [] \<Rightarrow> (0, None) | v # vs \<Rightarrow> (Suc (length (takeWhile (\<lambda>w. w = v) vs)), v))"
  by (simp add: getNoProgressStreak_def streak_from_none outcomes_of_rev)

lemma streak_same:
  assumes "getNoProgressStreak history n a = (k, v)"
  shows "k \<le> length (outcomes_of n a history)"
    and "w \<in> set (drop (length (outcomes_of n a history) - k) (outcomes_of n a history)) \<Longrightarrow> w = v"
proof -
  define os where "os = outcomes_of n a history"
  have k: "k = length (takeWhile (\<lambda>w. w = v) (rev os))" 
    using assms by (auto simp: getNoProgressStreak_eq os_def [symmetric] split: list.splits)
  show "k \<le> length os" unfolding k by (metis length_rev length_takeWhile_le)
  assume w: "w \<in> set (drop (length os - k) os)"
  have "rev (drop (length os - k) os) = take k (rev os)"
    using \<open>k \<le> length os\<close> by (simp add: take_rev)
  also have "\<dots> = takeWhile (\<lambda>w. w = v) (rev os)" unfolding k by (simp add: takeWhile_eq_take [symmetric])
  finally have "w \<in> set (takeWhile (\<lambda>w. w = v) (rev os))" using w by (metis set_rev)
  then show "w = v" by (auto dest: set_takeWhileD)
qed


section \<open>Two calls in turn\<close>

lemma alternating_tail_le: "alternating_tail x y rs \<le> length rs"
  by (induction x y rs rule: alternating_tail.induct) auto

lemma steady_known:
  "steady x y rs u v \<Longrightarrow> r \<in> set rs \<Longrightarrow> js_truthy (cr_resultHash r) \<and> (cr_argsHash r = x \<or> cr_argsHash r = y)"
  by (induction x y rs u v rule: steady.induct) (auto split: if_splits)

lemma steady_left:
  "steady x y rs u v \<Longrightarrow> js_truthy u \<Longrightarrow> r \<in> set rs \<Longrightarrow> cr_argsHash r = x \<Longrightarrow> cr_resultHash r = u"
  by (induction x y rs u v rule: steady.induct) (auto split: if_splits)

lemma steady_right:
  "steady x y rs u v \<Longrightarrow> js_truthy v \<Longrightarrow> r \<in> set rs \<Longrightarrow> cr_argsHash r = y \<Longrightarrow> x \<noteq> y \<Longrightarrow> cr_resultHash r = v"
  by (induction x y rs u v rule: steady.induct) (auto split: if_splits)

lemma steady_same:
  "steady x y rs u v \<Longrightarrow> x \<noteq> y \<Longrightarrow> r \<in> set rs \<Longrightarrow> q \<in> set rs \<Longrightarrow> cr_argsHash r = cr_argsHash q
     \<Longrightarrow> cr_resultHash r = cr_resultHash q"
proof (induction x y rs u v rule: steady.induct)
  case (2 x y t rs u v)
  have t: "js_truthy (cr_resultHash t)" using "2.prems"(1) by (simp split: if_splits)
  have first: "cr_resultHash p = cr_resultHash t"
    if p: "p \<in> set rs" and same: "cr_argsHash p = cr_argsHash t" for p
  proof (cases "cr_argsHash t = x")
    case True
    with "2.prems"(1) t have "steady x y rs (cr_resultHash t) v" by (auto split: if_splits)
    from steady_left [OF this t p] True same show ?thesis by simp
  next
    case False
    with "2.prems"(1) t have y: "cr_argsHash t = y" and "steady x y rs u (cr_resultHash t)" by (auto split: if_splits)
    from steady_right [OF this(2) t p] y same "2.prems"(2) show ?thesis by simp
  qed
  have rest: "cr_resultHash r = cr_resultHash q" if "r \<in> set rs" "q \<in> set rs"
    using 2 that by (auto split: if_splits)
  show ?case
  proof (cases "r = t \<or> q = t")
    case True
    then show ?thesis using first [of r] first [of q] "2.prems" by auto
  next
    case False
    then show ?thesis using rest "2.prems" by simp
  qed
qed simp

lemma found_passes: "List.find P xs = Some x \<Longrightarrow> P x"
  by (induction xs) (auto split: if_splits)

lemma guarded_value: "x = (if a then u else if b then u else if c then u else v) \<Longrightarrow> x \<noteq> u \<Longrightarrow> x = v"
  by (simp split: if_splits)

text \<open>What the evidence of a ping-pong says of the records it looks at.\<close>

lemma ping_pong_evidence:
  assumes "pp_noProgressEvidence (getPingPongStreak history current)"
  shows "pp_count (getPingPongStreak history current) - 1 \<le> length history"
    and "0 < pp_count (getPingPongStreak history current)"
    and "r \<in> set (drop (length history - (pp_count (getPingPongStreak history current) - 1)) history)
           \<Longrightarrow> js_truthy (cr_resultHash r)"
    and "\<lbrakk>r \<in> set (drop (length history - (pp_count (getPingPongStreak history current) - 1)) history);
          r' \<in> set (drop (length history - (pp_count (getPingPongStreak history current) - 1)) history);
          cr_argsHash r = cr_argsHash r'\<rbrakk> \<Longrightarrow> cr_resultHash r = cr_resultHash r'"
proof -
  obtain latest earlier where h: "rev history = latest # earlier"
    using assms by (cases "rev history") (auto simp: getPingPongStreak_def no_ping_pong_def)
  obtain other where o: "List.find (\<lambda>r. cr_argsHash r \<noteq> cr_argsHash latest) earlier = Some other"
    using assms h by (auto simp: getPingPongStreak_def no_ping_pong_def split: option.splits)
  define n where "n = alternating_tail (cr_argsHash latest) (cr_argsHash other) (latest # earlier)"
  let ?found = "\<lparr>pp_count = n + 1, pp_pairedToolName = Some (cr_toolName latest),
         pp_pairedSignature = Some (cr_argsHash latest),
         pp_noProgressEvidence = steady (cr_argsHash latest) (cr_argsHash other)
           (drop (length history - n) history) None None\<rparr>"
  have eq: "getPingPongStreak history current =
      (if cr_argsHash other = [] \<or> cr_toolName other = [] then no_ping_pong
       else if n < 2 then no_ping_pong else if current \<noteq> cr_argsHash other then no_ping_pong else ?found)"
    unfolding n_def
    apply (subst getPingPongStreak_def)
    apply (subst h)+
    apply (subst list.case)
    apply (subst o)
    apply (subst option.case)
    apply (subst Let_def)
    apply (rule refl)
    done
  have "getPingPongStreak history current \<noteq> no_ping_pong"
    using assms by (metis no_ping_pong_def ping_pong.select_convs(4))
  with eq have found: "getPingPongStreak history current = ?found" by (rule guarded_value)
  have pp: "pp_count (getPingPongStreak history current) = n + 1" unfolding found by simp
  have st: "steady (cr_argsHash latest) (cr_argsHash other) (drop (length history - n) history) None None"
    using assms unfolding found by simp
  have "n \<le> length (rev history)" unfolding n_def h by (rule alternating_tail_le)
  then have "n \<le> length history" by simp
  then show "pp_count (getPingPongStreak history current) - 1 \<le> length history"
    and "0 < pp_count (getPingPongStreak history current)" by (simp_all add: pp)
  have ne: "cr_argsHash latest \<noteq> cr_argsHash other" using found_passes [OF o] by metis
  show "r \<in> set (drop (length history - (pp_count (getPingPongStreak history current) - 1)) history)
           \<Longrightarrow> js_truthy (cr_resultHash r)"
    using steady_known [OF st] by (simp add: pp)
  show "\<lbrakk>r \<in> set (drop (length history - (pp_count (getPingPongStreak history current) - 1)) history);
          r' \<in> set (drop (length history - (pp_count (getPingPongStreak history current) - 1)) history);
          cr_argsHash r = cr_argsHash r'\<rbrakk> \<Longrightarrow> cr_resultHash r = cr_resultHash r'"
    unfolding pp add_diff_cancel_right' by (rule steady_same [OF st ne])
qed

section \<open>Recording\<close>

text \<open>The last so many records of a history are completed records of one call with one outcome.\<close>

definition ends_with :: "(call_record \<Rightarrow> bool) \<Rightarrow> nat \<Rightarrow> call_record list \<Rightarrow> bool" where
  "ends_with good n rs \<longleftrightarrow> (\<exists>xs ys. rs = xs @ ys \<and> length ys = n \<and> (\<forall>r \<in> set ys. good r))"

lemma ends_with_0 [simp]: "ends_with good 0 rs"
  by (simp add: ends_with_def)








lemma length_recordToolCall:
  "int (length history) \<le> rv_historySize (resolveLoopDetectionConfig c) \<Longrightarrow>
   int (length (recordToolCall d c now n p i history)) \<le> rv_historySize (resolveLoopDetectionConfig c)"
  using resolved_thresholds(4) [of c] by (auto simp: recordToolCall_def Let_def)

lemma length_recordToolCallOutcome:
  "int (length history) \<le> rv_historySize (resolveLoopDetectionConfig c) \<Longrightarrow>
   int (length (recordToolCallOutcome d c now n p i outcome history)) \<le> rv_historySize (resolveLoopDetectionConfig c)"
  using resolved_thresholds(4) [of c]
  by (auto simp: recordToolCallOutcome_def Let_def split: option.splits)

section \<open>The verdict\<close>


text \<open>The chain of tests, without the keys of the warnings.\<close>

lemma detect_chain:
  "\<exists>resultKey pairKey genericKey. detectToolCallLoop d config toolName params history =
     (let cfg = resolveLoopDetectionConfig config;
          h = hashToolCall d toolName params;
          k = fst (getNoProgressStreak history toolName h);
          p = getPingPongStreak history h;
          n = length (filter (\<lambda>r. cr_toolName r = toolName \<and> cr_argsHash r = h) history)
      in if \<not> rv_enabled cfg then None
         else if rv_breakerThreshold cfg \<le> int k then Some (stuck.make Loop_Critical Global_Circuit_Breaker k None (''global:'' @ resultKey))
         else if isKnownPollToolCall toolName params \<and> rv_knownPollNoProgress cfg \<and> rv_criticalThreshold cfg \<le> int k then
           Some (stuck.make Loop_Critical Known_Poll_No_Progress k None (''poll:'' @ resultKey))
         else if isKnownPollToolCall toolName params \<and> rv_knownPollNoProgress cfg \<and> rv_warningThreshold cfg \<le> int k then
           Some (stuck.make Loop_Warning Known_Poll_No_Progress k None (''poll:'' @ resultKey))
         else if rv_pingPong cfg \<and> rv_criticalThreshold cfg \<le> int (pp_count p) \<and> pp_noProgressEvidence p then
           Some (stuck.make Loop_Critical Ping_Pong (pp_count p) (pp_pairedToolName p) pairKey)
         else if rv_pingPong cfg \<and> rv_warningThreshold cfg \<le> int (pp_count p) then
           Some (stuck.make Loop_Warning Ping_Pong (pp_count p) (pp_pairedToolName p) pairKey)
         else if \<not> isKnownPollToolCall toolName params \<and> rv_genericRepeat cfg \<and> rv_warningThreshold cfg \<le> int n then
           Some (stuck.make Loop_Warning Generic_Repeat n None genericKey)
         else None)"
  unfolding detectToolCallLoop_def Let_def case_prod_beta stuck.make_def by (intro exI, rule refl)

lemma detect_critical_cases:
  assumes "detectToolCallLoop d config toolName params history = Some s" and "sk_level s = Loop_Critical"
  shows "sk_detector s \<noteq> Ping_Pong \<and> sk_count s = fst (getNoProgressStreak history toolName (hashToolCall d toolName params))
           \<and> rv_criticalThreshold (resolveLoopDetectionConfig config) \<le> int (sk_count s)
       \<or> sk_detector s = Ping_Pong \<and> sk_count s = pp_count (getPingPongStreak history (hashToolCall d toolName params))
           \<and> pp_noProgressEvidence (getPingPongStreak history (hashToolCall d toolName params))
           \<and> rv_criticalThreshold (resolveLoopDetectionConfig config) \<le> int (sk_count s)"
proof -
  define cfg where "cfg = resolveLoopDetectionConfig config"
  define k where "k = fst (getNoProgressStreak history toolName (hashToolCall d toolName params))"
  define p where "p = getPingPongStreak history (hashToolCall d toolName params)"
  show ?thesis
    using detect_chain [of d config toolName params history] assms resolved_thresholds(3) [of config]
    unfolding Let_def cfg_def [symmetric] k_def [symmetric] p_def [symmetric]
    by (auto simp: stuck.make_def split: if_split_asm)
qed


section \<open>Sessions\<close>








section \<open>A series of calls\<close>

fun call_series :: "('c \<Rightarrow> 'g \<Rightarrow> 'r \<times> 'g) \<Rightarrow> 'c list \<Rightarrow> 'g \<Rightarrow> 'r list \<times> 'g" where
  "call_series f [] g = ([], g)"
| "call_series f (c # cs) g = (let (r, g1) = f c g; (rs, g2) = call_series f cs g1 in (r # rs, g2))"

fun is_run :: "wrapped_end \<Rightarrow> bool" where
  "is_run (Call_Ended _) = True"
| "is_run (Call_Blocked _) = False"

definition runs :: "wrapped_end list \<Rightarrow> nat" where
  "runs rs = length (filter is_run rs)"



section \<open>Examples\<close>

text \<open>Loop detection with low thresholds, and a session that has just begun.\<close>

definition sample_digests :: digests where
  "sample_digests = \<lparr>dg_digest = (\<lambda>s. s), dg_primitive = (\<lambda>v. case v of JStr s \<Rightarrow> s | _ \<Rightarrow> ''x'')\<rparr>"

definition sample_loop_config :: loop_config where
  "sample_loop_config = \<lparr>lc_enabled = Some True, lc_historySize = None, lc_warningThreshold = Some (Fin 1),
     lc_criticalThreshold = Some (Fin 2), lc_globalCircuitBreakerThreshold = Some (Fin 3), lc_genericRepeat = None,
     lc_knownPollNoProgress = None, lc_pingPong = None\<rparr>"

definition sample_context :: "string \<Rightarrow> hook_context" where
  "sample_context key = \<lparr>hc_agentId = Some ''main'', hc_sessionKey = Some key, hc_runId = None,
     hc_loopDetection = sample_loop_config\<rparr>"

definition sample_guard :: guard_state where
  "sample_guard = \<lparr>gs_table = \<lparr>st_states = [(''a'', \<lparr>ss_sessionId = Some ''uuid'', ss_sessionKey = Some ''a'',
     ss_lastActivity = 0, ss_state = Session_Processing, ss_queueDepth = 1, ss_toolCallHistory = [],
     ss_toolLoopWarningBuckets = []\<rparr>)], st_lastSessionPruneAt = 0\<rparr>, gs_adjusted = []\<rparr>"







section \<open>Where the guard does not reach\<close>

text \<open>The thresholds are ordered among each other but not against the size of the history: a history that is too short
  for the critical threshold never blocks anything.\<close>

lemma short_history_never_blocks:
  assumes "int (length history) \<le> rv_historySize (resolveLoopDetectionConfig config)"
    and "rv_historySize (resolveLoopDetectionConfig config) + 1 < rv_criticalThreshold (resolveLoopDetectionConfig config)"
    and "detectToolCallLoop d config toolName params history = Some s"
  shows "sk_level s = Loop_Warning"
proof (rule ccontr)
  assume "sk_level s \<noteq> Loop_Warning"
  then have "sk_level s = Loop_Critical" by (cases "sk_level s") auto
  note cases = detect_critical_cases [OF assms(3) this]
  let ?h = "hashToolCall d toolName params"
  have "fst (getNoProgressStreak history toolName ?h) \<le> length history"
    using streak_same(1) [OF prod.collapse [symmetric, of "getNoProgressStreak history toolName ?h"]]
      length_outcomes_of [of toolName ?h history] by linarith
  moreover have "pp_count (getPingPongStreak history ?h) \<le> length history + 1"
    if "pp_noProgressEvidence (getPingPongStreak history ?h)"
    using ping_pong_evidence(1) [OF that] by linarith
  ultimately show False using cases assms(1,2) by linarith
qed

text \<open>The guard looks up the session with the agent's id in place of the session's, which it then writes into the entry:
  afterwards the session is not found by its own id.\<close>

lemma agent_id_replaces_session_id:
  "findStateBySessionId ''uuid'' (gs_table sample_guard) \<noteq> None \<and>
   findStateBySessionId ''uuid'' (bc_table (runBeforeToolCallHook sample_digests None (\<lambda>_. Gateway_No_Id) 10 10
     (sample_context ''a'') ''exec'' (JObj []) None (gs_table sample_guard))) = None"
  by code_simp

text \<open>Two sessions of one agent that have no entry yet share one: three calls of the first block the second's first call.\<close>

definition empty_guard :: guard_state where
  "empty_guard = \<lparr>gs_table = \<lparr>st_states = [], st_lastSessionPruneAt = 0\<rparr>, gs_adjusted = []\<rparr>"

definition sample_calls :: "string \<Rightarrow> nat \<Rightarrow> guard_state \<Rightarrow> wrapped_end list \<times> guard_state" where
  "sample_calls key n = call_series (execute_wrapped sample_digests None (\<lambda>_. Gateway_No_Id) (\<lambda>_. Tool_Result (JStr ''no''))
     (sample_context key) ''exec'' (JObj [])) (replicate n (10, 20, Some ''c''))"

lemma sessions_of_an_agent_share_history:
  "runs (fst (sample_calls ''b'' 1 empty_guard)) = 1 \<and>
   runs (fst (sample_calls ''b'' 1 (snd (sample_calls ''a'' 3 empty_guard)))) = 0"
  by code_simp

text \<open>A plugin that changes the parameters hides the loop: the call is recorded with the parameters of the agent and its
  outcome with those of the plugin, so the record of the call never gets one.\<close>

lemma adjusted_parameters_hide_loops:
  "runs (fst (call_series (execute_wrapped sample_digests
     (Some (\<lambda>_. Hook_Replied (Some \<lparr>hr_block = False, hr_blockReason = None, hr_requireApproval = None,
        hr_params = Some [(''trace'', JStr ''t'')]\<rparr>))) (\<lambda>_. Gateway_No_Id) (\<lambda>_. Tool_Result (JStr ''no''))
     (sample_context ''a'') ''exec'' (JObj [])) (replicate 8 (10, 20, Some ''c'')) sample_guard)) = 8"
  by code_simp

section \<open>Approvals\<close>

text \<open>What counts as consent: a decision that allows, or no decision in time when the plugin lets the call go on.\<close>

definition consent :: "approval_request \<Rightarrow> approval_reply \<Rightarrow> bool" where
  "consent a reply \<longleftrightarrow>
     (\<exists>decision. (reply = Gateway_Waited decision \<or> reply = Gateway_Immediate decision \<and> decision \<noteq> None) \<and>
       (decision = Some ''allow-once'' \<or> decision = Some ''allow-always'' \<or>
        decision \<noteq> Some ''deny'' \<and> aq_timeoutBehavior a = Some ''allow''))"

lemma decided_consent:
  "fst (decided a overrides params decision) =
     (if decision \<in> {Some ''allow-once'', Some ''allow-always''} \<or> decision \<noteq> Some ''deny'' \<and> aq_timeoutBehavior a = Some ''allow''
      then Hook_Allowed (mergeParamsWithApprovalOverrides params overrides)
      else Hook_Blocked (if decision = Some ''deny'' then ''Denied by user'' else ''Approval timed out''))"
  unfolding decided_def Let_def by (cases "aq_timeoutBehavior a") (simp_all add: js_nullish_def)

lemma ask_approval_consent:
  assumes "fst (ask_approval a overrides params reply) = Hook_Allowed p"
  shows "consent a reply \<and> p = mergeParamsWithApprovalOverrides params overrides"
  using assms unfolding ask_approval_def consent_def
  by (cases reply) (auto simp: decided_consent split: if_splits option.splits)

text \<open>When a plugin asks for an approval, the tool runs only with consent, and with the parameters the plugin has
  approved of.\<close>

lemma approval_gates_the_call:
  assumes "execute_wrapped d (Some run) gateway execute ctx name params call g = (Call_Ended e, g')"
    and "run (JObj (obj_or_empty params)) = Hook_Replied (Some r)" and "hr_requireApproval r = Some a"
  shows "\<not> hr_block r \<and> consent a (gateway a) \<and> e = execute (mergeParamsWithApprovalOverrides params (hr_params r))"
proof -
  obtain p where "fst (run_hooks (Some run) gateway params) = Hook_Allowed p" and e: "e = execute p"
    using assms(1) unfolding execute_wrapped_def runBeforeToolCallHook_def Let_def case_prod_beta
    by (auto split: option.splits hook_outcome.splits)
  moreover from this(1) have "\<not> hr_block r" using assms(2,3) by (auto simp: run_hooks_def)
  ultimately have "fst (ask_approval a (hr_params r) params (gateway a)) = Hook_Allowed p" and "\<not> hr_block r"
    using assms(2,3) by (simp_all add: run_hooks_def case_prod_beta)
  with ask_approval_consent [OF this(1)] e show ?thesis by simp
qed

end
