(* ===== verification/Spec2Isabelle.thy ===== *)
theory Spec2Isabelle
  imports Command_Queue_Props Net_Props Rate_Limits_Props Exec_Approval_Props Dedupe_Cache Node_Pending_Work_Props
    Heartbeat_Wake_Props Retry_Backoff Session_Key_Props Routing_Props Config_Props Task_Registry_Props
    Cron_Props Transcript_Props Patch_Props Tool_Props
begin

text \<open>
  OpenClaw is a personal agent: a gateway process (TypeScript, src/src) receives messages from chat
  channels, routes each to an agent and a session, runs the agent turn on a queue, asks a human to approve
  the commands the agent wants to run, wakes the agent by heartbeats and hands work to remote nodes. The
  Electron shell (src/app) and the browser console (src/control-ui) start and show the gateway. This
  development models the core logic of the gateway: the parts whose correctness is a matter of state,
  ordering and case analysis, and not of input and output.

  How the parts interact. The gateway reads its configuration: the included files are merged, references to
  environment variables are replaced, and overrides set at run time are laid over the result
  (Config_Includes, Env_Vars, Config_Values, on Node_Path). A message passes the gateway's rate limits and
  its trust in proxies and origins (Rate_Limits, Net_Address, Ssrf_Guard), is recognised as new
  (Dedupe_Cache), is routed to an agent and given a session key (Routing, on Session_Key), and the session
  key names the lane of the command queue in which the turn runs (Command_Queue). A turn may wait for a human
  decision (Exec_Approval), may be retried (Retry_Backoff), may queue work for a node (Node_Pending_Work) and
  may ask for a heartbeat (Heartbeat_Wake). Before the model sees a transcript its calls and results are
  repaired, first the calls and then their pairing with results (Transcript_Repair); every call of a tool
  passes a guard that detects loops and asks plugins and people (Tool_Loop, Tool_Guard), and one of the tools
  applies patches to files (Patch_Parse, Patch_Apply). Work in the background is recorded as tasks and flows, whose
  ends are delivered to their owners (the Task theories). Jobs that are due by the clock are run by the cron
  service (the Cron theories), which queues events for a session, wakes the agent by a heartbeat or starts a
  run of its own, and records each run as a task.

  The theories, in the order of the imports. Paths are below src/.

  Js_Prelude: the JavaScript that the components use: strings as char lists with trim, split and join,
  numbers with their exceptional values, a stable sort, Map and Set as association lists in insertion order
  (locale ordered_map, interpreted on them as jm); the generic lemmas on lists and maps; and the locales
  that several components share: invariant_machine (an initial state and steps that keep an invariant: what
  holds of every run; interpreted for the queue, the authentication limiter, the caches, the node work, the
  heartbeat scheduler and the account-id cache) and expiring (entries with a deadline).

  Command_Queue and Command_Queue_Props: src/process/command-queue.ts and lanes.ts. A state is the record
  of the lanes, the generation, the draining flag and the waiters; a step is one exported operation or the
  completion of a task, and a run is any sequence of steps, so every interleaving of the event loop at this
  granularity is covered. The pump loop is structural in the queue. Lemmas: accounting of tickets, order,
  the bound of a lane, no lane stalls with work and a free slot, restart makes old completions stale,
  waiters finish when their tasks have.

  Net_Address, Ssrf_Guard and Net_Props: src/shared/net/ip.ts, src/gateway/net.ts, src/infra/net/ssrf.ts and
  hostname.ts. The parser of addresses (ipaddr.js), the resolver and the URL parser are parameters. Lemmas:
  which addresses are private, embedded IPv4 addresses are found, the proxy chain is read from the trusted
  end, and what is connected to after the guard was checked before.

  Rate_Limits and Rate_Limits_Props: src/gateway/auth-rate-limit.ts and control-plane-rate-limit.ts. The clock
  is an argument of each operation.

  Exec_Approval and Exec_Approval_Props: src/gateway/exec-approval-manager.ts. The step relation
  approval_step has the timers as steps that can occur at any time after they are set. Lemmas: a decision
  is given once, reaches the promise that waits for it and is consumed at most once.

  Dedupe_Cache: src/infra/dedupe.ts and map-size.ts. Node_Pending_Work and its Props:
  src/gateway/node-pending-work.ts. Heartbeat_Wake and its Props: src/infra/heartbeat-wake.ts and
  heartbeat-reason.ts, with the asynchronous callback cut into steps. Retry_Backoff: src/infra/retry.ts and
  backoff.ts, where the retried function is a list of outcomes by attempt.

  Session_Key and Session_Key_Props: src/routing/account-id.ts, src/routing/session-key.ts,
  src/sessions/session-key-utils.ts, src/channels/chat-type.ts. Routing and Routing_Props:
  src/routing/resolve-route.ts with its indexes and caches, and src/config/bindings.ts; the indexed search is
  proved equal to a scan over all bindings.

  Node_Path: the parts of node's path module (resolve, relative, isAbsolute, dirname, on POSIX) that the
  includes use. Config_Values and its Props: src/config/config-paths.ts, merge-patch.ts
  and runtime-overrides.ts; a JSON value is a datatype whose objects are
  association lists, and the override tree is proved to be a map from paths. Env_Vars and its Props:
  src/config/env-substitution.ts and env-preserve.ts: the strict and the lenient reading, and how references
  are restored when a file is written. Config_Includes: src/config/includes.ts, with the files, the symbolic
  links and the parser of file texts as parameters; Config_Props states what holds of all the stages.

  Task_Types, Task_Flows, Task_Registry, Task_Operations: src/tasks, that is the records of tasks and flows,
  the indexes, the policies of delivery (task-executor-policy.ts) and the exported operations of
  task-registry.ts, task-flow-registry.ts and task-flow-owner-access.ts. The store returns what was saved in it, new ids are fresh,
  and a delivery is cut at its awaits, so that other operations come between its parts. Task_Index_Props
  has the locale id_index, what every index of the registry promises, interpreted as tix on the model's
  index operations. Task_Steps has the state machine, Task_Reachable and Task_Props its invariants,
  Task_Samples the states of the witnesses and Task_Registry_Props the properties: the lists are exact, a
  link keeps to one owner, a task has one delivery, a requested cancellation completes.

  Cron_Schedule: src/cron/schedule.ts, parse.ts and stagger.ts. Cron_Jobs: the record of a job, its
  next slot and the repair of jobs (service/jobs.ts). Cron_Edits: new jobs and patches, as edits in the order
  of the code, since a patch that fails leaves what it changed before. Cron_Results: what the result of a run
  does to its job (service/timer.ts), retries and alerts, and which jobs are runnable. Cron_Execute: one run,
  its time limit and its record in the task ledger. Cron_Service: the state of the service
  (service/state.ts, store.ts) and the sections of a tick; jobs in memory are numbered objects, because a run
  keeps a reference to a job that a reload of the file may replace. Cron_Operations: service/ops.ts, the
  start with its catch-up and the requests. Cron_Steps: the service as it runs, where each section under the
  lock is one step and the sections of the tick, the start, the manual runs and the requests interleave.
  The cron library, the parser of dates, the digest, the agent runs and the heartbeats are parameters.

  Lemmas on the cron service. Cron_Keeps has the locales job_sections (an invariant of single jobs that every
  section of the service keeps) and kept_jobs (one that the changes of jobs keep), with kept_jobs a
  sublocale of job_sections; Cron_Patches the locale edit_relation for what a patch leaves as it was.
  Cron_World instantiates them for the well-formedness of the reachable worlds, Cron_Flight and
  Cron_Single_Run for the markers of runs in flight, Cron_Slots for the slots that were not run, and
  Cron_Timing has the arithmetic of retries, intervals and the timer. Cron_Props has the properties and the
  lemmas that exhibit the findings. That no two runs of a job are in flight holds of calm worlds: no run
  lasts two hours (after which its marker is discarded as stuck), updates neither switch jobs on or off nor
  write their markers, manual runs are of jobs that are switched on, new ids are fresh, and start begins
  before the first run. Cron_Props shows by an example that the switches matter.

  Transcript_Repair: src/agents/session-transcript-repair.ts and the ids of calls and results in
  tool-call-id.ts, on messages that are any JSON value. The clock of the synthetic results is a parameter, and
  an unchanged object is told from a changed one by an option, as the code does by identity. Transcript_Props:
  what the repair gives for transcripts in which no turn uses an id of an earlier one, what it keeps, and what
  it misses.

  Patch_Parse: the parser of src/agents/apply-patch.ts, with the number of the line in every error. Patch_Apply:
  the search and the edits (apply-patch-update.ts), the check of paths (sandbox-paths.ts, on Node_Path) and the
  tool as steps on a table of files, where an operation that fails leaves what was done before. Links, the
  bridge to a sandbox, aborting and what the file system and the boundary library refuse are parameters of the
  record patch_env. Patch_Props: printing and parsing are inverse, an update is a simultaneous replacement of
  disjoint runs, and nothing outside the working directory changes. Of the characters that the search treats
  alike only those below 256 are there.

  Tool_Loop: src/agents/tool-loop-detection.ts. Tool_Guard: src/agents/pi-tools.before-tool-call.ts, on the
  states of sessions of src/logging/diagnostic-session-state.ts. The digest, the plugins, the gateway's answer
  to a request for approval and the tool are parameters; a call is its check, its run and the record of its
  outcome. Tool_Props: the order of the thresholds, what a streak and the evidence of a ping-pong mean, that a
  critical verdict is never against a call that made progress, that a call without progress is run at most as
  often as the breaker says, that a call a plugin wants approved runs only with consent, and where the guard
  does not reach.

  Bounds and fuel. Loops are structural recursion or functions with a measure. Two functions count attempts
  as the code does: the cancellation of a flow takes the source's two attempts as its argument, and the
  search of a staggered slot its four. The polls of a heartbeat by a cron job are a list of answers, and the
  result is None while the list is too short. Time is an integer in milliseconds; JavaScript numbers that may
  be NaN or infinite keep these values (js_number), other counters are unbounded where the code stays far
  below 2 ^ 53.

  Not modelled, and why. The model runs themselves (agents/pi-embedded-runner), the providers, the channels, the plugin
  loader and SDK, the command line, the terminal and web interfaces and the installers are compositions of
  calls into services and libraries that are not in the repository, or input and output; the manifest names
  each with its reason. Of the modelled files, log output, sleeping and the helpers for tests are left out;
  of the cron service also reads and writes of its file that fail, the backup of the file and the sweep of
  old sessions.
\<close>

end
